(* ===== verification/Prelude.thy ===== *)
theory Prelude imports Main "HOL-Library.Word" begin

text \<open>
  What every component of the development shares: the names of the basic data of the
  Go program, the collections the component proofs draw on, and generic facts about
  tables (lists of rows), options and slices.

  \<^item> A UUID is a \<open>[16]byte\<close>: a 128-bit word, whose unsigned order is the byte order
    PostgreSQL uses for its \<open>uuid\<close> type. The zero word is \<open>uuid.Nil\<close>.
  \<^item> An instant (\<open>time.Time\<close>) is the number of nanoseconds since Go's zero time, so
    that \<open>IsZero\<close> is equality with 0 and \<open>Before\<close> is the order of integers. The
    calls of \<open>UTC()\<close> in the source keep the instant and are not written.
  \<^item> Go strings are byte strings: lists of \<^typ>\<open>char\<close>, so \<open>len\<close> is \<^const>\<open>length\<close>.
\<close>

type_synonym uuid = "128 word"
type_synonym instant = int
type_synonym duration = int
type_synonym did = string

abbreviation uuid_nil :: uuid where
  "uuid_nil \<equiv> 0"

named_theorems op_eval \<open>how a step of an operation computes\<close>
named_theorems op_keeps \<open>what operations preserve\<close>
named_theorems op_ok \<open>when an operation succeeds, and with what\<close>

section \<open>Durations\<close>

definition hour :: duration where
  "hour = 3600000000000"

section \<open>Published records\<close>

text \<open>
  The canonical identity of an AT Protocol record, as every publisher returns it, and
  the zero value \<open>ATIdentity{}\<close>.
\<close>

record at_identity =
  at_URI :: string
  at_CID :: string

abbreviation no_identity :: at_identity where
  "no_identity \<equiv> \<lparr>at_URI = [], at_CID = []\<rparr>"

section \<open>Tables as lists of rows\<close>

text \<open>
  \<open>UPDATE t SET f WHERE p\<close> maps the rows that satisfy \<open>p\<close> and keeps the others in
  place; \<open>DELETE FROM t WHERE p\<close> keeps the rows that do not satisfy \<open>p\<close>;
  \<open>SELECT \<dots> WHERE p\<close> of at most one row is \<^const>\<open>find\<close>.
\<close>

definition update_where :: "('r \<Rightarrow> bool) \<Rightarrow> ('r \<Rightarrow> 'r) \<Rightarrow> 'r list \<Rightarrow> 'r list" where
  "update_where p f rows = map (\<lambda>r. if p r then f r else r) rows"

definition delete_where :: "('r \<Rightarrow> bool) \<Rightarrow> 'r list \<Rightarrow> 'r list" where
  "delete_where p rows = filter (\<lambda>r. \<not> p r) rows"

lemma in_update_where:
  "r \<in> set (update_where p f rows) \<longleftrightarrow>
     (\<exists>r0 \<in> set rows. (p r0 \<and> r = f r0) \<or> (\<not> p r0 \<and> r = r0))"
  by (auto simp: update_where_def)

lemma in_delete_where [simp]:
  "r \<in> set (delete_where p rows) \<longleftrightarrow> r \<in> set rows \<and> \<not> p r"
  by (auto simp: delete_where_def)

lemma length_update_where [simp]: "length (update_where p f rows) = length rows"
  by (simp add: update_where_def)

lemma update_where_none: "(\<And>r. r \<in> set rows \<Longrightarrow> \<not> p r) \<Longrightarrow> update_where p f rows = rows"
  by (simp add: update_where_def map_idI)

lemma find_Some_in:
  "find p rows = Some r \<Longrightarrow> r \<in> set rows \<and> p r"
  by (auto simp: find_Some_iff)

lemma find_None_in:
  "find p rows = None \<longleftrightarrow> (\<forall>r \<in> set rows. \<not> p r)"
  by (auto simp: find_None_iff)

text \<open>Primary keys: a key function is injective on the rows of a table.\<close>

abbreviation keyed :: "('r \<Rightarrow> 'k) \<Rightarrow> 'r list \<Rightarrow> bool" where
  "keyed k rows \<equiv> distinct (map k rows)"

lemma keyed_unique:
  "keyed k rows \<Longrightarrow> r \<in> set rows \<Longrightarrow> s \<in> set rows \<Longrightarrow> k r = k s \<Longrightarrow> r = s"
  by (metis distinct_map inj_onD)

lemma keyed_find:
  assumes "keyed k rows" and "r \<in> set rows" and "p r" and "\<And>s. s \<in> set rows \<Longrightarrow> p s \<Longrightarrow> k s = k r"
  shows "find p rows = Some r"
proof (cases "find p rows")
  case None
  with assms(2,3) show ?thesis by (auto simp: find_None_in)
next
  case (Some s)
  then have "s \<in> set rows" "p s" by (auto dest: find_Some_in)
  with assms have "s = r" by (blast intro: keyed_unique)
  with Some show ?thesis by simp
qed

lemma keyed_update_where:
  "(\<And>r. r \<in> set rows \<Longrightarrow> p r \<Longrightarrow> k (f r) = k r) \<Longrightarrow>
     keyed k (update_where p f rows) = keyed k rows"
proof -
  assume same: "\<And>r. r \<in> set rows \<Longrightarrow> p r \<Longrightarrow> k (f r) = k r"
  have "map k (update_where p f rows) = map k rows"
    using same by (auto simp: update_where_def)
  then show ?thesis by simp
qed

lemma keyed_delete_where: "keyed k rows \<Longrightarrow> keyed k (delete_where p rows)"
  by (simp add: delete_where_def distinct_map inj_on_def)

section \<open>Bounded pages\<close>

text \<open>
  The shape every list endpoint of the program shares: the store is asked for
  \<open>limit + 1\<close> rows, the first \<open>limit\<close> are the page, and the key of the page's last
  row is its cursor when there was one more.
\<close>

definition page_items :: "'a list \<Rightarrow> nat \<Rightarrow> 'a list" where
  "page_items values limit = (if length values > limit then take limit values else values)"

definition page_cursor :: "'a list \<Rightarrow> nat \<Rightarrow> ('a \<Rightarrow> 'k) \<Rightarrow> 'k option" where
  "page_cursor values limit key =
     (if length values > limit then Some (key (last (take limit values))) else None)"

lemma page_items_take: "page_items values limit = take limit values"
  by (simp add: page_items_def)

lemma page_items_bound: "length (page_items values limit) \<le> limit"
  by (simp add: page_items_def)

end
