(* ===== verification/Go_Errors.thy ===== *)
theory Go_Errors imports Prelude begin

text \<open>
  Go's error values. A sentinel is a package-level \<open>errors.New\<close> value, compared by
  identity. \<open>Errorf format wrapped shown\<close> is the value of \<open>fmt.Errorf(format, \<dots>)\<close>:
  \<open>wrapped\<close> are the arguments of its \<open>%w\<close> verbs, which \<open>errors.Is\<close> looks through,
  and \<open>shown\<close> the errors printed with \<open>%v\<close>, which it does not see. \<open>Joined\<close> is
  \<open>errors.Join\<close> (of the errors that are not nil). \<open>Field_Error\<close> is a package's
  \<open>*ValidationError\<close> (field and problem), which unwraps to the package's
  \<open>ErrValidation\<close>. \<open>Pg_Error\<close> is a \<open>*pgconn.PgError\<close> with its SQLSTATE code,
  \<open>Command_Error\<close> a \<open>*CommandError\<close> of the Git runner with its exit code, and
  \<open>Opaque\<close> any error of a network, a disk or another process.
\<close>

datatype sentinel =
    pgx_ErrNoRows
  | org_ErrNotFound | org_ErrAlreadyExists | org_ErrForbidden | org_ErrLastOwner
  | org_ErrCreatorOwner | org_ErrInvitation | org_ErrValidation
  | repo_ErrNotFound | repo_ErrAlreadyExists | repo_ErrValidation
  | os_ErrNotExist
  | bp_ErrNotFound | bp_ErrConflict | bp_ErrValidation
  | pr_ErrValidation | pr_ErrAuthorization | pr_ErrPermissionDenied | pr_ErrConflict
  | pr_ErrProvider | pr_ErrNotFound | pr_ErrProjectionChanged
  | git_ErrRefConflict | git_ErrMergeConflict | git_ErrMergeRefConflict
  | git_ErrMergeInput | git_ErrInvalidInput | git_ErrOutputLimit | git_ErrObjectNotFound
  | git_ErrUnsupportedObject | git_ErrForkDiverged | git_ErrRemoteInput | git_ErrRemoteAddress
  | git_ErrHeadMismatch
  | transfer_ErrNotFound | transfer_ErrForbidden | transfer_ErrConflict | transfer_ErrValidation
  | transfer_ErrProvider
  | status_ErrNotFound | status_ErrConflict | status_ErrValidation

datatype err =
    Sentinel sentinel
  | Errorf string "err list" "err list"
  | Joined "err list"
  | Field_Error sentinel string string
  | Pg_Error string
  | Command_Error int
  | Opaque string

text \<open>\<open>errors.Is\<close>: the error itself, or any error it wraps, is the sentinel.\<close>

fun errors_is :: "err \<Rightarrow> sentinel \<Rightarrow> bool" where
  "errors_is (Sentinel s) t = (s = t)"
| "errors_is (Errorf _ wrapped _) t = list_ex (\<lambda>e. errors_is e t) wrapped"
| "errors_is (Joined es) t = list_ex (\<lambda>e. errors_is e t) es"
| "errors_is (Field_Error s _ _) t = (s = t)"
| "errors_is (Pg_Error _) t = False"
| "errors_is (Command_Error _) t = False"
| "errors_is (Opaque _) t = False"

text \<open>\<open>errors.As\<close> to a \<open>*pgconn.PgError\<close>: the first one in the tree.\<close>

fun as_pg_error :: "err \<Rightarrow> string option"
  and as_pg_errors :: "err list \<Rightarrow> string option" where
  "as_pg_error (Sentinel _) = None"
| "as_pg_error (Errorf _ wrapped _) = as_pg_errors wrapped"
| "as_pg_error (Joined es) = as_pg_errors es"
| "as_pg_error (Field_Error _ _ _) = None"
| "as_pg_error (Pg_Error code) = Some code"
| "as_pg_error (Command_Error _) = None"
| "as_pg_error (Opaque _) = None"
| "as_pg_errors [] = None"
| "as_pg_errors (e # es) = (case as_pg_error e of None \<Rightarrow> as_pg_errors es | Some c \<Rightarrow> Some c)"

text \<open>\<open>errors.As\<close> to a \<open>*CommandError\<close>.\<close>

fun as_command_error :: "err \<Rightarrow> int option"
  and as_command_errors :: "err list \<Rightarrow> int option" where
  "as_command_error (Sentinel _) = None"
| "as_command_error (Errorf _ wrapped _) = as_command_errors wrapped"
| "as_command_error (Joined es) = as_command_errors es"
| "as_command_error (Field_Error _ _ _) = None"
| "as_command_error (Pg_Error _) = None"
| "as_command_error (Command_Error code) = Some code"
| "as_command_error (Opaque _) = None"
| "as_command_errors [] = None"
| "as_command_errors (e # es) =
     (case as_command_error e of None \<Rightarrow> as_command_errors es | Some c \<Rightarrow> Some c)"

text \<open>The two forms of \<open>fmt.Errorf\<close> the services use.\<close>

abbreviation wrapf :: "string \<Rightarrow> err \<Rightarrow> err" where
  "wrapf prefix e \<equiv> Errorf prefix [e] []"

abbreviation errorf :: "string \<Rightarrow> err" where
  "errorf msg \<equiv> Errorf msg [] []"

text \<open>\<open>fmt.Errorf("%w: text", sentinel)\<close> and \<open>fmt.Errorf("%w: %v", sentinel, err)\<close>.\<close>

abbreviation because :: "sentinel \<Rightarrow> string \<Rightarrow> err" where
  "because s msg \<equiv> Errorf msg [Sentinel s] []"

abbreviation because_of :: "sentinel \<Rightarrow> string \<Rightarrow> err \<Rightarrow> err" where
  "because_of s msg e \<equiv> Errorf msg [Sentinel s] [e]"

lemma errors_is_wrapf [simp]: "errors_is (wrapf p e) t = errors_is e t"
  by simp

text \<open>
  \<open>errors.Join(cause, err)\<close> where the cause is an error: the second argument may be
  nil.
\<close>

definition join_cause :: "err \<Rightarrow> err option \<Rightarrow> err" where
  "join_cause cause e = Joined (cause # (case e of None \<Rightarrow> [] | Some e' \<Rightarrow> [e']))"

lemma errors_is_join_cause [simp]:
  "errors_is (join_cause c e) t \<longleftrightarrow> errors_is c t \<or> (\<exists>e'. e = Some e' \<and> errors_is e' t)"
  by (auto simp: join_cause_def split: option.splits)

end
