(* ===== verification/Effects.thy ===== *)
theory Effects imports Go_Errors begin

text \<open>
  Operations with effects. A Go method that may fail and touches the database, the
  disk or the network is a function from the world to an error or a value and the new
  world. The world is a type parameter: a service is written against the interfaces it
  holds, as in the source, and the components that implement the interfaces say which
  fields of the world they use.

  The combinators follow the shape of Go code in continuation style:
  \<^item> \<open>call m h k\<close> is \<open>x, err := m; if err != nil { return h(err) }; k\<close>
  \<^item> \<open>attempt m f k\<close> is the same, where the error branch \<open>f\<close> does more work
  \<^item> \<open>check r h k\<close> is \<open>if err := r; err != nil { return h(err) }; k\<close> for a pure check
  \<^item> \<open>fail_if c e k\<close> is \<open>if c { return e }; k\<close>
  \<^item> \<open>with_now c k\<close> reads a source that cannot fail: the clock, or \<open>uuid.New\<close>
  \<^item> \<open>ignoring m k\<close> is \<open>_ = m; k\<close>
\<close>

type_synonym ('w, 'a) op = "'w \<Rightarrow> (err + 'a) \<times> 'w"

definition ret :: "'a \<Rightarrow> ('w, 'a) op" where
  "ret x = (\<lambda>w. (Inr x, w))"

definition raise :: "err \<Rightarrow> ('w, 'a) op" where
  "raise e = (\<lambda>w. (Inl e, w))"

definition attempt ::
  "('w, 'a) op \<Rightarrow> (err \<Rightarrow> ('w, 'b) op) \<Rightarrow> ('a \<Rightarrow> ('w, 'b) op) \<Rightarrow> ('w, 'b) op" where
  "attempt m f k = (\<lambda>w. case m w of (Inl e, w') \<Rightarrow> f e w' | (Inr x, w') \<Rightarrow> k x w')"

definition call :: "('w, 'a) op \<Rightarrow> (err \<Rightarrow> err) \<Rightarrow> ('a \<Rightarrow> ('w, 'b) op) \<Rightarrow> ('w, 'b) op" where
  "call m h k = attempt m (\<lambda>e. raise (h e)) k"

definition check :: "err option \<Rightarrow> (err \<Rightarrow> err) \<Rightarrow> ('w, 'b) op \<Rightarrow> ('w, 'b) op" where
  "check r h k = (case r of Some e \<Rightarrow> raise (h e) | None \<Rightarrow> k)"

definition fail_if :: "bool \<Rightarrow> err \<Rightarrow> ('w, 'b) op \<Rightarrow> ('w, 'b) op" where
  "fail_if c e k = (if c then raise e else k)"

definition with_now :: "('w \<Rightarrow> 't \<times> 'w) \<Rightarrow> ('t \<Rightarrow> ('w, 'b) op) \<Rightarrow> ('w, 'b) op" where
  "with_now c k = (\<lambda>w. case c w of (t, w') \<Rightarrow> k t w')"

definition ignoring :: "('w, 'a) op \<Rightarrow> ('w, 'b) op \<Rightarrow> ('w, 'b) op" where
  "ignoring m k = attempt m (\<lambda>_. k) (\<lambda>_. k)"

lemmas op_defs = ret_def raise_def attempt_def call_def check_def fail_if_def with_now_def
  ignoring_def

section \<open>Evaluation\<close>

lemma ret_apply [op_eval]: "ret x w = (Inr x, w)"
  by (simp add: ret_def)

lemma raise_apply [op_eval]: "raise e w = (Inl e, w)"
  by (simp add: raise_def)

lemma attempt_apply [op_eval]:
  "attempt m f k w = (case m w of (Inl e, w') \<Rightarrow> f e w' | (Inr x, w') \<Rightarrow> k x w')"
  by (simp add: attempt_def)

lemma call_apply [op_eval]:
  "call m h k w = (case m w of (Inl e, w') \<Rightarrow> (Inl (h e), w') | (Inr x, w') \<Rightarrow> k x w')"
  by (simp add: call_def attempt_def raise_def)

lemma check_apply [op_eval]:
  "check r h k w = (case r of Some e \<Rightarrow> (Inl (h e), w) | None \<Rightarrow> k w)"
  by (simp add: check_def raise_def split: option.split)

lemma fail_if_apply [op_eval]: "fail_if c e k w = (if c then (Inl e, w) else k w)"
  by (simp add: fail_if_def raise_def)

lemma with_now_apply [op_eval]: "with_now c k w = (case c w of (t, w') \<Rightarrow> k t w')"
  by (simp add: with_now_def)

lemma ignoring_apply [op_eval]: "ignoring m k w = k (snd (m w))"
  by (simp add: ignoring_def attempt_def split: prod.split sum.split)

section \<open>Success\<close>

text \<open>
  Where an operation returns a value, every call on its way returned one. These are
  equivalences, so that simplification takes a successful run apart.
\<close>

lemma ret_ok [op_ok]: "ret x w = (Inr y, w') \<longleftrightarrow> y = x \<and> w' = w"
  by (auto simp: ret_def)

lemma raise_ok [op_ok]: "raise e w = (Inr y, w') \<longleftrightarrow> False"
  by (auto simp: raise_def)

lemma attempt_ok [op_ok]:
  "attempt m f k w = (Inr y, w') \<longleftrightarrow>
     (\<exists>e v. m w = (Inl e, v) \<and> f e v = (Inr y, w')) \<or>
     (\<exists>x v. m w = (Inr x, v) \<and> k x v = (Inr y, w'))"
  by (auto simp: attempt_def split: prod.splits sum.splits)

lemma call_ok [op_ok]:
  "call m h k w = (Inr y, w') \<longleftrightarrow> (\<exists>x v. m w = (Inr x, v) \<and> k x v = (Inr y, w'))"
  by (auto simp: call_def attempt_def raise_def split: prod.splits sum.splits)

lemma check_ok [op_ok]: "check r h k w = (Inr y, w') \<longleftrightarrow> r = None \<and> k w = (Inr y, w')"
  by (auto simp: check_def raise_def split: option.splits)

lemma fail_if_ok [op_ok]: "fail_if c e k w = (Inr y, w') \<longleftrightarrow> \<not> c \<and> k w = (Inr y, w')"
  by (auto simp: fail_if_def raise_def)

lemma with_now_ok [op_ok]:
  "with_now c k w = (Inr y, w') \<longleftrightarrow> (\<exists>t v. c w = (t, v) \<and> k t v = (Inr y, w'))"
  by (auto simp: with_now_def split: prod.splits)

lemma ignoring_ok [op_ok]: "ignoring m k w = (Inr y, w') \<longleftrightarrow> k (snd (m w)) = (Inr y, w')"
  by (simp add: ignoring_apply)

section \<open>What operations keep\<close>

text \<open>
  \<open>keeps I m\<close>: whatever \<open>m\<close> returns, error or value, the world it leaves satisfies
  \<open>I\<close> if the world it started from did. The rules follow the combinators, so the
  preservation proof of a service method is the list of the calls it makes.
\<close>

definition keeps :: "('w \<Rightarrow> bool) \<Rightarrow> ('w, 'a) op \<Rightarrow> bool" where
  "keeps I m \<longleftrightarrow> (\<forall>w. I w \<longrightarrow> I (snd (m w)))"

definition keeps_clock :: "('w \<Rightarrow> bool) \<Rightarrow> ('w \<Rightarrow> 't \<times> 'w) \<Rightarrow> bool" where
  "keeps_clock I c \<longleftrightarrow> (\<forall>w. I w \<longrightarrow> I (snd (c w)))"

lemma keepsI: "(\<And>w. I w \<Longrightarrow> I (snd (m w))) \<Longrightarrow> keeps I m"
  by (simp add: keeps_def)

lemma keepsD: "keeps I m \<Longrightarrow> I w \<Longrightarrow> I (snd (m w))"
  by (simp add: keeps_def)

lemma keeps_result: "keeps I m \<Longrightarrow> m w = (r, w') \<Longrightarrow> I w \<Longrightarrow> I w'"
  by (metis keepsD snd_conv)

lemma keeps_ret [op_keeps]: "keeps I (ret x)"
  by (simp add: keeps_def ret_def)

lemma keeps_raise [op_keeps]: "keeps I (raise e)"
  by (simp add: keeps_def raise_def)

lemma keeps_attempt [op_keeps]:
  assumes "keeps I m" and "\<And>e. keeps I (f e)" and "\<And>x. keeps I (k x)"
  shows "keeps I (attempt m f k)"
proof (rule keepsI)
  fix w assume "I w"
  obtain r v where m: "m w = (r, v)" by force
  have "I v" by (rule keeps_result [OF assms(1) m \<open>I w\<close>])
  with assms(2,3) m show "I (snd (attempt m f k w))"
    by (cases r) (auto simp: attempt_def intro: keepsD)
qed

lemma keeps_call [op_keeps]: "keeps I m \<Longrightarrow> (\<And>x. keeps I (k x)) \<Longrightarrow> keeps I (call m h k)"
  unfolding call_def by (intro op_keeps)

text \<open>The same, where what follows may use that the value came from a world that satisfied \<open>I\<close>.\<close>

lemma keeps_call_result:
  assumes "keeps I m" and "\<And>x w w'. I w \<Longrightarrow> m w = (Inr x, w') \<Longrightarrow> keeps I (k x)"
  shows "keeps I (call m h k)"
proof (rule keepsI)
  fix w assume "I w"
  obtain r v where m: "m w = (r, v)" by force
  have "I v" by (rule keeps_result [OF assms(1) m \<open>I w\<close>])
  with assms(2) [OF \<open>I w\<close>] m show "I (snd (call m h k w))"
    by (cases r) (auto simp: call_apply intro: keepsD)
qed

lemma keeps_check [op_keeps]: "(r = None \<Longrightarrow> keeps I k) \<Longrightarrow> keeps I (check r h k)"
  by (cases r) (auto simp: check_def intro: op_keeps)

lemma keeps_fail_if [op_keeps]: "(\<not> c \<Longrightarrow> keeps I k) \<Longrightarrow> keeps I (fail_if c e k)"
  by (auto simp: fail_if_def intro: op_keeps)

lemma keeps_with_now [op_keeps]:
  "keeps_clock I c \<Longrightarrow> (\<And>t. keeps I (k t)) \<Longrightarrow> keeps I (with_now c k)"
  by (auto simp: keeps_def keeps_clock_def with_now_def split_beta)

lemma keeps_ignoring [op_keeps]: "keeps I m \<Longrightarrow> keeps I k \<Longrightarrow> keeps I (ignoring m k)"
  unfolding ignoring_def by (intro op_keeps)

lemma keeps_if [op_keeps]:
  "(c \<Longrightarrow> keeps I m) \<Longrightarrow> (\<not> c \<Longrightarrow> keeps I n) \<Longrightarrow> keeps I (if c then m else n)"
  by simp

lemma keeps_case_option [op_keeps]:
  "(r = None \<Longrightarrow> keeps I m) \<Longrightarrow> (\<And>x. r = Some x \<Longrightarrow> keeps I (k x)) \<Longrightarrow>
     keeps I (case r of None \<Rightarrow> m | Some x \<Rightarrow> k x)"
  by (cases r) auto

lemma keeps_case_prod [op_keeps]:
  "(\<And>a b. p = (a, b) \<Longrightarrow> keeps I (k a b)) \<Longrightarrow> keeps I (case p of (a, b) \<Rightarrow> k a b)"
  by (cases p) auto

text \<open>Reading a view of the world that an operation does not touch.\<close>

definition frames :: "('w \<Rightarrow> 'v) \<Rightarrow> ('w, 'a) op \<Rightarrow> bool" where
  "frames view m \<longleftrightarrow> (\<forall>w. view (snd (m w)) = view w)"

lemma framesD: "frames view m \<Longrightarrow> m w = (r, w') \<Longrightarrow> view w' = view w"
  by (metis frames_def snd_conv)

lemma frames_keeps: "frames view m \<Longrightarrow> keeps (\<lambda>w. I (view w)) m"
  by (simp add: frames_def keeps_def)

text \<open>
  \<open>refused view m w\<close>: \<open>m\<close> returns an error from \<open>w\<close> and leaves the view as it was. A method
  whose first calls only read is refused where one of them refuses.
\<close>

definition refused :: "('w \<Rightarrow> 'v) \<Rightarrow> ('w, 'a) op \<Rightarrow> 'w \<Rightarrow> bool" where
  "refused view m w \<longleftrightarrow> (\<exists>e w'. m w = (Inl e, w') \<and> view w' = view w)"

lemma refused_call_first: "refused view m w \<Longrightarrow> refused view (call m h k) w"
  by (auto simp: refused_def call_apply)

lemma refused_call:
  "frames view m \<Longrightarrow> (\<And>x w'. m w = (Inr x, w') \<Longrightarrow> view w' = view w \<Longrightarrow> refused view (k x) w') \<Longrightarrow>
     refused view (call m h k) w"
  by (cases "m w", cases "fst (m w)") (auto simp: refused_def call_apply dest: framesD)

lemma refused_check: "(r = None \<Longrightarrow> refused view k w) \<Longrightarrow> refused view (check r h k) w"
  by (cases r) (auto simp: refused_def check_apply)

lemma refused_fail_if: "(\<not> c \<Longrightarrow> refused view k w) \<Longrightarrow> refused view (fail_if c e k) w"
  by (auto simp: refused_def fail_if_apply)

lemma refused_raise: "refused view (raise e) w"
  by (simp add: refused_def raise_def)

lemma refused_attempt:
  assumes "frames view m"
    and "\<And>e w'. m w = (Inl e, w') \<Longrightarrow> view w' = view w \<Longrightarrow> refused view (f e) w'"
    and "\<And>x w'. m w = (Inr x, w') \<Longrightarrow> view w' = view w \<Longrightarrow> refused view (k x) w'"
  shows "refused view (attempt m f k) w"
proof -
  obtain r w' where m: "m w = (r, w')" by force
  with assms(1) have "view w' = view w" by (rule framesD)
  with assms(2,3) m show ?thesis by (cases r) (auto simp: refused_def attempt_apply)
qed

end
