(* ===== verification/Go_Text.thy ===== *)
theory Go_Text imports Effects "HOL-Library.Sublist" begin

text \<open>
  The parts of Go's \<open>strings\<close>, \<open>unicode\<close> and \<open>unicode/utf8\<close> packages the program
  uses. A string is a list of bytes; a rune is the number \<open>utf8.DecodeRune\<close> returns,
  with its width, and an invalid byte is the rune U+FFFD of width 1.
\<close>

abbreviation byte :: "char \<Rightarrow> nat" where
  "byte c \<equiv> of_char c"

abbreviation rune_error :: nat where
  "rune_error \<equiv> 65533"

definition in_range :: "nat \<Rightarrow> nat \<Rightarrow> nat \<Rightarrow> bool" where
  "in_range lo hi x \<longleftrightarrow> lo \<le> x \<and> x \<le> hi"

abbreviation cont :: "char \<Rightarrow> bool" where
  "cont c \<equiv> in_range 128 191 (byte c)"

section \<open>Runes\<close>

text \<open>The first byte gives the width and the range the second byte must be in.\<close>

definition rune_shape :: "nat \<Rightarrow> (nat \<times> nat \<times> nat) option" where
  "rune_shape b =
     (if in_range 194 223 b then Some (2, 128, 191)
      else if b = 224 then Some (3, 160, 191)
      else if b = 237 then Some (3, 128, 159)
      else if in_range 225 239 b then Some (3, 128, 191)
      else if b = 240 then Some (4, 144, 191)
      else if in_range 241 243 b then Some (4, 128, 191)
      else if b = 244 then Some (4, 128, 143)
      else None)"

definition decode_rune :: "string \<Rightarrow> nat \<times> nat" where
  "decode_rune s =
     (case s of
        [] \<Rightarrow> (rune_error, 0)
      | c # cs \<Rightarrow>
          if byte c < 128 then (byte c, 1)
          else case rune_shape (byte c) of
              None \<Rightarrow> (rune_error, 1)
            | Some (width, lo, hi) \<Rightarrow>
                (case cs of
                   [] \<Rightarrow> (rune_error, 1)
                 | c1 # cs1 \<Rightarrow>
                     if \<not> in_range lo hi (byte c1) then (rune_error, 1)
                     else if width = 2 then ((byte c mod 32) * 64 + byte c1 mod 64, 2)
                     else case cs1 of
                         [] \<Rightarrow> (rune_error, 1)
                       | c2 # cs2 \<Rightarrow>
                           if \<not> cont c2 then (rune_error, 1)
                           else if width = 3 then
                             ((byte c mod 16) * 4096 + (byte c1 mod 64) * 64 + byte c2 mod 64, 3)
                           else case cs2 of
                               [] \<Rightarrow> (rune_error, 1)
                             | c3 # _ \<Rightarrow>
                                 if \<not> cont c3 then (rune_error, 1)
                                 else ((byte c mod 8) * 262144 + (byte c1 mod 64) * 4096
                                       + (byte c2 mod 64) * 64 + byte c3 mod 64, 4)))"

fun runes :: "string \<Rightarrow> nat list" where
  "runes [] = []"
| "runes (c # cs) = fst (decode_rune (c # cs)) # runes (drop (snd (decode_rune (c # cs)) - 1) cs)"

text \<open>\<open>utf8.ValidString\<close>\<close>

fun valid_string :: "string \<Rightarrow> bool" where
  "valid_string [] = True"
| "valid_string (c # cs) =
     (if byte c < 128 then valid_string cs
      else 1 < snd (decode_rune (c # cs)) \<and>
           valid_string (drop (snd (decode_rune (c # cs)) - 1) cs))"

text \<open>\<open>unicode.IsSpace\<close> and \<open>unicode.IsControl\<close>\<close>

definition is_space :: "nat \<Rightarrow> bool" where
  "is_space r \<longleftrightarrow> in_range 9 13 r \<or> r = 32 \<or> r = 133 \<or> r = 160 \<or> r = 5760 \<or>
     in_range 8192 8202 r \<or> r = 8232 \<or> r = 8233 \<or> r = 8239 \<or> r = 8287 \<or> r = 12288"

definition is_control :: "nat \<Rightarrow> bool" where
  "is_control r \<longleftrightarrow> r \<le> 31 \<or> in_range 127 159 r"

text \<open>Evaluation compares binary integers.\<close>

lemma is_space_code [code]:
  "is_space r = (let i = int r in
     9 \<le> i \<and> i \<le> 13 \<or> i = 32 \<or> i = 133 \<or> i = 160 \<or> i = 5760 \<or> 8192 \<le> i \<and> i \<le> 8202
     \<or> i = 8232 \<or> i = 8233 \<or> i = 8239 \<or> i = 8287 \<or> i = 12288)"
  by (auto simp: is_space_def in_range_def Let_def)

section \<open>Trimming\<close>

function trim_left :: "string \<Rightarrow> string" where
  "trim_left s =
     (if s \<noteq> [] \<and> is_space (fst (decode_rune s))
      then trim_left (drop (max 1 (snd (decode_rune s))) s) else s)"
  by pat_completeness auto
termination
  by (relation "measure length") auto

declare trim_left.simps [simp del]

text \<open>
  \<open>utf8.DecodeLastRune\<close> looks back over at most three continuation bytes for the
  start of a rune that ends at the end of the string.
\<close>

definition rune_start :: "char \<Rightarrow> bool" where
  "rune_start c \<longleftrightarrow> \<not> cont c"

definition decode_last_rune :: "string \<Rightarrow> nat \<times> nat" where
  "decode_last_rune s =
     (if s = [] then (rune_error, 0)
      else if byte (last s) < 128 then (byte (last s), 1)
      else case find (\<lambda>k. k \<le> length s \<and> rune_start (s ! (length s - k))) [2, 3, 4] of
          None \<Rightarrow> (rune_error, 1)
        | Some k \<Rightarrow>
            if snd (decode_rune (drop (length s - k) s)) = k
            then decode_rune (drop (length s - k) s) else (rune_error, 1))"

function trim_right :: "string \<Rightarrow> string" where
  "trim_right s =
     (if s \<noteq> [] \<and> is_space (fst (decode_last_rune s))
      then trim_right (take (length s - max 1 (snd (decode_last_rune s))) s) else s)"
  by pat_completeness auto
termination
  by (relation "measure length") auto

declare trim_right.simps [simp del]

definition trim_space :: "string \<Rightarrow> string" where
  "trim_space s = trim_right (trim_left s)"

definition blank :: "string \<Rightarrow> bool" where
  "blank s \<longleftrightarrow> trim_space s = []"

lemma trim_left_Nil [simp]: "trim_left [] = []"
  by (simp add: trim_left.simps)

lemma trim_right_Nil [simp]: "trim_right [] = []"
  by (simp add: trim_right.simps)

lemma blank_Nil [simp]: "blank []"
  by (simp add: blank_def trim_space_def)

lemma trim_left_suffix: "suffix (trim_left s) s"
proof (induction s rule: trim_left.induct)
  case (1 s)
  show ?case
  proof (cases "s \<noteq> [] \<and> is_space (fst (decode_rune s))")
    case True
    with "1.IH" have "suffix (trim_left s) (drop (max 1 (snd (decode_rune s))) s)"
      by (simp add: trim_left.simps [of s])
    then show ?thesis using suffix_drop suffix_order.trans by blast
  next
    case False
    then show ?thesis by (subst trim_left.simps) auto
  qed
qed

lemma trim_right_prefix: "prefix (trim_right s) s"
proof (induction s rule: trim_right.induct)
  case (1 s)
  show ?case
  proof (cases "s \<noteq> [] \<and> is_space (fst (decode_last_rune s))")
    case True
    with "1.IH" have "prefix (trim_right s) (take (length s - max 1 (snd (decode_last_rune s))) s)"
      by (simp add: trim_right.simps [of s])
    then show ?thesis using take_is_prefix prefix_order.trans by blast
  next
    case False
    then show ?thesis by (subst trim_right.simps) auto
  qed
qed

lemma not_blank_nonempty: "\<not> blank s \<Longrightarrow> s \<noteq> []"
  by auto

text \<open>A string that starts with a visible ASCII byte is not blank.\<close>

lemma decode_rune_ascii [simp]: "byte c < 128 \<Longrightarrow> decode_rune (c # cs) = (byte c, 1)"
  by (simp add: decode_rune_def)

lemma trim_left_ascii:
  "byte c < 128 \<Longrightarrow> \<not> is_space (byte c) \<Longrightarrow> trim_left (c # cs) = c # cs"
  by (subst trim_left.simps) simp

section \<open>Searching and splitting\<close>

text \<open>\<open>strings.ToLower\<close> and SQL's \<open>lower\<close> on ASCII letters.\<close>

definition lower_char :: "char \<Rightarrow> char" where
  "lower_char c = (if in_range 65 90 (byte c) then char_of (byte c + 32) else c)"

definition lower :: "string \<Rightarrow> string" where
  "lower s = map lower_char s"

fun split_on :: "char \<Rightarrow> string \<Rightarrow> string list" where
  "split_on d [] = [[]]"
| "split_on d (c # cs) =
     (if c = d then [] # split_on d cs
      else case split_on d cs of [] \<Rightarrow> [[c]] | w # ws \<Rightarrow> (c # w) # ws)"

definition is_digit :: "char \<Rightarrow> bool" where
  "is_digit c \<longleftrightarrow> in_range 48 57 (byte c)"

definition is_lower :: "char \<Rightarrow> bool" where
  "is_lower c \<longleftrightarrow> in_range 97 122 (byte c)"

definition is_upper :: "char \<Rightarrow> bool" where
  "is_upper c \<longleftrightarrow> in_range 65 90 (byte c)"

lemma split_on_nonempty [simp]: "split_on d s \<noteq> []"
  by (induction s) (auto split: list.splits)

end
