(* ===== verification/Go_URL.thy ===== *)
theory Go_URL imports Go_Text begin

text \<open>
  \<open>url.ParseRequestURI\<close> of Go's \<open>net/url\<close>, as far as the program looks at its
  result: whether it fails, and the scheme and host of the URL otherwise.
\<close>

datatype escape_mode = encodeHost | encodeZone | encodePath | encodeUserPassword

definition is_hex :: "char \<Rightarrow> bool" where
  "is_hex c \<longleftrightarrow> is_digit c \<or> in_range 97 102 (byte c) \<or> in_range 65 70 (byte c)"

definition unhex :: "char \<Rightarrow> nat" where
  "unhex c =
     (if is_digit c then byte c - 48
      else if in_range 97 102 (byte c) then byte c - 87
      else if in_range 65 70 (byte c) then byte c - 55
      else 0)"

text \<open>\<open>shouldEscape\<close> in the host and zone modes, the only ones that test it.\<close>

definition escape_in_host :: "char \<Rightarrow> bool" where
  "escape_in_host c \<longleftrightarrow>
     \<not> (is_lower c \<or> is_upper c \<or> is_digit c \<or> c \<in> set ''!$&()*+,;=:[]<>-_.~''
        \<or> byte c = 39 \<or> byte c = 34)"

fun unescape :: "escape_mode \<Rightarrow> string \<Rightarrow> string option" where
  "unescape mode [] = Some []"
| "unescape mode (c # cs) =
     (if c = CHR ''%'' then
        (case cs of
           h # l # rest \<Rightarrow>
             if \<not> is_hex h \<or> \<not> is_hex l then None
             else if mode = encodeHost \<and> unhex h < 8 \<and> \<not> (h = CHR ''2'' \<and> l = CHR ''5'') then None
             else if mode = encodeZone \<and> \<not> (h = CHR ''2'' \<and> l = CHR ''5'')
                     \<and> unhex h * 16 + unhex l \<noteq> 32
                     \<and> escape_in_host (char_of (unhex h * 16 + unhex l)) then None
             else map_option (\<lambda>s. char_of (unhex h * 16 + unhex l) # s) (unescape mode rest)
         | _ \<Rightarrow> None)
      else if (mode = encodeHost \<or> mode = encodeZone) \<and> byte c < 128 \<and> escape_in_host c then None
      else map_option (\<lambda>s. c # s) (unescape mode cs))"

text \<open>\<open>strings.Index\<close>, \<open>strings.LastIndex\<close> of one byte, and of a string.\<close>

fun index_byte :: "char \<Rightarrow> string \<Rightarrow> nat option" where
  "index_byte d [] = None"
| "index_byte d (c # cs) = (if c = d then Some 0 else map_option Suc (index_byte d cs))"

fun last_index_byte :: "char \<Rightarrow> string \<Rightarrow> nat option" where
  "last_index_byte d [] = None"
| "last_index_byte d (c # cs) =
     (case last_index_byte d cs of
        Some i \<Rightarrow> Some (Suc i)
      | None \<Rightarrow> if c = d then Some 0 else None)"

fun index_string :: "string \<Rightarrow> string \<Rightarrow> nat option" where
  "index_string p [] = (if p = [] then Some 0 else None)"
| "index_string p (c # cs) =
     (if prefix p (c # cs) then Some 0 else map_option Suc (index_string p cs))"

text \<open>\<open>getScheme\<close>: no scheme is the empty one; \<open>None\<close> is its error.\<close>

fun scheme_from :: "string \<Rightarrow> string \<Rightarrow> string \<Rightarrow> (string \<times> string) option" where
  "scheme_from raw seen [] = Some ([], raw)"
| "scheme_from raw seen (c # cs) =
     (if is_lower c \<or> is_upper c then scheme_from raw (seen @ [c]) cs
      else if is_digit c \<or> c \<in> set ''+-.'' then
        (if seen = [] then Some ([], raw) else scheme_from raw (seen @ [c]) cs)
      else if c = CHR '':'' then
        (if seen = [] then None else Some (seen, cs))
      else Some ([], raw))"

definition get_scheme :: "string \<Rightarrow> (string \<times> string) option" where
  "get_scheme raw = scheme_from raw [] raw"

definition valid_optional_port :: "string \<Rightarrow> bool" where
  "valid_optional_port port =
     (case port of [] \<Rightarrow> True | c # cs \<Rightarrow> c = CHR '':'' \<and> list_all is_digit cs)"

definition parse_host :: "string \<Rightarrow> string option" where
  "parse_host host =
     (if prefix ''['' host then
        (case last_index_byte (CHR '']'') host of
           None \<Rightarrow> None
         | Some i \<Rightarrow>
             if \<not> valid_optional_port (drop (i + 1) host) then None
             else case index_string ''%25'' (take i host) of
                 Some zone \<Rightarrow>
                   (case (unescape encodeHost (take zone host),
                          unescape encodeZone (drop zone (take i host)),
                          unescape encodeHost (drop i host)) of
                      (Some host1, Some host2, Some host3) \<Rightarrow> Some (host1 @ host2 @ host3)
                    | _ \<Rightarrow> None)
               | None \<Rightarrow> unescape encodeHost host)
      else case last_index_byte (CHR '':'') host of
          Some i \<Rightarrow>
            if \<not> valid_optional_port (drop i host) then None else unescape encodeHost host
        | None \<Rightarrow> unescape encodeHost host)"

definition valid_userinfo :: "string \<Rightarrow> bool" where
  "valid_userinfo s = list_all (\<lambda>c. is_lower c \<or> is_upper c \<or> is_digit c
     \<or> c \<in> set ''-._:~!$&()*+,;=%@'' \<or> byte c = 39) s"

definition parse_authority :: "string \<Rightarrow> string option" where
  "parse_authority authority =
     (case last_index_byte (CHR ''@'') authority of
        None \<Rightarrow> parse_host authority
      | Some i \<Rightarrow>
          (case parse_host (drop (i + 1) authority) of
             None \<Rightarrow> None
           | Some host \<Rightarrow>
               if valid_userinfo (take i authority)
                  \<and> unescape encodeUserPassword (take i authority) \<noteq> None
               then Some host else None))"

text \<open>
  \<open>parse\<close> with \<open>viaRequest\<close>: the query is cut off before the path is looked at. The
  password's and the user name's escapes are checked in one pass, since \<open>:\<close> is no part
  of an escape.
\<close>

definition parse_request_uri :: "string \<Rightarrow> (string \<times> string) option" where
  "parse_request_uri raw =
     (if list_ex (\<lambda>c. byte c < 32 \<or> byte c = 127) raw then None
      else if raw = [] then None
      else if raw = ''*'' then Some ([], [])
      else case get_scheme raw of
          None \<Rightarrow> None
        | Some (scheme0, rest0) \<Rightarrow>
            let scheme = lower scheme0;
                rest = (case index_byte (CHR ''?'') rest0 of
                          None \<Rightarrow> rest0 | Some i \<Rightarrow> take i rest0)
            in if \<not> prefix ''/'' rest then
                 (if scheme \<noteq> [] then Some (scheme, []) else None)
               else if scheme \<noteq> [] \<and> prefix ''//'' rest then
                 let authority0 = drop 2 rest;
                     i = (case index_byte (CHR ''/'') authority0 of
                            None \<Rightarrow> length authority0 | Some i \<Rightarrow> i)
                 in (case (parse_authority (take i authority0),
                           unescape encodePath (drop i authority0)) of
                       (Some host, Some _) \<Rightarrow> Some (scheme, host)
                     | _ \<Rightarrow> None)
               else if unescape encodePath rest = None then None
               else Some (scheme, []))"

end
