(* ===== verification/Organization.thy ===== *)
theory Organization imports Go_URL begin

text \<open>
  \<^verbatim>\<open>internal/organization/organization.go\<close>: the data of organizations, members,
  invitations and teams, the validation of inputs at the domain boundary, and the
  effective repository role.

  A Go string type with named constants is a datatype with one constructor per constant
  and one for every other string, which the \<open>Validate\<close> methods refuse. A pointer that
  may be nil is an option. Whether \<open>syntax.ParseDID\<close> (a library) accepts a string and
  returns it unchanged is the parameter \<open>canonical_did\<close>.
\<close>

section \<open>Roles, permissions, visibilities\<close>

datatype role = RoleOwner | RoleMember | Role_Other string

datatype membership_visibility =
  VisibilityPrivate | VisibilityPublic | Visibility_Other string

datatype base_permission =
  BasePermissionNone | BasePermissionRead | BasePermissionWrite | BasePermission_Other string

datatype repository_role =
    RepositoryRoleNone | RepositoryRoleRead | RepositoryRoleTriage
  | RepositoryRoleWrite | RepositoryRoleMaintain | RepositoryRoleAdmin
  | RepositoryRole_Other string

datatype team_role = TeamRoleMember | TeamRoleMaintainer | TeamRole_Other string

datatype team_visibility =
  TeamVisibilityVisible | TeamVisibilitySecret | TeamVisibility_Other string

datatype org_state =
  OrgCreating | OrgActive | OrgFailed | OrgDeleting | OrgDeleted

definition Role_Validate :: "role \<Rightarrow> err option" where
  "Role_Validate role =
     (if role \<noteq> RoleOwner \<and> role \<noteq> RoleMember
      then Some (errorf ''role must be owner or member'') else None)"

definition MembershipVisibility_Validate :: "membership_visibility \<Rightarrow> err option" where
  "MembershipVisibility_Validate visibility =
     (if visibility \<noteq> VisibilityPrivate \<and> visibility \<noteq> VisibilityPublic
      then Some (errorf ''membership visibility must be private or public'') else None)"

definition BasePermission_Validate :: "base_permission \<Rightarrow> err option" where
  "BasePermission_Validate permission =
     (if permission \<noteq> BasePermissionNone \<and> permission \<noteq> BasePermissionRead
         \<and> permission \<noteq> BasePermissionWrite
      then Some (errorf ''base permission must be none, read, or write'') else None)"

text \<open>\<open>repositoryRoleRank\<close>: a map, where looking up a missing key gives 0.\<close>

definition repositoryRoleRank :: "repository_role \<Rightarrow> nat option" where
  "repositoryRoleRank role =
     (case role of
        RepositoryRoleNone \<Rightarrow> Some 0 | RepositoryRoleRead \<Rightarrow> Some 1
      | RepositoryRoleTriage \<Rightarrow> Some 2 | RepositoryRoleWrite \<Rightarrow> Some 3
      | RepositoryRoleMaintain \<Rightarrow> Some 4 | RepositoryRoleAdmin \<Rightarrow> Some 5
      | RepositoryRole_Other _ \<Rightarrow> None)"

definition rank :: "repository_role \<Rightarrow> nat" where
  "rank role = (case repositoryRoleRank role of Some n \<Rightarrow> n | None \<Rightarrow> 0)"

definition RepositoryRole_Validate :: "repository_role \<Rightarrow> err option" where
  "RepositoryRole_Validate role =
     (if repositoryRoleRank role = None \<or> role = RepositoryRoleNone
      then Some (errorf ''repository role must be read, triage, write, maintain, or admin'')
      else None)"

section \<open>Organizations, members, invitations\<close>

record organization =
  org_ID :: uuid
  org_Slug :: string
  org_Name :: string
  org_Description :: string
  org_Website :: string
  org_Location :: string
  org_CreatorDID :: did
  org_BasePermission :: base_permission
  org_MembersCanCreateRepo :: bool
  org_State :: org_state
  org_ATURI :: string
  org_ATCID :: string
  org_CreatedAt :: instant
  org_UpdatedAt :: instant

record member =
  mem_OrganizationID :: uuid
  mem_AccountDID :: did
  mem_Handle :: string
  mem_Role :: role
  mem_Visibility :: membership_visibility
  mem_InvitedByDID :: did
  mem_GrantURI :: string
  mem_GrantCID :: string
  mem_MembershipURI :: string
  mem_MembershipCID :: string
  mem_JoinedAt :: instant
  mem_UpdatedAt :: instant

record invitation =
  inv_ID :: uuid
  inv_OrganizationID :: uuid
  inv_OrganizationSlug :: string
  inv_OrganizationName :: string
  inv_InviteeDID :: did
  inv_Role :: role
  inv_InvitedByDID :: did
  inv_GrantURI :: string
  inv_GrantCID :: string
  inv_CreatedAt :: instant
  inv_ExpiresAt :: instant
  inv_RevokedAt :: "instant option"
  inv_AcceptedAt :: "instant option"

definition InvitationLifetime :: duration where
  "InvitationLifetime = 7 * 24 * hour"

definition Invitation_Active :: "invitation \<Rightarrow> instant \<Rightarrow> bool" where
  "Invitation_Active invitation now \<longleftrightarrow>
     inv_RevokedAt invitation = None \<and> inv_AcceptedAt invitation = None
     \<and> now < inv_ExpiresAt invitation"

section \<open>Teams, collaborators, audit events\<close>

record team =
  team_ID :: uuid
  team_OrganizationID :: uuid
  team_ParentTeamID :: "uuid option"
  team_Slug :: string
  team_Name :: string
  team_Description :: string
  team_Visibility :: team_visibility
  team_ViewerIsMember :: bool
  team_ViewerRole :: team_role
  team_CreatedAt :: instant
  team_UpdatedAt :: instant

record team_member =
  tm_TeamID :: uuid
  tm_AccountDID :: did
  tm_Handle :: string
  tm_Role :: team_role
  tm_CreatedAt :: instant
  tm_UpdatedAt :: instant

record team_repository =
  tr_TeamID :: uuid
  tr_RepositoryID :: uuid
  tr_RepositorySlug :: string
  tr_Role :: repository_role
  tr_CreatedAt :: instant
  tr_UpdatedAt :: instant

record repository_collaborator =
  col_RepositoryID :: uuid
  col_RepositorySlug :: string
  col_AccountDID :: did
  col_Handle :: string
  col_Role :: repository_role
  col_CreatedAt :: instant
  col_UpdatedAt :: instant

text \<open>The JSON values the audit metadata holds.\<close>

datatype json = JString string | JBool bool | JInt int | JNull

record audit_event =
  aud_ID :: uuid
  aud_OrganizationID :: uuid
  aud_ActorDID :: did
  aud_Action :: string
  aud_TargetType :: string
  aud_TargetID :: string
  aud_RequestID :: string
  aud_Metadata :: "(string \<times> json) list"
  aud_CreatedAt :: instant

text \<open>A bounded keyset page; the empty cursor says there is no further page.\<close>

record 'a page =
  Items :: "'a list"
  NextCursor :: string

record audit_page =
  audp_Items :: "audit_event list"
  audp_NextCursor :: "uuid option"

record collaborator_page =
  colp_Items :: "repository_collaborator list"
  colp_NextCursor :: "did option"

section \<open>Publications\<close>

record publication =
  pub_ID :: uuid
  pub_CreatorDID :: did
  pub_Slug :: string
  pub_Name :: string
  pub_Description :: string
  pub_Website :: string
  pub_Location :: string
  pub_CreatedAt :: instant
  pub_UpdatedAt :: instant

record grant_publication =
  gp_ID :: uuid
  gp_ActorDID :: did
  gp_Organization :: at_identity
  gp_SubjectDID :: did
  gp_Role :: role
  gp_Authority :: at_identity
  gp_CreatedAt :: instant
  gp_ExpiresAt :: instant

record membership_publication =
  mp_ActorDID :: did
  mp_Organization :: at_identity
  mp_Grant :: at_identity
  mp_Visibility :: membership_visibility
  mp_CreatedAt :: instant
  mp_UpdatedAt :: instant

record revocation_publication =
  rp_ID :: uuid
  rp_ActorDID :: did
  rp_Organization :: at_identity
  rp_Grant :: at_identity
  rp_SubjectDID :: did
  rp_Authority :: at_identity
  rp_CreatedAt :: instant

section \<open>Inputs and their validation\<close>

abbreviation maxNameBytes :: nat where "maxNameBytes \<equiv> 255"
abbreviation maxDescriptionBytes :: nat where "maxDescriptionBytes \<equiv> 2000"

text \<open>\<open>slugPattern\<close>: \<^verbatim>\<open>^[a-z0-9][a-z0-9-]*$\<close>\<close>

definition slugPattern :: "string \<Rightarrow> bool" where
  "slugPattern s =
     (case s of [] \<Rightarrow> False
      | c # cs \<Rightarrow> (is_lower c \<or> is_digit c)
                \<and> list_all (\<lambda>d. is_lower d \<or> is_digit d \<or> d = CHR ''-'') cs)"

definition reservedOwnerSlugs :: "string list" where
  "reservedOwnerSlugs =
     [''api'', ''docs'', ''explore'', ''health'', ''login'', ''oauth'',
      ''organizations'', ''profiles'', ''settings'']"

definition validateDID :: "(string \<Rightarrow> bool) \<Rightarrow> string \<Rightarrow> err option" where
  "validateDID canonical_did value =
     (if \<not> canonical_did value then Some (errorf ''must be a canonical DID'') else None)"

definition validateOptionalWebsite :: "string \<Rightarrow> err option" where
  "validateOptionalWebsite value =
     (if value = [] then None
      else case parse_request_uri value of
          None \<Rightarrow> Some (errorf ''website must be an absolute HTTP or HTTPS URL'')
        | Some (scheme, host) \<Rightarrow>
            if (scheme \<noteq> ''http'' \<and> scheme \<noteq> ''https'') \<or> host = []
            then Some (errorf ''website must be an absolute HTTP or HTTPS URL'') else None)"

record invite_input =
  ii_OrganizationID :: uuid
  ii_ActorDID :: did
  ii_InviteeDID :: did
  ii_Role :: role

definition InviteInput_Validate :: "(string \<Rightarrow> bool) \<Rightarrow> invite_input \<Rightarrow> err option" where
  "InviteInput_Validate canonical_did input =
     (if ii_OrganizationID input = uuid_nil \<or> blank (ii_ActorDID input) \<or> blank (ii_InviteeDID input)
      then Some (because org_ErrValidation ''organization, actor, and invitee are required'')
      else if ii_ActorDID input = ii_InviteeDID input
      then Some (because org_ErrValidation ''an owner cannot invite themselves'')
      else case validateDID canonical_did (ii_ActorDID input) of
          Some e \<Rightarrow> Some (because_of org_ErrValidation ''actor DID'' e)
        | None \<Rightarrow>
      (case validateDID canonical_did (ii_InviteeDID input) of
          Some e \<Rightarrow> Some (because_of org_ErrValidation ''invitee DID'' e)
        | None \<Rightarrow>
      (case Role_Validate (ii_Role input) of
          Some e \<Rightarrow> Some (because_of org_ErrValidation [] e)
        | None \<Rightarrow> None)))"

record create_team_input =
  cti_OrganizationID :: uuid
  cti_ActorDID :: did
  cti_ParentTeamID :: "uuid option"
  cti_Slug :: string
  cti_Name :: string
  cti_Description :: string
  cti_Visibility :: team_visibility

record update_team_input =
  uti_OrganizationID :: uuid
  uti_TeamID :: uuid
  uti_ActorDID :: did
  uti_ParentTeamID :: "uuid option"
  uti_Name :: string
  uti_Description :: string
  uti_Visibility :: team_visibility

definition UpdateTeamInput_Validate :: "update_team_input \<Rightarrow> err option" where
  "UpdateTeamInput_Validate input =
     (if uti_OrganizationID input = uuid_nil \<or> uti_TeamID input = uuid_nil \<or> uti_ActorDID input = []
      then Some (because org_ErrValidation ''organization, team, and actor are required'')
      else if blank (uti_Name input) \<or> length (uti_Name input) > maxNameBytes
              \<or> length (uti_Description input) > maxDescriptionBytes
      then Some (because org_ErrValidation ''team name or description is invalid'')
      else if uti_Visibility input \<noteq> TeamVisibilityVisible \<and> uti_Visibility input \<noteq> TeamVisibilitySecret
      then Some (because org_ErrValidation ''team visibility must be visible or secret'')
      else if uti_ParentTeamID input = Some (uti_TeamID input)
      then Some (because org_ErrValidation ''a team cannot be its own parent'')
      else None)"

definition CreateTeamInput_Validate :: "create_team_input \<Rightarrow> err option" where
  "CreateTeamInput_Validate input =
     (if cti_OrganizationID input = uuid_nil \<or> cti_ActorDID input = []
      then Some (because org_ErrValidation ''organization and actor are required'')
      else if length (cti_Slug input) > 100 \<or> \<not> slugPattern (cti_Slug input)
      then Some (because org_ErrValidation ''team slug is invalid'')
      else if blank (cti_Name input) \<or> length (cti_Name input) > maxNameBytes
              \<or> length (cti_Description input) > maxDescriptionBytes
      then Some (because org_ErrValidation ''team name or description is invalid'')
      else if cti_Visibility input \<noteq> TeamVisibilityVisible \<and> cti_Visibility input \<noteq> TeamVisibilitySecret
      then Some (because org_ErrValidation ''team visibility must be visible or secret'')
      else None)"

record create_input =
  ci_CreatorDID :: did
  ci_Slug :: string
  ci_Name :: string
  ci_Description :: string
  ci_Website :: string
  ci_Location :: string
  ci_BasePermission :: base_permission
  ci_MembersCanCreateRepo :: bool

record update_input =
  ui_OrganizationID :: uuid
  ui_ActorDID :: did
  ui_Name :: string
  ui_Description :: string
  ui_Website :: string
  ui_Location :: string
  ui_BasePermission :: base_permission
  ui_MembersCanCreateRepo :: bool

definition UpdateInput_Validate :: "update_input \<Rightarrow> err option" where
  "UpdateInput_Validate input =
     (if ui_OrganizationID input = uuid_nil \<or> blank (ui_ActorDID input)
      then Some (because org_ErrValidation ''organization and actor are required'')
      else if blank (ui_Name input) \<or> length (ui_Name input) > maxNameBytes
              \<or> length (ui_Description input) > maxDescriptionBytes
      then Some (because org_ErrValidation ''organization name or description is invalid'')
      else case validateOptionalWebsite (ui_Website input) of
          Some e \<Rightarrow> Some (because_of org_ErrValidation [] e)
        | None \<Rightarrow>
      (case BasePermission_Validate (ui_BasePermission input) of
          Some e \<Rightarrow> Some (because_of org_ErrValidation [] e)
        | None \<Rightarrow> None))"

definition CreateInput_Validate :: "create_input \<Rightarrow> err option" where
  "CreateInput_Validate input =
     (if blank (ci_CreatorDID input)
      then Some (because org_ErrValidation ''creator DID must not be empty'')
      else if length (ci_Slug input) > 100 \<or> \<not> slugPattern (ci_Slug input)
      then Some (because org_ErrValidation ''slug must match the pattern and contain at most 100 characters'')
      else if ci_Slug input \<in> set reservedOwnerSlugs
      then Some (because org_ErrValidation ''slug is reserved by an application route'')
      else if blank (ci_Name input) \<or> length (ci_Name input) > maxNameBytes
      then Some (because org_ErrValidation ''name must contain between 1 and 255 bytes'')
      else if length (ci_Description input) > maxDescriptionBytes
      then Some (because org_ErrValidation ''description must contain at most 2000 bytes'')
      else if length (ci_Location input) > maxNameBytes
      then Some (because org_ErrValidation ''location must contain at most 255 bytes'')
      else case validateOptionalWebsite (ci_Website input) of
          Some e \<Rightarrow> Some (because_of org_ErrValidation [] e)
        | None \<Rightarrow>
      (case BasePermission_Validate (ci_BasePermission input) of
          Some e \<Rightarrow> Some (because_of org_ErrValidation [] e)
        | None \<Rightarrow> None))"

section \<open>The effective repository role\<close>

text \<open>The loop over the team roles keeps the strongest role seen so far.\<close>

fun strongest_role :: "repository_role \<Rightarrow> repository_role list \<Rightarrow> repository_role" where
  "strongest_role result [] = result"
| "strongest_role result (role # teams) =
     strongest_role (if rank role > rank result then role else result) teams"

definition EffectiveRepositoryRole ::
  "role \<Rightarrow> base_permission \<Rightarrow> repository_role \<Rightarrow> repository_role list \<Rightarrow> repository_role" where
  "EffectiveRepositoryRole memberRole base direct teams =
     (if memberRole = RoleOwner then RepositoryRoleAdmin
      else let result = (case base of BasePermissionRead \<Rightarrow> RepositoryRoleRead
                                    | BasePermissionWrite \<Rightarrow> RepositoryRoleWrite
                                    | _ \<Rightarrow> RepositoryRoleNone);
               result = (if rank direct > rank result then direct else result)
           in strongest_role result teams)"

lemma rank_simps [simp]:
  "rank RepositoryRoleNone = 0" "rank RepositoryRoleRead = 1" "rank RepositoryRoleTriage = 2"
  "rank RepositoryRoleWrite = 3" "rank RepositoryRoleMaintain = 4"
  "rank RepositoryRoleAdmin = 5" "rank (RepositoryRole_Other s) = 0"
  by (simp_all add: rank_def repositoryRoleRank_def)

lemma rank_le: "rank r \<le> 5"
  by (cases r) simp_all

text \<open>The ranks order the six named roles without ties.\<close>

lemma rank_inj:
  "repositoryRoleRank r \<noteq> None \<Longrightarrow> repositoryRoleRank s \<noteq> None \<Longrightarrow> rank r = rank s \<longleftrightarrow> r = s"
  by (cases r; cases s) (simp_all add: repositoryRoleRank_def)

lemma strongest_among: "strongest_role r roles \<in> insert r (set roles)"
proof (induction roles arbitrary: r)
  case Nil
  then show ?case by simp
next
  case (Cons role roles)
  from Cons.IH [of "if rank role > rank r then role else r"]
  show ?case by (auto split: if_splits)
qed

lemma strongest_bound:
  "rank r \<le> rank (strongest_role r roles) \<and>
     (\<forall>role \<in> set roles. rank role \<le> rank (strongest_role r roles))"
proof (induction roles arbitrary: r)
  case Nil
  then show ?case by simp
next
  case (Cons role roles)
  from Cons.IH [of "if rank role > rank r then role else r"]
  show ?case by (auto split: if_splits)
qed

lemma rank_strongest: "rank (strongest_role r roles) = Max (insert (rank r) (rank ` set roles))"
proof (rule sym, rule Max_eqI)
  show "y \<le> rank (strongest_role r roles)" if "y \<in> insert (rank r) (rank ` set roles)" for y
    using that strongest_bound [of r roles] by auto
  show "rank (strongest_role r roles) \<in> insert (rank r) (rank ` set roles)"
    using strongest_among [of r roles] by auto
qed simp

text \<open>What the organization's base permission grants to a member.\<close>

definition base_role :: "base_permission \<Rightarrow> repository_role" where
  "base_role base = (case base of BasePermissionRead \<Rightarrow> RepositoryRoleRead
                                | BasePermissionWrite \<Rightarrow> RepositoryRoleWrite
                                | _ \<Rightarrow> RepositoryRoleNone)"

lemma effective_role_unfold:
  "EffectiveRepositoryRole m b d ts =
     (if m = RoleOwner then RepositoryRoleAdmin else strongest_role (base_role b) (d # ts))"
  by (simp add: EffectiveRepositoryRole_def base_role_def Let_def)

text \<open>
  The effective repository role of an organization member has exactly the strongest
  of the ranks granted by the base permission, the direct assignment and the team
  assignments, whatever their order; an owner has the rank of an administrator.
\<close>

theorem effective_role_is_strongest_grant:
  "rank (EffectiveRepositoryRole memberRole base direct teams) =
     (if memberRole = RoleOwner then rank RepositoryRoleAdmin
      else Max (insert (rank (base_role base)) (insert (rank direct) (rank ` set teams))))"
  by (simp add: effective_role_unfold rank_strongest del: strongest_role.simps)

lemma effective_role_granted:
  "m \<noteq> RoleOwner \<Longrightarrow>
     EffectiveRepositoryRole m b d ts \<in> insert (base_role b) (insert d (set ts))"
  using strongest_among [of "base_role b" "d # ts"] by (simp add: effective_role_unfold)

section \<open>Validated inputs\<close>

lemma CreateInput_Validate_None:
  "CreateInput_Validate input = None \<Longrightarrow>
     slugPattern (ci_Slug input) \<and> length (ci_Slug input) \<le> 100 \<and>
     ci_Slug input \<notin> set reservedOwnerSlugs \<and> ci_Name input \<noteq> [] \<and>
     BasePermission_Validate (ci_BasePermission input) = None"
  by (auto simp: CreateInput_Validate_def split: if_splits option.splits dest: not_blank_nonempty)

lemma InviteInput_Validate_None:
  "InviteInput_Validate canonical_did input = None \<Longrightarrow>
     ii_ActorDID input \<noteq> ii_InviteeDID input \<and> canonical_did (ii_InviteeDID input) \<and>
     Role_Validate (ii_Role input) = None"
  by (auto simp: InviteInput_Validate_def validateDID_def split: if_splits option.splits)

lemma Role_Validate_None: "Role_Validate r = None \<longleftrightarrow> r = RoleOwner \<or> r = RoleMember"
  by (simp add: Role_Validate_def)

end
