(* ===== verification/Repository.thy ===== *)
theory Repository imports Go_Text Go_Errors begin

text \<open>
  \<^verbatim>\<open>internal/repository/repository.go\<close>: the data of repositories, forks and deletions,
  and the validation of inputs at the domain boundary.
\<close>

datatype repo_visibility = Repo_Public | Repo_Private | Repo_Visibility_Other string

datatype repo_state =
  StateCreating | StateActive | StateFailed | StateDeleting | StateDeleted

record fork_source =
  fork_URI :: string
  fork_CID :: string
  fork_GitHTTPS :: string
  fork_LocalRepositoryID :: "uuid option"

record repository =
  repo_ID :: uuid
  repo_OwnerDID :: did
  repo_OrganizationID :: "uuid option"
  repo_OrganizationSlug :: string
  repo_Slug :: string
  repo_DisplayName :: string
  repo_Description :: string
  repo_Visibility :: repo_visibility
  repo_State :: repo_state
  repo_DefaultBranch :: string
  repo_StorageKey :: string
  repo_ATURI :: string
  repo_ATCID :: string
  repo_ForkedFrom :: "fork_source option"
  repo_TransferredFrom :: "at_identity option"
  repo_ForkCount :: int
  repo_ViewerCanAdmin :: bool
  repo_ArchivedAt :: "instant option"
  repo_CreatedAt :: instant
  repo_UpdatedAt :: instant

record repo_page =
  rp_Items :: "repository list"
  rp_NextCursor :: "uuid option"

record fork_sync =
  BeforeSHA :: string
  AfterSHA :: string
  Updated :: bool

record repo_publication =
  rpub_ID :: uuid
  rpub_OwnerDID :: did
  rpub_Organization :: "at_identity option"
  rpub_ForkedFrom :: "at_identity option"
  rpub_TransferredFrom :: "at_identity option"
  rpub_TransferredTo :: "at_identity option"
  rpub_Slug :: string
  rpub_Name :: string
  rpub_Description :: string
  rpub_DefaultBranch :: string
  rpub_GitHTTPS :: string
  rpub_GitSSH :: string
  rpub_Web :: string
  rpub_CreatedAt :: instant
  rpub_UpdatedAt :: instant

record repo_create_input =
  rci_OwnerDID :: did
  rci_OrganizationID :: "uuid option"
  rci_OrganizationSlug :: string
  rci_OrganizationAT :: "at_identity option"
  rci_ForkedFrom :: "fork_source option"
  rci_Slug :: string
  rci_DisplayName :: string
  rci_Description :: string
  rci_Visibility :: repo_visibility
  rci_DefaultBranch :: string

record settings_input =
  set_OwnerAlias :: string
  set_Slug :: string
  set_DisplayName :: string
  set_Description :: string
  set_Visibility :: repo_visibility
  set_DefaultBranch :: string
  set_Archived :: bool

record deletion =
  del_ID :: uuid
  del_RepositoryID :: uuid
  del_RequestedByDID :: did
  del_RequestedAt :: instant
  del_PurgeAfter :: instant

text \<open>\<open>slugPattern\<close>: \<^verbatim>\<open>^[a-z0-9][a-z0-9._-]*$\<close>\<close>

definition repoSlugPattern :: "string \<Rightarrow> bool" where
  "repoSlugPattern s =
     (case s of [] \<Rightarrow> False
      | c # cs \<Rightarrow> (is_lower c \<or> is_digit c)
                \<and> list_all (\<lambda>d. is_lower d \<or> is_digit d \<or> d = CHR ''.'' \<or> d = CHR ''_'' \<or> d = CHR ''-'') cs)"

definition fork_check :: "fork_source \<Rightarrow> repo_visibility \<Rightarrow> err option" where
  "fork_check source visibility =
     (if blank (fork_URI source) \<or> blank (fork_CID source)
      then Some (errorf ''fork source must include a strong reference'')
      else if fork_LocalRepositoryID source = None \<and> blank (fork_GitHTTPS source)
      then Some (errorf ''fork source must include a local repository or HTTPS endpoint'')
      else if visibility \<noteq> Repo_Public
      then Some (errorf ''public fork sources must remain public'')
      else None)"

definition RepositoryInput_Validate :: "repo_create_input \<Rightarrow> err option" where
  "RepositoryInput_Validate input =
     (if blank (rci_OwnerDID input) then Some (errorf ''owner DID must not be empty'')
      else if (rci_OrganizationID input = None) \<noteq> (rci_OrganizationSlug input = [])
      then Some (errorf ''organization ID and slug must be provided together'')
      else if rci_OrganizationID input \<noteq> None
         \<and> (case rci_OrganizationAT input of None \<Rightarrow> True | Some a \<Rightarrow> at_URI a = [] \<or> at_CID a = [])
      then Some (errorf ''organization AT identity must be provided for an organization repository'')
      else case (case rci_ForkedFrom input of None \<Rightarrow> None
                 | Some source \<Rightarrow> fork_check source (rci_Visibility input)) of
        Some e \<Rightarrow> Some e
      | None \<Rightarrow>
      if length (rci_Slug input) > 100 \<or> \<not> repoSlugPattern (rci_Slug input)
      then Some (errorf ''slug must match the pattern and contain at most 100 characters'')
      else if length (rci_DisplayName input) > 255
      then Some (errorf ''display name must contain at most 255 characters'')
      else if length (rci_Description input) > 2000
      then Some (errorf ''description must contain at most 2000 characters'')
      else if rci_Visibility input \<noteq> Repo_Public \<and> rci_Visibility input \<noteq> Repo_Private
      then Some (errorf ''visibility must be public or private'')
      else if rci_DefaultBranch input = [] \<or> length (rci_DefaultBranch input) > 255
         \<or> (case rci_DefaultBranch input of [] \<Rightarrow> False | c # _ \<Rightarrow> c = CHR ''-'')
      then Some (errorf ''default branch must be a valid non-option branch name'')
      else None)"

text \<open>Settings are checked as the creation of a repository by a placeholder account.\<close>

definition SettingsInput_Validate :: "settings_input \<Rightarrow> err option" where
  "SettingsInput_Validate input =
     (if blank (set_OwnerAlias input) then Some (errorf ''owner route must not be empty'')
      else RepositoryInput_Validate
        \<lparr>rci_OwnerDID = ''did:placeholder:settings'', rci_OrganizationID = None,
         rci_OrganizationSlug = [], rci_OrganizationAT = None, rci_ForkedFrom = None,
         rci_Slug = set_Slug input, rci_DisplayName = set_DisplayName input,
         rci_Description = set_Description input, rci_Visibility = set_Visibility input,
         rci_DefaultBranch = set_DefaultBranch input\<rparr>)"

text \<open>A default branch that passed validation is never read by Git as an option.\<close>

lemma RepositoryInput_Validate_None:
  "RepositoryInput_Validate input = None \<Longrightarrow>
     repoSlugPattern (rci_Slug input)
     \<and> (rci_Visibility input = Repo_Public \<or> rci_Visibility input = Repo_Private)
     \<and> (\<exists>c cs. rci_DefaultBranch input = c # cs \<and> c \<noteq> CHR ''-'')
     \<and> (rci_ForkedFrom input \<noteq> None \<longrightarrow> rci_Visibility input = Repo_Public)"
  by (auto simp: RepositoryInput_Validate_def fork_check_def split: if_splits option.splits list.splits)

lemma SettingsInput_Validate_None:
  "SettingsInput_Validate input = None \<Longrightarrow>
     repoSlugPattern (set_Slug input)
     \<and> (set_Visibility input = Repo_Public \<or> set_Visibility input = Repo_Private)
     \<and> (\<exists>c cs. set_DefaultBranch input = c # cs \<and> c \<noteq> CHR ''-'')"
  by (auto simp: SettingsInput_Validate_def split: if_splits dest!: RepositoryInput_Validate_None)

end
