(* ===== verification/Org_Tables.thy ===== *)
theory Org_Tables imports Organization Repository begin

text \<open>
  The tables of \<^verbatim>\<open>migrations/000014_organizations.sql\<close> and the statements of
  \<^verbatim>\<open>internal/database/queries/organizations.sql\<close> on organizations, members,
  invitations and audit events.

  A table is the list of its rows. The Go conversions store an empty string as SQL NULL
  (\<open>pgText\<close>) and read NULL back as an empty string (the \<open>\<dots>FromRow\<close> functions), so a
  nullable text column is a string of the Go record here, where empty means NULL, and a
  row is the Go record beside the columns the Go type lacks. A statement returns an
  error and no new tables, or a value and the new tables. The SQLSTATE codes are 23505
  (unique), 23503 (foreign key) and 23514 (check).
\<close>

section \<open>Rows and tables\<close>

record org_row =
  or_org :: organization
  or_deleted_at :: "instant option"

record team_row =
  te_team :: team
  te_deleted_at :: "instant option"

datatype route_target = Route_Account did | Route_Organization uuid

text \<open>
  A repository row holds the columns of \<open>core.repositories\<close> as the Go record: the slug of
  the organization and the viewer's rights are not columns and are empty there. Of a fork
  source the row keeps the strong reference and the local id.
\<close>

record repo_row =
  rr_repo :: repository
  rr_deleted_at :: "instant option"

record repo_alias =
  ra_ID :: uuid
  ra_RepositoryID :: uuid
  ra_OwnerAlias :: string
  ra_SlugAlias :: string

record deletion_row =
  dr_deletion :: deletion
  dr_restored_at :: "instant option"
  dr_purged_at :: "instant option"

text \<open>\<open>network.repositories\<close>: what the federation index knows of a published repository.\<close>

record network_repository =
  nr_URI :: string
  nr_CID :: string
  nr_GitHTTPS :: string
  nr_LocalRepositoryID :: "uuid option"
  nr_deleted_at :: "instant option"

record org_tables =
  accounts :: "(did \<times> string option) list"
  owner_routes :: "(string \<times> route_target) list"
  organizations :: "org_row list"
  organization_members :: "member list"
  organization_invitations :: "invitation list"
  organization_teams :: "team_row list"
  organization_team_members :: "team_member list"
  organization_team_repositories :: "team_repository list"
  repositories :: "repo_row list"
  repository_collaborators :: "repository_collaborator list"
  repository_aliases :: "repo_alias list"
  repository_deletions :: "deletion_row list"
  network_repositories :: "network_repository list"
  organization_audit_events :: "audit_event list"

type_synonym 'a sql = "org_tables \<Rightarrow> err + 'a \<times> org_tables"

abbreviation unique_violation :: err where "unique_violation \<equiv> Pg_Error ''23505''"
abbreviation foreign_key_violation :: err where "foreign_key_violation \<equiv> Pg_Error ''23503''"
abbreviation check_violation :: err where "check_violation \<equiv> Pg_Error ''23514''"
abbreviation no_rows :: err where "no_rows \<equiv> Sentinel pgx_ErrNoRows"

text \<open>\<open>SELECT \<dots>\<close> of one row, or \<open>pgx.ErrNoRows\<close>.\<close>

definition one_row :: "'a option \<Rightarrow> org_tables \<Rightarrow> err + 'a \<times> org_tables" where
  "one_row r t = (case r of None \<Rightarrow> Inl no_rows | Some x \<Rightarrow> Inr (x, t))"

definition account_exists :: "org_tables \<Rightarrow> did \<Rightarrow> bool" where
  "account_exists t d \<longleftrightarrow> d \<in> fst ` set (accounts t)"

abbreviation live_org :: "org_row \<Rightarrow> bool" where
  "live_org r \<equiv> or_deleted_at r = None"

abbreviation org_key :: "org_row \<Rightarrow> uuid" where
  "org_key r \<equiv> org_ID (or_org r)"

abbreviation member_key :: "member \<Rightarrow> uuid \<times> did" where
  "member_key m \<equiv> (mem_OrganizationID m, mem_AccountDID m)"

section \<open>Organizations\<close>

definition sql_CreateOrganization :: "organization \<Rightarrow> organization sql" where
  "sql_CreateOrganization value t =
     (let row = value\<lparr>org_State := OrgCreating, org_ATURI := [], org_ATCID := [],
                      org_UpdatedAt := org_CreatedAt value\<rparr>
      in if \<not> slugPattern (org_Slug row) \<or> org_Name row = []
            \<or> BasePermission_Validate (org_BasePermission row) \<noteq> None
         then Inl check_violation
         else if list_ex (\<lambda>r. org_key r = org_ID row) (organizations t)
            \<or> list_ex (\<lambda>r. live_org r \<and> lower (org_Slug (or_org r)) = lower (org_Slug row))
                (organizations t)
         then Inl unique_violation
         else if \<not> account_exists t (org_CreatorDID row) then Inl foreign_key_violation
         else Inr (row, t\<lparr>organizations := organizations t @
                          [\<lparr>or_org = row, or_deleted_at = None\<rparr>]\<rparr>))"

definition alias_format :: "string \<Rightarrow> bool" where
  "alias_format a =
     (case a of [] \<Rightarrow> False
      | c # cs \<Rightarrow> (is_lower c \<or> is_digit c) \<and> length a \<le> 253 \<and>
          list_all (\<lambda>d. is_lower d \<or> is_digit d \<or> d = CHR ''.'' \<or> d = CHR ''-'') cs)"

definition sql_CreateOrganizationOwnerRoute :: "string \<Rightarrow> uuid \<Rightarrow> unit sql" where
  "sql_CreateOrganizationOwnerRoute alias oid t =
     (let a = lower alias
      in if \<not> alias_format a \<or> a \<in> set reservedOwnerSlugs then Inl check_violation
         else if list_ex (\<lambda>r. lower (fst r) = a) (owner_routes t) then Inl unique_violation
         else if \<not> list_ex (\<lambda>r. org_key r = oid) (organizations t) then Inl foreign_key_violation
         else Inr ((), t\<lparr>owner_routes := owner_routes t @ [(a, Route_Organization oid)]\<rparr>))"

text \<open>\<open>UPDATE core.organizations SET f WHERE p RETURNING *\<close>\<close>

definition update_org :: "(org_row \<Rightarrow> bool) \<Rightarrow> (organization \<Rightarrow> organization) \<Rightarrow> organization sql" where
  "update_org p f t =
     (case find p (organizations t) of
        None \<Rightarrow> Inl no_rows
      | Some r \<Rightarrow> Inr (f (or_org r),
          t\<lparr>organizations := update_where p (\<lambda>r. r\<lparr>or_org := f (or_org r)\<rparr>) (organizations t)\<rparr>))"

definition sql_ActivateOrganization :: "uuid \<Rightarrow> at_identity \<Rightarrow> instant \<Rightarrow> organization sql" where
  "sql_ActivateOrganization oid identity updated_at t =
     (if at_URI identity \<noteq> []
         \<and> list_ex (\<lambda>r. org_key r \<noteq> oid \<and> org_ATURI (or_org r) = at_URI identity) (organizations t)
         \<and> list_ex (\<lambda>r. org_key r = oid \<and> live_org r) (organizations t)
      then Inl unique_violation
      else update_org (\<lambda>r. org_key r = oid \<and> live_org r)
             (\<lambda>v. v\<lparr>org_State := OrgActive, org_ATURI := at_URI identity,
                    org_ATCID := at_CID identity, org_UpdatedAt := updated_at\<rparr>) t)"

definition sql_FailOrganization :: "uuid \<Rightarrow> instant \<Rightarrow> organization sql" where
  "sql_FailOrganization oid updated_at =
     update_org (\<lambda>r. org_key r = oid \<and> live_org r)
       (\<lambda>v. v\<lparr>org_State := OrgFailed, org_UpdatedAt := updated_at\<rparr>)"

definition sql_GetOrganizationByID :: "uuid \<Rightarrow> organization sql" where
  "sql_GetOrganizationByID oid t =
     one_row (map_option or_org (find (\<lambda>r. org_key r = oid \<and> live_org r) (organizations t))) t"

definition sql_GetOrganizationBySlug :: "string \<Rightarrow> organization sql" where
  "sql_GetOrganizationBySlug slug t =
     one_row (map_option or_org
       (find (\<lambda>r. lower (org_Slug (or_org r)) = lower slug \<and> live_org r) (organizations t))) t"

definition sql_UpdateOrganization :: "organization \<Rightarrow> organization sql" where
  "sql_UpdateOrganization value t =
     (if list_ex (\<lambda>r. org_key r = org_ID value \<and> org_State (or_org r) = OrgActive \<and> live_org r)
           (organizations t)
         \<and> (org_Name value = [] \<or> BasePermission_Validate (org_BasePermission value) \<noteq> None)
      then Inl check_violation
      else update_org
        (\<lambda>r. org_key r = org_ID value \<and> org_State (or_org r) = OrgActive \<and> live_org r)
        (\<lambda>v. v\<lparr>org_Name := org_Name value, org_Description := org_Description value,
               org_Website := org_Website value, org_Location := org_Location value,
               org_BasePermission := org_BasePermission value,
               org_MembersCanCreateRepo := org_MembersCanCreateRepo value,
               org_ATCID := org_ATCID value, org_UpdatedAt := org_UpdatedAt value\<rparr>) t)"

section \<open>Members\<close>

text \<open>The constraints of \<open>core.organization_members\<close> on one inserted row.\<close>

definition member_checks :: "member \<Rightarrow> bool" where
  "member_checks m \<longleftrightarrow>
     Role_Validate (mem_Role m) = None \<and> MembershipVisibility_Validate (mem_Visibility m) = None
     \<and> (mem_GrantURI m = [] \<longleftrightarrow> mem_GrantCID m = [])
     \<and> (mem_MembershipURI m = [] \<longleftrightarrow> mem_MembershipCID m = [])"

definition insert_member :: "member \<Rightarrow> member sql" where
  "insert_member m t =
     (if \<not> member_checks m then Inl check_violation
      else if list_ex (\<lambda>r. member_key r = member_key m) (organization_members t)
      then Inl unique_violation
      else if \<not> list_ex (\<lambda>r. org_key r = mem_OrganizationID m) (organizations t)
         \<or> \<not> account_exists t (mem_AccountDID m) \<or> \<not> account_exists t (mem_InvitedByDID m)
      then Inl foreign_key_violation
      else Inr (m, t\<lparr>organization_members := organization_members t @ [m]\<rparr>))"

definition sql_CreateOrganizationOwner :: "uuid \<Rightarrow> did \<Rightarrow> instant \<Rightarrow> member sql" where
  "sql_CreateOrganizationOwner oid account joined_at =
     insert_member
       \<lparr>mem_OrganizationID = oid, mem_AccountDID = account, mem_Handle = [], mem_Role = RoleOwner,
        mem_Visibility = VisibilityPrivate, mem_InvitedByDID = account,
        mem_GrantURI = [], mem_GrantCID = [], mem_MembershipURI = [], mem_MembershipCID = [],
        mem_JoinedAt = joined_at, mem_UpdatedAt = joined_at\<rparr>"

definition sql_GetOrganizationMember :: "uuid \<Rightarrow> did \<Rightarrow> member sql" where
  "sql_GetOrganizationMember oid account t =
     one_row (find (\<lambda>m. member_key m = (oid, account)) (organization_members t)) t"

text \<open>The join keeps a member row where an active, live organization has its id.\<close>

definition sql_GetOrganizationOwner :: "uuid \<Rightarrow> did \<Rightarrow> member sql" where
  "sql_GetOrganizationOwner oid account t =
     one_row (find (\<lambda>m. member_key m = (oid, account) \<and> mem_Role m = RoleOwner
                \<and> list_ex (\<lambda>r. org_key r = mem_OrganizationID m
                            \<and> org_State (or_org r) = OrgActive \<and> live_org r) (organizations t))
              (organization_members t)) t"

definition sql_LockOrganizationOwners :: "uuid \<Rightarrow> did list sql" where
  "sql_LockOrganizationOwners oid t =
     Inr (map mem_AccountDID (filter (\<lambda>m. mem_OrganizationID m = oid \<and> mem_Role m = RoleOwner)
            (organization_members t)), t)"

text \<open>\<open>UPDATE core.organization_members SET f WHERE organization_id = \<dots> AND account_did = \<dots>\<close>\<close>

definition update_member :: "uuid \<Rightarrow> did \<Rightarrow> (member \<Rightarrow> member) \<Rightarrow> member sql" where
  "update_member oid account f t =
     (case find (\<lambda>m. member_key m = (oid, account)) (organization_members t) of
        None \<Rightarrow> Inl no_rows
      | Some m \<Rightarrow>
          if \<not> member_checks (f m) then Inl check_violation
          else Inr (f m, t\<lparr>organization_members :=
                 update_where (\<lambda>m. member_key m = (oid, account)) f (organization_members t)\<rparr>))"

definition sql_UpdateOrganizationMemberRole ::
  "uuid \<Rightarrow> did \<Rightarrow> role \<Rightarrow> at_identity \<Rightarrow> at_identity \<Rightarrow> instant \<Rightarrow> member sql" where
  "sql_UpdateOrganizationMemberRole oid account role grant membership updated_at =
     update_member oid account
       (\<lambda>m. m\<lparr>mem_Role := role, mem_GrantURI := at_URI grant, mem_GrantCID := at_CID grant,
              mem_MembershipURI := at_URI membership, mem_MembershipCID := at_CID membership,
              mem_UpdatedAt := updated_at\<rparr>)"

definition sql_UpdateOrganizationMembershipVisibility ::
  "uuid \<Rightarrow> did \<Rightarrow> membership_visibility \<Rightarrow> at_identity \<Rightarrow> at_identity \<Rightarrow> instant \<Rightarrow> member sql" where
  "sql_UpdateOrganizationMembershipVisibility oid account visibility grant membership updated_at =
     update_member oid account
       (\<lambda>m. m\<lparr>mem_Visibility := visibility, mem_GrantURI := at_URI grant,
              mem_GrantCID := at_CID grant, mem_MembershipURI := at_URI membership,
              mem_MembershipCID := at_CID membership, mem_UpdatedAt := updated_at\<rparr>)"

definition sql_DeleteOrganizationMember :: "uuid \<Rightarrow> did \<Rightarrow> member sql" where
  "sql_DeleteOrganizationMember oid account t =
     (case find (\<lambda>m. member_key m = (oid, account)) (organization_members t) of
        None \<Rightarrow> Inl no_rows
      | Some m \<Rightarrow> Inr (m, t\<lparr>organization_members :=
          delete_where (\<lambda>m. member_key m = (oid, account)) (organization_members t)\<rparr>))"

section \<open>Invitations\<close>

abbreviation pending :: "invitation \<Rightarrow> bool" where
  "pending i \<equiv> inv_AcceptedAt i = None \<and> inv_RevokedAt i = None"

definition sql_CreateOrganizationInvitation :: "invitation \<Rightarrow> invitation sql" where
  "sql_CreateOrganizationInvitation value t =
     (let row = value\<lparr>inv_OrganizationSlug := [], inv_OrganizationName := [], inv_GrantURI := [],
                      inv_GrantCID := [], inv_RevokedAt := None, inv_AcceptedAt := None\<rparr>
      in if Role_Validate (inv_Role row) \<noteq> None \<or> \<not> inv_ExpiresAt row > inv_CreatedAt row
         then Inl check_violation
         else if list_ex (\<lambda>i. inv_ID i = inv_ID row) (organization_invitations t)
            \<or> list_ex (\<lambda>i. inv_OrganizationID i = inv_OrganizationID row
                     \<and> inv_InviteeDID i = inv_InviteeDID row \<and> pending i)
                (organization_invitations t)
         then Inl unique_violation
         else if \<not> list_ex (\<lambda>r. org_key r = inv_OrganizationID row) (organizations t)
            \<or> \<not> account_exists t (inv_InvitedByDID row)
         then Inl foreign_key_violation
         else Inr (row, t\<lparr>organization_invitations := organization_invitations t @ [row]\<rparr>))"

definition sql_GetOrganizationInvitation :: "uuid \<Rightarrow> invitation sql" where
  "sql_GetOrganizationInvitation oid t =
     one_row (find (\<lambda>i. inv_ID i = oid) (organization_invitations t)) t"

definition update_invitation ::
  "(invitation \<Rightarrow> bool) \<Rightarrow> (invitation \<Rightarrow> invitation) \<Rightarrow> invitation sql" where
  "update_invitation p f t =
     (case find p (organization_invitations t) of
        None \<Rightarrow> Inl no_rows
      | Some i \<Rightarrow> Inr (f i, t\<lparr>organization_invitations :=
          update_where p f (organization_invitations t)\<rparr>))"

definition sql_RevokeOrganizationInvitation :: "uuid \<Rightarrow> instant \<Rightarrow> invitation sql" where
  "sql_RevokeOrganizationInvitation oid revoked_at =
     update_invitation (\<lambda>i. inv_ID i = oid \<and> pending i) (\<lambda>i. i\<lparr>inv_RevokedAt := Some revoked_at\<rparr>)"

definition sql_AcceptOrganizationInvitation :: "uuid \<Rightarrow> instant \<Rightarrow> invitation sql" where
  "sql_AcceptOrganizationInvitation oid accepted_at =
     update_invitation (\<lambda>i. inv_ID i = oid \<and> pending i \<and> inv_ExpiresAt i > accepted_at)
       (\<lambda>i. i\<lparr>inv_AcceptedAt := Some accepted_at\<rparr>)"

definition sql_CreateOrganizationMemberFromInvitation ::
  "invitation \<Rightarrow> did \<Rightarrow> at_identity \<Rightarrow> instant \<Rightarrow> member sql" where
  "sql_CreateOrganizationMemberFromInvitation i account membership joined_at =
     insert_member
       \<lparr>mem_OrganizationID = inv_OrganizationID i, mem_AccountDID = account, mem_Handle = [],
        mem_Role = inv_Role i, mem_Visibility = VisibilityPrivate,
        mem_InvitedByDID = inv_InvitedByDID i,
        mem_GrantURI = inv_GrantURI i, mem_GrantCID = inv_GrantCID i,
        mem_MembershipURI = at_URI membership, mem_MembershipCID = at_CID membership,
        mem_JoinedAt = joined_at, mem_UpdatedAt = joined_at\<rparr>"

section \<open>Audit events\<close>

definition sql_InsertOrganizationAuditEvent :: "audit_event \<Rightarrow> unit sql" where
  "sql_InsertOrganizationAuditEvent e t =
     (if aud_Action e = [] \<or> aud_TargetType e = [] \<or> aud_TargetID e = [] then Inl check_violation
      else if list_ex (\<lambda>a. aud_ID a = aud_ID e) (organization_audit_events t)
      then Inl unique_violation
      else if \<not> list_ex (\<lambda>r. org_key r = aud_OrganizationID e) (organizations t)
      then Inl foreign_key_violation
      else Inr ((), t\<lparr>organization_audit_events := organization_audit_events t @ [e]\<rparr>))"

end
