(* ===== verification/Org_Queries.thy ===== *)
theory Org_Queries imports Org_Tables begin

text \<open>
  The list statements of \<^verbatim>\<open>internal/database/queries/organizations.sql\<close> on organizations,
  members, invitations and audit events. They read the tables and return rows in the
  order of their \<open>ORDER BY\<close>; rows the clause does not separate stay in table order. The
  order of text is the database's collation, a parameter \<open>text_le\<close>.
\<close>

section \<open>Sorting\<close>

fun insert_by :: "('a \<Rightarrow> 'a \<Rightarrow> bool) \<Rightarrow> 'a \<Rightarrow> 'a list \<Rightarrow> 'a list" where
  "insert_by le x [] = [x]"
| "insert_by le x (y # ys) = (if le x y then x # y # ys else y # insert_by le x ys)"

definition sort_by :: "('a \<Rightarrow> 'a \<Rightarrow> bool) \<Rightarrow> 'a list \<Rightarrow> 'a list" where
  "sort_by le xs = foldr (insert_by le) xs []"

lemma sort_by_simps [simp]:
  "sort_by le [] = []" "sort_by le (x # xs) = insert_by le x (sort_by le xs)"
  by (simp_all add: sort_by_def)

lemma set_insert_by [simp]: "set (insert_by le x ys) = insert x (set ys)"
  by (induction ys) auto

lemma set_sort_by [simp]: "set (sort_by le xs) = set xs"
  by (induction xs) auto

lemma length_sort_by [simp]: "length (sort_by le xs) = length xs"
proof -
  have ins: "length (insert_by le x ys) = Suc (length ys)" for x ys
    by (induction ys) auto
  show ?thesis by (induction xs) (auto simp: ins)
qed

lemma sorted_insert_by:
  assumes "\<And>x y. le x y \<or> le y x" and "\<And>x y z. le x y \<Longrightarrow> le y z \<Longrightarrow> le x z"
  shows "sorted_wrt le ys \<Longrightarrow> sorted_wrt le (insert_by le x ys)"
proof (induction ys)
  case Nil
  then show ?case by simp
next
  case (Cons y ys)
  show ?case
  proof (cases "le x y")
    case True
    with Cons.prems assms(2) show ?thesis by auto
  next
    case False
    with assms(1) have "le y x" by blast
    with False Cons show ?thesis by simp
  qed
qed

lemma sorted_sort_by:
  assumes "\<And>x y. le x y \<or> le y x" and "\<And>x y z. le x y \<Longrightarrow> le y z \<Longrightarrow> le x z"
  shows "sorted_wrt le (sort_by le xs)"
proof (induction xs)
  case Nil
  then show ?case by simp
next
  case (Cons x xs)
  show ?case
    unfolding sort_by_simps by (rule sorted_insert_by [OF assms Cons.IH])
qed

lemma distinct_map_sort_by: "distinct (map k xs) \<Longrightarrow> distinct (map k (sort_by le xs))"
proof -
  have ins: "distinct (map k (insert_by le x ys)) \<longleftrightarrow> k x \<notin> k ` set ys \<and> distinct (map k ys)" for x ys
    by (induction ys) auto
  show "distinct (map k xs) \<Longrightarrow> ?thesis"
  proof (induction xs)
    case Nil
    then show ?case by simp
  next
    case (Cons x xs)
    then show ?case by (simp add: ins)
  qed
qed

text \<open>Newest first: \<open>ORDER BY created_at DESC, id DESC\<close>, and the row comparison \<open><\<close>.\<close>

definition newest_first :: "('a \<Rightarrow> instant \<times> uuid) \<Rightarrow> 'a \<Rightarrow> 'a \<Rightarrow> bool" where
  "newest_first k x y \<longleftrightarrow>
     fst (k y) < fst (k x) \<or> fst (k y) = fst (k x) \<and> snd (k y) \<le> snd (k x)"

definition older_than :: "('a \<Rightarrow> instant \<times> uuid) \<Rightarrow> instant \<times> uuid \<Rightarrow> 'a \<Rightarrow> bool" where
  "older_than k c x \<longleftrightarrow> fst (k x) < fst c \<or> fst (k x) = fst c \<and> snd (k x) < snd c"

section \<open>Organizations of an account\<close>

definition organizations_of :: "did \<Rightarrow> org_tables \<Rightarrow> organization list" where
  "organizations_of account t =
     [or_org r. r \<leftarrow> organizations t, m \<leftarrow> organization_members t,
        mem_OrganizationID m = org_key r \<and> mem_AccountDID m = account
        \<and> org_State (or_org r) = OrgActive \<and> live_org r]"

definition sql_ListOrganizationsForAccount ::
  "(string \<Rightarrow> string \<Rightarrow> bool) \<Rightarrow> did \<Rightarrow> org_tables \<Rightarrow> organization list" where
  "sql_ListOrganizationsForAccount text_le account t =
     sort_by (\<lambda>a b. lower (org_Name a) = lower (org_Name b) \<and> org_ID a \<le> org_ID b
                 \<or> lower (org_Name a) \<noteq> lower (org_Name b) \<and> text_le (lower (org_Name a)) (lower (org_Name b)))
       (organizations_of account t)"

definition sql_PageOrganizationsForAccount ::
  "did \<Rightarrow> uuid option \<Rightarrow> int \<Rightarrow> org_tables \<Rightarrow> organization list" where
  "sql_PageOrganizationsForAccount account after_id page_limit t =
     take (nat page_limit)
       (sort_by (\<lambda>a b. org_ID b \<le> org_ID a)
         (filter (\<lambda>v. case after_id of None \<Rightarrow> True | Some a \<Rightarrow> org_ID v < a)
           (organizations_of account t)))"

section \<open>Members\<close>

definition members_with_handle :: "uuid \<Rightarrow> org_tables \<Rightarrow> (member \<times> string option) list" where
  "members_with_handle oid t =
     [(m, snd a). m \<leftarrow> organization_members t, a \<leftarrow> accounts t,
        fst a = mem_AccountDID m \<and> mem_OrganizationID m = oid]"

definition with_handle :: "member \<times> string option \<Rightarrow> member" where
  "with_handle mh = (fst mh)\<lparr>mem_Handle := (case snd mh of None \<Rightarrow> [] | Some h \<Rightarrow> h)\<rparr>"

definition sql_ListOrganizationMembers ::
  "(string \<Rightarrow> string \<Rightarrow> bool) \<Rightarrow> uuid \<Rightarrow> org_tables \<Rightarrow> member list" where
  "sql_ListOrganizationMembers text_le oid t =
     (let owner_first = (\<lambda>mh. if mem_Role (fst mh) = RoleOwner then 0 else 1 :: nat);
          shown = (\<lambda>mh. lower (case snd mh of None \<Rightarrow> mem_AccountDID (fst mh) | Some h \<Rightarrow> h))
      in map with_handle
           (sort_by (\<lambda>a b. owner_first a < owner_first b
                        \<or> owner_first a = owner_first b \<and> text_le (shown a) (shown b))
             (members_with_handle oid t)))"

definition sql_PageOrganizationMembers ::
  "(string \<Rightarrow> string \<Rightarrow> bool) \<Rightarrow> uuid \<Rightarrow> bool \<Rightarrow> did \<Rightarrow> int \<Rightarrow> org_tables \<Rightarrow> member list" where
  "sql_PageOrganizationMembers text_le oid include_private after_did page_limit t =
     map with_handle (take (nat page_limit)
       (sort_by (\<lambda>a b. text_le (mem_AccountDID (fst a)) (mem_AccountDID (fst b)))
         (filter (\<lambda>mh. (include_private \<or> mem_Visibility (fst mh) = VisibilityPublic)
                    \<and> (after_did = [] \<or>
                       text_le after_did (mem_AccountDID (fst mh)) \<and> mem_AccountDID (fst mh) \<noteq> after_did))
           (members_with_handle oid t))))"

section \<open>Invitations\<close>

abbreviation inv_time :: "invitation \<Rightarrow> instant \<times> uuid" where
  "inv_time i \<equiv> (inv_CreatedAt i, inv_ID i)"

text \<open>The cursor sub-select: the row it names, or NULL, which no row is less than.\<close>

definition after_cursor :: "('a \<Rightarrow> instant \<times> uuid) \<Rightarrow> uuid option \<Rightarrow> 'a option \<Rightarrow> 'a \<Rightarrow> bool" where
  "after_cursor k after_id cursor x =
     (case after_id of None \<Rightarrow> True
      | Some _ \<Rightarrow> (case cursor of None \<Rightarrow> False | Some c \<Rightarrow> older_than k (k c) x))"

definition pending_of_org :: "uuid \<Rightarrow> org_tables \<Rightarrow> invitation list" where
  "pending_of_org oid t =
     filter (\<lambda>i. inv_OrganizationID i = oid \<and> pending i) (organization_invitations t)"

definition sql_ListOrganizationInvitations :: "uuid \<Rightarrow> org_tables \<Rightarrow> invitation list" where
  "sql_ListOrganizationInvitations oid t =
     sort_by (\<lambda>a b. inv_CreatedAt b \<le> inv_CreatedAt a) (pending_of_org oid t)"

definition sql_PageOrganizationInvitations ::
  "uuid \<Rightarrow> uuid option \<Rightarrow> int \<Rightarrow> org_tables \<Rightarrow> invitation list" where
  "sql_PageOrganizationInvitations oid after_id page_limit t =
     take (nat page_limit) (sort_by (newest_first inv_time)
       (filter (after_cursor inv_time after_id
                  (find (\<lambda>c. inv_OrganizationID c = oid \<and> Some (inv_ID c) = after_id)
                     (organization_invitations t)))
         (pending_of_org oid t)))"

text \<open>The columns the pending lists return: no terminal state, and the names of the organization.\<close>

definition pending_of_account :: "did \<Rightarrow> instant \<Rightarrow> org_tables \<Rightarrow> invitation list" where
  "pending_of_account account expires_at t =
     [i\<lparr>inv_OrganizationSlug := org_Slug (or_org r), inv_OrganizationName := org_Name (or_org r)\<rparr>.
        i \<leftarrow> organization_invitations t, r \<leftarrow> organizations t,
        org_key r = inv_OrganizationID i \<and> inv_InviteeDID i = account \<and> pending i
        \<and> inv_ExpiresAt i > expires_at \<and> org_State (or_org r) = OrgActive \<and> live_org r]"

definition sql_ListPendingInvitationsForAccount ::
  "did \<Rightarrow> instant \<Rightarrow> org_tables \<Rightarrow> invitation list" where
  "sql_ListPendingInvitationsForAccount account expires_at t =
     sort_by (\<lambda>a b. inv_CreatedAt b \<le> inv_CreatedAt a) (pending_of_account account expires_at t)"

definition sql_PagePendingInvitationsForAccount ::
  "did \<Rightarrow> instant \<Rightarrow> uuid option \<Rightarrow> int \<Rightarrow> org_tables \<Rightarrow> invitation list" where
  "sql_PagePendingInvitationsForAccount account expires_at after_id page_limit t =
     take (nat page_limit) (sort_by (newest_first inv_time)
       (filter (after_cursor inv_time after_id
                  (find (\<lambda>c. inv_InviteeDID c = account \<and> Some (inv_ID c) = after_id)
                     (organization_invitations t)))
         (pending_of_account account expires_at t)))"

section \<open>Audit events\<close>

abbreviation aud_time :: "audit_event \<Rightarrow> instant \<times> uuid" where
  "aud_time a \<equiv> (aud_CreatedAt a, aud_ID a)"

definition sql_ListOrganizationAuditEvents ::
  "uuid \<Rightarrow> uuid option \<Rightarrow> int \<Rightarrow> org_tables \<Rightarrow> audit_event list" where
  "sql_ListOrganizationAuditEvents oid after_id page_limit t =
     take (nat page_limit) (sort_by (newest_first aud_time)
       (filter (after_cursor aud_time after_id
                  (find (\<lambda>c. aud_OrganizationID c = oid \<and> Some (aud_ID c) = after_id)
                     (organization_audit_events t)))
         (filter (\<lambda>a. aud_OrganizationID a = oid) (organization_audit_events t))))"

end
