(* ===== verification/Org_Store.thy ===== *)
theory Org_Store
  imports Org_Queries
begin

text \<open>
  \<^verbatim>\<open>internal/organization/postgres.go\<close>: the operations of \<open>PostgresStore\<close> over a
  database that may fail at any statement. The world holds the tables, the collation and
  a script of faults: each statement, \<open>BEGIN\<close> and \<open>COMMIT\<close> takes the next entry, and
  a true entry makes it fail with an error that is neither "no rows" nor a constraint
  violation. Statements, and the transactions that lock the rows they decide on, are
  atomic. A transaction that returns an error is rolled back.
\<close>

record pg_world =
  tables :: org_tables
  collation :: "string \<Rightarrow> string \<Rightarrow> bool"
  faults :: "bool list"

definition pg_exec :: "'a sql \<Rightarrow> ('x pg_world_scheme, 'a) op" where
  "pg_exec q w =
     (let v = w\<lparr>faults := tl (faults w)\<rparr>
      in if faults w \<noteq> [] \<and> hd (faults w) then (Inl (Opaque ''database''), v)
         else case q (tables w) of
             Inl e \<Rightarrow> (Inl e, v)
           | Inr (x, t) \<Rightarrow> (Inr x, v\<lparr>tables := t\<rparr>))"

definition mapStoreError :: "err \<Rightarrow> err" where
  "mapStoreError e =
     (if errors_is e pgx_ErrNoRows then Sentinel org_ErrNotFound
      else if as_pg_error e = Some ''23505'' then Sentinel org_ErrAlreadyExists
      else wrapf ''organization query'' e)"

text \<open>A query and its \<open>if err != nil { return mapStoreError(err) }\<close>.\<close>

definition pg_query :: "'a sql \<Rightarrow> ('x pg_world_scheme, 'a) op" where
  "pg_query q = call (pg_exec q) mapStoreError ret"

definition pg_select ::
  "((string \<Rightarrow> string \<Rightarrow> bool) \<Rightarrow> org_tables \<Rightarrow> 'a) \<Rightarrow> ('x pg_world_scheme, 'a) op" where
  "pg_select f w = pg_query (\<lambda>t. Inr (f (collation w) t, t)) w"

text \<open>\<open>Begin\<close>, the body, \<open>Commit\<close>, and the deferred \<open>Rollback\<close> on every error path.\<close>

definition transaction ::
  "string \<Rightarrow> string \<Rightarrow> ('x pg_world_scheme, 'a) op \<Rightarrow> ('x pg_world_scheme, 'a) op" where
  "transaction begin_msg commit_msg body w =
     (let nothing = (\<lambda>t. Inr ((), t));
          run = call (pg_exec nothing) (wrapf begin_msg) (\<lambda>_.
                call body (\<lambda>e. e) (\<lambda>x.
                call (pg_exec nothing) (wrapf commit_msg) (\<lambda>_.
                ret x)))
      in case run w of
           (Inl e, v) \<Rightarrow> (Inl e, v\<lparr>tables := tables w\<rparr>)
         | (Inr x, v) \<Rightarrow> (Inr x, v))"

section \<open>Organizations\<close>

definition pg_Create :: "organization \<Rightarrow> ('x pg_world_scheme, organization) op" where
  "pg_Create value =
     transaction ''begin organization creation'' ''commit organization creation''
       (call (pg_exec (sql_CreateOrganization value)) mapStoreError (\<lambda>row.
        call (pg_exec (sql_CreateOrganizationOwnerRoute (org_Slug value) (org_ID value)))
          mapStoreError (\<lambda>_.
        call (pg_exec (sql_CreateOrganizationOwner (org_ID value) (org_CreatorDID value)
                         (org_CreatedAt value))) mapStoreError (\<lambda>_.
        ret row))))"

definition pg_Activate ::
  "uuid \<Rightarrow> at_identity \<Rightarrow> instant \<Rightarrow> ('x pg_world_scheme, organization) op" where
  "pg_Activate oid identity updatedAt = pg_query (sql_ActivateOrganization oid identity updatedAt)"

definition pg_Fail :: "uuid \<Rightarrow> instant \<Rightarrow> ('x pg_world_scheme, unit) op" where
  "pg_Fail oid updatedAt =
     call (pg_query (sql_FailOrganization oid updatedAt)) (\<lambda>e. e) (\<lambda>_. ret ())"

definition pg_GetBySlug :: "string \<Rightarrow> ('x pg_world_scheme, organization) op" where
  "pg_GetBySlug slug = pg_query (sql_GetOrganizationBySlug slug)"

definition pg_Update :: "organization \<Rightarrow> ('x pg_world_scheme, organization) op" where
  "pg_Update value = pg_query (sql_UpdateOrganization value)"

definition pg_GetByID :: "uuid \<Rightarrow> ('x pg_world_scheme, organization) op" where
  "pg_GetByID oid = pg_query (sql_GetOrganizationByID oid)"

definition pg_ListForAccount :: "did \<Rightarrow> ('x pg_world_scheme, organization list) op" where
  "pg_ListForAccount account =
     pg_select (\<lambda>text_le. sql_ListOrganizationsForAccount text_le account)"

definition pg_PageForAccount ::
  "did \<Rightarrow> uuid option \<Rightarrow> int \<Rightarrow> ('x pg_world_scheme, organization list) op" where
  "pg_PageForAccount account after limit =
     pg_select (\<lambda>_. sql_PageOrganizationsForAccount account after limit)"

section \<open>Members\<close>

definition pg_GetOwner :: "uuid \<Rightarrow> did \<Rightarrow> ('x pg_world_scheme, member) op" where
  "pg_GetOwner oid account = pg_query (sql_GetOrganizationOwner oid account)"

definition pg_GetMember :: "uuid \<Rightarrow> did \<Rightarrow> ('x pg_world_scheme, member) op" where
  "pg_GetMember oid account = pg_query (sql_GetOrganizationMember oid account)"

definition pg_ListMembers :: "uuid \<Rightarrow> ('x pg_world_scheme, member list) op" where
  "pg_ListMembers oid = pg_select (\<lambda>text_le. sql_ListOrganizationMembers text_le oid)"

definition pg_PageMembers ::
  "uuid \<Rightarrow> bool \<Rightarrow> did \<Rightarrow> int \<Rightarrow> ('x pg_world_scheme, member list) op" where
  "pg_PageMembers oid includePrivate after limit =
     pg_select (\<lambda>text_le. sql_PageOrganizationMembers text_le oid includePrivate after limit)"

definition pg_UpdateMemberRole ::
  "uuid \<Rightarrow> did \<Rightarrow> role \<Rightarrow> at_identity \<Rightarrow> at_identity \<Rightarrow> instant
     \<Rightarrow> ('x pg_world_scheme, member) op" where
  "pg_UpdateMemberRole oid account role grant membership now =
     transaction ''begin member role update'' ''commit member role update''
       (call (pg_exec (sql_LockOrganizationOwners oid)) mapStoreError (\<lambda>owners.
        fail_if (role \<noteq> RoleOwner \<and> length owners = 1 \<and> hd owners = account)
          (Sentinel org_ErrLastOwner) (
        call (pg_exec (sql_UpdateOrganizationMemberRole oid account role grant membership now))
          mapStoreError (\<lambda>m.
        ret m))))"

definition pg_RemoveMember :: "uuid \<Rightarrow> did \<Rightarrow> ('x pg_world_scheme, member) op" where
  "pg_RemoveMember oid account =
     transaction ''begin member removal'' ''commit member removal''
       (call (pg_exec (sql_LockOrganizationOwners oid)) mapStoreError (\<lambda>owners.
        fail_if (length owners = 1 \<and> hd owners = account) (Sentinel org_ErrLastOwner) (
        call (pg_exec (sql_DeleteOrganizationMember oid account)) mapStoreError (\<lambda>m.
        ret m))))"

definition pg_UpdateVisibility ::
  "uuid \<Rightarrow> did \<Rightarrow> membership_visibility \<Rightarrow> at_identity \<Rightarrow> at_identity \<Rightarrow> instant
     \<Rightarrow> ('x pg_world_scheme, member) op" where
  "pg_UpdateVisibility oid account visibility grant membership now =
     pg_query (sql_UpdateOrganizationMembershipVisibility oid account visibility grant membership now)"

section \<open>Invitations\<close>

definition pg_CreateInvitation :: "invitation \<Rightarrow> ('x pg_world_scheme, invitation) op" where
  "pg_CreateInvitation value = pg_query (sql_CreateOrganizationInvitation value)"

definition pg_RevokeInvitation :: "uuid \<Rightarrow> instant \<Rightarrow> ('x pg_world_scheme, unit) op" where
  "pg_RevokeInvitation iid revokedAt =
     call (pg_query (sql_RevokeOrganizationInvitation iid revokedAt)) (\<lambda>e. e) (\<lambda>_. ret ())"

definition pg_GetInvitation :: "uuid \<Rightarrow> ('x pg_world_scheme, invitation) op" where
  "pg_GetInvitation iid = pg_query (sql_GetOrganizationInvitation iid)"

definition pg_ListInvitations :: "uuid \<Rightarrow> ('x pg_world_scheme, invitation list) op" where
  "pg_ListInvitations oid = pg_select (\<lambda>_. sql_ListOrganizationInvitations oid)"

definition pg_PageInvitations ::
  "uuid \<Rightarrow> uuid option \<Rightarrow> int \<Rightarrow> ('x pg_world_scheme, invitation list) op" where
  "pg_PageInvitations oid after limit =
     pg_select (\<lambda>_. sql_PageOrganizationInvitations oid after limit)"

definition pg_ListPendingInvitations ::
  "did \<Rightarrow> instant \<Rightarrow> ('x pg_world_scheme, invitation list) op" where
  "pg_ListPendingInvitations account now =
     pg_select (\<lambda>_. sql_ListPendingInvitationsForAccount account now)"

definition pg_PagePendingInvitations ::
  "did \<Rightarrow> instant \<Rightarrow> uuid option \<Rightarrow> int \<Rightarrow> ('x pg_world_scheme, invitation list) op" where
  "pg_PagePendingInvitations account now after limit =
     pg_select (\<lambda>_. sql_PagePendingInvitationsForAccount account now after limit)"

definition pg_AcceptInvitation ::
  "uuid \<Rightarrow> did \<Rightarrow> at_identity \<Rightarrow> instant \<Rightarrow> ('x pg_world_scheme, member) op" where
  "pg_AcceptInvitation iid actorDID membership now =
     transaction ''begin invitation acceptance'' ''commit invitation acceptance''
       (call (pg_exec (sql_GetOrganizationInvitation iid)) mapStoreError (\<lambda>value.
        fail_if (inv_InviteeDID value \<noteq> actorDID \<or> \<not> Invitation_Active value now)
          (Sentinel org_ErrInvitation) (
        call (pg_exec (sql_AcceptOrganizationInvitation iid now)) mapStoreError (\<lambda>_.
        call (pg_exec (sql_CreateOrganizationMemberFromInvitation value actorDID membership now))
          mapStoreError (\<lambda>m.
        ret m)))))"

section \<open>Audit events\<close>

definition pg_RecordAudit :: "audit_event \<Rightarrow> ('x pg_world_scheme, unit) op" where
  "pg_RecordAudit event = pg_query (sql_InsertOrganizationAuditEvent event)"

definition pg_ListAuditEvents ::
  "uuid \<Rightarrow> uuid option \<Rightarrow> int \<Rightarrow> ('x pg_world_scheme, audit_event list) op" where
  "pg_ListAuditEvents oid after limit =
     pg_select (\<lambda>_. sql_ListOrganizationAuditEvents oid after limit)"

text \<open>
  The interfaces \<^verbatim>\<open>internal/organization/service.go\<close> is written against, as records of
  operations over a world type: \<open>store\<close>, \<open>publisher\<close>, \<open>clock\<close> and \<open>idGenerator\<close>,
  and the \<open>Service\<close> struct that holds them. Beside the fields of the struct,
  \<open>organization_service\<close> carries what the methods take from libraries and the request:
  \<open>uuid.New\<close>, \<open>uuid.UUID.String\<close>, the acceptance of \<open>syntax.ParseDID\<close>, and the
  request id of the context.
\<close>

record 'w organization_store =
  st_Create :: "organization \<Rightarrow> ('w, organization) op"
  st_Activate :: "uuid \<Rightarrow> at_identity \<Rightarrow> instant \<Rightarrow> ('w, organization) op"
  st_Fail :: "uuid \<Rightarrow> instant \<Rightarrow> ('w, unit) op"
  st_GetBySlug :: "string \<Rightarrow> ('w, organization) op"
  st_Update :: "organization \<Rightarrow> ('w, organization) op"
  st_ListForAccount :: "did \<Rightarrow> ('w, organization list) op"
  st_PageForAccount :: "did \<Rightarrow> uuid option \<Rightarrow> int \<Rightarrow> ('w, organization list) op"
  st_ListMembers :: "uuid \<Rightarrow> ('w, member list) op"
  st_PageMembers :: "uuid \<Rightarrow> bool \<Rightarrow> did \<Rightarrow> int \<Rightarrow> ('w, member list) op"
  st_GetByID :: "uuid \<Rightarrow> ('w, organization) op"
  st_GetOwner :: "uuid \<Rightarrow> did \<Rightarrow> ('w, member) op"
  st_GetMember :: "uuid \<Rightarrow> did \<Rightarrow> ('w, member) op"
  st_CreateInvitation :: "invitation \<Rightarrow> ('w, invitation) op"
  st_RevokeInvitation :: "uuid \<Rightarrow> instant \<Rightarrow> ('w, unit) op"
  st_GetInvitation :: "uuid \<Rightarrow> ('w, invitation) op"
  st_ListInvitations :: "uuid \<Rightarrow> ('w, invitation list) op"
  st_PageInvitations :: "uuid \<Rightarrow> uuid option \<Rightarrow> int \<Rightarrow> ('w, invitation list) op"
  st_ListPendingInvitations :: "did \<Rightarrow> instant \<Rightarrow> ('w, invitation list) op"
  st_PagePendingInvitations ::
    "did \<Rightarrow> instant \<Rightarrow> uuid option \<Rightarrow> int \<Rightarrow> ('w, invitation list) op"
  st_AcceptInvitation :: "uuid \<Rightarrow> did \<Rightarrow> at_identity \<Rightarrow> instant \<Rightarrow> ('w, member) op"
  st_UpdateMemberRole ::
    "uuid \<Rightarrow> did \<Rightarrow> role \<Rightarrow> at_identity \<Rightarrow> at_identity \<Rightarrow> instant \<Rightarrow> ('w, member) op"
  st_RemoveMember :: "uuid \<Rightarrow> did \<Rightarrow> ('w, member) op"
  st_UpdateVisibility ::
    "uuid \<Rightarrow> did \<Rightarrow> membership_visibility \<Rightarrow> at_identity \<Rightarrow> at_identity \<Rightarrow> instant \<Rightarrow> ('w, member) op"
  st_RecordAudit :: "audit_event \<Rightarrow> ('w, unit) op"
  st_ListAuditEvents :: "uuid \<Rightarrow> uuid option \<Rightarrow> int \<Rightarrow> ('w, audit_event list) op"

record 'w organization_publisher =
  PublishOrganization :: "publication \<Rightarrow> ('w, at_identity) op"
  PublishOrganizationGrant :: "grant_publication \<Rightarrow> ('w, at_identity) op"
  PublishOrganizationMembership :: "membership_publication \<Rightarrow> ('w, at_identity) op"
  PublishOrganizationRevocation :: "revocation_publication \<Rightarrow> ('w, at_identity) op"
  DeleteOrganizationMembership :: "did \<Rightarrow> at_identity \<Rightarrow> at_identity \<Rightarrow> ('w, unit) op"

record 'w organization_service =
  store :: "'w organization_store"
  clock :: "'w \<Rightarrow> instant \<times> 'w"
  ids :: "('w, uuid) op"
  publisher :: "'w organization_publisher"
  uuid_new :: "'w \<Rightarrow> uuid \<times> 'w"
  uuid_string :: "uuid \<Rightarrow> string"
  canonical_did :: "string \<Rightarrow> bool"
  request_id :: string

text \<open>\<open>PostgresStore\<close> as a value of the interface.\<close>

definition postgres_store :: "'x pg_world_scheme organization_store" where
  "postgres_store =
     \<lparr>st_Create = pg_Create, st_Activate = pg_Activate, st_Fail = pg_Fail,
      st_GetBySlug = pg_GetBySlug, st_Update = pg_Update, st_ListForAccount = pg_ListForAccount,
      st_PageForAccount = pg_PageForAccount, st_ListMembers = pg_ListMembers,
      st_PageMembers = pg_PageMembers, st_GetByID = pg_GetByID, st_GetOwner = pg_GetOwner,
      st_GetMember = pg_GetMember, st_CreateInvitation = pg_CreateInvitation,
      st_RevokeInvitation = pg_RevokeInvitation, st_GetInvitation = pg_GetInvitation,
      st_ListInvitations = pg_ListInvitations, st_PageInvitations = pg_PageInvitations,
      st_ListPendingInvitations = pg_ListPendingInvitations,
      st_PagePendingInvitations = pg_PagePendingInvitations,
      st_AcceptInvitation = pg_AcceptInvitation, st_UpdateMemberRole = pg_UpdateMemberRole,
      st_RemoveMember = pg_RemoveMember, st_UpdateVisibility = pg_UpdateVisibility,
      st_RecordAudit = pg_RecordAudit, st_ListAuditEvents = pg_ListAuditEvents\<rparr>"

end
