(* ===== verification/Org_Service.thy ===== *)
theory Org_Service imports Org_Store begin

text \<open>
  \<^verbatim>\<open>internal/organization/service.go\<close>: the methods of \<open>Service\<close>, each with every call it
  makes in the order it makes them. An error that is returned as it came is passed through
  \<open>\<lambda>e. e\<close>; an error \<open>fmt.Errorf("text: %w", err)\<close> through \<open>wrapf\<close>.
\<close>

section \<open>Pages\<close>

definition validateCollectionLimit :: "int \<Rightarrow> err option" where
  "validateCollectionLimit limit =
     (if limit < 1 \<or> limit > 100
      then Some (because org_ErrValidation ''limit must be between 1 and 100'') else None)"

definition keysetPage :: "'a list \<Rightarrow> int \<Rightarrow> ('a \<Rightarrow> string) \<Rightarrow> 'a page" where
  "keysetPage values limit key =
     \<lparr>Items = page_items values (nat limit),
      NextCursor = (case page_cursor values (nat limit) key of None \<Rightarrow> [] | Some c \<Rightarrow> c)\<rparr>"

section \<open>Audit and authorization\<close>

text \<open>
  \<open>recordOrganizationAudit\<close> takes the \<open>auditStore\<close> as its one method, and the clock; the
  event id comes from \<open>uuid.New\<close> and the request id from the context.
\<close>

definition recordOrganizationAudit ::
  "(audit_event \<Rightarrow> ('w, unit) op) \<Rightarrow> ('w \<Rightarrow> instant \<times> 'w) \<Rightarrow> ('w \<Rightarrow> uuid \<times> 'w) \<Rightarrow> string
     \<Rightarrow> uuid \<Rightarrow> did \<Rightarrow> string \<Rightarrow> string \<Rightarrow> string \<Rightarrow> (string \<times> json) list \<Rightarrow> ('w, unit) op" where
  "recordOrganizationAudit record_audit now_of fresh request
     organizationID actorDID action targetType targetID metadata =
     with_now fresh (\<lambda>eventID.
     with_now now_of (\<lambda>now.
     call (record_audit
             \<lparr>aud_ID = eventID, aud_OrganizationID = organizationID, aud_ActorDID = actorDID,
              aud_Action = action, aud_TargetType = targetType, aud_TargetID = targetID,
              aud_RequestID = request, aud_Metadata = metadata, aud_CreatedAt = now\<rparr>)
       (wrapf ''record organization audit event'') (\<lambda>_.
     ret ())))"

definition audit ::
  "'w organization_service \<Rightarrow> uuid \<Rightarrow> did \<Rightarrow> string \<Rightarrow> string \<Rightarrow> string \<Rightarrow> (string \<times> json) list
     \<Rightarrow> ('w, unit) op" where
  "audit S = recordOrganizationAudit (st_RecordAudit (store S)) (clock S) (uuid_new S) (request_id S)"

definition authorizeOwner ::
  "'w organization_service \<Rightarrow> uuid \<Rightarrow> did \<Rightarrow> ('w, organization \<times> member) op" where
  "authorizeOwner S organizationID actorDID =
     call (st_GetByID (store S) organizationID) (wrapf ''get organization'') (\<lambda>organization.
     call (st_GetOwner (store S) organizationID actorDID)
       (\<lambda>e. if errors_is e org_ErrNotFound then Sentinel org_ErrForbidden
            else wrapf ''authorize organization owner'' e) (\<lambda>owner.
     ret (organization, owner)))"

definition publicationAuthority :: "organization \<Rightarrow> member \<Rightarrow> did \<times> at_identity" where
  "publicationAuthority organization owner =
     (if mem_GrantURI owner \<noteq> []
      then (mem_AccountDID owner, \<lparr>at_URI = mem_GrantURI owner, at_CID = mem_GrantCID owner\<rparr>)
      else (org_CreatorDID organization,
            \<lparr>at_URI = org_ATURI organization, at_CID = org_ATCID organization\<rparr>))"

abbreviation org_identity :: "organization \<Rightarrow> at_identity" where
  "org_identity v \<equiv> \<lparr>at_URI = org_ATURI v, at_CID = org_ATCID v\<rparr>"

definition role_text :: "role \<Rightarrow> string" where
  "role_text r = (case r of RoleOwner \<Rightarrow> ''owner'' | RoleMember \<Rightarrow> ''member'' | Role_Other s \<Rightarrow> s)"

definition visibility_text :: "membership_visibility \<Rightarrow> string" where
  "visibility_text v = (case v of VisibilityPrivate \<Rightarrow> ''private'' | VisibilityPublic \<Rightarrow> ''public''
                                | Visibility_Other s \<Rightarrow> s)"

definition permission_text :: "base_permission \<Rightarrow> string" where
  "permission_text p = (case p of BasePermissionNone \<Rightarrow> ''none'' | BasePermissionRead \<Rightarrow> ''read''
                                | BasePermissionWrite \<Rightarrow> ''write'' | BasePermission_Other s \<Rightarrow> s)"

section \<open>Creating and updating an organization\<close>

text \<open>\<open>fail\<close> marks the organization failed and returns the cause, joined with the error of doing so.\<close>

definition org_fail :: "'w organization_service \<Rightarrow> uuid \<Rightarrow> err \<Rightarrow> ('w, 'a) op" where
  "org_fail S oid cause =
     with_now (clock S) (\<lambda>now.
     attempt (st_Fail (store S) oid now)
       (\<lambda>e. raise (join_cause cause (Some (wrapf ''mark organization failed'' e))))
       (\<lambda>_. raise (join_cause cause None)))"

definition org_publication :: "organization \<Rightarrow> publication" where
  "org_publication v =
     \<lparr>pub_ID = org_ID v, pub_CreatorDID = org_CreatorDID v, pub_Slug = org_Slug v,
      pub_Name = org_Name v, pub_Description = org_Description v, pub_Website = org_Website v,
      pub_Location = org_Location v, pub_CreatedAt = org_CreatedAt v, pub_UpdatedAt = org_UpdatedAt v\<rparr>"

definition Create :: "'w organization_service \<Rightarrow> create_input \<Rightarrow> ('w, organization) op" where
  "Create S input =
     check (CreateInput_Validate input) (\<lambda>e. e) (
     call (ids S) (wrapf ''generate organization ID'') (\<lambda>oid.
     with_now (clock S) (\<lambda>now.
     call (st_Create (store S)
             \<lparr>org_ID = oid, org_Slug = ci_Slug input, org_Name = ci_Name input,
              org_Description = ci_Description input, org_Website = ci_Website input,
              org_Location = ci_Location input, org_CreatorDID = ci_CreatorDID input,
              org_BasePermission = ci_BasePermission input,
              org_MembersCanCreateRepo = ci_MembersCanCreateRepo input,
              org_State = OrgCreating, org_ATURI = [], org_ATCID = [],
              org_CreatedAt = now, org_UpdatedAt = now\<rparr>)
       (wrapf ''create organization'') (\<lambda>organization.
     attempt (PublishOrganization (publisher S) (org_publication organization))
       (\<lambda>e. org_fail S (org_ID organization) (wrapf ''publish organization'' e)) (\<lambda>identity.
     with_now (clock S) (\<lambda>later.
     attempt (st_Activate (store S) (org_ID organization) identity later)
       (\<lambda>e. org_fail S (org_ID organization) (wrapf ''activate organization'' e)) (\<lambda>activated.
     call (audit S (org_ID activated) (ci_CreatorDID input) ''organization.create''
             ''organization'' (uuid_string S (org_ID activated))
             [(''slug'', JString (org_Slug activated))]) (\<lambda>e. e) (\<lambda>_.
     ret activated))))))))"

definition GetBySlug :: "'w organization_service \<Rightarrow> string \<Rightarrow> ('w, organization) op" where
  "GetBySlug S slug = call (st_GetBySlug (store S) slug) (wrapf ''get organization'') ret"

definition Update :: "'w organization_service \<Rightarrow> update_input \<Rightarrow> ('w, organization) op" where
  "Update S input =
     check (UpdateInput_Validate input) (\<lambda>e. e) (
     call (authorizeOwner S (ui_OrganizationID input) (ui_ActorDID input)) (\<lambda>e. e) (\<lambda>(value0, _).
     with_now (clock S) (\<lambda>now.
     let value1 = value0\<lparr>org_Name := ui_Name input, org_Description := ui_Description input,
                         org_Website := ui_Website input, org_Location := ui_Location input,
                         org_BasePermission := ui_BasePermission input,
                         org_MembersCanCreateRepo := ui_MembersCanCreateRepo input,
                         org_UpdatedAt := now\<rparr>
     in call (PublishOrganization (publisher S) (org_publication value1))
          (wrapf ''publish organization update'') (\<lambda>identity.
        call (st_Update (store S) (value1\<lparr>org_ATCID := at_CID identity\<rparr>))
          (wrapf ''store organization update'') (\<lambda>updated.
        call (audit S (org_ID value1) (ui_ActorDID input) ''organization.update'' ''organization''
                (uuid_string S (org_ID value1))
                [(''base_permission'', JString (permission_text (org_BasePermission value1))),
                 (''members_can_create_repositories'', JBool (org_MembersCanCreateRepo value1))])
          (\<lambda>e. e) (\<lambda>_.
        ret updated))))))"

section \<open>Reading\<close>

definition ListForAccount :: "'w organization_service \<Rightarrow> did \<Rightarrow> ('w, organization list) op" where
  "ListForAccount S account =
     call (st_ListForAccount (store S) account) (wrapf ''list organizations'') ret"

definition PageForAccount ::
  "'w organization_service \<Rightarrow> did \<Rightarrow> uuid option \<Rightarrow> int \<Rightarrow> ('w, organization page) op" where
  "PageForAccount S account after limit =
     check (validateCollectionLimit limit) (\<lambda>e. e) (
     call (st_PageForAccount (store S) account after (limit + 1)) (wrapf ''page organizations'') (\<lambda>values.
     ret (keysetPage values limit (\<lambda>v. uuid_string S (org_ID v)))))"

definition ListMembers :: "'w organization_service \<Rightarrow> uuid \<Rightarrow> ('w, member list) op" where
  "ListMembers S oid = call (st_ListMembers (store S) oid) (wrapf ''list organization members'') ret"

definition PageMembers ::
  "'w organization_service \<Rightarrow> uuid \<Rightarrow> bool \<Rightarrow> did \<Rightarrow> int \<Rightarrow> ('w, member page) op" where
  "PageMembers S oid includePrivate after limit =
     check (validateCollectionLimit limit) (\<lambda>e. e) (
     call (st_PageMembers (store S) oid includePrivate after (limit + 1))
       (wrapf ''page organization members'') (\<lambda>values.
     ret (keysetPage values limit mem_AccountDID)))"

definition GetMember :: "'w organization_service \<Rightarrow> uuid \<Rightarrow> did \<Rightarrow> ('w, member) op" where
  "GetMember S oid account =
     call (st_GetMember (store S) oid account) (wrapf ''get organization member'') ret"

section \<open>Invitations\<close>

text \<open>The owner check most methods open with: a missing owner row is \<open>ErrForbidden\<close>.\<close>

definition require_owner :: "'w organization_service \<Rightarrow> uuid \<Rightarrow> did \<Rightarrow> string \<Rightarrow> (member \<Rightarrow> ('w, 'a) op)
    \<Rightarrow> ('w, 'a) op" where
  "require_owner S organizationID actorDID msg k =
     call (st_GetOwner (store S) organizationID actorDID)
       (\<lambda>e. if errors_is e org_ErrNotFound then Sentinel org_ErrForbidden else wrapf msg e) k"

definition Invite :: "'w organization_service \<Rightarrow> invite_input \<Rightarrow> ('w, invitation) op" where
  "Invite S input =
     check (InviteInput_Validate (canonical_did S) input) (\<lambda>e. e) (
     call (st_GetByID (store S) (ii_OrganizationID input))
       (wrapf ''load organization for invitation'') (\<lambda>organization.
     require_owner S (ii_OrganizationID input) (ii_ActorDID input)
       ''authorize organization invitation'' (\<lambda>_.
     call (ids S) (wrapf ''generate invitation ID'') (\<lambda>iid.
     with_now (clock S) (\<lambda>now.
     call (st_CreateInvitation (store S)
             \<lparr>inv_ID = iid, inv_OrganizationID = org_ID organization, inv_OrganizationSlug = [],
              inv_OrganizationName = [], inv_InviteeDID = ii_InviteeDID input,
              inv_Role = ii_Role input, inv_InvitedByDID = ii_ActorDID input,
              inv_GrantURI = [], inv_GrantCID = [], inv_CreatedAt = now,
              inv_ExpiresAt = now + InvitationLifetime, inv_RevokedAt = None, inv_AcceptedAt = None\<rparr>)
       (wrapf ''create organization invitation'') (\<lambda>invitation.
     call (audit S (org_ID organization) (ii_ActorDID input) ''member.invite'' ''invitation''
             (uuid_string S (inv_ID invitation))
             [(''subject_did'', JString (ii_InviteeDID input)), (''role'', JString (role_text (ii_Role input)))])
       (\<lambda>e. e) (\<lambda>_.
     ret invitation)))))))"

definition Accept :: "'w organization_service \<Rightarrow> uuid \<Rightarrow> did \<Rightarrow> ('w, member) op" where
  "Accept S invitationID actorDID =
     call (st_GetInvitation (store S) invitationID) (wrapf ''get organization invitation'') (\<lambda>invitation.
     (let accept =
        with_now (clock S) (\<lambda>now.
        call (st_AcceptInvitation (store S) invitationID actorDID no_identity now)
          (wrapf ''accept organization invitation'') (\<lambda>m.
        call (audit S (inv_OrganizationID invitation) actorDID ''member.accept'' ''member'' actorDID
                [(''invitation_id'', JString (uuid_string S invitationID)),
                 (''role'', JString (role_text (inv_Role invitation)))]) (\<lambda>e. e) (\<lambda>_.
        ret m)))
      in if inv_InviteeDID invitation \<noteq> actorDID then raise (Sentinel org_ErrInvitation)
         else with_now (clock S) (\<lambda>now.
              fail_if (\<not> Invitation_Active invitation now) (Sentinel org_ErrInvitation) accept)))"

definition ListInvitations :: "'w organization_service \<Rightarrow> uuid \<Rightarrow> did \<Rightarrow> ('w, invitation list) op" where
  "ListInvitations S organizationID actorDID =
     require_owner S organizationID actorDID ''authorize invitation list'' (\<lambda>_.
     st_ListInvitations (store S) organizationID)"

definition PageInvitations ::
  "'w organization_service \<Rightarrow> uuid \<Rightarrow> did \<Rightarrow> uuid option \<Rightarrow> int \<Rightarrow> ('w, invitation page) op" where
  "PageInvitations S organizationID actorDID after limit =
     check (validateCollectionLimit limit) (\<lambda>e. e) (
     require_owner S organizationID actorDID ''authorize invitation page'' (\<lambda>_.
     call (st_PageInvitations (store S) organizationID after (limit + 1))
       (wrapf ''page organization invitations'') (\<lambda>values.
     ret (keysetPage values limit (\<lambda>v. uuid_string S (inv_ID v))))))"

definition ListPendingInvitations :: "'w organization_service \<Rightarrow> did \<Rightarrow> ('w, invitation list) op" where
  "ListPendingInvitations S actorDID =
     with_now (clock S) (\<lambda>now. st_ListPendingInvitations (store S) actorDID now)"

definition PagePendingInvitations ::
  "'w organization_service \<Rightarrow> did \<Rightarrow> uuid option \<Rightarrow> int \<Rightarrow> ('w, invitation page) op" where
  "PagePendingInvitations S actorDID after limit =
     check (validateCollectionLimit limit) (\<lambda>e. e) (
     with_now (clock S) (\<lambda>now.
     call (st_PagePendingInvitations (store S) actorDID now after (limit + 1))
       (wrapf ''page pending organization invitations'') (\<lambda>values.
     ret (keysetPage values limit (\<lambda>v. uuid_string S (inv_ID v))))))"

definition RevokeInvitation ::
  "'w organization_service \<Rightarrow> uuid \<Rightarrow> uuid \<Rightarrow> did \<Rightarrow> ('w, unit) op" where
  "RevokeInvitation S organizationID invitationID actorDID =
     call (authorizeOwner S organizationID actorDID) (\<lambda>e. e) (\<lambda>(value, owner).
     call (st_GetInvitation (store S) invitationID) (\<lambda>_. Sentinel org_ErrInvitation) (\<lambda>invitation.
     fail_if (inv_OrganizationID invitation \<noteq> organizationID) (Sentinel org_ErrInvitation) (
     with_now (clock S) (\<lambda>seen.
     fail_if (\<not> Invitation_Active invitation seen) (Sentinel org_ErrInvitation) (
     with_now (clock S) (\<lambda>now.
     (let revoke =
        call (st_RevokeInvitation (store S) invitationID now)
          (wrapf ''revoke organization invitation'') (\<lambda>_.
        call (audit S organizationID actorDID ''invitation.revoke'' ''invitation''
                (uuid_string S invitationID)
                [(''subject_did'', JString (inv_InviteeDID invitation))]) (\<lambda>e. e) (\<lambda>_.
        ret ()))
      in if inv_GrantURI invitation \<noteq> [] then
           call (ids S) (wrapf ''generate invitation revocation ID'') (\<lambda>rid.
           let (issuer, authority) = publicationAuthority value owner
           in call (PublishOrganizationRevocation (publisher S)
                     \<lparr>rp_ID = rid, rp_ActorDID = issuer, rp_Organization = org_identity value,
                      rp_Grant = \<lparr>at_URI = inv_GrantURI invitation, at_CID = inv_GrantCID invitation\<rparr>,
                      rp_SubjectDID = inv_InviteeDID invitation, rp_Authority = authority,
                      rp_CreatedAt = now\<rparr>)
                (wrapf ''publish invitation revocation'') (\<lambda>_. revoke))
         else revoke)))))))"

end
