(* ===== verification/Org_Members.thy ===== *)
theory Org_Members imports Org_Service begin

text \<open>
  \<^verbatim>\<open>internal/organization/service.go\<close>, from \<open>SetVisibility\<close> on: the methods that change a
  membership, with the public records they write and withdraw, and the audit page.
\<close>

section \<open>Visibility\<close>

text \<open>
  The branch that makes a membership public publishes a grant and the member's
  acceptance; the other revokes the grant and deletes the acceptance, where they exist.
  Both end in the store update and the audit event (\<open>finish\<close>).
\<close>

definition make_public ::
  "'w organization_service \<Rightarrow> uuid \<Rightarrow> organization \<Rightarrow> member \<Rightarrow> did \<Rightarrow> instant
     \<Rightarrow> (at_identity \<Rightarrow> at_identity \<Rightarrow> ('w, 'a) op) \<Rightarrow> ('w, 'a) op" where
  "make_public S organizationID organization m actorDID now finish =
     call (st_GetOwner (store S) organizationID (org_CreatorDID organization))
       (wrapf ''load organization controller'') (\<lambda>owner.
     call (ids S) (wrapf ''generate public membership grant ID'') (\<lambda>grantID.
     let (issuer, authority) = publicationAuthority organization owner
     in call (PublishOrganizationGrant (publisher S)
               \<lparr>gp_ID = grantID, gp_ActorDID = issuer, gp_Organization = org_identity organization,
                gp_SubjectDID = actorDID, gp_Role = mem_Role m, gp_Authority = authority,
                gp_CreatedAt = now, gp_ExpiresAt = 0\<rparr>)
          (wrapf ''publish public membership grant'') (\<lambda>grant.
        call (PublishOrganizationMembership (publisher S)
               \<lparr>mp_ActorDID = actorDID, mp_Organization = org_identity organization,
                mp_Grant = grant, mp_Visibility = VisibilityPublic,
                mp_CreatedAt = mem_JoinedAt m, mp_UpdatedAt = now\<rparr>)
          (wrapf ''publish organization membership visibility'') (\<lambda>membership.
        finish grant membership))))"

definition make_private ::
  "'w organization_service \<Rightarrow> uuid \<Rightarrow> organization \<Rightarrow> member \<Rightarrow> did \<Rightarrow> instant
     \<Rightarrow> (at_identity \<Rightarrow> at_identity \<Rightarrow> ('w, 'a) op) \<Rightarrow> ('w, 'a) op" where
  "make_private S organizationID organization m actorDID now finish =
     (let grant = \<lparr>at_URI = mem_GrantURI m, at_CID = mem_GrantCID m\<rparr>;
          membership = \<lparr>at_URI = mem_MembershipURI m, at_CID = mem_MembershipCID m\<rparr>;
          unpublish =
            (if at_URI membership \<noteq> [] then
               call (DeleteOrganizationMembership (publisher S) actorDID
                       (org_identity organization) membership)
                 (wrapf ''delete public organization membership'') (\<lambda>_.
               finish no_identity no_identity)
             else finish no_identity no_identity)
      in if at_URI grant \<noteq> [] then
           call (st_GetOwner (store S) organizationID (org_CreatorDID organization))
             (wrapf ''load organization controller'') (\<lambda>owner.
           call (ids S) (wrapf ''generate public membership revocation ID'') (\<lambda>revocationID.
           let (issuer, authority) = publicationAuthority organization owner
           in call (PublishOrganizationRevocation (publisher S)
                     \<lparr>rp_ID = revocationID, rp_ActorDID = issuer,
                      rp_Organization = org_identity organization, rp_Grant = grant,
                      rp_SubjectDID = actorDID, rp_Authority = authority, rp_CreatedAt = now\<rparr>)
                (wrapf ''revoke public membership grant'') (\<lambda>_.
              unpublish)))
         else unpublish)"

definition SetVisibility ::
  "'w organization_service \<Rightarrow> uuid \<Rightarrow> did \<Rightarrow> membership_visibility \<Rightarrow> ('w, member) op" where
  "SetVisibility S organizationID actorDID visibility =
     check (MembershipVisibility_Validate visibility) (because_of org_ErrValidation []) (
     call (st_GetByID (store S) organizationID)
       (wrapf ''get organization for visibility'') (\<lambda>organization.
     call (st_GetMember (store S) organizationID actorDID) (\<lambda>_. Sentinel org_ErrForbidden) (\<lambda>m.
     fail_if (mem_AccountDID m = []) (Sentinel org_ErrForbidden) (
     with_now (clock S) (\<lambda>now.
     if mem_Visibility m = visibility then ret m
     else let finish = (\<lambda>grant membership.
            call (st_UpdateVisibility (store S) organizationID actorDID visibility grant membership now)
              (\<lambda>e. e) (\<lambda>updated.
            call (audit S organizationID actorDID ''member.visibility'' ''member'' actorDID
                    [(''visibility'', JString (visibility_text visibility))]) (\<lambda>e. e) (\<lambda>_.
            ret updated)))
          in if visibility = VisibilityPublic
             then make_public S organizationID organization m actorDID now finish
             else make_private S organizationID organization m actorDID now finish)))))"

section \<open>Roles\<close>

definition role_metadata :: "role \<Rightarrow> role \<Rightarrow> (string \<times> json) list" where
  "role_metadata before after =
     [(''from'', JString (role_text before)), (''to'', JString (role_text after))]"

text \<open>The branch for a member whose membership is public: a new grant, a new acceptance,
  the revocation of the prior grant where there is one, then the store.\<close>

definition change_public_role ::
  "'w organization_service \<Rightarrow> uuid \<Rightarrow> did \<Rightarrow> did \<Rightarrow> role \<Rightarrow> organization \<Rightarrow> member \<Rightarrow> member
     \<Rightarrow> ('w, member) op" where
  "change_public_role S organizationID actorDID memberDID role organization owner target =
     call (ids S) (wrapf ''generate role grant ID'') (\<lambda>gid.
     (let publish_role = (\<lambda>revocationID.
        with_now (clock S) (\<lambda>now.
        let (issuer, authority) = publicationAuthority organization owner
        in call (PublishOrganizationGrant (publisher S)
                  \<lparr>gp_ID = gid, gp_ActorDID = issuer, gp_Organization = org_identity organization,
                   gp_SubjectDID = memberDID, gp_Role = role, gp_Authority = authority,
                   gp_CreatedAt = now, gp_ExpiresAt = 0\<rparr>)
             (wrapf ''publish organization role'') (\<lambda>grant.
           call (PublishOrganizationMembership (publisher S)
                  \<lparr>mp_ActorDID = memberDID, mp_Organization = org_identity organization,
                   mp_Grant = grant, mp_Visibility = VisibilityPublic,
                   mp_CreatedAt = mem_JoinedAt target, mp_UpdatedAt = now\<rparr>)
             (wrapf ''publish organization role membership'') (\<lambda>membership.
           (let store_role =
              call (st_UpdateMemberRole (store S) organizationID memberDID role grant membership now)
                (wrapf ''update organization role'') (\<lambda>m.
              call (audit S organizationID actorDID ''member.role'' ''member'' memberDID
                      (role_metadata (mem_Role target) role)) (\<lambda>e. e) (\<lambda>_.
              ret m))
            in if mem_GrantURI target \<noteq> [] then
                 call (PublishOrganizationRevocation (publisher S)
                        \<lparr>rp_ID = revocationID, rp_ActorDID = issuer,
                         rp_Organization = org_identity organization,
                         rp_Grant = \<lparr>at_URI = mem_GrantURI target, at_CID = mem_GrantCID target\<rparr>,
                         rp_SubjectDID = memberDID, rp_Authority = authority, rp_CreatedAt = now\<rparr>)
                   (wrapf ''revoke prior organization role'') (\<lambda>_. store_role)
               else store_role)))))
      in if mem_GrantURI target \<noteq> [] then
           call (ids S) (wrapf ''generate prior role revocation ID'') publish_role
         else publish_role uuid_nil))"

definition ChangeRole ::
  "'w organization_service \<Rightarrow> uuid \<Rightarrow> did \<Rightarrow> did \<Rightarrow> role \<Rightarrow> ('w, member) op" where
  "ChangeRole S organizationID actorDID memberDID role =
     check (Role_Validate role) (because_of org_ErrValidation []) (
     call (authorizeOwner S organizationID actorDID) (\<lambda>e. e) (\<lambda>(organization, owner).
     call (st_GetMember (store S) organizationID memberDID) (wrapf ''get organization member'') (\<lambda>target.
     if mem_Role target = role then ret target
     else fail_if (memberDID = org_CreatorDID organization) (Sentinel org_ErrCreatorOwner) (
     if mem_Visibility target \<noteq> VisibilityPublic then
       with_now (clock S) (\<lambda>now.
       call (st_UpdateMemberRole (store S) organizationID memberDID role no_identity no_identity now)
         (wrapf ''update private organization role'') (\<lambda>m.
       call (audit S organizationID actorDID ''member.role'' ''member'' memberDID
               (role_metadata (mem_Role target) role)) (\<lambda>e. e) (\<lambda>_.
       ret m)))
     else change_public_role S organizationID actorDID memberDID role organization owner target))))"

section \<open>Removal\<close>

definition Remove :: "'w organization_service \<Rightarrow> uuid \<Rightarrow> did \<Rightarrow> did \<Rightarrow> ('w, unit) op" where
  "Remove S organizationID actorDID memberDID =
     call (st_GetByID (store S) organizationID)
       (wrapf ''get organization for member removal'') (\<lambda>organization.
     call (st_GetMember (store S) organizationID actorDID) (\<lambda>_. Sentinel org_ErrForbidden) (\<lambda>actor.
     fail_if (mem_Role actor \<noteq> RoleOwner \<and> actorDID \<noteq> memberDID) (Sentinel org_ErrForbidden) (
     call (st_GetMember (store S) organizationID memberDID) (wrapf ''get member for removal'') (\<lambda>target.
     fail_if (memberDID = org_CreatorDID organization) (Sentinel org_ErrCreatorOwner) (
     with_now (clock S) (\<lambda>now.
     (let remove =
        call (st_RemoveMember (store S) organizationID memberDID)
          (wrapf ''remove organization member'') (\<lambda>_.
        call (audit S organizationID actorDID ''member.remove'' ''member'' memberDID
                [(''role'', JString (role_text (mem_Role target)))]) (\<lambda>e. e) (\<lambda>_.
        ret ()));
          unpublish =
        (if mem_MembershipURI target \<noteq> [] then
           call (DeleteOrganizationMembership (publisher S) memberDID (org_identity organization)
                   \<lparr>at_URI = mem_MembershipURI target, at_CID = mem_MembershipCID target\<rparr>)
             (wrapf ''delete public organization membership'') (\<lambda>_. remove)
         else remove);
          revoke = (\<lambda>revocationAuthority.
        call (ids S) (wrapf ''generate membership revocation ID'') (\<lambda>rid.
        let (issuer, authority) = publicationAuthority organization revocationAuthority
        in call (PublishOrganizationRevocation (publisher S)
                  \<lparr>rp_ID = rid, rp_ActorDID = issuer, rp_Organization = org_identity organization,
                   rp_Grant = \<lparr>at_URI = mem_GrantURI target, at_CID = mem_GrantCID target\<rparr>,
                   rp_SubjectDID = memberDID, rp_Authority = authority, rp_CreatedAt = now\<rparr>)
             (wrapf ''publish organization member removal'') (\<lambda>_. unpublish)))
      in if mem_GrantURI target \<noteq> [] then
           (if mem_Role actor \<noteq> RoleOwner then
              call (st_GetOwner (store S) organizationID (org_CreatorDID organization))
                (wrapf ''load organization controller for member removal'') revoke
            else revoke actor)
         else unpublish)))))))"

section \<open>The audit page\<close>

definition AuditEvents ::
  "'w organization_service \<Rightarrow> uuid \<Rightarrow> did \<Rightarrow> int \<Rightarrow> uuid option \<Rightarrow> ('w, audit_page) op" where
  "AuditEvents S organizationID actorDID limit after =
     fail_if (limit < 1 \<or> limit > 100)
       (because org_ErrValidation ''audit limit must be between 1 and 100'') (
     require_owner S organizationID actorDID ''authorize audit log'' (\<lambda>_.
     call (st_ListAuditEvents (store S) organizationID after (limit + 1))
       (wrapf ''list organization audit events'') (\<lambda>values.
     ret \<lparr>audp_Items = page_items values (nat limit),
          audp_NextCursor = page_cursor values (nat limit) aud_ID\<rparr>)))"

end
