(* ===== verification/Org_Laws.thy ===== *)
theory Org_Laws imports Org_Members begin

text \<open>
  What a service method does to the world, proved from what the operations of its
  interfaces promise.

  \<^item> \<open>surroundings\<close>: the clock, the id generators and the publisher leave a fact \<open>I\<close>
    about the world alone.
  \<^item> \<open>membership_store\<close>: every operation of the store keeps \<open>I\<close>, except that a change
    of role or a removal may break it for a member the fact protects; the organization
    the store returns names its creator, whom the fact may protect.
  \<^item> \<open>owner_gate\<close>: \<open>GetOwner\<close> succeeds only for an owner in a view of the world that
    the reading operations and the surroundings leave alone.
\<close>

locale surroundings =
  fixes S :: "'w organization_service" and I :: "'w \<Rightarrow> bool"
  assumes clock_keeps: "keeps_clock I (clock S)"
    and uuid_new_keeps: "keeps_clock I (uuid_new S)"
    and ids_keeps: "keeps I (ids S)"
    and publish_keeps: "keeps I (PublishOrganization (publisher S) p)"
    and grant_keeps: "keeps I (PublishOrganizationGrant (publisher S) g)"
    and membership_keeps: "keeps I (PublishOrganizationMembership (publisher S) m)"
    and revocation_keeps: "keeps I (PublishOrganizationRevocation (publisher S) r)"
    and delete_membership_keeps: "keeps I (DeleteOrganizationMembership (publisher S) d a b)"

context surroundings begin

lemmas surroundings_keep = clock_keeps uuid_new_keeps ids_keeps publish_keeps grant_keeps
  membership_keeps revocation_keeps delete_membership_keeps

lemma audit_keeps_what_its_row_keeps:
  "(\<And>e. keeps I (st_RecordAudit (store S) e)) \<Longrightarrow>
     keeps I (audit S oid d action target_type target_id metadata)"
  unfolding audit_def recordOrganizationAudit_def
  by (intro op_keeps surroundings_keep)

end

locale membership_store = surroundings S I
  for S :: "'w organization_service" and I :: "'w \<Rightarrow> bool" +
  fixes protected :: "uuid \<Rightarrow> did \<Rightarrow> bool"
  assumes read_org_keeps: "keeps I (st_GetByID (store S) oid)" "keeps I (st_GetBySlug (store S) slug)"
      "keeps I (st_ListForAccount (store S) d)" "keeps I (st_PageForAccount (store S) d c n)"
    and read_member_keeps: "keeps I (st_GetOwner (store S) oid d)" "keeps I (st_GetMember (store S) oid d)"
      "keeps I (st_ListMembers (store S) oid)" "keeps I (st_PageMembers (store S) oid private_too d n)"
    and read_invitation_keeps: "keeps I (st_GetInvitation (store S) iid)"
      "keeps I (st_ListInvitations (store S) oid)" "keeps I (st_PageInvitations (store S) oid c n)"
      "keeps I (st_ListPendingInvitations (store S) d t)"
      "keeps I (st_PagePendingInvitations (store S) d t c n)"
      "keeps I (st_ListAuditEvents (store S) oid c n)"
    and write_org_keeps: "keeps I (st_Create (store S) v)" "keeps I (st_Activate (store S) oid a t)"
      "keeps I (st_Fail (store S) oid t)" "keeps I (st_Update (store S) v)"
      "keeps I (st_RecordAudit (store S) e)"
    and write_invitation_keeps: "keeps I (st_CreateInvitation (store S) i)"
      "keeps I (st_RevokeInvitation (store S) iid t)" "keeps I (st_AcceptInvitation (store S) iid d a t)"
    and visibility_keeps: "keeps I (st_UpdateVisibility (store S) oid d x a b t)"
    and role_keeps: "\<not> protected oid d \<Longrightarrow> keeps I (st_UpdateMemberRole (store S) oid d r a b t)"
    and remove_keeps: "\<not> protected oid d \<Longrightarrow> keeps I (st_RemoveMember (store S) oid d)"
    and creator_protected: "I w \<Longrightarrow> st_GetByID (store S) oid w = (Inr v, w') \<Longrightarrow> protected oid d \<Longrightarrow>
      org_CreatorDID v = d"

context membership_store begin

lemmas store_keeps = read_org_keeps read_member_keeps read_invitation_keeps write_org_keeps
  write_invitation_keeps visibility_keeps

lemma audit_keeps: "keeps I (audit S oid d action target_type target_id metadata)"
  by (intro audit_keeps_what_its_row_keeps store_keeps)

lemma authorizeOwner_keeps: "keeps I (authorizeOwner S oid d)"
  unfolding authorizeOwner_def by (intro op_keeps store_keeps)

lemmas call_keeps = audit_keeps authorizeOwner_keeps store_keeps surroundings_keep

lemma Create_keeps: "keeps I (Create S input)"
  unfolding Create_def org_fail_def by (intro op_keeps call_keeps)

lemma Update_keeps: "keeps I (Update S input)"
  unfolding Update_def Let_def by (intro op_keeps call_keeps)

lemma queries_keep:
  "keeps I (GetBySlug S slug)" "keeps I (ListForAccount S d)" "keeps I (PageForAccount S d c n)"
  "keeps I (ListMembers S oid)" "keeps I (PageMembers S oid b d n)" "keeps I (GetMember S oid d)"
  "keeps I (ListInvitations S oid d)" "keeps I (PageInvitations S oid d c n)"
  "keeps I (ListPendingInvitations S d)" "keeps I (PagePendingInvitations S d c n)"
  "keeps I (AuditEvents S oid d n c)"
  unfolding GetBySlug_def ListForAccount_def PageForAccount_def ListMembers_def PageMembers_def
    GetMember_def ListInvitations_def PageInvitations_def ListPendingInvitations_def
    PagePendingInvitations_def AuditEvents_def require_owner_def
  by (intro op_keeps call_keeps)+

lemma invitations_keep:
  "keeps I (Invite S invite)" "keeps I (Accept S iid d)" "keeps I (RevokeInvitation S oid iid d)"
  unfolding Invite_def Accept_def RevokeInvitation_def require_owner_def Let_def
  by (intro op_keeps call_keeps)+

lemma SetVisibility_keeps: "keeps I (SetVisibility S oid d visibility)"
  unfolding SetVisibility_def make_public_def make_private_def Let_def
  by (intro op_keeps call_keeps)

text \<open>
  The two methods that change who is a member with which role refuse to touch the
  creator the store names, hence anyone protected.
\<close>

lemma change_public_role_keeps:
  "\<not> protected oid memberDID \<Longrightarrow>
     keeps I (change_public_role S oid actorDID memberDID role organization owner target)"
  unfolding change_public_role_def Let_def by (intro op_keeps call_keeps role_keeps)

lemma not_creator:
  "I w \<Longrightarrow> st_GetByID (store S) oid w = (Inr v, w') \<Longrightarrow> d \<noteq> org_CreatorDID v \<Longrightarrow> \<not> protected oid d"
  using creator_protected by blast

lemma authorized_not_creator:
  "I w \<Longrightarrow> authorizeOwner S oid actorDID w = (Inr (v, owner), w') \<Longrightarrow> d \<noteq> org_CreatorDID v \<Longrightarrow>
     \<not> protected oid d"
  by (auto simp: authorizeOwner_def op_ok dest: not_creator)

lemma ChangeRole_keeps: "keeps I (ChangeRole S oid actorDID memberDID role)"
  unfolding ChangeRole_def
  by (rule keeps_check, rule keeps_call_result [OF authorizeOwner_keeps],
      intro op_keeps call_keeps role_keeps change_public_role_keeps)
     (auto dest: authorized_not_creator)

lemma Remove_keeps: "keeps I (Remove S oid actorDID memberDID)"
  unfolding Remove_def Let_def
  by (rule keeps_call_result [OF read_org_keeps(1)], intro op_keeps call_keeps remove_keeps)
     (auto dest: not_creator)

end

end
