(* ===== verification/Org_Invariants.thy ===== *)
theory Org_Invariants imports Org_Store begin

text \<open>
  What the statements of \<open>Org_Tables\<close> and the operations of \<open>PostgresStore\<close> preserve:
  the keys and references of the tables, one pending invitation per invitee, and that
  every organization has an owner. A transaction is judged by the tables it commits,
  because every other outcome is rolled back.
\<close>

section \<open>Preservation by statements, queries and transactions\<close>

definition preserves :: "(org_tables \<Rightarrow> bool) \<Rightarrow> 'a sql \<Rightarrow> bool" where
  "preserves I q \<longleftrightarrow> (\<forall>t x t'. I t \<longrightarrow> q t = Inr (x, t') \<longrightarrow> I t')"

definition on_tables :: "(org_tables \<Rightarrow> bool) \<Rightarrow> 'x pg_world_scheme \<Rightarrow> bool" where
  on_tables_iff [simp]: "on_tables I w \<longleftrightarrow> I (tables w)"

lemma preservesI: "(\<And>t x t'. I t \<Longrightarrow> q t = Inr (x, t') \<Longrightarrow> I t') \<Longrightarrow> preserves I q"
  by (simp add: preserves_def)

lemma preservesD: "preserves I q \<Longrightarrow> I t \<Longrightarrow> q t = Inr (x, t') \<Longrightarrow> I t'"
  by (simp add: preserves_def)

lemma pg_exec_ok:
  "pg_exec q w = (Inr x, w') \<longleftrightarrow>
     \<not> (faults w \<noteq> [] \<and> hd (faults w))
     \<and> (\<exists>t. q (tables w) = Inr (x, t) \<and> w' = w\<lparr>faults := tl (faults w), tables := t\<rparr>)"
  by (auto simp: pg_exec_def Let_def split: sum.splits prod.splits)

lemma keeps_pg_exec: "preserves I q \<Longrightarrow> keeps (on_tables I) (pg_exec q)"
  by (auto simp: keeps_def pg_exec_def Let_def preserves_def split: sum.splits prod.splits)

lemma keeps_pg_query [op_keeps]: "preserves I q \<Longrightarrow> keeps (on_tables I) (pg_query q)"
  unfolding pg_query_def by (intro op_keeps keeps_pg_exec)

lemma frames_pg_select: "frames tables (pg_select f)"
  by (auto simp: frames_def pg_select_def pg_query_def call_apply ret_apply pg_exec_def Let_def
           split: sum.splits prod.splits)

lemma keeps_pg_select [op_keeps]: "keeps (on_tables I) (pg_select f)"
  by (simp add: keeps_def frames_pg_select [unfolded frames_def, rule_format])

lemma pg_query_ok:
  "pg_query q w = (Inr x, w') \<Longrightarrow> q (tables w) = Inr (x, tables w')"
  by (auto simp: pg_query_def op_ok pg_exec_ok)

text \<open>
  A transaction that returns a value committed what its body did; one that returns an
  error left the tables as they were.
\<close>

lemma transaction_ok:
  assumes "transaction b c body w = (Inr x, w')"
  obtains w1 w2 where "tables w1 = tables w" and "body w1 = (Inr x, w2)" and "tables w' = tables w2"
proof -
  let ?nop = "pg_exec (\<lambda>t. Inr ((), t))"
  from assms obtain w1 w2 where "?nop w = (Inr (), w1)" "body w1 = (Inr x, w2)" "?nop w2 = (Inr (), w')"
    by (fastforce simp: transaction_def Let_def op_ok split: prod.splits sum.splits)
  then show ?thesis
    by (intro that [of w1 w2]) (auto simp: pg_exec_ok)
qed

lemma transaction_error:
  "transaction b c body w = (Inl e, w') \<Longrightarrow> tables w' = tables w"
  by (auto simp: transaction_def Let_def split: prod.splits sum.splits)

lemma keeps_transaction:
  fixes body :: "('x pg_world_scheme, 'a) op"
  assumes "\<And>w x w'. I (tables w) \<Longrightarrow> body w = (Inr x, w') \<Longrightarrow> I (tables w')"
  shows "keeps (on_tables I) (transaction b c body)"
proof (rule keepsI)
  fix w :: "'x pg_world_scheme"
  assume w: "on_tables I w"
  show "on_tables I (snd (transaction b c body w))"
  proof (cases "transaction b c body w")
    case (Pair r w')
    then show ?thesis
    proof (cases r)
      case (Inl e)
      with Pair w show ?thesis by (auto dest: transaction_error)
    next
      case (Inr x)
      with Pair have "transaction b c body w = (Inr x, w')" by simp
      then obtain w1 w2 where "tables w1 = tables w" "body w1 = (Inr x, w2)" "tables w' = tables w2"
        by (rule transaction_ok)
      with w Pair assms [of w1 x w2] show ?thesis by simp
    qed
  qed
qed

lemma keeps_transaction_body:
  "keeps (on_tables I) body \<Longrightarrow> keeps (on_tables I) (transaction b c body)"
  by (rule keeps_transaction) (auto dest: keeps_result)

section \<open>Keys and references\<close>

text \<open>
  The primary keys and unique indexes the statements check, and the references of member
  and invitation rows. \<open>org_slug_key\<close> and \<open>inv_open_key\<close> are the keys of the two partial
  indexes: on the slugs of live organizations and on pending invitations.
\<close>

abbreviation org_slug_key :: "org_row \<Rightarrow> string" where
  "org_slug_key r \<equiv> lower (org_Slug (or_org r))"

abbreviation inv_open_key :: "invitation \<Rightarrow> uuid \<times> did" where
  "inv_open_key i \<equiv> (inv_OrganizationID i, inv_InviteeDID i)"

definition org_keys :: "org_tables \<Rightarrow> bool" where
  "org_keys t \<longleftrightarrow>
     keyed org_key (organizations t)
     \<and> keyed org_slug_key (filter live_org (organizations t))
     \<and> keyed member_key (organization_members t)
     \<and> keyed inv_ID (organization_invitations t)
     \<and> keyed inv_open_key (filter pending (organization_invitations t))
     \<and> keyed aud_ID (organization_audit_events t)"

definition org_refs :: "org_tables \<Rightarrow> bool" where
  "org_refs t \<longleftrightarrow>
     (\<forall>m \<in> set (organization_members t).
        member_checks m \<and> mem_OrganizationID m \<in> org_key ` set (organizations t)
        \<and> mem_AccountDID m \<in> fst ` set (accounts t))
     \<and> (\<forall>i \<in> set (organization_invitations t).
        inv_OrganizationID i \<in> org_key ` set (organizations t))"

definition org_wf :: "org_tables \<Rightarrow> bool" where
  "org_wf t \<longleftrightarrow> org_keys t \<and> org_refs t"

lemmas org_wf_defs = org_wf_def org_keys_def org_refs_def

named_theorems org_sql \<open>statements that keep the tables well-formed\<close>

lemma list_ex_key: "list_ex (\<lambda>r. k r = v) rows \<longleftrightarrow> v \<in> k ` set rows"
  by (auto simp: list_ex_iff)

lemma list_ex_open_key:
  "list_ex (\<lambda>i. inv_OrganizationID i = oid \<and> inv_InviteeDID i = d \<and> pending i) rows \<longleftrightarrow>
     (oid, d) \<in> inv_open_key ` set (filter pending rows)"
  by (auto simp: list_ex_iff)

lemma list_ex_slug_key:
  "list_ex (\<lambda>r. live_org r \<and> org_slug_key r = s) rows \<longleftrightarrow>
     s \<in> org_slug_key ` set (filter live_org rows)"
  by (auto simp: list_ex_iff)

lemma list_ex_member_key:
  "list_ex (\<lambda>m. mem_OrganizationID m = oid \<and> mem_AccountDID m = d) rows \<longleftrightarrow>
     (oid, d) \<in> member_key ` set rows"
  by (auto simp: list_ex_iff)

lemmas list_ex_keys = list_ex_key list_ex_open_key list_ex_slug_key list_ex_member_key

lemma org_wf_CreateOrganization [org_sql]: "preserves org_wf (sql_CreateOrganization value)"
  by (rule preservesI)
     (auto simp: org_wf_defs sql_CreateOrganization_def Let_def list_ex_keys split: if_splits)

lemma org_wf_CreateOrganizationOwnerRoute [org_sql]:
  "preserves org_wf (sql_CreateOrganizationOwnerRoute alias oid)"
  by (rule preservesI)
     (auto simp: org_wf_defs sql_CreateOrganizationOwnerRoute_def Let_def split: if_splits)

lemma org_wf_update_org:
  assumes "\<And>v. org_ID (f v) = org_ID v" and "\<And>v. org_Slug (f v) = org_Slug v"
  shows "preserves org_wf (update_org p f)"
proof (rule preservesI)
  fix t x t' assume t: "org_wf t" and r: "update_org p f t = Inr (x, t')"
  let ?rows = "update_where p (\<lambda>r. r\<lparr>or_org := f (or_org r)\<rparr>) (organizations t)"
  have t': "t' = t\<lparr>organizations := ?rows\<rparr>"
    using r by (auto simp: update_org_def split: option.splits)
  have keys: "map org_key ?rows = map org_key (organizations t)"
    by (auto simp: update_where_def assms)
  have slugs: "map org_slug_key (filter live_org ?rows) = map org_slug_key (filter live_org (organizations t))"
    by (induction "organizations t") (auto simp: update_where_def filter_map o_def assms)
  have ids: "org_key ` set ?rows = org_key ` set (organizations t)"
    using arg_cong [OF keys, of set] by simp
  show "org_wf t'"
    using t by (simp add: t' org_wf_defs keys slugs ids)
qed

lemma preserves_if: "preserves I q \<Longrightarrow> preserves I (\<lambda>t. if c t then Inl e else q t)"
  by (auto simp: preserves_def)

lemma org_wf_ActivateOrganization [org_sql]:
  "preserves org_wf (sql_ActivateOrganization oid identity now)"
  unfolding sql_ActivateOrganization_def
  by (intro preserves_if org_wf_update_org) simp_all

lemma org_wf_FailOrganization [org_sql]: "preserves org_wf (sql_FailOrganization oid now)"
  unfolding sql_FailOrganization_def by (rule org_wf_update_org) simp_all

lemma org_wf_UpdateOrganization [org_sql]: "preserves org_wf (sql_UpdateOrganization value)"
  unfolding sql_UpdateOrganization_def
  by (intro preserves_if org_wf_update_org) simp_all

lemma preserves_one_row [org_sql]: "preserves I (\<lambda>t. one_row (f t) t)"
  by (auto simp: preserves_def one_row_def split: option.splits)

lemma preserves_read [org_sql]: "preserves I (\<lambda>t. Inr (f t, t))"
  by (auto simp: preserves_def)

text \<open>The statements that return one row or none leave the tables alone.\<close>

lemmas org_read_defs = sql_GetOrganizationByID_def [abs_def] sql_GetOrganizationBySlug_def [abs_def]
  sql_GetOrganizationMember_def [abs_def] sql_GetOrganizationOwner_def [abs_def]
  sql_GetOrganizationInvitation_def [abs_def] sql_LockOrganizationOwners_def [abs_def]

lemma preserves_reads [org_sql]:
  "preserves I (sql_GetOrganizationByID oid)" "preserves I (sql_GetOrganizationBySlug slug)"
  "preserves I (sql_GetOrganizationMember oid d)" "preserves I (sql_GetOrganizationOwner oid d)"
  "preserves I (sql_GetOrganizationInvitation oid)" "preserves I (sql_LockOrganizationOwners oid)"
  unfolding org_read_defs by (rule preserves_one_row preserves_read)+

lemma org_wf_insert_member: "preserves org_wf (insert_member m)"
  by (rule preservesI)
     (simp add: org_wf_defs insert_member_def list_ex_keys account_exists_def split: if_splits)

lemma org_wf_CreateOrganizationOwner [org_sql]:
  "preserves org_wf (sql_CreateOrganizationOwner oid d now)"
  unfolding sql_CreateOrganizationOwner_def by (rule org_wf_insert_member)

lemma org_wf_CreateMemberFromInvitation [org_sql]:
  "preserves org_wf (sql_CreateOrganizationMemberFromInvitation i d identity now)"
  unfolding sql_CreateOrganizationMemberFromInvitation_def by (rule org_wf_insert_member)

lemma org_wf_update_member:
  assumes "\<And>m. member_key (f m) = member_key m"
  shows "preserves org_wf (update_member oid d f)"
proof (rule preservesI)
  fix t x t' assume t: "org_wf t" and r: "update_member oid d f t = Inr (x, t')"
  let ?p = "\<lambda>m. member_key m = (oid, d)"
  let ?rows = "update_where ?p f (organization_members t)"
  from r obtain m where m: "m \<in> set (organization_members t)" "?p m" "member_checks (f m)"
    and t': "t' = t\<lparr>organization_members := ?rows\<rparr>"
    by (auto simp: update_member_def split: option.splits if_splits dest: find_Some_in)
  have only: "m' = m" if "m' \<in> set (organization_members t)" "?p m'" for m'
    using t that m by (intro keyed_unique [of member_key]) (auto simp: org_wf_defs)
  have keys: "keyed member_key ?rows"
    using t by (subst keyed_update_where) (simp_all add: assms org_wf_defs)
  have rows: "m' = f m \<or> m' \<in> set (organization_members t)" if "m' \<in> set ?rows" for m'
    using that only by (auto simp: in_update_where)
  have same: "mem_OrganizationID (f m) = mem_OrganizationID m" "mem_AccountDID (f m) = mem_AccountDID m"
    using assms [of m] by simp_all
  have refs: "\<forall>m \<in> set (organization_members t). member_checks m
      \<and> mem_OrganizationID m \<in> org_key ` set (organizations t) \<and> mem_AccountDID m \<in> fst ` set (accounts t)"
    using t by (simp add: org_wf_defs)
  have "member_checks m' \<and> mem_OrganizationID m' \<in> org_key ` set (organizations t)
      \<and> mem_AccountDID m' \<in> fst ` set (accounts t)" if "m' \<in> set ?rows" for m'
    using that m(1,3) rows same refs by (metis (no_types, lifting))
  then show "org_wf t'"
    using t keys unfolding org_wf_defs by (simp add: t')
qed

lemma org_wf_UpdateMemberRole [org_sql]:
  "preserves org_wf (sql_UpdateOrganizationMemberRole oid d r g m now)"
  unfolding sql_UpdateOrganizationMemberRole_def by (rule org_wf_update_member) simp

lemma org_wf_UpdateMembershipVisibility [org_sql]:
  "preserves org_wf (sql_UpdateOrganizationMembershipVisibility oid d v g m now)"
  unfolding sql_UpdateOrganizationMembershipVisibility_def by (rule org_wf_update_member) simp

lemma org_wf_DeleteMember [org_sql]: "preserves org_wf (sql_DeleteOrganizationMember oid d)"
  by (rule preservesI)
     (auto simp: org_wf_defs sql_DeleteOrganizationMember_def keyed_delete_where split: option.splits)

lemma org_wf_CreateInvitation [org_sql]: "preserves org_wf (sql_CreateOrganizationInvitation value)"
proof (rule preservesI)
  fix t x t' assume t: "org_wf t" and r: "sql_CreateOrganizationInvitation value t = Inr (x, t')"
  then have "t' = t\<lparr>organization_invitations := organization_invitations t @ [x]\<rparr>"
    and "inv_ID x \<notin> inv_ID ` set (organization_invitations t)"
    and "inv_open_key x \<notin> inv_open_key ` set (filter pending (organization_invitations t))"
    and "inv_OrganizationID x \<in> org_key ` set (organizations t)"
    unfolding sql_CreateOrganizationInvitation_def Let_def list_ex_keys by (auto split: if_splits)
  with t show "org_wf t'"
    by (simp add: org_wf_defs)
qed

lemma org_wf_update_invitation:
  assumes "\<And>i. inv_ID (f i) = inv_ID i" and "\<And>i. inv_open_key (f i) = inv_open_key i"
    and "\<And>i. pending (f i) \<Longrightarrow> pending i"
  shows "preserves org_wf (update_invitation p f)"
proof (rule preservesI)
  fix t x t' assume t: "org_wf t" and r: "update_invitation p f t = Inr (x, t')"
  let ?rows = "update_where p f (organization_invitations t)"
  have t': "t' = t\<lparr>organization_invitations := ?rows\<rparr>"
    using r by (auto simp: update_invitation_def split: option.splits)
  have keys: "map inv_ID ?rows = map inv_ID (organization_invitations t)"
    by (auto simp: update_where_def assms)
  have opened: "keyed inv_open_key (filter pending (update_where p f rows))
      \<and> inv_open_key ` set (filter pending (update_where p f rows)) \<subseteq> inv_open_key ` set (filter pending rows)"
    if "keyed inv_open_key (filter pending rows)" for rows
    using that
  proof (induction rows)
    case (Cons i rows)
    then show ?case
      using assms(2) [of i] assms(3) [of i] by (auto simp: update_where_def split: if_splits)
  qed (simp add: update_where_def)
  have "inv_OrganizationID (f i) = inv_OrganizationID i" for i
    using assms(2) by simp
  then show "org_wf t'"
    using t opened [of "organization_invitations t"]
    by (auto simp: t' org_wf_defs keys in_update_where)
qed

lemma org_wf_RevokeInvitation [org_sql]: "preserves org_wf (sql_RevokeOrganizationInvitation oid now)"
  unfolding sql_RevokeOrganizationInvitation_def by (rule org_wf_update_invitation) simp_all

lemma org_wf_AcceptInvitation [org_sql]: "preserves org_wf (sql_AcceptOrganizationInvitation oid now)"
  unfolding sql_AcceptOrganizationInvitation_def by (rule org_wf_update_invitation) simp_all

lemma org_wf_InsertAuditEvent [org_sql]: "preserves org_wf (sql_InsertOrganizationAuditEvent e)"
  by (rule preservesI)
     (auto simp: org_wf_defs sql_InsertOrganizationAuditEvent_def list_ex_keys split: if_splits)

section \<open>Every organization has an owner\<close>

definition owner_rows :: "org_tables \<Rightarrow> uuid \<Rightarrow> member list" where
  "owner_rows t oid =
     filter (\<lambda>m. mem_OrganizationID m = oid \<and> mem_Role m = RoleOwner) (organization_members t)"

definition owned :: "org_tables \<Rightarrow> bool" where
  "owned t \<longleftrightarrow> (\<forall>r \<in> set (organizations t). owner_rows t (org_key r) \<noteq> [])"

definition org_ok :: "org_tables \<Rightarrow> bool" where
  "org_ok t \<longleftrightarrow> org_wf t \<and> owned t"

lemma owner_rows_iff:
  "owner_rows t oid \<noteq> [] \<longleftrightarrow>
     (\<exists>m \<in> set (organization_members t). mem_OrganizationID m = oid \<and> mem_Role m = RoleOwner)"
  by (auto simp: owner_rows_def filter_empty_conv)

lemma org_okI: "preserves org_wf q \<Longrightarrow> preserves owned q \<Longrightarrow> preserves org_ok q"
  unfolding preserves_def org_ok_def by blast

lemma owned_update_org:
  assumes "\<And>v. org_ID (f v) = org_ID v"
  shows "preserves owned (update_org p f)"
  by (rule preservesI)
     (auto simp: owned_def owner_rows_def update_org_def in_update_where assms split: option.splits)

text \<open>A statement keeps \<open>owned\<close> when it changes neither table it speaks of, or only adds members.\<close>

lemma owned_mono:
  assumes "\<And>t x t'. q t = Inr (x, t') \<Longrightarrow>
      organizations t' = organizations t \<and> set (organization_members t) \<subseteq> set (organization_members t')"
  shows "preserves owned q"
  by (rule preservesI, drule assms) (fastforce simp: owned_def owner_rows_iff)

lemma owned_insert_member: "preserves owned (insert_member m)"
  by (rule owned_mono) (auto simp: insert_member_def split: if_splits)

lemma owned_update_member:
  assumes "\<And>m. member_key (f m) = member_key m" and "\<And>m. mem_Role (f m) = mem_Role m"
  shows "preserves owned (update_member oid d f)"
proof (rule preservesI)
  fix t x t' assume t: "owned t" and r: "update_member oid d f t = Inr (x, t')"
  have "map (\<lambda>m. (mem_OrganizationID m, mem_Role m)) (organization_members t')
      = map (\<lambda>m. (mem_OrganizationID m, mem_Role m)) (organization_members t)"
    and "organizations t' = organizations t"
    using r assms by (auto simp: update_member_def update_where_def split: option.splits if_splits)
  moreover have "owner_rows s oid \<noteq> [] \<longleftrightarrow>
      (oid, RoleOwner) \<in> set (map (\<lambda>m. (mem_OrganizationID m, mem_Role m)) (organization_members s))" for s oid
    by (auto simp: owner_rows_iff image_iff)
  ultimately show "owned t'"
    using t by (simp only: owned_def)
qed

lemma org_ok_statements [org_sql]:
  "preserves org_ok (sql_ActivateOrganization oid identity now)"
  "preserves org_ok (sql_FailOrganization oid now)"
  "preserves org_ok (sql_UpdateOrganization value)"
  "preserves org_ok (sql_UpdateOrganizationMembershipVisibility oid d v g m now)"
  "preserves org_ok (sql_CreateOrganizationMemberFromInvitation i d identity now)"
  by (intro org_okI org_sql;
      auto simp: sql_ActivateOrganization_def [abs_def] sql_FailOrganization_def
          sql_UpdateOrganization_def [abs_def] sql_UpdateOrganizationMembershipVisibility_def
          sql_CreateOrganizationMemberFromInvitation_def
        intro!: preserves_if owned_update_org owned_update_member owned_insert_member)+

lemma org_ok_other_tables [org_sql]:
  "preserves org_ok (sql_CreateOrganizationInvitation i)"
  "preserves org_ok (sql_RevokeOrganizationInvitation oid now)"
  "preserves org_ok (sql_AcceptOrganizationInvitation oid now)"
  "preserves org_ok (sql_InsertOrganizationAuditEvent e)"
  by (intro org_okI org_sql owned_mono;
      auto simp: sql_CreateOrganizationInvitation_def sql_RevokeOrganizationInvitation_def
          sql_AcceptOrganizationInvitation_def sql_InsertOrganizationAuditEvent_def
          update_invitation_def Let_def split: if_splits option.splits)+

section \<open>The operations of the store\<close>

text \<open>
  The three transactions that change who owns an organization. Creating one adds its
  owner in the same transaction; demoting or removing a member first locks the owners
  and refuses to touch the only one.
\<close>

lemma pg_exec_tables:
  "pg_exec q w = (Inr x, w') \<Longrightarrow> q (tables w) = Inr (x, tables w')"
  by (auto simp: pg_exec_ok)

lemma owned_create:
  assumes "owned t"
    and "sql_CreateOrganization value t = Inr (v, t1)"
    and "sql_CreateOrganizationOwnerRoute alias (org_ID value) t1 = Inr (u, t2)"
    and "sql_CreateOrganizationOwner (org_ID value) d now t2 = Inr (m, t3)"
  shows "owned t3"
  using assms
  by (auto simp: owned_def owner_rows_def sql_CreateOrganization_def sql_CreateOrganizationOwnerRoute_def
        sql_CreateOrganizationOwner_def insert_member_def Let_def split: if_splits)

lemma keeps_pg_Create [op_keeps]: "keeps (on_tables org_ok) (pg_Create value)"
  unfolding pg_Create_def
proof (rule keeps_transaction)
  fix w :: "'x pg_world_scheme" and x w'
  assume ok: "org_ok (tables w)"
    and "call (pg_exec (sql_CreateOrganization value)) mapStoreError (\<lambda>row.
      call (pg_exec (sql_CreateOrganizationOwnerRoute (org_Slug value) (org_ID value))) mapStoreError (\<lambda>_.
      call (pg_exec (sql_CreateOrganizationOwner (org_ID value) (org_CreatorDID value)
        (org_CreatedAt value))) mapStoreError (\<lambda>_. ret row))) w = (Inr x, w')"
  then obtain t1 t2 m
    where steps: "sql_CreateOrganization value (tables w) = Inr (x, t1)"
      "sql_CreateOrganizationOwnerRoute (org_Slug value) (org_ID value) t1 = Inr ((), t2)"
      "sql_CreateOrganizationOwner (org_ID value) (org_CreatorDID value) (org_CreatedAt value) t2
        = Inr (m, tables w')"
    by (auto simp: op_ok dest!: pg_exec_tables)
  have t: "org_wf (tables w)" "owned (tables w)" using ok by (simp_all add: org_ok_def)
  have "org_wf t1" by (rule preservesD [OF org_wf_CreateOrganization t(1) steps(1)])
  then have "org_wf t2" by (rule preservesD [OF org_wf_CreateOrganizationOwnerRoute _ steps(2)])
  then have "org_wf (tables w')" by (rule preservesD [OF org_wf_CreateOrganizationOwner _ steps(3)])
  with owned_create [OF t(2) steps] show "org_ok (tables w')"
    by (simp add: org_ok_def)
qed

lemma owner_rows_distinct:
  "org_wf t \<Longrightarrow> distinct (map mem_AccountDID (owner_rows t oid))"
  by (auto simp: org_wf_defs owner_rows_def distinct_map inj_on_def)

text \<open>Unless an account is the only owner, some other account owns the organization too.\<close>

lemma another_owner:
  assumes "org_wf t" and "owner_rows t oid \<noteq> []"
    and "\<not> (length (owner_rows t oid) = 1 \<and> mem_AccountDID (hd (owner_rows t oid)) = d)"
  obtains m where "m \<in> set (owner_rows t oid)" and "mem_AccountDID m \<noteq> d"
proof (cases "owner_rows t oid")
  case (Cons a as)
  show thesis
  proof (cases as)
    case Nil
    with Cons assms(3) that [of a] show thesis by auto
  next
    case (Cons b bs)
    with \<open>owner_rows t oid = a # as\<close> owner_rows_distinct [OF assms(1), of oid]
    have "mem_AccountDID a \<noteq> mem_AccountDID b" "{a, b} \<subseteq> set (owner_rows t oid)" by auto
    with that show thesis by (metis insert_subset)
  qed
qed (use assms(2) in simp)

lemma locked_owners:
  "sql_LockOrganizationOwners oid t = Inr (owners, t') \<longleftrightarrow>
     owners = map mem_AccountDID (owner_rows t oid) \<and> t' = t"
  by (auto simp: sql_LockOrganizationOwners_def owner_rows_def)

lemma owned_except:
  assumes ok: "org_ok t" and orgs: "organizations t' = organizations t"
    and others: "\<And>m. m \<in> set (organization_members t) \<Longrightarrow> member_key m \<noteq> (oid, d) \<Longrightarrow>
      m \<in> set (organization_members t')"
    and guard: "owner_rows t' oid \<noteq> []
      \<or> \<not> (length (owner_rows t oid) = 1 \<and> mem_AccountDID (hd (owner_rows t oid)) = d)"
  shows "owned t'"
  unfolding owned_def
proof
  fix r assume "r \<in> set (organizations t')"
  with ok orgs have r: "owner_rows t (org_key r) \<noteq> []" by (simp add: org_ok_def owned_def)
  show "owner_rows t' (org_key r) \<noteq> []"
  proof (cases "org_key r = oid")
    case False
    with r others show ?thesis by (auto simp: owner_rows_iff)
  next
    case True
    show ?thesis
    proof (cases "owner_rows t' oid = []")
      case False
      with True show ?thesis by simp
    next
      case True
      with guard r \<open>org_key r = oid\<close> ok obtain m
        where "m \<in> set (owner_rows t oid)" "mem_AccountDID m \<noteq> d"
        by (metis another_owner org_ok_def)
      with others [of m] have "m \<in> set (organization_members t')" "mem_OrganizationID m = oid"
        "mem_Role m = RoleOwner"
        by (auto simp: owner_rows_def)
      with True show ?thesis by (auto simp: owner_rows_def filter_empty_conv)
    qed
  qed
qed

lemma update_where_hit: "r \<in> set rows \<Longrightarrow> p r \<Longrightarrow> f r \<in> set (update_where p f rows)"
  by (auto simp: in_update_where)

lemma update_member_role_rows:
  assumes "sql_UpdateOrganizationMemberRole oid d role grant membership now t = Inr (x, t')"
  shows "organizations t' = organizations t"
    and "m \<in> set (organization_members t) \<Longrightarrow> member_key m \<noteq> (oid, d) \<Longrightarrow>
      m \<in> set (organization_members t')"
    and "x \<in> set (organization_members t') \<and> mem_OrganizationID x = oid \<and> mem_Role x = role"
  using assms
  by (auto simp: sql_UpdateOrganizationMemberRole_def update_member_def
      split: option.splits if_splits dest!: find_Some_in intro: update_where_hit)
     (auto simp: in_update_where)

lemma delete_member_rows:
  assumes "sql_DeleteOrganizationMember oid d t = Inr (x, t')"
  shows "organizations t' = organizations t"
    and "m \<in> set (organization_members t) \<Longrightarrow> member_key m \<noteq> (oid, d) \<Longrightarrow>
      m \<in> set (organization_members t')"
  using assms by (auto simp: sql_DeleteOrganizationMember_def split: option.splits)

lemma hd_map_account: "length xs = 1 \<Longrightarrow> hd (map mem_AccountDID xs) = mem_AccountDID (hd xs)"
  by (cases xs) auto

lemma keeps_pg_UpdateMemberRole [op_keeps]:
  "keeps (on_tables org_ok) (pg_UpdateMemberRole oid d role grant membership now)"
  unfolding pg_UpdateMemberRole_def
proof (rule keeps_transaction)
  fix w :: "'x pg_world_scheme" and x w'
  let ?update = "sql_UpdateOrganizationMemberRole oid d role grant membership now"
  assume ok: "org_ok (tables w)"
    and "call (pg_exec (sql_LockOrganizationOwners oid)) mapStoreError (\<lambda>owners.
      fail_if (role \<noteq> RoleOwner \<and> length owners = 1 \<and> hd owners = d) (Sentinel org_ErrLastOwner) (
      call (pg_exec ?update) mapStoreError ret)) w = (Inr x, w')"
  then have update: "?update (tables w) = Inr (x, tables w')"
    and guard: "role = RoleOwner \<or> \<not> (length (owner_rows (tables w) oid) = 1
        \<and> mem_AccountDID (hd (owner_rows (tables w) oid)) = d)"
    by (auto simp: op_ok locked_owners hd_map_account dest!: pg_exec_tables)
  have wf: "org_wf (tables w')"
    using ok update by (auto simp: org_ok_def intro: preservesD [OF org_wf_UpdateMemberRole])
  moreover have "owned (tables w')"
    by (rule owned_except [OF ok update_member_role_rows(1,2) [OF update]])
       (use guard update_member_role_rows(3) [OF update] in \<open>auto simp: owner_rows_iff\<close>)
  ultimately show "org_ok (tables w')" by (simp add: org_ok_def)
qed

lemma keeps_pg_RemoveMember [op_keeps]: "keeps (on_tables org_ok) (pg_RemoveMember oid d)"
  unfolding pg_RemoveMember_def
proof (rule keeps_transaction)
  fix w :: "'x pg_world_scheme" and x w'
  let ?delete = "sql_DeleteOrganizationMember oid d"
  assume ok: "org_ok (tables w)"
    and "call (pg_exec (sql_LockOrganizationOwners oid)) mapStoreError (\<lambda>owners.
      fail_if (length owners = 1 \<and> hd owners = d) (Sentinel org_ErrLastOwner) (
      call (pg_exec ?delete) mapStoreError ret)) w = (Inr x, w')"
  then have delete: "?delete (tables w) = Inr (x, tables w')"
    and guard: "\<not> (length (owner_rows (tables w) oid) = 1
        \<and> mem_AccountDID (hd (owner_rows (tables w) oid)) = d)"
    by (auto simp: op_ok locked_owners hd_map_account dest!: pg_exec_tables)
  have "org_wf (tables w')"
    using ok delete by (auto simp: org_ok_def intro: preservesD [OF org_wf_DeleteMember])
  moreover have "owned (tables w')"
    by (rule owned_except [OF ok delete_member_rows [OF delete]]) (use guard in auto)
  ultimately show "org_ok (tables w')" by (simp add: org_ok_def)
qed

text \<open>Every other operation runs one statement, or statements that each keep the invariant.\<close>

lemma keeps_pg_operations [op_keeps]:
  "keeps (on_tables org_ok) (pg_Activate oid identity now)"
  "keeps (on_tables org_ok) (pg_Fail oid now)"
  "keeps (on_tables org_ok) (pg_Update value)"
  "keeps (on_tables org_ok) (pg_UpdateVisibility oid d v g m now)"
  "keeps (on_tables org_ok) (pg_CreateInvitation i)"
  "keeps (on_tables org_ok) (pg_RevokeInvitation oid now)"
  "keeps (on_tables org_ok) (pg_RecordAudit e)"
  unfolding pg_Activate_def pg_Fail_def pg_Update_def pg_UpdateVisibility_def
    pg_CreateInvitation_def pg_RevokeInvitation_def pg_RecordAudit_def
  by (intro op_keeps org_sql)+

lemma keeps_pg_reads [op_keeps]:
  "keeps (on_tables I) (pg_GetBySlug slug)" "keeps (on_tables I) (pg_GetByID oid)"
  "keeps (on_tables I) (pg_GetOwner oid d)" "keeps (on_tables I) (pg_GetMember oid d)"
  "keeps (on_tables I) (pg_GetInvitation oid)"
  "keeps (on_tables I) (pg_ListForAccount d)" "keeps (on_tables I) (pg_PageForAccount d c n)"
  "keeps (on_tables I) (pg_ListMembers oid)" "keeps (on_tables I) (pg_PageMembers oid p d n)"
  "keeps (on_tables I) (pg_ListInvitations oid)" "keeps (on_tables I) (pg_PageInvitations oid c n)"
  "keeps (on_tables I) (pg_ListPendingInvitations d now)"
  "keeps (on_tables I) (pg_PagePendingInvitations d now c n)"
  "keeps (on_tables I) (pg_ListAuditEvents oid c n)"
  unfolding pg_GetBySlug_def pg_GetByID_def pg_GetOwner_def pg_GetMember_def pg_GetInvitation_def
    pg_ListForAccount_def pg_PageForAccount_def pg_ListMembers_def pg_PageMembers_def
    pg_ListInvitations_def pg_PageInvitations_def pg_ListPendingInvitations_def
    pg_PagePendingInvitations_def pg_ListAuditEvents_def
  by (intro op_keeps org_sql)+

lemma keeps_pg_AcceptInvitation [op_keeps]:
  "keeps (on_tables org_ok) (pg_AcceptInvitation iid d membership now)"
  unfolding pg_AcceptInvitation_def
  by (intro keeps_transaction_body op_keeps keeps_pg_exec org_sql)

end
