(* ===== verification/Org_World.thy ===== *)
theory Org_World imports Org_Laws Org_Invariants begin

text \<open>
  A world the services run in: the database of \<open>Org_Store\<close> beside everything outside the
  program that a request depends on. What the clock, \<open>uuid.New\<close>, the id generator and the
  AT Protocol publisher return is read from schedules that a theorem leaves arbitrary;
  what the program asks of the publisher is recorded, in order.
\<close>

datatype org_request_sent =
    Sent_Organization publication
  | Sent_Grant grant_publication
  | Sent_Membership membership_publication
  | Sent_Revocation revocation_publication
  | Sent_Membership_Deletion did at_identity at_identity

record org_world = pg_world +
  instants :: "nat \<Rightarrow> instant"
  ticks :: nat
  fresh_uuids :: "nat \<Rightarrow> uuid"
  uuids_used :: nat
  generated_ids :: "nat \<Rightarrow> err + uuid"
  ids_used :: nat
  replies :: "nat \<Rightarrow> err + at_identity"
  sent :: "org_request_sent list"

definition world_clock :: "org_world \<Rightarrow> instant \<times> org_world" where
  "world_clock w = (instants w (ticks w), w\<lparr>ticks := Suc (ticks w)\<rparr>)"

definition world_uuid :: "org_world \<Rightarrow> uuid \<times> org_world" where
  "world_uuid w = (fresh_uuids w (uuids_used w), w\<lparr>uuids_used := Suc (uuids_used w)\<rparr>)"

definition world_ids :: "(org_world, uuid) op" where
  "world_ids w = (generated_ids w (ids_used w), w\<lparr>ids_used := Suc (ids_used w)\<rparr>)"

definition world_publish :: "org_request_sent \<Rightarrow> (org_world, at_identity) op" where
  "world_publish r w = (replies w (length (sent w)), w\<lparr>sent := sent w @ [r]\<rparr>)"

definition world_publisher :: "org_world organization_publisher" where
  "world_publisher =
     \<lparr>PublishOrganization = (\<lambda>p. world_publish (Sent_Organization p)),
      PublishOrganizationGrant = (\<lambda>p. world_publish (Sent_Grant p)),
      PublishOrganizationMembership = (\<lambda>p. world_publish (Sent_Membership p)),
      PublishOrganizationRevocation = (\<lambda>p. world_publish (Sent_Revocation p)),
      DeleteOrganizationMembership = (\<lambda>d organization membership.
        call (world_publish (Sent_Membership_Deletion d organization membership)) (\<lambda>e. e) (\<lambda>_. ret ()))\<rparr>"

text \<open>The service in this world, for any library behaviour and request id.\<close>

definition service ::
  "(uuid \<Rightarrow> string) \<Rightarrow> (string \<Rightarrow> bool) \<Rightarrow> string \<Rightarrow> org_world organization_service" where
  "service uuid_text canonical request =
     \<lparr>store = postgres_store, clock = world_clock, ids = world_ids, publisher = world_publisher,
      uuid_new = world_uuid, uuid_string = uuid_text, canonical_did = canonical,
      request_id = request\<rparr>"

lemmas world_defs = world_clock_def world_uuid_def world_ids_def world_publish_def

lemma service_simps [simp]:
  "store (service u c r) = postgres_store" "clock (service u c r) = world_clock"
  "ids (service u c r) = world_ids" "publisher (service u c r) = world_publisher"
  "uuid_new (service u c r) = world_uuid" "uuid_string (service u c r) = u"
  "canonical_did (service u c r) = c" "request_id (service u c r) = r"
  by (simp_all add: service_def)

lemma postgres_store_simps [simp]:
  "st_Create postgres_store = pg_Create" "st_Activate postgres_store = pg_Activate"
  "st_Fail postgres_store = pg_Fail" "st_GetBySlug postgres_store = pg_GetBySlug"
  "st_Update postgres_store = pg_Update" "st_ListForAccount postgres_store = pg_ListForAccount"
  "st_PageForAccount postgres_store = pg_PageForAccount"
  "st_ListMembers postgres_store = pg_ListMembers" "st_PageMembers postgres_store = pg_PageMembers"
  "st_GetByID postgres_store = pg_GetByID" "st_GetOwner postgres_store = pg_GetOwner"
  "st_GetMember postgres_store = pg_GetMember"
  "st_CreateInvitation postgres_store = pg_CreateInvitation"
  "st_RevokeInvitation postgres_store = pg_RevokeInvitation"
  "st_GetInvitation postgres_store = pg_GetInvitation"
  "st_ListInvitations postgres_store = pg_ListInvitations"
  "st_PageInvitations postgres_store = pg_PageInvitations"
  "st_ListPendingInvitations postgres_store = pg_ListPendingInvitations"
  "st_PagePendingInvitations postgres_store = pg_PagePendingInvitations"
  "st_AcceptInvitation postgres_store = pg_AcceptInvitation"
  "st_UpdateMemberRole postgres_store = pg_UpdateMemberRole"
  "st_RemoveMember postgres_store = pg_RemoveMember"
  "st_UpdateVisibility postgres_store = pg_UpdateVisibility"
  "st_RecordAudit postgres_store = pg_RecordAudit"
  "st_ListAuditEvents postgres_store = pg_ListAuditEvents"
  by (simp_all add: postgres_store_def)

text \<open>Nothing outside the database changes the tables.\<close>

lemma world_keeps:
  "keeps_clock (on_tables I) world_clock" "keeps_clock (on_tables I) world_uuid"
  "keeps (on_tables I) world_ids" "keeps (on_tables I) (world_publish p)"
  by (simp_all add: keeps_clock_def keeps_def world_defs)

lemma world_publisher_keeps:
  "keeps (on_tables I) (PublishOrganization world_publisher p)"
  "keeps (on_tables I) (PublishOrganizationGrant world_publisher g)"
  "keeps (on_tables I) (PublishOrganizationMembership world_publisher m)"
  "keeps (on_tables I) (PublishOrganizationRevocation world_publisher r)"
  "keeps (on_tables I) (DeleteOrganizationMembership world_publisher d a b)"
  by (simp_all add: world_publisher_def world_keeps keeps_call keeps_ret)

interpretation tables_fact: surroundings "service uuid_text canonical request" "on_tables I"
  for uuid_text canonical request I
  by unfold_locales (simp_all add: world_keeps world_publisher_keeps)

section \<open>Requests\<close>

text \<open>One request to the service, and a sequence of them.\<close>

datatype org_request =
    Create_Request create_input
  | Update_Request update_input
  | Invite_Request invite_input
  | Accept_Request uuid did
  | Revoke_Request uuid uuid did
  | SetVisibility_Request uuid did membership_visibility
  | ChangeRole_Request uuid did did role
  | Remove_Request uuid did did

definition serve :: "'w organization_service \<Rightarrow> org_request \<Rightarrow> 'w \<Rightarrow> 'w" where
  "serve S r w =
     (case r of
        Create_Request input \<Rightarrow> snd (Create S input w)
      | Update_Request input \<Rightarrow> snd (Update S input w)
      | Invite_Request input \<Rightarrow> snd (Invite S input w)
      | Accept_Request iid d \<Rightarrow> snd (Accept S iid d w)
      | Revoke_Request oid iid d \<Rightarrow> snd (RevokeInvitation S oid iid d w)
      | SetVisibility_Request oid d v \<Rightarrow> snd (SetVisibility S oid d v w)
      | ChangeRole_Request oid a d role \<Rightarrow> snd (ChangeRole S oid a d role w)
      | Remove_Request oid a d \<Rightarrow> snd (Remove S oid a d w))"

definition serve_all :: "'w organization_service \<Rightarrow> org_request list \<Rightarrow> 'w \<Rightarrow> 'w" where
  "serve_all S rs w = fold (serve S) rs w"

section \<open>An example world\<close>

text \<open>
  One active organization with an owner (its creator), a member and a pending invitation;
  a clock that ticks, fresh identifiers, and a network that accepts every record.
\<close>

definition example_org :: organization where
  "example_org =
     \<lparr>org_ID = 1, org_Slug = ''acme'', org_Name = ''Acme'', org_Description = [], org_Website = [],
      org_Location = [], org_CreatorDID = ''did:a'', org_BasePermission = BasePermissionRead,
      org_MembersCanCreateRepo = False, org_State = OrgActive, org_ATURI = ''at:1'', org_ATCID = ''c1'',
      org_CreatedAt = 1, org_UpdatedAt = 1\<rparr>"

definition example_member :: "did \<Rightarrow> role \<Rightarrow> member" where
  "example_member d r =
     \<lparr>mem_OrganizationID = 1, mem_AccountDID = d, mem_Handle = [], mem_Role = r,
      mem_Visibility = VisibilityPrivate, mem_InvitedByDID = ''did:a'', mem_GrantURI = [],
      mem_GrantCID = [], mem_MembershipURI = [], mem_MembershipCID = [],
      mem_JoinedAt = 1, mem_UpdatedAt = 1\<rparr>"

definition example_invitation :: invitation where
  "example_invitation =
     \<lparr>inv_ID = 7, inv_OrganizationID = 1, inv_OrganizationSlug = [], inv_OrganizationName = [],
      inv_InviteeDID = ''did:c'', inv_Role = RoleMember, inv_InvitedByDID = ''did:a'',
      inv_GrantURI = [], inv_GrantCID = [], inv_CreatedAt = 1, inv_ExpiresAt = 50,
      inv_RevokedAt = None, inv_AcceptedAt = None\<rparr>"

definition example_tables :: org_tables where
  "example_tables =
     \<lparr>accounts = [(''did:a'', None), (''did:b'', Some ''bee''), (''did:c'', None)],
      owner_routes = [(''acme'', Route_Organization 1)],
      organizations = [\<lparr>or_org = example_org, or_deleted_at = None\<rparr>],
      organization_members = [example_member ''did:a'' RoleOwner, example_member ''did:b'' RoleMember],
      organization_invitations = [example_invitation],
      organization_teams = [], organization_team_members = [], organization_team_repositories = [],
      repositories = [], repository_collaborators = [],
      repository_aliases = [], repository_deletions = [], network_repositories = [], organization_audit_events = []\<rparr>"

definition example_world :: org_world where
  "example_world =
     \<lparr>tables = example_tables, collation = (\<lambda>_ _. True), faults = [],
      instants = (\<lambda>n. int n + 10), ticks = 0, fresh_uuids = (\<lambda>n. of_nat n + 100), uuids_used = 0,
      generated_ids = (\<lambda>n. Inr (of_nat n + 200)), ids_used = 0,
      replies = (\<lambda>_. Inr \<lparr>at_URI = ''at:r'', at_CID = ''cr''\<rparr>), sent = []\<rparr>"

definition example_service :: "org_world organization_service" where
  "example_service = service (\<lambda>_. ''id'') (\<lambda>_. True) ''request''"

lemmas example_defs = example_org_def example_member_def example_invitation_def example_tables_def
  example_world_def

lemma example_org_ok: "org_ok (tables example_world)"
  by (simp add: org_ok_def org_wf_defs owned_def owner_rows_def example_defs member_checks_def
      Role_Validate_def MembershipVisibility_Validate_def)

end
