(* ===== verification/Org_Safety.thy ===== *)
theory Org_Safety
  imports Org_World
begin

text \<open>
  Safety of the organization service over \<open>PostgresStore\<close>: whatever the requests, the
  faults of the database and the replies of the network.
\<close>

context membership_store begin

lemma serve_keeps: "I w \<Longrightarrow> I (serve S r w)"
  unfolding serve_def
  by (cases r) (auto intro: keepsD Create_keeps Update_keeps invitations_keep SetVisibility_keeps
      ChangeRole_keeps Remove_keeps)

lemma serve_all_keeps: "I w \<Longrightarrow> I (serve_all S rs w)"
  by (induction rs arbitrary: w) (auto simp: serve_all_def intro: serve_keeps)

end

section \<open>Tables stay well-formed and owned\<close>

interpretation org_tables_ok:
  membership_store "service uuid_text canonical request" "on_tables org_ok" "\<lambda>_ _. False"
  for uuid_text canonical request
  by unfold_locales (simp_all add: op_keeps)

text \<open>
  C1. Starting from well-formed tables in which every organization has an owner, any
  sequence of requests leaves such tables: keys and references hold, at most one pending
  invitation exists per organization and invitee, and every organization has an owner,
  although every statement may fail and every published record may be refused.
\<close>

theorem requests_keep_organizations_owned:
  assumes "org_ok (tables w)"
  shows "org_ok (tables (serve_all (service uuid_text canonical request) rs w))"
  using org_tables_ok.serve_all_keeps [of w] assms by simp

theorem requests_keep_organizations_owned_witness:
  "org_ok (tables (serve_all (service (\<lambda>_. ''id'') (\<lambda>_. True) []) 
     [Remove_Request 1 ''did:a'' ''did:b'', Remove_Request 1 ''did:a'' ''did:a''] example_world))"
  by (rule requests_keep_organizations_owned [OF example_org_ok])

section \<open>The creator stays an owner\<close>

definition creator_row :: "uuid \<Rightarrow> did \<Rightarrow> org_tables \<Rightarrow> bool" where
  "creator_row oid c t \<longleftrightarrow> (\<exists>r \<in> set (organizations t). org_key r = oid \<and> org_CreatorDID (or_org r) = c)"

definition owner_row :: "uuid \<Rightarrow> did \<Rightarrow> org_tables \<Rightarrow> bool" where
  "owner_row oid d t \<longleftrightarrow>
     (\<exists>m \<in> set (organization_members t). member_key m = (oid, d) \<and> mem_Role m = RoleOwner)"

definition creator_owns :: "uuid \<Rightarrow> did \<Rightarrow> org_tables \<Rightarrow> bool" where
  "creator_owns oid c t \<longleftrightarrow> org_wf t \<and> creator_row oid c t \<and> owner_row oid c t"

lemma creator_ownsI:
  assumes "preserves org_wf q"
    and "\<And>t x t'. q t = Inr (x, t') \<Longrightarrow> creator_row oid c t \<Longrightarrow> creator_row oid c t'"
    and "\<And>t x t'. q t = Inr (x, t') \<Longrightarrow> owner_row oid c t \<Longrightarrow> owner_row oid c t'"
  shows "preserves (creator_owns oid c) q"
  using assms unfolding preserves_def creator_owns_def by blast

lemma creator_owns_mono:
  assumes "preserves org_wf q"
    and "\<And>t x t'. q t = Inr (x, t') \<Longrightarrow> set (organizations t) \<subseteq> set (organizations t')
      \<and> set (organization_members t) \<subseteq> set (organization_members t')"
  shows "preserves (creator_owns oid c) q"
  by (rule creator_ownsI [OF assms(1)]; drule assms(2); fastforce simp: creator_row_def owner_row_def)

lemma creator_owns_update_org:
  assumes "\<And>v. org_ID (f v) = org_ID v" "\<And>v. org_Slug (f v) = org_Slug v"
    and "\<And>v. org_CreatorDID (f v) = org_CreatorDID v"
  shows "preserves (creator_owns oid c) (update_org p f)"
proof (rule creator_ownsI [OF org_wf_update_org [OF assms(1,2)]])
  fix t x t' assume r: "update_org p f t = Inr (x, t')"
  then have "map (\<lambda>r. (org_key r, org_CreatorDID (or_org r))) (organizations t')
      = map (\<lambda>r. (org_key r, org_CreatorDID (or_org r))) (organizations t)"
    by (auto simp: update_org_def update_where_def assms split: option.splits)
  moreover have "creator_row oid c s \<longleftrightarrow>
      (oid, c) \<in> set (map (\<lambda>r. (org_key r, org_CreatorDID (or_org r))) (organizations s))" for s
    by (auto simp: creator_row_def image_iff)
  ultimately show "creator_row oid c t \<Longrightarrow> creator_row oid c t'" by (simp only:)
  show "owner_row oid c t \<Longrightarrow> owner_row oid c t'"
    using r by (auto simp: update_org_def owner_row_def split: option.splits)
qed

lemma creator_owns_update_member:
  assumes "\<And>m. member_key (f m) = member_key m"
    and "(oid', d) \<noteq> (oid, c) \<or> (\<forall>m. mem_Role m = RoleOwner \<longrightarrow> mem_Role (f m) = RoleOwner)"
  shows "preserves (creator_owns oid c) (update_member oid' d f)"
proof (rule creator_ownsI [OF org_wf_update_member [OF assms(1)]])
  fix t x t' assume r: "update_member oid' d f t = Inr (x, t')"
  then show "creator_row oid c t \<Longrightarrow> creator_row oid c t'"
    by (auto simp: update_member_def creator_row_def split: option.splits if_splits)
  assume "owner_row oid c t"
  then obtain m where m: "m \<in> set (organization_members t)" "member_key m = (oid, c)" "mem_Role m = RoleOwner"
    by (auto simp: owner_row_def)
  let ?m = "if member_key m = (oid', d) then f m else m"
  from r m have "?m \<in> set (organization_members t')"
    by (auto simp: update_member_def in_update_where split: option.splits if_splits)
  moreover have "member_key ?m = (oid, c)" "mem_Role ?m = RoleOwner"
    using m assms(1) [of m] assms(2) by auto
  ultimately show "owner_row oid c t'" unfolding owner_row_def by blast
qed

lemma creator_owns_DeleteMember:
  assumes "(oid', d) \<noteq> (oid, c)"
  shows "preserves (creator_owns oid c) (sql_DeleteOrganizationMember oid' d)"
  using assms
  by (intro creator_ownsI [OF org_wf_DeleteMember])
     (auto simp: sql_DeleteOrganizationMember_def creator_row_def owner_row_def split: option.splits)

lemma creator_owns_statements [org_sql]:
  "preserves (creator_owns oid c) (sql_ActivateOrganization o1 identity now)"
  "preserves (creator_owns oid c) (sql_FailOrganization o1 now)"
  "preserves (creator_owns oid c) (sql_UpdateOrganization value)"
  "preserves (creator_owns oid c) (sql_UpdateOrganizationMembershipVisibility o1 d v g m now)"
  unfolding sql_ActivateOrganization_def sql_FailOrganization_def sql_UpdateOrganization_def
    sql_UpdateOrganizationMembershipVisibility_def
  by (intro preserves_if creator_owns_update_org creator_owns_update_member; simp)+

lemma creator_owns_inserts [org_sql]:
  "preserves (creator_owns oid c) (sql_CreateOrganization value)"
  "preserves (creator_owns oid c) (sql_CreateOrganizationOwnerRoute alias o1)"
  "preserves (creator_owns oid c) (sql_CreateOrganizationOwner o1 d now)"
  "preserves (creator_owns oid c) (sql_CreateOrganizationMemberFromInvitation i d identity now)"
  "preserves (creator_owns oid c) (sql_CreateOrganizationInvitation i)"
  "preserves (creator_owns oid c) (sql_RevokeOrganizationInvitation o1 now)"
  "preserves (creator_owns oid c) (sql_AcceptOrganizationInvitation o1 now)"
  "preserves (creator_owns oid c) (sql_InsertOrganizationAuditEvent e)"
  by (rule creator_owns_mono, rule org_sql,
      (auto simp: sql_CreateOrganization_def sql_CreateOrganizationOwnerRoute_def
        sql_CreateOrganizationOwner_def sql_CreateOrganizationMemberFromInvitation_def insert_member_def
        sql_CreateOrganizationInvitation_def sql_RevokeOrganizationInvitation_def
        sql_AcceptOrganizationInvitation_def sql_InsertOrganizationAuditEvent_def
        update_invitation_def Let_def split: if_splits option.splits)[1])+

text \<open>The store's operations, from the statements they run.\<close>

lemma creator_owns_role:
  "(o1, d) \<noteq> (oid, c) \<Longrightarrow> keeps (on_tables (creator_owns oid c)) (pg_UpdateMemberRole o1 d r g m now)"
  unfolding pg_UpdateMemberRole_def sql_UpdateOrganizationMemberRole_def
  by (intro keeps_transaction_body op_keeps keeps_pg_exec org_sql creator_owns_update_member) auto

lemma creator_owns_remove:
  "(o1, d) \<noteq> (oid, c) \<Longrightarrow> keeps (on_tables (creator_owns oid c)) (pg_RemoveMember o1 d)"
  unfolding pg_RemoveMember_def
  by (intro keeps_transaction_body op_keeps keeps_pg_exec org_sql creator_owns_DeleteMember) auto

lemma creator_owns_operations:
  "keeps (on_tables (creator_owns oid c)) (pg_Create value)"
  "keeps (on_tables (creator_owns oid c)) (pg_Activate o1 identity now)"
  "keeps (on_tables (creator_owns oid c)) (pg_Fail o1 now)"
  "keeps (on_tables (creator_owns oid c)) (pg_Update value)"
  "keeps (on_tables (creator_owns oid c)) (pg_UpdateVisibility o1 d v g m now)"
  "keeps (on_tables (creator_owns oid c)) (pg_CreateInvitation i)"
  "keeps (on_tables (creator_owns oid c)) (pg_RevokeInvitation o1 now)"
  "keeps (on_tables (creator_owns oid c)) (pg_AcceptInvitation iid d m now)"
  "keeps (on_tables (creator_owns oid c)) (pg_RecordAudit e)"
  unfolding pg_Create_def pg_Activate_def pg_Fail_def pg_Update_def pg_UpdateVisibility_def
    pg_CreateInvitation_def pg_RevokeInvitation_def pg_AcceptInvitation_def pg_RecordAudit_def
  by (intro keeps_transaction_body op_keeps keeps_pg_exec org_sql)+

lemma pg_GetByID_creator:
  assumes "creator_owns oid c (tables w)" and "pg_GetByID oid w = (Inr v, w')"
  shows "org_CreatorDID v = c"
proof -
  from assms(2) obtain r where r: "r \<in> set (organizations (tables w))" "org_key r = oid" "v = or_org r"
    by (auto simp: pg_GetByID_def sql_GetOrganizationByID_def one_row_def
        dest!: pg_query_ok find_Some_in split: option.splits)
  with assms(1) show ?thesis
    by (auto simp: creator_owns_def creator_row_def org_wf_defs dest: keyed_unique [OF _ r(1)])
qed

interpretation creator: membership_store "service uuid_text canonical request"
    "on_tables (creator_owns oid c)" "\<lambda>o1 d. (o1, d) = (oid, c)"
  for uuid_text canonical request oid c
  by unfold_locales
     (auto simp: op_keeps creator_owns_operations creator_owns_role creator_owns_remove
        dest: pg_GetByID_creator)

text \<open>
  The creator of an organization remains one of its owners under every sequence of
  requests, whoever makes them: no request demotes or removes the creator.
\<close>

theorem creator_remains_owner:
  assumes "creator_owns oid c (tables w)"
  shows "owner_row oid c (tables (serve_all (service uuid_text canonical request) rs w))"
  using creator.serve_all_keeps [of oid c w] assms by (simp add: creator_owns_def)

theorem creator_remains_owner_witness:
  "owner_row 1 ''did:a'' (tables (serve_all (service (\<lambda>_. ''id'') (\<lambda>_. True) [])
     [ChangeRole_Request 1 ''did:a'' ''did:a'' RoleMember, Remove_Request 1 ''did:a'' ''did:a'']
     example_world))"
proof (rule creator_remains_owner)
  have "creator_row 1 ''did:a'' (tables example_world)" "owner_row 1 ''did:a'' (tables example_world)"
    by (simp_all add: creator_row_def owner_row_def example_defs)
  with example_org_ok show "creator_owns 1 ''did:a'' (tables example_world)"
    by (simp add: creator_owns_def org_ok_def)
qed







end
