(* ===== verification/Org_Creation.thy ===== *)
theory Org_Creation
  imports Org_Safety
begin

text \<open>
  Who may do what: the methods that administer an organization refuse everyone but its
  owners before they write or publish anything, and an invitation is accepted at most
  once, by the invitee, before it expires.
\<close>

section \<open>The owner gate\<close>

locale owner_gate =
  fixes S :: "'w organization_service" and view :: "'w \<Rightarrow> 'v" and owner :: "'v \<Rightarrow> uuid \<Rightarrow> did \<Rightarrow> bool"
  assumes org_frames: "frames view (st_GetByID (store S) oid)"
    and owner_frames: "frames view (st_GetOwner (store S) oid d)"
    and member_frames: "frames view (st_GetMember (store S) oid d)"
    and owner_found: "st_GetOwner (store S) oid d w = (Inr m, w') \<Longrightarrow> owner (view w) oid d"

context owner_gate begin

lemma no_owner_found:
  assumes "\<not> owner (view w) oid d"
  obtains e w' where "st_GetOwner (store S) oid d w = (Inl e, w')" and "view w' = view w"
proof (cases "st_GetOwner (store S) oid d w")
  case (Pair r w')
  then show thesis
    using that assms owner_found [of oid d w] framesD [OF owner_frames Pair] by (cases r) auto
qed

lemma require_owner_refuses:
  "\<not> owner (view w) oid d \<Longrightarrow> refused view (require_owner S oid d msg k) w"
  unfolding require_owner_def
  by (rule refused_call_first) (auto simp: refused_def elim: no_owner_found)

lemma authorizeOwner_refuses:
  "\<not> owner (view w) oid d \<Longrightarrow> refused view (authorizeOwner S oid d) w"
  unfolding authorizeOwner_def
  by (rule refused_call [OF org_frames], rule refused_call_first)
     (metis no_owner_found refused_def)

lemma administration_refused:
  assumes "\<not> owner (view w) oid d"
  shows "ui_OrganizationID u = oid \<Longrightarrow> ui_ActorDID u = d \<Longrightarrow> refused view (Update S u) w"
    and "ii_OrganizationID i = oid \<Longrightarrow> ii_ActorDID i = d \<Longrightarrow> refused view (Invite S i) w"
    and "refused view (RevokeInvitation S oid iid d) w"
    and "refused view (ChangeRole S oid d memberDID role) w"
    and "refused view (ListInvitations S oid d) w"
    and "refused view (PageInvitations S oid d c n) w"
    and "refused view (AuditEvents S oid d n c) w"
  using assms unfolding Update_def Invite_def RevokeInvitation_def ChangeRole_def ListInvitations_def
    PageInvitations_def AuditEvents_def
  by (auto intro!: refused_check refused_fail_if refused_call [OF org_frames] require_owner_refuses
      intro: refused_call_first authorizeOwner_refuses)

end

text \<open>
  In the world of \<open>Org_World\<close>, with what the database holds and what was published as the
  view.
\<close>

definition owner_of :: "org_tables \<Rightarrow> uuid \<Rightarrow> did \<Rightarrow> bool" where
  "owner_of t oid d \<longleftrightarrow>
     owner_row oid d t
     \<and> (\<exists>r \<in> set (organizations t). org_key r = oid \<and> org_State (or_org r) = OrgActive \<and> live_org r)"

definition written :: "org_world \<Rightarrow> org_tables \<times> org_request_sent list" where
  "written w = (tables w, sent w)"

lemma frames_written_read:
  "frames written (pg_query (\<lambda>t. one_row (f t) t))"
  by (auto simp: frames_def written_def pg_query_def call_apply ret_apply pg_exec_def Let_def one_row_def
      split: sum.splits prod.splits option.splits)

lemma frames_written_reads:
  "frames written (pg_GetByID oid)" "frames written (pg_GetOwner oid d)"
  "frames written (pg_GetMember oid d)" "frames written (pg_GetInvitation iid)"
  unfolding pg_GetByID_def pg_GetOwner_def pg_GetMember_def pg_GetInvitation_def org_read_defs
  by (rule frames_written_read)+

lemma pg_GetOwner_owner: "pg_GetOwner oid d w = (Inr m, w') \<Longrightarrow> owner_of (tables w) oid d"
  by (fastforce simp: pg_GetOwner_def sql_GetOrganizationOwner_def one_row_def owner_of_def owner_row_def
      list_ex_iff dest!: pg_query_ok find_Some_in split: option.splits)

interpretation org_gate: owner_gate "service uuid_text canonical request" written
    "\<lambda>v oid d. owner_of (fst v) oid d"
  for uuid_text canonical request
  by unfold_locales (auto simp: frames_written_reads written_def dest: pg_GetOwner_owner)

text \<open>
  C17. An actor who is not an owner of an active organization cannot update it, invite to
  it, revoke an invitation, change a role, or read its invitations and audit log: each
  method returns an error, the tables are as they were and nothing was published.
\<close>

theorem only_owners_administer:
  fixes uuid_text canonical request
  defines S_def: "S \<equiv> service uuid_text canonical request"
  assumes "\<not> owner_of (tables w) oid d"
  shows "refused written (Update S (u\<lparr>ui_OrganizationID := oid, ui_ActorDID := d\<rparr>)) w
    \<and> refused written (Invite S (i\<lparr>ii_OrganizationID := oid, ii_ActorDID := d\<rparr>)) w
    \<and> refused written (RevokeInvitation S oid iid d) w
    \<and> refused written (ChangeRole S oid d memberDID role) w
    \<and> refused written (ListInvitations S oid d) w
    \<and> refused written (PageInvitations S oid d c n) w
    \<and> refused written (AuditEvents S oid d n c) w"
  unfolding S_def
  using assms by (intro conjI; auto intro!: org_gate.administration_refused simp: written_def)

theorem only_owners_administer_witness:
  "refused written (ChangeRole (service (\<lambda>_. ''id'') (\<lambda>_. True) []) 1 ''did:b'' ''did:b'' RoleOwner)
     example_world"
  using only_owners_administer [where oid = 1 and d = "''did:b''" and w = example_world]
  by (simp add: owner_of_def owner_row_def example_defs)

text \<open>
  A member who is not an owner can remove nobody but themselves.
\<close>

theorem members_remove_only_themselves:
  assumes "\<not> owner_row oid d (tables w)" and "d \<noteq> memberDID"
  shows "refused written (Remove (service uuid_text canonical request) oid d memberDID) w"
proof -
  have role: "mem_Role m \<noteq> RoleOwner" if "pg_GetMember oid d v = (Inr m, v')" "written v = written w" for m v v'
    using that assms(1)
    by (auto simp: pg_GetMember_def sql_GetOrganizationMember_def one_row_def owner_row_def written_def
        dest!: pg_query_ok find_Some_in split: option.splits)
  show ?thesis
    unfolding Remove_def
    by (auto intro!: refused_call frames_written_reads refused_fail_if dest: role simp: assms(2))
qed

theorem members_remove_only_themselves_witness:
  "refused written (Remove (service (\<lambda>_. ''id'') (\<lambda>_. True) []) 1 ''did:b'' ''did:a'') example_world"
  by (rule members_remove_only_themselves) (simp_all add: owner_row_def example_defs)

section \<open>Invitations\<close>

text \<open>An invitation that was accepted or revoked stays so: no statement reopens one.\<close>

definition settled :: "uuid \<Rightarrow> org_tables \<Rightarrow> bool" where
  "settled iid t \<longleftrightarrow> org_wf t \<and> (\<exists>i \<in> set (organization_invitations t). inv_ID i = iid \<and> \<not> pending i)"

lemma settledI:
  assumes "preserves org_wf q"
    and "\<And>t x t'. q t = Inr (x, t') \<Longrightarrow>
      set (organization_invitations t) \<subseteq> set (organization_invitations t')"
  shows "preserves (settled iid) q"
  using assms unfolding preserves_def settled_def by blast

lemma settled_inserts [org_sql]:
  "preserves (settled iid) (sql_CreateOrganization value)"
  "preserves (settled iid) (sql_CreateOrganizationOwnerRoute alias o1)"
  "preserves (settled iid) (sql_CreateOrganizationOwner o1 d now)"
  "preserves (settled iid) (sql_CreateOrganizationMemberFromInvitation i d identity now)"
  "preserves (settled iid) (sql_CreateOrganizationInvitation i)"
  "preserves (settled iid) (sql_InsertOrganizationAuditEvent e)"
  "preserves (settled iid) (sql_ActivateOrganization o1 identity now)"
  "preserves (settled iid) (sql_FailOrganization o1 now)"
  "preserves (settled iid) (sql_UpdateOrganization org)"
  "preserves (settled iid) (sql_UpdateOrganizationMemberRole o1 d r g m now)"
  "preserves (settled iid) (sql_UpdateOrganizationMembershipVisibility o1 d v g m now)"
  "preserves (settled iid) (sql_DeleteOrganizationMember o1 d)"
  by (rule settledI, rule org_sql,
      (auto simp: sql_CreateOrganization_def sql_CreateOrganizationOwnerRoute_def
        sql_CreateOrganizationOwner_def sql_CreateOrganizationMemberFromInvitation_def insert_member_def
        sql_CreateOrganizationInvitation_def sql_InsertOrganizationAuditEvent_def
        sql_ActivateOrganization_def sql_FailOrganization_def sql_UpdateOrganization_def
        sql_UpdateOrganizationMemberRole_def sql_UpdateOrganizationMembershipVisibility_def
        sql_DeleteOrganizationMember_def update_org_def update_member_def
        Let_def split: if_splits option.splits)[1])+

lemma settled_update_invitation:
  assumes "preserves org_wf (update_invitation p f)" and "\<And>i. inv_ID (f i) = inv_ID i"
    and "\<And>i. pending (f i) \<Longrightarrow> pending i"
  shows "preserves (settled iid) (update_invitation p f)"
proof (rule preservesI)
  fix t x t' assume t: "settled iid t" and r: "update_invitation p f t = Inr (x, t')"
  from t obtain i where i: "i \<in> set (organization_invitations t)" "inv_ID i = iid" "\<not> pending i"
    by (auto simp: settled_def)
  let ?i = "if p i then f i else i"
  have "?i \<in> set (organization_invitations t')"
    using r i by (auto simp: update_invitation_def in_update_where split: option.splits)
  moreover have "inv_ID ?i = iid" using i assms(2) by simp
  moreover have "\<not> pending ?i" using i(3) assms(3) by metis
  moreover have "org_wf t'" using t r assms(1) by (auto simp: settled_def dest: preservesD)
  ultimately show "settled iid t'" unfolding settled_def by blast
qed

lemma settled_invitations [org_sql]:
  "preserves (settled iid) (sql_RevokeOrganizationInvitation o1 now)"
  "preserves (settled iid) (sql_AcceptOrganizationInvitation o1 now)"
  using org_wf_RevokeInvitation [of o1 now] org_wf_AcceptInvitation [of o1 now]
  unfolding sql_RevokeOrganizationInvitation_def sql_AcceptOrganizationInvitation_def
  by (auto intro: settled_update_invitation)

lemma settled_operations:
  "keeps (on_tables (settled iid)) (pg_Create value)"
  "keeps (on_tables (settled iid)) (pg_Activate o1 identity now)"
  "keeps (on_tables (settled iid)) (pg_Fail o1 now)"
  "keeps (on_tables (settled iid)) (pg_Update value)"
  "keeps (on_tables (settled iid)) (pg_UpdateVisibility o1 d v g m now)"
  "keeps (on_tables (settled iid)) (pg_CreateInvitation i)"
  "keeps (on_tables (settled iid)) (pg_RevokeInvitation o1 now)"
  "keeps (on_tables (settled iid)) (pg_AcceptInvitation iid1 d m now)"
  "keeps (on_tables (settled iid)) (pg_UpdateMemberRole o1 d r g m now)"
  "keeps (on_tables (settled iid)) (pg_RemoveMember o1 d)"
  "keeps (on_tables (settled iid)) (pg_RecordAudit e)"
  unfolding pg_Create_def pg_Activate_def pg_Fail_def pg_Update_def pg_UpdateVisibility_def
    pg_CreateInvitation_def pg_RevokeInvitation_def pg_AcceptInvitation_def pg_RecordAudit_def
    pg_UpdateMemberRole_def pg_RemoveMember_def
  by (intro keeps_transaction_body op_keeps keeps_pg_exec org_sql)+

interpretation settled: membership_store "service uuid_text canonical request"
    "on_tables (settled iid)" "\<lambda>_ _. False"
  for uuid_text canonical request iid
  by unfold_locales (auto simp: op_keeps settled_operations)

lemma pg_GetInvitation_ok:
  assumes "pg_GetInvitation iid w = (Inr i, w')"
  shows "i \<in> set (organization_invitations (tables w))" and "inv_ID i = iid" and "tables w' = tables w"
  using assms
  by (auto simp: pg_GetInvitation_def sql_GetOrganizationInvitation_def one_row_def
      dest!: pg_query_ok find_Some_in split: option.splits)

lemma settled_not_accepted:
  assumes "settled iid (tables w)"
  shows "refused tables (Accept (service uuid_text canonical request) iid d) w"
proof -
  have get: "frames (tables :: org_world \<Rightarrow> org_tables) (pg_GetInvitation iid)"
    using frames_written_reads(4) [of iid] by (simp add: frames_def written_def)
  have "\<not> Invitation_Active i now"
    if "pg_GetInvitation iid w = (Inr i, w')" for i w' now
    using that assms pg_GetInvitation_ok [OF that]
    by (auto simp: settled_def Invitation_Active_def org_wf_defs dest: keyed_unique)
  then show ?thesis
    unfolding Accept_def Let_def service_simps postgres_store_simps
    by (intro refused_call [OF get])
       (auto simp: refused_def raise_apply with_now_apply fail_if_apply world_clock_def)
qed

lemma member_from_invitation:
  assumes "sql_CreateOrganizationMemberFromInvitation i d a now t = Inr (m, t')"
  shows "member_key m = (inv_OrganizationID i, d) \<and> mem_Role m = inv_Role i
    \<and> member_key m \<notin> member_key ` set (organization_members t)
    \<and> organization_members t' = organization_members t @ [m]"
  using assms unfolding sql_CreateOrganizationMemberFromInvitation_def insert_member_def list_ex_keys
  by (auto split: if_splits)

lemma pg_AcceptInvitation_ok:
  fixes w :: "'x pg_world_scheme"
  assumes wf: "org_wf (tables w)" and "pg_AcceptInvitation iid d a now w = (Inr m, w')"
  shows "\<exists>i \<in> set (organization_invitations (tables w)).
      inv_ID i = iid \<and> inv_InviteeDID i = d \<and> Invitation_Active i now
      \<and> member_key m = (inv_OrganizationID i, d) \<and> mem_Role m = inv_Role i
      \<and> member_key m \<notin> member_key ` set (organization_members (tables w))
      \<and> organization_members (tables w') = organization_members (tables w) @ [m]
      \<and> settled iid (tables w')"
proof -
  let ?body = "call (pg_exec (sql_GetOrganizationInvitation iid)) mapStoreError (\<lambda>value.
      fail_if (inv_InviteeDID value \<noteq> d \<or> \<not> Invitation_Active value now) (Sentinel org_ErrInvitation) (
      call (pg_exec (sql_AcceptOrganizationInvitation iid now)) mapStoreError (\<lambda>_.
      call (pg_exec (sql_CreateOrganizationMemberFromInvitation value d a now)) mapStoreError ret)))
    :: ('x pg_world_scheme, member) op"
  from assms(2) obtain w1 w2 where t: "tables w1 = tables w" and body: "?body w1 = (Inr m, w2)"
    and t': "tables w' = tables w2"
    unfolding pg_AcceptInvitation_def by (rule transaction_ok)
  from body obtain i w3 where get: "pg_exec (sql_GetOrganizationInvitation iid) w1 = (Inr i, w3)"
    and ok: "inv_InviteeDID i = d" "Invitation_Active i now"
    and rest: "call (pg_exec (sql_AcceptOrganizationInvitation iid now)) mapStoreError (\<lambda>_.
      call (pg_exec (sql_CreateOrganizationMemberFromInvitation i d a now)) mapStoreError ret) w3 = (Inr m, w2)"
    unfolding call_ok fail_if_ok by blast
  from get t have i: "i \<in> set (organization_invitations (tables w))" "inv_ID i = iid"
    and w3: "tables w3 = tables w"
    by (auto simp: sql_GetOrganizationInvitation_def one_row_def dest!: pg_exec_tables find_Some_in
        split: option.splits)
  from rest w3 obtain j t2 where
    accept: "sql_AcceptOrganizationInvitation iid now (tables w) = Inr (j, t2)"
    and create: "sql_CreateOrganizationMemberFromInvitation i d a now t2 = Inr (m, tables w')"
    by (auto simp: op_ok t' dest!: pg_exec_tables)
  have wf2: "org_wf t2" by (rule preservesD [OF org_wf_AcceptInvitation wf accept])
  have "j \<in> set (organization_invitations t2) \<and> inv_ID j = iid \<and> inv_AcceptedAt j = Some now"
    using accept by (auto simp: sql_AcceptOrganizationInvitation_def update_invitation_def
        split: option.splits dest!: find_Some_in intro: update_where_hit)
  with wf2 have "settled iid t2" by (auto simp: settled_def)
  then have settled: "settled iid (tables w')"
    by (rule preservesD [OF settled_inserts(4) _ create])
  have "organization_members t2 = organization_members (tables w)"
    using accept by (auto simp: sql_AcceptOrganizationInvitation_def update_invitation_def split: option.splits)
  with member_from_invitation [OF create] settled i ok show ?thesis by (intro bexI [of _ i]) auto
qed

text \<open>
  A membership is accepted only from a pending, unexpired invitation addressed to the
  actor: when \<open>Accept\<close> returns a member, that invitation was in the tables, the actor was
  not yet a member, the new member row carries the invited role, and the invitation is
  settled.
\<close>

theorem accepted_as_invited:
  assumes "org_wf (tables w)" and "Accept (service uuid_text canonical request) iid d w = (Inr m, w')"
  shows "\<exists>i \<in> set (organization_invitations (tables w)). \<exists>now.
      inv_ID i = iid \<and> inv_InviteeDID i = d \<and> Invitation_Active i now
      \<and> member_key m = (inv_OrganizationID i, d) \<and> mem_Role m = inv_Role i
      \<and> member_key m \<notin> member_key ` set (organization_members (tables w))
      \<and> organization_members (tables w') = organization_members (tables w) @ [m]
      \<and> settled iid (tables w')"
proof -
  let ?S = "service uuid_text canonical request"
  from assms(2) obtain v now n v' oid metadata where t: "tables v = tables w"
    and accept: "pg_AcceptInvitation iid d no_identity now (v\<lparr>ticks := n\<rparr>) = (Inr m, v')"
    and audit: "audit ?S oid d ''member.accept'' ''member'' d metadata v' = (Inr (), w')"
    unfolding Accept_def Let_def
    by (auto simp: op_ok world_clock_def dest!: pg_GetInvitation_ok(3) split: if_splits)
  have "keeps (on_tables I) (audit ?S oid d ''member.accept'' ''member'' d metadata)"
    if "\<And>e. preserves I (sql_InsertOrganizationAuditEvent e)" for I
    using that by (intro tables_fact.audit_keeps_what_its_row_keeps)
      (simp add: pg_RecordAudit_def keeps_pg_query)
  from keeps_result [OF this audit]
  have kept: "I (tables v') \<Longrightarrow> I (tables w')" if "\<And>e. preserves I (sql_InsertOrganizationAuditEvent e)" for I
    using that by (metis on_tables_iff)
  have "preserves (\<lambda>t. organization_members t = M) (sql_InsertOrganizationAuditEvent e)" for M e
    by (auto simp: preserves_def sql_InsertOrganizationAuditEvent_def split: if_splits)
  from kept [OF this] have "organization_members (tables w') = organization_members (tables v')"
    by metis
  moreover have "settled iid (tables v') \<Longrightarrow> settled iid (tables w')"
    by (rule kept) (rule org_sql)
  moreover have "org_wf (tables (v\<lparr>ticks := n\<rparr>))" using assms(1) t by simp
  ultimately show ?thesis
    using pg_AcceptInvitation_ok [OF _ accept] t by auto
qed

theorem accepted_as_invited_witness:
  "case Accept example_service 7 ''did:c'' example_world of
     (Inr m, w') \<Rightarrow> mem_Role m = RoleMember \<and> settled 7 (tables w') | (Inl _, _) \<Rightarrow> False"
proof -
  have "case fst (Accept example_service 7 ''did:c'' example_world) of
      Inr m \<Rightarrow> mem_Role m = RoleMember | Inl _ \<Rightarrow> False"
    by code_simp
  then obtain m w' where r: "Accept example_service 7 ''did:c'' example_world = (Inr m, w')"
    and "mem_Role m = RoleMember"
    by (cases "Accept example_service 7 ''did:c'' example_world") (auto split: sum.splits)
  moreover have "settled 7 (tables w')"
    using accepted_as_invited [OF _ r [unfolded example_service_def]] example_org_ok
    by (auto simp: org_ok_def)
  ultimately show ?thesis by simp
qed

text \<open>
  An invitation that was accepted or revoked is final: after any further requests,
  accepting it is an error for everyone and leaves the tables as they are.
\<close>

theorem settled_invitations_are_final:
  assumes "settled iid (tables w)"
  shows "refused tables (Accept (service uuid_text canonical request) iid d)
           (serve_all (service uuid_text canonical request) rs w)"
  by (rule settled_not_accepted) (use settled.serve_all_keeps [of iid w] assms in simp)

definition example_revoked :: org_world where
  "example_revoked = example_world\<lparr>tables := example_tables\<lparr>organization_invitations :=
     [example_invitation\<lparr>inv_RevokedAt := Some 5\<rparr>]\<rparr>\<rparr>"

theorem settled_invitations_are_final_witness:
  "refused tables (Accept (service (\<lambda>_. ''id'') (\<lambda>_. True) []) 7 ''did:c'')
     (serve_all (service (\<lambda>_. ''id'') (\<lambda>_. True) [])
       [Invite_Request \<lparr>ii_OrganizationID = 1, ii_ActorDID = ''did:a'', ii_InviteeDID = ''did:c'',
                        ii_Role = RoleMember\<rparr>] example_revoked)"
  by (rule settled_invitations_are_final)
     (simp add: settled_def org_wf_defs example_defs example_revoked_def member_checks_def
        Role_Validate_def MembershipVisibility_Validate_def)

text \<open>
  What \<open>Create\<close> leaves behind: on success an active, owned organization with its route
  and its audit event; on failure nothing, or one row whose state tells how far it got.
\<close>

lemma pg_query_error: "pg_query q w = (Inl e, w') \<Longrightarrow> tables w' = tables w"
  by (auto simp: pg_query_def call_apply ret_apply pg_exec_def Let_def split: sum.splits prod.splits if_splits)

lemma pg_Create_ok:
  fixes w :: "'x pg_world_scheme"
  assumes "org_wf (tables w)" and "pg_Create v w = (Inr row, w')"
  shows "row = v\<lparr>org_State := OrgCreating, org_ATURI := [], org_ATCID := [], org_UpdatedAt := org_CreatedAt v\<rparr>
    \<and> org_ID v \<notin> org_key ` set (organizations (tables w))
    \<and> organizations (tables w') = organizations (tables w) @ [\<lparr>or_org = row, or_deleted_at = None\<rparr>]
    \<and> (lower (org_Slug v), Route_Organization (org_ID v)) \<in> set (owner_routes (tables w'))
    \<and> org_wf (tables w') \<and> owner_row (org_ID v) (org_CreatorDID v) (tables w')"
proof -
  let ?body = "call (pg_exec (sql_CreateOrganization v)) mapStoreError (\<lambda>row.
      call (pg_exec (sql_CreateOrganizationOwnerRoute (org_Slug v) (org_ID v))) mapStoreError (\<lambda>_.
      call (pg_exec (sql_CreateOrganizationOwner (org_ID v) (org_CreatorDID v)
        (org_CreatedAt v))) mapStoreError (\<lambda>_. ret row))) :: ('x pg_world_scheme, organization) op"
  from assms(2) obtain w1 w2 where t: "tables w1 = tables w" and body: "?body w1 = (Inr row, w2)"
    and t': "tables w' = tables w2"
    unfolding pg_Create_def by (rule transaction_ok)
  from body t t' obtain t1 t2 m where
      create: "sql_CreateOrganization v (tables w) = Inr (row, t1)"
    and route: "sql_CreateOrganizationOwnerRoute (org_Slug v) (org_ID v) t1 = Inr ((), t2)"
    and owner: "sql_CreateOrganizationOwner (org_ID v) (org_CreatorDID v) (org_CreatedAt v) t2
      = Inr (m, tables w')"
    by (auto simp: op_ok dest!: pg_exec_tables)
  have wf: "org_wf t1" by (rule preservesD [OF org_wf_CreateOrganization assms(1) create])
  then have "org_wf t2" by (rule preservesD [OF org_wf_CreateOrganizationOwnerRoute _ route])
  then have "org_wf (tables w')" by (rule preservesD [OF org_wf_CreateOrganizationOwner _ owner])
  moreover have "row = v\<lparr>org_State := OrgCreating, org_ATURI := [], org_ATCID := [], org_UpdatedAt := org_CreatedAt v\<rparr>
      \<and> org_ID v \<notin> org_key ` set (organizations (tables w))
      \<and> organizations t1 = organizations (tables w) @ [\<lparr>or_org = row, or_deleted_at = None\<rparr>]"
    using create unfolding sql_CreateOrganization_def Let_def list_ex_keys by (auto split: if_splits)
  moreover have "organizations t2 = organizations t1
      \<and> (lower (org_Slug v), Route_Organization (org_ID v)) \<in> set (owner_routes t2)"
    using route by (auto simp: sql_CreateOrganizationOwnerRoute_def Let_def split: if_splits)
  moreover have "organizations t' = organizations t2 \<and> owner_routes t' = owner_routes t2
      \<and> owner_row (org_ID v) (org_CreatorDID v) t'"
    if "sql_CreateOrganizationOwner (org_ID v) (org_CreatorDID v) (org_CreatedAt v) t2 = Inr (m, t')" for t'
    using that by (auto simp: sql_CreateOrganizationOwner_def insert_member_def owner_row_def split: if_splits)
  ultimately show ?thesis using owner by metis
qed


lemma find_append:
  "find p (xs @ ys) = (case find p xs of None \<Rightarrow> find p ys | Some y \<Rightarrow> Some y)"
  by (induction xs) auto

text \<open>Updating the row that was just appended.\<close>

lemma update_new_org:
  assumes "organizations t = rows @ [\<lparr>or_org = v, or_deleted_at = None\<rparr>]"
    and "org_ID v \<notin> org_key ` set rows"
    and "update_org (\<lambda>r. org_key r = org_ID v \<and> live_org r) f t = Inr (x, t')"
  shows "x = f v" and "t' = t\<lparr>organizations := rows @ [\<lparr>or_org = f v, or_deleted_at = None\<rparr>]\<rparr>"
proof -
  have none: "find (\<lambda>r. org_key r = org_ID v \<and> live_org r) rows = None"
    using assms(2) by (metis (mono_tags, lifting) find_None_in imageI)
  with assms show "x = f v" by (simp add: update_org_def find_append)
  have "update_where (\<lambda>r. org_key r = org_ID v \<and> live_org r) g rows = rows" for g
    using assms(2) by (intro update_where_none) (metis imageI)
  with assms show "t' = t\<lparr>organizations := rows @ [\<lparr>or_org = f v, or_deleted_at = None\<rparr>]\<rparr>"
    by (auto simp: update_org_def update_where_def split: option.splits)
qed

text \<open>The stages of \<open>Create\<close> after the store has the row.\<close>

definition org_row_at :: "org_row list \<Rightarrow> organization \<Rightarrow> org_state \<Rightarrow> org_tables \<Rightarrow> bool" where
  "org_row_at rows v s t \<longleftrightarrow>
     (\<exists>u. organizations t = rows @ [\<lparr>or_org = u, or_deleted_at = None\<rparr>]
        \<and> org_ID u = org_ID v \<and> org_State u = s)"

lemma audit_row_at:
  "keeps (on_tables (org_row_at rows v s))
     (audit (service uuid_text canonical request) oid d action target_type target_id metadata)"
  by (intro tables_fact.audit_keeps_what_its_row_keeps)
     (auto simp: pg_RecordAudit_def preserves_def sql_InsertOrganizationAuditEvent_def org_row_at_def
        split: if_splits intro!: keeps_pg_query)

lemma audit_error:
  "audit S oid d action target_type target_id metadata w = (Inl e, w') \<Longrightarrow>
     \<exists>f. e = wrapf ''record organization audit event'' f"
  by (auto simp: audit_def recordOrganizationAudit_def op_eval split: prod.splits sum.splits)

lemma org_fail_outcome:
  assumes "organizations (tables w) = rows @ [\<lparr>or_org = v, or_deleted_at = None\<rparr>]"
    and "org_ID v \<notin> org_key ` set rows" and "org_State v = OrgCreating"
    and "org_fail (service uuid_text canonical request) (org_ID v) c w = (r, w')"
  shows "\<exists>e. r = Inl e \<and>
    (org_row_at rows v OrgFailed (tables w')
     \<or> org_row_at rows v OrgCreating (tables w') \<and> (\<exists>f. e = Joined [c, wrapf ''mark organization failed'' f]))"
proof -
  let ?w = "w\<lparr>ticks := Suc (ticks w)\<rparr>"
  obtain x v' where fail: "pg_Fail (org_ID v) (instants w (ticks w)) ?w = (x, v')" by force
  show ?thesis
  proof (cases x)
    case (Inl f)
    then have "tables v' = tables w"
      using fail by (auto simp: pg_Fail_def call_apply ret_apply split: prod.splits sum.splits dest: pg_query_error)
    with Inl fail assms show ?thesis
      by (auto simp: org_fail_def with_now_apply world_clock_def attempt_apply raise_apply join_cause_def
          org_row_at_def)
  next
    case (Inr u)
    with fail obtain o' where "sql_FailOrganization (org_ID v) (instants w (ticks w)) (tables w) = Inr (o', tables v')"
      by (auto simp: pg_Fail_def op_ok dest!: pg_query_ok)
    from update_new_org [OF assms(1,2) this [unfolded sql_FailOrganization_def]] Inr fail assms show ?thesis
      by (auto simp: org_fail_def with_now_apply world_clock_def attempt_apply raise_apply org_row_at_def)
  qed
qed

text \<open>Where the activation succeeds, the row is active and carries the published identity.\<close>

lemma pg_Activate_new:
  assumes "organizations (tables w) = rows @ [\<lparr>or_org = v, or_deleted_at = None\<rparr>]"
    and "org_ID v \<notin> org_key ` set rows"
    and "pg_Activate (org_ID v) identity now w = (Inr x, w')"
  shows "x = v\<lparr>org_State := OrgActive, org_ATURI := at_URI identity, org_ATCID := at_CID identity,
             org_UpdatedAt := now\<rparr>
    \<and> tables w' = tables w\<lparr>organizations := rows @ [\<lparr>or_org = x, or_deleted_at = None\<rparr>]\<rparr>"
proof -
  have "update_org (\<lambda>r. org_key r = org_ID v \<and> live_org r)
      (\<lambda>v. v\<lparr>org_State := OrgActive, org_ATURI := at_URI identity, org_ATCID := at_CID identity,
             org_UpdatedAt := now\<rparr>) (tables w) = Inr (x, tables w')"
    using pg_query_ok [OF assms(3) [unfolded pg_Activate_def]]
    by (simp add: sql_ActivateOrganization_def split: if_splits)
  from update_new_org [OF assms(1,2) this] show ?thesis by simp
qed

lemma pg_Activate_error: "pg_Activate oid identity now w = (Inl e, w') \<Longrightarrow> tables w' = tables w"
  unfolding pg_Activate_def by (rule pg_query_error)

text \<open>The run of \<open>Create\<close> once the store holds the row.\<close>

definition publish_and_activate ::
  "org_world organization_service \<Rightarrow> did \<Rightarrow> organization \<Rightarrow> (org_world, organization) op" where
  "publish_and_activate S creator u =
     attempt (PublishOrganization (publisher S) (org_publication u))
       (\<lambda>e. org_fail S (org_ID u) (wrapf ''publish organization'' e)) (\<lambda>identity.
     with_now (clock S) (\<lambda>later.
     attempt (st_Activate (store S) (org_ID u) identity later)
       (\<lambda>e. org_fail S (org_ID u) (wrapf ''activate organization'' e)) (\<lambda>activated.
     call (audit S (org_ID activated) creator ''organization.create''
             ''organization'' (uuid_string S (org_ID activated))
             [(''slug'', JString (org_Slug activated))]) (\<lambda>e. e) (\<lambda>_.
     ret activated))))"

lemma publish_and_activate_outcome:
  assumes u: "organizations (tables w) = rows @ [\<lparr>or_org = u, or_deleted_at = None\<rparr>]"
      "org_ID u \<notin> org_key ` set rows" "org_State u = OrgCreating"
    and run: "publish_and_activate (service uuid_text canonical request) creator u w = (r, w')"
  shows "case r of
      Inl e \<Rightarrow> org_row_at rows u OrgFailed (tables w')
        \<or> org_row_at rows u OrgCreating (tables w') \<and> (\<exists>c f. e = Joined [c, wrapf ''mark organization failed'' f])
        \<or> org_row_at rows u OrgActive (tables w') \<and> (\<exists>f. e = wrapf ''record organization audit event'' f)
    | Inr v \<Rightarrow> org_row_at rows u OrgActive (tables w') \<and> org_ID v = org_ID u \<and> org_State v = OrgActive"
proof -
  let ?S = "service uuid_text canonical request" and ?p = "Sent_Organization (org_publication u)"
  define w1 where "w1 = snd (world_publish ?p w)"
  have w1: "organizations (tables w1) = rows @ [\<lparr>or_org = u, or_deleted_at = None\<rparr>]"
    using u(1) by (simp add: w1_def world_publish_def)
  show ?thesis
  proof (cases "fst (world_publish ?p w)")
    case (Inl e)
    then have "org_fail ?S (org_ID u) (wrapf ''publish organization'' e) w1 = (r, w')"
      using run by (simp add: publish_and_activate_def attempt_apply world_publisher_def w1_def split_beta)
    from org_fail_outcome [OF w1 u(2,3) this] show ?thesis by (auto split: sum.splits)
  next
    case (Inr identity)
    let ?w1 = "w1\<lparr>ticks := Suc (ticks w1)\<rparr>"
    have w1': "organizations (tables ?w1) = rows @ [\<lparr>or_org = u, or_deleted_at = None\<rparr>]" using w1 by simp
    obtain a w2 where a: "pg_Activate (org_ID u) identity (instants w1 (ticks w1)) ?w1 = (a, w2)" by force
    show ?thesis
    proof (cases a)
      case (Inl e)
      have w2: "organizations (tables w2) = rows @ [\<lparr>or_org = u, or_deleted_at = None\<rparr>]"
        using pg_Activate_error [OF a [unfolded Inl]] w1' by simp
      have "org_fail ?S (org_ID u) (wrapf ''activate organization'' e) w2 = (r, w')"
        using run Inr a Inl by (simp add: publish_and_activate_def attempt_apply with_now_apply
            world_publisher_def world_clock_def w1_def split_beta)
      from org_fail_outcome [OF w2 u(2,3) this] show ?thesis by (auto split: sum.splits)
    next
      case activated: (Inr v)
      from pg_Activate_new [OF w1' u(2) a [unfolded activated]]
      have v: "org_State v = OrgActive" "org_ID v = org_ID u" "org_row_at rows u OrgActive (tables w2)"
        by (auto simp: org_row_at_def)
      let ?audit = "audit ?S (org_ID v) creator ''organization.create'' ''organization''
          (uuid_text (org_ID v)) [(''slug'', JString (org_Slug v))]"
      have r: "call ?audit (\<lambda>e. e) (\<lambda>_. ret v) w2 = (r, w')"
        using run Inr a activated by (simp add: publish_and_activate_def attempt_apply with_now_apply
            world_publisher_def world_clock_def w1_def split_beta)
      obtain x w3 where x: "?audit w2 = (x, w3)" by force
      from keeps_result [OF audit_row_at x] v(3) have "org_row_at rows u OrgActive (tables w3)" by simp
      with r x v show ?thesis
        by (cases x) (auto simp: call_apply ret_apply dest: audit_error)
    qed
  qed
qed

lemma publish_and_activate_keeps_rows:
  "keeps (on_tables (\<lambda>t. owner_row oid d t \<and> route \<in> set (owner_routes t)))
     (publish_and_activate (service uuid_text canonical request) creator u)"
proof -
  let ?I = "\<lambda>t. owner_row oid d t \<and> route \<in> set (owner_routes t)"
  have update: "preserves ?I (update_org p f)" for p f
    by (auto simp: preserves_def update_org_def owner_row_def split: option.splits)
  have "keeps (on_tables ?I) (pg_Activate o1 identity now)" "keeps (on_tables ?I) (pg_Fail o1 now)"
    for o1 identity now
    unfolding pg_Activate_def pg_Fail_def sql_ActivateOrganization_def [abs_def] sql_FailOrganization_def
    by (intro op_keeps preserves_if update)+
  moreover have "keeps (on_tables ?I) (audit (service uuid_text canonical request) o1 a b c e metadata)"
    for o1 a b c e metadata
    by (intro tables_fact.audit_keeps_what_its_row_keeps)
       (auto simp: pg_RecordAudit_def preserves_def sql_InsertOrganizationAuditEvent_def owner_row_def
          split: if_splits intro!: keeps_pg_query)
  ultimately show ?thesis
    unfolding publish_and_activate_def org_fail_def service_simps postgres_store_simps
    by (intro op_keeps world_keeps world_publisher_keeps)
qed

text \<open>The row \<open>Create\<close> inserts, and its run from there on.\<close>

abbreviation new_organization :: "create_input \<Rightarrow> uuid \<Rightarrow> instant \<Rightarrow> organization" where
  "new_organization input oid now \<equiv>
     \<lparr>org_ID = oid, org_Slug = ci_Slug input, org_Name = ci_Name input,
      org_Description = ci_Description input, org_Website = ci_Website input,
      org_Location = ci_Location input, org_CreatorDID = ci_CreatorDID input,
      org_BasePermission = ci_BasePermission input,
      org_MembersCanCreateRepo = ci_MembersCanCreateRepo input,
      org_State = OrgCreating, org_ATURI = [], org_ATCID = [],
      org_CreatedAt = now, org_UpdatedAt = now\<rparr>"



text \<open>
  When \<open>Create\<close> returns an organization, the input was valid, the organization is
  active under a fresh id, the creator owns it, its slug is routed to it, and every other
  organization is as it was.
\<close>

theorem created_organization_is_owned:
  assumes wf: "org_wf (tables w)"
    and run: "Create (service uuid_text canonical request) input w = (Inr v, w')"
  shows "CreateInput_Validate input = None \<and> org_State v = OrgActive
    \<and> org_ID v \<notin> org_key ` set (organizations (tables w))
    \<and> org_row_at (organizations (tables w)) v OrgActive (tables w')
    \<and> owner_row (org_ID v) (ci_CreatorDID input) (tables w')
    \<and> (lower (ci_Slug input), Route_Organization (org_ID v)) \<in> set (owner_routes (tables w'))"
proof -
  let ?S = "service uuid_text canonical request" and ?rows = "organizations (tables w)"
  have valid: "CreateInput_Validate input = None"
    using run by (simp add: Create_def op_ok)
  obtain oid w1 where g: "world_ids w = (Inr oid, w1)" and w1: "tables w1 = tables w"
    using run valid by (cases "generated_ids w (ids_used w)")
      (auto simp: Create_def check_apply call_apply world_ids_def)
  let ?v = "new_organization input oid (instants w1 (ticks w1))"
  obtain u w2 where c: "pg_Create ?v (w1\<lparr>ticks := Suc (ticks w1)\<rparr>) = (Inr u, w2)"
    and rest: "publish_and_activate ?S (ci_CreatorDID input) u w2 = (Inr v, w')"
    using run valid g by (auto simp: Create_def publish_and_activate_def check_apply call_apply
        with_now_apply world_clock_def split: prod.splits sum.splits)
  from pg_Create_ok [OF _ c] wf w1 have u: "organizations (tables w2) = ?rows @ [\<lparr>or_org = u, or_deleted_at = None\<rparr>]"
      "org_ID u \<notin> org_key ` set ?rows" "org_State u = OrgCreating" "org_ID u = oid"
    and stored: "owner_row oid (ci_CreatorDID input) (tables w2)"
      "(lower (ci_Slug input), Route_Organization oid) \<in> set (owner_routes (tables w2))"
    by auto
  from publish_and_activate_outcome [OF u(1-3) rest]
  have "org_row_at ?rows u OrgActive (tables w')" "org_ID v = org_ID u" "org_State v = OrgActive" by auto
  moreover have "on_tables (\<lambda>t. owner_row oid (ci_CreatorDID input) t
      \<and> (lower (ci_Slug input), Route_Organization oid) \<in> set (owner_routes t)) w'"
    by (rule keeps_result [OF publish_and_activate_keeps_rows rest]) (use stored in simp)
  ultimately show ?thesis
    using valid u by (simp add: org_row_at_def)
qed

theorem created_organization_is_owned_witness:
  "case Create example_service \<lparr>ci_CreatorDID = ''did:b'', ci_Slug = ''beta'', ci_Name = ''Beta'',
       ci_Description = [], ci_Website = [], ci_Location = [], ci_BasePermission = BasePermissionNone,
       ci_MembersCanCreateRepo = True\<rparr> example_world of
     (Inr v, w') \<Rightarrow> org_State v = OrgActive \<and> owner_row (org_ID v) ''did:b'' (tables w')
   | (Inl _, _) \<Rightarrow> False"
proof -
  let ?input = "\<lparr>ci_CreatorDID = ''did:b'', ci_Slug = ''beta'', ci_Name = ''Beta'',
       ci_Description = [], ci_Website = [], ci_Location = [], ci_BasePermission = BasePermissionNone,
       ci_MembersCanCreateRepo = True\<rparr>"
  have "case fst (Create example_service ?input example_world) of Inr _ \<Rightarrow> True | Inl _ \<Rightarrow> False"
    by code_simp
  then obtain v w' where r: "Create example_service ?input example_world = (Inr v, w')"
    by (cases "Create example_service ?input example_world") (auto split: sum.splits)
  have "org_wf (tables example_world)" using example_org_ok by (simp add: org_ok_def)
  from created_organization_is_owned [OF this r [unfolded example_service_def]] r show ?thesis by simp
qed

end
