(* ===== verification/Org_Paging.thy ===== *)
theory Org_Paging imports Org_Creation begin

text \<open>
  Keyset pages: following the cursors from the first page to the last one yields every
  row once, in order, with enough requests. The general fact is about any strictly
  ordered list and any cursor that names the last row of a page; it is applied to the
  audit log and to the organizations of an account.
\<close>

section \<open>Walking pages\<close>

text \<open>What a client does: ask, append, and ask again with the cursor while there is one.\<close>

fun walk :: "nat \<Rightarrow> ('k option \<Rightarrow> ('a list \<times> 'k option) option) \<Rightarrow> 'k option \<Rightarrow> 'a list option" where
  "walk 0 fetch c = None"
| "walk (Suc n) fetch c =
     (case fetch c of
        None \<Rightarrow> None
      | Some (items, None) \<Rightarrow> Some items
      | Some (items, Some c') \<Rightarrow> map_option ((@) items) (walk n fetch (Some c')))"

definition rest_after :: "('k \<Rightarrow> 'a \<Rightarrow> bool) \<Rightarrow> 'k option \<Rightarrow> 'a list \<Rightarrow> 'a list" where
  "rest_after after c xs = (case c of None \<Rightarrow> xs | Some k \<Rightarrow> filter (after k) xs)"

definition page_of :: "nat \<Rightarrow> ('a \<Rightarrow> 'k) \<Rightarrow> 'a list \<Rightarrow> 'a list \<times> 'k option" where
  "page_of limit key values = (page_items values limit, page_cursor values limit key)"

lemma page_of_take:
  "page_of limit key (take (Suc limit) xs) =
     (take limit xs, if length xs > limit then Some (key (last (take limit xs))) else None)"
  by (auto simp: page_of_def page_items_take page_cursor_def min_def)

lemma filter_after_prefix:
  assumes "sorted_wrt before (xs @ ys)" and "xs \<noteq> []"
    and "\<And>x y. x \<in> set (xs @ ys) \<Longrightarrow> y \<in> set (xs @ ys) \<Longrightarrow> after (key x) y \<longleftrightarrow> before x y"
    and "\<And>x. \<not> before x x" and "\<And>x y. before x y \<Longrightarrow> \<not> before y x"
  shows "filter (after (key (last xs))) (xs @ ys) = ys"
proof -
  let ?c = "last xs"
  have c: "?c \<in> set (xs @ ys)" using assms(2) by simp
  obtain us where us: "xs = us @ [?c]" using assms(2) by (metis append_butlast_last_id)
  have "\<not> after (key ?c) x" if "x \<in> set xs" for x
  proof -
    have "x = ?c \<or> before x ?c"
      using that assms(1) by (subst (asm) (1 2) us) (auto simp: sorted_wrt_append)
    then show ?thesis using assms(3-5) c that by (metis Un_iff set_append)
  qed
  moreover have "after (key ?c) y" if "y \<in> set ys" for y
    using that assms(1-3) c by (auto simp: sorted_wrt_append)
  ultimately show ?thesis by (simp add: filter_empty_conv filter_id_conv)
qed

lemma walk_complete:
  assumes sorted: "sorted_wrt before L"
    and after: "\<And>x y. x \<in> set L \<Longrightarrow> y \<in> set L \<Longrightarrow> after (key x) y \<longleftrightarrow> before x y"
    and irrefl: "\<And>x. \<not> before x x" and asym: "\<And>x y. before x y \<Longrightarrow> \<not> before y x"
    and limit: "0 < limit"
    and fetch: "\<And>c. fetch c = Some (page_of limit key (take (Suc limit) (rest_after after c L)))"
  shows "walk (Suc (length L)) fetch None = Some L"
proof -
  have step: "walk (Suc n) fetch c = Some ys"
    if "L = xs @ ys" "rest_after after c L = ys" "length ys \<le> n" for n c xs ys
    using that
  proof (induction n arbitrary: c xs ys)
    case 0
    then show ?case by (simp add: fetch page_of_take)
  next
    case (Suc n)
    show ?case
    proof (cases "length ys > limit")
      case False
      with Suc.prems show ?thesis by (simp add: fetch page_of_take)
    next
      case True
      let ?c = "Some (key (last (xs @ take limit ys)))"
      have split: "L = (xs @ take limit ys) @ drop limit ys" using Suc.prems(1) by simp
      have ne: "xs @ take limit ys \<noteq> []" "last (xs @ take limit ys) = last (take limit ys)"
        using True limit by (cases ys; auto simp: last_append)+
      have "rest_after after ?c L = drop limit ys"
        unfolding rest_after_def option.case
        using filter_after_prefix [of before "xs @ take limit ys" "drop limit ys" after key]
          sorted after irrefl asym ne split by (metis (no_types, lifting))
      then have "walk (Suc n) fetch ?c = Some (drop limit ys)"
        by (rule Suc.IH [OF split]) (use Suc.prems(3) limit True in simp)
      with True Suc.prems(2) ne show ?thesis
        by (subst walk.simps(2)) (simp add: fetch page_of_take del: walk.simps(2))
    qed
  qed
  show ?thesis by (rule step [of "[]"]) (simp_all add: rest_after_def)
qed

section \<open>Sorting and filtering\<close>

lemma filter_insert_by:
  assumes trans: "\<And>x y z. le x y \<Longrightarrow> le y z \<Longrightarrow> le x z" and "sorted_wrt le ys"
  shows "filter P (insert_by le x ys) = (if P x then insert_by le x (filter P ys) else filter P ys)"
  using assms(2)
proof (induction ys)
  case (Cons y ys)
  have front: "insert_by le x zs = x # zs" if "\<forall>z \<in> set zs. le x z" for zs
    using that by (cases zs) auto
  show ?case
  proof (cases "le x y")
    case True
    with Cons.prems trans have "\<forall>z \<in> set (filter P (y # ys)). le x z" by auto
    with True front show ?thesis by auto
  next
    case False
    with Cons show ?thesis by auto
  qed
qed simp

lemma filter_sort_by:
  assumes total: "\<And>x y. le x y \<or> le y x" and trans: "\<And>x y z. le x y \<Longrightarrow> le y z \<Longrightarrow> le x z"
  shows "filter P (sort_by le xs) = sort_by le (filter P xs)"
  by (induction xs) (simp_all add: filter_insert_by [OF trans sorted_sort_by [OF total trans]])

lemma newest_first_order:
  "newest_first k x y \<or> newest_first k y x"
  "newest_first k x y \<Longrightarrow> newest_first k y z \<Longrightarrow> newest_first k x z"
  unfolding newest_first_def
  by (use linear [of "snd (k x)" "snd (k y)"] in auto)

lemma sorted_wrt_distinct:
  "sorted_wrt R xs \<Longrightarrow> distinct (map f xs) \<Longrightarrow> sorted_wrt (\<lambda>x y. R x y \<and> f x \<noteq> f y) xs"
  by (induction xs) auto

text \<open>With distinct ids the order of the pages is strict: a row comes before the older ones.\<close>

lemma sorted_strictly:
  assumes "distinct (map (\<lambda>x. snd (k x)) xs)"
  shows "sorted_wrt (\<lambda>x y. older_than k (k x) y) (sort_by (newest_first k) xs)"
proof -
  have "sorted_wrt (newest_first k) (sort_by (newest_first k) xs)"
    by (rule sorted_sort_by [OF newest_first_order(1)]) (rule newest_first_order(2))
  from sorted_wrt_distinct [OF this distinct_map_sort_by [OF assms]] show ?thesis
    by (rule sorted_wrt_mono_rel [rotated]) (auto simp: newest_first_def older_than_def)
qed

section \<open>The audit log\<close>

definition audit_log :: "uuid \<Rightarrow> org_tables \<Rightarrow> audit_event list" where
  "audit_log oid t = sort_by (newest_first aud_time)
     (filter (\<lambda>a. aud_OrganizationID a = oid) (organization_audit_events t))"

definition after_event :: "uuid \<Rightarrow> org_tables \<Rightarrow> uuid \<Rightarrow> audit_event \<Rightarrow> bool" where
  "after_event oid t aid = after_cursor aud_time (Some aid)
     (find (\<lambda>c. aud_OrganizationID c = oid \<and> aud_ID c = aid) (organization_audit_events t))"

lemma audit_page_sql:
  "sql_ListOrganizationAuditEvents oid c n t = take (nat n) (rest_after (after_event oid t) c (audit_log oid t))"
  by (cases c) (simp_all add: sql_ListOrganizationAuditEvents_def rest_after_def audit_log_def after_event_def
      after_cursor_def filter_sort_by [of "newest_first aud_time", OF newest_first_order])

lemma after_event_iff:
  assumes "org_wf t" and "x \<in> set (audit_log oid t)"
  shows "after_event oid t (aud_ID x) y \<longleftrightarrow> older_than aud_time (aud_time x) y"
proof -
  have "find (\<lambda>c. aud_OrganizationID c = oid \<and> aud_ID c = aud_ID x) (organization_audit_events t) = Some x"
    using assms by (intro keyed_find [of aud_ID]) (auto simp: org_wf_defs audit_log_def)
  then show ?thesis by (simp add: after_event_def after_cursor_def)
qed

text \<open>Where the database does not fail, a query returns what its statement does.\<close>

lemma pg_query_runs:
  "faults w = [] \<Longrightarrow> pg_query q w =
     (case q (tables w) of Inl e \<Rightarrow> (Inl (mapStoreError e), w) | Inr (x, t) \<Rightarrow> (Inr x, w\<lparr>tables := t\<rparr>))"
  by (auto simp: pg_query_def call_apply ret_apply pg_exec_def Let_def split: sum.splits prod.splits)

lemma pg_GetOwner_runs:
  assumes "org_wf (tables w)" and "faults w = []" and "owner_of (tables w) oid d"
  shows "\<exists>m. pg_GetOwner oid d w = (Inr m, w)"
proof -
  from assms(3) have "find (\<lambda>m. member_key m = (oid, d) \<and> mem_Role m = RoleOwner
      \<and> list_ex (\<lambda>r. org_key r = mem_OrganizationID m \<and> org_State (or_org r) = OrgActive \<and> live_org r)
          (organizations (tables w))) (organization_members (tables w)) \<noteq> None"
    by (auto simp: owner_of_def owner_row_def find_None_in list_ex_iff)
  then show ?thesis
    using assms(2) by (auto simp: pg_GetOwner_def pg_query_runs sql_GetOrganizationOwner_def one_row_def)
qed

definition audit_fetch ::
  "'w organization_service \<Rightarrow> uuid \<Rightarrow> did \<Rightarrow> int \<Rightarrow> 'w \<Rightarrow> uuid option \<Rightarrow>
     (audit_event list \<times> uuid option) option" where
  "audit_fetch S oid d limit w c =
     (case AuditEvents S oid d limit c w of
        (Inl _, _) \<Rightarrow> None | (Inr p, _) \<Rightarrow> Some (audp_Items p, audp_NextCursor p))"

text \<open>
  An owner who follows the cursors of the audit log from the first page to the last,
  with any page size the service accepts, reads every event of the organization exactly
  once, newest first, in at most one request more than there are events.
\<close>

theorem audit_pages_complete:
  assumes "org_wf (tables w)" and "faults w = []" and "owner_of (tables w) oid d"
    and "1 \<le> limit" and "limit \<le> 100"
  shows "walk (Suc (length (audit_log oid (tables w))))
      (audit_fetch (service uuid_text canonical request) oid d limit w) None
    = Some (audit_log oid (tables w))"
proof (rule walk_complete [where before = "\<lambda>x y. older_than aud_time (aud_time x) y" and key = aud_ID
      and after = "after_event oid (tables w)" and limit = "nat limit"])
  show "sorted_wrt (\<lambda>x y. older_than aud_time (aud_time x) y) (audit_log oid (tables w))"
    unfolding audit_log_def using assms(1)
    by (intro sorted_strictly) (auto simp: org_wf_defs intro: distinct_map_filter)
next
  fix c
  obtain m where m: "pg_GetOwner oid d w = (Inr m, w)" using pg_GetOwner_runs [OF assms(1-3)] by blast
  have limit: "nat (limit + 1) = Suc (nat limit)" using assms(4) by simp
  show "audit_fetch (service uuid_text canonical request) oid d limit w c
      = Some (page_of (nat limit) aud_ID (take (Suc (nat limit))
          (rest_after (after_event oid (tables w)) c (audit_log oid (tables w)))))"
    using assms(2,4,5)
    by (simp add: audit_fetch_def AuditEvents_def fail_if_apply require_owner_def call_apply m ret_apply
        pg_ListAuditEvents_def pg_select_def pg_query_runs audit_page_sql page_of_def limit)
qed (use assms in \<open>auto simp: after_event_iff older_than_def\<close>)

definition example_audited :: org_world where
  "example_audited = example_world\<lparr>tables := example_tables\<lparr>organization_audit_events :=
     map (\<lambda>(i, t). \<lparr>aud_ID = i, aud_OrganizationID = 1, aud_ActorDID = ''did:a'', aud_Action = ''member.role'',
                   aud_TargetType = ''member'', aud_TargetID = ''did:b'', aud_RequestID = [],
                   aud_Metadata = [], aud_CreatedAt = t\<rparr>) [(4, 10), (5, 12), (6, 12)]\<rparr>\<rparr>"

theorem audit_pages_complete_witness:
  "walk 4 (audit_fetch (service (\<lambda>_. ''id'') (\<lambda>_. True) []) 1 ''did:a'' 2 example_audited) None
    = Some (audit_log 1 (tables example_audited))"
proof -
  have "org_wf (tables example_audited)" "owner_of (tables example_audited) 1 ''did:a''"
      "faults example_audited = []" "length (audit_log 1 (tables example_audited)) = 3"
    by (simp_all add: org_wf_defs example_audited_def example_defs member_checks_def Role_Validate_def
        MembershipVisibility_Validate_def owner_of_def owner_row_def audit_log_def newest_first_def)
  with audit_pages_complete [of example_audited 1 "''did:a''" 2] show ?thesis by simp
qed

section \<open>The organizations of an account\<close>

definition organization_list :: "did \<Rightarrow> org_tables \<Rightarrow> organization list" where
  "organization_list d t = sort_by (\<lambda>a b. org_ID b \<le> org_ID a) (organizations_of d t)"

lemma distinct_organizations_of:
  assumes "org_wf t"
  shows "distinct (map org_ID (organizations_of d t))"
proof -
  let ?mine = "\<lambda>r m. mem_OrganizationID m = org_key r \<and> mem_AccountDID m = d
      \<and> org_State (or_org r) = OrgActive \<and> live_org r"
  have one: "length (filter (?mine r) ms) \<le> 1" if "keyed member_key ms" for r ms
    using that
  proof (induction ms)
    case (Cons m ms)
    have "filter (?mine r) ms = []" if m: "?mine r m"
      unfolding filter_empty_conv
    proof
      fix m' assume "m' \<in> set ms"
      then have "member_key m' \<in> member_key ` set ms" by (rule imageI)
      moreover have "member_key m \<notin> member_key ` set ms" using Cons.prems by simp
      ultimately have "member_key m' \<noteq> member_key m" by metis
      with m show "\<not> ?mine r m'" by auto
    qed
    with Cons show ?case by auto
  qed simp
  have row: "concat (map (\<lambda>m. if ?mine r m then [or_org r] else []) ms)
      = map (\<lambda>_. or_org r) (filter (?mine r) ms)" for r ms
    by (induction ms) auto
  have "distinct (map org_ID (concat (map (\<lambda>r. concat (map (\<lambda>m. if ?mine r m then [or_org r] else [])
      (organization_members t))) rows)))" if "keyed org_key rows" for rows
    using that
  proof (induction rows)
    case (Cons r rows)
    have "length (filter (?mine r) (organization_members t)) \<le> 1"
      using assms by (intro one) (simp add: org_wf_defs)
    then have "distinct (map org_ID (map (\<lambda>_. or_org r) (filter (?mine r) (organization_members t))))"
      by (cases "filter (?mine r) (organization_members t)") auto
    with Cons show ?case by (auto simp: row split: if_splits)
  qed simp
  then show ?thesis
    using assms by (simp add: organizations_of_def org_wf_defs)
qed

lemma organization_page_sql:
  "sql_PageOrganizationsForAccount d c n t =
     take (nat n) (rest_after (\<lambda>k v. org_ID v < k) c (organization_list d t))"
proof -
  have "filter P (organization_list d t) = sort_by (\<lambda>a b. org_ID b \<le> org_ID a) (filter P (organizations_of d t))" for P
    unfolding organization_list_def by (rule filter_sort_by) auto
  then show ?thesis
    by (cases c) (simp_all add: sql_PageOrganizationsForAccount_def rest_after_def organization_list_def)
qed

lemma organization_list_strict:
  assumes "org_wf t"
  shows "sorted_wrt (\<lambda>a b. org_ID b < org_ID a) (organization_list d t)"
proof -
  have "sorted_wrt (\<lambda>a b. org_ID b \<le> org_ID a) (organization_list d t)"
    unfolding organization_list_def by (rule sorted_sort_by) auto
  moreover have "distinct (map org_ID (organization_list d t))"
    unfolding organization_list_def by (rule distinct_map_sort_by [OF distinct_organizations_of [OF assms]])
  ultimately show ?thesis
    by (rule sorted_wrt_mono_rel [rotated, OF sorted_wrt_distinct]) auto
qed

definition organization_fetch ::
  "'w organization_service \<Rightarrow> (string \<Rightarrow> uuid) \<Rightarrow> did \<Rightarrow> int \<Rightarrow> 'w \<Rightarrow> uuid option \<Rightarrow>
     (organization list \<times> uuid option) option" where
  "organization_fetch S parse d limit w c =
     (case PageForAccount S d c limit w of
        (Inl _, _) \<Rightarrow> None
      | (Inr p, _) \<Rightarrow> Some (Items p, if NextCursor p = [] then None else Some (parse (NextCursor p))))"

text \<open>
  An account that follows the cursors of its organizations from the first page to the
  last reads each active organization it is a member of exactly once. The cursor is the
  text of an id: \<open>parse\<close> is \<open>uuid.Parse\<close>, which reads back what \<open>uuid.UUID.String\<close> wrote.
\<close>

theorem organization_pages_complete:
  assumes "org_wf (tables w)" and "faults w = []" and "1 \<le> limit" and "limit \<le> 100"
    and "\<And>u. uuid_text u \<noteq> []" and "\<And>u. parse (uuid_text u) = u"
  shows "walk (Suc (length (organization_list d (tables w))))
      (organization_fetch (service uuid_text canonical request) parse d limit w) None
    = Some (organization_list d (tables w))"
proof (rule walk_complete [where before = "\<lambda>a b. org_ID b < org_ID a" and key = org_ID
      and after = "\<lambda>k v. org_ID v < k" and limit = "nat limit"])
  show "sorted_wrt (\<lambda>a b. org_ID b < org_ID a) (organization_list d (tables w))"
    by (rule organization_list_strict [OF assms(1)])
next
  fix c
  have limit: "nat (limit + 1) = Suc (nat limit)" using assms(3) by simp
  show "organization_fetch (service uuid_text canonical request) parse d limit w c
      = Some (page_of (nat limit) org_ID (take (Suc (nat limit))
          (rest_after (\<lambda>k v. org_ID v < k) c (organization_list d (tables w)))))"
    using assms(2-6)
    by (simp add: organization_fetch_def PageForAccount_def validateCollectionLimit_def check_apply
        call_apply ret_apply pg_PageForAccount_def pg_select_def pg_query_runs organization_page_sql
        page_of_def keysetPage_def page_cursor_def limit)
qed (use assms in auto)

definition unary_text :: "uuid \<Rightarrow> string" where
  "unary_text u = replicate (Suc (unat u)) (CHR ''u'')"

definition unary_parse :: "string \<Rightarrow> uuid" where
  "unary_parse s = word_of_nat (length s - 1)"

theorem organization_pages_complete_witness:
  "walk 2 (organization_fetch (service unary_text (\<lambda>_. True) []) unary_parse ''did:a'' 1 example_world) None
    = Some (organization_list ''did:a'' (tables example_world))"
proof -
  have one: "length (organization_list ''did:a'' (tables example_world)) = 1"
    by (simp add: example_defs organization_list_def organizations_of_def)
  have "walk (Suc (length (organization_list ''did:a'' (tables example_world))))
      (organization_fetch (service unary_text (\<lambda>_. True) []) unary_parse ''did:a'' 1 example_world) None
    = Some (organization_list ''did:a'' (tables example_world))"
    by (rule organization_pages_complete)
       (use example_org_ok in \<open>simp_all add: org_ok_def unary_text_def unary_parse_def example_world_def\<close>)
  then show ?thesis unfolding one by (simp only: One_nat_def numeral_2_eq_2)
qed

end
