(* ===== verification/Hierarchy.thy ===== *)
theory Hierarchy imports Prelude begin

text \<open>
  The two kinds of recursive query of the program over the team hierarchy. \<open>UNION ALL\<close>
  adds level after level and does not end on a cycle: \<open>levels\<close> gives up after the
  number of levels a hierarchy of that many rows can have. \<open>UNION\<close> keeps distinct rows
  and always ends: \<open>closure_rows\<close> repeats the step as often as there are rows.
\<close>

section \<open>Levels of a recursive query with UNION ALL\<close>

fun levels :: "nat \<Rightarrow> ('k \<Rightarrow> 'k list) \<Rightarrow> 'k list \<Rightarrow> 'k list option" where
  "levels 0 step frontier = (if frontier = [] then Some [] else None)"
| "levels (Suc n) step frontier =
     (if frontier = [] then Some []
      else map_option ((@) frontier) (levels n step (concat (map step frontier))))"

definition step_rel :: "('k \<Rightarrow> 'k list) \<Rightarrow> ('k \<times> 'k) set" where
  "step_rel step = {(x, y). y \<in> set (step x)}"

lemma levels_sound:
  "levels n step frontier = Some ys \<Longrightarrow> set ys = (step_rel step)\<^sup>* `` set frontier"
proof (induction n arbitrary: frontier ys)
  case 0
  then show ?case by (auto split: if_splits)
next
  case (Suc n)
  show ?case
  proof (cases "frontier = []")
    case True
    with Suc.prems show ?thesis by simp
  next
    case False
    with Suc.prems obtain zs where zs: "levels n step (concat (map step frontier)) = Some zs"
      and ys: "ys = frontier @ zs" by auto
    have "set zs = (step_rel step)\<^sup>* `` (step_rel step `` set frontier)"
      using Suc.IH [OF zs] by (auto simp: step_rel_def Image_iff)
    moreover have "(step_rel step)\<^sup>* `` set frontier
        = set frontier \<union> (step_rel step)\<^sup>* `` (step_rel step `` set frontier)"
      by (auto intro: converse_rtrancl_into_rtrancl elim: converse_rtranclE)
    ultimately show ?thesis by (simp add: ys)
  qed
qed

text \<open>
  Enough fuel: where a measure drops along every step, the levels end within it.
\<close>

lemma levels_enough:
  assumes "\<And>x y. y \<in> set (step x) \<Longrightarrow> height y < height x" and "\<And>x. x \<in> set frontier \<Longrightarrow> height x < n"
  shows "\<exists>ys. levels n step frontier = Some ys"
  using assms(2)
proof (induction n arbitrary: frontier)
  case 0
  then have "frontier = []" by (cases frontier) auto
  then show ?case by simp
next
  case (Suc n)
  have "\<exists>ys. levels n step (concat (map step frontier)) = Some ys"
  proof (rule Suc.IH)
    fix y assume "y \<in> set (concat (map step frontier))"
    then obtain x where "x \<in> set frontier" "y \<in> set (step x)" by auto
    with Suc.prems assms(1) show "height y < n" by (metis less_Suc_eq_le order_less_le_trans)
  qed
  then show ?case by auto
qed

text \<open>
  In a relation on a finite set of nodes that has no cycle, such a measure exists: the
  number of nodes below. It is less than the number of nodes.
\<close>

definition below :: "('k \<times> 'k) set \<Rightarrow> 'k \<Rightarrow> nat" where
  "below r x = card (r\<^sup>+ `` {x})"

lemma below_step:
  assumes "finite r" and "acyclic r" and "(x, y) \<in> r"
  shows "below r y < below r x"
proof -
  have "r\<^sup>+ `` {x} \<subseteq> Range (r\<^sup>+)" by blast
  then have fin: "finite (r\<^sup>+ `` {x})"
    using assms(1) by (metis finite_Range finite_subset finite_trancl)
  have "r\<^sup>+ `` {y} \<subset> r\<^sup>+ `` {x}"
  proof
    show "r\<^sup>+ `` {y} \<subseteq> r\<^sup>+ `` {x}" using assms(3) by (auto intro: trancl_into_trancl2)
    have "y \<in> r\<^sup>+ `` {x}" using assms(3) by auto
    moreover have "y \<notin> r\<^sup>+ `` {y}" using assms(2) by (auto simp: acyclic_def)
    ultimately show "r\<^sup>+ `` {y} \<noteq> r\<^sup>+ `` {x}" by blast
  qed
  with fin show ?thesis unfolding below_def by (rule psubset_card_mono)
qed

lemma below_bound:
  assumes "finite N" and "Range r \<subseteq> N"
  shows "below r x \<le> card N"
proof -
  have "r\<^sup>+ `` {x} \<subseteq> Range (r\<^sup>+)" by blast
  then have "r\<^sup>+ `` {x} \<subseteq> N" using assms(2) by (simp add: trancl_range)
  with assms(1) show ?thesis unfolding below_def by (rule card_mono)
qed

lemma levels_acyclic:
  assumes "finite N" and "step_rel step \<subseteq> N \<times> N" and "acyclic (step_rel step)" and "card N < n"
  shows "\<exists>ys. levels n step frontier = Some ys"
proof (rule levels_enough [where height = "below (step_rel step)"])
  have fin: "finite (step_rel step)"
    using assms(1,2) by (metis finite_SigmaI finite_subset)
  show "below (step_rel step) y < below (step_rel step) x" if "y \<in> set (step x)" for x y
    using that by (intro below_step [OF fin assms(3)]) (simp add: step_rel_def)
  show "below (step_rel step) x < n" for x
    using below_bound [OF assms(1), of "step_rel step" x] assms(2,4) by fastforce
qed

section \<open>Closure of a recursive query with UNION\<close>

fun closure_rows :: "nat \<Rightarrow> ('k \<Rightarrow> 'k list) \<Rightarrow> 'k list \<Rightarrow> 'k list" where
  "closure_rows 0 step xs = xs"
| "closure_rows (Suc n) step xs = closure_rows n step (remdups (xs @ concat (map step xs)))"

lemma closure_rows_grows: "set xs \<subseteq> set (closure_rows n step xs)"
  by (induction n arbitrary: xs) (auto, fastforce)

lemma closure_rows_sound: "set (closure_rows n step xs) \<subseteq> (step_rel step)\<^sup>* `` set xs"
proof (induction n arbitrary: xs)
  case (Suc n)
  have "set (remdups (xs @ concat (map step xs))) \<subseteq> (step_rel step)\<^sup>* `` set xs"
    by (auto simp: step_rel_def Image_iff)
  then have "(step_rel step)\<^sup>* `` set (remdups (xs @ concat (map step xs)))
      \<subseteq> (step_rel step)\<^sup>* `` ((step_rel step)\<^sup>* `` set xs)"
    by (rule Image_mono [OF subset_refl])
  also have "\<dots> = (step_rel step)\<^sup>* `` set xs" by (simp add: relcomp_Image [symmetric])
  finally have "(step_rel step)\<^sup>* `` set (remdups (xs @ concat (map step xs)))
      \<subseteq> (step_rel step)\<^sup>* `` set xs" .
  with Suc.IH [of "remdups (xs @ concat (map step xs))"] show ?case by auto
qed auto

text \<open>Enough rounds: a round that adds no row has reached everything; every other adds one.\<close>

lemma closure_rows_complete:
  assumes "set xs \<subseteq> N" and "finite N" and "\<And>x. x \<in> N \<Longrightarrow> set (step x) \<subseteq> N"
    and "card N \<le> n + card (set xs)"
  shows "(step_rel step)\<^sup>* `` set xs \<subseteq> set (closure_rows n step xs)"
  using assms(1,4)
proof (induction n arbitrary: xs)
  case 0
  then have "set xs = N" using assms(2) by (metis add_0 card_seteq)
  moreover have "step_rel step `` N \<subseteq> N" using assms(3) by (auto simp: step_rel_def)
  ultimately show ?case by (simp add: Image_closed_trancl)
next
  case (Suc n)
  let ?ys = "remdups (xs @ concat (map step xs))"
  have ys: "set ?ys = set xs \<union> (\<Union>x\<in>set xs. set (step x))" by auto
  have sub: "set ?ys \<subseteq> N" using Suc.prems(1) assms(3) by (auto simp: ys)
  have mono: "(step_rel step)\<^sup>* `` set xs \<subseteq> (step_rel step)\<^sup>* `` set ?ys" by auto
  show ?case
  proof (cases "set ?ys = set xs")
    case True
    then have "step_rel step `` set xs \<subseteq> set xs" by (auto simp: step_rel_def ys)
    then have "(step_rel step)\<^sup>* `` set xs = set xs" by (rule Image_closed_trancl)
    with closure_rows_grows show ?thesis by metis
  next
    case False
    then have "card (set xs) < card (set ?ys)" by (intro psubset_card_mono) (auto simp: ys)
    with Suc.prems(2) have "card N \<le> n + card (set ?ys)" by simp
    from Suc.IH [OF sub this] mono show ?thesis by auto
  qed
qed

lemma closure_rows_iff:
  assumes "set xs \<subseteq> N" and "finite N" and "\<And>x. x \<in> N \<Longrightarrow> set (step x) \<subseteq> N" and "card N \<le> n"
  shows "set (closure_rows n step xs) = (step_rel step)\<^sup>* `` set xs"
  by (intro equalityI closure_rows_sound closure_rows_complete [where N = N]) (use assms in auto)

end
