(* ===== verification/Team_Tables.thy ===== *)
theory Team_Tables imports Org_Queries Hierarchy begin

text \<open>
  The statements of \<^verbatim>\<open>internal/database/queries/organizations.sql\<close> on teams, their
  members and their repositories, and of \<^verbatim>\<open>collaborators.sql\<close> on collaborators and
  repository access. An \<open>INSERT \<dots> SELECT \<dots> WHERE\<close> whose condition fails inserts no row
  and \<open>RETURNING\<close> gives none. A recursive query that would not end is an error here:
  \<open>Team_Safety\<close> shows that none is reached.
\<close>

section \<open>Rows\<close>

abbreviation te_id :: "team_row \<Rightarrow> uuid" where "te_id r \<equiv> team_ID (te_team r)"
abbreviation te_org :: "team_row \<Rightarrow> uuid" where "te_org r \<equiv> team_OrganizationID (te_team r)"
abbreviation te_parent :: "team_row \<Rightarrow> uuid option" where "te_parent r \<equiv> team_ParentTeamID (te_team r)"
abbreviation te_visibility :: "team_row \<Rightarrow> team_visibility" where
  "te_visibility r \<equiv> team_Visibility (te_team r)"
abbreviation live_team :: "team_row \<Rightarrow> bool" where "live_team r \<equiv> te_deleted_at r = None"
abbreviation rr_id :: "repo_row \<Rightarrow> uuid" where "rr_id r \<equiv> repo_ID (rr_repo r)"
abbreviation live_repo :: "repo_row \<Rightarrow> bool" where "live_repo r \<equiv> rr_deleted_at r = None"
abbreviation tm_key :: "team_member \<Rightarrow> uuid \<times> did" where "tm_key m \<equiv> (tm_TeamID m, tm_AccountDID m)"
abbreviation tr_key :: "team_repository \<Rightarrow> uuid \<times> uuid" where
  "tr_key a \<equiv> (tr_TeamID a, tr_RepositoryID a)"
abbreviation col_key :: "repository_collaborator \<Rightarrow> uuid \<times> did" where
  "col_key c \<equiv> (col_RepositoryID c, col_AccountDID c)"

definition team_visibility_check :: "team_visibility \<Rightarrow> bool" where
  "team_visibility_check v \<longleftrightarrow> v = TeamVisibilityVisible \<or> v = TeamVisibilitySecret"

definition team_role_check :: "team_role \<Rightarrow> bool" where
  "team_role_check r \<longleftrightarrow> r = TeamRoleMember \<or> r = TeamRoleMaintainer"

definition repository_role_check :: "repository_role \<Rightarrow> bool" where
  "repository_role_check r \<longleftrightarrow>
     r \<in> {RepositoryRoleRead, RepositoryRoleTriage, RepositoryRoleWrite, RepositoryRoleMaintain,
           RepositoryRoleAdmin}"

text \<open>A visible, live team of the organization, as the parent of another team.\<close>

definition parent_team :: "uuid \<Rightarrow> uuid \<Rightarrow> team_row \<Rightarrow> bool" where
  "parent_team oid pid r \<longleftrightarrow>
     te_id r = pid \<and> te_org r = oid \<and> te_visibility r = TeamVisibilityVisible \<and> live_team r"

text \<open>\<open>INSERT \<dots> ON CONFLICT (key) DO UPDATE\<close>: change the row with the key, or append one.\<close>

definition upsert :: "('r \<Rightarrow> 'k) \<Rightarrow> ('r \<Rightarrow> 'r) \<Rightarrow> 'r \<Rightarrow> 'r list \<Rightarrow> 'r \<times> 'r list" where
  "upsert k f new rows =
     (case find (\<lambda>r. k r = k new) rows of
        None \<Rightarrow> (new, rows @ [new])
      | Some r \<Rightarrow> (f r, update_where (\<lambda>r. k r = k new) f rows))"

section \<open>Teams\<close>

definition sql_CreateOrganizationTeam :: "team \<Rightarrow> team sql" where
  "sql_CreateOrganizationTeam value t =
     (let row = value\<lparr>team_ViewerIsMember := False, team_ViewerRole := TeamRole_Other [],
                      team_UpdatedAt := team_CreatedAt value\<rparr>
      in if (case team_ParentTeamID value of None \<Rightarrow> False
             | Some p \<Rightarrow> \<not> (team_Visibility value = TeamVisibilityVisible
                       \<and> list_ex (parent_team (team_OrganizationID value) p) (organization_teams t)))
         then Inl no_rows
         else if \<not> slugPattern (team_Slug row) \<or> team_Name row = []
            \<or> \<not> team_visibility_check (team_Visibility row)
         then Inl check_violation
         else if list_ex (\<lambda>r. te_id r = team_ID row) (organization_teams t)
            \<or> list_ex (\<lambda>r. te_org r = team_OrganizationID row \<and> live_team r
                     \<and> lower (team_Slug (te_team r)) = lower (team_Slug row)) (organization_teams t)
         then Inl unique_violation
         else if \<not> list_ex (\<lambda>r. org_key r = team_OrganizationID row) (organizations t)
         then Inl foreign_key_violation
         else Inr (row, t\<lparr>organization_teams := organization_teams t @
                          [\<lparr>te_team = row, te_deleted_at = None\<rparr>]\<rparr>))"

definition live_children :: "org_tables \<Rightarrow> uuid \<Rightarrow> uuid list" where
  "live_children t pid =
     map te_id (filter (\<lambda>r. te_parent r = Some pid \<and> live_team r) (organization_teams t))"

definition live_children_in :: "uuid \<Rightarrow> org_tables \<Rightarrow> uuid \<Rightarrow> uuid list" where
  "live_children_in oid t pid =
     map te_id (filter (\<lambda>r. te_org r = oid \<and> te_parent r = Some pid \<and> live_team r) (organization_teams t))"

definition recursion_levels :: "org_tables \<Rightarrow> nat" where
  "recursion_levels t = Suc (length (organization_teams t))"

abbreviation endless :: err where "endless \<equiv> Opaque ''endless recursion''"

definition sql_UpdateOrganizationTeam :: "team \<Rightarrow> team sql" where
  "sql_UpdateOrganizationTeam value t =
     (case levels (recursion_levels t) (live_children t) (live_children t (team_ID value)) of
        None \<Rightarrow> Inl endless
      | Some descendants \<Rightarrow>
          (let target = (\<lambda>r. te_id r = team_ID value \<and> te_org r = team_OrganizationID value \<and> live_team r
                 \<and> (case team_ParentTeamID value of None \<Rightarrow> True
                    | Some p \<Rightarrow> team_Visibility value = TeamVisibilityVisible \<and> p \<noteq> team_ID value
                        \<and> p \<notin> set descendants
                        \<and> list_ex (parent_team (team_OrganizationID value) p) (organization_teams t))
                 \<and> (team_Visibility value \<noteq> TeamVisibilitySecret
                    \<or> team_ParentTeamID value = None \<and> descendants = []));
               change = (\<lambda>v. v\<lparr>team_ParentTeamID := team_ParentTeamID value, team_Name := team_Name value,
                              team_Description := team_Description value,
                              team_Visibility := team_Visibility value,
                              team_UpdatedAt := team_UpdatedAt value\<rparr>)
           in case find target (organization_teams t) of
                None \<Rightarrow> Inl no_rows
              | Some r \<Rightarrow>
                  if team_Name value = [] \<or> \<not> team_visibility_check (team_Visibility value)
                  then Inl check_violation
                  else Inr (change (te_team r), t\<lparr>organization_teams :=
                         update_where target (\<lambda>r. r\<lparr>te_team := change (te_team r)\<rparr>)
                           (organization_teams t)\<rparr>)))"

definition sql_OrganizationTeamHasChildren :: "uuid \<Rightarrow> uuid \<Rightarrow> bool sql" where
  "sql_OrganizationTeamHasChildren oid tid t =
     Inr (list_ex (\<lambda>r. te_org r = oid \<and> te_parent r = Some tid \<and> live_team r) (organization_teams t), t)"

definition sql_ListOrganizationTeamDescendantIDs :: "uuid \<Rightarrow> uuid \<Rightarrow> uuid list sql" where
  "sql_ListOrganizationTeamDescendantIDs oid tid t =
     (case levels (recursion_levels t) (live_children_in oid t) (live_children_in oid t tid) of
        None \<Rightarrow> Inl endless | Some descendants \<Rightarrow> Inr (descendants, t))"

definition sql_DeleteOrganizationTeamHierarchy :: "uuid \<Rightarrow> uuid \<Rightarrow> instant \<Rightarrow> int sql" where
  "sql_DeleteOrganizationTeamHierarchy oid tid deleted_at t =
     (case levels (recursion_levels t) (live_children_in oid t)
             (map te_id (filter (\<lambda>r. te_id r = tid \<and> te_org r = oid \<and> live_team r) (organization_teams t))) of
        None \<Rightarrow> Inl endless
      | Some descendants \<Rightarrow>
          Inr (int (length (filter (\<lambda>r. te_id r \<in> set descendants) (organization_teams t))),
               t\<lparr>organization_teams := update_where (\<lambda>r. te_id r \<in> set descendants)
                    (\<lambda>r. r\<lparr>te_deleted_at := Some deleted_at,
                           te_team := (te_team r)\<lparr>team_UpdatedAt := deleted_at\<rparr>\<rparr>)
                    (organization_teams t)\<rparr>))"

definition sql_GetOrganizationTeam :: "uuid \<Rightarrow> uuid \<Rightarrow> team sql" where
  "sql_GetOrganizationTeam oid tid t =
     one_row (map_option te_team
       (find (\<lambda>r. te_id r = tid \<and> te_org r = oid \<and> live_team r) (organization_teams t))) t"

text \<open>The columns a viewer sees of a team, and the order of the lists.\<close>

definition seen_by :: "did \<Rightarrow> org_tables \<Rightarrow> team_row \<Rightarrow> team" where
  "seen_by viewer t r =
     (case find (\<lambda>m. tm_key m = (te_id r, viewer)) (organization_team_members t) of
        None \<Rightarrow> (te_team r)\<lparr>team_ViewerIsMember := False, team_ViewerRole := TeamRole_Other []\<rparr>
      | Some m \<Rightarrow> (te_team r)\<lparr>team_ViewerIsMember := True, team_ViewerRole := tm_Role m\<rparr>)"

definition team_order :: "(string \<Rightarrow> string \<Rightarrow> bool) \<Rightarrow> team \<Rightarrow> team \<Rightarrow> bool" where
  "team_order text_le a b \<longleftrightarrow>
     (if lower (team_Name a) = lower (team_Name b) then team_ID a \<le> team_ID b
      else text_le (lower (team_Name a)) (lower (team_Name b)))"

definition sql_ListOrganizationTeams ::
  "(string \<Rightarrow> string \<Rightarrow> bool) \<Rightarrow> did \<Rightarrow> uuid \<Rightarrow> org_tables \<Rightarrow> team list" where
  "sql_ListOrganizationTeams text_le viewer oid t =
     sort_by (team_order text_le)
       (map (seen_by viewer t) (filter (\<lambda>r. te_org r = oid \<and> live_team r) (organization_teams t)))"

definition sql_PageOrganizationTeams ::
  "(string \<Rightarrow> string \<Rightarrow> bool) \<Rightarrow> did \<Rightarrow> uuid \<Rightarrow> bool \<Rightarrow> uuid option \<Rightarrow> int \<Rightarrow> org_tables \<Rightarrow> team list" where
  "sql_PageOrganizationTeams text_le viewer oid include_secret after_id page_limit t =
     take (nat page_limit) (sort_by (team_order text_le)
       (filter (\<lambda>v. (include_secret \<or> team_Visibility v = TeamVisibilityVisible \<or> team_ViewerIsMember v)
            \<and> (case after_id of None \<Rightarrow> True
               | Some a \<Rightarrow>
                   (case find (\<lambda>c. te_org c = oid \<and> te_id c = a) (organization_teams t) of
                      None \<Rightarrow> False
                    | Some c \<Rightarrow> team_order text_le (te_team c) v \<and> team_ID v \<noteq> te_id c)))
         (map (seen_by viewer t) (filter (\<lambda>r. te_org r = oid \<and> live_team r) (organization_teams t)))))"

section \<open>Team members\<close>

definition sql_AddOrganizationTeamMember :: "uuid \<Rightarrow> did \<Rightarrow> team_role \<Rightarrow> instant \<Rightarrow> team_member sql" where
  "sql_AddOrganizationTeamMember tid account role now t =
     (if \<not> list_ex (\<lambda>r. te_id r = tid \<and> live_team r
            \<and> list_ex (\<lambda>m. mem_OrganizationID m = te_org r \<and> mem_AccountDID m = account)
                (organization_members t)) (organization_teams t)
      then Inl no_rows
      else if \<not> team_role_check role then Inl check_violation
      else case upsert tm_key (\<lambda>m. m\<lparr>tm_Role := role, tm_UpdatedAt := now\<rparr>)
             \<lparr>tm_TeamID = tid, tm_AccountDID = account, tm_Handle = [], tm_Role = role,
              tm_CreatedAt = now, tm_UpdatedAt = now\<rparr> (organization_team_members t) of
           (m, rows) \<Rightarrow> Inr (m, t\<lparr>organization_team_members := rows\<rparr>))"

definition sql_GetOrganizationTeamMember :: "uuid \<Rightarrow> did \<Rightarrow> team_member sql" where
  "sql_GetOrganizationTeamMember tid account t =
     one_row (find (\<lambda>m. tm_key m = (tid, account)) (organization_team_members t)) t"

definition team_members_with_handle :: "uuid \<Rightarrow> org_tables \<Rightarrow> (team_member \<times> string option) list" where
  "team_members_with_handle tid t =
     [(m, snd a). m \<leftarrow> organization_team_members t, a \<leftarrow> accounts t,
        fst a = tm_AccountDID m \<and> tm_TeamID m = tid]"

definition team_member_row :: "team_member \<times> string option \<Rightarrow> team_member" where
  "team_member_row mh = (fst mh)\<lparr>tm_Handle := (case snd mh of None \<Rightarrow> [] | Some h \<Rightarrow> h)\<rparr>"

definition sql_ListOrganizationTeamMembers ::
  "(string \<Rightarrow> string \<Rightarrow> bool) \<Rightarrow> uuid \<Rightarrow> org_tables \<Rightarrow> team_member list" where
  "sql_ListOrganizationTeamMembers text_le tid t =
     (let first = (\<lambda>mh. if tm_Role (fst mh) = TeamRoleMaintainer then 0 else 1 :: nat);
          shown = (\<lambda>mh. lower (case snd mh of None \<Rightarrow> tm_AccountDID (fst mh) | Some h \<Rightarrow> h))
      in map team_member_row
           (sort_by (\<lambda>a b. first a < first b \<or> first a = first b \<and> text_le (shown a) (shown b))
             (team_members_with_handle tid t)))"

definition sql_PageOrganizationTeamMembers ::
  "(string \<Rightarrow> string \<Rightarrow> bool) \<Rightarrow> uuid \<Rightarrow> did \<Rightarrow> int \<Rightarrow> org_tables \<Rightarrow> team_member list" where
  "sql_PageOrganizationTeamMembers text_le tid after_did page_limit t =
     map team_member_row (take (nat page_limit)
       (sort_by (\<lambda>a b. text_le (tm_AccountDID (fst a)) (tm_AccountDID (fst b)))
         (filter (\<lambda>mh. after_did = [] \<or>
                    text_le after_did (tm_AccountDID (fst mh)) \<and> tm_AccountDID (fst mh) \<noteq> after_did)
           (team_members_with_handle tid t))))"

definition sql_DeleteOrganizationTeamMember :: "uuid \<Rightarrow> did \<Rightarrow> int sql" where
  "sql_DeleteOrganizationTeamMember tid account t =
     Inr (int (length (filter (\<lambda>m. tm_key m = (tid, account)) (organization_team_members t))),
          t\<lparr>organization_team_members :=
              delete_where (\<lambda>m. tm_key m = (tid, account)) (organization_team_members t)\<rparr>)"

section \<open>Team repositories\<close>

definition sql_PutOrganizationTeamRepository ::
  "uuid \<Rightarrow> uuid \<Rightarrow> repository_role \<Rightarrow> instant \<Rightarrow> team_repository sql" where
  "sql_PutOrganizationTeamRepository tid rid role now t =
     (if \<not> list_ex (\<lambda>r. te_id r = tid \<and> live_team r
            \<and> list_ex (\<lambda>v. rr_id v = rid \<and> repo_OrganizationID (rr_repo v) = Some (te_org r) \<and> live_repo v)
                (repositories t)) (organization_teams t)
      then Inl no_rows
      else if \<not> repository_role_check role then Inl check_violation
      else case upsert tr_key (\<lambda>a. a\<lparr>tr_Role := role, tr_UpdatedAt := now\<rparr>)
             \<lparr>tr_TeamID = tid, tr_RepositoryID = rid, tr_RepositorySlug = [], tr_Role = role,
              tr_CreatedAt = now, tr_UpdatedAt = now\<rparr> (organization_team_repositories t) of
           (a, rows) \<Rightarrow> Inr (a, t\<lparr>organization_team_repositories := rows\<rparr>))"

definition sql_GetRepository :: "uuid \<Rightarrow> repository sql" where
  "sql_GetRepository rid t =
     one_row (map_option rr_repo (find (\<lambda>r. rr_id r = rid \<and> live_repo r) (repositories t))) t"

definition team_assignments :: "uuid \<Rightarrow> org_tables \<Rightarrow> team_repository list" where
  "team_assignments tid t =
     [a\<lparr>tr_RepositorySlug := repo_Slug (rr_repo r)\<rparr>. a \<leftarrow> organization_team_repositories t, r \<leftarrow> repositories t,
        rr_id r = tr_RepositoryID a \<and> tr_TeamID a = tid \<and> live_repo r]"

definition sql_ListOrganizationTeamRepositories ::
  "(string \<Rightarrow> string \<Rightarrow> bool) \<Rightarrow> uuid \<Rightarrow> org_tables \<Rightarrow> team_repository list" where
  "sql_ListOrganizationTeamRepositories text_le tid t =
     sort_by (\<lambda>a b. if lower (tr_RepositorySlug a) = lower (tr_RepositorySlug b)
                    then tr_RepositoryID a \<le> tr_RepositoryID b
                    else text_le (lower (tr_RepositorySlug a)) (lower (tr_RepositorySlug b)))
       (team_assignments tid t)"

definition sql_PageOrganizationTeamRepositories ::
  "uuid \<Rightarrow> uuid option \<Rightarrow> int \<Rightarrow> org_tables \<Rightarrow> team_repository list" where
  "sql_PageOrganizationTeamRepositories tid after_id page_limit t =
     take (nat page_limit) (sort_by (\<lambda>a b. tr_RepositoryID a \<le> tr_RepositoryID b)
       (filter (\<lambda>a. case after_id of None \<Rightarrow> True | Some c \<Rightarrow> tr_RepositoryID a > c)
         (team_assignments tid t)))"

definition sql_DeleteOrganizationTeamRepository :: "uuid \<Rightarrow> uuid \<Rightarrow> int sql" where
  "sql_DeleteOrganizationTeamRepository tid rid t =
     Inr (int (length (filter (\<lambda>a. tr_key a = (tid, rid)) (organization_team_repositories t))),
          t\<lparr>organization_team_repositories :=
              delete_where (\<lambda>a. tr_key a = (tid, rid)) (organization_team_repositories t)\<rparr>)"

end
