(* ===== verification/Access_Tables.thy ===== *)
theory Access_Tables imports Team_Tables begin

text \<open>
  The access statements of \<^verbatim>\<open>internal/database/queries/collaborators.sql\<close>: who may read,
  triage, write and administer a repository, by ownership, organization role, base
  permission, team assignments inherited along the team hierarchy, and direct
  collaboration.
\<close>

section \<open>The teams an account acts through\<close>

text \<open>
  \<open>team_lineage\<close>: the live teams the account is a member of, and from each its live
  parents. \<open>scope\<close> keeps the teams of one organization, where the query does.
\<close>

definition scoped :: "uuid option \<Rightarrow> team_row \<Rightarrow> bool" where
  "scoped scope r \<longleftrightarrow> (case scope of None \<Rightarrow> True | Some oid \<Rightarrow> te_org r = oid)"

definition own_teams :: "uuid option \<Rightarrow> org_tables \<Rightarrow> did \<Rightarrow> uuid list" where
  "own_teams scope t account =
     [te_id r. m \<leftarrow> organization_team_members t, r \<leftarrow> organization_teams t,
        te_id r = tm_TeamID m \<and> tm_AccountDID m = account \<and> scoped scope r \<and> live_team r]"

definition parent_teams :: "uuid option \<Rightarrow> org_tables \<Rightarrow> uuid \<Rightarrow> uuid list" where
  "parent_teams scope t tid =
     [te_id p. r \<leftarrow> organization_teams t, p \<leftarrow> organization_teams t,
        te_id r = tid \<and> te_parent r = Some (te_id p) \<and> scoped scope p \<and> live_team p]"

definition team_lineage :: "uuid option \<Rightarrow> org_tables \<Rightarrow> did \<Rightarrow> uuid list" where
  "team_lineage scope t account =
     closure_rows (length (organization_teams t)) (parent_teams scope t) (own_teams scope t account)"

text \<open>Enough rounds: the lineage is every team reached from an own team along live parents.\<close>

lemma team_lineage_iff:
  "set (team_lineage scope t account) =
     (step_rel (parent_teams scope t))\<^sup>* `` set (own_teams scope t account)"
  unfolding team_lineage_def
proof (rule closure_rows_iff)
  show "set (own_teams scope t account) \<subseteq> te_id ` set (organization_teams t)"
    by (force simp: own_teams_def)
  show "set (parent_teams scope t x) \<subseteq> te_id ` set (organization_teams t)" for x
    by (auto simp: parent_teams_def)
  show "card (te_id ` set (organization_teams t)) \<le> length (organization_teams t)"
    by (metis card_length length_map set_map)
qed simp

section \<open>Access\<close>

abbreviation write_roles :: "repository_role list" where
  "write_roles \<equiv> [RepositoryRoleWrite, RepositoryRoleMaintain, RepositoryRoleAdmin]"

abbreviation triage_roles :: "repository_role list" where
  "triage_roles \<equiv> RepositoryRoleTriage # write_roles"

abbreviation read_roles :: "repository_role list" where
  "read_roles \<equiv> RepositoryRoleRead # triage_roles"

definition account_owner :: "did \<Rightarrow> repository \<Rightarrow> bool" where
  "account_owner account r \<longleftrightarrow> repo_OrganizationID r = None \<and> repo_OwnerDID r = account"

definition org_member_of :: "org_tables \<Rightarrow> did \<Rightarrow> repository \<Rightarrow> member option" where
  "org_member_of t account r =
     (case repo_OrganizationID r of None \<Rightarrow> None
      | Some oid \<Rightarrow> find (\<lambda>m. member_key m = (oid, account)) (organization_members t))"

definition base_permission_of :: "org_tables \<Rightarrow> repository \<Rightarrow> base_permission option" where
  "base_permission_of t r =
     (case repo_OrganizationID r of None \<Rightarrow> None
      | Some oid \<Rightarrow> map_option (\<lambda>o'. org_BasePermission (or_org o'))
                     (find (\<lambda>o'. org_key o' = oid) (organizations t)))"

definition team_grant :: "repository_role list \<Rightarrow> uuid option \<Rightarrow> org_tables \<Rightarrow> did \<Rightarrow> repository \<Rightarrow> bool" where
  "team_grant roles scope t account r \<longleftrightarrow>
     list_ex (\<lambda>a. tr_TeamID a \<in> set (team_lineage scope t account) \<and> tr_RepositoryID a = repo_ID r
                \<and> tr_Role a \<in> set roles) (organization_team_repositories t)"

definition collaborator_grant :: "repository_role list \<Rightarrow> org_tables \<Rightarrow> did \<Rightarrow> repository \<Rightarrow> bool" where
  "collaborator_grant roles t account r \<longleftrightarrow>
     list_ex (\<lambda>c. col_key c = (repo_ID r, account) \<and> col_Role c \<in> set roles) (repository_collaborators t)"

definition owner_grant :: "org_tables \<Rightarrow> did \<Rightarrow> repository \<Rightarrow> bool" where
  "owner_grant t account r \<longleftrightarrow>
     (case org_member_of t account r of None \<Rightarrow> False | Some m \<Rightarrow> mem_Role m = RoleOwner)"

definition base_grant :: "base_permission list \<Rightarrow> org_tables \<Rightarrow> did \<Rightarrow> repository \<Rightarrow> bool" where
  "base_grant permissions t account r \<longleftrightarrow>
     org_member_of t account r \<noteq> None
     \<and> (case base_permission_of t r of None \<Rightarrow> False | Some p \<Rightarrow> p \<in> set permissions)"

definition exists_repository :: "(repository \<Rightarrow> bool) \<Rightarrow> uuid \<Rightarrow> bool sql" where
  "exists_repository p rid t =
     Inr (list_ex (\<lambda>r. rr_id r = rid \<and> live_repo r \<and> p (rr_repo r)) (repositories t), t)"

definition sql_CanReadRepository :: "did \<Rightarrow> uuid \<Rightarrow> bool sql" where
  "sql_CanReadRepository account rid t =
     exists_repository (\<lambda>r. repo_Visibility r = Repo_Public \<or> account_owner account r \<or> owner_grant t account r
       \<or> base_grant [BasePermissionRead, BasePermissionWrite] t account r
       \<or> team_grant read_roles None t account r \<or> collaborator_grant read_roles t account r) rid t"

definition sql_CanTriageRepository :: "did \<Rightarrow> uuid \<Rightarrow> bool sql" where
  "sql_CanTriageRepository account rid t =
     exists_repository (\<lambda>r. account_owner account r \<or> owner_grant t account r
       \<or> base_grant [BasePermissionWrite] t account r
       \<or> team_grant triage_roles None t account r \<or> collaborator_grant triage_roles t account r) rid t"

definition sql_CanWriteRepository :: "did \<Rightarrow> uuid \<Rightarrow> bool sql" where
  "sql_CanWriteRepository account rid t =
     exists_repository (\<lambda>r. account_owner account r \<or> owner_grant t account r
       \<or> base_grant [BasePermissionWrite] t account r
       \<or> team_grant write_roles None t account r \<or> collaborator_grant write_roles t account r) rid t"

definition sql_CanAdminRepository :: "did \<Rightarrow> uuid \<Rightarrow> bool sql" where
  "sql_CanAdminRepository account rid t =
     exists_repository (\<lambda>r. account_owner account r \<or> owner_grant t account r
       \<or> team_grant [RepositoryRoleAdmin] None t account r
       \<or> collaborator_grant [RepositoryRoleAdmin] t account r) rid t"

definition sql_CanAdminOrganizationRepository :: "uuid \<Rightarrow> uuid \<Rightarrow> did \<Rightarrow> bool sql" where
  "sql_CanAdminOrganizationRepository oid rid account t =
     exists_repository (\<lambda>r. repo_OrganizationID r = Some oid \<and>
       (owner_grant t account r \<or> collaborator_grant [RepositoryRoleAdmin] t account r
        \<or> team_grant [RepositoryRoleAdmin] (Some oid) t account r)) rid t"

section \<open>Collaborators\<close>

definition sql_EnsureAccount :: "did \<Rightarrow> unit sql" where
  "sql_EnsureAccount account t =
     (if account_exists t account then Inr ((), t)
      else if account = [] then Inl check_violation
      else Inr ((), t\<lparr>accounts := accounts t @ [(account, None)]\<rparr>))"

definition sql_PutOrganizationRepositoryCollaborator ::
  "did \<Rightarrow> repository_role \<Rightarrow> instant \<Rightarrow> uuid \<Rightarrow> uuid \<Rightarrow> repository_collaborator sql" where
  "sql_PutOrganizationRepositoryCollaborator account role now rid oid t =
     (if \<not> list_ex (\<lambda>r. rr_id r = rid \<and> repo_OrganizationID (rr_repo r) = Some oid \<and> live_repo r) (repositories t)
      then Inl no_rows
      else if \<not> repository_role_check role then Inl check_violation
      else if \<not> account_exists t account then Inl foreign_key_violation
      else case upsert col_key (\<lambda>c. c\<lparr>col_Role := role, col_UpdatedAt := now\<rparr>)
             \<lparr>col_RepositoryID = rid, col_RepositorySlug = [], col_AccountDID = account, col_Handle = [],
              col_Role = role, col_CreatedAt = now, col_UpdatedAt = now\<rparr> (repository_collaborators t) of
           (c, rows) \<Rightarrow> Inr (c, t\<lparr>repository_collaborators := rows\<rparr>))"

text \<open>The rows of the list with the key they are ordered by: the name shown, then the account.\<close>

definition shown_name :: "org_tables \<Rightarrow> did \<Rightarrow> string option" where
  "shown_name t account =
     map_option (\<lambda>a. lower (case snd a of None \<Rightarrow> account | Some h \<Rightarrow> h))
       (find (\<lambda>a. fst a = account) (accounts t))"

definition name_order ::
  "(string \<Rightarrow> string \<Rightarrow> bool) \<Rightarrow> string \<times> did \<Rightarrow> string \<times> did \<Rightarrow> bool" where
  "name_order text_le a b \<longleftrightarrow>
     (if fst a = fst b then text_le (snd a) (snd b) else text_le (fst a) (fst b))"

definition collaborators_of :: "uuid \<Rightarrow> uuid \<Rightarrow> org_tables \<Rightarrow> ((string \<times> did) \<times> repository_collaborator) list" where
  "collaborators_of oid rid t =
     [((lower (case snd a of None \<Rightarrow> col_AccountDID c | Some h \<Rightarrow> h), col_AccountDID c),
       c\<lparr>col_Handle := (case snd a of None \<Rightarrow> [] | Some h \<Rightarrow> h), col_RepositorySlug := repo_Slug (rr_repo r)\<rparr>).
        c \<leftarrow> repository_collaborators t, r \<leftarrow> repositories t, a \<leftarrow> accounts t,
        rr_id r = col_RepositoryID c \<and> fst a = col_AccountDID c \<and> repo_OrganizationID (rr_repo r) = Some oid
        \<and> rr_id r = rid \<and> live_repo r]"

definition sql_ListOrganizationRepositoryCollaborators ::
  "(string \<Rightarrow> string \<Rightarrow> bool) \<Rightarrow> uuid \<Rightarrow> uuid \<Rightarrow> did \<Rightarrow> int \<Rightarrow> org_tables \<Rightarrow> repository_collaborator list" where
  "sql_ListOrganizationRepositoryCollaborators text_le oid rid after_did page_limit t =
     map snd (take (nat page_limit) (sort_by (\<lambda>a b. name_order text_le (fst a) (fst b))
       (filter (\<lambda>x. after_did = [] \<or>
            (if list_ex (\<lambda>c. col_key c = (rid, after_did)) (repository_collaborators t)
             then case shown_name t after_did of None \<Rightarrow> False
                  | Some n \<Rightarrow> name_order text_le (n, after_did) (fst x) \<and> fst x \<noteq> (n, after_did)
             else False))
         (collaborators_of oid rid t))))"

definition sql_DeleteOrganizationRepositoryCollaborator :: "uuid \<Rightarrow> did \<Rightarrow> uuid \<Rightarrow> int sql" where
  "sql_DeleteOrganizationRepositoryCollaborator rid account oid t =
     (let p = (\<lambda>c. col_key c = (rid, account)
                 \<and> list_ex (\<lambda>r. rr_id r = rid \<and> repo_OrganizationID (rr_repo r) = Some oid) (repositories t))
      in Inr (int (length (filter p (repository_collaborators t))),
              t\<lparr>repository_collaborators := delete_where p (repository_collaborators t)\<rparr>))"

end
