(* ===== verification/Team_Store.thy ===== *)
theory Team_Store imports Access_Tables Org_Store begin

text \<open>
  \<^verbatim>\<open>internal/organization/team_postgres.go\<close> and \<^verbatim>\<open>collaborator_postgres.go\<close>: the
  operations of \<open>PostgresStore\<close> on teams and collaborators, the access checks of
  \<^verbatim>\<open>internal/auth/postgres.go\<close>, and the interfaces \<open>teamStore\<close> and \<open>collaboratorStore\<close>.
\<close>

section \<open>Teams\<close>

definition pg_CreateTeam :: "team \<Rightarrow> ('x pg_world_scheme, team) op" where
  "pg_CreateTeam value = pg_query (sql_CreateOrganizationTeam value)"

definition pg_UpdateTeam :: "team \<Rightarrow> ('x pg_world_scheme, team) op" where
  "pg_UpdateTeam value = pg_query (sql_UpdateOrganizationTeam value)"

definition pg_DeleteTeam :: "uuid \<Rightarrow> uuid \<Rightarrow> instant \<Rightarrow> ('x pg_world_scheme, int) op" where
  "pg_DeleteTeam oid tid deletedAt = pg_query (sql_DeleteOrganizationTeamHierarchy oid tid deletedAt)"

definition pg_TeamHasChildren :: "uuid \<Rightarrow> uuid \<Rightarrow> ('x pg_world_scheme, bool) op" where
  "pg_TeamHasChildren oid tid = pg_query (sql_OrganizationTeamHasChildren oid tid)"

definition pg_IsTeamDescendant :: "uuid \<Rightarrow> uuid \<Rightarrow> uuid \<Rightarrow> ('x pg_world_scheme, bool) op" where
  "pg_IsTeamDescendant oid tid candidate =
     call (pg_query (sql_ListOrganizationTeamDescendantIDs oid tid)) (\<lambda>e. e) (\<lambda>values.
     ret (candidate \<in> set values))"

definition pg_ListTeams :: "uuid \<Rightarrow> did \<Rightarrow> ('x pg_world_scheme, team list) op" where
  "pg_ListTeams oid viewer = pg_select (\<lambda>text_le. sql_ListOrganizationTeams text_le viewer oid)"

definition pg_PageTeams ::
  "uuid \<Rightarrow> did \<Rightarrow> bool \<Rightarrow> uuid option \<Rightarrow> int \<Rightarrow> ('x pg_world_scheme, team list) op" where
  "pg_PageTeams oid viewer includeSecret after limit =
     pg_select (\<lambda>text_le. sql_PageOrganizationTeams text_le viewer oid includeSecret after limit)"

definition pg_GetTeam :: "uuid \<Rightarrow> uuid \<Rightarrow> ('x pg_world_scheme, team) op" where
  "pg_GetTeam oid tid = pg_query (sql_GetOrganizationTeam oid tid)"

section \<open>Team members\<close>

definition pg_AddTeamMember ::
  "uuid \<Rightarrow> did \<Rightarrow> team_role \<Rightarrow> instant \<Rightarrow> ('x pg_world_scheme, team_member) op" where
  "pg_AddTeamMember tid account role now = pg_query (sql_AddOrganizationTeamMember tid account role now)"

definition pg_GetTeamMember :: "uuid \<Rightarrow> did \<Rightarrow> ('x pg_world_scheme, team_member) op" where
  "pg_GetTeamMember tid account = pg_query (sql_GetOrganizationTeamMember tid account)"

definition pg_ListTeamMembers :: "uuid \<Rightarrow> ('x pg_world_scheme, team_member list) op" where
  "pg_ListTeamMembers tid = pg_select (\<lambda>text_le. sql_ListOrganizationTeamMembers text_le tid)"

definition pg_PageTeamMembers ::
  "uuid \<Rightarrow> did \<Rightarrow> int \<Rightarrow> ('x pg_world_scheme, team_member list) op" where
  "pg_PageTeamMembers tid after limit =
     pg_select (\<lambda>text_le. sql_PageOrganizationTeamMembers text_le tid after limit)"

text \<open>A statement that deletes by key, and \<open>ErrNotFound\<close> where it deleted nothing.\<close>

definition pg_delete_one :: "int sql \<Rightarrow> ('x pg_world_scheme, unit) op" where
  "pg_delete_one q =
     call (pg_query q) (\<lambda>e. e) (\<lambda>count.
     fail_if (count = 0) (Sentinel org_ErrNotFound) (
     ret ()))"

definition pg_RemoveTeamMember :: "uuid \<Rightarrow> did \<Rightarrow> ('x pg_world_scheme, unit) op" where
  "pg_RemoveTeamMember tid account = pg_delete_one (sql_DeleteOrganizationTeamMember tid account)"

section \<open>Team repositories\<close>

definition pg_PutTeamRepository ::
  "uuid \<Rightarrow> uuid \<Rightarrow> repository_role \<Rightarrow> instant \<Rightarrow> ('x pg_world_scheme, team_repository) op" where
  "pg_PutTeamRepository tid rid role now =
     call (pg_query (sql_PutOrganizationTeamRepository tid rid role now)) (\<lambda>e. e) (\<lambda>row.
     call (pg_query (sql_GetRepository rid)) (\<lambda>e. e) (\<lambda>repository.
     ret (row\<lparr>tr_RepositorySlug := repo_Slug repository\<rparr>)))"

definition pg_ListTeamRepositories :: "uuid \<Rightarrow> ('x pg_world_scheme, team_repository list) op" where
  "pg_ListTeamRepositories tid = pg_select (\<lambda>text_le. sql_ListOrganizationTeamRepositories text_le tid)"

definition pg_PageTeamRepositories ::
  "uuid \<Rightarrow> uuid option \<Rightarrow> int \<Rightarrow> ('x pg_world_scheme, team_repository list) op" where
  "pg_PageTeamRepositories tid after limit =
     pg_select (\<lambda>_. sql_PageOrganizationTeamRepositories tid after limit)"

definition pg_RemoveTeamRepository :: "uuid \<Rightarrow> uuid \<Rightarrow> ('x pg_world_scheme, unit) op" where
  "pg_RemoveTeamRepository tid rid = pg_delete_one (sql_DeleteOrganizationTeamRepository tid rid)"

section \<open>Collaborators\<close>

definition pg_CanAdminOrganizationRepository ::
  "uuid \<Rightarrow> uuid \<Rightarrow> did \<Rightarrow> ('x pg_world_scheme, bool) op" where
  "pg_CanAdminOrganizationRepository oid rid account =
     pg_query (sql_CanAdminOrganizationRepository oid rid account)"

definition pg_PutRepositoryCollaborator ::
  "uuid \<Rightarrow> uuid \<Rightarrow> did \<Rightarrow> repository_role \<Rightarrow> instant
     \<Rightarrow> ('x pg_world_scheme, repository_collaborator) op" where
  "pg_PutRepositoryCollaborator oid rid account role now =
     transaction ''begin repository collaborator update'' ''commit repository collaborator update''
       (call (pg_exec (sql_EnsureAccount account)) mapStoreError (\<lambda>_.
        call (pg_exec (sql_PutOrganizationRepositoryCollaborator account role now rid oid))
          mapStoreError (\<lambda>row.
        ret row)))"

definition pg_ListRepositoryCollaborators ::
  "uuid \<Rightarrow> uuid \<Rightarrow> did \<Rightarrow> int \<Rightarrow> ('x pg_world_scheme, repository_collaborator list) op" where
  "pg_ListRepositoryCollaborators oid rid after limit =
     pg_select (\<lambda>text_le. sql_ListOrganizationRepositoryCollaborators text_le oid rid after limit)"

definition pg_RemoveRepositoryCollaborator ::
  "uuid \<Rightarrow> uuid \<Rightarrow> did \<Rightarrow> ('x pg_world_scheme, unit) op" where
  "pg_RemoveRepositoryCollaborator oid rid account =
     pg_delete_one (sql_DeleteOrganizationRepositoryCollaborator rid account oid)"

section \<open>The access checks of \<open>internal/auth\<close>\<close>

definition auth_query :: "string \<Rightarrow> bool sql \<Rightarrow> ('x pg_world_scheme, bool) op" where
  "auth_query msg q = call (pg_exec q) (wrapf msg) ret"

definition CanWriteRepository :: "did \<Rightarrow> uuid \<Rightarrow> ('x pg_world_scheme, bool) op" where
  "CanWriteRepository account rid = auth_query ''check repository write permission'' (sql_CanWriteRepository account rid)"

definition CanAdminRepository :: "did \<Rightarrow> uuid \<Rightarrow> ('x pg_world_scheme, bool) op" where
  "CanAdminRepository account rid = auth_query ''check repository admin permission'' (sql_CanAdminRepository account rid)"

definition CanTriageRepository :: "did \<Rightarrow> uuid \<Rightarrow> ('x pg_world_scheme, bool) op" where
  "CanTriageRepository account rid = auth_query ''check repository triage permission'' (sql_CanTriageRepository account rid)"

definition CanReadRepository :: "did \<Rightarrow> uuid \<Rightarrow> ('x pg_world_scheme, bool) op" where
  "CanReadRepository account rid = auth_query ''check repository read permission'' (sql_CanReadRepository account rid)"

section \<open>Interfaces\<close>

record 'w team_store =
  ts_GetOwner :: "uuid \<Rightarrow> did \<Rightarrow> ('w, member) op"
  ts_GetMember :: "uuid \<Rightarrow> did \<Rightarrow> ('w, member) op"
  ts_CreateTeam :: "team \<Rightarrow> ('w, team) op"
  ts_UpdateTeam :: "team \<Rightarrow> ('w, team) op"
  ts_DeleteTeam :: "uuid \<Rightarrow> uuid \<Rightarrow> instant \<Rightarrow> ('w, int) op"
  ts_TeamHasChildren :: "uuid \<Rightarrow> uuid \<Rightarrow> ('w, bool) op"
  ts_IsTeamDescendant :: "uuid \<Rightarrow> uuid \<Rightarrow> uuid \<Rightarrow> ('w, bool) op"
  ts_ListTeams :: "uuid \<Rightarrow> did \<Rightarrow> ('w, team list) op"
  ts_PageTeams :: "uuid \<Rightarrow> did \<Rightarrow> bool \<Rightarrow> uuid option \<Rightarrow> int \<Rightarrow> ('w, team list) op"
  ts_GetTeam :: "uuid \<Rightarrow> uuid \<Rightarrow> ('w, team) op"
  ts_AddTeamMember :: "uuid \<Rightarrow> did \<Rightarrow> team_role \<Rightarrow> instant \<Rightarrow> ('w, team_member) op"
  ts_GetTeamMember :: "uuid \<Rightarrow> did \<Rightarrow> ('w, team_member) op"
  ts_ListTeamMembers :: "uuid \<Rightarrow> ('w, team_member list) op"
  ts_PageTeamMembers :: "uuid \<Rightarrow> did \<Rightarrow> int \<Rightarrow> ('w, team_member list) op"
  ts_RemoveTeamMember :: "uuid \<Rightarrow> did \<Rightarrow> ('w, unit) op"
  ts_PutTeamRepository :: "uuid \<Rightarrow> uuid \<Rightarrow> repository_role \<Rightarrow> instant \<Rightarrow> ('w, team_repository) op"
  ts_ListTeamRepositories :: "uuid \<Rightarrow> ('w, team_repository list) op"
  ts_PageTeamRepositories :: "uuid \<Rightarrow> uuid option \<Rightarrow> int \<Rightarrow> ('w, team_repository list) op"
  ts_RemoveTeamRepository :: "uuid \<Rightarrow> uuid \<Rightarrow> ('w, unit) op"
  ts_RecordAudit :: "audit_event \<Rightarrow> ('w, unit) op"

record 'w collaborator_store =
  cs_CanAdminRepository :: "uuid \<Rightarrow> uuid \<Rightarrow> did \<Rightarrow> ('w, bool) op"
  cs_PutRepositoryCollaborator ::
    "uuid \<Rightarrow> uuid \<Rightarrow> did \<Rightarrow> repository_role \<Rightarrow> instant \<Rightarrow> ('w, repository_collaborator) op"
  cs_ListRepositoryCollaborators ::
    "uuid \<Rightarrow> uuid \<Rightarrow> did \<Rightarrow> int \<Rightarrow> ('w, repository_collaborator list) op"
  cs_RemoveRepositoryCollaborator :: "uuid \<Rightarrow> uuid \<Rightarrow> did \<Rightarrow> ('w, unit) op"
  cs_RecordAudit :: "audit_event \<Rightarrow> ('w, unit) op"

definition postgres_team_store :: "'x pg_world_scheme team_store" where
  "postgres_team_store =
     \<lparr>ts_GetOwner = pg_GetOwner, ts_GetMember = pg_GetMember, ts_CreateTeam = pg_CreateTeam,
      ts_UpdateTeam = pg_UpdateTeam, ts_DeleteTeam = pg_DeleteTeam,
      ts_TeamHasChildren = pg_TeamHasChildren, ts_IsTeamDescendant = pg_IsTeamDescendant,
      ts_ListTeams = pg_ListTeams, ts_PageTeams = pg_PageTeams, ts_GetTeam = pg_GetTeam,
      ts_AddTeamMember = pg_AddTeamMember, ts_GetTeamMember = pg_GetTeamMember,
      ts_ListTeamMembers = pg_ListTeamMembers, ts_PageTeamMembers = pg_PageTeamMembers,
      ts_RemoveTeamMember = pg_RemoveTeamMember, ts_PutTeamRepository = pg_PutTeamRepository,
      ts_ListTeamRepositories = pg_ListTeamRepositories,
      ts_PageTeamRepositories = pg_PageTeamRepositories,
      ts_RemoveTeamRepository = pg_RemoveTeamRepository, ts_RecordAudit = pg_RecordAudit\<rparr>"

definition postgres_collaborator_store :: "'x pg_world_scheme collaborator_store" where
  "postgres_collaborator_store =
     \<lparr>cs_CanAdminRepository = pg_CanAdminOrganizationRepository,
      cs_PutRepositoryCollaborator = pg_PutRepositoryCollaborator,
      cs_ListRepositoryCollaborators = pg_ListRepositoryCollaborators,
      cs_RemoveRepositoryCollaborator = pg_RemoveRepositoryCollaborator,
      cs_RecordAudit = pg_RecordAudit\<rparr>"

end
