(* ===== verification/Team_Service.thy ===== *)
theory Team_Service imports Org_Service Team_Store begin

text \<open>
  \<^verbatim>\<open>internal/organization/team_service.go\<close> and \<^verbatim>\<open>collaborator_service.go\<close>: the methods
  of \<open>TeamService\<close> and \<open>CollaboratorService\<close>.
\<close>

record 'w team_service =
  tsv_store :: "'w team_store"
  tsv_clock :: "'w \<Rightarrow> instant \<times> 'w"
  tsv_ids :: "('w, uuid) op"
  tsv_uuid_new :: "'w \<Rightarrow> uuid \<times> 'w"
  tsv_uuid_string :: "uuid \<Rightarrow> string"
  tsv_request_id :: string

definition team_audit ::
  "'w team_service \<Rightarrow> uuid \<Rightarrow> did \<Rightarrow> string \<Rightarrow> string \<Rightarrow> string \<Rightarrow> (string \<times> json) list \<Rightarrow> ('w, unit) op" where
  "team_audit S =
     recordOrganizationAudit (ts_RecordAudit (tsv_store S)) (tsv_clock S) (tsv_uuid_new S) (tsv_request_id S)"

definition team_visibility_text :: "team_visibility \<Rightarrow> string" where
  "team_visibility_text v = (case v of TeamVisibilityVisible \<Rightarrow> ''visible'' | TeamVisibilitySecret \<Rightarrow> ''secret''
                                     | TeamVisibility_Other s \<Rightarrow> s)"

definition team_role_text :: "team_role \<Rightarrow> string" where
  "team_role_text r = (case r of TeamRoleMember \<Rightarrow> ''member'' | TeamRoleMaintainer \<Rightarrow> ''maintainer''
                               | TeamRole_Other s \<Rightarrow> s)"

definition repository_role_text :: "repository_role \<Rightarrow> string" where
  "repository_role_text r =
     (case r of RepositoryRoleNone \<Rightarrow> ''none'' | RepositoryRoleRead \<Rightarrow> ''read''
      | RepositoryRoleTriage \<Rightarrow> ''triage'' | RepositoryRoleWrite \<Rightarrow> ''write''
      | RepositoryRoleMaintain \<Rightarrow> ''maintain'' | RepositoryRoleAdmin \<Rightarrow> ''admin''
      | RepositoryRole_Other s \<Rightarrow> s)"

definition optional_id :: "'w team_service \<Rightarrow> uuid option \<Rightarrow> json" where
  "optional_id S x = (case x of None \<Rightarrow> JNull | Some i \<Rightarrow> JString (tsv_uuid_string S i))"

text \<open>An owner of the organization, or else a maintainer of the team.\<close>

definition authorizeMaintainer :: "'w team_service \<Rightarrow> uuid \<Rightarrow> uuid \<Rightarrow> did \<Rightarrow> ('w, unit) op" where
  "authorizeMaintainer S organizationID teamID actorDID =
     attempt (ts_GetOwner (tsv_store S) organizationID actorDID)
       (\<lambda>e. if \<not> errors_is e org_ErrNotFound then raise (wrapf ''authorize organization owner'' e)
            else attempt (ts_GetTeamMember (tsv_store S) teamID actorDID)
                   (\<lambda>e. fail_if (\<not> errors_is e org_ErrNotFound) (wrapf ''authorize team maintainer'' e) (
                        raise (Sentinel org_ErrForbidden)))
                   (\<lambda>m. if tm_Role m = TeamRoleMaintainer then ret ()
                        else raise (Sentinel org_ErrForbidden)))
       (\<lambda>_. ret ())"

abbreviation nested_secret :: err where
  "nested_secret \<equiv> because org_ErrValidation ''secret teams cannot be nested''"

section \<open>The hierarchy\<close>

definition team_Create :: "'w team_service \<Rightarrow> create_team_input \<Rightarrow> ('w, team) op" where
  "team_Create S input =
     check (CreateTeamInput_Validate input) (\<lambda>e. e) (
     call (ts_GetOwner (tsv_store S) (cti_OrganizationID input) (cti_ActorDID input))
       (\<lambda>e. if errors_is e org_ErrNotFound then Sentinel org_ErrForbidden
            else wrapf ''authorize team creation'' e) (\<lambda>_.
     (let create =
        call (tsv_ids S) (wrapf ''generate team ID'') (\<lambda>tid.
        with_now (tsv_clock S) (\<lambda>now.
        call (ts_CreateTeam (tsv_store S)
                \<lparr>team_ID = tid, team_OrganizationID = cti_OrganizationID input,
                 team_ParentTeamID = cti_ParentTeamID input, team_Slug = cti_Slug input,
                 team_Name = cti_Name input, team_Description = cti_Description input,
                 team_Visibility = cti_Visibility input, team_ViewerIsMember = False,
                 team_ViewerRole = TeamRole_Other [], team_CreatedAt = now, team_UpdatedAt = now\<rparr>)
          (wrapf ''create organization team'') (\<lambda>value.
        call (team_audit S (cti_OrganizationID input) (cti_ActorDID input) ''team.create'' ''team''
                (tsv_uuid_string S (team_ID value))
                [(''slug'', JString (team_Slug value)),
                 (''visibility'', JString (team_visibility_text (team_Visibility value))),
                 (''parent_team_id'', optional_id S (team_ParentTeamID value))]) (\<lambda>e. e) (\<lambda>_.
        ret value))))
      in case cti_ParentTeamID input of
           None \<Rightarrow> create
         | Some pid \<Rightarrow>
             call (ts_GetTeam (tsv_store S) (cti_OrganizationID input) pid) (wrapf ''get parent team'') (\<lambda>parent.
             fail_if (cti_Visibility input = TeamVisibilitySecret
                      \<or> team_Visibility parent = TeamVisibilitySecret) nested_secret create))))"

text \<open>The checks \<open>Update\<close> makes of the new parent, and of a team that becomes secret.\<close>

definition check_new_parent ::
  "'w team_service \<Rightarrow> update_team_input \<Rightarrow> team \<Rightarrow> ('w, 'a) op \<Rightarrow> ('w, 'a) op" where
  "check_new_parent S input current k =
     (case uti_ParentTeamID input of
        None \<Rightarrow> k
      | Some pid \<Rightarrow>
          call (ts_GetTeam (tsv_store S) (uti_OrganizationID input) pid) (wrapf ''get parent team'') (\<lambda>parent.
          fail_if (uti_Visibility input = TeamVisibilitySecret
                   \<or> team_Visibility parent = TeamVisibilitySecret) nested_secret (
          call (ts_IsTeamDescendant (tsv_store S) (uti_OrganizationID input) (uti_TeamID input) pid)
            (wrapf ''check team hierarchy'') (\<lambda>isDescendant.
          fail_if isDescendant (because org_ErrValidation ''a team cannot be moved beneath its child'') (
          if team_ParentTeamID current \<noteq> Some pid
          then call (authorizeMaintainer S (uti_OrganizationID input) pid (uti_ActorDID input)) (\<lambda>e. e) (\<lambda>_. k)
          else k)))))"

definition check_secret :: "'w team_service \<Rightarrow> update_team_input \<Rightarrow> ('w, 'a) op \<Rightarrow> ('w, 'a) op" where
  "check_secret S input k =
     (if uti_Visibility input = TeamVisibilitySecret then
        call (ts_TeamHasChildren (tsv_store S) (uti_OrganizationID input) (uti_TeamID input))
          (wrapf ''check child teams'') (\<lambda>hasChildren.
        fail_if (uti_ParentTeamID input \<noteq> None \<or> hasChildren) nested_secret k)
      else k)"

definition team_Update :: "'w team_service \<Rightarrow> update_team_input \<Rightarrow> ('w, team) op" where
  "team_Update S input =
     check (UpdateTeamInput_Validate input) (\<lambda>e. e) (
     call (ts_GetTeam (tsv_store S) (uti_OrganizationID input) (uti_TeamID input)) (wrapf ''get team'') (\<lambda>current.
     call (authorizeMaintainer S (uti_OrganizationID input) (uti_TeamID input) (uti_ActorDID input)) (\<lambda>e. e) (\<lambda>_.
     check_new_parent S input current (
     check_secret S input (
     with_now (tsv_clock S) (\<lambda>now.
     call (ts_UpdateTeam (tsv_store S)
             (current\<lparr>team_ParentTeamID := uti_ParentTeamID input, team_Name := uti_Name input,
                      team_Description := uti_Description input, team_Visibility := uti_Visibility input,
                      team_UpdatedAt := now\<rparr>)) (wrapf ''update team'') (\<lambda>updated.
     call (team_audit S (uti_OrganizationID input) (uti_ActorDID input) ''team.update'' ''team''
             (tsv_uuid_string S (uti_TeamID input))
             [(''visibility'', JString (team_visibility_text (uti_Visibility input))),
              (''parent_team_id'', optional_id S (uti_ParentTeamID input))]) (\<lambda>e. e) (\<lambda>_.
     ret updated))))))))"

definition team_Delete :: "'w team_service \<Rightarrow> uuid \<Rightarrow> uuid \<Rightarrow> did \<Rightarrow> ('w, unit) op" where
  "team_Delete S organizationID teamID actorDID =
     call (ts_GetTeam (tsv_store S) organizationID teamID) (wrapf ''get team'') (\<lambda>_.
     call (authorizeMaintainer S organizationID teamID actorDID) (\<lambda>e. e) (\<lambda>_.
     with_now (tsv_clock S) (\<lambda>now.
     call (ts_DeleteTeam (tsv_store S) organizationID teamID now) (wrapf ''delete team hierarchy'') (\<lambda>count.
     fail_if (count = 0) (Sentinel org_ErrNotFound) (
     team_audit S organizationID actorDID ''team.delete'' ''team'' (tsv_uuid_string S teamID)
       [(''deleted_team_count'', JInt count)])))))"

section \<open>Lists of teams\<close>

definition team_List :: "'w team_service \<Rightarrow> uuid \<Rightarrow> did \<Rightarrow> ('w, team list) op" where
  "team_List S organizationID actorDID =
     call (ts_GetMember (tsv_store S) organizationID actorDID) (\<lambda>_. Sentinel org_ErrForbidden) (\<lambda>m.
     call (ts_ListTeams (tsv_store S) organizationID actorDID) (wrapf ''list organization teams'') (\<lambda>teams.
     if mem_Role m = RoleOwner then ret teams
     else ret (filter (\<lambda>v. team_Visibility v = TeamVisibilityVisible \<or> team_ViewerIsMember v) teams)))"

definition team_PageList ::
  "'w team_service \<Rightarrow> uuid \<Rightarrow> did \<Rightarrow> uuid option \<Rightarrow> int \<Rightarrow> ('w, team page) op" where
  "team_PageList S organizationID actorDID after limit =
     check (validateCollectionLimit limit) (\<lambda>e. e) (
     call (ts_GetMember (tsv_store S) organizationID actorDID) (\<lambda>_. Sentinel org_ErrForbidden) (\<lambda>m.
     call (ts_PageTeams (tsv_store S) organizationID actorDID (mem_Role m = RoleOwner) after (limit + 1))
       (wrapf ''page organization teams'') (\<lambda>values.
     ret (keysetPage values limit (\<lambda>v. tsv_uuid_string S (team_ID v))))))"

text \<open>Every member of the organization may read a team's members and repositories.\<close>

definition of_team :: "'w team_service \<Rightarrow> uuid \<Rightarrow> uuid \<Rightarrow> did \<Rightarrow> ('w, 'a) op \<Rightarrow> ('w, 'a) op" where
  "of_team S organizationID teamID actorDID k =
     call (ts_GetMember (tsv_store S) organizationID actorDID) (\<lambda>_. Sentinel org_ErrForbidden) (\<lambda>_.
     call (ts_GetTeam (tsv_store S) organizationID teamID) (wrapf ''get team'') (\<lambda>_.
     k))"

definition team_Members :: "'w team_service \<Rightarrow> uuid \<Rightarrow> uuid \<Rightarrow> did \<Rightarrow> ('w, team_member list) op" where
  "team_Members S organizationID teamID actorDID =
     of_team S organizationID teamID actorDID (
     call (ts_ListTeamMembers (tsv_store S) teamID) (wrapf ''list team members'') ret)"

definition team_PageMembers ::
  "'w team_service \<Rightarrow> uuid \<Rightarrow> uuid \<Rightarrow> did \<Rightarrow> did \<Rightarrow> int \<Rightarrow> ('w, team_member page) op" where
  "team_PageMembers S organizationID teamID actorDID after limit =
     check (validateCollectionLimit limit) (\<lambda>e. e) (
     of_team S organizationID teamID actorDID (
     call (ts_PageTeamMembers (tsv_store S) teamID after (limit + 1)) (wrapf ''page team members'') (\<lambda>values.
     ret (keysetPage values limit tm_AccountDID))))"

definition team_Repositories :: "'w team_service \<Rightarrow> uuid \<Rightarrow> uuid \<Rightarrow> did \<Rightarrow> ('w, team_repository list) op" where
  "team_Repositories S organizationID teamID actorDID =
     of_team S organizationID teamID actorDID (
     call (ts_ListTeamRepositories (tsv_store S) teamID) (wrapf ''list team repositories'') ret)"

definition team_PageRepositories ::
  "'w team_service \<Rightarrow> uuid \<Rightarrow> uuid \<Rightarrow> did \<Rightarrow> uuid option \<Rightarrow> int \<Rightarrow> ('w, team_repository page) op" where
  "team_PageRepositories S organizationID teamID actorDID after limit =
     check (validateCollectionLimit limit) (\<lambda>e. e) (
     of_team S organizationID teamID actorDID (
     call (ts_PageTeamRepositories (tsv_store S) teamID after (limit + 1))
       (wrapf ''page team repositories'') (\<lambda>values.
     ret (keysetPage values limit (\<lambda>v. tsv_uuid_string S (tr_RepositoryID v))))))"

section \<open>Members and repositories of a team\<close>

definition managed_team :: "'w team_service \<Rightarrow> uuid \<Rightarrow> uuid \<Rightarrow> did \<Rightarrow> ('w, 'a) op \<Rightarrow> ('w, 'a) op" where
  "managed_team S organizationID teamID actorDID k =
     call (ts_GetTeam (tsv_store S) organizationID teamID) (wrapf ''get team'') (\<lambda>_.
     call (authorizeMaintainer S organizationID teamID actorDID) (\<lambda>e. e) (\<lambda>_.
     k))"

definition team_PutMember ::
  "'w team_service \<Rightarrow> uuid \<Rightarrow> uuid \<Rightarrow> did \<Rightarrow> did \<Rightarrow> team_role \<Rightarrow> ('w, team_member) op" where
  "team_PutMember S organizationID teamID actorDID memberDID role =
     fail_if (role \<noteq> TeamRoleMember \<and> role \<noteq> TeamRoleMaintainer) (Sentinel org_ErrValidation) (
     managed_team S organizationID teamID actorDID (
     with_now (tsv_clock S) (\<lambda>now.
     call (ts_AddTeamMember (tsv_store S) teamID memberDID role now) (wrapf ''add team member'') (\<lambda>m.
     call (team_audit S organizationID actorDID ''team.member.put'' ''member'' memberDID
             [(''team_id'', JString (tsv_uuid_string S teamID)), (''role'', JString (team_role_text role))])
       (\<lambda>e. e) (\<lambda>_.
     ret m)))))"

definition team_RemoveMember :: "'w team_service \<Rightarrow> uuid \<Rightarrow> uuid \<Rightarrow> did \<Rightarrow> did \<Rightarrow> ('w, unit) op" where
  "team_RemoveMember S organizationID teamID actorDID memberDID =
     managed_team S organizationID teamID actorDID (
     call (ts_RemoveTeamMember (tsv_store S) teamID memberDID) (wrapf ''remove team member'') (\<lambda>_.
     call (team_audit S organizationID actorDID ''team.member.remove'' ''member'' memberDID
             [(''team_id'', JString (tsv_uuid_string S teamID))]) (\<lambda>e. e) (\<lambda>_.
     ret ())))"

definition team_PutRepository ::
  "'w team_service \<Rightarrow> uuid \<Rightarrow> uuid \<Rightarrow> did \<Rightarrow> uuid \<Rightarrow> repository_role \<Rightarrow> ('w, team_repository) op" where
  "team_PutRepository S organizationID teamID actorDID repositoryID role =
     check (RepositoryRole_Validate role) (\<lambda>_. Sentinel org_ErrValidation) (
     managed_team S organizationID teamID actorDID (
     with_now (tsv_clock S) (\<lambda>now.
     call (ts_PutTeamRepository (tsv_store S) teamID repositoryID role now)
       (wrapf ''put team repository'') (\<lambda>value.
     call (team_audit S organizationID actorDID ''team.repository.put'' ''repository''
             (tsv_uuid_string S repositoryID)
             [(''team_id'', JString (tsv_uuid_string S teamID)),
              (''role'', JString (repository_role_text role))]) (\<lambda>e. e) (\<lambda>_.
     ret value)))))"

definition team_RemoveRepository :: "'w team_service \<Rightarrow> uuid \<Rightarrow> uuid \<Rightarrow> did \<Rightarrow> uuid \<Rightarrow> ('w, unit) op" where
  "team_RemoveRepository S organizationID teamID actorDID repositoryID =
     managed_team S organizationID teamID actorDID (
     call (ts_RemoveTeamRepository (tsv_store S) teamID repositoryID) (wrapf ''remove team repository'') (\<lambda>_.
     call (team_audit S organizationID actorDID ''team.repository.remove'' ''repository''
             (tsv_uuid_string S repositoryID)
             [(''team_id'', JString (tsv_uuid_string S teamID))]) (\<lambda>e. e) (\<lambda>_.
     ret ())))"

section \<open>Collaborators\<close>

record 'w collaborator_service =
  csv_store :: "'w collaborator_store"
  csv_clock :: "'w \<Rightarrow> instant \<times> 'w"
  csv_uuid_new :: "'w \<Rightarrow> uuid \<times> 'w"
  csv_uuid_string :: "uuid \<Rightarrow> string"
  csv_canonical_did :: "string \<Rightarrow> bool"
  csv_request_id :: string

definition col_audit ::
  "'w collaborator_service \<Rightarrow> uuid \<Rightarrow> did \<Rightarrow> string \<Rightarrow> string \<Rightarrow> string \<Rightarrow> (string \<times> json) list
     \<Rightarrow> ('w, unit) op" where
  "col_audit S =
     recordOrganizationAudit (cs_RecordAudit (csv_store S)) (csv_clock S) (csv_uuid_new S) (csv_request_id S)"

definition col_authorize :: "'w collaborator_service \<Rightarrow> uuid \<Rightarrow> uuid \<Rightarrow> did \<Rightarrow> ('w, unit) op" where
  "col_authorize S organizationID repositoryID actorDID =
     call (cs_CanAdminRepository (csv_store S) organizationID repositoryID actorDID)
       (wrapf ''authorize repository administrator'') (\<lambda>allowed.
     fail_if (\<not> allowed) (Sentinel org_ErrForbidden) (
     ret ()))"

definition col_List ::
  "'w collaborator_service \<Rightarrow> uuid \<Rightarrow> uuid \<Rightarrow> did \<Rightarrow> did \<Rightarrow> int \<Rightarrow> ('w, collaborator_page) op" where
  "col_List S organizationID repositoryID actorDID after limit =
     fail_if (limit < 1 \<or> limit > 100)
       (because org_ErrValidation ''collaborator limit must be between 1 and 100'') (
     call (col_authorize S organizationID repositoryID actorDID) (\<lambda>e. e) (\<lambda>_.
     call (cs_ListRepositoryCollaborators (csv_store S) organizationID repositoryID after (limit + 1))
       (wrapf ''list repository collaborators'') (\<lambda>values.
     ret \<lparr>colp_Items = page_items values (nat limit),
          colp_NextCursor = page_cursor values (nat limit) col_AccountDID\<rparr>)))"

definition col_Put ::
  "'w collaborator_service \<Rightarrow> uuid \<Rightarrow> uuid \<Rightarrow> did \<Rightarrow> did \<Rightarrow> repository_role
     \<Rightarrow> ('w, repository_collaborator) op" where
  "col_Put S organizationID repositoryID actorDID collaboratorDID role =
     check (RepositoryRole_Validate role) (because_of org_ErrValidation []) (
     check (validateDID (csv_canonical_did S) collaboratorDID)
       (because_of org_ErrValidation ''collaborator DID'') (
     call (col_authorize S organizationID repositoryID actorDID) (\<lambda>e. e) (\<lambda>_.
     with_now (csv_clock S) (\<lambda>now.
     call (cs_PutRepositoryCollaborator (csv_store S) organizationID repositoryID collaboratorDID role now)
       (wrapf ''put repository collaborator'') (\<lambda>value.
     call (col_audit S organizationID actorDID ''repository.collaborator.put'' ''member'' collaboratorDID
             [(''repository_id'', JString (csv_uuid_string S repositoryID)),
              (''role'', JString (repository_role_text role))]) (\<lambda>e. e) (\<lambda>_.
     ret value))))))"

definition col_Remove :: "'w collaborator_service \<Rightarrow> uuid \<Rightarrow> uuid \<Rightarrow> did \<Rightarrow> did \<Rightarrow> ('w, unit) op" where
  "col_Remove S organizationID repositoryID actorDID collaboratorDID =
     call (col_authorize S organizationID repositoryID actorDID) (\<lambda>e. e) (\<lambda>_.
     call (cs_RemoveRepositoryCollaborator (csv_store S) organizationID repositoryID collaboratorDID)
       (wrapf ''remove repository collaborator'') (\<lambda>_.
     col_audit S organizationID actorDID ''repository.collaborator.remove'' ''member'' collaboratorDID
       [(''repository_id'', JString (csv_uuid_string S repositoryID))]))"

end
