(* ===== verification/Team_Laws.thy ===== *)
theory Team_Laws imports Team_Service begin

text \<open>
  What the team and collaborator services do to the world, from what their stores promise:
  \<open>team_laws\<close> and \<open>collaborator_laws\<close> say that every operation of the store, the clock and
  the id generators keep a fact \<open>I\<close>; then every method keeps it. \<open>team_gate\<close> adds who passes
  \<open>authorizeMaintainer\<close>, in a view of the world that the reading operations leave alone.
\<close>

section \<open>What every method keeps\<close>

locale team_laws =
  fixes T :: "'w team_service" and I :: "'w \<Rightarrow> bool"
  assumes outside_keeps: "keeps_clock I (tsv_clock T)" "keeps_clock I (tsv_uuid_new T)" "keeps I (tsv_ids T)"
    and read_team_keeps: "keeps I (ts_GetOwner (tsv_store T) oid d)" "keeps I (ts_GetMember (tsv_store T) oid d)"
      "keeps I (ts_GetTeam (tsv_store T) oid tid)" "keeps I (ts_GetTeamMember (tsv_store T) tid d)"
      "keeps I (ts_TeamHasChildren (tsv_store T) oid tid)"
      "keeps I (ts_IsTeamDescendant (tsv_store T) oid tid candidate)"
    and list_team_keeps: "keeps I (ts_ListTeams (tsv_store T) oid d)"
      "keeps I (ts_PageTeams (tsv_store T) oid d secret after n)"
      "keeps I (ts_ListTeamMembers (tsv_store T) tid)" "keeps I (ts_PageTeamMembers (tsv_store T) tid d n)"
      "keeps I (ts_ListTeamRepositories (tsv_store T) tid)"
      "keeps I (ts_PageTeamRepositories (tsv_store T) tid after n)"
    and write_team_keeps: "keeps I (ts_CreateTeam (tsv_store T) v)" "keeps I (ts_UpdateTeam (tsv_store T) v)"
      "keeps I (ts_DeleteTeam (tsv_store T) oid tid now)"
      "keeps I (ts_AddTeamMember (tsv_store T) tid d role now)"
      "keeps I (ts_RemoveTeamMember (tsv_store T) tid d)"
      "keeps I (ts_PutTeamRepository (tsv_store T) tid rid repository_role now)"
      "keeps I (ts_RemoveTeamRepository (tsv_store T) tid rid)" "keeps I (ts_RecordAudit (tsv_store T) e)"

context team_laws begin

lemmas store_keeps = outside_keeps read_team_keeps list_team_keeps write_team_keeps

lemma audit_keeps: "keeps I (team_audit T oid d action target_type target_id metadata)"
  unfolding team_audit_def recordOrganizationAudit_def by (intro op_keeps store_keeps)

lemma authorizeMaintainer_keeps: "keeps I (authorizeMaintainer T oid tid d)"
  unfolding authorizeMaintainer_def by (intro op_keeps store_keeps)

lemmas call_keeps = audit_keeps authorizeMaintainer_keeps store_keeps

lemma of_team_keeps: "keeps I k \<Longrightarrow> keeps I (of_team T oid tid d k)"
  unfolding of_team_def by (intro op_keeps call_keeps)

lemma managed_team_keeps: "keeps I k \<Longrightarrow> keeps I (managed_team T oid tid d k)"
  unfolding managed_team_def by (intro op_keeps call_keeps)

lemma hierarchy_keep:
  "keeps I (team_Create T create)" "keeps I (team_Update T update)" "keeps I (team_Delete T oid tid d)"
  unfolding team_Create_def team_Update_def team_Delete_def check_new_parent_def check_secret_def Let_def
  by (intro op_keeps call_keeps)+

lemma lists_keep:
  "keeps I (team_List T oid d)" "keeps I (team_PageList T oid d after n)"
  "keeps I (team_Members T oid tid d)" "keeps I (team_PageMembers T oid tid d after_did n)"
  "keeps I (team_Repositories T oid tid d)" "keeps I (team_PageRepositories T oid tid d after n)"
  unfolding team_List_def team_PageList_def team_Members_def team_PageMembers_def
    team_Repositories_def team_PageRepositories_def
  by (intro op_keeps call_keeps of_team_keeps)+

lemma assignments_keep:
  "keeps I (team_PutMember T oid tid d m role)" "keeps I (team_RemoveMember T oid tid d m)"
  "keeps I (team_PutRepository T oid tid d rid repository_role)"
  "keeps I (team_RemoveRepository T oid tid d rid)"
  unfolding team_PutMember_def team_RemoveMember_def team_PutRepository_def team_RemoveRepository_def
  by (intro op_keeps call_keeps managed_team_keeps)+

end

locale collaborator_laws =
  fixes C :: "'w collaborator_service" and I :: "'w \<Rightarrow> bool"
  assumes collaborator_outside_keeps: "keeps_clock I (csv_clock C)" "keeps_clock I (csv_uuid_new C)"
    and collaborator_store_keeps: "keeps I (cs_CanAdminRepository (csv_store C) oid rid d)"
      "keeps I (cs_PutRepositoryCollaborator (csv_store C) oid rid d role now)"
      "keeps I (cs_ListRepositoryCollaborators (csv_store C) oid rid d n)"
      "keeps I (cs_RemoveRepositoryCollaborator (csv_store C) oid rid d)"
      "keeps I (cs_RecordAudit (csv_store C) e)"

context collaborator_laws begin

lemmas store_keeps = collaborator_outside_keeps collaborator_store_keeps

lemma methods_keep:
  "keeps I (col_List C oid rid d after n)" "keeps I (col_Put C oid rid d m role)"
  "keeps I (col_Remove C oid rid d m)"
  unfolding col_List_def col_Put_def col_Remove_def col_authorize_def col_audit_def recordOrganizationAudit_def
  by (intro op_keeps store_keeps)+

end

section \<open>Who may change a team or its collaborators\<close>

locale team_gate =
  fixes T :: "'w team_service" and view :: "'w \<Rightarrow> 'v"
    and owner :: "'v \<Rightarrow> uuid \<Rightarrow> did \<Rightarrow> bool" and maintainer :: "'v \<Rightarrow> uuid \<Rightarrow> did \<Rightarrow> bool"
  assumes reads_frame: "frames view (ts_GetOwner (tsv_store T) oid d)"
      "frames view (ts_GetTeam (tsv_store T) oid tid)" "frames view (ts_GetTeamMember (tsv_store T) tid d)"
    and GetOwner_owner: "ts_GetOwner (tsv_store T) oid d w = (Inr m, w') \<Longrightarrow> owner (view w) oid d"
    and GetTeamMember_maintainer: "ts_GetTeamMember (tsv_store T) tid d w = (Inr v, w') \<Longrightarrow>
      tm_Role v = TeamRoleMaintainer \<Longrightarrow> maintainer (view w) tid d"

context team_gate begin

lemma view_GetOwner: "ts_GetOwner (tsv_store T) oid d w = (r, w') \<Longrightarrow> view w' = view w"
  by (rule framesD [OF reads_frame(1)])

lemma view_GetTeam: "ts_GetTeam (tsv_store T) oid tid w = (r, w') \<Longrightarrow> view w' = view w"
  by (rule framesD [OF reads_frame(2)])

lemma view_GetTeamMember: "ts_GetTeamMember (tsv_store T) tid d w = (r, w') \<Longrightarrow> view w' = view w"
  by (rule framesD [OF reads_frame(3)])

text \<open>Whoever is neither an owner nor a maintainer is refused before anything changes.\<close>

lemma authorizeMaintainer_refuses:
  assumes "\<not> owner (view w) oid d" and "\<not> maintainer (view w) tid d"
  shows "refused view (authorizeMaintainer T oid tid d) w"
  unfolding authorizeMaintainer_def
proof (rule refused_attempt [OF reads_frame(1)])
  fix e w' assume w': "view w' = view w"
  have "refused view (attempt (ts_GetTeamMember (tsv_store T) tid d)
      (\<lambda>e. fail_if (\<not> errors_is e org_ErrNotFound) (wrapf ''authorize team maintainer'' e) (
           raise (Sentinel org_ErrForbidden)))
      (\<lambda>m. if tm_Role m = TeamRoleMaintainer then ret () else raise (Sentinel org_ErrForbidden))) w'"
    using assms(2) w'
    by (intro refused_attempt [OF reads_frame(3)] refused_fail_if refused_raise)
       (metis GetTeamMember_maintainer refused_raise)
  then show "refused view (if \<not> errors_is e org_ErrNotFound then raise (wrapf ''authorize organization owner'' e)
      else attempt (ts_GetTeamMember (tsv_store T) tid d)
        (\<lambda>e. fail_if (\<not> errors_is e org_ErrNotFound) (wrapf ''authorize team maintainer'' e) (
             raise (Sentinel org_ErrForbidden)))
        (\<lambda>m. if tm_Role m = TeamRoleMaintainer then ret () else raise (Sentinel org_ErrForbidden))) w'"
    by (simp add: refused_raise)
qed (use assms(1) GetOwner_owner in blast)

lemma then_authorizeMaintainer_refuses:
  assumes "\<not> owner (view w) oid d" and "\<not> maintainer (view w) tid d" and "view w' = view w"
  shows "refused view (call (authorizeMaintainer T oid tid d) h k) w'"
  by (rule refused_call_first, rule authorizeMaintainer_refuses) (use assms in simp_all)

lemma managed_team_refuses:
  assumes "\<not> owner (view w) oid d" and "\<not> maintainer (view w) tid d"
  shows "refused view (managed_team T oid tid d k) w"
  unfolding managed_team_def
  by (rule refused_call [OF reads_frame(2)], rule then_authorizeMaintainer_refuses [OF assms])

lemma changes_refused:
  assumes "\<not> owner (view w) oid d" and "\<not> maintainer (view w) tid d"
  shows "uti_OrganizationID u = oid \<Longrightarrow> uti_TeamID u = tid \<Longrightarrow> uti_ActorDID u = d \<Longrightarrow>
      refused view (team_Update T u) w"
    and "refused view (team_Delete T oid tid d) w"
    and "refused view (team_PutMember T oid tid d m role) w"
    and "refused view (team_RemoveMember T oid tid d m) w"
    and "refused view (team_PutRepository T oid tid d rid repository_role) w"
    and "refused view (team_RemoveRepository T oid tid d rid) w"
  unfolding team_Update_def team_Delete_def team_PutMember_def team_RemoveMember_def
    team_PutRepository_def team_RemoveRepository_def
  using assms
  by (auto intro!: refused_check refused_fail_if managed_team_refuses refused_call [OF reads_frame(2)]
      intro: then_authorizeMaintainer_refuses)

lemma Create_refused:
  assumes "\<not> owner (view w) (cti_OrganizationID c) (cti_ActorDID c)"
  shows "refused view (team_Create T c) w"
  unfolding team_Create_def
  by (rule refused_check, rule refused_call [OF reads_frame(1)]) (use assms GetOwner_owner in blast)

end

locale collaborator_gate =
  fixes C :: "'w collaborator_service" and view :: "'w \<Rightarrow> 'v" and admin :: "'v \<Rightarrow> uuid \<Rightarrow> uuid \<Rightarrow> did \<Rightarrow> bool"
  assumes admin_frames: "frames view (cs_CanAdminRepository (csv_store C) oid rid d)"
    and admin_found: "cs_CanAdminRepository (csv_store C) oid rid d w = (Inr b, w') \<Longrightarrow> b = admin (view w) oid rid d"

context collaborator_gate begin

lemma authorize_refuses:
  "\<not> admin (view w) oid rid d \<Longrightarrow> refused view (col_authorize C oid rid d) w"
  unfolding col_authorize_def
  by (rule refused_call [OF admin_frames])
     (auto dest: admin_found intro: refused_fail_if)

lemma methods_refused:
  assumes "\<not> admin (view w) oid rid d"
  shows "refused view (col_List C oid rid d after n) w"
    and "refused view (col_Put C oid rid d m role) w"
    and "refused view (col_Remove C oid rid d m) w"
  unfolding col_List_def col_Put_def col_Remove_def
  using assms by (auto intro!: refused_check refused_fail_if intro: refused_call_first authorize_refuses)

end

end
