(* ===== verification/Team_Hierarchy.thy ===== *)
theory Team_Hierarchy imports Team_Store Org_Invariants begin

text \<open>
  The hierarchy of live teams is a forest of visible teams inside one organization, with
  secret teams standing alone, and every statement on teams keeps it so. Hence the
  recursive queries end within the levels the tables allow, and reach what they should.
\<close>

section \<open>The invariant\<close>

abbreviation child_rel :: "org_tables \<Rightarrow> (uuid \<times> uuid) set" where
  "child_rel t \<equiv> step_rel (live_children t)"

text \<open>A live team with a parent is visible, and its parent is a visible live team of its organization.\<close>

definition nested_well :: "team_row list \<Rightarrow> team_row \<Rightarrow> bool" where
  "nested_well rows r \<longleftrightarrow>
     (\<forall>p. live_team r \<and> te_parent r = Some p \<longrightarrow>
        te_visibility r = TeamVisibilityVisible \<and> list_ex (parent_team (te_org r) p) rows)"

definition teams_ok :: "org_tables \<Rightarrow> bool" where
  "teams_ok t \<longleftrightarrow>
     keyed te_id (organization_teams t)
     \<and> (\<forall>r \<in> set (organization_teams t). nested_well (organization_teams t) r)
     \<and> acyclic (child_rel t)"

lemma child_rel_iff:
  "(x, y) \<in> child_rel t \<longleftrightarrow>
     (\<exists>r \<in> set (organization_teams t). te_id r = y \<and> te_parent r = Some x \<and> live_team r)"
  by (auto simp: step_rel_def live_children_def)

lemma child_rel_nodes:
  assumes "teams_ok t"
  shows "child_rel t \<subseteq> te_id ` set (organization_teams t) \<times> te_id ` set (organization_teams t)"
proof (rule subrelI)
  fix x y assume "(x, y) \<in> child_rel t"
  then obtain r where r: "r \<in> set (organization_teams t)" "te_id r = y" "te_parent r = Some x" "live_team r"
    by (auto simp: child_rel_iff)
  with assms have "list_ex (parent_team (te_org r) x) (organization_teams t)"
    unfolding teams_ok_def nested_well_def by blast
  then have "x \<in> te_id ` set (organization_teams t)" by (auto simp: list_ex_iff parent_team_def)
  with r show "(x, y) \<in> te_id ` set (organization_teams t) \<times> te_id ` set (organization_teams t)" by auto
qed

text \<open>The queries of one organization follow the same edges: a live child is in its parent's organization.\<close>

lemma child_in_org_rel: "step_rel (live_children_in oid t) \<subseteq> child_rel t"
  by (auto simp: step_rel_def live_children_def live_children_in_def)

lemma levels_of_sub_relation:
  assumes t: "teams_ok t" and sub: "step_rel step \<subseteq> child_rel t"
  shows "\<exists>ys. levels (recursion_levels t) step frontier = Some ys"
proof (rule levels_acyclic)
  show "finite (te_id ` set (organization_teams t))" by simp
  show "step_rel step \<subseteq> te_id ` set (organization_teams t) \<times> te_id ` set (organization_teams t)"
    using sub child_rel_nodes [OF t] by blast
  show "acyclic (step_rel step)" using t sub by (auto simp: teams_ok_def intro: acyclic_subset)
  have "card (te_id ` set (organization_teams t)) \<le> length (organization_teams t)"
    by (metis card_length length_map set_map)
  then show "card (te_id ` set (organization_teams t)) < recursion_levels t"
    by (simp add: recursion_levels_def)
qed

lemma descendants_reached:
  assumes t: "teams_ok t"
  obtains ds where "levels (recursion_levels t) (live_children t) (live_children t tid) = Some ds"
    and "set ds = (child_rel t)\<^sup>+ `` {tid}"
proof -
  obtain ds where ds: "levels (recursion_levels t) (live_children t) (live_children t tid) = Some ds"
    using levels_of_sub_relation [OF t subset_refl] by blast
  have "set (live_children t tid) = child_rel t `` {tid}" by (auto simp: step_rel_def)
  with levels_sound [OF ds] have "set ds = (child_rel t)\<^sup>* `` (child_rel t `` {tid})" by simp
  also have "\<dots> = (child_rel t)\<^sup>+ `` {tid}" by (auto simp: trancl_unfold_left)
  finally show ?thesis using ds that by blast
qed

section \<open>Statements that do not touch the hierarchy\<close>

lemma teams_ok_same:
  "organization_teams t' = organization_teams t \<Longrightarrow> teams_ok t \<Longrightarrow> teams_ok t'"
  unfolding teams_ok_def step_rel_def live_children_def by simp

text \<open>A statement that leaves the teams alone keeps every fact about them.\<close>

definition same_teams :: "'a sql \<Rightarrow> bool" where
  "same_teams q \<longleftrightarrow> (\<forall>t x t'. q t = Inr (x, t') \<longrightarrow> organization_teams t' = organization_teams t)"

lemma same_teams_preserves: "same_teams q \<Longrightarrow> preserves teams_ok q"
  unfolding preserves_def same_teams_def by (blast intro: teams_ok_same)

section \<open>Creating a team\<close>

lemma nested_well_mono:
  "nested_well rows r \<Longrightarrow> set rows \<subseteq> set rows' \<Longrightarrow> nested_well rows' r"
  unfolding nested_well_def list_ex_iff by blast

lemma teams_ok_append:
  assumes t: "teams_ok t" and t': "organization_teams t' = organization_teams t @ [r]"
    and fresh: "te_id r \<notin> te_id ` set (organization_teams t)"
    and r: "nested_well (organization_teams t) r"
  shows "teams_ok t'"
proof -
  have rel: "child_rel t' \<subseteq> child_rel t \<union> {(p, te_id r) |p. te_parent r = Some p \<and> live_team r}"
    by (rule subrelI) (auto simp: child_rel_iff t')
  have acyclic: "acyclic (child_rel t')"
  proof (cases "live_team r \<and> te_parent r \<noteq> None")
    case False
    with rel have "child_rel t' \<subseteq> child_rel t" by auto
    with t show ?thesis by (auto simp: teams_ok_def intro: acyclic_subset)
  next
    case True
    then obtain p where p: "te_parent r = Some p" "live_team r" by auto
    with r have "p \<in> te_id ` set (organization_teams t)"
      by (auto simp: nested_well_def list_ex_iff parent_team_def)
    with fresh have "p \<noteq> te_id r" by metis
    moreover have "(te_id r, x) \<notin> child_rel t" for x
      using child_rel_nodes [OF t] fresh by blast
    ultimately have "(te_id r, p) \<notin> (child_rel t)\<^sup>*" by (auto elim: converse_rtranclE)
    with t have "acyclic (insert (p, te_id r) (child_rel t))" by (simp add: teams_ok_def)
    moreover have "child_rel t' \<subseteq> insert (p, te_id r) (child_rel t)" using rel p by auto
    ultimately show ?thesis by (rule acyclic_subset)
  qed
  have "nested_well (organization_teams t') q" if "q \<in> set (organization_teams t')" for q
    using that t r unfolding t' by (auto simp: teams_ok_def elim!: nested_well_mono)
  with t fresh acyclic show ?thesis by (auto simp: teams_ok_def t')
qed

lemma teams_ok_CreateTeam: "preserves teams_ok (sql_CreateOrganizationTeam value)"
proof (rule preservesI)
  fix t x t' assume t: "teams_ok t" and ok: "sql_CreateOrganizationTeam value t = Inr (x, t')"
  then have t': "organization_teams t' = organization_teams t @ [\<lparr>te_team = x, te_deleted_at = None\<rparr>]"
    and fresh: "team_ID x \<notin> te_id ` set (organization_teams t)"
    and nested: "nested_well (organization_teams t) \<lparr>te_team = x, te_deleted_at = None\<rparr>"
    by (auto simp: sql_CreateOrganizationTeam_def Let_def list_ex_iff nested_well_def
        split: if_splits option.splits)
  show "teams_ok t'" by (rule teams_ok_append [OF t t']) (simp_all add: fresh nested)
qed

section \<open>Changing a team\<close>

text \<open>
  The change of one live team \<open>old\<close> to \<open>new\<close>, with the same identifier, organization and
  life: the new parent is a visible team that is not below it, and it becomes secret only
  without parent and children.
\<close>

lemma teams_ok_change:
  assumes t: "teams_ok t" and old: "old \<in> set (organization_teams t)" "live_team old"
    and t': "organization_teams t' = update_where (\<lambda>r. r = old) (\<lambda>_. new) (organization_teams t)"
    and same: "te_id new = te_id old" "te_org new = te_org old" "live_team new"
    and nested: "nested_well (organization_teams t) new"
    and above: "\<And>p. te_parent new = Some p \<Longrightarrow> (te_id old, p) \<notin> (child_rel t)\<^sup>*"
    and alone: "te_visibility new \<noteq> TeamVisibilityVisible \<Longrightarrow> live_children t (te_id old) = []"
  shows "teams_ok t'"
proof -
  have keys: "keyed te_id (organization_teams t)" using t by (simp add: teams_ok_def)
  have in_t': "q \<in> set (organization_teams t') \<Longrightarrow> q = new \<or> q \<in> set (organization_teams t) \<and> q \<noteq> old" for q
    using t' by (auto simp: in_update_where)
  have kept: "q \<in> set (organization_teams t) \<Longrightarrow> q \<noteq> old \<Longrightarrow> q \<in> set (organization_teams t')" for q
    by (auto simp: t' in_update_where)
  have new: "new \<in> set (organization_teams t')" using old by (auto simp: t' in_update_where)
  have rel: "child_rel t' \<subseteq> child_rel t \<union> {(p, te_id old) |p. te_parent new = Some p}"
    by (rule subrelI) (auto simp: child_rel_iff same dest!: in_t')
  have "acyclic (child_rel t')"
  proof (cases "te_parent new")
    case None
    with rel have "child_rel t' \<subseteq> child_rel t" by auto
    with t show ?thesis by (auto simp: teams_ok_def intro: acyclic_subset)
  next
    case (Some p)
    with above t have "acyclic (insert (p, te_id old) (child_rel t))" by (simp add: teams_ok_def)
    moreover have "child_rel t' \<subseteq> insert (p, te_id old) (child_rel t)" using rel Some by auto
    ultimately show ?thesis by (rule acyclic_subset)
  qed
  moreover have parent: "list_ex (parent_team oid p) (organization_teams t')"
    if "list_ex (parent_team oid p) (organization_teams t)"
      and "p = te_id old \<Longrightarrow> te_visibility new = TeamVisibilityVisible" for oid p
  proof -
    from that(1) obtain s where s: "s \<in> set (organization_teams t)" "parent_team oid p s"
      by (auto simp: list_ex_iff)
    show ?thesis
    proof (cases "s = old")
      case True
      with s(2) that(2) same have "parent_team oid p new" by (simp add: parent_team_def)
      with new show ?thesis by (auto simp: list_ex_iff)
    next
      case False
      with s kept show ?thesis by (auto simp: list_ex_iff)
    qed
  qed
  have "nested_well (organization_teams t') q" if q: "q \<in> set (organization_teams t')" for q
    unfolding nested_well_def
  proof (intro allI impI, elim conjE, intro conjI)
    fix p assume p: "live_team q" "te_parent q = Some p"
    have well: "nested_well (organization_teams t) q"
      using in_t' [OF q] nested t by (auto simp: teams_ok_def)
    with p show "te_visibility q = TeamVisibilityVisible" by (simp add: nested_well_def)
    have "te_visibility new = TeamVisibilityVisible" if "p = te_id old"
    proof (cases "q = new")
      case True
      with p above [of p] that show ?thesis by simp
    next
      case False
      with in_t' [OF q] p that have "live_children t (te_id old) \<noteq> []"
        by (auto simp: live_children_def filter_empty_conv)
      with alone show ?thesis by blast
    qed
    with well p parent show "list_ex (parent_team (te_org q) p) (organization_teams t')"
      by (simp add: nested_well_def)
  qed
  moreover have "keyed te_id (organization_teams t')"
    using keys unfolding t' by (subst keyed_update_where) (auto simp: same)
  ultimately show ?thesis by (simp add: teams_ok_def)
qed

lemma teams_ok_UpdateTeam: "preserves teams_ok (sql_UpdateOrganizationTeam value)"
proof (rule preservesI)
  fix t x t' assume t: "teams_ok t" and ok: "sql_UpdateOrganizationTeam value t = Inr (x, t')"
  obtain ds where ds: "levels (recursion_levels t) (live_children t) (live_children t (team_ID value)) = Some ds"
      "set ds = (child_rel t)\<^sup>+ `` {team_ID value}"
    using t by (rule descendants_reached)
  define target where "target r \<longleftrightarrow> te_id r = team_ID value \<and> te_org r = team_OrganizationID value \<and> live_team r
      \<and> (case team_ParentTeamID value of None \<Rightarrow> True
         | Some p \<Rightarrow> team_Visibility value = TeamVisibilityVisible \<and> p \<noteq> team_ID value \<and> p \<notin> set ds
             \<and> list_ex (parent_team (team_OrganizationID value) p) (organization_teams t))
      \<and> (team_Visibility value \<noteq> TeamVisibilitySecret \<or> team_ParentTeamID value = None \<and> ds = [])" for r
  define change :: "team \<Rightarrow> team" where "change v = v\<lparr>team_ParentTeamID := team_ParentTeamID value, team_Name := team_Name value,
      team_Description := team_Description value, team_Visibility := team_Visibility value,
      team_UpdatedAt := team_UpdatedAt value\<rparr>" for v
  from ok ds(1) obtain old where old: "find target (organization_teams t) = Some old"
    and visibility: "team_visibility_check (team_Visibility value)"
    and t': "organization_teams t' = update_where target (\<lambda>r. r\<lparr>te_team := change (te_team r)\<rparr>) (organization_teams t)"
    by (auto simp: sql_UpdateOrganizationTeam_def Let_def target_def [abs_def] change_def [abs_def]
        split: if_splits option.splits)
  from old have old': "old \<in> set (organization_teams t)" "target old" by (auto dest: find_Some_in)
  let ?new = "old\<lparr>te_team := change (te_team old)\<rparr>"
  have "target r \<longleftrightarrow> r = old" if "r \<in> set (organization_teams t)" for r
    using that old' t by (auto simp: teams_ok_def target_def intro: keyed_unique [of te_id])
  then have rows: "organization_teams t' = update_where (\<lambda>r. r = old) (\<lambda>_. ?new) (organization_teams t)"
    by (auto simp: t' update_where_def)
  show "teams_ok t'"
  proof (rule teams_ok_change [OF t old'(1) _ rows])
    show "(te_id old, p) \<notin> (child_rel t)\<^sup>*" if "te_parent ?new = Some p" for p
      using that old'(2) ds(2) by (auto simp: target_def change_def rtrancl_eq_or_trancl)
    show "live_children t (te_id old) = []" if "te_visibility ?new \<noteq> TeamVisibilityVisible"
    proof -
      have "ds = []" "te_id old = team_ID value"
        using that old'(2) visibility by (auto simp: target_def change_def team_visibility_check_def)
      with ds(2) have "child_rel t `` {te_id old} = {}" by auto
      then show ?thesis by (simp add: step_rel_def Image_def)
    qed
  qed (use old'(2) in \<open>auto simp: target_def change_def nested_well_def\<close>)
qed

section \<open>Deleting a team and everything below it\<close>

text \<open>
  The rows a deletion marks: the live team itself and every team reached from it along
  live children. Inside a well-formed hierarchy the organization of the query makes no
  difference to what is reached.
\<close>

lemma child_org:
  assumes t: "teams_ok t" and r: "r \<in> set (organization_teams t)" "te_id r = tid" "te_org r = oid" "live_team r"
    and y: "(tid, y) \<in> (child_rel t)\<^sup>*"
  shows "(tid, y) \<in> (step_rel (live_children_in oid t))\<^sup>*
    \<and> (\<exists>s \<in> set (organization_teams t). te_id s = y \<and> te_org s = oid \<and> live_team s)"
  using y
proof (induction rule: rtrancl_induct)
  case base
  with r show ?case by auto
next
  case (step y z)
  then obtain s where s: "s \<in> set (organization_teams t)" "te_id s = y" "te_org s = oid" by auto
  from step(2) obtain q where q: "q \<in> set (organization_teams t)" "te_id q = z" "te_parent q = Some y" "live_team q"
    by (auto simp: child_rel_iff)
  with t obtain s' where s': "s' \<in> set (organization_teams t)" "te_id s' = y" "te_org s' = te_org q"
    unfolding teams_ok_def nested_well_def list_ex_iff parent_team_def by metis
  then have "s' = s" using s t by (auto simp: teams_ok_def intro: keyed_unique [of te_id])
  with s s' q have "te_org q = oid" by simp
  with q have "(y, z) \<in> step_rel (live_children_in oid t)"
    by (force simp: step_rel_def live_children_in_def)
  with step(3) q \<open>te_org q = oid\<close> show ?case by (auto intro: rtrancl_into_rtrancl)
qed

definition subtree :: "org_tables \<Rightarrow> uuid \<Rightarrow> uuid set" where
  "subtree t tid = (child_rel t)\<^sup>* `` {tid}"

definition mark_deleted :: "instant \<Rightarrow> team_row \<Rightarrow> team_row" where
  "mark_deleted at r = r\<lparr>te_deleted_at := Some at, te_team := (te_team r)\<lparr>team_UpdatedAt := at\<rparr>\<rparr>"

lemma deleted_hierarchy:
  assumes t: "teams_ok t" and ok: "sql_DeleteOrganizationTeamHierarchy oid tid at t = Inr (n, t')"
  shows "(n = 0 \<and> t' = t \<and> (\<forall>r \<in> set (organization_teams t). \<not> (te_id r = tid \<and> te_org r = oid \<and> live_team r)))
    \<or> ((\<exists>r \<in> set (organization_teams t). te_id r = tid \<and> te_org r = oid \<and> live_team r)
       \<and> n = int (length (filter (\<lambda>r. te_id r \<in> subtree t tid) (organization_teams t)))
       \<and> t' = t\<lparr>organization_teams :=
                  update_where (\<lambda>r. te_id r \<in> subtree t tid) (mark_deleted at) (organization_teams t)\<rparr>)"
proof -
  let ?start = "map te_id (filter (\<lambda>r. te_id r = tid \<and> te_org r = oid \<and> live_team r) (organization_teams t))"
  from ok obtain ds where ds: "levels (recursion_levels t) (live_children_in oid t) ?start = Some ds"
    and n: "n = int (length (filter (\<lambda>r. te_id r \<in> set ds) (organization_teams t)))"
    and t': "t' = t\<lparr>organization_teams :=
               update_where (\<lambda>r. te_id r \<in> set ds) (mark_deleted at) (organization_teams t)\<rparr>"
    by (auto simp: sql_DeleteOrganizationTeamHierarchy_def mark_deleted_def [abs_def] split: option.splits)
  have set_ds: "set ds = (step_rel (live_children_in oid t))\<^sup>* `` set ?start"
    by (rule levels_sound [OF ds])
  show ?thesis
  proof (cases "\<exists>r \<in> set (organization_teams t). te_id r = tid \<and> te_org r = oid \<and> live_team r")
    case False
    then have "set ?start = {}" by auto
    then have "set ds = {}" unfolding set_ds by (simp only: Image_empty2)
    then have "ds = []" by simp
    with False n t' show ?thesis by (simp add: update_where_none)
  next
    case True
    then obtain r where r: "r \<in> set (organization_teams t)" "te_id r = tid" "te_org r = oid" "live_team r" by auto
    then have "set ?start = {tid}" by auto
    with set_ds have "set ds = (step_rel (live_children_in oid t))\<^sup>* `` {tid}" by simp
    also have "\<dots> = subtree t tid"
      using child_org [OF t r] rtrancl_mono [OF child_in_org_rel, of oid t] by (auto simp: subtree_def)
    finally have "set ds = subtree t tid" .
    with True n t' show ?thesis by simp
  qed
qed

lemma subtree_closed:
  assumes "r \<in> set (organization_teams t)" "live_team r" "te_parent r = Some p" "p \<in> subtree t tid"
  shows "te_id r \<in> subtree t tid"
proof -
  have "(p, te_id r) \<in> child_rel t" using assms by (auto simp: child_rel_iff)
  with assms(4) show ?thesis by (auto simp: subtree_def intro: rtrancl_into_rtrancl)
qed

lemma teams_ok_DeleteHierarchy: "preserves teams_ok (sql_DeleteOrganizationTeamHierarchy oid tid at)"
proof (rule preservesI)
  fix t x t' assume t: "teams_ok t" and ok: "sql_DeleteOrganizationTeamHierarchy oid tid at t = Inr (x, t')"
  let ?rows = "update_where (\<lambda>r. te_id r \<in> subtree t tid) (mark_deleted at) (organization_teams t)"
  have "teams_ok t'" if rows: "organization_teams t' = ?rows"
  proof -
    have in_rows: "q \<in> set ?rows \<Longrightarrow> live_team q \<Longrightarrow>
        q \<in> set (organization_teams t) \<and> te_id q \<notin> subtree t tid" for q
      by (auto simp: in_update_where mark_deleted_def)
    have "child_rel t' \<subseteq> child_rel t"
      by (rule subrelI) (use in_rows in \<open>simp only: child_rel_iff rows, blast\<close>)
    moreover have "nested_well ?rows q" if "q \<in> set ?rows" for q
      unfolding nested_well_def
    proof (intro allI impI, elim conjE, intro conjI)
      fix p assume q: "live_team q" "te_parent q = Some p"
      then have old: "q \<in> set (organization_teams t)" "te_id q \<notin> subtree t tid"
        using in_rows [OF that] by auto
      with t q have well: "te_visibility q = TeamVisibilityVisible"
          "list_ex (parent_team (te_org q) p) (organization_teams t)"
        by (auto simp: teams_ok_def nested_well_def)
      show "te_visibility q = TeamVisibilityVisible" by (fact well(1))
      have "p \<notin> subtree t tid" using subtree_closed [OF old(1) q] old(2) by blast
      then have "x \<in> set ?rows" if "x \<in> set (organization_teams t)" "te_id x = p" for x
        using that by (auto simp: in_update_where)
      with well(2) show "list_ex (parent_team (te_org q) p) ?rows"
        unfolding list_ex_iff parent_team_def by blast
    qed
    moreover have "keyed te_id ?rows"
      using t by (subst keyed_update_where) (auto simp: teams_ok_def mark_deleted_def)
    ultimately show ?thesis
      using t by (auto simp: teams_ok_def rows intro: acyclic_subset)
  qed
  with deleted_hierarchy [OF t ok] t show "teams_ok t'" by auto
qed

end
