(* ===== verification/Team_World.thy ===== *)
theory Team_World imports Team_Laws Team_Hierarchy Org_Creation begin

text \<open>
  The team and collaborator services in the world of \<open>Org_World\<close>, requests to the three
  services together, and what every request keeps of the tables: \<open>org_ok\<close> and the team
  hierarchy, whichever service handles it.
\<close>

definition team_services :: "(uuid \<Rightarrow> string) \<Rightarrow> string \<Rightarrow> org_world team_service" where
  "team_services uuid_text request =
     \<lparr>tsv_store = postgres_team_store, tsv_clock = world_clock, tsv_ids = world_ids,
      tsv_uuid_new = world_uuid, tsv_uuid_string = uuid_text, tsv_request_id = request\<rparr>"

definition collaborator_services ::
  "(uuid \<Rightarrow> string) \<Rightarrow> (string \<Rightarrow> bool) \<Rightarrow> string \<Rightarrow> org_world collaborator_service" where
  "collaborator_services uuid_text canonical request =
     \<lparr>csv_store = postgres_collaborator_store, csv_clock = world_clock, csv_uuid_new = world_uuid,
      csv_uuid_string = uuid_text, csv_canonical_did = canonical, csv_request_id = request\<rparr>"

lemma team_services_simps [simp]:
  "tsv_store (team_services u r) = postgres_team_store" "tsv_clock (team_services u r) = world_clock"
  "tsv_ids (team_services u r) = world_ids" "tsv_uuid_new (team_services u r) = world_uuid"
  "tsv_uuid_string (team_services u r) = u" "tsv_request_id (team_services u r) = r"
  "csv_store (collaborator_services u c r) = postgres_collaborator_store"
  "csv_clock (collaborator_services u c r) = world_clock"
  "csv_uuid_new (collaborator_services u c r) = world_uuid"
  "csv_uuid_string (collaborator_services u c r) = u"
  "csv_canonical_did (collaborator_services u c r) = c" "csv_request_id (collaborator_services u c r) = r"
  by (simp_all add: team_services_def collaborator_services_def)

lemma postgres_team_store_simps [simp]:
  "ts_GetOwner postgres_team_store = pg_GetOwner" "ts_GetMember postgres_team_store = pg_GetMember"
  "ts_CreateTeam postgres_team_store = pg_CreateTeam" "ts_UpdateTeam postgres_team_store = pg_UpdateTeam"
  "ts_DeleteTeam postgres_team_store = pg_DeleteTeam"
  "ts_TeamHasChildren postgres_team_store = pg_TeamHasChildren"
  "ts_IsTeamDescendant postgres_team_store = pg_IsTeamDescendant"
  "ts_ListTeams postgres_team_store = pg_ListTeams" "ts_PageTeams postgres_team_store = pg_PageTeams"
  "ts_GetTeam postgres_team_store = pg_GetTeam" "ts_AddTeamMember postgres_team_store = pg_AddTeamMember"
  "ts_GetTeamMember postgres_team_store = pg_GetTeamMember"
  "ts_ListTeamMembers postgres_team_store = pg_ListTeamMembers"
  "ts_PageTeamMembers postgres_team_store = pg_PageTeamMembers"
  "ts_RemoveTeamMember postgres_team_store = pg_RemoveTeamMember"
  "ts_PutTeamRepository postgres_team_store = pg_PutTeamRepository"
  "ts_ListTeamRepositories postgres_team_store = pg_ListTeamRepositories"
  "ts_PageTeamRepositories postgres_team_store = pg_PageTeamRepositories"
  "ts_RemoveTeamRepository postgres_team_store = pg_RemoveTeamRepository"
  "ts_RecordAudit postgres_team_store = pg_RecordAudit"
  "cs_CanAdminRepository postgres_collaborator_store = pg_CanAdminOrganizationRepository"
  "cs_PutRepositoryCollaborator postgres_collaborator_store = pg_PutRepositoryCollaborator"
  "cs_ListRepositoryCollaborators postgres_collaborator_store = pg_ListRepositoryCollaborators"
  "cs_RemoveRepositoryCollaborator postgres_collaborator_store = pg_RemoveRepositoryCollaborator"
  "cs_RecordAudit postgres_collaborator_store = pg_RecordAudit"
  by (simp_all add: postgres_team_store_def postgres_collaborator_store_def)

section \<open>Organization tables under the team and collaborator statements\<close>

text \<open>These statements add accounts and otherwise leave the tables of \<open>org_ok\<close> alone.\<close>

definition same_organizations :: "'a sql \<Rightarrow> bool" where
  "same_organizations q \<longleftrightarrow> (\<forall>t x t'. q t = Inr (x, t') \<longrightarrow>
     organizations t' = organizations t \<and> organization_members t' = organization_members t
     \<and> organization_invitations t' = organization_invitations t
     \<and> organization_audit_events t' = organization_audit_events t
     \<and> set (accounts t) \<subseteq> set (accounts t'))"

lemma same_organizations_ok:
  assumes "same_organizations q"
  shows "preserves org_ok q"
proof (rule preservesI)
  fix t x t' assume "org_ok t" and "q t = Inr (x, t')"
  with assms have same: "organizations t' = organizations t"
      "organization_members t' = organization_members t"
      "organization_invitations t' = organization_invitations t"
      "organization_audit_events t' = organization_audit_events t" "set (accounts t) \<subseteq> set (accounts t')"
    unfolding same_organizations_def by blast+
  then have "fst ` set (accounts t) \<subseteq> fst ` set (accounts t')" by blast
  with \<open>org_ok t\<close> same(1-4) show "org_ok t'"
    unfolding org_ok_def org_wf_defs owned_def owner_rows_def by (simp, blast)
qed

lemma same_organizations_statements:
  "same_organizations (sql_CreateOrganizationTeam v)" "same_organizations (sql_UpdateOrganizationTeam v)"
  "same_organizations (sql_DeleteOrganizationTeamHierarchy oid tid now)"
  "same_organizations (sql_AddOrganizationTeamMember tid d role now)"
  "same_organizations (sql_DeleteOrganizationTeamMember tid d)"
  "same_organizations (sql_PutOrganizationTeamRepository tid rid rrole now)"
  "same_organizations (sql_DeleteOrganizationTeamRepository tid rid)"
  "same_organizations (sql_EnsureAccount d)"
  "same_organizations (sql_PutOrganizationRepositoryCollaborator d rrole now rid oid)"
  "same_organizations (sql_DeleteOrganizationRepositoryCollaborator rid d oid)"
  unfolding same_organizations_def sql_CreateOrganizationTeam_def sql_UpdateOrganizationTeam_def
    sql_DeleteOrganizationTeamHierarchy_def sql_AddOrganizationTeamMember_def
    sql_DeleteOrganizationTeamMember_def sql_PutOrganizationTeamRepository_def
    sql_DeleteOrganizationTeamRepository_def sql_EnsureAccount_def
    sql_PutOrganizationRepositoryCollaborator_def sql_DeleteOrganizationRepositoryCollaborator_def Let_def
  by (auto split: if_splits option.splits prod.splits)

lemmas org_ok_team_statements [org_sql] = same_organizations_statements [THEN same_organizations_ok]

section \<open>The hierarchy under every other statement\<close>

text \<open>The statements of the organization service touch no table of the teams.\<close>

definition team_tables :: "org_tables \<Rightarrow> team_row list \<times> team_member list \<times> team_repository list" where
  "team_tables t = (organization_teams t, organization_team_members t, organization_team_repositories t)"

definition same_team_tables :: "'a sql \<Rightarrow> bool" where
  "same_team_tables q \<longleftrightarrow> (\<forall>t x t'. q t = Inr (x, t') \<longrightarrow> team_tables t' = team_tables t)"

lemma same_team_tables_teams: "same_team_tables q \<Longrightarrow> same_teams q"
  by (simp add: same_team_tables_def same_teams_def team_tables_def)

lemma same_team_tables_preserves: "same_team_tables q \<Longrightarrow> preserves (\<lambda>t. team_tables t = v) q"
  by (simp add: same_team_tables_def preserves_def)

lemma same_team_tables_statements:
  "same_team_tables (sql_CreateOrganization value)" "same_team_tables (sql_CreateOrganizationOwnerRoute alias oid)"
  "same_team_tables (sql_CreateOrganizationOwner oid d now)"
  "same_team_tables (sql_CreateOrganizationMemberFromInvitation i d identity now)"
  "same_team_tables (sql_CreateOrganizationInvitation i)" "same_team_tables (sql_RevokeOrganizationInvitation oid now)"
  "same_team_tables (sql_AcceptOrganizationInvitation oid now)" "same_team_tables (sql_InsertOrganizationAuditEvent e)"
  "same_team_tables (sql_ActivateOrganization oid identity now)" "same_team_tables (sql_FailOrganization oid now)"
  "same_team_tables (sql_UpdateOrganization value)" "same_team_tables (sql_UpdateOrganizationMemberRole oid d r g m now)"
  "same_team_tables (sql_UpdateOrganizationMembershipVisibility oid d vis g m now)"
  "same_team_tables (sql_DeleteOrganizationMember oid d)"
  unfolding same_team_tables_def team_tables_def sql_CreateOrganization_def sql_CreateOrganizationOwnerRoute_def
    sql_CreateOrganizationOwner_def sql_CreateOrganizationMemberFromInvitation_def insert_member_def
    sql_CreateOrganizationInvitation_def sql_RevokeOrganizationInvitation_def
    sql_AcceptOrganizationInvitation_def sql_InsertOrganizationAuditEvent_def
    sql_ActivateOrganization_def sql_FailOrganization_def sql_UpdateOrganization_def
    sql_UpdateOrganizationMemberRole_def sql_UpdateOrganizationMembershipVisibility_def
    sql_DeleteOrganizationMember_def update_org_def update_member_def update_invitation_def Let_def
  by (auto split: if_splits option.splits)

lemma same_teams_assignments:
  "same_teams (sql_AddOrganizationTeamMember tid d role now)" "same_teams (sql_DeleteOrganizationTeamMember tid d)"
  "same_teams (sql_PutOrganizationTeamRepository tid rid rrole now)"
  "same_teams (sql_DeleteOrganizationTeamRepository tid rid)" "same_teams (sql_EnsureAccount d)"
  "same_teams (sql_PutOrganizationRepositoryCollaborator d rrole now rid oid)"
  "same_teams (sql_DeleteOrganizationRepositoryCollaborator rid d oid)"
  unfolding same_teams_def sql_AddOrganizationTeamMember_def
    sql_DeleteOrganizationTeamMember_def sql_PutOrganizationTeamRepository_def
    sql_DeleteOrganizationTeamRepository_def sql_EnsureAccount_def
    sql_PutOrganizationRepositoryCollaborator_def sql_DeleteOrganizationRepositoryCollaborator_def Let_def
  by (auto split: if_splits option.splits prod.splits)

lemmas team_tables_statements [org_sql] = same_team_tables_statements [THEN same_team_tables_preserves]

lemmas teams_ok_statements [org_sql] =
  same_team_tables_statements [THEN same_team_tables_teams, THEN same_teams_preserves]
  same_teams_assignments [THEN same_teams_preserves] teams_ok_CreateTeam teams_ok_UpdateTeam teams_ok_DeleteHierarchy

text \<open>Statements that read.\<close>

lemmas team_read_defs = sql_OrganizationTeamHasChildren_def [abs_def] sql_GetOrganizationTeam_def [abs_def]
  sql_GetOrganizationTeamMember_def [abs_def] sql_GetRepository_def [abs_def]
  sql_CanAdminOrganizationRepository_def [abs_def] exists_repository_def [abs_def]

lemma preserves_team_reads [org_sql]:
  "preserves I (sql_OrganizationTeamHasChildren oid tid)" "preserves I (sql_GetOrganizationTeam oid tid)"
  "preserves I (sql_GetOrganizationTeamMember tid d)" "preserves I (sql_GetRepository rid)"
  "preserves I (sql_CanAdminOrganizationRepository oid rid d)"
  "preserves I (sql_ListOrganizationTeamDescendantIDs oid tid)"
  unfolding team_read_defs
  by (rule preserves_one_row preserves_read
      | auto simp: preserves_def sql_ListOrganizationTeamDescendantIDs_def split: option.splits)+

end
