(* ===== verification/Team_Safety.thy ===== *)
theory Team_Safety imports Team_World begin

text \<open>
  Safety of the organization, team and collaborator services together: the hierarchy stays
  a forest under any sequence of requests, deleting a team deletes exactly the teams below
  it, and only owners and maintainers change a team.
\<close>

section \<open>The store keeps both invariants\<close>

lemma keeps_pg_teams:
  assumes "\<And>v. preserves I (sql_CreateOrganizationTeam v)" "\<And>v. preserves I (sql_UpdateOrganizationTeam v)"
    and "\<And>oid tid now. preserves I (sql_DeleteOrganizationTeamHierarchy oid tid now)"
  shows "keeps (on_tables I) (pg_CreateTeam v)" "keeps (on_tables I) (pg_UpdateTeam v)"
    "keeps (on_tables I) (pg_DeleteTeam oid tid now)" "keeps (on_tables I) (pg_TeamHasChildren oid tid)"
    "keeps (on_tables I) (pg_IsTeamDescendant oid tid candidate)" "keeps (on_tables I) (pg_GetTeam oid tid)"
    "keeps (on_tables I) (pg_ListTeams oid d)" "keeps (on_tables I) (pg_PageTeams oid d secret after n)"
    "keeps (on_tables I) (pg_GetTeamMember tid d)" "keeps (on_tables I) (pg_ListTeamMembers tid)"
    "keeps (on_tables I) (pg_PageTeamMembers tid d n)" "keeps (on_tables I) (pg_ListTeamRepositories tid)"
    "keeps (on_tables I) (pg_PageTeamRepositories tid after n)"
  unfolding pg_CreateTeam_def pg_UpdateTeam_def pg_DeleteTeam_def pg_TeamHasChildren_def pg_IsTeamDescendant_def
    pg_GetTeam_def pg_ListTeams_def pg_PageTeams_def pg_GetTeamMember_def pg_ListTeamMembers_def
    pg_PageTeamMembers_def pg_ListTeamRepositories_def pg_PageTeamRepositories_def
  by (intro op_keeps org_sql assms)+

lemma keeps_pg_assignments:
  assumes "\<And>d role now. preserves I (sql_AddOrganizationTeamMember tid d role now)"
    and "\<And>d. preserves I (sql_DeleteOrganizationTeamMember tid d)"
    and "\<And>rid role now. preserves I (sql_PutOrganizationTeamRepository tid rid role now)"
    and "\<And>rid. preserves I (sql_DeleteOrganizationTeamRepository tid rid)"
    and "\<And>e. preserves I (sql_InsertOrganizationAuditEvent e)"
  shows "keeps (on_tables I) (pg_AddTeamMember tid d role now)" "keeps (on_tables I) (pg_RemoveTeamMember tid d)"
    "keeps (on_tables I) (pg_PutTeamRepository tid rid rrole now)"
    "keeps (on_tables I) (pg_RemoveTeamRepository tid rid)" "keeps (on_tables I) (pg_RecordAudit e)"
  unfolding pg_AddTeamMember_def pg_RemoveTeamMember_def pg_PutTeamRepository_def pg_RemoveTeamRepository_def
    pg_delete_one_def pg_RecordAudit_def
  by (intro op_keeps org_sql assms)+

lemma keeps_pg_collaborators:
  assumes "\<And>d. preserves I (sql_EnsureAccount d)"
    and "\<And>d role now rid oid. preserves I (sql_PutOrganizationRepositoryCollaborator d role now rid oid)"
    and "\<And>rid d oid. preserves I (sql_DeleteOrganizationRepositoryCollaborator rid d oid)"
  shows "keeps (on_tables I) (pg_CanAdminOrganizationRepository oid rid d)"
    "keeps (on_tables I) (pg_PutRepositoryCollaborator oid rid d role now)"
    "keeps (on_tables I) (pg_ListRepositoryCollaborators oid rid d n)"
    "keeps (on_tables I) (pg_RemoveRepositoryCollaborator oid rid d)"
  unfolding pg_CanAdminOrganizationRepository_def pg_PutRepositoryCollaborator_def
    pg_ListRepositoryCollaborators_def pg_RemoveRepositoryCollaborator_def pg_delete_one_def
  by (intro op_keeps keeps_transaction_body keeps_pg_exec org_sql assms)+

lemma keeps_pg_organizations:
  assumes "\<And>v. preserves I (sql_CreateOrganization v)" "\<And>a oid. preserves I (sql_CreateOrganizationOwnerRoute a oid)"
    "\<And>oid d now. preserves I (sql_CreateOrganizationOwner oid d now)"
    "\<And>i d a now. preserves I (sql_CreateOrganizationMemberFromInvitation i d a now)"
    "\<And>i. preserves I (sql_CreateOrganizationInvitation i)"
    "\<And>iid now. preserves I (sql_RevokeOrganizationInvitation iid now)"
    "\<And>iid now. preserves I (sql_AcceptOrganizationInvitation iid now)"
    "\<And>e. preserves I (sql_InsertOrganizationAuditEvent e)"
    "\<And>oid a now. preserves I (sql_ActivateOrganization oid a now)"
    "\<And>oid now. preserves I (sql_FailOrganization oid now)" "\<And>v. preserves I (sql_UpdateOrganization v)"
    "\<And>oid d r g m now. preserves I (sql_UpdateOrganizationMemberRole oid d r g m now)"
    "\<And>oid d v g m now. preserves I (sql_UpdateOrganizationMembershipVisibility oid d v g m now)"
    "\<And>oid d. preserves I (sql_DeleteOrganizationMember oid d)"
  shows "keeps (on_tables I) (pg_Create value)" "keeps (on_tables I) (pg_Activate oid identity now)"
    "keeps (on_tables I) (pg_Fail oid now)" "keeps (on_tables I) (pg_Update value)"
    "keeps (on_tables I) (pg_UpdateVisibility oid d vis g m now)"
    "keeps (on_tables I) (pg_CreateInvitation i)" "keeps (on_tables I) (pg_RevokeInvitation oid now)"
    "keeps (on_tables I) (pg_AcceptInvitation iid d m now)"
    "keeps (on_tables I) (pg_UpdateMemberRole oid d r g m now)"
    "keeps (on_tables I) (pg_RemoveMember oid d)" "keeps (on_tables I) (pg_RecordAudit e)"
  unfolding pg_Create_def pg_Activate_def pg_Fail_def pg_Update_def pg_UpdateVisibility_def
    pg_CreateInvitation_def pg_RevokeInvitation_def pg_AcceptInvitation_def pg_UpdateMemberRole_def
    pg_RemoveMember_def pg_RecordAudit_def
  by (intro keeps_transaction_body op_keeps keeps_pg_exec org_sql assms)+

interpretation teams_hierarchy: team_laws "team_services uuid_text request" "on_tables teams_ok"
  for uuid_text request
  by unfold_locales
     (simp_all add: world_keeps op_keeps keeps_pg_organizations keeps_pg_teams keeps_pg_assignments org_sql)

interpretation teams_org: team_laws "team_services uuid_text request" "on_tables org_ok"
  for uuid_text request
  by unfold_locales
     (simp_all add: world_keeps op_keeps keeps_pg_teams keeps_pg_assignments org_sql)

interpretation collaborators_hierarchy:
  collaborator_laws "collaborator_services uuid_text canonical request" "on_tables teams_ok"
  for uuid_text canonical request
  by unfold_locales (simp_all add: world_keeps keeps_pg_organizations keeps_pg_collaborators org_sql)

interpretation collaborators_org:
  collaborator_laws "collaborator_services uuid_text canonical request" "on_tables org_ok"
  for uuid_text canonical request
  by unfold_locales (simp_all add: world_keeps op_keeps keeps_pg_collaborators org_sql)

interpretation organizations_hierarchy:
  membership_store "service uuid_text canonical request" "on_tables teams_ok" "\<lambda>_ _. False"
  for uuid_text canonical request
  by unfold_locales (simp_all add: op_keeps keeps_pg_organizations org_sql)

interpretation organizations_team_tables:
  membership_store "service uuid_text canonical request" "on_tables (\<lambda>t. team_tables t = v)" "\<lambda>_ _. False"
  for uuid_text canonical request v
  by unfold_locales (simp_all add: op_keeps keeps_pg_organizations org_sql)

section \<open>Requests to the three services\<close>

datatype system_request =
    Organization_Request org_request
  | CreateTeam_Request create_team_input
  | UpdateTeam_Request update_team_input
  | DeleteTeam_Request uuid uuid did
  | PutTeamMember_Request uuid uuid did did team_role
  | RemoveTeamMember_Request uuid uuid did did
  | PutTeamRepository_Request uuid uuid did uuid repository_role
  | RemoveTeamRepository_Request uuid uuid did uuid
  | PutCollaborator_Request uuid uuid did did repository_role
  | RemoveCollaborator_Request uuid uuid did did

fun serve_system ::
  "(uuid \<Rightarrow> string) \<Rightarrow> (string \<Rightarrow> bool) \<Rightarrow> string \<Rightarrow> system_request \<Rightarrow> org_world \<Rightarrow> org_world" where
  "serve_system u c q (Organization_Request r) w = serve (service u c q) r w"
| "serve_system u c q (CreateTeam_Request input) w = snd (team_Create (team_services u q) input w)"
| "serve_system u c q (UpdateTeam_Request input) w = snd (team_Update (team_services u q) input w)"
| "serve_system u c q (DeleteTeam_Request oid tid a) w = snd (team_Delete (team_services u q) oid tid a w)"
| "serve_system u c q (PutTeamMember_Request oid tid a d role) w =
     snd (team_PutMember (team_services u q) oid tid a d role w)"
| "serve_system u c q (RemoveTeamMember_Request oid tid a d) w =
     snd (team_RemoveMember (team_services u q) oid tid a d w)"
| "serve_system u c q (PutTeamRepository_Request oid tid a rid role) w =
     snd (team_PutRepository (team_services u q) oid tid a rid role w)"
| "serve_system u c q (RemoveTeamRepository_Request oid tid a rid) w =
     snd (team_RemoveRepository (team_services u q) oid tid a rid w)"
| "serve_system u c q (PutCollaborator_Request oid rid a d role) w =
     snd (col_Put (collaborator_services u c q) oid rid a d role w)"
| "serve_system u c q (RemoveCollaborator_Request oid rid a d) w =
     snd (col_Remove (collaborator_services u c q) oid rid a d w)"

definition serve_system_all ::
  "(uuid \<Rightarrow> string) \<Rightarrow> (string \<Rightarrow> bool) \<Rightarrow> string \<Rightarrow> system_request list \<Rightarrow> org_world \<Rightarrow> org_world" where
  "serve_system_all u c q rs w = fold (serve_system u c q) rs w"

definition system_ok :: "org_tables \<Rightarrow> bool" where
  "system_ok t \<longleftrightarrow> org_ok t \<and> teams_ok t"

lemma serve_system_keeps:
  assumes "system_ok (tables w)"
  shows "system_ok (tables (serve_system u c q r w))"
proof -
  have w: "on_tables org_ok w" "on_tables teams_ok w" using assms by (simp_all add: system_ok_def)
  have "on_tables org_ok (serve_system u c q r w)"
    by (cases r) (auto simp del: on_tables_iff intro!: keepsD [OF teams_org.hierarchy_keep(1) w(1)]
        keepsD [OF teams_org.hierarchy_keep(2) w(1)] keepsD [OF teams_org.hierarchy_keep(3) w(1)]
        teams_org.assignments_keep [THEN keepsD] collaborators_org.methods_keep [THEN keepsD]
        org_tables_ok.serve_keeps w(1))
  moreover have "on_tables teams_ok (serve_system u c q r w)"
    by (cases r) (auto simp del: on_tables_iff intro!: keepsD [OF teams_hierarchy.hierarchy_keep(1) w(2)]
        keepsD [OF teams_hierarchy.hierarchy_keep(2) w(2)] keepsD [OF teams_hierarchy.hierarchy_keep(3) w(2)]
        teams_hierarchy.assignments_keep [THEN keepsD] collaborators_hierarchy.methods_keep [THEN keepsD]
        organizations_hierarchy.serve_keeps w(2))
  ultimately show ?thesis by (simp add: system_ok_def)
qed

lemma serve_system_all_keeps: "system_ok (tables w) \<Longrightarrow> system_ok (tables (serve_system_all u c q rs w))"
  by (induction rs arbitrary: w) (auto simp: serve_system_all_def intro: serve_system_keeps)

end
