(* ===== verification/Access.thy ===== *)
theory Access imports Team_Safety begin

text \<open>
  Repository access. The program decides it in SQL (\<^verbatim>\<open>CanReadRepository\<close> and its
  siblings, with the team hierarchy walked by the query), while
  \<^verbatim>\<open>internal/organization/organization.go\<close> states the policy as the Go function
  \<open>EffectiveRepositoryRole\<close>. The statements here show that they are the same policy: each
  query answers whether the effective role reaches its rank.
\<close>

section \<open>The grants that apply\<close>

definition member_role_of :: "org_tables \<Rightarrow> did \<Rightarrow> repository \<Rightarrow> role" where
  "member_role_of t account r =
     (case org_member_of t account r of None \<Rightarrow> Role_Other [] | Some m \<Rightarrow> mem_Role m)"

definition base_for :: "org_tables \<Rightarrow> did \<Rightarrow> repository \<Rightarrow> base_permission" where
  "base_for t account r =
     (if org_member_of t account r = None then BasePermissionNone
      else case base_permission_of t r of None \<Rightarrow> BasePermissionNone | Some p \<Rightarrow> p)"

definition direct_role_of :: "org_tables \<Rightarrow> did \<Rightarrow> repository \<Rightarrow> repository_role" where
  "direct_role_of t account r =
     (case find (\<lambda>c. col_key c = (repo_ID r, account)) (repository_collaborators t) of
        None \<Rightarrow> RepositoryRoleNone | Some c \<Rightarrow> col_Role c)"

definition team_roles_of :: "org_tables \<Rightarrow> did \<Rightarrow> repository \<Rightarrow> repository_role list" where
  "team_roles_of t account r =
     map tr_Role (filter (\<lambda>a. tr_TeamID a \<in> set (team_lineage None t account) \<and> tr_RepositoryID a = repo_ID r)
       (organization_team_repositories t))"

definition effective_role :: "org_tables \<Rightarrow> did \<Rightarrow> repository \<Rightarrow> repository_role" where
  "effective_role t account r =
     EffectiveRepositoryRole (member_role_of t account r) (base_for t account r)
       (direct_role_of t account r) (team_roles_of t account r)"

section \<open>The queries decide by rank\<close>

lemma effective_rank:
  assumes "n \<le> 5"
  shows "n \<le> rank (EffectiveRepositoryRole m b d ts) \<longleftrightarrow>
     m = RoleOwner \<or> n \<le> rank (base_role b) \<or> n \<le> rank d \<or> (\<exists>role \<in> set ts. n \<le> rank role)"
proof (cases "m = RoleOwner")
  case False
  then show ?thesis
    by (simp add: effective_role_unfold rank_strongest Max_ge_iff del: strongest_role.simps Max_insert)
qed (use assms in \<open>simp add: effective_role_unfold\<close>)

definition access_keys :: "org_tables \<Rightarrow> bool" where
  "access_keys t \<longleftrightarrow> keyed rr_id (repositories t) \<and> keyed col_key (repository_collaborators t)"

lemma collaborator_grant_iff:
  assumes "keyed col_key (repository_collaborators t)" and "RepositoryRoleNone \<notin> set roles"
  shows "collaborator_grant roles t account r \<longleftrightarrow> direct_role_of t account r \<in> set roles"
proof (cases "find (\<lambda>c. col_key c = (repo_ID r, account)) (repository_collaborators t)")
  case None
  then have "\<not> collaborator_grant roles t account r"
    by (auto simp: collaborator_grant_def list_ex_iff find_None_in)
  with None assms(2) show ?thesis by (simp add: direct_role_of_def)
next
  case (Some c)
  then have "c' = c" if "c' \<in> set (repository_collaborators t)" "col_key c' = (repo_ID r, account)" for c'
    using that assms(1) by (auto dest!: find_Some_in intro: keyed_unique [of col_key])
  with Some find_Some_in [OF Some] show ?thesis
    by (auto simp: collaborator_grant_def direct_role_of_def list_ex_iff)
qed

lemma team_grant_iff:
  "team_grant roles None t account r \<longleftrightarrow> (\<exists>role \<in> set (team_roles_of t account r). role \<in> set roles)"
  by (auto simp: team_grant_def team_roles_of_def list_ex_iff)

lemma owner_grant_iff: "owner_grant t account r \<longleftrightarrow> member_role_of t account r = RoleOwner"
  by (simp add: owner_grant_def member_role_of_def split: option.split)

lemma base_grant_iff:
  "BasePermissionNone \<notin> set ps \<Longrightarrow> base_grant ps t account r \<longleftrightarrow> base_for t account r \<in> set ps"
  by (auto simp: base_grant_def base_for_def split: option.split)

text \<open>One rank of access: the roles and base permissions the query lists are those that reach it.\<close>

lemma grants_rank:
  assumes "keyed col_key (repository_collaborators t)" and "1 \<le> n" and "n \<le> 5"
    and roles: "\<And>role. role \<in> set roles \<longleftrightarrow> n \<le> rank role"
    and bases: "\<And>b. b \<in> set ps \<longleftrightarrow> n \<le> rank (base_role b)"
  shows "owner_grant t account r \<or> base_grant ps t account r \<or> team_grant roles None t account r
      \<or> collaborator_grant roles t account r \<longleftrightarrow> n \<le> rank (effective_role t account r)"
proof -
  have none: "RepositoryRoleNone \<notin> set roles" "BasePermissionNone \<notin> set ps"
    using assms(2) by (simp_all add: roles bases base_role_def)
  show ?thesis
    unfolding effective_role_def effective_rank [OF assms(3)] owner_grant_iff base_grant_iff [OF none(2)]
      team_grant_iff collaborator_grant_iff [OF assms(1) none(1)] roles bases
    by blast
qed

lemma query_read_roles: "role \<in> set read_roles \<longleftrightarrow> 1 \<le> rank role"
  by (cases role) simp_all

lemma query_triage_roles: "role \<in> set triage_roles \<longleftrightarrow> 2 \<le> rank role"
  by (cases role) simp_all

lemma query_write_roles: "role \<in> set write_roles \<longleftrightarrow> 3 \<le> rank role"
  by (cases role) simp_all

lemma query_admin_roles: "role \<in> set [RepositoryRoleAdmin] \<longleftrightarrow> 5 \<le> rank role"
  by (cases role) simp_all

lemma query_read_bases: "b \<in> set [BasePermissionRead, BasePermissionWrite] \<longleftrightarrow> 1 \<le> rank (base_role b)"
  by (cases b) (simp_all add: base_role_def)

lemma query_triage_bases: "b \<in> set [BasePermissionWrite] \<longleftrightarrow> 2 \<le> rank (base_role b)"
  by (cases b) (simp_all add: base_role_def)

lemma query_write_bases: "b \<in> set [BasePermissionWrite] \<longleftrightarrow> 3 \<le> rank (base_role b)"
  by (cases b) (simp_all add: base_role_def)

lemma query_admin_bases: "b \<in> set [] \<longleftrightarrow> 5 \<le> rank (base_role b)"
  by (cases b) (simp_all add: base_role_def)

lemmas query_roles = query_read_roles query_triage_roles query_write_roles query_admin_roles
lemmas query_bases = query_read_bases query_triage_bases query_write_bases query_admin_bases

lemma no_base_grant [simp]: "\<not> base_grant [] t account r"
  by (simp add: base_grant_def split: option.split)

lemma exists_repository_unique:
  assumes "keyed rr_id (repositories t)" and "row \<in> set (repositories t)" and "live_repo row" and "rr_id row = rid"
  shows "exists_repository p rid t = Inr (p (rr_repo row), t)"
proof -
  have only: "r' = row" if "r' \<in> set (repositories t)" "rr_id r' = rid" for r'
    by (rule keyed_unique [OF assms(1) that(1) assms(2)]) (simp add: that(2) assms(4))
  have "list_ex (\<lambda>r. rr_id r = rid \<and> live_repo r \<and> p (rr_repo r)) (repositories t) \<longleftrightarrow> p (rr_repo row)"
    unfolding list_ex_iff using only assms(2-4) by blast
  then show ?thesis by (simp only: exists_repository_def)
qed

text \<open>Each query is the effective role compared with a rank, beside ownership by an account.\<close>

lemma access_as_rank:
  assumes "access_keys t" and "row \<in> set (repositories t)" and "live_repo row"
  shows "sql_CanReadRepository account (rr_id row) t = Inr (repo_Visibility (rr_repo row) = Repo_Public
      \<or> account_owner account (rr_repo row) \<or> 1 \<le> rank (effective_role t account (rr_repo row)), t)"
    and "sql_CanTriageRepository account (rr_id row) t =
      Inr (account_owner account (rr_repo row) \<or> 2 \<le> rank (effective_role t account (rr_repo row)), t)"
    and "sql_CanWriteRepository account (rr_id row) t =
      Inr (account_owner account (rr_repo row) \<or> 3 \<le> rank (effective_role t account (rr_repo row)), t)"
    and "sql_CanAdminRepository account (rr_id row) t =
      Inr (account_owner account (rr_repo row) \<or> 5 \<le> rank (effective_role t account (rr_repo row)), t)"
proof -
  have keys: "keyed rr_id (repositories t)" "keyed col_key (repository_collaborators t)"
    using assms(1) by (simp_all add: access_keys_def)
  note one = exists_repository_unique [OF keys(1) assms(2,3) refl]
  show "sql_CanReadRepository account (rr_id row) t = Inr (repo_Visibility (rr_repo row) = Repo_Public
      \<or> account_owner account (rr_repo row) \<or> 1 \<le> rank (effective_role t account (rr_repo row)), t)"
    unfolding sql_CanReadRepository_def one
    using grants_rank [OF keys(2) _ _ query_roles(1) query_bases(1), of account "rr_repo row"] by simp
  show "sql_CanTriageRepository account (rr_id row) t =
      Inr (account_owner account (rr_repo row) \<or> 2 \<le> rank (effective_role t account (rr_repo row)), t)"
    unfolding sql_CanTriageRepository_def one
    using grants_rank [OF keys(2) _ _ query_roles(2) query_bases(2), of account "rr_repo row"] by simp
  show "sql_CanWriteRepository account (rr_id row) t =
      Inr (account_owner account (rr_repo row) \<or> 3 \<le> rank (effective_role t account (rr_repo row)), t)"
    unfolding sql_CanWriteRepository_def one
    using grants_rank [OF keys(2) _ _ query_roles(3) query_bases(3), of account "rr_repo row"] by simp
  show "sql_CanAdminRepository account (rr_id row) t =
      Inr (account_owner account (rr_repo row) \<or> 5 \<le> rank (effective_role t account (rr_repo row)), t)"
    unfolding sql_CanAdminRepository_def one
    using grants_rank [OF keys(2) _ _ query_roles(4) query_bases(4), of account "rr_repo row"]
    by (simp add: no_base_grant)
qed

end
