(* ===== verification/Team_Properties.thy ===== *)
theory Team_Properties imports Access begin

text \<open>
  The properties of teams, collaborators and repository access in the world of
  \<open>Team_World\<close>, at an example with a nested team, a secret team and one repository.
\<close>

section \<open>An example\<close>

definition example_team :: "uuid \<Rightarrow> uuid option \<Rightarrow> string \<Rightarrow> team_visibility \<Rightarrow> team_row" where
  "example_team i p slug v =
     \<lparr>te_team = \<lparr>team_ID = i, team_OrganizationID = 1, team_ParentTeamID = p, team_Slug = slug,
        team_Name = slug, team_Description = [], team_Visibility = v, team_ViewerIsMember = False,
        team_ViewerRole = TeamRole_Other [], team_CreatedAt = 1, team_UpdatedAt = 1\<rparr>, te_deleted_at = None\<rparr>"

definition example_repository :: repository where
  "example_repository =
     \<lparr>repo_ID = 21, repo_OwnerDID = ''did:a'', repo_OrganizationID = Some 1, repo_OrganizationSlug = [],
      repo_Slug = ''site'', repo_DisplayName = ''Site'', repo_Description = [], repo_Visibility = Repo_Private,
      repo_State = StateActive, repo_DefaultBranch = ''main'', repo_StorageKey = ''21.git'', repo_ATURI = [],
      repo_ATCID = [], repo_ForkedFrom = None, repo_TransferredFrom = None, repo_ForkCount = 0,
      repo_ViewerCanAdmin = False, repo_ArchivedAt = None, repo_CreatedAt = 1, repo_UpdatedAt = 1\<rparr>"

definition example_team_tables :: org_tables where
  "example_team_tables = example_tables
     \<lparr>organization_teams :=
        [example_team 11 None ''eng'' TeamVisibilityVisible, example_team 12 (Some 11) ''web'' TeamVisibilityVisible,
         example_team 13 (Some 12) ''css'' TeamVisibilityVisible, example_team 14 None ''sec'' TeamVisibilitySecret],
      organization_team_members :=
        [\<lparr>tm_TeamID = 12, tm_AccountDID = ''did:b'', tm_Handle = [], tm_Role = TeamRoleMaintainer,
          tm_CreatedAt = 1, tm_UpdatedAt = 1\<rparr>],
      organization_team_repositories :=
        [\<lparr>tr_TeamID = 11, tr_RepositoryID = 21, tr_RepositorySlug = [], tr_Role = RepositoryRoleWrite,
          tr_CreatedAt = 1, tr_UpdatedAt = 1\<rparr>],
      repositories := [\<lparr>rr_repo = example_repository, rr_deleted_at = None\<rparr>]\<rparr>"

definition example_team_world :: org_world where
  "example_team_world = example_world\<lparr>tables := example_team_tables\<rparr>"

lemmas team_example_defs = example_team_world_def example_team_tables_def example_team_def
  example_repository_def example_defs

lemma example_child_rel: "child_rel (tables example_team_world) = {(11, 12), (12, 13)}"
  by (auto simp: child_rel_iff team_example_defs)

lemma example_teams_ok: "teams_ok (tables example_team_world)"
proof -
  have "acyclic {(11 :: uuid, 12), (12, 13)}"
    by (rule acyclicI_order [where f = "\<lambda>x. - uint x"]) auto
  then show ?thesis
    unfolding teams_ok_def example_child_rel
    by (simp add: team_example_defs nested_well_def parent_team_def)
qed

lemma example_system_ok: "system_ok (tables example_team_world)"
  using example_org_ok example_teams_ok
  by (simp add: system_ok_def org_ok_def org_wf_defs owned_def owner_rows_def team_example_defs)

section \<open>What the steps of a method do to the tables\<close>

lemma world_clock_tables: "world_clock w = (at, w') \<Longrightarrow> tables w' = tables w"
  by (auto simp: world_clock_def)

lemma tables_same:
  assumes "\<And>v. keeps (on_tables (\<lambda>t. t = v)) m" and "m w = (r, w')"
  shows "tables w' = tables w"
  using keeps_result [OF assms(1) [of "tables w"] assms(2)] by simp

text \<open>The audit entry is the only row an audit call writes.\<close>

lemma team_audit_tables:
  assumes "team_audit (team_services u q) oid d action tt ti md w = (r, w')"
  shows "\<exists>es. tables w' = (tables w)\<lparr>organization_audit_events := es\<rparr>"
proof -
  let ?I = "\<lambda>t. \<exists>es. t = (tables w)\<lparr>organization_audit_events := es\<rparr>"
  have "preserves ?I (sql_InsertOrganizationAuditEvent e)" for e
    by (auto simp: preserves_def sql_InsertOrganizationAuditEvent_def split: if_splits)
  then have "keeps (on_tables ?I) (team_audit (team_services u q) oid d action tt ti md)"
    unfolding team_audit_def recordOrganizationAudit_def team_services_simps postgres_team_store_simps
      pg_RecordAudit_def
    by (intro op_keeps world_keeps)
  moreover have "?I (tables w)"
    by (rule exI [of _ "organization_audit_events (tables w)"]) simp
  ultimately have "on_tables ?I w'"
    using keeps_result [where I = "on_tables ?I" and w = w] assms by simp
  then show ?thesis by simp
qed

lemma authorizeMaintainer_tables:
  "authorizeMaintainer (team_services u q) oid tid d w = (r, w') \<Longrightarrow> tables w' = tables w"
  by (erule tables_same [rotated])
     (unfold authorizeMaintainer_def team_services_simps postgres_team_store_simps pg_GetOwner_def
        pg_GetTeamMember_def, intro op_keeps org_sql)

lemma pg_GetTeam_tables: "pg_GetTeam oid tid w = (r, w') \<Longrightarrow> tables w' = tables w"
  by (erule tables_same [rotated]) (unfold pg_GetTeam_def, intro op_keeps org_sql)

lemma pg_GetTeam_live:
  "pg_GetTeam oid tid w = (Inr v, w') \<Longrightarrow>
     \<exists>r \<in> set (organization_teams (tables w)). te_id r = tid \<and> te_org r = oid \<and> live_team r"
  by (auto simp: pg_GetTeam_def sql_GetOrganizationTeam_def one_row_def dest!: pg_query_ok find_Some_in
      split: option.splits)

lemmas step_tables = world_clock_tables authorizeMaintainer_tables pg_GetTeam_tables

section \<open>The hierarchy\<close>

text \<open>
  C2. Under any sequence of requests to the organization, team and collaborator services,
  well-formed tables stay well-formed and the live teams stay a forest: a live team with a
  parent is visible, its parent is a visible live team of the same organization, no team is
  above itself, and so every recursive query over the hierarchy ends.
\<close>

theorem requests_keep_hierarchy:
  fixes uuid_text canonical request rs w
  defines "t \<equiv> tables (serve_system_all uuid_text canonical request rs w)"
  assumes "system_ok (tables w)"
  shows "system_ok t
    \<and> (\<forall>r \<in> set (organization_teams t). \<forall>p. live_team r \<and> te_parent r = Some p \<longrightarrow>
        te_visibility r = TeamVisibilityVisible
        \<and> (\<exists>s \<in> set (organization_teams t). te_id s = p \<and> te_org s = te_org r \<and> live_team s
             \<and> te_visibility s = TeamVisibilityVisible))
    \<and> (\<forall>x. (x, x) \<notin> (child_rel t)\<^sup>+)
    \<and> (\<forall>v. sql_UpdateOrganizationTeam v t \<noteq> Inl endless)
    \<and> (\<forall>oid tid at. sql_DeleteOrganizationTeamHierarchy oid tid at t \<noteq> Inl endless)
    \<and> (\<forall>oid tid. sql_ListOrganizationTeamDescendantIDs oid tid t \<noteq> Inl endless)"
proof -
  have ok: "system_ok t" unfolding t_def by (rule serve_system_all_keeps [OF assms(2)])
  then have teams: "teams_ok t" by (simp add: system_ok_def)
  note ends = levels_of_sub_relation [OF teams subset_refl] levels_of_sub_relation [OF teams child_in_org_rel]
  show ?thesis
  proof (intro conjI ok ballI allI impI)
    show "sql_UpdateOrganizationTeam v t \<noteq> Inl endless" for v
      using ends(1) [of "live_children t (team_ID v)"]
      by (auto simp: sql_UpdateOrganizationTeam_def Let_def split: option.splits)
    show "sql_DeleteOrganizationTeamHierarchy oid tid at t \<noteq> Inl endless" for oid tid at
      unfolding sql_DeleteOrganizationTeamHierarchy_def
      by (auto split: option.splits) (metis ends(2) option.distinct(1))
    show "sql_ListOrganizationTeamDescendantIDs oid tid t \<noteq> Inl endless" for oid tid
      unfolding sql_ListOrganizationTeamDescendantIDs_def
      by (auto split: option.splits) (metis ends(2) option.distinct(1))
  qed (use teams in \<open>auto simp: teams_ok_def nested_well_def list_ex_iff parent_team_def acyclic_def\<close>)
qed

theorem requests_keep_hierarchy_witness:
  "system_ok (tables (serve_system_all (\<lambda>_. ''id'') (\<lambda>_. True) []
     [DeleteTeam_Request 1 12 ''did:b'', Organization_Request (Remove_Request 1 ''did:b'' ''did:b'')]
     example_team_world))"
  using requests_keep_hierarchy [OF example_system_ok] by blast

text \<open>
  C5. Deleting a team succeeds only for a live team of the organization, and deletes
  exactly the teams of the hierarchy at and below it: every other row is as it was.
\<close>

theorem deletion_takes_the_subtree:
  assumes "teams_ok (tables w)"
    and "team_Delete (team_services uuid_text request) oid tid actor w = (Inr u, w')"
  shows "(\<exists>r \<in> set (organization_teams (tables w)). te_id r = tid \<and> te_org r = oid \<and> live_team r)
    \<and> (\<exists>at. organization_teams (tables w') =
         update_where (\<lambda>r. te_id r \<in> subtree (tables w) tid) (mark_deleted at) (organization_teams (tables w)))"
proof -
  from assms(2) obtain at w1 w2 n
    where w1: "tables w1 = tables w" and
      delete: "pg_DeleteTeam oid tid at w1 = (Inr n, w2)" and n: "n \<noteq> 0" and
      audit: "team_audit (team_services uuid_text request) oid actor ''team.delete'' ''team'' (uuid_text tid)
        [(''deleted_team_count'', JInt n)] w2 = (Inr u, w')"
    by (auto simp: team_Delete_def op_ok dest!: step_tables)
  have "organization_teams (tables w') = organization_teams (tables w2)"
    using team_audit_tables [OF audit] by auto
  moreover have "sql_DeleteOrganizationTeamHierarchy oid tid at (tables w) = Inr (n, tables w2)"
    using delete w1 by (auto simp: pg_DeleteTeam_def dest!: pg_query_ok)
  ultimately show ?thesis
    using deleted_hierarchy [OF assms(1), of oid tid at n "tables w2"] n by auto
qed

definition example_teams_service :: "org_world team_service" where
  "example_teams_service = team_services (\<lambda>_. ''id'') []"

theorem deletion_takes_the_subtree_witness:
  "\<exists>at. organization_teams (tables (snd (team_Delete example_teams_service 1 12 ''did:b'' example_team_world))) =
     update_where (\<lambda>r. te_id r \<in> subtree (tables example_team_world) 12) (mark_deleted at)
       (organization_teams (tables example_team_world))"
proof -
  have "fst (team_Delete example_teams_service 1 12 ''did:b'' example_team_world) = Inr ()"
    by code_simp
  then have "team_Delete example_teams_service 1 12 ''did:b'' example_team_world
      = (Inr (), snd (team_Delete example_teams_service 1 12 ''did:b'' example_team_world))"
    by (metis prod.collapse)
  from deletion_takes_the_subtree [OF example_teams_ok this [unfolded example_teams_service_def]]
  show ?thesis by (auto simp: example_teams_service_def)
qed

section \<open>Who may change what\<close>

definition maintainer_row :: "uuid \<Rightarrow> did \<Rightarrow> org_tables \<Rightarrow> bool" where
  "maintainer_row tid d t \<longleftrightarrow>
     (\<exists>m \<in> set (organization_team_members t). tm_key m = (tid, d) \<and> tm_Role m = TeamRoleMaintainer)"

lemma frames_written_team_reads:
  "frames written (pg_GetTeam oid tid)" "frames written (pg_GetTeamMember tid d)"
  unfolding pg_GetTeam_def pg_GetTeamMember_def team_read_defs by (rule frames_written_read)+

lemma pg_GetTeamMember_row:
  "pg_GetTeamMember tid d w = (Inr m, w') \<Longrightarrow> tm_Role m = TeamRoleMaintainer \<Longrightarrow> maintainer_row tid d (tables w)"
  by (auto simp: pg_GetTeamMember_def sql_GetOrganizationTeamMember_def one_row_def maintainer_row_def
      dest!: pg_query_ok find_Some_in split: option.splits)

interpretation team_access: team_gate "team_services uuid_text request" written
    "\<lambda>v oid d. owner_of (fst v) oid d" "\<lambda>v tid d. maintainer_row tid d (fst v)"
  for uuid_text request
  by unfold_locales
     (auto simp: frames_written_reads frames_written_team_reads written_def
       dest: pg_GetOwner_owner pg_GetTeamMember_row)

text \<open>
  C4. A team changes only at the hands of an owner of its organization or of one of its
  maintainers, and only an owner creates one: for anyone else every method that writes
  returns an error and leaves the tables as they were.
\<close>

theorem only_maintainers_change_teams:
  assumes "\<not> owner_of (tables w) oid d" and "\<not> maintainer_row tid d (tables w)"
  shows "refused written (team_Update (team_services uuid_text request)
        (u\<lparr>uti_OrganizationID := oid, uti_TeamID := tid, uti_ActorDID := d\<rparr>)) w
    \<and> refused written (team_Delete (team_services uuid_text request) oid tid d) w
    \<and> refused written (team_PutMember (team_services uuid_text request) oid tid d m role) w
    \<and> refused written (team_RemoveMember (team_services uuid_text request) oid tid d m) w
    \<and> refused written (team_PutRepository (team_services uuid_text request) oid tid d rid repository_role) w
    \<and> refused written (team_RemoveRepository (team_services uuid_text request) oid tid d rid) w
    \<and> refused written (team_Create (team_services uuid_text request)
        (c\<lparr>cti_OrganizationID := oid, cti_ActorDID := d\<rparr>)) w"
  using assms
  by (intro conjI; auto intro!: team_access.changes_refused team_access.Create_refused simp: written_def)

theorem only_maintainers_change_teams_witness:
  "refused written (team_Delete example_teams_service 1 11 ''did:b'') example_team_world"
  unfolding example_teams_service_def
  using only_maintainers_change_teams [of example_team_world 1 "''did:b''" 11]
  by (simp add: owner_of_def owner_row_def maintainer_row_def team_example_defs)

lemma in_closure: "tid \<in> set (team_lineage (Some oid) t d) \<Longrightarrow> tid \<in> set (team_lineage None t d)"
proof -
  have "step_rel (parent_teams (Some oid) t) \<subseteq> step_rel (parent_teams None t)"
    by (auto simp: step_rel_def parent_teams_def scoped_def)
  then have "(step_rel (parent_teams (Some oid) t))\<^sup>* \<subseteq> (step_rel (parent_teams None t))\<^sup>*"
    by (rule rtrancl_mono)
  moreover have "set (own_teams (Some oid) t d) \<subseteq> set (own_teams None t d)"
    by (auto simp: own_teams_def scoped_def)
  ultimately show "tid \<in> set (team_lineage (Some oid) t d) \<Longrightarrow> tid \<in> set (team_lineage None t d)"
    unfolding team_lineage_iff by blast
qed

definition repository_admin :: "org_tables \<Rightarrow> uuid \<Rightarrow> uuid \<Rightarrow> did \<Rightarrow> bool" where
  "repository_admin t oid rid d = (case sql_CanAdminOrganizationRepository oid rid d t of
     Inr (b, _) \<Rightarrow> b | Inl _ \<Rightarrow> False)"

text \<open>Whoever the query lets administer a repository has the effective role of an administrator.\<close>

lemma repository_admin_effective:
  assumes "access_keys t" and "repository_admin t oid rid d"
  shows "\<exists>row \<in> set (repositories t). rr_id row = rid \<and> live_repo row
    \<and> repo_OrganizationID (rr_repo row) = Some oid \<and> effective_role t d (rr_repo row) = RepositoryRoleAdmin"
proof -
  from assms(2) obtain row where row: "row \<in> set (repositories t)" "rr_id row = rid" "live_repo row"
      "repo_OrganizationID (rr_repo row) = Some oid"
    and grants: "owner_grant t d (rr_repo row) \<or> collaborator_grant [RepositoryRoleAdmin] t d (rr_repo row)
      \<or> team_grant [RepositoryRoleAdmin] (Some oid) t d (rr_repo row)"
    by (auto simp: repository_admin_def sql_CanAdminOrganizationRepository_def exists_repository_def list_ex_iff)
  have "team_grant roles (Some oid) t d r \<Longrightarrow> team_grant roles None t d r" for roles r
    by (auto simp: team_grant_def list_ex_iff dest: in_closure)
  with grants have "5 \<le> rank (effective_role t d (rr_repo row))"
    using grants_rank [OF _ _ _ query_roles(4) query_bases(4), of t d "rr_repo row"] assms(1)
    by (auto simp: access_keys_def)
  with row show ?thesis using query_roles(4) by (metis empty_iff list.set set_ConsD)
qed

lemma frames_admin_check: "frames written (pg_CanAdminOrganizationRepository oid rid d)"
  by (auto simp: frames_def written_def pg_CanAdminOrganizationRepository_def pg_query_def call_apply ret_apply
      pg_exec_def Let_def sql_CanAdminOrganizationRepository_def exists_repository_def
      split: sum.splits prod.splits)

lemma admin_check_admin:
  "pg_CanAdminOrganizationRepository oid rid d w = (Inr b, w') \<Longrightarrow> b = repository_admin (tables w) oid rid d"
  by (auto simp: pg_CanAdminOrganizationRepository_def repository_admin_def dest!: pg_query_ok)

interpretation collaborator_access: collaborator_gate "collaborator_services uuid_text canonical request" written
    "\<lambda>v. repository_admin (fst v)"
  for uuid_text canonical request
  by unfold_locales
     (auto simp: frames_admin_check written_def dest: admin_check_admin)

text \<open>
  Only an account whose effective role on a live repository of the organization is
  administrator lists, adds or removes its collaborators: for anyone else each method
  returns an error and nothing is written.
\<close>

theorem only_admins_manage_collaborators:
  assumes "access_keys (tables w)"
    and "\<And>row. row \<in> set (repositories (tables w)) \<Longrightarrow> rr_id row = rid \<Longrightarrow> live_repo row \<Longrightarrow>
      repo_OrganizationID (rr_repo row) = Some oid \<Longrightarrow>
      effective_role (tables w) d (rr_repo row) \<noteq> RepositoryRoleAdmin"
  shows "refused written (col_List (collaborator_services uuid_text canonical request) oid rid d after n) w
    \<and> refused written (col_Put (collaborator_services uuid_text canonical request) oid rid d m role) w
    \<and> refused written (col_Remove (collaborator_services uuid_text canonical request) oid rid d m) w"
proof -
  have "\<not> repository_admin (fst (written w)) oid rid d"
    using repository_admin_effective [OF assms(1)] assms(2) by (auto simp: written_def)
  then show ?thesis by (blast intro: collaborator_access.methods_refused)
qed

lemma example_access_keys: "access_keys (tables example_team_world)"
  by (simp add: access_keys_def team_example_defs)

lemma example_effective_role:
  "effective_role (tables example_team_world) ''did:b'' example_repository = RepositoryRoleWrite"
  by code_simp

theorem only_admins_manage_collaborators_witness:
  "refused written (col_Put (collaborator_services (\<lambda>_. ''id'') (\<lambda>_. True) []) 1 21 ''did:b'' ''did:b''
     RepositoryRoleAdmin) example_team_world"
proof -
  have "effective_role (tables example_team_world) ''did:b'' (rr_repo row) \<noteq> RepositoryRoleAdmin"
    if "row \<in> set (repositories (tables example_team_world))" for row
  proof -
    have "rr_repo row = example_repository"
      using that by (simp add: example_team_world_def example_team_tables_def)
    then show ?thesis by (simp add: example_effective_role)
  qed
  then show ?thesis
    using only_admins_manage_collaborators [OF example_access_keys] by blast
qed

section \<open>Access\<close>

lemma auth_query_answer:
  "q (tables w) = Inr (B, t) \<Longrightarrow> auth_query msg q w = (Inr b, w') \<Longrightarrow> b = B"
  by (auto simp: auth_query_def op_ok dest!: pg_exec_tables)

text \<open>
  C3. The access checks of the authorization store are the policy of
  \<open>EffectiveRepositoryRole\<close>: when they answer, a live repository may be read, triaged, written and administered
  exactly by the account that owns it outright and by those whose effective role has at
  least rank 1, 2, 3 and 5; a public one is readable by all.
\<close>

theorem access_checks_are_the_policy:
  assumes "access_keys (tables w)" and "row \<in> set (repositories (tables w))" and "live_repo row"
  shows "(CanReadRepository d (rr_id row) w = (Inr b, w') \<longrightarrow>
        b = (repo_Visibility (rr_repo row) = Repo_Public \<or> account_owner d (rr_repo row)
             \<or> rank RepositoryRoleRead \<le> rank (effective_role (tables w) d (rr_repo row))))
    \<and> (CanTriageRepository d (rr_id row) w = (Inr b, w') \<longrightarrow>
        b = (account_owner d (rr_repo row)
             \<or> rank RepositoryRoleTriage \<le> rank (effective_role (tables w) d (rr_repo row))))
    \<and> (CanWriteRepository d (rr_id row) w = (Inr b, w') \<longrightarrow>
        b = (account_owner d (rr_repo row)
             \<or> rank RepositoryRoleWrite \<le> rank (effective_role (tables w) d (rr_repo row))))
    \<and> (CanAdminRepository d (rr_id row) w = (Inr b, w') \<longrightarrow>
        b = (account_owner d (rr_repo row)
             \<or> effective_role (tables w) d (rr_repo row) = RepositoryRoleAdmin))"
proof -
  note as_rank = access_as_rank [OF assms, of d]
  have admin: "effective_role (tables w) d (rr_repo row) = RepositoryRoleAdmin
      \<longleftrightarrow> 5 \<le> rank (effective_role (tables w) d (rr_repo row))"
    using query_admin_roles by (metis empty_iff list.set list.set_intros(1) set_ConsD)
  show ?thesis
    unfolding CanReadRepository_def CanTriageRepository_def CanWriteRepository_def CanAdminRepository_def admin
      rank_simps
    by (intro conjI impI; erule auth_query_answer [rotated]; rule as_rank)
qed

theorem access_checks_are_the_policy_witness:
  "fst (CanWriteRepository ''did:b'' 21 example_team_world) = Inr True
   \<and> rank RepositoryRoleWrite \<le> rank (effective_role (tables example_team_world) ''did:b'' example_repository)"
proof -
  let ?row = "\<lparr>rr_repo = example_repository, rr_deleted_at = None\<rparr>"
  have run: "fst (CanWriteRepository ''did:b'' 21 example_team_world) = Inr True" by code_simp
  then have "CanWriteRepository ''did:b'' (rr_id ?row) example_team_world
      = (Inr True, snd (CanWriteRepository ''did:b'' 21 example_team_world))"
    by (simp add: example_repository_def prod_eq_iff)
  moreover have "?row \<in> set (repositories (tables example_team_world))" "live_repo ?row"
    "\<not> account_owner ''did:b'' example_repository"
    by (simp_all add: team_example_defs account_owner_def)
  ultimately show ?thesis
    using access_checks_are_the_policy [OF example_access_keys, of ?row "''did:b''"] run by auto
qed

section \<open>Assignments\<close>

definition team_of :: "org_tables \<Rightarrow> uuid \<Rightarrow> uuid \<Rightarrow> bool" where
  "team_of t oid tid \<longleftrightarrow> (\<exists>r \<in> set (organization_teams t). te_id r = tid \<and> te_org r = oid \<and> live_team r)"

lemma AddTeamMember_member:
  assumes "teams_ok t" and "team_of t oid tid" and "sql_AddOrganizationTeamMember tid d role now t = Inr (m, t')"
  shows "tm_Role m = role \<and> (\<exists>x \<in> set (organization_members t). member_key x = (oid, d))"
proof -
  from assms(3) obtain s x where s: "s \<in> set (organization_teams t)" "te_id s = tid"
    and x: "x \<in> set (organization_members t)" "member_key x = (te_org s, d)"
    by (auto simp: sql_AddOrganizationTeamMember_def list_ex_iff split: if_splits)
  from assms(2) obtain r where "r \<in> set (organization_teams t)" "te_id r = tid" "te_org r = oid"
    by (auto simp: team_of_def)
  with assms(1) s have "r = s" by (auto simp: teams_ok_def intro: keyed_unique [of te_id])
  moreover have "tm_Role m = role"
    using assms(3) by (auto simp: sql_AddOrganizationTeamMember_def upsert_def split: if_splits option.splits prod.splits)
  ultimately show ?thesis using x \<open>te_org r = oid\<close> by auto
qed

lemma PutTeamRepository_repository:
  assumes "teams_ok t" and "team_of t oid tid" and "sql_PutOrganizationTeamRepository tid rid role now t = Inr (a, t')"
  shows "tr_Role a = role \<and> (\<exists>v \<in> set (repositories t). rr_id v = rid \<and> live_repo v
    \<and> repo_OrganizationID (rr_repo v) = Some oid)"
proof -
  from assms(3) obtain s v where s: "s \<in> set (organization_teams t)" "te_id s = tid"
    and v: "v \<in> set (repositories t)" "rr_id v = rid" "live_repo v" "repo_OrganizationID (rr_repo v) = Some (te_org s)"
    by (auto simp: sql_PutOrganizationTeamRepository_def list_ex_iff split: if_splits)
  from assms(2) obtain r where "r \<in> set (organization_teams t)" "te_id r = tid" "te_org r = oid"
    by (auto simp: team_of_def)
  with assms(1) s have "r = s" by (auto simp: teams_ok_def intro: keyed_unique [of te_id])
  moreover have "tr_Role a = role"
    using assms(3) by (auto simp: sql_PutOrganizationTeamRepository_def upsert_def split: if_splits option.splits prod.splits)
  ultimately show ?thesis using v \<open>te_org r = oid\<close> by auto
qed

lemma managed_team_ok:
  assumes "managed_team (team_services u q) oid tid d k w = (Inr x, w')"
  obtains v where "team_of (tables w) oid tid" and "tables v = tables w" and "k v = (Inr x, w')"
proof -
  from assms obtain r v1 v where get: "pg_GetTeam oid tid w = (Inr r, v1)"
    and auth: "authorizeMaintainer (team_services u q) oid tid d v1 = (Inr (), v)" and k: "k v = (Inr x, w')"
    by (auto simp: managed_team_def op_ok)
  from pg_GetTeam_live [OF get] have "team_of (tables w) oid tid" by (simp add: team_of_def)
  moreover have "tables v = tables w"
    using pg_GetTeam_tables [OF get] authorizeMaintainer_tables [OF auth] by simp
  ultimately show ?thesis using k by (rule that)
qed

text \<open>
  What is assigned to a team belongs to its organization: a member that was added is
  a member of the organization, a repository that was added is a live repository of it,
  and the team was a live team of it.
\<close>

theorem assignments_stay_inside_the_organization:
  assumes "teams_ok (tables w)"
  shows "(team_PutMember (team_services uuid_text request) oid tid actor d role w = (Inr m, w') \<longrightarrow>
        team_of (tables w) oid tid \<and> tm_Role m = role \<and> role \<in> {TeamRoleMember, TeamRoleMaintainer}
        \<and> (\<exists>x \<in> set (organization_members (tables w)). member_key x = (oid, d)))
    \<and> (team_PutRepository (team_services uuid_text request) oid tid actor rid repository_role w = (Inr a, w') \<longrightarrow>
        team_of (tables w) oid tid \<and> tr_Role a = repository_role
        \<and> (\<exists>v \<in> set (repositories (tables w)). rr_id v = rid \<and> live_repo v
             \<and> repo_OrganizationID (rr_repo v) = Some oid))"
proof (intro conjI impI)
  assume put: "team_PutMember (team_services uuid_text request) oid tid actor d role w = (Inr m, w')"
  then obtain v where team: "team_of (tables w) oid tid" and v: "tables v = tables w"
    and run: "with_now world_clock (\<lambda>now. call (pg_AddTeamMember tid d role now) (wrapf ''add team member'') (\<lambda>m.
      call (team_audit (team_services uuid_text request) oid actor ''team.member.put'' ''member'' d
        [(''team_id'', JString (uuid_text tid)), (''role'', JString (team_role_text role))]) (\<lambda>e. e) (\<lambda>_.
      ret m))) v = (Inr m, w')"
    by (auto simp: team_PutMember_def fail_if_ok elim!: managed_team_ok)
  from run v obtain now t' where add: "sql_AddOrganizationTeamMember tid d role now (tables w) = Inr (m, t')"
    by (auto simp: op_ok pg_AddTeamMember_def dest!: pg_query_ok world_clock_tables)
  show "team_of (tables w) oid tid" by (fact team)
  show "role \<in> {TeamRoleMember, TeamRoleMaintainer}" using put by (auto simp: team_PutMember_def fail_if_ok)
  show "tm_Role m = role" "\<exists>x \<in> set (organization_members (tables w)). member_key x = (oid, d)"
    using AddTeamMember_member [OF assms team add] by auto
next
  assume "team_PutRepository (team_services uuid_text request) oid tid actor rid repository_role w = (Inr a, w')"
  then obtain v where team: "team_of (tables w) oid tid" and v: "tables v = tables w"
    and run: "with_now world_clock (\<lambda>now. call (pg_PutTeamRepository tid rid repository_role now)
        (wrapf ''put team repository'') (\<lambda>value.
      call (team_audit (team_services uuid_text request) oid actor ''team.repository.put'' ''repository''
        (uuid_text rid) [(''team_id'', JString (uuid_text tid)),
          (''role'', JString (repository_role_text repository_role))]) (\<lambda>e. e) (\<lambda>_.
      ret value))) v = (Inr a, w')"
    by (auto simp: team_PutRepository_def check_ok elim!: managed_team_ok)
  from run v obtain now t' row
    where put: "sql_PutOrganizationTeamRepository tid rid repository_role now (tables w) = Inr (row, t')"
      and a: "tr_Role a = tr_Role row"
    by (auto simp: op_ok pg_PutTeamRepository_def dest!: pg_query_ok world_clock_tables)
  show "team_of (tables w) oid tid" by (fact team)
  show "tr_Role a = repository_role"
    "\<exists>v \<in> set (repositories (tables w)). rr_id v = rid \<and> live_repo v \<and> repo_OrganizationID (rr_repo v) = Some oid"
    using PutTeamRepository_repository [OF assms team put] a by auto
qed

theorem assignments_stay_inside_the_organization_witness:
  "case team_PutMember example_teams_service 1 12 ''did:b'' ''did:a'' TeamRoleMember example_team_world of
     (Inr m, _) \<Rightarrow> tm_Role m = TeamRoleMember
       \<and> (\<exists>x \<in> set (organization_members (tables example_team_world)). member_key x = (1, ''did:a''))
   | (Inl _, _) \<Rightarrow> False"
proof -
  let ?put = "team_PutMember example_teams_service 1 12 ''did:b'' ''did:a'' TeamRoleMember example_team_world"
  have "case fst ?put of Inr _ \<Rightarrow> True | Inl _ \<Rightarrow> False" by code_simp
  then obtain m w' where r: "?put = (Inr m, w')" by (cases ?put) (auto split: sum.splits)
  from assignments_stay_inside_the_organization [OF example_teams_ok] r show ?thesis
    by (auto simp: example_teams_service_def)
qed

section \<open>Leaving an organization does not leave its teams\<close>

text \<open>
  C20. Removing a member from an organization leaves everything the teams grant: the
  removed account keeps its team memberships, the role they give on every repository, and
  its rights as a maintainer.
\<close>

theorem removal_keeps_team_access:
  fixes uuid_text canonical request oid actor d w
  defines "t' \<equiv> tables (snd (Remove (service uuid_text canonical request) oid actor d w))"
  shows "team_roles_of t' account r = team_roles_of (tables w) account r
    \<and> team_grant roles None t' account r = team_grant roles None (tables w) account r
    \<and> maintainer_row tid account t' = maintainer_row tid account (tables w)"
proof -
  have "keeps (on_tables (\<lambda>t. team_tables t = team_tables (tables w)))
      (Remove (service uuid_text canonical request) oid actor d)"
    by (rule organizations_team_tables.Remove_keeps)
  then have "team_tables t' = team_tables (tables w)"
    unfolding t'_def by (auto dest: keepsD)
  then have same: "organization_teams t' = organization_teams (tables w)"
    "organization_team_members t' = organization_team_members (tables w)"
    "organization_team_repositories t' = organization_team_repositories (tables w)"
    by (simp_all add: team_tables_def)
  then have "team_lineage None t' account = team_lineage None (tables w) account"
    by (simp add: team_lineage_def own_teams_def parent_teams_def [abs_def])
  with same show ?thesis
    by (simp add: team_roles_of_def team_grant_def maintainer_row_def)
qed

text \<open>
  So an account that was removed still writes to the repositories of its teams: here
  \<open>did:b\<close> leaves the organization and the check still answers yes.
\<close>

lemma removed_member_still_writes:
  "let w' = snd (Remove example_service 1 ''did:a'' ''did:b'' example_team_world)
   in fst (Remove example_service 1 ''did:a'' ''did:b'' example_team_world) = Inr ()
    \<and> find (\<lambda>m. member_key m = (1, ''did:b'')) (organization_members (tables w')) = None
    \<and> fst (CanWriteRepository ''did:b'' 21 w') = Inr True"
  by code_simp

end
