(* ===== verification/Storage.thy ===== *)
theory Storage imports Effects "HOL-Library.Sublist" begin

text \<open>
  \<^verbatim>\<open>internal/storage/filesystem.go\<close>: where the bare repositories live on disk.

  A cleaned absolute path is the list of its components, so that \<open>filepath.Join\<close> appends
  and \<open>filepath.Rel\<close> strips a prefix. A disk maps paths to directories or other entries;
  what the files of a repository hold is the content of its directory. Every call of
  \<^verbatim>\<open>os\<close>, and the check of the context, takes the next entry of a script of faults; a call
  that fails changes nothing, except that a failing \<open>RemoveAll\<close> may have removed what is
  beneath the path. \<open>uuid.UUID.String\<close> is a parameter.
\<close>

type_synonym path = "string list"

datatype node = Directory string | Other_Entry

record disk_state =
  entries :: "path \<Rightarrow> node option"
  disk_faults :: "bool list"

abbreviation not_exist :: err where "not_exist \<equiv> Sentinel os_ErrNotExist"
abbreviation io_error :: err where "io_error \<equiv> Opaque ''disk''"

definition os_IsNotExist :: "err \<Rightarrow> bool" where
  "os_IsNotExist e \<longleftrightarrow> e = not_exist"

section \<open>The calls of the operating system\<close>

definition faulty :: "(disk_state, 'a) op \<Rightarrow> (disk_state, 'a) op \<Rightarrow> (disk_state, 'a) op" where
  "faulty failing m d =
     (let d' = d\<lparr>disk_faults := tl (disk_faults d)\<rparr>
      in if disk_faults d \<noteq> [] \<and> hd (disk_faults d) then failing d' else m d')"

definition ctx_Err :: "(disk_state, unit) op" where
  "ctx_Err = faulty (raise (Opaque ''context canceled'')) (ret ())"

definition os_Lstat :: "path \<Rightarrow> (disk_state, node) op" where
  "os_Lstat p = faulty (raise io_error)
     (\<lambda>d. (case entries d p of None \<Rightarrow> Inl not_exist | Some n \<Rightarrow> Inr n, d))"

definition os_MkdirAll :: "path \<Rightarrow> (disk_state, unit) op" where
  "os_MkdirAll p = faulty (raise io_error)
     (\<lambda>d. if list_ex (\<lambda>q. entries d q = Some Other_Entry) (prefixes p) then (Inl io_error, d)
          else (Inr (), d\<lparr>entries := (\<lambda>q. if prefix q p \<and> entries d q = None then Some (Directory [])
                                         else entries d q)\<rparr>))"

text \<open>\<open>Rename\<close> of a directory with everything beneath it, to a path that is not taken.\<close>

definition moved :: "path \<Rightarrow> path \<Rightarrow> (path \<Rightarrow> node option) \<Rightarrow> path \<Rightarrow> node option" where
  "moved a b f q =
     (if prefix b q then f (a @ drop (length b) q) else if prefix a q then None else f q)"

definition os_Rename :: "path \<Rightarrow> path \<Rightarrow> (disk_state, unit) op" where
  "os_Rename a b = faulty (raise io_error)
     (\<lambda>d. if entries d a = None then (Inl not_exist, d)
          else if entries d b \<noteq> None \<or> prefix a b
             \<or> (case entries d (butlast b) of Some (Directory _) \<Rightarrow> False | _ \<Rightarrow> True)
          then (Inl io_error, d)
          else (Inr (), d\<lparr>entries := moved a b (entries d)\<rparr>))"

definition os_RemoveAll :: "path \<Rightarrow> (disk_state, unit) op" where
  "os_RemoveAll p = faulty
     (\<lambda>d. (Inl io_error, d\<lparr>entries := (\<lambda>q. if strict_prefix p q then None else entries d q)\<rparr>))
     (\<lambda>d. (Inr (), d\<lparr>entries := (\<lambda>q. if prefix p q then None else entries d q)\<rparr>))"

section \<open>The storage\<close>

record filesystem =
  fs_root :: path
  fs_uuid_string :: "uuid \<Rightarrow> string"

definition compact :: "string \<Rightarrow> string" where
  "compact s = filter (\<lambda>c. c \<noteq> CHR ''-'') s"

definition sharded :: "string \<Rightarrow> path" where
  "sharded s = [take 2 (compact s), take 2 (drop 2 (compact s)), s @ ''.git'']"

definition fs_Path :: "filesystem \<Rightarrow> uuid \<Rightarrow> (disk_state, path) op" where
  "fs_Path F rid =
     call ctx_Err (\<lambda>e. e) (\<lambda>_.
     (let s = fs_uuid_string F rid
      in fail_if (length (compact s) \<noteq> 32) (errorf ''invalid repository ID'') (
         ret (fs_root F @ sharded s))))"

definition fs_Prepare :: "filesystem \<Rightarrow> uuid \<Rightarrow> (disk_state, path) op" where
  "fs_Prepare F rid =
     call (fs_Path F rid) (\<lambda>e. e) (\<lambda>p.
     call (os_MkdirAll (butlast p)) (wrapf ''create repository shard'') (\<lambda>_.
     ret p))"

definition is_directory :: "node \<Rightarrow> bool" where
  "is_directory n = (case n of Directory _ \<Rightarrow> True | Other_Entry \<Rightarrow> False)"

definition fs_Exists :: "filesystem \<Rightarrow> uuid \<Rightarrow> (disk_state, bool) op" where
  "fs_Exists F rid =
     call (fs_Path F rid) (\<lambda>e. e) (\<lambda>p.
     attempt (os_Lstat p)
       (\<lambda>e. if os_IsNotExist e then ret False else raise (wrapf ''inspect repository path'' e))
       (\<lambda>n. fail_if (\<not> is_directory n) (errorf ''repository path is not a directory'') (ret True)))"

definition requireDirectory :: "path \<Rightarrow> (disk_state, unit) op" where
  "requireDirectory p =
     call (os_Lstat p) (\<lambda>e. e) (\<lambda>n.
     fail_if (\<not> is_directory n) (errorf ''path is not a physical directory'') (ret ()))"

text \<open>\<open>filepath.Rel\<close> gives a path that stays beneath the root exactly for what extends the root.\<close>

definition escapes :: "path \<Rightarrow> path \<Rightarrow> bool" where
  "escapes root candidate \<longleftrightarrow> \<not> strict_prefix root candidate"

definition lifecyclePaths :: "filesystem \<Rightarrow> uuid \<Rightarrow> (disk_state, path \<times> path) op" where
  "lifecyclePaths F rid =
     call (fs_Path F rid) (\<lambda>e. e) (\<lambda>live.
     (let quarantined = fs_root F @ ''.quarantine'' # sharded (fs_uuid_string F rid)
      in fail_if (escapes (fs_root F) live \<or> escapes (fs_root F) quarantined)
           (errorf ''repository lifecycle path escapes storage root'') (
         ret (live, quarantined))))"

text \<open>
  \<open>if _, err := os.Lstat(p); err == nil { taken } else if !os.IsNotExist(err) { inspect }\<close>
\<close>

definition require_absent :: "path \<Rightarrow> string \<Rightarrow> string \<Rightarrow> (disk_state, 'a) op \<Rightarrow> (disk_state, 'a) op" where
  "require_absent p taken inspect k =
     attempt (os_Lstat p)
       (\<lambda>e. fail_if (\<not> os_IsNotExist e) (wrapf inspect e) k)
       (\<lambda>_. raise (errorf taken))"

definition fs_Quarantine :: "filesystem \<Rightarrow> uuid \<Rightarrow> (disk_state, unit) op" where
  "fs_Quarantine F rid =
     call (lifecyclePaths F rid) (\<lambda>e. e) (\<lambda>(live, quarantined).
     call (requireDirectory live) (wrapf ''inspect live repository'') (\<lambda>_.
     require_absent quarantined ''quarantine repository target already exists'' ''inspect quarantine target'' (
     call (os_MkdirAll (butlast quarantined)) (wrapf ''create quarantine shard'') (\<lambda>_.
     call (os_Rename live quarantined) (wrapf ''move repository to quarantine'') ret))))"

definition fs_Restore :: "filesystem \<Rightarrow> uuid \<Rightarrow> (disk_state, unit) op" where
  "fs_Restore F rid =
     call (lifecyclePaths F rid) (\<lambda>e. e) (\<lambda>(live, quarantined).
     call (requireDirectory quarantined) (wrapf ''inspect quarantined repository'') (\<lambda>_.
     require_absent live ''live repository target already exists'' ''inspect live repository target'' (
     call (os_MkdirAll (butlast live)) (wrapf ''create live repository shard'') (\<lambda>_.
     call (os_Rename quarantined live) (wrapf ''restore repository from quarantine'') ret))))"

definition fs_Purge :: "filesystem \<Rightarrow> uuid \<Rightarrow> (disk_state, unit) op" where
  "fs_Purge F rid =
     call (lifecyclePaths F rid) (\<lambda>e. e) (\<lambda>(_, quarantined).
     attempt (requireDirectory quarantined)
       (\<lambda>e. if os_IsNotExist e then ret () else raise (wrapf ''inspect quarantined repository'' e)) (\<lambda>_.
     call (os_RemoveAll quarantined) (wrapf ''purge quarantined repository'') ret))"

section \<open>Paths of different repositories are apart\<close>

text \<open>The documented form of \<open>uuid.UUID.String\<close>: 32 digits beside the hyphens, different for different ids.\<close>

definition uuid_text_ok :: "(uuid \<Rightarrow> string) \<Rightarrow> bool" where
  "uuid_text_ok f \<longleftrightarrow> inj f \<and> (\<forall>u. length (compact (f u)) = 32 \<and> CHR ''.'' \<notin> set (f u))"

definition live_path :: "filesystem \<Rightarrow> uuid \<Rightarrow> path" where
  "live_path F rid = fs_root F @ sharded (fs_uuid_string F rid)"

definition quarantine_path :: "filesystem \<Rightarrow> uuid \<Rightarrow> path" where
  "quarantine_path F rid = fs_root F @ ''.quarantine'' # sharded (fs_uuid_string F rid)"

lemma length_sharded [simp]: "length (sharded s) = 3"
  by (simp add: sharded_def)

lemma sharded_inj: "sharded s = sharded s' \<Longrightarrow> s = s'"
  by (simp add: sharded_def)

lemma live_paths_apart:
  assumes "uuid_text_ok (fs_uuid_string F)" and "rid \<noteq> rid'"
  shows "\<not> prefix (live_path F rid) (live_path F rid')"
    and "\<not> prefix (quarantine_path F rid) (quarantine_path F rid')"
proof -
  have "fs_uuid_string F rid \<noteq> fs_uuid_string F rid'"
    using assms by (auto simp: uuid_text_ok_def dest: injD)
  then have "sharded (fs_uuid_string F rid) \<noteq> sharded (fs_uuid_string F rid')"
    by (auto dest: sharded_inj)
  moreover have "prefix xs ys \<longleftrightarrow> xs = ys" if "length xs = length ys" for xs ys :: path
    using that by (auto simp: prefix_def)
  ultimately show "\<not> prefix (live_path F rid) (live_path F rid')"
    and "\<not> prefix (quarantine_path F rid) (quarantine_path F rid')"
    by (simp_all add: live_path_def quarantine_path_def)
qed

text \<open>A shard is two digits, so no live path runs into the quarantine.\<close>

lemma namespaces_apart:
  "\<not> prefix (live_path F rid) (quarantine_path F rid')" "\<not> prefix (quarantine_path F rid') (live_path F rid)"
  by (auto simp: live_path_def quarantine_path_def sharded_def dest: arg_cong [where f = length])

end
