(* ===== verification/Repo_Tables.thy ===== *)
theory Repo_Tables imports Access_Tables begin

text \<open>
  The statements of \<^verbatim>\<open>internal/database/queries/repositories.sql\<close> on repositories, their
  aliases and their deletions. Where a query may match several rows and gives the first
  without an order, \<open>pick\<close> is the row the database happens to give.
\<close>

section \<open>Rows\<close>

abbreviation rr_slug :: "repo_row \<Rightarrow> string" where "rr_slug r \<equiv> repo_Slug (rr_repo r)"
abbreviation rr_org :: "repo_row \<Rightarrow> uuid option" where "rr_org r \<equiv> repo_OrganizationID (rr_repo r)"
abbreviation rr_state :: "repo_row \<Rightarrow> repo_state" where "rr_state r \<equiv> repo_State (rr_repo r)"
abbreviation dr_id :: "deletion_row \<Rightarrow> uuid" where "dr_id d \<equiv> del_ID (dr_deletion d)"
abbreviation dr_repository :: "deletion_row \<Rightarrow> uuid" where "dr_repository d \<equiv> del_RepositoryID (dr_deletion d)"
abbreviation dr_due :: "deletion_row \<Rightarrow> instant" where "dr_due d \<equiv> del_PurgeAfter (dr_deletion d)"
abbreviation open_deletion :: "deletion_row \<Rightarrow> bool" where
  "open_deletion d \<equiv> dr_restored_at d = None \<and> dr_purged_at d = None"
abbreviation ra_key :: "repo_alias \<Rightarrow> string \<times> string" where
  "ra_key a \<equiv> (lower (ra_OwnerAlias a), lower (ra_SlugAlias a))"

text \<open>The columns a row keeps of a fork source: both halves of the strong reference, or nothing.\<close>

definition fork_columns :: "fork_source option \<Rightarrow> fork_source option" where
  "fork_columns s =
     (case s of None \<Rightarrow> None
      | Some f \<Rightarrow> if fork_URI f = [] then None else Some (f\<lparr>fork_GitHTTPS := []\<rparr>))"

definition repository_checks :: "repository \<Rightarrow> bool" where
  "repository_checks r \<longleftrightarrow>
     repoSlugPattern (repo_Slug r) \<and> (repo_Visibility r = Repo_Public \<or> repo_Visibility r = Repo_Private)"

text \<open>
  The unique index a live repository's slug is in: of its organization, or of its owner
  where it belongs to no organization.
\<close>

definition slug_key :: "repository \<Rightarrow> (did + uuid) \<times> string" where
  "slug_key r = ((case repo_OrganizationID r of None \<Rightarrow> Inl (repo_OwnerDID r) | Some oid \<Rightarrow> Inr oid), lower (repo_Slug r))"

section \<open>Creation and state\<close>

definition sql_CreateRepository :: "repository \<Rightarrow> repository sql" where
  "sql_CreateRepository value t =
     (let row = value\<lparr>repo_OrganizationSlug := [], repo_ForkedFrom := fork_columns (repo_ForkedFrom value),
                      repo_TransferredFrom := None, repo_ForkCount := 0, repo_ViewerCanAdmin := False,
                      repo_ArchivedAt := None\<rparr>
      in if \<not> repository_checks row
            \<or> (case repo_ForkedFrom value of None \<Rightarrow> False
               | Some f \<Rightarrow> (fork_URI f = []) \<noteq> (fork_CID f = [])
                   \<or> fork_LocalRepositoryID f = Some (repo_ID value))
         then Inl check_violation
         else if list_ex (\<lambda>r. rr_id r = repo_ID row \<or> repo_StorageKey (rr_repo r) = repo_StorageKey row
                  \<or> (repo_ATURI row \<noteq> [] \<and> repo_ATURI (rr_repo r) = repo_ATURI row)
                  \<or> (live_repo r \<and> slug_key (rr_repo r) = slug_key row)) (repositories t)
         then Inl unique_violation
         else if \<not> account_exists t (repo_OwnerDID row)
            \<or> (case repo_OrganizationID row of None \<Rightarrow> False
               | Some oid \<Rightarrow> \<not> list_ex (\<lambda>o'. org_key o' = oid) (organizations t))
            \<or> (case repo_ForkedFrom value of None \<Rightarrow> False
               | Some f \<Rightarrow> (case fork_LocalRepositoryID f of None \<Rightarrow> False
                             | Some i \<Rightarrow> \<not> list_ex (\<lambda>r. rr_id r = i) (repositories t)))
         then Inl foreign_key_violation
         else Inr (row, t\<lparr>repositories := repositories t @ [\<lparr>rr_repo = row, rr_deleted_at = None\<rparr>]\<rparr>))"

text \<open>\<open>UPDATE core.repositories SET f WHERE p RETURNING *\<close>, where no unique column changes.\<close>

definition update_repo :: "(repo_row \<Rightarrow> bool) \<Rightarrow> (repository \<Rightarrow> repository) \<Rightarrow> repository sql" where
  "update_repo p f t =
     (case find p (repositories t) of
        None \<Rightarrow> Inl no_rows
      | Some r \<Rightarrow> Inr (f (rr_repo r),
          t\<lparr>repositories := update_where p (\<lambda>r. r\<lparr>rr_repo := f (rr_repo r)\<rparr>) (repositories t)\<rparr>))"

definition sql_UpdateRepositoryState :: "uuid \<Rightarrow> repo_state \<Rightarrow> instant \<Rightarrow> repository sql" where
  "sql_UpdateRepositoryState rid state updated_at =
     update_repo (\<lambda>r. rr_id r = rid \<and> live_repo r)
       (\<lambda>v. v\<lparr>repo_State := state, repo_UpdatedAt := updated_at\<rparr>)"

definition sql_ActivateRepository :: "uuid \<Rightarrow> at_identity \<Rightarrow> instant \<Rightarrow> repository sql" where
  "sql_ActivateRepository rid identity updated_at t =
     (if at_URI identity \<noteq> [] \<and> list_ex (\<lambda>r. rr_id r = rid \<and> live_repo r) (repositories t)
         \<and> list_ex (\<lambda>r. rr_id r \<noteq> rid \<and> repo_ATURI (rr_repo r) = at_URI identity) (repositories t)
      then Inl unique_violation
      else update_repo (\<lambda>r. rr_id r = rid \<and> live_repo r)
             (\<lambda>v. v\<lparr>repo_State := StateActive, repo_ATURI := at_URI identity, repo_ATCID := at_CID identity,
                    repo_UpdatedAt := updated_at\<rparr>) t)"

section \<open>Settings\<close>

definition new_settings :: "settings_input \<Rightarrow> instant option \<Rightarrow> at_identity \<Rightarrow> instant \<Rightarrow> repository \<Rightarrow> repository" where
  "new_settings input archived_at identity updated_at v =
     v\<lparr>repo_Slug := set_Slug input, repo_DisplayName := set_DisplayName input,
       repo_Description := set_Description input, repo_Visibility := set_Visibility input,
       repo_DefaultBranch := set_DefaultBranch input, repo_ArchivedAt := archived_at,
       repo_ATURI := at_URI identity, repo_ATCID := at_CID identity, repo_UpdatedAt := updated_at\<rparr>"

definition sql_UpdateRepositorySettings ::
  "uuid \<Rightarrow> uuid \<Rightarrow> settings_input \<Rightarrow> instant option \<Rightarrow> at_identity \<Rightarrow> instant \<Rightarrow> repository sql" where
  "sql_UpdateRepositorySettings rid alias_id input archived_at identity updated_at t =
     (let target = (\<lambda>r. rr_id r = rid \<and> live_repo r \<and> rr_state r = StateActive)
      in case find target (repositories t) of
           None \<Rightarrow> Inl no_rows
         | Some previous \<Rightarrow>
             (let v = new_settings input archived_at identity updated_at (rr_repo previous);
                  alias = \<lparr>ra_ID = alias_id, ra_RepositoryID = rid, ra_OwnerAlias = set_OwnerAlias input,
                           ra_SlugAlias = rr_slug previous\<rparr>;
                  renamed = lower (rr_slug previous) \<noteq> lower (set_Slug input);
                  known = list_ex (\<lambda>a. ra_key a = ra_key alias) (repository_aliases t)
              in if \<not> repository_checks v then Inl check_violation
                 else if renamed \<and> \<not> known \<and> list_ex (\<lambda>a. ra_ID a = alias_id) (repository_aliases t)
                    \<or> list_ex (\<lambda>r. rr_id r \<noteq> rid \<and>
                        ((repo_ATURI v \<noteq> [] \<and> repo_ATURI (rr_repo r) = repo_ATURI v)
                         \<or> (live_repo r \<and> slug_key (rr_repo r) = slug_key v))) (repositories t)
                 then Inl unique_violation
                 else Inr (v, t\<lparr>repository_aliases :=
                               (if renamed \<and> \<not> known then repository_aliases t @ [alias]
                                else repository_aliases t),
                             repositories := update_where target
                               (\<lambda>r. r\<lparr>rr_repo := new_settings input archived_at identity updated_at (rr_repo r)\<rparr>)
                               (repositories t)\<rparr>)))"

section \<open>Routes\<close>

text \<open>The current route of a repository, and the aliases it left behind.\<close>

definition current_route :: "org_tables \<Rightarrow> string \<Rightarrow> string \<Rightarrow> repo_row \<Rightarrow> bool" where
  "current_route t owner slug r \<longleftrightarrow>
     (list_ex (\<lambda>route. lower (fst route) = lower owner
          \<and> (case snd route of Route_Account d \<Rightarrow> rr_org r = None \<and> d = repo_OwnerDID (rr_repo r)
             | Route_Organization oid \<Rightarrow> rr_org r = Some oid)) (owner_routes t)
      \<or> (rr_org r = None \<and> repo_OwnerDID (rr_repo r) = owner))
     \<and> lower (rr_slug r) = lower slug"

definition alias_route :: "org_tables \<Rightarrow> string \<Rightarrow> string \<Rightarrow> repo_row \<Rightarrow> bool" where
  "alias_route t owner slug r \<longleftrightarrow>
     list_ex (\<lambda>a. ra_RepositoryID a = rr_id r \<and> ra_key a = (lower owner, lower slug)) (repository_aliases t)"

definition sql_GetRepositoryByOwnerSlug ::
  "(repo_row list \<Rightarrow> repo_row) \<Rightarrow> string \<Rightarrow> string \<Rightarrow> repository sql" where
  "sql_GetRepositoryByOwnerSlug pick owner slug t =
     (let rows = filter (\<lambda>r. (current_route t owner slug r \<or> alias_route t owner slug r) \<and> live_repo r) (repositories t)
      in one_row (if rows = [] then None else Some (rr_repo (pick rows))) t)"

section \<open>Deletion\<close>

definition sql_RequestRepositoryDeletion :: "deletion \<Rightarrow> deletion sql" where
  "sql_RequestRepositoryDeletion d t =
     (let target = (\<lambda>r. rr_id r = del_RepositoryID d \<and> rr_state r = StateActive \<and> live_repo r)
      in if \<not> list_ex target (repositories t) then Inl no_rows
         else if del_PurgeAfter d \<le> del_RequestedAt d then Inl check_violation
         else if list_ex (\<lambda>e. dr_id e = del_ID d \<or> dr_repository e = del_RepositoryID d) (repository_deletions t)
         then Inl unique_violation
         else if \<not> account_exists t (del_RequestedByDID d) then Inl foreign_key_violation
         else Inr (d, t\<lparr>repositories := update_where target
                            (\<lambda>r. r\<lparr>rr_repo := (rr_repo r)\<lparr>repo_State := StateDeleting,
                                                       repo_UpdatedAt := del_RequestedAt d\<rparr>\<rparr>) (repositories t),
                        repository_deletions := repository_deletions t @
                            [\<lparr>dr_deletion = d, dr_restored_at = None, dr_purged_at = None\<rparr>]\<rparr>))"

definition sql_GetRepositoryDeletion :: "uuid \<Rightarrow> deletion sql" where
  "sql_GetRepositoryDeletion did t =
     one_row (map_option dr_deletion (find (\<lambda>d. dr_id d = did \<and> open_deletion d
       \<and> list_ex (\<lambda>r. rr_id r = dr_repository d) (repositories t)) (repository_deletions t))) t"

definition sql_RestoreRepositoryDeletion :: "uuid \<Rightarrow> instant \<Rightarrow> repository sql" where
  "sql_RestoreRepositoryDeletion did restored_at t =
     (let p = (\<lambda>d. dr_id d = did \<and> open_deletion d \<and> restored_at < dr_due d)
      in case find p (repository_deletions t) of
           None \<Rightarrow> Inl no_rows
         | Some d \<Rightarrow>
             update_repo (\<lambda>r. rr_id r = dr_repository d)
               (\<lambda>v. v\<lparr>repo_State := StateActive, repo_UpdatedAt := restored_at\<rparr>)
               (t\<lparr>repository_deletions :=
                    update_where p (\<lambda>d. d\<lparr>dr_restored_at := Some restored_at\<rparr>) (repository_deletions t)\<rparr>))"

definition due_order :: "deletion_row \<Rightarrow> deletion_row \<Rightarrow> bool" where
  "due_order a b \<longleftrightarrow> dr_due a < dr_due b \<or> (dr_due a = dr_due b \<and> dr_id a \<le> dr_id b)"

definition sql_ListDueRepositoryDeletions ::
  "instant \<Rightarrow> uuid option \<Rightarrow> int \<Rightarrow> org_tables \<Rightarrow> deletion list" where
  "sql_ListDueRepositoryDeletions now after_id page_limit t =
     map dr_deletion (take (nat page_limit) (sort_by due_order
       (filter (\<lambda>d. open_deletion d \<and> dr_due d \<le> now
            \<and> (case after_id of None \<Rightarrow> True
               | Some a \<Rightarrow> (case find (\<lambda>c. dr_id c = a) (repository_deletions t) of
                               None \<Rightarrow> False
                             | Some c \<Rightarrow> due_order c d \<and> (dr_due d, dr_id d) \<noteq> (dr_due c, dr_id c))))
         (repository_deletions t))))"

definition sql_MarkRepositoryPurged :: "uuid \<Rightarrow> instant \<Rightarrow> unit sql" where
  "sql_MarkRepositoryPurged did purged_at t =
     (let p = (\<lambda>d. dr_id d = did \<and> open_deletion d)
      in case find p (repository_deletions t) of
           None \<Rightarrow> Inr ((), t)
         | Some d \<Rightarrow>
             Inr ((), t\<lparr>repository_deletions :=
                          update_where p (\<lambda>d. d\<lparr>dr_purged_at := Some purged_at\<rparr>) (repository_deletions t),
                        repositories := update_where (\<lambda>r. rr_id r = dr_repository d)
                          (\<lambda>r. r\<lparr>rr_repo := (rr_repo r)\<lparr>repo_State := StateDeleted, repo_UpdatedAt := purged_at\<rparr>,
                                 rr_deleted_at := Some purged_at\<rparr>) (repositories t)\<rparr>))"

section \<open>Lists\<close>

definition newest_first :: "repository \<Rightarrow> repository \<Rightarrow> bool" where
  "newest_first a b \<longleftrightarrow>
     repo_CreatedAt a > repo_CreatedAt b \<or> (repo_CreatedAt a = repo_CreatedAt b \<and> repo_ID a \<ge> repo_ID b)"

definition sql_ListRepositoriesByOrganization :: "uuid \<Rightarrow> org_tables \<Rightarrow> repository list" where
  "sql_ListRepositoriesByOrganization oid t =
     sort_by newest_first (map rr_repo (filter (\<lambda>r. rr_org r = Some oid \<and> live_repo r) (repositories t)))"

definition sql_PageRepositoriesByOrganization ::
  "uuid \<Rightarrow> did \<Rightarrow> uuid option \<Rightarrow> int \<Rightarrow> org_tables \<Rightarrow> repository list" where
  "sql_PageRepositoriesByOrganization oid account after_id page_limit t =
     map (\<lambda>v. v\<lparr>repo_ViewerCanAdmin :=
                  owner_grant t account v \<or> collaborator_grant [RepositoryRoleAdmin] t account v
                  \<or> team_grant [RepositoryRoleAdmin] (Some oid) t account v\<rparr>)
       (take (nat page_limit) (sort_by newest_first
         (filter (\<lambda>v. case after_id of None \<Rightarrow> True
                  | Some a \<Rightarrow> (case find (\<lambda>c. rr_org c = Some oid \<and> rr_id c = a) (repositories t) of
                                  None \<Rightarrow> False
                                | Some c \<Rightarrow> newest_first (rr_repo c) v
                                     \<and> (repo_CreatedAt v, repo_ID v) \<noteq> (repo_CreatedAt (rr_repo c), rr_id c)))
           (map rr_repo (filter (\<lambda>r. rr_org r = Some oid \<and> live_repo r) (repositories t))))))"

section \<open>Fork sources\<close>

text \<open>An upstream that is known here may be read only while it is public, active and live.\<close>

definition sql_GetForkSourceByURI :: "string \<Rightarrow> fork_source sql" where
  "sql_GetForkSourceByURI uri t =
     one_row (map_option (\<lambda>n. \<lparr>fork_URI = nr_URI n, fork_CID = nr_CID n, fork_GitHTTPS = nr_GitHTTPS n,
                               fork_LocalRepositoryID = nr_LocalRepositoryID n\<rparr>)
       (find (\<lambda>n. nr_URI n = uri \<and> nr_CID n \<noteq> [] \<and> nr_deleted_at n = None
            \<and> (case nr_LocalRepositoryID n of None \<Rightarrow> True
               | Some i \<Rightarrow> list_all (\<lambda>r. rr_id r = i \<longrightarrow>
                   repo_Visibility (rr_repo r) = Repo_Public \<and> rr_state r = StateActive \<and> live_repo r)
                   (repositories t))) (network_repositories t))) t"

end
