(* ===== verification/Repo_Store.thy ===== *)
theory Repo_Store imports Repo_Tables Org_Store begin

text \<open>
  \<^verbatim>\<open>internal/repository/postgres.go\<close>: the operations of \<open>PostgresStore\<close>, and the interfaces
  of \<^verbatim>\<open>service.go\<close> and \<^verbatim>\<open>purge_worker.go\<close>. The interfaces the service asks for with a type
  assertion are options of the service's record.
\<close>

section \<open>Operations\<close>

definition repo_mapStoreError :: "err \<Rightarrow> err" where
  "repo_mapStoreError e =
     (if errors_is e pgx_ErrNoRows then Sentinel repo_ErrNotFound
      else if as_pg_error e = Some ''23505'' then Sentinel repo_ErrAlreadyExists
      else wrapf ''repository query'' e)"

definition repo_query :: "'a sql \<Rightarrow> ('x pg_world_scheme, 'a) op" where
  "repo_query q = call (pg_exec q) repo_mapStoreError ret"

definition repo_select :: "(org_tables \<Rightarrow> 'a) \<Rightarrow> ('x pg_world_scheme, 'a) op" where
  "repo_select f = pg_exec (\<lambda>t. Inr (f t, t))"

definition pg_CreateRepository :: "repository \<Rightarrow> ('x pg_world_scheme, repository) op" where
  "pg_CreateRepository value =
     call (repo_query (sql_CreateRepository value)) (\<lambda>e. e) (\<lambda>created.
     ret (created\<lparr>repo_OrganizationSlug := repo_OrganizationSlug value\<rparr>))"

definition pg_GetForkSourceByURI :: "string \<Rightarrow> ('x pg_world_scheme, fork_source) op" where
  "pg_GetForkSourceByURI uri = repo_query (sql_GetForkSourceByURI uri)"

definition pg_GetOrganizationIdentity :: "uuid \<Rightarrow> ('x pg_world_scheme, at_identity) op" where
  "pg_GetOrganizationIdentity oid =
     call (repo_query (sql_GetOrganizationByID oid)) (\<lambda>e. e) (\<lambda>row.
     fail_if (org_ATURI row = [] \<or> org_ATCID row = []) (errorf ''repository query: organization is not published'') (
     ret \<lparr>at_URI = org_ATURI row, at_CID = org_ATCID row\<rparr>))"

definition withOrganizationSlug :: "repository \<Rightarrow> ('x pg_world_scheme, repository) op" where
  "withOrganizationSlug value =
     (case repo_OrganizationID value of
        None \<Rightarrow> ret value
      | Some oid \<Rightarrow>
          call (repo_query (sql_GetOrganizationByID oid)) (\<lambda>e. e) (\<lambda>organization.
          ret (value\<lparr>repo_OrganizationSlug := org_Slug organization\<rparr>)))"

definition pg_GetByOwnerSlug ::
  "(repo_row list \<Rightarrow> repo_row) \<Rightarrow> string \<Rightarrow> string \<Rightarrow> ('x pg_world_scheme, repository) op" where
  "pg_GetByOwnerSlug pick owner slug =
     call (repo_query (sql_GetRepositoryByOwnerSlug pick owner slug)) (\<lambda>e. e) withOrganizationSlug"

definition pg_ListByOrganization :: "uuid \<Rightarrow> ('x pg_world_scheme, repository list) op" where
  "pg_ListByOrganization oid =
     call (repo_select (sql_ListRepositoriesByOrganization oid)) repo_mapStoreError ret"

definition pg_PageByOrganization ::
  "uuid \<Rightarrow> did \<Rightarrow> uuid option \<Rightarrow> int \<Rightarrow> ('x pg_world_scheme, repository list) op" where
  "pg_PageByOrganization oid actor after limit =
     call (repo_select (sql_PageRepositoriesByOrganization oid actor after limit)) repo_mapStoreError ret"

definition pg_UpdateState :: "uuid \<Rightarrow> repo_state \<Rightarrow> instant \<Rightarrow> ('x pg_world_scheme, repository) op" where
  "pg_UpdateState rid state updatedAt = repo_query (sql_UpdateRepositoryState rid state updatedAt)"

text \<open>A nil identity stores no identity.\<close>

definition identity_columns :: "at_identity option \<Rightarrow> at_identity" where
  "identity_columns identity = (case identity of None \<Rightarrow> no_identity | Some a \<Rightarrow> a)"

definition pg_ActivateRepository ::
  "uuid \<Rightarrow> at_identity option \<Rightarrow> instant \<Rightarrow> ('x pg_world_scheme, repository) op" where
  "pg_ActivateRepository rid identity updatedAt =
     repo_query (sql_ActivateRepository rid (identity_columns identity) updatedAt)"

definition pg_UpdateSettings ::
  "uuid \<Rightarrow> settings_input \<Rightarrow> uuid \<Rightarrow> instant option \<Rightarrow> at_identity option \<Rightarrow> instant
     \<Rightarrow> ('x pg_world_scheme, repository) op" where
  "pg_UpdateSettings rid input aliasID archivedAt identity updatedAt =
     call (repo_query (sql_UpdateRepositorySettings rid aliasID input archivedAt (identity_columns identity) updatedAt))
       (\<lambda>e. e) withOrganizationSlug"

definition pg_RequestDeletion :: "deletion \<Rightarrow> ('x pg_world_scheme, deletion) op" where
  "pg_RequestDeletion d = repo_query (sql_RequestRepositoryDeletion d)"

definition pg_GetDeletion :: "uuid \<Rightarrow> ('x pg_world_scheme, deletion) op" where
  "pg_GetDeletion i = repo_query (sql_GetRepositoryDeletion i)"

definition pg_RestoreDeletion :: "uuid \<Rightarrow> instant \<Rightarrow> ('x pg_world_scheme, repository) op" where
  "pg_RestoreDeletion i restoredAt =
     call (repo_query (sql_RestoreRepositoryDeletion i restoredAt)) (\<lambda>e. e) withOrganizationSlug"

definition pg_ListDueDeletions ::
  "instant \<Rightarrow> uuid option \<Rightarrow> int \<Rightarrow> ('x pg_world_scheme, deletion list) op" where
  "pg_ListDueDeletions now after limit =
     call (repo_select (sql_ListDueRepositoryDeletions now after limit))
       (wrapf ''repository query: list due deletions'') ret"

definition pg_MarkPurged :: "uuid \<Rightarrow> instant \<Rightarrow> ('x pg_world_scheme, unit) op" where
  "pg_MarkPurged i purgedAt =
     call (pg_exec (sql_MarkRepositoryPurged i purgedAt)) (wrapf ''repository query: mark purged'') ret"

section \<open>Interfaces\<close>

record 'w repository_store =
  rs_Create :: "repository \<Rightarrow> ('w, repository) op"
  rs_GetByOwnerSlug :: "string \<Rightarrow> string \<Rightarrow> ('w, repository) op"
  rs_ListByOrganization :: "uuid \<Rightarrow> ('w, repository list) op"
  rs_PageByOrganization :: "uuid \<Rightarrow> did \<Rightarrow> uuid option \<Rightarrow> int \<Rightarrow> ('w, repository list) op"
  rs_UpdateState :: "uuid \<Rightarrow> repo_state \<Rightarrow> instant \<Rightarrow> ('w, repository) op"
  rs_Activate :: "uuid \<Rightarrow> at_identity option \<Rightarrow> instant \<Rightarrow> ('w, repository) op"

record 'w lifecycle_store =
  ls_UpdateSettings :: "uuid \<Rightarrow> settings_input \<Rightarrow> uuid \<Rightarrow> instant option \<Rightarrow> at_identity option \<Rightarrow> instant
    \<Rightarrow> ('w, repository) op"
  ls_RequestDeletion :: "deletion \<Rightarrow> ('w, deletion) op"
  ls_GetDeletion :: "uuid \<Rightarrow> ('w, deletion) op"
  ls_RestoreDeletion :: "uuid \<Rightarrow> instant \<Rightarrow> ('w, repository) op"

record 'w git_lifecycle =
  gl_SetDefaultBranch :: "uuid \<Rightarrow> string \<Rightarrow> ('w, unit) op"
  gl_Quarantine :: "uuid \<Rightarrow> ('w, unit) op"
  gl_Restore :: "uuid \<Rightarrow> ('w, unit) op"

record 'w git_forker =
  gf_Fork :: "uuid \<Rightarrow> fork_source \<Rightarrow> string \<Rightarrow> ('w, unit) op"
  gf_SyncFork :: "uuid \<Rightarrow> fork_source \<Rightarrow> string \<Rightarrow> ('w, fork_sync) op"

definition postgres_repository_store ::
  "(repo_row list \<Rightarrow> repo_row) \<Rightarrow> 'x pg_world_scheme repository_store" where
  "postgres_repository_store pick =
     \<lparr>rs_Create = pg_CreateRepository, rs_GetByOwnerSlug = pg_GetByOwnerSlug pick,
      rs_ListByOrganization = pg_ListByOrganization, rs_PageByOrganization = pg_PageByOrganization,
      rs_UpdateState = pg_UpdateState, rs_Activate = pg_ActivateRepository\<rparr>"

definition postgres_lifecycle_store :: "'x pg_world_scheme lifecycle_store" where
  "postgres_lifecycle_store =
     \<lparr>ls_UpdateSettings = pg_UpdateSettings, ls_RequestDeletion = pg_RequestDeletion,
      ls_GetDeletion = pg_GetDeletion, ls_RestoreDeletion = pg_RestoreDeletion\<rparr>"

end
