(* ===== verification/Repo_Service.thy ===== *)
theory Repo_Service imports Repo_Store begin

text \<open>
  \<^verbatim>\<open>internal/repository/service.go\<close>: the repository application service. Metadata, Git storage
  and the published record are three systems with no common transaction, so the methods
  compensate: \<open>ignoring\<close> is a call whose error is dropped, and \<open>undoing u m\<close> is
  \<open>defer func() { if !complete { u } }()\<close>.
\<close>

record 'w repository_service =
  rsv_store :: "'w repository_store"
  rsv_lifecycle :: "'w lifecycle_store option"
  rsv_identities :: "(uuid \<Rightarrow> ('w, at_identity) op) option"
  rsv_fork_sources :: "(string \<Rightarrow> ('w, fork_source) op) option"
  rsv_Init :: "uuid \<Rightarrow> string \<Rightarrow> ('w, unit) op"
  rsv_git :: "'w git_lifecycle option"
  rsv_forker :: "'w git_forker option"
  rsv_clock :: "'w \<Rightarrow> instant \<times> 'w"
  rsv_ids :: "('w, uuid) op"
  rsv_Publish :: "repo_publication \<Rightarrow> ('w, at_identity) op"
  rsv_Unpublish :: "(repo_publication \<Rightarrow> at_identity \<Rightarrow> ('w, unit) op) option"
  rsv_endpoints :: "repository \<Rightarrow> string \<times> string \<times> string"
  rsv_uuid_string :: "uuid \<Rightarrow> string"

definition undoing :: "('w, unit) op \<Rightarrow> ('w, 'a) op \<Rightarrow> ('w, 'a) op" where
  "undoing undo m = attempt m (\<lambda>e. ignoring undo (raise e)) ret"

text \<open>A type assertion, and the error where the value does not have the interface.\<close>

definition supported :: "'i option \<Rightarrow> err \<Rightarrow> ('i \<Rightarrow> ('w, 'a) op) \<Rightarrow> ('w, 'a) op" where
  "supported i e k = (case i of None \<Rightarrow> raise e | Some x \<Rightarrow> k x)"

abbreviation lifecycle_unavailable :: err where
  "lifecycle_unavailable \<equiv> because repo_ErrValidation ''repository lifecycle support is unavailable''"

abbreviation persistence_unavailable :: err where
  "persistence_unavailable \<equiv> because repo_ErrValidation ''repository lifecycle persistence is unavailable''"

abbreviation unpublication_unavailable :: err where
  "unpublication_unavailable \<equiv> because repo_ErrValidation ''repository unpublication is unavailable''"

section \<open>Queries\<close>

definition repo_ListByOrganization :: "'w repository_service \<Rightarrow> uuid \<Rightarrow> ('w, repository list) op" where
  "repo_ListByOrganization S oid =
     call (rs_ListByOrganization (rsv_store S) oid) (wrapf ''list organization repositories'') ret"

definition repo_PageByOrganization ::
  "'w repository_service \<Rightarrow> uuid \<Rightarrow> did \<Rightarrow> uuid option \<Rightarrow> int \<Rightarrow> ('w, repo_page) op" where
  "repo_PageByOrganization S oid actor after limit =
     fail_if (limit < 1 \<or> limit > 100) (because repo_ErrValidation ''limit must be between 1 and 100'') (
     call (rs_PageByOrganization (rsv_store S) oid actor after (limit + 1))
       (wrapf ''page organization repositories'') (\<lambda>values.
     ret \<lparr>rp_Items = page_items values (nat limit), rp_NextCursor = page_cursor values (nat limit) repo_ID\<rparr>))"

definition repo_GetByOwnerSlug :: "'w repository_service \<Rightarrow> string \<Rightarrow> string \<Rightarrow> ('w, repository) op" where
  "repo_GetByOwnerSlug S owner slug =
     call (rs_GetByOwnerSlug (rsv_store S) owner slug) (wrapf ''get repository by owner and slug'') ret"

section \<open>Publication\<close>

definition forkPublicationReference :: "fork_source option \<Rightarrow> at_identity option" where
  "forkPublicationReference s = map_option (\<lambda>f. \<lparr>at_URI = fork_URI f, at_CID = fork_CID f\<rparr>) s"

definition display_name :: "repository \<Rightarrow> string" where
  "display_name v = (if repo_DisplayName v = [] then repo_Slug v else repo_DisplayName v)"

definition publication_of ::
  "(repository \<Rightarrow> string \<times> string \<times> string) \<Rightarrow> repository \<Rightarrow> repo_publication" where
  "publication_of endpoints v =
     (case endpoints v of (web, gitHTTPS, gitSSH) \<Rightarrow>
       \<lparr>rpub_ID = repo_ID v, rpub_OwnerDID = repo_OwnerDID v, rpub_Organization = None,
        rpub_ForkedFrom = forkPublicationReference (repo_ForkedFrom v),
        rpub_TransferredFrom = repo_TransferredFrom v, rpub_TransferredTo = None,
        rpub_Slug = repo_Slug v, rpub_Name = display_name v, rpub_Description = repo_Description v,
        rpub_DefaultBranch = repo_DefaultBranch v, rpub_GitHTTPS = gitHTTPS, rpub_GitSSH = gitSSH,
        rpub_Web = web, rpub_CreatedAt = repo_CreatedAt v, rpub_UpdatedAt = repo_UpdatedAt v\<rparr>)"

definition repo_publication_for :: "'w repository_service \<Rightarrow> repository \<Rightarrow> ('w, repo_publication) op" where
  "repo_publication_for S v =
     (case repo_OrganizationID v of
        None \<Rightarrow> ret (publication_of (rsv_endpoints S) v)
      | Some oid \<Rightarrow>
          supported (rsv_identities S) (errorf ''resolve repository organization identity: unsupported store'') (\<lambda>get.
          call (get oid) (wrapf ''resolve repository organization identity'') (\<lambda>identity.
          ret ((publication_of (rsv_endpoints S) v)\<lparr>rpub_Organization := Some identity\<rparr>))))"

definition routeOwner :: "repository \<Rightarrow> string" where
  "routeOwner v = (if repo_OrganizationSlug v \<noteq> [] then repo_OrganizationSlug v else repo_OwnerDID v)"

section \<open>Creation\<close>

definition repo_fail :: "'w repository_service \<Rightarrow> uuid \<Rightarrow> err \<Rightarrow> ('w, 'a) op" where
  "repo_fail S rid cause =
     with_now (rsv_clock S) (\<lambda>now.
     attempt (rs_UpdateState (rsv_store S) rid StateFailed now)
       (\<lambda>e. raise (join_cause cause (Some (wrapf ''mark repository failed'' e))))
       (\<lambda>_. raise (join_cause cause None)))"

definition initialize_git :: "'w repository_service \<Rightarrow> repo_create_input \<Rightarrow> repository \<Rightarrow> ('w, unit) op" where
  "initialize_git S input v =
     (case rci_ForkedFrom input of
        None \<Rightarrow> rsv_Init S (repo_ID v) (repo_DefaultBranch v)
      | Some source \<Rightarrow>
          supported (rsv_forker S) (errorf ''Git fork support is unavailable'') (\<lambda>forker.
          gf_Fork forker (repo_ID v) source (repo_DefaultBranch v)))"

definition creation_publication :: "'w repository_service \<Rightarrow> repo_create_input \<Rightarrow> repository \<Rightarrow> repo_publication" where
  "creation_publication S input v =
     (publication_of (rsv_endpoints S) v)
       \<lparr>rpub_Organization := rci_OrganizationAT input,
        rpub_ForkedFrom := forkPublicationReference (rci_ForkedFrom input),
        rpub_TransferredFrom := None\<rparr>"

definition activate_created ::
  "'w repository_service \<Rightarrow> repository \<Rightarrow> at_identity option \<Rightarrow> ('w, repository) op" where
  "activate_created S v identity =
     with_now (rsv_clock S) (\<lambda>now.
     attempt (rs_Activate (rsv_store S) (repo_ID v) identity now)
       (\<lambda>e. repo_fail S (repo_ID v) (wrapf ''activate repository'' e)) ret)"

definition publish_created :: "'w repository_service \<Rightarrow> repo_create_input \<Rightarrow> repository \<Rightarrow> ('w, repository) op" where
  "publish_created S input v =
     (if repo_Visibility v = Repo_Public then
        attempt (rsv_Publish S (creation_publication S input v))
          (\<lambda>e. repo_fail S (repo_ID v) (wrapf ''publish repository record'' e)) (\<lambda>published.
        activate_created S v (Some published))
      else activate_created S v None)"

definition complete_creation :: "'w repository_service \<Rightarrow> repo_create_input \<Rightarrow> repository \<Rightarrow> ('w, repository) op" where
  "complete_creation S input v =
     attempt (initialize_git S input v)
       (\<lambda>gitErr. repo_fail S (repo_ID v) (wrapf ''initialize bare repository'' gitErr)) (\<lambda>_.
     publish_created S input v)"

definition repo_Create :: "'w repository_service \<Rightarrow> repo_create_input \<Rightarrow> ('w, repository) op" where
  "repo_Create S input =
     check (RepositoryInput_Validate input) (because_of repo_ErrValidation []) (
     call (rsv_ids S) (wrapf ''generate repository ID'') (\<lambda>rid.
     with_now (rsv_clock S) (\<lambda>now.
     call (rs_Create (rsv_store S)
             \<lparr>repo_ID = rid, repo_OwnerDID = rci_OwnerDID input, repo_OrganizationID = rci_OrganizationID input,
              repo_OrganizationSlug = rci_OrganizationSlug input, repo_Slug = rci_Slug input,
              repo_DisplayName = rci_DisplayName input, repo_Description = rci_Description input,
              repo_Visibility = rci_Visibility input, repo_State = StateCreating,
              repo_DefaultBranch = rci_DefaultBranch input, repo_StorageKey = rsv_uuid_string S rid,
              repo_ATURI = [], repo_ATCID = [], repo_ForkedFrom = rci_ForkedFrom input,
              repo_TransferredFrom = None, repo_ForkCount = 0, repo_ViewerCanAdmin = False,
              repo_ArchivedAt = None, repo_CreatedAt = now, repo_UpdatedAt = now\<rparr>)
       (wrapf ''create repository metadata'') (complete_creation S input))))"

section \<open>Settings\<close>

definition compensatePublication ::
  "'w repository_service \<Rightarrow> repository \<Rightarrow> repository \<Rightarrow> at_identity option \<Rightarrow> ('w, 'a) op \<Rightarrow> ('w, 'a) op" where
  "compensatePublication S previous attempted attemptedIdentity k =
     (if repo_Visibility previous = Repo_Public then
        attempt (repo_publication_for S previous) (\<lambda>_. k) (\<lambda>publication.
        ignoring (rsv_Publish S publication) k)
      else case attemptedIdentity of
             None \<Rightarrow> k
           | Some identity \<Rightarrow>
               (case rsv_Unpublish S of
                  None \<Rightarrow> k
                | Some unpublish \<Rightarrow>
                    attempt (repo_publication_for S attempted) (\<lambda>_. k) (\<lambda>publication.
                    ignoring (unpublish publication identity) k)))"

definition published :: "repository \<Rightarrow> bool" where
  "published v \<longleftrightarrow> repo_ATURI v \<noteq> [] \<and> repo_ATCID v \<noteq> []"

abbreviation record_identity :: "repository \<Rightarrow> at_identity" where
  "record_identity v \<equiv> \<lparr>at_URI = repo_ATURI v, at_CID = repo_ATCID v\<rparr>"

definition changed_settings :: "repository \<Rightarrow> settings_input \<Rightarrow> instant \<Rightarrow> repository" where
  "changed_settings current input now =
     current\<lparr>repo_Slug := set_Slug input, repo_DisplayName := set_DisplayName input,
             repo_Description := set_Description input, repo_Visibility := set_Visibility input,
             repo_DefaultBranch := set_DefaultBranch input, repo_UpdatedAt := now,
             repo_ArchivedAt := (if set_Archived input then Some now else None)\<rparr>"

text \<open>The record in public discovery follows the visibility; gives the identity of a published one.\<close>

definition unpublish_current :: "'w repository_service \<Rightarrow> repository \<Rightarrow> string \<Rightarrow> ('w, unit) op" where
  "unpublish_current S current msg =
     supported (rsv_Unpublish S) unpublication_unavailable (\<lambda>unpublish.
     call (repo_publication_for S current) (\<lambda>e. e) (\<lambda>publication.
     call (unpublish publication (record_identity current)) (wrapf msg) ret))"

definition synchronize_record ::
  "'w repository_service \<Rightarrow> repository \<Rightarrow> repository \<Rightarrow> ('w, at_identity option) op" where
  "synchronize_record S current updated =
     (if repo_Visibility updated = Repo_Public then
        call (repo_publication_for S updated) (\<lambda>e. e) (\<lambda>publication.
        call (rsv_Publish S publication) (wrapf ''publish updated repository record'') (\<lambda>identity.
        ret (Some identity)))
      else if published current then
        call (unpublish_current S current ''unpublish private repository record'') (\<lambda>e. e) (\<lambda>_. ret None)
      else ret None)"

definition store_settings ::
  "'w repository_service \<Rightarrow> 'w lifecycle_store \<Rightarrow> repository \<Rightarrow> settings_input \<Rightarrow> instant \<Rightarrow> ('w, repository) op" where
  "store_settings S L current input now =
     (let updated = changed_settings current input now
      in call (synchronize_record S current updated) (\<lambda>e. e) (\<lambda>identity.
         attempt (rsv_ids S)
           (\<lambda>e. compensatePublication S current updated identity (raise (wrapf ''generate repository alias ID'' e)))
           (\<lambda>aliasID.
         attempt (ls_UpdateSettings L (repo_ID current) input aliasID (repo_ArchivedAt updated) identity now)
           (\<lambda>e. compensatePublication S current updated identity (raise (wrapf ''update repository settings'' e)))
           ret)))"

definition repo_Update :: "'w repository_service \<Rightarrow> repository \<Rightarrow> settings_input \<Rightarrow> ('w, repository) op" where
  "repo_Update S current input =
     fail_if (repo_State current \<noteq> StateActive) (Sentinel repo_ErrNotFound) (
     check (SettingsInput_Validate input) (because_of repo_ErrValidation []) (
     supported (rsv_git S) lifecycle_unavailable (\<lambda>git.
     supported (rsv_lifecycle S) persistence_unavailable (\<lambda>L.
     (let store = with_now (rsv_clock S) (\<lambda>now. store_settings S L current input now)
      in if set_DefaultBranch input \<noteq> repo_DefaultBranch current then
           call (gl_SetDefaultBranch git (repo_ID current) (set_DefaultBranch input))
             (because_of repo_ErrValidation ''set default branch'') (\<lambda>_.
           undoing (gl_SetDefaultBranch git (repo_ID current) (repo_DefaultBranch current)) store)
         else store)))))"

section \<open>Deletion\<close>

definition abandon_deletion ::
  "'w repository_service \<Rightarrow> 'w git_lifecycle \<Rightarrow> repository \<Rightarrow> err \<Rightarrow> ('w, deletion) op" where
  "abandon_deletion S git current e =
     ignoring (gl_Restore git (repo_ID current)) (
     (let failed = raise (wrapf ''request repository deletion'' e)
      in if repo_Visibility current = Repo_Public then
           attempt (repo_publication_for S current) (\<lambda>_. failed) (\<lambda>publication.
           ignoring (rsv_Publish S publication) failed)
         else failed))"

definition quarantine_and_request ::
  "'w repository_service \<Rightarrow> 'w lifecycle_store \<Rightarrow> 'w git_lifecycle \<Rightarrow> repository \<Rightarrow> did \<Rightarrow> duration
     \<Rightarrow> ('w, deletion) op" where
  "quarantine_and_request S L git current actorDID retention =
     call (gl_Quarantine git (repo_ID current)) (wrapf ''quarantine repository'') (\<lambda>_.
     attempt (rsv_ids S)
       (\<lambda>e. ignoring (gl_Restore git (repo_ID current)) (raise (wrapf ''generate repository deletion ID'' e)))
       (\<lambda>i.
     with_now (rsv_clock S) (\<lambda>now.
     attempt (ls_RequestDeletion L \<lparr>del_ID = i, del_RepositoryID = repo_ID current,
                del_RequestedByDID = actorDID, del_RequestedAt = now, del_PurgeAfter = now + retention\<rparr>)
       (abandon_deletion S git current) ret)))"

definition repo_Delete ::
  "'w repository_service \<Rightarrow> repository \<Rightarrow> did \<Rightarrow> duration \<Rightarrow> ('w, deletion) op" where
  "repo_Delete S current actorDID retention =
     fail_if (repo_State current \<noteq> StateActive) (Sentinel repo_ErrNotFound) (
     fail_if (retention \<le> 0) (because repo_ErrValidation ''deletion retention must be positive'') (
     supported (rsv_git S) lifecycle_unavailable (\<lambda>git.
     supported (rsv_lifecycle S) persistence_unavailable (\<lambda>L.
     if published current then
       call (unpublish_current S current ''unpublish deleted repository record'') (\<lambda>e. e) (\<lambda>_.
       quarantine_and_request S L git current actorDID retention)
     else quarantine_and_request S L git current actorDID retention))))"

definition repo_GetDeletion :: "'w repository_service \<Rightarrow> uuid \<Rightarrow> ('w, deletion) op" where
  "repo_GetDeletion S i =
     supported (rsv_lifecycle S) persistence_unavailable (\<lambda>L.
     call (ls_GetDeletion L i) (wrapf ''get repository deletion'') ret)"

definition restored_settings :: "repository \<Rightarrow> settings_input" where
  "restored_settings v =
     \<lparr>set_OwnerAlias = routeOwner v, set_Slug = repo_Slug v, set_DisplayName = repo_DisplayName v,
      set_Description = repo_Description v, set_Visibility = repo_Visibility v,
      set_DefaultBranch = repo_DefaultBranch v, set_Archived = (repo_ArchivedAt v \<noteq> None)\<rparr>"

definition republish_restored ::
  "'w repository_service \<Rightarrow> 'w lifecycle_store \<Rightarrow> repository \<Rightarrow> ('w, repository) op" where
  "republish_restored S L restored =
     call (repo_publication_for S restored) (\<lambda>e. e) (\<lambda>publication.
     call (rsv_Publish S publication) (wrapf ''republish restored repository'') (\<lambda>identity.
     call (rsv_ids S) (wrapf ''generate restoration identity update ID'') (\<lambda>aliasID.
     with_now (rsv_clock S) (\<lambda>now.
     call (ls_UpdateSettings L (repo_ID restored) (restored_settings restored) aliasID
             (repo_ArchivedAt restored) (Some identity) now)
       (wrapf ''store restored repository identity'') ret))))"

definition restore_quarantined ::
  "'w repository_service \<Rightarrow> 'w lifecycle_store \<Rightarrow> 'w git_lifecycle \<Rightarrow> uuid \<Rightarrow> uuid \<Rightarrow> ('w, repository) op" where
  "restore_quarantined S L git i rid =
     call (gl_Restore git rid) (wrapf ''restore quarantined repository'') (\<lambda>_.
     with_now (rsv_clock S) (\<lambda>now.
     attempt (ls_RestoreDeletion L i now)
       (\<lambda>e. ignoring (gl_Quarantine git rid) (raise (wrapf ''restore repository metadata'' e)))
       (\<lambda>restored.
     if repo_Visibility restored = Repo_Public then republish_restored S L restored
     else ret restored)))"

definition repo_RestoreDeletion :: "'w repository_service \<Rightarrow> uuid \<Rightarrow> ('w, repository) op" where
  "repo_RestoreDeletion S i =
     supported (rsv_lifecycle S) persistence_unavailable (\<lambda>L.
     call (ls_GetDeletion L i) (wrapf ''get repository deletion'') (\<lambda>deletion.
     supported (rsv_git S) lifecycle_unavailable (\<lambda>git.
     restore_quarantined S L git i (del_RepositoryID deletion))))"

section \<open>Forks\<close>

definition repo_SyncFork :: "'w repository_service \<Rightarrow> repository \<Rightarrow> ('w, fork_sync) op" where
  "repo_SyncFork S v =
     (case repo_ForkedFrom v of
        None \<Rightarrow> raise (because repo_ErrValidation ''repository is not a fork'')
      | Some forked \<Rightarrow>
          (let sync = (\<lambda>source.
             supported (rsv_forker S) (because repo_ErrValidation ''Git fork support is unavailable'') (\<lambda>forker.
             call (gf_SyncFork forker (repo_ID v) source (repo_DefaultBranch v)) (wrapf ''sync fork'') ret))
           in if fork_LocalRepositoryID forked = None then
                supported (rsv_fork_sources S) (because repo_ErrValidation ''fork source lookup is unavailable'') (\<lambda>get.
                call (get (fork_URI forked)) (wrapf ''resolve fork source'') sync)
              else sync forked))"

end
