(* ===== verification/Repo_Purge.thy ===== *)
theory Repo_Purge imports Repository Effects begin

text \<open>
  \<^verbatim>\<open>internal/repository/purge_worker.go\<close>: the worker that removes the quarantined Git data of
  deletions past their deadline. A run of \<open>purge\<close> is a loop over pages; that it may not end
  is the value \<open>None\<close>.
\<close>

record 'w purge_worker =
  pw_ListDueDeletions :: "instant \<Rightarrow> uuid option \<Rightarrow> int \<Rightarrow> ('w, deletion list) op"
  pw_MarkPurged :: "uuid \<Rightarrow> instant \<Rightarrow> ('w, unit) op"
  pw_Purge :: "uuid \<Rightarrow> ('w, unit) op"
  pw_now :: "'w \<Rightarrow> instant \<times> 'w"

fun purge_each :: "'w purge_worker \<Rightarrow> deletion list \<Rightarrow> ('w, unit) op" where
  "purge_each W [] = ret ()"
| "purge_each W (d # ds) =
     call (pw_Purge W (del_RepositoryID d)) (wrapf ''purge repository'') (\<lambda>_.
     with_now (pw_now W) (\<lambda>now.
     call (pw_MarkPurged W (del_ID d) now) (wrapf ''complete repository purge'') (\<lambda>_.
     purge_each W ds)))"

definition purge_page :: "'w purge_worker \<Rightarrow> uuid option \<Rightarrow> ('w, deletion list) op" where
  "purge_page W after =
     with_now (pw_now W) (\<lambda>now.
     call (pw_ListDueDeletions W now after 100) (wrapf ''list repository deletions due for purge'') (\<lambda>deletions.
     call (purge_each W deletions) (\<lambda>e. e) (\<lambda>_.
     ret deletions)))"

partial_function (option) purge ::
  "'w purge_worker \<Rightarrow> uuid option \<Rightarrow> 'w \<Rightarrow> ((err + unit) \<times> 'w) option" where
  "purge W after w =
     (case purge_page W after w of
        (Inl e, w') \<Rightarrow> Some (Inl e, w')
      | (Inr deletions, w') \<Rightarrow>
          if length deletions < 100 then Some (Inr (), w')
          else purge W (Some (del_ID (last deletions))) w')"

declare purge.simps [code]

text \<open>What every step keeps, the run keeps.\<close>

lemma keeps_purge_each:
  assumes "\<And>d. d \<in> set ds \<Longrightarrow> keeps I (pw_Purge W (del_RepositoryID d))"
    and "keeps_clock I (pw_now W)" and "\<And>i now. keeps I (pw_MarkPurged W i now)"
  shows "keeps I (purge_each W ds)"
  using assms(1) by (induction ds) (auto intro!: op_keeps assms(2,3))

section \<open>What the worker needs of the store\<close>

text \<open>
  \<open>pending\<close> are the ids of the deletions that are neither restored nor purged. Listing
  gives some of them, and marking one as purged takes it away.
\<close>

locale purge_store =
  fixes W :: "'w purge_worker" and pending :: "'w \<Rightarrow> uuid set"
  assumes pending_finite: "finite (pending w)"
    and listed: "pw_ListDueDeletions W now after limit w = (Inr ds, w') \<Longrightarrow> del_ID ` set ds \<subseteq> pending w"
    and listing_frames: "frames pending (pw_ListDueDeletions W now after limit)"
    and purging_frames: "frames pending (pw_Purge W rid)"
    and clock_frames: "pending (snd (pw_now W w)) = pending w"
    and marked: "pw_MarkPurged W i now w = (Inr (), w') \<Longrightarrow> pending w' = pending w - {i}"
begin

lemma purge_each_pending:
  "purge_each W ds w = (Inr (), w') \<Longrightarrow> pending w' = pending w - del_ID ` set ds"
proof (induction ds arbitrary: w)
  case Nil
  then show ?case by (simp add: op_ok)
next
  case (Cons d ds)
  from Cons.prems obtain u v t x where run: "pw_Purge W (del_RepositoryID d) w = (Inr (), u)"
    "pw_now W u = (t, v)" "pw_MarkPurged W (del_ID d) t v = (Inr (), x)" "purge_each W ds x = (Inr (), w')"
    by (auto simp: op_ok)
  then have "pending x = pending w - {del_ID d}"
    using framesD [OF purging_frames run(1)] clock_frames [of u] marked [OF run(3)] by simp
  with Cons.IH [OF run(4)] show ?case by auto
qed

lemma purge_page_pending:
  assumes "purge_page W after w = (Inr ds, w')"
  shows "del_ID ` set ds \<subseteq> pending w \<and> pending w' = pending w - del_ID ` set ds"
proof -
  from assms obtain t u v where run: "pw_now W w = (t, u)" "pw_ListDueDeletions W t after 100 u = (Inr ds, v)"
    "purge_each W ds v = (Inr (), w')"
    by (auto simp: purge_page_def op_ok)
  have "pending u = pending w" using clock_frames [of w] run(1) by simp
  with listed [OF run(2)] framesD [OF listing_frames run(2)] purge_each_pending [OF run(3)]
  show ?thesis by simp
qed

lemma full_page_shrinks:
  assumes "purge_page W after w = (Inr ds, w')" and "\<not> length ds < 100"
  shows "card (pending w') < card (pending w)"
proof -
  from purge_page_pending [OF assms(1)] assms(2) have "pending w' \<subset> pending w" by (cases ds) auto
  then show ?thesis by (rule psubset_card_mono [OF pending_finite])
qed

text \<open>Every full page takes deletions away, so the loop ends.\<close>

lemma purge_returns: "\<exists>r. purge W after w = Some r"
proof (induction "card (pending w)" arbitrary: after w rule: less_induct)
  case less
  obtain q w' where page: "purge_page W after w = (q, w')" by force
  show ?case
  proof (cases q)
    case (Inl e)
    with page show ?thesis by (simp add: purge.simps)
  next
    case (Inr ds)
    show ?thesis
    proof (cases "length ds < 100")
      case True
      with page Inr show ?thesis by (simp add: purge.simps)
    next
      case False
      from page Inr False have "card (pending w') < card (pending w)" by (simp add: full_page_shrinks)
      from less [OF this] page Inr False show ?thesis by (simp add: purge.simps)
    qed
  qed
qed

text \<open>A run keeps what its pages keep.\<close>

lemma purge_keeps:
  assumes "\<And>after. keeps I (purge_page W after)"
  shows "purge W after w = Some (r, w') \<Longrightarrow> I w \<Longrightarrow> I w'"
proof (induction "card (pending w)" arbitrary: after w rule: less_induct)
  case less
  obtain q u where page: "purge_page W after w = (q, u)" by force
  have "I u" using keepsD [OF assms less.prems(2), of after] page by simp
  show ?case
  proof (cases q)
    case (Inl e)
    with page less.prems \<open>I u\<close> show ?thesis by (simp add: purge.simps)
  next
    case (Inr ds)
    show ?thesis
    proof (cases "length ds < 100")
      case True
      with page Inr less.prems \<open>I u\<close> show ?thesis by (simp add: purge.simps)
    next
      case False
      from page Inr False have "card (pending u) < card (pending w)" by (simp add: full_page_shrinks)
      from less.hyps [OF this _ \<open>I u\<close>] page Inr False less.prems(1) show ?thesis by (simp add: purge.simps)
    qed
  qed
qed

end

end
