(* ===== verification/Git_Process.thy ===== *)
theory Git_Process imports Go_URL begin

text \<open>
  \<^verbatim>\<open>internal/git/runner.go\<close> and the helpers of \<^verbatim>\<open>internal/git/read.go\<close> that every Git command
  goes through. Git itself, the storage and the temporary directory are parameters: the
  record \<open>git_service\<close> holds them as operations on the world. A process gives the pieces
  it writes to standard output; a process that fails gives its error, and what it wrote
  before is dropped by the callers, as in the source.
\<close>

section \<open>Calls without effects\<close>

text \<open>A pure function that may fail, called from a method with effects.\<close>

definition outcome :: "err + 'a \<Rightarrow> ('w, 'a) op" where
  "outcome r = (\<lambda>w. (r, w))"

lemma outcome_apply [op_eval]: "outcome r w = (r, w)"
  by (simp add: outcome_def)

lemma outcome_ok [op_ok]: "outcome r w = (Inr y, w') \<longleftrightarrow> r = Inr y \<and> w' = w"
  by (auto simp: outcome_def)

lemma keeps_outcome [op_keeps]: "keeps I (outcome r)"
  by (simp add: keeps_def outcome_def)

text \<open>\<open>defer cleanup()\<close>: whatever the method returns, \<open>cleanup\<close> runs and its error is dropped.\<close>

definition deferring :: "('w, unit) op \<Rightarrow> ('w, 'a) op \<Rightarrow> ('w, 'a) op" where
  "deferring cleanup m = (\<lambda>w. case m w of (r, w') \<Rightarrow> (r, snd (cleanup w')))"

lemma deferring_apply [op_eval]: "deferring c m w = (fst (m w), snd (c (snd (m w))))"
  by (simp add: deferring_def split_beta)

lemma deferring_ok [op_ok]:
  "deferring c m w = (Inr y, w') \<longleftrightarrow> (\<exists>v. m w = (Inr y, v) \<and> w' = snd (c v))"
  by (auto simp: deferring_def split: prod.splits)

lemma keeps_deferring [op_keeps]: "keeps I c \<Longrightarrow> keeps I m \<Longrightarrow> keeps I (deferring c m)"
  by (simp add: keeps_def deferring_apply)

text \<open>The first element a function rejects gives its error.\<close>

fun traverse :: "('a \<Rightarrow> err + 'b) \<Rightarrow> 'a list \<Rightarrow> err + 'b list" where
  "traverse f [] = Inr []"
| "traverse f (x # xs) =
     (case f x of Inl e \<Rightarrow> Inl e
      | Inr y \<Rightarrow> (case traverse f xs of Inl e \<Rightarrow> Inl e | Inr ys \<Rightarrow> Inr (y # ys)))"

lemma traverse_Inr_iff: "traverse f xs = Inr ys \<longleftrightarrow> list_all2 (\<lambda>x y. f x = Inr y) xs ys"
proof (induction xs arbitrary: ys)
  case (Cons x xs)
  from Cons.IH [symmetric] show ?case by (auto simp: list_all2_Cons1 split: sum.splits)
qed auto

lemma traverse_map: "(\<And>x. x \<in> set xs \<Longrightarrow> f (g x) = Inr x) \<Longrightarrow> traverse f (map g xs) = Inr xs"
  by (induction xs) auto

section \<open>Bounded output\<close>

record limited_buffer =
  lb_buffer :: string
  lb_limit :: int
  lb_truncated :: bool

definition limitedBuffer :: "int \<Rightarrow> limited_buffer" where
  "limitedBuffer limit = \<lparr>lb_buffer = [], lb_limit = limit, lb_truncated = False\<rparr>"

definition limitedBuffer_Write :: "string \<Rightarrow> limited_buffer \<Rightarrow> limited_buffer" where
  "limitedBuffer_Write value b =
     (let remaining = lb_limit b - int (length (lb_buffer b));
          kept = (if remaining > 0
                  then b\<lparr>lb_buffer := lb_buffer b @ take (nat (min (int (length value)) remaining)) value\<rparr> else b)
      in if int (length value) > remaining then kept\<lparr>lb_truncated := True\<rparr> else kept)"

text \<open>However the output arrives in pieces, the buffer holds its first bytes and knows whether there were more.\<close>

lemma limitedBuffer_Write_fold:
  assumes "0 \<le> limit"
  shows "fold limitedBuffer_Write chunks
           \<lparr>lb_buffer = take (nat limit) s, lb_limit = limit, lb_truncated = (limit < int (length s))\<rparr>
       = \<lparr>lb_buffer = take (nat limit) (s @ concat chunks), lb_limit = limit,
          lb_truncated = (limit < int (length (s @ concat chunks)))\<rparr>"
proof (induction chunks arbitrary: s)
  case (Cons c cs)
  have "limitedBuffer_Write c \<lparr>lb_buffer = take (nat limit) s, lb_limit = limit, lb_truncated = (limit < int (length s))\<rparr>
      = \<lparr>lb_buffer = take (nat limit) (s @ c), lb_limit = limit, lb_truncated = (limit < int (length (s @ c)))\<rparr>"
    using assms by (cases limit) (auto simp: limitedBuffer_Write_def Let_def min_def nat_diff_distrib)
  with Cons.IH [of "s @ c"] show ?case by simp
qed simp

lemma limitedBuffer_collects:
  "0 \<le> limit \<Longrightarrow> fold limitedBuffer_Write chunks (limitedBuffer limit) =
     \<lparr>lb_buffer = take (nat limit) (concat chunks), lb_limit = limit,
      lb_truncated = (limit < int (length (concat chunks)))\<rparr>"
  using limitedBuffer_Write_fold [of limit chunks "[]"] by (simp add: limitedBuffer_def)

section \<open>The service\<close>

record git_command =
  gc_args :: "string list"
  gc_env :: "string list"
  gc_input :: string

abbreviation command :: "string list \<Rightarrow> git_command" where
  "command args \<equiv> \<lparr>gc_args = args, gc_env = [], gc_input = []\<rparr>"

record 'w temporary_files =
  tf_MkdirTemp :: "('w, string) op"
  tf_Mkdir :: "string \<Rightarrow> ('w, unit) op"
  tf_WriteFile :: "string \<Rightarrow> string \<Rightarrow> ('w, unit) op"
  tf_RemoveAll :: "string \<Rightarrow> ('w, unit) op"

record 'w lifecycle_paths =
  lp_Quarantine :: "uuid \<Rightarrow> ('w, unit) op"
  lp_Restore :: "uuid \<Rightarrow> ('w, unit) op"
  lp_Purge :: "uuid \<Rightarrow> ('w, unit) op"

record 'w git_service =
  gs_exec :: "git_command \<Rightarrow> ('w, string list) op"
  gs_ctx_Err :: "('w, unit) op"
  gs_Prepare :: "uuid \<Rightarrow> ('w, string) op"
  gs_Path :: "uuid \<Rightarrow> ('w, string) op"
  gs_lifecycle :: "'w lifecycle_paths option"
  gs_temporary :: "'w temporary_files"
  gs_beforeMergeCAS :: "('w, unit) op option"

definition git_runWithEnv :: "'w git_service \<Rightarrow> string list \<Rightarrow> string \<Rightarrow> string list \<Rightarrow> ('w, unit) op" where
  "git_runWithEnv S args input environment =
     call (gs_exec S \<lparr>gc_args = args, gc_env = environment, gc_input = input\<rparr>) (\<lambda>e. e) (\<lambda>_. ret ())"

definition git_run :: "'w git_service \<Rightarrow> string list \<Rightarrow> ('w, unit) op" where
  "git_run S args = git_runWithEnv S args [] []"

definition bounded_output :: "int \<Rightarrow> string list \<Rightarrow> limited_buffer" where
  "bounded_output limit chunks = fold limitedBuffer_Write chunks (limitedBuffer limit)"

definition git_runBounded :: "'w git_service \<Rightarrow> int \<Rightarrow> string list \<Rightarrow> ('w, string) op" where
  "git_runBounded S limit args =
     call (gs_exec S (command args)) (\<lambda>e. e) (\<lambda>chunks.
     fail_if (lb_truncated (bounded_output limit chunks)) (Sentinel git_ErrOutputLimit) (
     ret (lb_buffer (bounded_output limit chunks))))"

definition maxRefOutput :: int where "maxRefOutput = 8 * 1024 * 1024"
definition maxMetadataOutput :: int where "maxMetadataOutput = 4 * 1024"

text \<open>A bounded command that succeeds gives all its output, which fits the bound.\<close>

lemma git_runBounded_ok:
  assumes "git_runBounded S limit args w = (Inr out, w')" and "0 \<le> limit"
  shows "\<exists>chunks. gs_exec S (command args) w = (Inr chunks, w') \<and> out = concat chunks \<and> int (length out) \<le> limit"
  using assms by (auto simp: git_runBounded_def op_ok bounded_output_def limitedBuffer_collects)

definition git_repositoryPath :: "'w git_service \<Rightarrow> uuid \<Rightarrow> ('w, string) op" where
  "git_repositoryPath S rid = call (gs_Path S rid) (wrapf ''resolve repository path'') ret"

abbreviation newline :: char where "newline \<equiv> CHR 0x0A"
abbreviation nul :: char where "nul \<equiv> CHR 0x00"

definition trim_suffix_byte :: "char \<Rightarrow> string \<Rightarrow> string" where
  "trim_suffix_byte c s = (if s \<noteq> [] \<and> last s = c then butlast s else s)"

definition singleLine :: "string \<Rightarrow> err + string" where
  "singleLine output =
     (let line = trim_suffix_byte newline output
      in if line = [] \<or> newline \<in> set line then Inl (errorf ''unexpected Git output'') else Inr line)"

lemma singleLine_roundtrip: "line \<noteq> [] \<Longrightarrow> newline \<notin> set line \<Longrightarrow> singleLine (line @ [newline]) = Inr line"
  by (simp add: singleLine_def trim_suffix_byte_def)

text \<open>\<open>resolve\<close> and \<open>objectProperty\<close> differ in their command only.\<close>

definition object_query :: "'w git_service \<Rightarrow> string list \<Rightarrow> ('w, string) op" where
  "object_query S args =
     attempt (git_runBounded S maxMetadataOutput args)
       (\<lambda>e. call (gs_ctx_Err S) (\<lambda>c. c) (\<lambda>_.
            raise (if errors_is e git_ErrOutputLimit then e else Sentinel git_ErrObjectNotFound)))
       (\<lambda>output. outcome (singleLine output))"

definition git_resolve :: "'w git_service \<Rightarrow> string \<Rightarrow> string \<Rightarrow> ('w, string) op" where
  "git_resolve S repositoryPath revision =
     object_query S [''--git-dir='' @ repositoryPath, ''rev-parse'', ''--verify'', ''--end-of-options'', revision]"

definition git_objectProperty :: "'w git_service \<Rightarrow> string \<Rightarrow> string \<Rightarrow> string \<Rightarrow> ('w, string) op" where
  "git_objectProperty S repositoryPath option sha =
     object_query S [''--git-dir='' @ repositoryPath, ''cat-file'', option, sha]"

section \<open>What a view of the world is not touched by\<close>

text \<open>Frame rules beside \<open>op_keeps\<close>.\<close>

named_theorems op_frames \<open>operations that leave a view of the world alone\<close>

lemma frames_ret [op_frames]: "frames v (ret x)"
  by (simp add: frames_def ret_def)

lemma frames_raise [op_frames]: "frames v (raise e)"
  by (simp add: frames_def raise_def)

lemma frames_outcome [op_frames]: "frames v (outcome r)"
  by (simp add: frames_def outcome_def)

lemma frames_attempt [op_frames]:
  "frames v m \<Longrightarrow> (\<And>e. frames v (f e)) \<Longrightarrow> (\<And>x. frames v (k x)) \<Longrightarrow> frames v (attempt m f k)"
  by (simp add: frames_def attempt_def split: prod.split sum.split) (metis snd_conv)

lemma frames_call [op_frames]: "frames v m \<Longrightarrow> (\<And>x. frames v (k x)) \<Longrightarrow> frames v (call m h k)"
  unfolding call_def by (intro op_frames)

lemma frames_ignoring [op_frames]: "frames v m \<Longrightarrow> frames v k \<Longrightarrow> frames v (ignoring m k)"
  unfolding ignoring_def by (intro op_frames)

lemma frames_fail_if [op_frames]: "(\<not> c \<Longrightarrow> frames v k) \<Longrightarrow> frames v (fail_if c e k)"
  by (auto simp: fail_if_def intro: op_frames)

lemma frames_check [op_frames]: "(r = None \<Longrightarrow> frames v k) \<Longrightarrow> frames v (check r h k)"
  by (cases r) (auto simp: check_def intro: op_frames)

lemma frames_if [op_frames]: "(c \<Longrightarrow> frames v m) \<Longrightarrow> (\<not> c \<Longrightarrow> frames v n) \<Longrightarrow> frames v (if c then m else n)"
  by simp

lemma frames_deferring [op_frames]: "frames v c \<Longrightarrow> frames v m \<Longrightarrow> frames v (deferring c m)"
  by (simp add: frames_def deferring_apply)

lemma frames_case_option [op_frames]:
  "(r = None \<Longrightarrow> frames v m) \<Longrightarrow> (\<And>x. r = Some x \<Longrightarrow> frames v (k x)) \<Longrightarrow>
     frames v (case r of None \<Rightarrow> m | Some x \<Rightarrow> k x)"
  by (cases r) auto

lemma frames_case_prod [op_frames]:
  "(\<And>a b. p = (a, b) \<Longrightarrow> frames v (k a b)) \<Longrightarrow> frames v (case p of (a, b) \<Rightarrow> k a b)"
  by (cases p) auto

lemma frames_queries [op_frames]:
  assumes "\<And>c. gc_env c = [] \<Longrightarrow> gc_input c = [] \<Longrightarrow> gc_args c = args \<Longrightarrow> frames v (gs_exec S c)"
  shows "frames v (git_run S args)" and "frames v (git_runBounded S limit args)"
    and "frames v (gs_ctx_Err S) \<Longrightarrow> frames v (object_query S args)"
  unfolding git_run_def git_runWithEnv_def git_runBounded_def object_query_def
  by (intro op_frames assms; simp)+

end
