(* ===== verification/Git_Service.thy ===== *)
theory Git_Service imports Git_Process begin

text \<open>
  \<^verbatim>\<open>internal/git/service.go\<close>: creation of bare repositories, the default branch, the moves in
  and out of the quarantine, the pack protocol and the list of references.
\<close>

definition check_ref_format :: "'w git_service \<Rightarrow> string \<Rightarrow> ('w, unit) op" where
  "check_ref_format S branch =
     call (git_run S [''check-ref-format'', ''--branch'', branch]) (wrapf ''validate default branch'') ret"

definition git_Init :: "'w git_service \<Rightarrow> uuid \<Rightarrow> string \<Rightarrow> ('w, unit) op" where
  "git_Init S rid defaultBranch =
     call (check_ref_format S defaultBranch) (\<lambda>e. e) (\<lambda>_.
     call (gs_Prepare S rid) (wrapf ''prepare repository path'') (\<lambda>path.
     call (git_run S [''init'', ''--bare'', ''--initial-branch='' @ defaultBranch, path])
       (wrapf ''initialize repository'') ret))"

section \<open>References\<close>

record git_ref =
  ref_SHA :: string
  ref_Name :: string
  ref_Type :: string

text \<open>
  \<open>bufio.Scanner\<close> with \<open>ScanLines\<close>: the lines without their end-of-line bytes, up to the
  first that does not fit its buffer of 64 KiB, and whether there was one.
\<close>

definition scan_limit :: nat where "scan_limit = 65536"

definition output_lines :: "string \<Rightarrow> string list" where
  "output_lines s = (let ls = split_on newline s in if last ls = [] then butlast ls else ls)"

definition scan_lines :: "string \<Rightarrow> string list \<times> bool" where
  "scan_lines s =
     (map (trim_suffix_byte (CHR 0x0D)) (takeWhile (\<lambda>l. length l < scan_limit) (output_lines s)),
      list_ex (\<lambda>l. scan_limit \<le> length l) (output_lines s))"

definition parse_ref :: "string \<Rightarrow> err + git_ref" where
  "parse_ref line =
     (case split_on nul line of
        [sha, name, kind] \<Rightarrow> Inr \<lparr>ref_SHA = sha, ref_Name = name, ref_Type = kind\<rparr>
      | _ \<Rightarrow> Inl (errorf ''parse repository refs: unexpected field count''))"

definition parse_refs :: "string \<Rightarrow> err + git_ref list" where
  "parse_refs output =
     (case scan_lines output of (lines, too_long) \<Rightarrow>
        (case traverse parse_ref lines of
           Inl e \<Rightarrow> Inl e
         | Inr refs \<Rightarrow> if too_long then Inl (wrapf ''scan repository refs'' (Opaque ''token too long'')) else Inr refs))"

definition git_Refs :: "'w git_service \<Rightarrow> uuid \<Rightarrow> ('w, git_ref list) op" where
  "git_Refs S rid =
     call (gs_Path S rid) (wrapf ''resolve repository path'') (\<lambda>path.
     call (git_runBounded S maxRefOutput
             [''--git-dir='' @ path, ''for-each-ref'',
              ''--format=%(objectname)%00%(refname)%00%(objecttype)''])
       (wrapf ''list repository refs'') (\<lambda>output.
     outcome (parse_refs output)))"

section \<open>The default branch\<close>

definition branch_ref :: "string \<Rightarrow> string" where
  "branch_ref branch = ''refs/heads/'' @ branch"

definition set_head :: "'w git_service \<Rightarrow> uuid \<Rightarrow> string \<Rightarrow> ('w, unit) op" where
  "set_head S rid branch =
     call (gs_Path S rid) (wrapf ''resolve repository path'') (\<lambda>path.
     call (git_run S [''--git-dir='' @ path, ''symbolic-ref'', ''HEAD'', branch_ref branch])
       (wrapf ''update repository HEAD'') ret)"

definition git_SetDefaultBranch :: "'w git_service \<Rightarrow> uuid \<Rightarrow> string \<Rightarrow> ('w, unit) op" where
  "git_SetDefaultBranch S rid branch =
     call (check_ref_format S branch) (\<lambda>e. e) (\<lambda>_.
     call (git_Refs S rid) (\<lambda>e. e) (\<lambda>refs.
     (let hasBranches = list_ex (\<lambda>r. prefix ''refs/heads/'' (ref_Name r)) refs;
          found = list_ex (\<lambda>r. ref_Name r = branch_ref branch) refs
      in fail_if (hasBranches \<and> \<not> found) (errorf ''branch does not exist'') (
         set_head S rid branch))))"

section \<open>The lifecycle\<close>

definition git_Quarantine :: "'w git_service \<Rightarrow> uuid \<Rightarrow> ('w, unit) op" where
  "git_Quarantine S rid =
     (case gs_lifecycle S of
        None \<Rightarrow> raise (errorf ''repository storage does not support quarantine'')
      | Some paths \<Rightarrow> lp_Quarantine paths rid)"

definition git_Restore :: "'w git_service \<Rightarrow> uuid \<Rightarrow> ('w, unit) op" where
  "git_Restore S rid =
     (case gs_lifecycle S of
        None \<Rightarrow> raise (errorf ''repository storage does not support restoration'')
      | Some paths \<Rightarrow> lp_Restore paths rid)"

definition git_Purge :: "'w git_service \<Rightarrow> uuid \<Rightarrow> ('w, unit) op" where
  "git_Purge S rid =
     (case gs_lifecycle S of
        None \<Rightarrow> raise (errorf ''repository storage does not support purge'')
      | Some paths \<Rightarrow> lp_Purge paths rid)"

section \<open>Receiving and sending packs\<close>

definition bool_text :: "bool \<Rightarrow> string" where
  "bool_text b = (if b then ''true'' else ''false'')"

fun configure_each :: "'w git_service \<Rightarrow> string \<Rightarrow> (string \<times> bool) list \<Rightarrow> ('w, unit) op" where
  "configure_each S path [] = ret ()"
| "configure_each S path ((key, value) # settings) =
     call (git_run S [''--git-dir='' @ path, ''config'', ''--bool'', key, bool_text value])
       (wrapf (''configure '' @ key)) (\<lambda>_. configure_each S path settings)"

definition git_SetReceiveProtection :: "'w git_service \<Rightarrow> uuid \<Rightarrow> bool \<Rightarrow> bool \<Rightarrow> ('w, unit) op" where
  "git_SetReceiveProtection S rid denyForcePush denyDeletes =
     call (gs_Path S rid) (wrapf ''resolve repository path'') (\<lambda>path.
     configure_each S path
       [(''receive.denyNonFastForwards'', denyForcePush), (''receive.denyDeletes'', denyDeletes)])"

definition packArgs :: "string \<Rightarrow> string list \<Rightarrow> string list" where
  "packArgs operation args =
     [''-c'', ''transfer.hideRefs=refs/adenosine'',
      ''-c'', ''uploadpack.hideRefs=refs/adenosine'',
      ''-c'', ''receive.hideRefs=refs/adenosine'',
      operation] @ args"

record pack_options =
  po_AdvertiseRefs :: bool
  po_Protocol :: string

definition protocol_environment :: "string \<Rightarrow> err + string list" where
  "protocol_environment protocol =
     (if protocol = [] then Inr []
      else if protocol \<noteq> ''version=1'' \<and> protocol \<noteq> ''version=2'' then Inl (errorf ''unsupported Git protocol'')
      else Inr [''GIT_PROTOCOL='' @ protocol])"

definition runPack :: "'w git_service \<Rightarrow> string \<Rightarrow> uuid \<Rightarrow> string \<Rightarrow> pack_options \<Rightarrow> ('w, unit) op" where
  "runPack S operation rid input options =
     call (gs_Path S rid) (wrapf ''resolve repository path'') (\<lambda>path.
     call (outcome (protocol_environment (po_Protocol options))) (\<lambda>e. e) (\<lambda>environment.
     call (git_runWithEnv S
             (packArgs operation [''--stateless-rpc'']
                @ (if po_AdvertiseRefs options then [''--advertise-refs''] else []) @ [path])
             input environment)
       (wrapf (''git '' @ operation)) ret))"

definition runSessionPack :: "'w git_service \<Rightarrow> string \<Rightarrow> uuid \<Rightarrow> string \<Rightarrow> string \<Rightarrow> ('w, unit) op" where
  "runSessionPack S operation rid input protocol =
     call (gs_Path S rid) (wrapf ''resolve repository path'') (\<lambda>path.
     call (outcome (protocol_environment protocol)) (\<lambda>e. e) (\<lambda>environment.
     call (git_runWithEnv S (packArgs operation [] @ [path]) input environment)
       (wrapf (''git '' @ operation @ '' session'')) ret))"

definition UploadPack :: "'w git_service \<Rightarrow> uuid \<Rightarrow> string \<Rightarrow> pack_options \<Rightarrow> ('w, unit) op" where
  "UploadPack S = runPack S ''upload-pack''"

definition ReceivePack :: "'w git_service \<Rightarrow> uuid \<Rightarrow> string \<Rightarrow> pack_options \<Rightarrow> ('w, unit) op" where
  "ReceivePack S = runPack S ''receive-pack''"

definition UploadPackSession :: "'w git_service \<Rightarrow> uuid \<Rightarrow> string \<Rightarrow> string \<Rightarrow> ('w, unit) op" where
  "UploadPackSession S = runSessionPack S ''upload-pack''"

definition ReceivePackSession :: "'w git_service \<Rightarrow> uuid \<Rightarrow> string \<Rightarrow> string \<Rightarrow> ('w, unit) op" where
  "ReceivePackSession S = runSessionPack S ''receive-pack''"

section \<open>Parsing what was printed\<close>

lemma split_on_no: "d \<notin> set s \<Longrightarrow> split_on d s = [s]"
  by (induction s) auto

lemma split_on_cons: "d \<notin> set s \<Longrightarrow> split_on d (s @ d # t) = s # split_on d t"
  by (induction s) auto

lemma output_lines_concat:
  assumes "\<And>l. l \<in> set ls \<Longrightarrow> newline \<notin> set l"
  shows "output_lines (concat (map (\<lambda>l. l @ [newline]) ls)) = ls"
proof -
  have "split_on newline (concat (map (\<lambda>l. l @ [newline]) ls)) = ls @ [[]]"
    using assms by (induction ls) (simp_all add: split_on_cons)
  then show ?thesis by (simp add: output_lines_def)
qed

text \<open>What \<open>for-each-ref\<close> prints of a reference with the format the service asks for.\<close>

definition ref_line :: "git_ref \<Rightarrow> string" where
  "ref_line r = ref_SHA r @ nul # ref_Name r @ nul # ref_Type r"

definition printable_ref :: "git_ref \<Rightarrow> bool" where
  "printable_ref r \<longleftrightarrow>
     set (ref_SHA r @ ref_Name r @ ref_Type r) \<inter> {nul, newline, CHR 0x0D} = {}
     \<and> length (ref_line r) < scan_limit"

lemma trim_suffix_byte_none: "c \<notin> set s \<Longrightarrow> trim_suffix_byte c s = s"
  by (auto simp: trim_suffix_byte_def)

lemma parse_ref_line: "printable_ref r \<Longrightarrow> parse_ref (ref_line r) = Inr r"
  by (auto simp: parse_ref_def ref_line_def printable_ref_def split_on_cons split_on_no)

lemma scan_ref_lines:
  assumes "\<And>r. r \<in> set refs \<Longrightarrow> printable_ref r"
  shows "scan_lines (concat (map (\<lambda>r. ref_line r @ [newline]) refs)) = (map ref_line refs, False)"
proof -
  have lines: "output_lines (concat (map (\<lambda>l. l @ [newline]) (map ref_line refs))) = map ref_line refs"
    by (rule output_lines_concat) (use assms in \<open>auto simp: printable_ref_def ref_line_def\<close>)
  have short: "\<forall>l \<in> set (map ref_line refs). length l < scan_limit \<and> CHR 0x0D \<notin> set l"
    using assms by (auto simp: printable_ref_def ref_line_def)
  then have "map (trim_suffix_byte (CHR 0x0D)) (map ref_line refs) = map ref_line refs"
    by (intro map_idI) (auto simp: trim_suffix_byte_none)
  moreover have "takeWhile (\<lambda>l. length l < scan_limit) (map ref_line refs) = map ref_line refs"
    using short by (simp add: takeWhile_eq_all_conv)
  ultimately show ?thesis
    using lines short by (auto simp only: scan_lines_def list_ex_iff map_map comp_def not_le)
qed

lemma parse_refs_roundtrip:
  assumes "\<And>r. r \<in> set refs \<Longrightarrow> printable_ref r"
  shows "parse_refs (concat (map (\<lambda>r. ref_line r @ [newline]) refs)) = Inr refs"
  using assms by (simp add: parse_refs_def scan_ref_lines traverse_map parse_ref_line)

end
