(* ===== verification/Git_Merge.thy ===== *)
theory Git_Merge imports Git_Service begin

text \<open>
  \<^verbatim>\<open>internal/git/merge.go\<close>: a merge commit computed in an isolated repository that borrows the
  objects, and one compare-and-swap of the target branch. \<open>validateBranch\<close> is in
  \<^verbatim>\<open>internal/git/remote.go\<close>. A time is an instant and the offset of its zone in seconds.
\<close>

section \<open>Text\<close>

abbreviation contains :: "string \<Rightarrow> string \<Rightarrow> bool" where
  "contains s p \<equiv> index_string p s \<noteq> None"

fun digits :: "nat \<Rightarrow> string" where
  "digits n = (if n < 10 then [char_of (48 + n)] else digits (n div 10) @ [char_of (48 + n mod 10)])"

declare digits.simps [simp del]

text \<open>\<open>strconv.FormatInt(n, 10)\<close>, and an integer of at least two digits.\<close>

definition decimal :: "int \<Rightarrow> string" where
  "decimal n = (if n < 0 then CHR ''-'' # digits (nat (- n)) else digits (nat n))"

definition two_digits :: "int \<Rightarrow> string" where
  "two_digits n = (if n < 10 then CHR ''0'' # decimal n else decimal n)"

definition validateBranch :: "string \<Rightarrow> err option" where
  "validateBranch branch =
     (let invalid = because git_ErrRemoteInput ''invalid source branch''
      in if branch = [] \<or> branch = ''@'' \<or> int (length branch) > 1024 \<or> prefix ''-'' branch \<or> prefix ''/'' branch
            \<or> suffix ''/'' branch \<or> contains branch ''..'' \<or> contains branch ''//''
            \<or> contains branch (CHR 0x40 # ''{'') \<or> suffix ''.'' branch \<or> suffix ''.lock'' branch then Some invalid
         else if list_ex (\<lambda>component. prefix ''.'' component \<or> suffix ''.lock'' component)
                   (split_on (CHR ''/'') branch) then Some invalid
         else if list_ex (\<lambda>r. r \<le> 32 \<or> r = 127 \<or> r \<in> set (map byte (CHR 0x5C # ''~^:?*['')))
                   (runes branch) then Some invalid
         else None)"

section \<open>Requests\<close>

datatype merge_strategy = MergeCommit | MergeSquash | Merge_Strategy_Other string

record merge_identity =
  mi_Name :: string
  mi_Email :: string
  mi_Time :: instant
  mi_offset :: int

record merge_request =
  mr_TargetBranch :: string
  mr_ExpectedTargetSHA :: string
  mr_HeadSHA :: string
  mr_Strategy :: merge_strategy
  mr_Message :: string
  mr_Author :: merge_identity
  mr_Committer :: merge_identity

record merge_result =
  res_OldSHA :: string
  res_NewSHA :: string
  res_HeadSHA :: string
  res_TreeSHA :: string
  res_TargetRef :: string
  res_Strategy :: merge_strategy

text \<open>\<open>time.Time.Year\<close> of a number of days since the first of January of year 1.\<close>

definition civil_year :: "int \<Rightarrow> int" where
  "civil_year days =
     (let n400 = days div 146097; d400 = days mod 146097;
          n100 = min 3 (d400 div 36524); d100 = d400 - n100 * 36524;
          n4 = d100 div 1461; d4 = d100 mod 1461;
          n1 = min 3 (d4 div 365)
      in 400 * n400 + 100 * n100 + 4 * n4 + n1 + 1)"

definition local_seconds :: "merge_identity \<Rightarrow> int" where
  "local_seconds i = mi_Time i div 1000000000 + mi_offset i"

definition validateMergeIdentity :: "merge_identity \<Rightarrow> err option" where
  "validateMergeIdentity i =
     (let invalid = Sentinel git_ErrMergeInput; year = civil_year (local_seconds i div 86400)
      in if mi_Name i = [] \<or> mi_Email i = [] \<or> int (length (mi_Name i)) > 1024 \<or> int (length (mi_Email i)) > 1024
            \<or> \<not> valid_string (mi_Name i) \<or> \<not> valid_string (mi_Email i) then Some invalid
         else if trim_space (mi_Name i) \<noteq> mi_Name i \<or> trim_space (mi_Email i) \<noteq> mi_Email i
            \<or> list_ex (\<lambda>c. c \<in> set ''<>'') (mi_Name i) \<or> list_ex (\<lambda>c. c \<in> set ''<>'') (mi_Email i) then Some invalid
         else if list_ex (\<lambda>r. r < 32 \<or> r = 127) (runes (mi_Name i @ mi_Email i)) then Some invalid
         else if mi_Time i = 0 \<or> year < 1 \<or> year > 9999 then Some invalid
         else if mi_offset i < - (14 * 60 * 60) \<or> mi_offset i > 14 * 60 * 60 \<or> mi_offset i mod 60 \<noteq> 0 then Some invalid
         else None)"

definition validateMergeRequest :: "merge_request \<Rightarrow> err option" where
  "validateMergeRequest r =
     (if validateBranch (mr_TargetBranch r) \<noteq> None \<or> \<not> valid_string (mr_TargetBranch r)
      then Some (because git_ErrMergeInput ''invalid target branch'')
      else if mr_Strategy r \<noteq> MergeCommit \<and> mr_Strategy r \<noteq> MergeSquash
      then Some (because git_ErrMergeInput ''unsupported merge strategy'')
      else if mr_Message r = [] \<or> int (length (mr_Message r)) > 1024 * 1024 \<or> \<not> valid_string (mr_Message r)
         \<or> nul \<in> set (mr_Message r)
      then Some (because git_ErrMergeInput ''invalid merge message'')
      else case validateMergeIdentity (mr_Author r) of
          Some e \<Rightarrow> Some (wrapf ''invalid author'' e)
        | None \<Rightarrow> map_option (wrapf ''invalid committer'') (validateMergeIdentity (mr_Committer r)))"

definition lower_hex :: "char \<Rightarrow> bool" where
  "lower_hex c \<longleftrightarrow> is_digit c \<or> in_range 97 102 (byte c)"

definition validateMergeSHA :: "string \<Rightarrow> int \<Rightarrow> err option" where
  "validateMergeSHA sha expectedLength =
     (if int (length sha) \<noteq> expectedLength
      then Some (because git_ErrMergeInput ''SHA length does not match repository object format'')
      else if \<not> list_all lower_hex sha then Some (because git_ErrMergeInput ''SHA must be lowercase hexadecimal'')
      else None)"

section \<open>Commands\<close>

definition git_objectFormat :: "'w git_service \<Rightarrow> string \<Rightarrow> ('w, string \<times> int) op" where
  "git_objectFormat S repositoryPath =
     call (git_runBounded S maxMetadataOutput [''--git-dir='' @ repositoryPath, ''rev-parse'', ''--show-object-format''])
       (wrapf ''determine merge object format'') (\<lambda>output.
     call (outcome (singleLine output)) (wrapf ''parse merge object format'') (\<lambda>format.
     if format = ''sha1'' then ret (format, 40)
     else if format = ''sha256'' then ret (format, 64)
     else raise (because git_ErrMergeInput ''unsupported object format'')))"

definition resolveMergeCommit :: "'w git_service \<Rightarrow> string \<Rightarrow> string \<Rightarrow> ('w, string) op" where
  "resolveMergeCommit S repositoryPath revision =
     attempt (git_resolve S repositoryPath (revision @ ''^{commit}''))
       (\<lambda>e. call (gs_ctx_Err S) (\<lambda>_. e) (\<lambda>_.
            fail_if (\<not> errors_is e git_ErrObjectNotFound) e (
            attempt (git_resolve S repositoryPath (revision @ ''^{object}''))
              (\<lambda>_. raise (Sentinel git_ErrObjectNotFound))
              (\<lambda>_. raise (because git_ErrMergeInput ''object is not a commit'')))))
       ret"

definition git_config :: "string \<Rightarrow> string" where
  "git_config objectFormat =
     (let tab = [CHR 0x09]; nl = [newline]
      in if objectFormat = ''sha256'' then
           ''[core]'' @ nl @ tab @ ''repositoryformatversion = 1'' @ nl @ tab @ ''bare = true'' @ nl
             @ ''[extensions]'' @ nl @ tab @ ''objectformat = sha256'' @ nl
         else ''[core]'' @ nl @ tab @ ''repositoryformatversion = 0'' @ nl @ tab @ ''bare = true'' @ nl)"

definition isolatedBareRepository :: "'w git_service \<Rightarrow> string \<Rightarrow> ('w, string) op" where
  "isolatedBareRepository S objectFormat =
     (let T = gs_temporary S in
      call (tf_MkdirTemp T) (\<lambda>e. e) (\<lambda>directory.
      (let cleaning = (\<lambda>e. ignoring (tf_RemoveAll T directory) (raise e)) in
       attempt (tf_Mkdir T (directory @ ''/objects'')) cleaning (\<lambda>_.
       attempt (tf_Mkdir T (directory @ ''/refs'')) cleaning (\<lambda>_.
       attempt (tf_WriteFile T (directory @ ''/config'') (git_config objectFormat)) cleaning (\<lambda>_.
       attempt (tf_WriteFile T (directory @ ''/HEAD'') (''ref: refs/heads/isolated'' @ [newline])) cleaning (\<lambda>_.
       ret directory)))))))"

definition hardenedMergeArgs :: "string \<Rightarrow> string list \<Rightarrow> string list" where
  "hardenedMergeArgs gitDir commandAndArgs =
     [''--git-dir='' @ gitDir,
      ''-c'', ''core.hooksPath=/dev/null'', ''-c'', ''core.attributesFile=/dev/null'',
      ''-c'', ''core.fsmonitor=false'', ''-c'', ''commit.gpgSign=false'', ''-c'', ''diff.external='',
      ''-c'', ''diff.trustExitCode=false'', ''-c'', ''merge.renormalize=false'',
      ''-c'', ''merge.renames=false'', ''-c'', ''user.useConfigOnly=true''] @ commandAndArgs"

text \<open>\<open>value.Unix()\<close> and \<open>value.Format("-0700")\<close>.\<close>

definition gitIdentityTime :: "merge_identity \<Rightarrow> string" where
  "gitIdentityTime i =
     (let minutes = \<bar>mi_offset i\<bar> div 60
      in decimal (mi_Time i div 1000000000 - 62135596800) @ '' ''
           @ (if mi_offset i \<le> - 60 then ''-'' else ''+'')
           @ two_digits (minutes div 60) @ two_digits (minutes mod 60))"

definition mergeIdentityEnvironment :: "merge_request \<Rightarrow> string list" where
  "mergeIdentityEnvironment r =
     [''GIT_AUTHOR_NAME='' @ mi_Name (mr_Author r), ''GIT_AUTHOR_EMAIL='' @ mi_Email (mr_Author r),
      ''GIT_AUTHOR_DATE='' @ gitIdentityTime (mr_Author r),
      ''GIT_COMMITTER_NAME='' @ mi_Name (mr_Committer r), ''GIT_COMMITTER_EMAIL='' @ mi_Email (mr_Committer r),
      ''GIT_COMMITTER_DATE='' @ gitIdentityTime (mr_Committer r)]"

definition commandExitCode :: "err \<Rightarrow> int" where
  "commandExitCode e = (case as_command_error e of None \<Rightarrow> -1 | Some code \<Rightarrow> code)"

section \<open>The merge\<close>

text \<open>A computation in the isolated repository, where exit code 1 is a conflict.\<close>

definition isolated_command :: "'w git_service \<Rightarrow> git_command \<Rightarrow> (err \<Rightarrow> ('w, string list) op) \<Rightarrow> ('w, string) op" where
  "isolated_command S c failed =
     call (attempt (gs_exec S c) failed ret) (\<lambda>e. e) (\<lambda>chunks.
     fail_if (lb_truncated (bounded_output maxMetadataOutput chunks)) (Sentinel git_ErrOutputLimit) (
     ret (lb_buffer (bounded_output maxMetadataOutput chunks))))"

definition or_conflict :: "'w git_service \<Rightarrow> string \<Rightarrow> err \<Rightarrow> ('w, 'a) op" where
  "or_conflict S msg e =
     call (gs_ctx_Err S) (\<lambda>c. c) (\<lambda>_.
     raise (if commandExitCode e = 1 then Sentinel git_ErrMergeConflict else wrapf msg e))"

definition parse_sha :: "string \<Rightarrow> int \<Rightarrow> string \<Rightarrow> err + string" where
  "parse_sha msg shaLength output =
     (case singleLine output of
        Inl _ \<Rightarrow> Inl (because git_ErrInvalidInput msg)
      | Inr sha \<Rightarrow> if validateMergeSHA sha shaLength \<noteq> None then Inl (because git_ErrInvalidInput msg) else Inr sha)"

definition merge_parents :: "merge_strategy \<Rightarrow> string \<Rightarrow> string \<Rightarrow> string list" where
  "merge_parents strategy targetSHA headSHA =
     [''-p'', targetSHA] @ (if strategy = MergeCommit then [''-p'', headSHA] else [])"

definition create_commit ::
  "'w git_service \<Rightarrow> merge_request \<Rightarrow> string list \<Rightarrow> string \<Rightarrow> int \<Rightarrow> string \<Rightarrow> string \<Rightarrow> ('w, string \<times> string) op" where
  "create_commit S r objects isolated shaLength targetSHA headSHA =
     call (isolated_command S \<lparr>gc_args = hardenedMergeArgs isolated [''merge-base'', targetSHA, headSHA],
             gc_env = objects, gc_input = []\<rparr> (or_conflict S ''find merge base'')) (\<lambda>e. e) (\<lambda>base.
     call (outcome (parse_sha ''parse merge base'' shaLength base)) (\<lambda>e. e) (\<lambda>_.
     call (isolated_command S \<lparr>gc_args = hardenedMergeArgs isolated
               [''merge-tree'', ''--write-tree'', ''--no-messages'', targetSHA, headSHA],
             gc_env = objects, gc_input = []\<rparr> (or_conflict S ''compute merge tree'')) (\<lambda>e. e) (\<lambda>merged.
     call (outcome (parse_sha ''parse merge tree'' shaLength merged)) (\<lambda>e. e) (\<lambda>treeSHA.
     call (isolated_command S \<lparr>gc_args = hardenedMergeArgs isolated [''commit-tree'', treeSHA]
               @ merge_parents (mr_Strategy r) targetSHA headSHA @ [''-F'', ''-''],
             gc_env = objects @ mergeIdentityEnvironment r, gc_input = mr_Message r\<rparr>
             (\<lambda>e. raise (wrapf ''create merge commit'' e))) (\<lambda>e. e) (\<lambda>created.
     call (outcome (parse_sha ''parse merge commit'' shaLength created)) (\<lambda>e. e) (\<lambda>newSHA.
     ret (treeSHA, newSHA)))))))"

definition before_cas :: "'w git_service \<Rightarrow> ('w, 'a) op \<Rightarrow> ('w, 'a) op" where
  "before_cas S k = (case gs_beforeMergeCAS S of None \<Rightarrow> k | Some hook \<Rightarrow> ignoring hook k)"

definition update_ref :: "string \<Rightarrow> string \<Rightarrow> string \<Rightarrow> string \<Rightarrow> git_command" where
  "update_ref repositoryPath targetRef newSHA oldSHA =
     command [''--git-dir='' @ repositoryPath, ''update-ref'', ''--no-deref'', targetRef, newSHA, oldSHA]"

definition advance_target ::
  "'w git_service \<Rightarrow> string \<Rightarrow> string \<Rightarrow> string \<Rightarrow> string \<Rightarrow> ('w, unit) op" where
  "advance_target S repositoryPath targetRef newSHA targetSHA =
     attempt (git_run S (gc_args (update_ref repositoryPath targetRef newSHA targetSHA)))
       (\<lambda>e. call (gs_ctx_Err S) (\<lambda>c. c) (\<lambda>_.
            raise (Errorf ''advance merge target'' [Sentinel git_ErrMergeRefConflict, e] []))) ret"

definition merge_isolated ::
  "'w git_service \<Rightarrow> merge_request \<Rightarrow> string \<Rightarrow> string \<Rightarrow> int \<Rightarrow> string \<Rightarrow> string \<Rightarrow> string \<Rightarrow> ('w, merge_result) op" where
  "merge_isolated S r repositoryPath isolated shaLength targetRef targetSHA headSHA =
     call (create_commit S r [''GIT_OBJECT_DIRECTORY='' @ repositoryPath @ ''/objects''] isolated shaLength targetSHA headSHA)
       (\<lambda>e. e) (\<lambda>(treeSHA, newSHA).
     before_cas S (
     call (advance_target S repositoryPath targetRef newSHA targetSHA) (\<lambda>e. e) (\<lambda>_.
     ret \<lparr>res_OldSHA = targetSHA, res_NewSHA = newSHA, res_HeadSHA = headSHA, res_TreeSHA = treeSHA,
          res_TargetRef = targetRef, res_Strategy = mr_Strategy r\<rparr>)))"

definition git_Merge :: "'w git_service \<Rightarrow> uuid \<Rightarrow> merge_request \<Rightarrow> ('w, merge_result) op" where
  "git_Merge S rid r =
     check (validateMergeRequest r) (\<lambda>e. e) (
     call (git_repositoryPath S rid) (\<lambda>e. e) (\<lambda>repositoryPath.
     call (git_objectFormat S repositoryPath) (\<lambda>e. e) (\<lambda>(objectFormat, shaLength).
     check (validateMergeSHA (mr_ExpectedTargetSHA r) shaLength) (\<lambda>e. e) (
     check (validateMergeSHA (mr_HeadSHA r) shaLength) (\<lambda>e. e) (
     call (resolveMergeCommit S repositoryPath (branch_ref (mr_TargetBranch r)))
       (wrapf ''resolve merge target'') (\<lambda>targetSHA.
     fail_if (targetSHA \<noteq> mr_ExpectedTargetSHA r) (Sentinel git_ErrMergeRefConflict) (
     call (resolveMergeCommit S repositoryPath (mr_HeadSHA r)) (wrapf ''resolve merge head'') (\<lambda>headSHA.
     fail_if (headSHA \<noteq> mr_HeadSHA r) (because git_ErrMergeInput ''merge head did not resolve exactly'') (
     call (isolatedBareRepository S objectFormat) (wrapf ''prepare isolated merge repository'') (\<lambda>isolated.
     deferring (tf_RemoveAll (gs_temporary S) isolated)
       (merge_isolated S r repositoryPath isolated shaLength (branch_ref (mr_TargetBranch r)) targetSHA headSHA)))))))))))"

end
