(* ===== verification/Go_Parse.thy ===== *)
theory Go_Parse
  imports Git_Merge Org_Queries
begin

text \<open>
  More of Go's \<open>strings\<close>, \<open>strconv\<close>, \<open>bytes\<close> and \<open>path\<close>: the functions with which the Git
  service reads what Git prints.
\<close>

section \<open>Fields\<close>

text \<open>\<open>strings.Fields\<close>: the maximal runs of runes that are not white space.\<close>

fun fields_from :: "string \<Rightarrow> string \<Rightarrow> string list" where
  "fields_from word [] = (if word = [] then [] else [word])"
| "fields_from word (c # cs) =
     (let n = snd (decode_rune (c # cs)) - 1
      in if is_space (fst (decode_rune (c # cs)))
         then (if word = [] then [] else [word]) @ fields_from [] (drop n cs)
         else fields_from (word @ c # take n cs) (drop n cs))"

definition strings_Fields :: "string \<Rightarrow> string list" where
  "strings_Fields s = fields_from [] s"

text \<open>A visible ASCII byte: neither white space nor a control character.\<close>

definition visible :: "char \<Rightarrow> bool" where
  "visible c \<longleftrightarrow> in_range 33 126 (byte c)"

lemma visible_facts:
  assumes "visible c"
  shows "byte c < 128" and "\<not> is_space (byte c)" and "c \<noteq> CHR 0x20" and "c \<noteq> nul" and "c \<noteq> newline" and "c \<noteq> CHR 0x09"
  using assms by (auto simp: visible_def in_range_def is_space_def)

lemma fields_word: "list_all visible s \<Longrightarrow> fields_from word (s @ t) = fields_from (word @ s) t"
  by (induction s arbitrary: word) (simp_all add: visible_facts)

lemma space_is_space: "is_space (byte (CHR 0x20))"
  by (simp add: is_space_def)

lemma fields_blank: "fields_from [] (replicate n (CHR 0x20) @ t) = fields_from [] t"
  by (induction n) (simp_all add: space_is_space [simplified])

lemma fields_end: "word \<noteq> [] \<Longrightarrow> fields_from word (CHR 0x20 # t) = word # fields_from [] t"
  by (simp add: space_is_space [simplified])

section \<open>Integers\<close>

text \<open>\<open>strconv.ParseInt(s, 10, 64)\<close>, and \<open>strconv.Atoi\<close>: no integer where they return an error.\<close>

definition digits_value :: "nat \<Rightarrow> string \<Rightarrow> nat" where
  "digits_value n s = foldl (\<lambda>n c. 10 * n + (byte c - 48)) n s"

definition parse_digits :: "string \<Rightarrow> nat option" where
  "parse_digits s = (if s = [] \<or> \<not> list_all is_digit s then None else Some (digits_value 0 s))"

definition parse_int64 :: "string \<Rightarrow> int option" where
  "parse_int64 s =
     (let negative = prefix ''-'' s;
          body = (if prefix ''-'' s \<or> prefix ''+'' s then tl s else s)
      in case parse_digits body of
           None \<Rightarrow> None
         | Some n \<Rightarrow> if negative then (if int n \<le> 2 ^ 63 then Some (- int n) else None)
                     else (if int n < 2 ^ 63 then Some (int n) else None))"

lemma digit_char: "n < 10 \<Longrightarrow> byte (char_of (48 + n) :: char) = 48 + n"
  by (simp add: of_char_of)

lemma digits_are_digits: "digits n \<noteq> [] \<and> list_all is_digit (digits n)"
proof (induction n rule: digits.induct)
  case (1 n)
  have "is_digit (char_of (48 + m))" if "m < 10" for m :: nat
    using that by (simp add: is_digit_def in_range_def digit_char)
  then show ?case using 1 by (subst (1 2) digits.simps) (auto simp: list_all_append)
qed

lemma digits_value_digits: "digits_value 0 (digits n) = n"
proof (induction n rule: digits.induct)
  case (1 n)
  then show ?case
    by (subst digits.simps) (auto simp: digits_value_def digit_char)
qed

lemma parse_digits_digits: "parse_digits (digits n) = Some n"
  using digits_are_digits by (simp add: parse_digits_def digits_value_digits)

lemma digits_no_sign: "\<not> prefix ''-'' (digits n)" "\<not> prefix ''+'' (digits n)"
  using digits_are_digits [of n] by (cases "digits n"; auto simp: is_digit_def in_range_def)+

lemma parse_int64_decimal: "0 \<le> n \<Longrightarrow> n < 2 ^ 63 \<Longrightarrow> parse_int64 (decimal n) = Some n"
  by (simp add: parse_int64_def decimal_def parse_digits_digits digits_no_sign Let_def)

lemma parse_int64_bounds: "parse_int64 s = Some n \<Longrightarrow> - (2 ^ 63) \<le> n \<and> n < 2 ^ 63"
  by (auto simp: parse_int64_def Let_def split: option.splits if_splits)

section \<open>Comparing bytes\<close>

text \<open>\<open>bytes.Compare(a, b) < 0\<close>\<close>

fun bytes_less :: "string \<Rightarrow> string \<Rightarrow> bool" where
  "bytes_less _ [] = False"
| "bytes_less [] (_ # _) = True"
| "bytes_less (a # as) (b # bs) = (byte a < byte b \<or> byte a = byte b \<and> bytes_less as bs)"

lemma bytes_less_total: "\<not> bytes_less a b \<or> \<not> bytes_less b a"
  by (induction a b rule: bytes_less.induct) auto

lemma bytes_less_trans:
  "\<not> bytes_less b a \<Longrightarrow> \<not> bytes_less c b \<Longrightarrow> \<not> bytes_less c a"
proof (induction a c arbitrary: b rule: bytes_less.induct)
  case (1 u)
  then show ?case by (cases b; cases u) auto
next
  case (3 x xs y ys)
  then show ?case by (cases b) auto
qed simp

lemma bytes_less_antisym: "\<not> bytes_less a b \<Longrightarrow> \<not> bytes_less b a \<Longrightarrow> a = b"
  by (induction a b rule: bytes_less.induct) (auto split: list.splits elim: bytes_less.elims)

section \<open>Positions\<close>

lemma contains_char: "index_string [c] s = None \<longleftrightarrow> c \<notin> set s"
  by (induction s) auto

lemma index_byte_first: "d \<notin> set s \<Longrightarrow> index_byte d (s @ d # t) = Some (length s)"
  by (induction s) auto

section \<open>Paths\<close>

text \<open>\<open>strings.Join\<close>\<close>

fun joined :: "string \<Rightarrow> string list \<Rightarrow> string" where
  "joined sep [] = []"
| "joined sep [s] = s"
| "joined sep (s # ss) = s @ sep @ joined sep ss"

lemma split_on_joined:
  "ss \<noteq> [] \<Longrightarrow> (\<And>s. s \<in> set ss \<Longrightarrow> d \<notin> set s) \<Longrightarrow> split_on d (joined [d] ss) = ss"
  by (induction "[d]" ss rule: joined.induct) (auto simp: split_on_no split_on_cons)

text \<open>\<open>path.Clean\<close>: the elements of the path, with \<open>.\<close> dropped and \<open>..\<close> taking back the one before it.\<close>

definition clean_element :: "bool \<Rightarrow> string list \<Rightarrow> string \<Rightarrow> string list" where
  "clean_element rooted elements e =
     (if e = [] \<or> e = ''.'' then elements
      else if e = ''..'' then
        (if elements \<noteq> [] \<and> last elements \<noteq> ''..'' then butlast elements
         else if rooted then elements else elements @ [e])
      else elements @ [e])"

definition path_Clean :: "string \<Rightarrow> string" where
  "path_Clean p =
     (if p = [] then ''.''
      else let rooted = prefix ''/'' p;
               elements = foldl (clean_element rooted) [] (split_on (CHR ''/'') p)
           in if rooted then CHR ''/'' # joined ''/'' elements
              else if elements = [] then ''.'' else joined ''/'' elements)"

definition path_Join :: "string \<Rightarrow> string \<Rightarrow> string" where
  "path_Join a b =
     (if a = [] then (if b = [] then [] else path_Clean b) else path_Clean (a @ CHR ''/'' # b))"

definition plain_element :: "string \<Rightarrow> bool" where
  "plain_element e \<longleftrightarrow> e \<noteq> [] \<and> e \<noteq> ''.'' \<and> e \<noteq> ''..''"

lemma clean_plain: "list_all plain_element es \<Longrightarrow> foldl (clean_element rooted) acc es = acc @ es"
  by (induction es arbitrary: acc) (auto simp: clean_element_def plain_element_def)

lemma joined_split_on: "joined [d] (split_on d s) = s"
proof (induction s)
  case (Cons c s)
  then show ?case by (cases "split_on d s"; cases "tl (split_on d s)") auto
qed simp

lemma path_Clean_plain:
  assumes "p \<noteq> []" and "list_all plain_element (split_on (CHR ''/'') p)"
  shows "path_Clean p = p"
proof -
  have "\<not> prefix ''/'' p" using assms(2) by (cases p) (auto simp: plain_element_def)
  then show ?thesis
    using assms joined_split_on [of "CHR ''/''" p] by (simp add: path_Clean_def clean_plain)
qed

lemma split_on_append: "split_on d (a @ d # b) = split_on d a @ split_on d b"
  by (induction a) (auto split: list.splits)

lemma path_Join_plain:
  assumes "a = [] \<or> list_all plain_element (split_on (CHR ''/'') a)"
    and "plain_element b" and "CHR ''/'' \<notin> set b"
  shows "path_Join a b = (if a = [] then b else a @ CHR ''/'' # b)"
proof -
  have b: "b \<noteq> []" "split_on (CHR ''/'') b = [b]"
    using assms(2,3) by (auto simp: plain_element_def split_on_no)
  show ?thesis
    using assms(1,2) b path_Clean_plain [of b] path_Clean_plain [of "a @ CHR ''/'' # b"]
    by (auto simp: path_Join_def split_on_append list_all_append)
qed

text \<open>
  \<open>time.Parse(time.RFC3339, s)\<close>: the instant and the offset of the zone in seconds. As in Go, the hour may
  have one digit, and a fraction of a second may follow the seconds although the layout has none.
\<close>

section \<open>The calendar\<close>

definition leap_year :: "int \<Rightarrow> bool" where
  "leap_year y \<longleftrightarrow> y mod 4 = 0 \<and> (y mod 100 \<noteq> 0 \<or> y mod 400 = 0)"

definition month_days :: "int \<Rightarrow> int list" where
  "month_days y = [31, if leap_year y then 29 else 28, 31, 30, 31, 30, 31, 31, 30, 31, 30, 31]"

text \<open>Days from the first of January of year 1.\<close>

definition days_before_year :: "int \<Rightarrow> int" where
  "days_before_year y = (let p = y - 1 in 365 * p + p div 4 - p div 100 + p div 400)"

definition days_of_date :: "int \<Rightarrow> nat \<Rightarrow> int \<Rightarrow> int" where
  "days_of_date y m d = days_before_year y + sum_list (take (m - 1) (month_days y)) + (d - 1)"

section \<open>Parsing\<close>

text \<open>A number of exactly so many digits, and what follows it.\<close>

definition fixed_digits :: "nat \<Rightarrow> string \<Rightarrow> (int \<times> string) option" where
  "fixed_digits n s =
     (if length (take n s) = n \<and> list_all is_digit (take n s) \<and> 0 < n
      then Some (int (digits_value 0 (take n s)), drop n s) else None)"

definition hour_digits :: "string \<Rightarrow> (int \<times> string) option" where
  "hour_digits s = (case fixed_digits 2 s of Some r \<Rightarrow> Some r | None \<Rightarrow> fixed_digits 1 s)"

definition after_char :: "char \<Rightarrow> string \<Rightarrow> string option" where
  "after_char c s = (case s of [] \<Rightarrow> None | d # ds \<Rightarrow> if d = c then Some ds else None)"

text \<open>Nanoseconds: the first nine digits after a point or a comma.\<close>

definition fraction :: "string \<Rightarrow> int \<times> string" where
  "fraction s =
     (case s of
        p # ds \<Rightarrow>
          if (p = CHR ''.'' \<or> p = CHR '','') \<and> ds \<noteq> [] \<and> is_digit (hd ds)
          then (let ns = take 9 (takeWhile is_digit ds)
                in (int (digits_value 0 (ns @ replicate (9 - length ns) (CHR ''0''))), dropWhile is_digit ds))
          else (0, s)
      | [] \<Rightarrow> (0, s))"

definition zone_offset :: "string \<Rightarrow> int option" where
  "zone_offset s =
     (case s of
        [] \<Rightarrow> None
      | sign # rest \<Rightarrow>
          if s = ''Z'' then Some 0
          else if sign \<noteq> CHR ''+'' \<and> sign \<noteq> CHR ''-'' then None
          else (case fixed_digits 2 rest of
                  None \<Rightarrow> None
                | Some (h, rest1) \<Rightarrow>
                    (case Option.bind (after_char (CHR '':'') rest1) (fixed_digits 2) of
                       Some (m, []) \<Rightarrow>
                         if h \<le> 24 \<and> m \<le> 60
                         then Some ((if sign = CHR ''-'' then - 1 else 1) * (h * 3600 + m * 60)) else None
                     | _ \<Rightarrow> None)))"

definition parse_date :: "string \<Rightarrow> (int \<times> string) option" where
  "parse_date s =
     (case fixed_digits 4 s of
        None \<Rightarrow> None
      | Some (y, s1) \<Rightarrow>
          (case Option.bind (after_char (CHR ''-'') s1) (fixed_digits 2) of
             None \<Rightarrow> None
           | Some (m, s2) \<Rightarrow>
               (case Option.bind (after_char (CHR ''-'') s2) (fixed_digits 2) of
                  None \<Rightarrow> None
                | Some (d, s3) \<Rightarrow>
                    if m < 1 \<or> 12 < m then None
                    else if d < 1 \<or> month_days y ! nat (m - 1) < d then None
                    else Some (days_of_date y (nat m) d, s3))))"

definition parse_clock :: "string \<Rightarrow> (int \<times> string) option" where
  "parse_clock s =
     (case hour_digits s of
        None \<Rightarrow> None
      | Some (h, s1) \<Rightarrow>
          (case Option.bind (after_char (CHR '':'') s1) (fixed_digits 2) of
             None \<Rightarrow> None
           | Some (m, s2) \<Rightarrow>
               (case Option.bind (after_char (CHR '':'') s2) (fixed_digits 2) of
                  None \<Rightarrow> None
                | Some (sec, s3) \<Rightarrow>
                    if 23 < h \<or> 59 < m \<or> 59 < sec then None else Some (h * 3600 + m * 60 + sec, s3))))"

definition parse_rfc3339 :: "string \<Rightarrow> (instant \<times> int) option" where
  "parse_rfc3339 s =
     (case parse_date s of
        None \<Rightarrow> None
      | Some (days, s1) \<Rightarrow>
          (case Option.bind (after_char (CHR ''T'') s1) parse_clock of
             None \<Rightarrow> None
           | Some (seconds, s2) \<Rightarrow>
               (case fraction s2 of (nanoseconds, s3) \<Rightarrow>
                  (case zone_offset s3 of
                     None \<Rightarrow> None
                   | Some offset \<Rightarrow>
                       Some ((days * 86400 + seconds - offset) * 1000000000 + nanoseconds, offset)))))"

lemma parse_rfc3339_examples:
  "parse_rfc3339 ''0001-01-01T00:00:00Z'' = Some (0, 0)"
  "parse_rfc3339 ''1970-01-01T00:00:00Z'' = Some (62135596800000000000, 0)"
  "parse_rfc3339 ''2024-02-29T12:30:01+02:00'' = Some (63844799401000000000, 7200)"
  "parse_rfc3339 ''2023-02-29T12:30:01Z'' = None"
  by code_simp+

end
