(* ===== verification/Go_Net.thy ===== *)
theory Go_Net imports Go_Parse begin

text \<open>
  Addresses and URLs of Go's \<open>net\<close>, \<open>net/netip\<close> and \<open>net/url\<close>: the functions with which the
  program decides where a remote fetch may connect.

  A \<open>net.IP\<close> is a slice of bytes, of any length; a \<open>netip.Addr\<close> is a number of 32 or of 128 bits.
  Addresses with a zone do not occur: the program refuses host names with a percent sign.
\<close>

section \<open>Addresses\<close>

type_synonym net_ip = string

datatype ip_addr = V4 "32 word" | V6 "128 word"

definition bytes_value :: "string \<Rightarrow> int" where
  "bytes_value s = foldl (\<lambda>v c. 256 * v + of_char c) 0 s"

definition AddrFromSlice :: "net_ip \<Rightarrow> ip_addr option" where
  "AddrFromSlice s =
     (if length s = 4 then Some (V4 (word_of_int (bytes_value s)))
      else if length s = 16 then Some (V6 (word_of_int (bytes_value s))) else None)"

definition is4In6 :: "128 word \<Rightarrow> bool" where
  "is4In6 a \<longleftrightarrow> drop_bit 32 a = 0xFFFF"

fun addr_Unmap :: "ip_addr \<Rightarrow> ip_addr" where
  "addr_Unmap (V4 a) = V4 a"
| "addr_Unmap (V6 a) = (if is4In6 a then V4 (ucast a) else V6 a)"

text \<open>\<open>Prefix.Contains\<close>: addresses of one size whose leading bits agree.\<close>

fun in_prefix :: "ip_addr \<times> nat \<Rightarrow> ip_addr \<Rightarrow> bool" where
  "in_prefix (V4 p, n) (V4 a) = (drop_bit (32 - n) p = drop_bit (32 - n) a)"
| "in_prefix (V6 p, n) (V6 a) = (drop_bit (128 - n) p = drop_bit (128 - n) a)"
| "in_prefix _ _ = False"

definition addr_IsUnspecified :: "ip_addr \<Rightarrow> bool" where
  "addr_IsUnspecified a \<longleftrightarrow> a = V4 0 \<or> a = V6 0"

definition addr_IsLoopback :: "ip_addr \<Rightarrow> bool" where
  "addr_IsLoopback a \<longleftrightarrow> in_prefix (V4 0x7F000000, 8) a \<or> a = V6 1"

definition addr_IsMulticast :: "ip_addr \<Rightarrow> bool" where
  "addr_IsMulticast a \<longleftrightarrow> in_prefix (V4 0xE0000000, 4) a \<or> in_prefix (V6 (push_bit 120 0xFF), 8) a"

definition addr_IsLinkLocalUnicast :: "ip_addr \<Rightarrow> bool" where
  "addr_IsLinkLocalUnicast a \<longleftrightarrow> in_prefix (V4 0xA9FE0000, 16) a \<or> in_prefix (V6 (push_bit 112 0xFE80), 10) a"

definition addr_IsLinkLocalMulticast :: "ip_addr \<Rightarrow> bool" where
  "addr_IsLinkLocalMulticast a \<longleftrightarrow> in_prefix (V4 0xE0000000, 24) a
     \<or> (case a of V6 b \<Rightarrow> drop_bit 120 b = 0xFF \<and> take_bit 4 (drop_bit 112 b) = 2 | V4 _ \<Rightarrow> False)"

definition addr_IsPrivate :: "ip_addr \<Rightarrow> bool" where
  "addr_IsPrivate a \<longleftrightarrow> in_prefix (V4 0x0A000000, 8) a \<or> in_prefix (V4 0xAC100000, 12) a
     \<or> in_prefix (V4 0xC0A80000, 16) a \<or> in_prefix (V6 (push_bit 120 0xFC), 7) a"

definition addr_IsGlobalUnicast :: "ip_addr \<Rightarrow> bool" where
  "addr_IsGlobalUnicast a \<longleftrightarrow>
     a \<noteq> V4 0 \<and> a \<noteq> V4 0xFFFFFFFF \<and> a \<noteq> V6 0 \<and> \<not> addr_IsLoopback a \<and> \<not> addr_IsMulticast a
     \<and> \<not> addr_IsLinkLocalUnicast a"

section \<open>Addresses as text\<close>

definition v4_bytes :: "32 word \<Rightarrow> nat list" where
  "v4_bytes a = map (\<lambda>i. unat (take_bit 8 (drop_bit (24 - 8 * i) a))) [0..<4]"

definition v4_text :: "32 word \<Rightarrow> string" where
  "v4_text a = joined ''.'' (map digits (v4_bytes a))"

definition v6_groups :: "128 word \<Rightarrow> nat list" where
  "v6_groups a = map (\<lambda>i. unat (take_bit 16 (drop_bit (112 - 16 * i) a))) [0..<8]"

definition hex_char :: "nat \<Rightarrow> char" where
  "hex_char n = (if n < 10 then char_of (48 + n) else char_of (87 + n))"

fun hex_digits :: "nat \<Rightarrow> string" where
  "hex_digits n = (if n < 16 then [hex_char n] else hex_digits (n div 16) @ [hex_char (n mod 16)])"

declare hex_digits.simps [simp del]

text \<open>The first of the longest runs of two or more zero groups, as its bounds; (255, 255) if there is none.\<close>

definition zero_run :: "nat list \<Rightarrow> nat \<times> nat" where
  "zero_run gs =
     foldl (\<lambda>(start, stop) i.
        let l = length (takeWhile (\<lambda>g. g = 0) (drop i gs))
        in if 2 \<le> l \<and> stop - start < l then (i, i + l) else (start, stop)) (255, 255) [0..<length gs]"

definition v6_text :: "128 word \<Rightarrow> string" where
  "v6_text a =
     (let gs = v6_groups a
      in case zero_run gs of (start, stop) \<Rightarrow>
           if start = 255 then joined '':'' (map hex_digits gs)
           else joined '':'' (map hex_digits (take start gs)) @ ''::'' @ joined '':'' (map hex_digits (drop stop gs)))"

fun addr_String :: "ip_addr \<Rightarrow> string" where
  "addr_String (V4 a) = v4_text a"
| "addr_String (V6 a) = (if is4In6 a then ''::ffff:'' @ v4_text (ucast a) else v6_text a)"

text \<open>\<open>net.IP.To4\<close> and \<open>net.IP.String\<close>; a slice that is no address is printed in hexadecimal.\<close>

definition ip_To4 :: "net_ip \<Rightarrow> net_ip option" where
  "ip_To4 s =
     (if length s = 4 then Some s
      else if length s = 16 \<and> take 12 s = replicate 10 (CHR 0x00) @ [CHR 0xFF, CHR 0xFF] then Some (drop 12 s)
      else None)"

definition hex_bytes :: "string \<Rightarrow> string" where
  "hex_bytes s = concat (map (\<lambda>c. [hex_char (byte c div 16), hex_char (byte c mod 16)]) s)"

definition ip_String :: "net_ip \<Rightarrow> string" where
  "ip_String s =
     (if s = [] then ''<nil>''
      else if length s \<noteq> 4 \<and> length s \<noteq> 16 then CHR ''?'' # hex_bytes s
      else case ip_To4 s of
             Some p \<Rightarrow> v4_text (word_of_int (bytes_value p))
           | None \<Rightarrow> addr_String (V6 (word_of_int (bytes_value s))))"

section \<open>Parsing addresses\<close>

definition v4_field :: "string \<Rightarrow> int option" where
  "v4_field s =
     (case parse_digits s of
        None \<Rightarrow> None
      | Some n \<Rightarrow> if n > 255 \<or> (1 < length s \<and> hd s = CHR ''0'') then None else Some (int n))"

definition parse_v4 :: "string \<Rightarrow> int option" where
  "parse_v4 s =
     (case map v4_field (split_on (CHR ''.'') s) of
        [Some a, Some b, Some c, Some d] \<Rightarrow> Some (((256 * a + b) * 256 + c) * 256 + d)
      | _ \<Rightarrow> None)"

definition hex_value :: "string \<Rightarrow> int" where
  "hex_value s = foldl (\<lambda>v c. 16 * v + int (unhex c)) 0 s"

text \<open>The groups read so far, where the double colon stood, and the text that is left.\<close>

function v6_parts :: "int list \<Rightarrow> nat option \<Rightarrow> string \<Rightarrow> (int list \<times> nat option \<times> string) option" where
  "v6_parts gs ellipsis s =
     (if 8 \<le> length gs then Some (gs, ellipsis, s)
      else let h = takeWhile is_hex s; rest = drop (length h) s; gs' = gs @ [hex_value h]
           in if h = [] \<or> 4 < length h then None
              else if prefix ''.'' rest then
                (if ellipsis = None \<and> length gs \<noteq> 6 \<or> 6 < length gs then None
                 else map_option (\<lambda>a. (gs @ [a div 65536, a mod 65536], ellipsis, [])) (parse_v4 s))
              else if rest = [] then Some (gs', ellipsis, [])
              else if hd rest \<noteq> CHR '':'' \<or> tl rest = [] then None
              else if hd (tl rest) = CHR '':'' then
                (if ellipsis \<noteq> None then None
                 else if tl (tl rest) = [] then Some (gs', Some (length gs'), [])
                 else v6_parts gs' (Some (length gs')) (tl (tl rest)))
              else v6_parts gs' ellipsis (tl rest))"
  by pat_completeness auto
termination
  by (relation "measure (\<lambda>(gs, _, _). 8 - length gs)") auto

declare v6_parts.simps [simp del]

definition parse_v6 :: "string \<Rightarrow> 128 word option" where
  "parse_v6 s =
     (if s = ''::'' then Some 0
      else case (if prefix ''::'' s then v6_parts [] (Some 0) (drop 2 s) else v6_parts [] None s) of
             None \<Rightarrow> None
           | Some (gs, ellipsis, rest) \<Rightarrow>
               if rest \<noteq> [] \<or> (length gs < 8 \<longleftrightarrow> ellipsis = None) then None
               else let full = (case ellipsis of
                                  None \<Rightarrow> gs
                                | Some i \<Rightarrow> take i gs @ replicate (8 - length gs) 0 @ drop i gs)
                    in Some (word_of_int (foldl (\<lambda>v g. 65536 * v + g) 0 full)))"

definition ParseAddr :: "string \<Rightarrow> ip_addr option" where
  "ParseAddr s =
     (case find (\<lambda>c. c = CHR ''.'' \<or> c = CHR '':'') s of
        None \<Rightarrow> None
      | Some c \<Rightarrow> if c = CHR ''.'' then map_option (\<lambda>a. V4 (word_of_int a)) (parse_v4 s)
                  else map_option V6 (parse_v6 s))"

section \<open>URLs\<close>

record url =
  u_Scheme :: string
  u_Opaque :: string
  u_User :: bool
  u_Host :: string
  u_Path :: string
  u_RawPath :: string
  u_RawQuery :: string
  u_ForceQuery :: bool
  u_Fragment :: string

text \<open>\<open>strings.Cut\<close> at a byte.\<close>

definition cut :: "char \<Rightarrow> string \<Rightarrow> string \<times> string" where
  "cut d s = (case index_byte d s of None \<Rightarrow> (s, []) | Some i \<Rightarrow> (take i s, drop (i + 1) s))"

definition upper_hex :: "nat \<Rightarrow> char" where
  "upper_hex n = (if n < 10 then char_of (48 + n) else char_of (55 + n))"

definition escape_in_path :: "char \<Rightarrow> bool" where
  "escape_in_path c \<longleftrightarrow> \<not> (is_lower c \<or> is_upper c \<or> is_digit c \<or> c \<in> set ''-_.~$&+,/:;=@'')"

definition url_escape :: "(char \<Rightarrow> bool) \<Rightarrow> string \<Rightarrow> string" where
  "url_escape should s =
     concat (map (\<lambda>c. if should c then [CHR ''%'', upper_hex (byte c div 16), upper_hex (byte c mod 16)] else [c]) s)"

text \<open>\<open>setPath\<close>: the raw path is kept where it is not how the path would be written.\<close>

definition set_path :: "string \<Rightarrow> url \<Rightarrow> url option" where
  "set_path p u =
     (case unescape encodePath p of
        None \<Rightarrow> None
      | Some path \<Rightarrow> Some (u\<lparr>u_Path := path, u_RawPath := if p = url_escape escape_in_path path then [] else p\<rparr>))"

definition parse_query :: "string \<Rightarrow> string \<times> bool \<times> string" where
  "parse_query rest =
     (if suffix ''?'' rest \<and> length (filter (\<lambda>c. c = CHR ''?'') rest) = 1 then (butlast rest, True, [])
      else (fst (cut (CHR ''?'') rest), False, snd (cut (CHR ''?'') rest)))"

text \<open>\<open>parse\<close> without \<open>viaRequest\<close>; whether there is a user is all the program asks of it.\<close>

definition parse_url_body :: "string \<Rightarrow> url option" where
  "parse_url_body raw =
     (let none = \<lparr>u_Scheme = [], u_Opaque = [], u_User = False, u_Host = [], u_Path = [], u_RawPath = [],
                  u_RawQuery = [], u_ForceQuery = False, u_Fragment = []\<rparr>
      in if list_ex (\<lambda>c. byte c < 32 \<or> byte c = 127) raw then None
         else if raw = ''*'' then Some (none\<lparr>u_Path := ''*''\<rparr>)
         else case get_scheme raw of
           None \<Rightarrow> None
         | Some (scheme0, rest0) \<Rightarrow>
             (case parse_query rest0 of (rest, force, query) \<Rightarrow>
                let u = none\<lparr>u_Scheme := lower scheme0, u_RawQuery := query, u_ForceQuery := force\<rparr>
                in if \<not> prefix ''/'' rest then
                     (if scheme0 \<noteq> [] then Some (u\<lparr>u_Opaque := rest\<rparr>)
                      else if CHR '':'' \<in> set (fst (cut (CHR ''/'') rest)) then None
                      else set_path rest u)
                   else if prefix ''//'' rest \<and> (scheme0 \<noteq> [] \<or> \<not> prefix ''///'' rest) then
                     (let authority0 = drop 2 rest;
                          i = (case index_byte (CHR ''/'') authority0 of None \<Rightarrow> length authority0 | Some i \<Rightarrow> i);
                          authority = take i authority0
                      in case parse_authority authority of
                           None \<Rightarrow> None
                         | Some host \<Rightarrow>
                             set_path (drop i authority0) (u\<lparr>u_Host := host, u_User := (CHR ''@'' \<in> set authority)\<rparr>))
                   else set_path rest u))"

definition url_Parse :: "string \<Rightarrow> url option" where
  "url_Parse raw =
     (case cut (CHR ''#'') raw of (body, fragment) \<Rightarrow>
        (case parse_url_body body of
           None \<Rightarrow> None
         | Some u \<Rightarrow> if fragment = [] then Some u
                     else map_option (\<lambda>f. u\<lparr>u_Fragment := f\<rparr>) (unescape encodePath fragment)))"

text \<open>\<open>URL.String\<close> of a URL with a scheme and a host, and no opaque part, user, query, fragment or raw path.\<close>

definition url_String :: "url \<Rightarrow> string" where
  "url_String u =
     u_Scheme u @ ''://'' @ url_escape escape_in_host (u_Host u)
       @ (if u_Path u \<noteq> [] \<and> \<not> prefix ''/'' (u_Path u) then ''/'' else [])
       @ (if u_Path u = ''*'' then ''*'' else url_escape escape_in_path (u_Path u))"

definition split_host_port :: "string \<Rightarrow> string \<times> string" where
  "split_host_port host_port =
     (let (host, port) =
        (case last_index_byte (CHR '':'') host_port of
           None \<Rightarrow> (host_port, [])
         | Some i \<Rightarrow> if valid_optional_port (drop i host_port) then (take i host_port, drop (i + 1) host_port)
                     else (host_port, []))
      in (if prefix ''['' host \<and> suffix '']'' host then butlast (tl host) else host, port))"

definition url_Hostname :: "url \<Rightarrow> string" where
  "url_Hostname u = fst (split_host_port (u_Host u))"

definition url_Port :: "url \<Rightarrow> string" where
  "url_Port u = snd (split_host_port (u_Host u))"

text \<open>\<open>net.JoinHostPort\<close>\<close>

definition join_host_port :: "string \<Rightarrow> string \<Rightarrow> string" where
  "join_host_port host port =
     (if CHR '':'' \<in> set host then ''['' @ host @ '']:'' @ port else host @ '':'' @ port)"

end
