(* ===== verification/Repo_Endpoints.thy ===== *)
theory Repo_Endpoints imports Repository Go_Net begin

text \<open>
  \<^verbatim>\<open>internal/repository/endpoints.go\<close>: the addresses under which a repository is published.
\<close>

record endpoints =
  ep_baseURL :: string
  ep_sshHost :: string
  ep_sshPort :: "16 word"

definition ssh_authority :: "endpoints \<Rightarrow> string" where
  "ssh_authority E =
     (if ep_sshPort E \<noteq> 22 then join_host_port (ep_sshHost E) (decimal (uint (ep_sshPort E)))
      else if CHR '':'' \<in> set (ep_sshHost E) then ''['' @ ep_sshHost E @ '']''
      else ep_sshHost E)"

definition route_path :: "repository \<Rightarrow> string" where
  "route_path v =
     (let owner = (if repo_OrganizationSlug v \<noteq> [] then repo_OrganizationSlug v else repo_OwnerDID v)
      in ''/'' @ owner @ ''/'' @ repo_Slug v)"

definition endpoints_For :: "endpoints \<Rightarrow> repository \<Rightarrow> string \<times> string \<times> string" where
  "endpoints_For E v =
     (let web = ep_baseURL E @ route_path v
      in (web, web @ ''.git'', ''ssh://git@'' @ ssh_authority E @ route_path v @ ''.git''))"

text \<open>An owner has no slash, so a path names one owner and one slug.\<close>

lemma cut_at_slash:
  "CHR ''/'' \<notin> set a \<Longrightarrow> CHR ''/'' \<notin> set b \<Longrightarrow> a @ ''/'' @ s = b @ ''/'' @ t \<Longrightarrow> a = b \<and> s = t"
  using split_on_cons [of "CHR ''/''" a s] split_on_cons [of "CHR ''/''" b t] append_eq_append_conv
  by (metis append_Cons append_Nil list.inject same_append_eq)

lemma route_path_inj:
  assumes "CHR ''/'' \<notin> set (repo_OwnerDID u)" "CHR ''/'' \<notin> set (repo_OrganizationSlug u)"
    and "CHR ''/'' \<notin> set (repo_OwnerDID v)" "CHR ''/'' \<notin> set (repo_OrganizationSlug v)"
    and "route_path u = route_path v"
  shows "(if repo_OrganizationSlug u \<noteq> [] then repo_OrganizationSlug u else repo_OwnerDID u)
       = (if repo_OrganizationSlug v \<noteq> [] then repo_OrganizationSlug v else repo_OwnerDID v)
     \<and> repo_Slug u = repo_Slug v"
  using assms(5) by (intro cut_at_slash) (simp_all add: assms(1-4) route_path_def Let_def)

text \<open>
  Every address of a repository tells it apart: two repositories with the same web
  page, the same HTTPS or the same SSH address have the same owner route and the same
  slug, on any instance.
\<close>

theorem addresses_identify_routes:
  assumes "CHR ''/'' \<notin> set (repo_OwnerDID u @ repo_OrganizationSlug u @ repo_OwnerDID v @ repo_OrganizationSlug v)"
    and "endpoints_For E u = (web, https, ssh)" and "endpoints_For E v = (web', https', ssh')"
    and "web = web' \<or> https = https' \<or> ssh = ssh'"
  shows "(if repo_OrganizationSlug u \<noteq> [] then repo_OrganizationSlug u else repo_OwnerDID u)
       = (if repo_OrganizationSlug v \<noteq> [] then repo_OrganizationSlug v else repo_OwnerDID v)
     \<and> repo_Slug u = repo_Slug v"
  using assms by (intro route_path_inj) (auto simp: endpoints_For_def Let_def)

definition example_endpoints :: endpoints where
  "example_endpoints = \<lparr>ep_baseURL = ''https://x'', ep_sshHost = ''x'', ep_sshPort = 2222\<rparr>"

definition example_route :: "string \<Rightarrow> string \<Rightarrow> repository" where
  "example_route owner slug =
     \<lparr>repo_ID = 1, repo_OwnerDID = owner, repo_OrganizationID = None, repo_OrganizationSlug = [], repo_Slug = slug,
      repo_DisplayName = [], repo_Description = [], repo_Visibility = Repo_Private, repo_State = StateActive,
      repo_DefaultBranch = ''main'', repo_StorageKey = [], repo_ATURI = [], repo_ATCID = [], repo_ForkedFrom = None,
      repo_TransferredFrom = None, repo_ForkCount = 0, repo_ViewerCanAdmin = False, repo_ArchivedAt = None,
      repo_CreatedAt = 1, repo_UpdatedAt = 1\<rparr>"

theorem addresses_identify_routes_witness:
  "fst (snd (endpoints_For example_endpoints (example_route ''did:a'' ''r'')))
     \<noteq> fst (snd (endpoints_For example_endpoints (example_route ''did:b'' ''r'')))"
proof
  let ?u = "example_route ''did:a'' ''r''" and ?v = "example_route ''did:b'' ''r''"
  assume same: "fst (snd (endpoints_For example_endpoints ?u)) = fst (snd (endpoints_For example_endpoints ?v))"
  obtain web https ssh where u: "endpoints_For example_endpoints ?u = (web, https, ssh)" by (rule prod_cases3)
  obtain web' https' ssh' where v: "endpoints_For example_endpoints ?v = (web', https', ssh')" by (rule prod_cases3)
  from addresses_identify_routes [OF _ u v] same u v show False by (simp add: example_route_def)
qed

end
