(* ===== verification/Repo_World.thy ===== *)
theory Repo_World imports Repo_Service Repo_Purge Repo_Endpoints Storage Git_Service begin

text \<open>
  The world of the repository service: the database, the disk that Git and the storage
  work on, and schedules for everything else, which theorems leave arbitrary: the clock,
  the id generator and the replies of the AT Protocol publisher. What is asked of the
  publisher is recorded in order, with its reply.
\<close>

datatype record_request =
    Publish_Request repo_publication
  | Unpublish_Request repo_publication at_identity

record repo_world = pg_world +
  disk :: disk_state
  rw_instants :: "nat \<Rightarrow> instant"
  rw_ticks :: nat
  rw_ids :: "nat \<Rightarrow> err + uuid"
  rw_ids_used :: nat
  rw_replies :: "nat \<Rightarrow> err + at_identity"
  rw_sent :: "record_request list"

definition repo_clock :: "repo_world \<Rightarrow> instant \<times> repo_world" where
  "repo_clock w = (rw_instants w (rw_ticks w), w\<lparr>rw_ticks := Suc (rw_ticks w)\<rparr>)"

definition repo_ids :: "(repo_world, uuid) op" where
  "repo_ids w = (rw_ids w (rw_ids_used w), w\<lparr>rw_ids_used := Suc (rw_ids_used w)\<rparr>)"

definition repo_publisher :: "record_request \<Rightarrow> (repo_world, at_identity) op" where
  "repo_publisher r w = (rw_replies w (length (rw_sent w)), w\<lparr>rw_sent := rw_sent w @ [r]\<rparr>)"

definition unpublish_record :: "repo_publication \<Rightarrow> at_identity \<Rightarrow> (repo_world, unit) op" where
  "unpublish_record p i = call (repo_publisher (Unpublish_Request p i)) (\<lambda>e. e) (\<lambda>_. ret ())"

definition on_disk :: "(disk_state, 'a) op \<Rightarrow> (repo_world, 'a) op" where
  "on_disk m w = (case m (disk w) of (r, d) \<Rightarrow> (r, w\<lparr>disk := d\<rparr>))"

section \<open>Git on the disk\<close>

definition path_text :: "path \<Rightarrow> string" where
  "path_text p = concat (map (\<lambda>c. CHR ''/'' # c) p)"

record git_installation =
  gi_storage :: filesystem
  gi_exec :: "git_command \<Rightarrow> (disk_state, string list) op"
  gi_temporary :: "disk_state temporary_files"
  gi_forker :: "disk_state git_forker option"

definition storage_lifecycle :: "filesystem \<Rightarrow> disk_state lifecycle_paths" where
  "storage_lifecycle F = \<lparr>lp_Quarantine = fs_Quarantine F, lp_Restore = fs_Restore F, lp_Purge = fs_Purge F\<rparr>"

definition native_git :: "git_installation \<Rightarrow> disk_state git_service" where
  "native_git G =
     \<lparr>gs_exec = gi_exec G, gs_ctx_Err = ctx_Err,
      gs_Prepare = (\<lambda>rid. call (fs_Prepare (gi_storage G) rid) (\<lambda>e. e) (\<lambda>p. ret (path_text p))),
      gs_Path = (\<lambda>rid. call (fs_Path (gi_storage G) rid) (\<lambda>e. e) (\<lambda>p. ret (path_text p))),
      gs_lifecycle = Some (storage_lifecycle (gi_storage G)),
      gs_temporary = gi_temporary G, gs_beforeMergeCAS = None\<rparr>"

definition git_on_disk :: "git_installation \<Rightarrow> repo_world git_lifecycle" where
  "git_on_disk G =
     \<lparr>gl_SetDefaultBranch = (\<lambda>rid b. on_disk (git_SetDefaultBranch (native_git G) rid b)),
      gl_Quarantine = (\<lambda>rid. on_disk (git_Quarantine (native_git G) rid)),
      gl_Restore = (\<lambda>rid. on_disk (git_Restore (native_git G) rid))\<rparr>"

section \<open>The service and the worker\<close>

record instance_config =
  ic_pick :: "repo_row list \<Rightarrow> repo_row"
  ic_git :: git_installation
  ic_endpoints :: endpoints
  ic_uuid_string :: "uuid \<Rightarrow> string"

definition repositories_of :: "instance_config \<Rightarrow> repo_world repository_service" where
  "repositories_of C =
     \<lparr>rsv_store = postgres_repository_store (ic_pick C), rsv_lifecycle = Some postgres_lifecycle_store,
      rsv_identities = Some pg_GetOrganizationIdentity, rsv_fork_sources = Some pg_GetForkSourceByURI,
      rsv_Init = (\<lambda>rid b. on_disk (git_Init (native_git (ic_git C)) rid b)),
      rsv_git = Some (git_on_disk (ic_git C)),
      rsv_forker = map_option (\<lambda>f. \<lparr>gf_Fork = (\<lambda>rid s b. on_disk (gf_Fork f rid s b)),
                                     gf_SyncFork = (\<lambda>rid s b. on_disk (gf_SyncFork f rid s b))\<rparr>)
                     (gi_forker (ic_git C)),
      rsv_clock = repo_clock, rsv_ids = repo_ids,
      rsv_Publish = (\<lambda>p. repo_publisher (Publish_Request p)),
      rsv_Unpublish = Some unpublish_record,
      rsv_endpoints = endpoints_For (ic_endpoints C), rsv_uuid_string = ic_uuid_string C\<rparr>"

definition purger_of :: "instance_config \<Rightarrow> repo_world purge_worker" where
  "purger_of C =
     \<lparr>pw_ListDueDeletions = pg_ListDueDeletions, pw_MarkPurged = pg_MarkPurged,
      pw_Purge = (\<lambda>rid. on_disk (git_Purge (native_git (ic_git C)) rid)), pw_now = repo_clock\<rparr>"

section \<open>Evaluation\<close>

lemma repositories_of_simps [simp]:
  "rsv_store (repositories_of C) = postgres_repository_store (ic_pick C)"
  "rsv_lifecycle (repositories_of C) = Some postgres_lifecycle_store"
  "rsv_identities (repositories_of C) = Some pg_GetOrganizationIdentity"
  "rsv_fork_sources (repositories_of C) = Some pg_GetForkSourceByURI"
  "rsv_Init (repositories_of C) rid b = on_disk (git_Init (native_git (ic_git C)) rid b)"
  "rsv_git (repositories_of C) = Some (git_on_disk (ic_git C))"
  "rsv_clock (repositories_of C) = repo_clock" "rsv_ids (repositories_of C) = repo_ids"
  "rsv_Publish (repositories_of C) p = repo_publisher (Publish_Request p)"
  "rsv_Unpublish (repositories_of C) = Some unpublish_record"
  "rsv_endpoints (repositories_of C) = endpoints_For (ic_endpoints C)"
  "rsv_uuid_string (repositories_of C) = ic_uuid_string C"
  by (simp_all add: repositories_of_def)

lemma repo_store_simps [simp]:
  "rs_Create (postgres_repository_store k) = pg_CreateRepository"
  "rs_GetByOwnerSlug (postgres_repository_store k) = pg_GetByOwnerSlug k"
  "rs_ListByOrganization (postgres_repository_store k) = pg_ListByOrganization"
  "rs_PageByOrganization (postgres_repository_store k) = pg_PageByOrganization"
  "rs_UpdateState (postgres_repository_store k) = pg_UpdateState"
  "rs_Activate (postgres_repository_store k) = pg_ActivateRepository"
  "ls_UpdateSettings postgres_lifecycle_store = pg_UpdateSettings"
  "ls_RequestDeletion postgres_lifecycle_store = pg_RequestDeletion"
  "ls_GetDeletion postgres_lifecycle_store = pg_GetDeletion"
  "ls_RestoreDeletion postgres_lifecycle_store = pg_RestoreDeletion"
  "gl_SetDefaultBranch (git_on_disk G) rid b = on_disk (git_SetDefaultBranch (native_git G) rid b)"
  "gl_Quarantine (git_on_disk G) rid = on_disk (fs_Quarantine (gi_storage G) rid)"
  "gl_Restore (git_on_disk G) rid = on_disk (fs_Restore (gi_storage G) rid)"
  "pw_ListDueDeletions (purger_of C) = pg_ListDueDeletions" "pw_MarkPurged (purger_of C) = pg_MarkPurged"
  "pw_Purge (purger_of C) rid = on_disk (fs_Purge (gi_storage (ic_git C)) rid)" "pw_now (purger_of C) = repo_clock"
  by (simp_all add: postgres_repository_store_def postgres_lifecycle_store_def git_on_disk_def purger_of_def
      git_Quarantine_def git_Restore_def git_Purge_def native_git_def storage_lifecycle_def)

section \<open>Views\<close>

text \<open>
  The database and the disk are apart: a statement leaves the disk, and Git leaves the
  tables; the clock, the ids and the publisher leave both.
\<close>

lemma pg_exec_disk [op_frames]: "frames disk (pg_exec q)"
  by (simp add: frames_def pg_exec_def Let_def split: sum.split prod.split)

lemma pg_exec_read [op_frames]:
  "(\<And>t x t'. q t = Inr (x, t') \<Longrightarrow> t' = t) \<Longrightarrow> frames tables (pg_exec q)"
  by (auto simp: frames_def pg_exec_def Let_def split: sum.split prod.split)

lemma on_disk_tables [op_frames]: "frames tables (on_disk m)"
  by (simp add: frames_def on_disk_def split: prod.split)

lemma outside_frames [op_frames]:
  "frames tables repo_ids" "frames disk repo_ids" "frames tables (repo_publisher r)" "frames disk (repo_publisher r)"
  by (simp_all add: frames_def repo_ids_def repo_publisher_def)

lemma repo_clock_frames:
  "repo_clock w = (t, u) \<Longrightarrow> tables u = tables w \<and> disk u = disk w"
  by (auto simp: repo_clock_def)

lemma frames_with_clock [op_frames]:
  "(\<And>t. frames tables (k t)) \<Longrightarrow> frames tables (with_now repo_clock k)"
  "(\<And>t. frames disk (k t)) \<Longrightarrow> frames disk (with_now repo_clock k)"
  by (simp_all add: frames_def with_now_apply repo_clock_def)

definition both :: "(org_tables \<Rightarrow> disk_state \<Rightarrow> bool) \<Rightarrow> repo_world \<Rightarrow> bool" where
  "both I w \<longleftrightarrow> I (tables w) (disk w)"

lemma both_outside [op_keeps]:
  "keeps (both I) repo_ids" "keeps (both I) (repo_publisher r)" "keeps_clock (both I) repo_clock"
  by (simp_all add: keeps_def keeps_clock_def both_def repo_ids_def repo_publisher_def repo_clock_def)

text \<open>A statement keeps a fact about both that its effect on the tables keeps, and so does Git.\<close>

lemma both_pg_exec:
  assumes "\<And>t d x t'. I t d \<Longrightarrow> q t = Inr (x, t') \<Longrightarrow> I t' d"
  shows "keeps (both I) (pg_exec q)"
proof (rule keepsI)
  fix w :: repo_world assume "both I w"
  then show "both I (snd (pg_exec q w))"
    by (cases "q (tables w)") (auto simp: both_def pg_exec_def Let_def intro: assms)
qed

lemma both_on_disk:
  "(\<And>t d r d'. I t d \<Longrightarrow> m d = (r, d') \<Longrightarrow> I t d') \<Longrightarrow> keeps (both I) (on_disk m)"
  by (rule keepsI) (simp add: both_def on_disk_def split: prod.split)

lemma on_disk_apply: "on_disk m w = (fst (m (disk w)), w\<lparr>disk := snd (m (disk w))\<rparr>)"
  by (simp add: on_disk_def split_beta)

end
