(* ===== verification/Storage_Laws.thy ===== *)
theory Storage_Laws imports Storage begin

text \<open>
  What the moves of the storage do to a disk that works: a repository is at its live path
  or in the quarantine, a move takes all of it or nothing, and touches no other
  repository.
\<close>

section \<open>Trees\<close>

definition is_dir :: "disk_state \<Rightarrow> path \<Rightarrow> bool" where
  "is_dir d p \<longleftrightarrow> (\<exists>c. entries d p = Some (Directory c))"

definition tree :: "(path \<Rightarrow> node option) \<Rightarrow> bool" where
  "tree f \<longleftrightarrow> (\<forall>p q. f p \<noteq> None \<longrightarrow> strict_prefix q p \<longrightarrow> (\<exists>c. f q = Some (Directory c)))"

text \<open>A disk that works: its entries are a tree, and no call of the operating system fails.\<close>

definition disk_ok :: "disk_state \<Rightarrow> bool" where
  "disk_ok d \<longleftrightarrow> tree (entries d) \<and> disk_faults d = []"

definition mkdirs :: "path \<Rightarrow> (path \<Rightarrow> node option) \<Rightarrow> path \<Rightarrow> node option" where
  "mkdirs p f q = (if prefix q p \<and> f q = None then Some (Directory []) else f q)"

lemma mkdirs_beneath: "\<not> prefix x p \<Longrightarrow> mkdirs p f (x @ s) = f (x @ s)"
  by (auto simp: mkdirs_def dest: append_prefixD)

lemma moved_beneath:
  assumes "parallel a b"
  shows "moved a b f (b @ s) = f (a @ s)" and "moved a b f (a @ s) = None"
    and "parallel x a \<Longrightarrow> parallel x b \<Longrightarrow> moved a b f (x @ s) = f (x @ s)"
proof -
  have apart: "\<not> prefix y (x @ s)" if "parallel x y" for x y s :: path
    using that by (metis parallel_def prefixI prefix_same_cases)
  show "moved a b f (b @ s) = f (a @ s)" by (simp add: moved_def)
  show "moved a b f (a @ s) = None" using apart [OF assms] by (simp add: moved_def)
  show "parallel x a \<Longrightarrow> parallel x b \<Longrightarrow> moved a b f (x @ s) = f (x @ s)"
    by (simp add: moved_def apart)
qed

lemma strict_prefix_butlast: "b \<noteq> [] \<Longrightarrow> strict_prefix q b \<longleftrightarrow> prefix q (butlast b)"
  by (cases b rule: rev_cases) (auto simp: strict_prefix_def dest: prefix_length_le)

lemma tree_mkdirs:
  assumes "tree f" and "\<And>q. prefix q p \<Longrightarrow> f q \<noteq> Some Other_Entry"
  shows "tree (mkdirs p f)" and "prefix q p \<Longrightarrow> \<exists>c. mkdirs p f q = Some (Directory c)"
proof -
  show here: "\<exists>c. mkdirs p f q = Some (Directory c)" if "prefix q p" for q
  proof (cases "f q")
    case None
    with that show ?thesis by (simp add: mkdirs_def)
  next
    case (Some n)
    with assms(2) [OF that] show ?thesis by (cases n) (simp_all add: mkdirs_def)
  qed
  show "tree (mkdirs p f)"
    unfolding tree_def
  proof (intro allI impI)
    fix r q assume r: "mkdirs p f r \<noteq> None" "strict_prefix q r"
    show "\<exists>c. mkdirs p f q = Some (Directory c)"
    proof (cases "f r = None")
      case True
      with r(1) have "prefix r p" by (auto simp: mkdirs_def split: if_splits)
      with r(2) have "prefix q p" by (meson prefix_order.dual_order.trans prefix_order.less_imp_le)
      then show ?thesis by (rule here)
    next
      case False
      with assms(1) r(2) obtain c where "f q = Some (Directory c)" unfolding tree_def by blast
      then show ?thesis by (simp add: mkdirs_def)
    qed
  qed
qed

lemma tree_moved:
  assumes "tree f" and "parallel a b" and "\<And>q. strict_prefix q b \<Longrightarrow> \<exists>c. f q = Some (Directory c)"
  shows "tree (moved a b f)"
  unfolding tree_def
proof (intro allI impI)
  fix p q assume p: "moved a b f p \<noteq> None" and q: "strict_prefix q p"
  have old: "\<exists>c. moved a b f q = Some (Directory c)" if "\<not> prefix b q" "\<not> prefix a q" "\<exists>c. f q = Some (Directory c)"
    using that by (simp add: moved_def)
  show "\<exists>c. moved a b f q = Some (Directory c)"
  proof (cases "prefix b p")
    case True
    then obtain s where s: "p = b @ s" by (auto simp: prefix_def)
    show ?thesis
    proof (cases "prefix b q")
      case True
      then obtain t where t: "q = b @ t" by (auto simp: prefix_def)
      with s q have "strict_prefix (a @ t) (a @ s)" by (simp add: strict_prefix_def)
      moreover have "f (a @ s) \<noteq> None" using p s moved_beneath(1) [OF assms(2)] by simp
      ultimately show ?thesis
        using assms(1) t moved_beneath(1) [OF assms(2)] unfolding tree_def by fastforce
    next
      case False
      with True q have "strict_prefix q b"
        by (metis prefix_order.dual_order.strict_implies_order prefix_order.less_le prefix_same_cases)
      moreover from this assms(2) have "\<not> prefix a q"
        by (meson parallel_def prefix_order.less_imp_le prefix_order.trans)
      ultimately show ?thesis using old False assms(3) by blast
    qed
  next
    case False
    with p have "f p \<noteq> None" "\<not> prefix a p" by (auto simp: moved_def split: if_splits)
    with assms(1) q False show ?thesis
      by (intro old) (auto simp: tree_def dest: prefix_order.trans prefix_order.less_imp_le)
  qed
qed

section \<open>Moving a directory\<close>

definition movable :: "path \<Rightarrow> path \<Rightarrow> disk_state \<Rightarrow> bool" where
  "movable a b d \<longleftrightarrow> is_dir d a \<and> entries d b = None \<and> (\<forall>q. prefix q (butlast b) \<longrightarrow> entries d q \<noteq> Some Other_Entry)"

definition after_move :: "path \<Rightarrow> path \<Rightarrow> disk_state \<Rightarrow> disk_state" where
  "after_move a b d = d\<lparr>entries := moved a b (mkdirs (butlast b) (entries d))\<rparr>"

lemma faulty_quiet: "disk_faults d = [] \<Longrightarrow> faulty failing m d = m d"
proof -
  assume "disk_faults d = []"
  moreover from this have "d\<lparr>disk_faults := tl (disk_faults d)\<rparr> = d" by simp
  ultimately show ?thesis by (simp only: faulty_def Let_def) simp
qed

lemma quiet_calls:
  assumes "disk_faults d = []"
  shows "ctx_Err d = (Inr (), d)"
    and "os_Lstat p d = (case entries d p of None \<Rightarrow> Inl not_exist | Some n \<Rightarrow> Inr n, d)"
    and "os_MkdirAll p d =
       (if list_ex (\<lambda>q. entries d q = Some Other_Entry) (prefixes p) then (Inl io_error, d)
        else (Inr (), d\<lparr>entries := mkdirs p (entries d)\<rparr>))"
    and "os_RemoveAll p d = (Inr (), d\<lparr>entries := (\<lambda>q. if prefix p q then None else entries d q)\<rparr>)"
    and "os_Rename a b d =
       (if entries d a = None then (Inl not_exist, d)
        else if entries d b \<noteq> None \<or> prefix a b
           \<or> (case entries d (butlast b) of Some (Directory _) \<Rightarrow> False | _ \<Rightarrow> True)
        then (Inl io_error, d)
        else (Inr (), d\<lparr>entries := moved a b (entries d)\<rparr>))"
  using assms
  by (simp_all add: ctx_Err_def os_Lstat_def os_MkdirAll_def os_RemoveAll_def os_Rename_def faulty_quiet ret_def
      mkdirs_def [abs_def])

lemma requireDirectory_quiet:
  assumes "disk_faults d = []"
  shows "fst (requireDirectory p d) = Inr () \<longleftrightarrow> is_dir d p" and "snd (requireDirectory p d) = d"
  using assms
  by (auto simp: requireDirectory_def op_eval quiet_calls is_dir_def is_directory_def split: option.split node.split)

text \<open>The common part of \<open>Quarantine\<close> and \<open>Restore\<close>: it moves everything, or fails and changes nothing.\<close>

lemma relocation:
  assumes quiet: "disk_faults d = []" and tree: "tree (entries d)" and apart: "parallel a b" and "b \<noteq> []"
    and m_def: "m = call (requireDirectory a) (wrapf m1) (\<lambda>_. require_absent b m2 m3 (
     call (os_MkdirAll (butlast b)) (wrapf m4) (\<lambda>_. call (os_Rename a b) (wrapf m5) ret)))"
  shows "movable a b d \<Longrightarrow> m d = (Inr (), after_move a b d)"
    and "\<not> movable a b d \<Longrightarrow> \<exists>e. m d = (Inl e, d)"
proof -
  have strict: "\<not> prefix b (butlast b)" using strict_prefix_butlast [OF \<open>b \<noteq> []\<close>, of b] by simp
  have not_a: "\<not> prefix a b" "\<not> prefix b a" using apart by (auto simp: parallel_def)
  then have not_a': "\<not> prefix a (butlast b)" by (meson prefixeq_butlast prefix_order.trans)
  have steps: "m d = (case requireDirectory a d of
      (Inl e, w) \<Rightarrow> (Inl (wrapf m1 e), w)
    | (Inr x, w) \<Rightarrow> require_absent b m2 m3 (
        call (os_MkdirAll (butlast b)) (wrapf m4) (\<lambda>_. call (os_Rename a b) (wrapf m5) ret)) w)"
    by (simp add: m_def call_apply)
  show "m d = (Inr (), after_move a b d)" if "movable a b d"
  proof -
    from that have a: "is_dir d a" and b: "entries d b = None"
      and dirs: "\<And>q. prefix q (butlast b) \<Longrightarrow> entries d q \<noteq> Some Other_Entry"
      by (auto simp: movable_def)
    have ra: "requireDirectory a d = (Inr (), d)"
      using requireDirectory_quiet [OF quiet, of a] a by (metis prod.collapse)
    have mk: "os_MkdirAll (butlast b) d = (Inr (), d\<lparr>entries := mkdirs (butlast b) (entries d)\<rparr>)"
      using dirs by (simp add: quiet_calls [OF quiet] list_ex_iff)
    obtain c where c: "mkdirs (butlast b) (entries d) (butlast b) = Some (Directory c)"
      using tree_mkdirs(2) [OF tree dirs, of "butlast b"] by auto
    have same: "mkdirs (butlast b) (entries d) b = None"
      using strict b by (simp add: mkdirs_def)
    have from_a: "mkdirs (butlast b) (entries d) a \<noteq> None"
      using a by (auto simp: mkdirs_def is_dir_def)
    show ?thesis
      using quiet not_a
      by (simp add: steps ra require_absent_def attempt_apply quiet_calls b fail_if_apply os_IsNotExist_def
          call_apply mk c same from_a ret_apply after_move_def)
  qed
  show "\<exists>e. m d = (Inl e, d)" if "\<not> movable a b d"
  proof (cases "is_dir d a")
    case False
    with requireDirectory_quiet [OF quiet, of a] obtain e where "requireDirectory a d = (Inl e, d)"
      by (cases "requireDirectory a d"; cases "fst (requireDirectory a d)") auto
    then show ?thesis by (simp add: steps)
  next
    case True
    then have ra: "requireDirectory a d = (Inr (), d)"
      using requireDirectory_quiet [OF quiet, of a] by (metis prod.collapse)
    show ?thesis
    proof (cases "entries d b")
      case None
      with that True have "list_ex (\<lambda>q. entries d q = Some Other_Entry) (prefixes (butlast b))"
        by (auto simp: movable_def list_ex_iff)
      with None show ?thesis
        by (simp add: steps ra require_absent_def attempt_apply quiet_calls [OF quiet] fail_if_apply os_IsNotExist_def call_apply)
    next
      case (Some n)
      then show ?thesis by (simp add: steps ra require_absent_def attempt_apply quiet_calls [OF quiet] raise_apply)
    qed
  qed
qed

lemma after_move_ok:
  assumes "disk_ok d" and "parallel a b" and "movable a b d" and "b \<noteq> []"
  shows "disk_ok (after_move a b d)"
proof -
  have dirs: "\<And>q. prefix q (butlast b) \<Longrightarrow> entries d q \<noteq> Some Other_Entry"
    using assms(3) by (auto simp: movable_def)
  have "tree (mkdirs (butlast b) (entries d))"
    using tree_mkdirs(1) [OF _ dirs] assms(1) by (auto simp: disk_ok_def)
  moreover have "\<exists>c. mkdirs (butlast b) (entries d) q = Some (Directory c)" if "strict_prefix q b" for q
    using tree_mkdirs(2) [OF _ dirs] that assms(1,4) by (simp add: disk_ok_def strict_prefix_butlast)
  ultimately show ?thesis
    using assms(1,2) by (auto simp: disk_ok_def after_move_def intro: tree_moved)
qed

text \<open>What is where after a move.\<close>

lemma after_move_entries:
  assumes "parallel a b" and "b \<noteq> []"
  shows "entries (after_move a b d) (b @ s) = entries d (a @ s)"
    and "entries (after_move a b d) (a @ s) = None"
    and "parallel x a \<Longrightarrow> parallel x b \<Longrightarrow> entries (after_move a b d) (x @ s) = entries d (x @ s)"
proof -
  have up: "\<not> prefix x (butlast b)" if "parallel x b" for x
    using that by (meson parallel_def prefixeq_butlast prefix_order.trans)
  show "entries (after_move a b d) (b @ s) = entries d (a @ s)"
    using moved_beneath(1) [OF assms(1)] mkdirs_beneath [OF up [OF assms(1)]] by (simp add: after_move_def)
  show "entries (after_move a b d) (a @ s) = None"
    using moved_beneath(2) [OF assms(1)] by (simp add: after_move_def)
  show "parallel x a \<Longrightarrow> parallel x b \<Longrightarrow> entries (after_move a b d) (x @ s) = entries d (x @ s)"
    using moved_beneath(3) [OF assms(1)] mkdirs_beneath [OF up] by (simp add: after_move_def)
qed

text \<open>After a move the way back is free.\<close>

lemma movable_back:
  assumes ok: "disk_ok d" and apart: "parallel a b" and "movable a b d" and "b \<noteq> []" and "a \<noteq> []"
  shows "movable b a (after_move a b d)"
proof -
  have entry: "entries (after_move a b d) b = entries d a" "entries (after_move a b d) a = None"
    using after_move_entries(1,2) [OF apart assms(4), where d = d and s = "[]"] by auto
  have "entries (after_move a b d) q \<noteq> Some Other_Entry" if "prefix q (butlast a)" for q
  proof -
    have above: "strict_prefix q a"
      using that \<open>a \<noteq> []\<close> by (simp add: strict_prefix_butlast)
    then have "\<not> prefix a q" "\<not> prefix b q"
      using apart by (auto simp: parallel_def strict_prefix_def dest: prefix_order.trans prefix_order.antisym)
    moreover have "\<exists>c. entries d q = Some (Directory c)"
      using ok above assms(3) unfolding disk_ok_def tree_def movable_def is_dir_def by blast
    ultimately show ?thesis by (auto simp: after_move_def moved_def mkdirs_def)
  qed
  with entry assms(3) show ?thesis by (auto simp: movable_def is_dir_def)
qed

section \<open>The two places of a repository\<close>

lemma places_parallel:
  shows "parallel (live_path F rid) (quarantine_path F rid')" "parallel (quarantine_path F rid) (live_path F rid')"
    and "uuid_text_ok (fs_uuid_string F) \<Longrightarrow> rid \<noteq> rid' \<Longrightarrow> parallel (live_path F rid) (live_path F rid')"
    and "uuid_text_ok (fs_uuid_string F) \<Longrightarrow> rid \<noteq> rid' \<Longrightarrow> parallel (quarantine_path F rid) (quarantine_path F rid')"
  using namespaces_apart live_paths_apart by (auto simp: parallel_def)

lemma places_nonempty [simp]: "live_path F rid \<noteq> []" "quarantine_path F rid \<noteq> []"
  by (simp_all add: live_path_def quarantine_path_def sharded_def)

lemma lifecyclePaths_quiet:
  assumes "disk_faults d = []" and "uuid_text_ok (fs_uuid_string F)"
  shows "fs_Path F rid d = (Inr (live_path F rid), d)"
    and "lifecyclePaths F rid d = (Inr (live_path F rid, quarantine_path F rid), d)"
proof -
  show path: "fs_Path F rid d = (Inr (live_path F rid), d)"
    using assms(2) quiet_calls(1) [OF assms(1)]
    by (simp add: fs_Path_def op_eval Let_def live_path_def uuid_text_ok_def)
  show "lifecyclePaths F rid d = (Inr (live_path F rid, quarantine_path F rid), d)"
    by (simp add: lifecyclePaths_def op_eval path Let_def escapes_def live_path_def quarantine_path_def
        strict_prefix_def sharded_def)
qed

lemma fs_Quarantine_run:
  assumes "disk_ok d" and "uuid_text_ok (fs_uuid_string F)"
  shows "movable (live_path F rid) (quarantine_path F rid) d \<Longrightarrow>
      fs_Quarantine F rid d = (Inr (), after_move (live_path F rid) (quarantine_path F rid) d)"
    and "\<not> movable (live_path F rid) (quarantine_path F rid) d \<Longrightarrow> \<exists>e. fs_Quarantine F rid d = (Inl e, d)"
  using relocation [OF _ _ places_parallel(1) places_nonempty(2) refl] assms lifecyclePaths_quiet
  by (auto simp: fs_Quarantine_def call_apply disk_ok_def)

lemma fs_Restore_run:
  assumes "disk_ok d" and "uuid_text_ok (fs_uuid_string F)"
  shows "movable (quarantine_path F rid) (live_path F rid) d \<Longrightarrow>
      fs_Restore F rid d = (Inr (), after_move (quarantine_path F rid) (live_path F rid) d)"
    and "\<not> movable (quarantine_path F rid) (live_path F rid) d \<Longrightarrow> \<exists>e. fs_Restore F rid d = (Inl e, d)"
  using relocation [OF _ _ places_parallel(2) places_nonempty(1) refl] assms lifecyclePaths_quiet
  by (auto simp: fs_Restore_def call_apply disk_ok_def)

lemma fs_Purge_run:
  assumes "disk_ok d" and "uuid_text_ok (fs_uuid_string F)"
  shows "\<exists>r. fs_Purge F rid d = (r, d) \<or>
      fs_Purge F rid d = (r, d\<lparr>entries := (\<lambda>q. if prefix (quarantine_path F rid) q then None else entries d q)\<rparr>)"
proof -
  have quiet: "disk_faults d = []" using assms(1) by (simp add: disk_ok_def)
  obtain r where r: "requireDirectory (quarantine_path F rid) d = (r, d)"
    using requireDirectory_quiet(2) [OF quiet] by (metis prod.collapse)
  show ?thesis
    using lifecyclePaths_quiet [OF quiet assms(2)] r
    by (cases r) (auto simp: fs_Purge_def call_apply attempt_apply quiet_calls [OF quiet] ret_def raise_def)
qed

lemma tree_removed: "tree f \<Longrightarrow> tree (\<lambda>q. if prefix p q then None else f q)"
  by (auto simp: tree_def dest: prefix_order.trans prefix_order.less_imp_le)

end
