(* ===== verification/Triples.thy ===== *)
theory Triples imports Git_Process begin

text \<open>
  Pre- and postconditions of operations, for methods that undo what they did:
  \<open>triple P m Q E\<close> is that from a world with \<open>P\<close>, \<open>m\<close> ends in a world with \<open>E\<close> where it
  returns an error, and with \<open>Q x\<close> where it returns the value \<open>x\<close>.
\<close>

definition triple ::
  "('w \<Rightarrow> bool) \<Rightarrow> ('w, 'a) op \<Rightarrow> ('a \<Rightarrow> 'w \<Rightarrow> bool) \<Rightarrow> ('w \<Rightarrow> bool) \<Rightarrow> bool" where
  "triple P m Q E \<longleftrightarrow> (\<forall>w. P w \<longrightarrow> (case m w of (Inl e, w') \<Rightarrow> E w' | (Inr x, w') \<Rightarrow> Q x w'))"

lemma tripleI:
  "(\<And>w e w'. P w \<Longrightarrow> m w = (Inl e, w') \<Longrightarrow> E w') \<Longrightarrow> (\<And>w x w'. P w \<Longrightarrow> m w = (Inr x, w') \<Longrightarrow> Q x w') \<Longrightarrow>
     triple P m Q E"
  by (auto simp: triple_def split: prod.split sum.split)

lemma triple_Inl: "triple P m Q E \<Longrightarrow> P w \<Longrightarrow> m w = (Inl e, w') \<Longrightarrow> E w'"
  by (fastforce simp: triple_def)

lemma triple_Inr: "triple P m Q E \<Longrightarrow> P w \<Longrightarrow> m w = (Inr x, w') \<Longrightarrow> Q x w'"
  by (fastforce simp: triple_def)

lemma triple_keeps: "triple I m (\<lambda>_. I) I \<longleftrightarrow> keeps I m"
  by (auto simp: triple_def keeps_def split: prod.splits sum.splits) (metis prod.collapse sum.exhaust)+

lemma triple_weaken:
  "triple P m Q E \<Longrightarrow> (\<And>w. P' w \<Longrightarrow> P w) \<Longrightarrow> (\<And>x w. Q x w \<Longrightarrow> Q' x w) \<Longrightarrow> (\<And>w. E w \<Longrightarrow> E' w) \<Longrightarrow> triple P' m Q' E'"
  by (fastforce simp: triple_def split: prod.splits sum.splits)

lemma triple_ret: "(\<And>w. P w \<Longrightarrow> Q x w) \<Longrightarrow> triple P (ret x) Q E"
  by (simp add: triple_def ret_def)

lemma triple_raise: "(\<And>w. P w \<Longrightarrow> E w) \<Longrightarrow> triple P (raise e) Q E"
  by (simp add: triple_def raise_def)

lemma triple_attempt:
  assumes "triple P m R F" and "\<And>e. triple F (f e) Q E" and "\<And>x. triple (R x) (k x) Q E"
  shows "triple P (attempt m f k) Q E"
proof -
  have "case attempt m f k w of (Inl e, w') \<Rightarrow> E w' | (Inr x, w') \<Rightarrow> Q x w'" if "P w" for w
  proof -
    obtain r u where m: "m w = (r, u)" by force
    show ?thesis
      using m triple_Inl [OF assms(1) that] triple_Inr [OF assms(1) that] assms(2,3)
      by (cases r) (simp_all add: attempt_apply triple_def)
  qed
  then show ?thesis by (simp add: triple_def)
qed

lemma triple_call: "triple P m R E \<Longrightarrow> (\<And>x. triple (R x) (k x) Q E) \<Longrightarrow> triple P (call m h k) Q E"
  unfolding call_def by (rule triple_attempt) (auto intro: triple_raise)

lemma triple_ignoring: "triple P m (\<lambda>_. R) R \<Longrightarrow> triple R k Q E \<Longrightarrow> triple P (ignoring m k) Q E"
  unfolding ignoring_def by (rule triple_attempt)

lemma triple_check: "(\<And>w. P w \<Longrightarrow> E w) \<Longrightarrow> (r = None \<Longrightarrow> triple P k Q E) \<Longrightarrow> triple P (check r h k) Q E"
  by (cases r) (auto simp: check_def intro: triple_raise)

lemma triple_fail_if: "(\<And>w. P w \<Longrightarrow> E w) \<Longrightarrow> (\<not> c \<Longrightarrow> triple P k Q E) \<Longrightarrow> triple P (fail_if c e k) Q E"
  by (auto simp: fail_if_def intro: triple_raise)

lemma triple_with_now:
  "keeps_clock P c \<Longrightarrow> (\<And>t. triple P (k t) Q E) \<Longrightarrow> triple P (with_now c k) Q E"
  by (simp add: triple_def keeps_clock_def with_now_def split_beta)

lemma triple_if: "(c \<Longrightarrow> triple P m Q E) \<Longrightarrow> (\<not> c \<Longrightarrow> triple P n Q E) \<Longrightarrow> triple P (if c then m else n) Q E"
  by simp

lemma keeps_triple: "keeps I m \<Longrightarrow> triple I m (\<lambda>_. I) I"
  by (simp add: triple_keeps)

end
