(* ===== verification/Repo_Location.thy ===== *)
theory Repo_Location imports Repo_World Storage_Laws Triples begin

text \<open>
  Where the Git data of a repository is, against the state its row says: an active
  repository is at its live path, and one that is being deleted is not. The moves of the
  storage and the statements of the database have no common transaction, so the methods
  keep this by undoing the one where the other fails.
\<close>

section \<open>Statements and states\<close>

definition state_key :: "repo_row \<Rightarrow> uuid \<times> uuid option \<times> bool \<times> repo_state" where
  "state_key r = (rr_id r, rr_org r, live_repo r, rr_state r)"

text \<open>Rows keep their key, and rows outside \<open>X\<close> their state; a new row is in \<open>X\<close>.\<close>

definition states_within :: "uuid set \<Rightarrow> org_tables \<Rightarrow> org_tables \<Rightarrow> bool" where
  "states_within X t t' \<longleftrightarrow>
     (keyed rr_id (repositories t) \<longrightarrow> keyed rr_id (repositories t'))
     \<and> (keyed dr_id (repository_deletions t) \<longrightarrow> keyed dr_id (repository_deletions t'))
     \<and> (\<forall>r' \<in> set (repositories t'). rr_id r' \<notin> X \<longrightarrow> state_key r' \<in> state_key ` set (repositories t))"

lemma states_within_refl: "states_within X t t"
  by (simp add: states_within_def)

lemma states_within_update:
  assumes "\<And>r. r \<in> set (repositories t) \<Longrightarrow> p r \<Longrightarrow> rr_id (f r) = rr_id r \<and> (rr_id r \<in> X \<or> state_key (f r) = state_key r)"
    and "repositories t' = update_where p f (repositories t)"
    and "keyed dr_id (repository_deletions t) \<Longrightarrow> keyed dr_id (repository_deletions t')"
  shows "states_within X t t'"
proof -
  have "keyed rr_id (repositories t') = keyed rr_id (repositories t)"
    unfolding assms(2) by (rule keyed_update_where) (simp add: assms(1))
  moreover have "state_key r' \<in> state_key ` set (repositories t)"
    if "r' \<in> set (repositories t')" "rr_id r' \<notin> X" for r'
    using that assms(1) unfolding assms(2) by (auto simp: in_update_where image_iff) metis
  ultimately show ?thesis using assms(3) by (simp add: states_within_def)
qed

text \<open>A row after \<open>UPDATE\<close>, by the row it was.\<close>

lemma update_repo_row:
  assumes "update_repo p f t = Inr (x, t')" and "r \<in> set (repositories t')"
  obtains r0 where "r0 \<in> set (repositories t)" "rr_deleted_at r = rr_deleted_at r0"
    "rr_repo r = (if p r0 then f (rr_repo r0) else rr_repo r0)"
proof -
  have "repositories t' = update_where p (\<lambda>r. r\<lparr>rr_repo := f (rr_repo r)\<rparr>) (repositories t)"
    using assms(1) by (auto simp: update_repo_def split: option.splits)
  with assms(2) obtain r0 where "r0 \<in> set (repositories t)"
    "r = (if p r0 then r0\<lparr>rr_repo := f (rr_repo r0)\<rparr> else r0)"
    by (auto simp: update_where_def)
  with that [of r0] show thesis by simp
qed

lemma update_repo_result:
  "update_repo p f t = Inr (x, t') \<Longrightarrow> \<exists>r0 \<in> set (repositories t). p r0 \<and> x = f (rr_repo r0)"
  by (auto simp: update_repo_def dest!: find_Some_in split: option.splits)

lemma update_repo_state:
  assumes "update_repo p f t = Inr (x, t')" and "r \<in> set (repositories t')" and "rr_id r = rid" and "live_repo r"
    and "\<And>v. repo_ID (f v) = repo_ID v" and "\<And>v. repo_State (f v) = s"
    and "\<And>r0. rr_id r0 = rid \<Longrightarrow> live_repo r0 \<Longrightarrow> p r0"
  shows "rr_state r = s"
proof -
  from update_repo_row [OF assms(1,2)] obtain r0 where r0: "rr_deleted_at r = rr_deleted_at r0"
    "rr_repo r = (if p r0 then f (rr_repo r0) else rr_repo r0)" by metis
  then have "rr_id r0 = rid" "live_repo r0" using assms(3-5) by (auto split: if_splits)
  then have "p r0" by (rule assms(7))
  with r0(2) assms(6) show ?thesis by simp
qed

lemma states_update_repo:
  assumes "update_repo p f t = Inr (x, t')" and "\<And>v. repo_ID (f v) = repo_ID v"
    and "\<And>r. p r \<Longrightarrow> rr_id r \<in> X \<or> repo_State (f (rr_repo r)) = rr_state r \<and> repo_OrganizationID (f (rr_repo r)) = rr_org r"
  shows "states_within X t t'"
  using assms
  by (intro states_within_update [where p = p and f = "\<lambda>r. r\<lparr>rr_repo := f (rr_repo r)\<rparr>"])
     (auto simp: update_repo_def state_key_def split: option.splits)

lemma states_UpdateState: "sql_UpdateRepositoryState rid s now t = Inr (x, t') \<Longrightarrow> states_within {rid} t t'"
  unfolding sql_UpdateRepositoryState_def by (erule states_update_repo) auto

lemma states_Activate: "sql_ActivateRepository rid i now t = Inr (x, t') \<Longrightarrow> states_within {rid} t t'"
  unfolding sql_ActivateRepository_def by (auto split: if_splits elim!: states_update_repo)

lemma states_UpdateSettings:
  assumes "sql_UpdateRepositorySettings rid i input archived a now t = Inr (x, t')"
  shows "states_within {} t t'"
proof (rule states_within_update)
  show "repositories t' = update_where (\<lambda>r. rr_id r = rid \<and> live_repo r \<and> rr_state r = StateActive)
      (\<lambda>r. r\<lparr>rr_repo := new_settings input archived a now (rr_repo r)\<rparr>) (repositories t)"
    using assms by (auto simp: sql_UpdateRepositorySettings_def Let_def split: option.splits if_splits)
  show "keyed dr_id (repository_deletions t) \<Longrightarrow> keyed dr_id (repository_deletions t')"
    using assms by (auto simp: sql_UpdateRepositorySettings_def Let_def split: option.splits if_splits)
qed (simp add: state_key_def new_settings_def)

lemma states_Create:
  assumes "sql_CreateRepository value t = Inr (x, t')"
  shows "states_within {repo_ID value} t t'"
    and "\<And>r. r \<in> set (repositories t') \<Longrightarrow> rr_id r = repo_ID value \<Longrightarrow> rr_repo r = x"
    and "repo_ID x = repo_ID value" and "repo_State x = repo_State value" and "repo_Visibility x = repo_Visibility value"
proof -
  from assms have x: "x = value\<lparr>repo_OrganizationSlug := [], repo_ForkedFrom := fork_columns (repo_ForkedFrom value),
      repo_TransferredFrom := None, repo_ForkCount := 0, repo_ViewerCanAdmin := False, repo_ArchivedAt := None\<rparr>"
    and rows: "repositories t' = repositories t @ [\<lparr>rr_repo = x, rr_deleted_at = None\<rparr>]"
    and same: "repository_deletions t' = repository_deletions t"
    and new: "repo_ID value \<notin> rr_id ` set (repositories t)"
    by (auto simp: sql_CreateRepository_def Let_def list_ex_iff split: if_splits)
  from x show "repo_ID x = repo_ID value" "repo_State x = repo_State value" "repo_Visibility x = repo_Visibility value"
    by simp_all
  with rows same new show "states_within {repo_ID value} t t'"
    by (auto simp: states_within_def)
  show "rr_repo r = x" if "r \<in> set (repositories t')" "rr_id r = repo_ID value" for r
    using that rows new by (auto simp: image_iff)
qed

lemma states_RequestDeletion:
  assumes "sql_RequestRepositoryDeletion d t = Inr (x, t')"
  shows "states_within {del_RepositoryID d} t t'"
    and "\<And>r. keyed rr_id (repositories t) \<Longrightarrow> r \<in> set (repositories t') \<Longrightarrow> rr_id r = del_RepositoryID d \<Longrightarrow> rr_state r = StateDeleting"
proof -
  let ?p = "\<lambda>r. rr_id r = del_RepositoryID d \<and> rr_state r = StateActive \<and> live_repo r"
  let ?f = "\<lambda>r. r\<lparr>rr_repo := (rr_repo r)\<lparr>repo_State := StateDeleting, repo_UpdatedAt := del_RequestedAt d\<rparr>\<rparr>"
  have rows: "repositories t' = update_where ?p ?f (repositories t)" "\<exists>r \<in> set (repositories t). ?p r"
    using assms by (auto simp: sql_RequestRepositoryDeletion_def Let_def list_ex_iff split: if_splits)
  have "repository_deletions t' = repository_deletions t @ [\<lparr>dr_deletion = d, dr_restored_at = None, dr_purged_at = None\<rparr>]"
    and "del_ID d \<notin> dr_id ` set (repository_deletions t)"
    using assms by (auto simp: sql_RequestRepositoryDeletion_def Let_def list_ex_iff split: if_splits)
  then have deletions: "keyed dr_id (repository_deletions t) \<Longrightarrow> keyed dr_id (repository_deletions t')"
    by simp
  show "states_within {del_RepositoryID d} t t'"
    by (rule states_within_update [OF _ rows(1) deletions]) auto
  show "rr_state r = StateDeleting"
    if "keyed rr_id (repositories t)" "r \<in> set (repositories t')" "rr_id r = del_RepositoryID d" for r
    using that rows by (auto simp: in_update_where dest: keyed_unique)
qed

lemma states_RestoreDeletion:
  assumes "sql_RestoreRepositoryDeletion i now t = Inr (x, t')" and "keyed dr_id (repository_deletions t)"
    and "d \<in> set (repository_deletions t)" and "dr_id d = i"
  shows "states_within {dr_repository d} t t'"
    and "\<exists>r \<in> set (repositories t). rr_id r = dr_repository d \<and> repo_OrganizationID x = rr_org r"
proof -
  obtain e where e: "find (\<lambda>d. dr_id d = i \<and> open_deletion d \<and> now < dr_due d) (repository_deletions t) = Some e"
    using assms(1) by (auto simp: sql_RestoreRepositoryDeletion_def Let_def split: option.splits)
  with assms(2-4) have "e = d" by (auto dest!: find_Some_in intro: keyed_unique)
  let ?u = "t\<lparr>repository_deletions := update_where (\<lambda>d. dr_id d = i \<and> open_deletion d \<and> now < dr_due d)
      (\<lambda>d. d\<lparr>dr_restored_at := Some now\<rparr>) (repository_deletions t)\<rparr>"
  from e assms(1) \<open>e = d\<close> have upd: "update_repo (\<lambda>r. rr_id r = dr_repository d)
      (\<lambda>v. v\<lparr>repo_State := StateActive, repo_UpdatedAt := now\<rparr>) ?u = Inr (x, t')"
    by (simp add: sql_RestoreRepositoryDeletion_def)
  have u: "repositories ?u = repositories t"
    "keyed dr_id (repository_deletions t) \<Longrightarrow> keyed dr_id (repository_deletions ?u)"
    by (simp_all add: keyed_update_where)
  from states_update_repo [OF upd, of "{dr_repository d}"] u
  show "states_within {dr_repository d} t t'" by (simp add: states_within_def)
  from upd u(1) show "\<exists>r \<in> set (repositories t). rr_id r = dr_repository d \<and> repo_OrganizationID x = rr_org r"
    by (auto simp: update_repo_def dest!: find_Some_in split: option.splits)
qed

text \<open>A purged repository is no longer live.\<close>

lemma states_MarkPurged:
  assumes "sql_MarkRepositoryPurged i now t = Inr (x, t')"
  shows "\<exists>X. states_within X t t' \<and> (\<forall>r \<in> set (repositories t'). rr_id r \<in> X \<longrightarrow> \<not> live_repo r)"
proof (cases "find (\<lambda>d. dr_id d = i \<and> open_deletion d) (repository_deletions t)")
  case None
  with assms show ?thesis
    by (intro exI [of _ "{}"]) (simp add: sql_MarkRepositoryPurged_def states_within_refl)
next
  case (Some d)
  let ?p = "\<lambda>r. rr_id r = dr_repository d"
  let ?f = "\<lambda>r. r\<lparr>rr_repo := (rr_repo r)\<lparr>repo_State := StateDeleted, repo_UpdatedAt := now\<rparr>, rr_deleted_at := Some now\<rparr>"
  have rows: "repositories t' = update_where ?p ?f (repositories t)"
    and deletions: "keyed dr_id (repository_deletions t) \<Longrightarrow> keyed dr_id (repository_deletions t')"
    using assms Some by (auto simp: sql_MarkRepositoryPurged_def keyed_update_where)
  have "states_within {dr_repository d} t t'"
    by (rule states_within_update [OF _ rows deletions]) auto
  moreover have "\<forall>r \<in> set (repositories t'). rr_id r \<in> {dr_repository d} \<longrightarrow> \<not> live_repo r"
    unfolding rows by (auto simp: in_update_where)
  ultimately show ?thesis by blast
qed

section \<open>Located\<close>

definition located_except :: "filesystem \<Rightarrow> uuid set \<Rightarrow> org_tables \<Rightarrow> disk_state \<Rightarrow> bool" where
  "located_except F X t d \<longleftrightarrow>
     keyed rr_id (repositories t) \<and> keyed dr_id (repository_deletions t) \<and> disk_ok d
     \<and> (\<forall>r \<in> set (repositories t). rr_org r = None \<longrightarrow> live_repo r \<longrightarrow> rr_id r \<notin> X \<longrightarrow>
          (rr_state r = StateActive \<longrightarrow> is_dir d (live_path F (rr_id r)))
          \<and> (rr_state r = StateDeleting \<longrightarrow> entries d (live_path F (rr_id r)) = None))"

abbreviation located :: "filesystem \<Rightarrow> org_tables \<Rightarrow> disk_state \<Rightarrow> bool" where
  "located F \<equiv> located_except F {}"

lemma located_states:
  assumes "located_except F X t d" and "states_within Y t t'"
  shows "located_except F (X \<union> Y) t' d"
proof -
  have "(rr_state r' = StateActive \<longrightarrow> is_dir d (live_path F (rr_id r')))
      \<and> (rr_state r' = StateDeleting \<longrightarrow> entries d (live_path F (rr_id r')) = None)"
    if r': "r' \<in> set (repositories t')" "rr_org r' = None" "live_repo r'" "rr_id r' \<notin> X \<union> Y" for r'
  proof -
    from assms(2) r' obtain r where "r \<in> set (repositories t)" "state_key r' = state_key r"
      unfolding states_within_def by blast
    moreover from this r' have "rr_org r = None" "live_repo r" "rr_id r \<notin> X" "rr_id r = rr_id r'" "rr_state r = rr_state r'"
      by (auto simp: state_key_def)
    ultimately show ?thesis using assms(1) unfolding located_except_def by metis
  qed
  with assms show ?thesis unfolding located_except_def states_within_def by blast
qed

text \<open>The live paths of repositories other than those in \<open>X\<close> are as they were.\<close>

definition same_places :: "filesystem \<Rightarrow> uuid set \<Rightarrow> disk_state \<Rightarrow> disk_state \<Rightarrow> bool" where
  "same_places F X d d' \<longleftrightarrow> (\<forall>rid. rid \<notin> X \<longrightarrow>
     (is_dir d' (live_path F rid) \<longleftrightarrow> is_dir d (live_path F rid))
     \<and> (entries d' (live_path F rid) = None \<longleftrightarrow> entries d (live_path F rid) = None))"

lemma located_places:
  "located_except F X t d \<Longrightarrow> same_places F Y d d' \<Longrightarrow> disk_ok d' \<Longrightarrow> located_except F (X \<union> Y) t d'"
  unfolding located_except_def same_places_def by (metis UnI1 UnI2)

text \<open>The facts about one repository close the gap.\<close>

lemma located_closeI:
  assumes "located_except F {rid} t d"
    and "\<And>r. r \<in> set (repositories t) \<Longrightarrow> rr_id r = rid \<Longrightarrow> rr_org r = None \<Longrightarrow> live_repo r \<Longrightarrow>
      (rr_state r = StateActive \<longrightarrow> is_dir d (live_path F rid))
      \<and> (rr_state r = StateDeleting \<longrightarrow> entries d (live_path F rid) = None)"
  shows "located F t d"
  using assms by (auto simp: located_except_def)

lemma same_places_move:
  assumes "uuid_text_ok (fs_uuid_string F)"
  shows "same_places F {rid} d (after_move (live_path F rid) (quarantine_path F rid) d)"
    and "same_places F {rid} d (after_move (quarantine_path F rid) (live_path F rid) d)"
proof -
  have "entries (after_move (live_path F rid) (quarantine_path F rid) d) (live_path F rid') = entries d (live_path F rid')"
    and "entries (after_move (quarantine_path F rid) (live_path F rid) d) (live_path F rid') = entries d (live_path F rid')"
    if "rid' \<noteq> rid" for rid'
    using after_move_entries(3) [of _ _ "live_path F rid'" d "[]"] places_parallel(1,2)
      places_parallel(3) [OF assms that] by simp_all
  then show "same_places F {rid} d (after_move (live_path F rid) (quarantine_path F rid) d)"
    and "same_places F {rid} d (after_move (quarantine_path F rid) (live_path F rid) d)"
    by (simp_all add: same_places_def is_dir_def)
qed

end
