(* ===== verification/Git_Safety.thy ===== *)
theory Git_Safety imports Git_Merge begin

text \<open>
  What a merge does to the references of a repository, from what Git documents of its
  commands: only \<open>update-ref\<close> among the commands of a merge writes references, and it
  writes one of them, where its old value is the one given.
\<close>

section \<open>The operation of a command\<close>

text \<open>\<open>commandOperation\<close> of \<^verbatim>\<open>internal/git/runner.go\<close>: the subcommand after the global options.\<close>

definition known_operations :: "string list" where
  "known_operations =
     [''archive'', ''branch'', ''cat-file'', ''check-ref-format'', ''clone'', ''commit-tree'', ''diff'', ''fetch'',
      ''for-each-ref'', ''init'', ''log'', ''ls-tree'', ''merge-base'', ''merge-tree'', ''read-tree'',
      ''receive-pack'', ''rev-list'', ''rev-parse'', ''show'', ''symbolic-ref'', ''update-ref'', ''upload-pack'',
      ''write-tree'']"

fun commandOperation :: "string list \<Rightarrow> string" where
  "commandOperation [] = ''other''"
| "commandOperation (v # args) =
     (if v = ''-c'' then commandOperation (drop 1 args)
      else if prefix ''--git-dir='' v \<or> prefix ''--work-tree='' v \<or> v = ''--bare'' then commandOperation args
      else if v \<in> set known_operations then v else ''other'')"

definition reads_only :: "git_command \<Rightarrow> bool" where
  "reads_only c \<longleftrightarrow> commandOperation (gc_args c) \<in>
     set [''rev-parse'', ''cat-file'', ''for-each-ref'', ''merge-base'', ''merge-tree'', ''commit-tree'', ''check-ref-format'',
       ''show'', ''diff'', ''rev-list'', ''ls-tree'']"

text \<open>The references of the repositories, by Git directory and name.\<close>

type_synonym refs = "string \<Rightarrow> string \<Rightarrow> string option"

definition set_ref :: "string \<Rightarrow> string \<Rightarrow> string \<Rightarrow> refs \<Rightarrow> refs" where
  "set_ref p r sha f = f(p := (f p)(r \<mapsto> sha))"

definition merge_surroundings :: "('w \<Rightarrow> 'v) \<Rightarrow> 'w git_service \<Rightarrow> bool" where
  "merge_surroundings v S \<longleftrightarrow>
     frames v (gs_ctx_Err S) \<and> (\<forall>rid. frames v (gs_Path S rid)) \<and> frames v (tf_MkdirTemp (gs_temporary S))
     \<and> (\<forall>d. frames v (tf_Mkdir (gs_temporary S) d)) \<and> (\<forall>d s. frames v (tf_WriteFile (gs_temporary S) d s))
     \<and> (\<forall>d. frames v (tf_RemoveAll (gs_temporary S) d))"

definition git_refs_ok :: "('w \<Rightarrow> refs) \<Rightarrow> 'w git_service \<Rightarrow> bool" where
  "git_refs_ok v S \<longleftrightarrow>
     merge_surroundings v S \<and> (\<forall>c. reads_only c \<longrightarrow> frames v (gs_exec S c))
     \<and> (\<forall>p r new old w. case gs_exec S (update_ref p r new old) w of
          (Inl _, w') \<Rightarrow> v w' = v w
        | (Inr _, w') \<Rightarrow> v w p r = Some old \<and> v w' = set_ref p r new (v w))"

section \<open>Commands that only read\<close>

lemma reads_only_commands [simp]:
  "reads_only \<lparr>gc_args = (''--git-dir='' @ p) # ''rev-parse'' # rest, gc_env = env, gc_input = input\<rparr>"
  "reads_only \<lparr>gc_args = hardenedMergeArgs d (''merge-base'' # rest), gc_env = env, gc_input = input\<rparr>"
  "reads_only \<lparr>gc_args = hardenedMergeArgs d (''merge-tree'' # rest), gc_env = env, gc_input = input\<rparr>"
  "reads_only \<lparr>gc_args = hardenedMergeArgs d (''commit-tree'' # sha # extra) @ rest, gc_env = env, gc_input = input\<rparr>"
  by (simp_all add: reads_only_def hardenedMergeArgs_def known_operations_def)

lemma surroundings_frames:
  assumes "merge_surroundings v S"
  shows "frames v (gs_ctx_Err S)" "frames v (gs_Path S rid)" "frames v (tf_MkdirTemp (gs_temporary S))"
    "frames v (tf_Mkdir (gs_temporary S) d)" "frames v (tf_WriteFile (gs_temporary S) d s)"
    "frames v (tf_RemoveAll (gs_temporary S) d)"
  using assms by (simp_all add: merge_surroundings_def)

lemma reading_frames:
  assumes "git_refs_ok v S"
  shows "reads_only c \<Longrightarrow> frames v (gs_exec S c)" and "merge_surroundings v S"
  using assms by (simp_all add: git_refs_ok_def)

lemma merge_steps_frame:
  assumes "git_refs_ok v S"
  shows "frames v (git_repositoryPath S rid)" and "frames v (git_objectFormat S p)"
    and "frames v (resolveMergeCommit S p revision)" and "frames v (isolatedBareRepository S format)"
    and "frames v (create_commit S r objects d n target head)"
  unfolding git_repositoryPath_def git_objectFormat_def resolveMergeCommit_def git_resolve_def
    isolatedBareRepository_def Let_def create_commit_def isolated_command_def or_conflict_def
  by (intro op_frames reading_frames [OF assms] surroundings_frames [OF reading_frames(2) [OF assms]];
      simp add: reads_only_def hardenedMergeArgs_def known_operations_def)+

section \<open>The compare-and-swap\<close>

text \<open>The world after the hook that runs before the target is advanced.\<close>

definition hook_world :: "'w git_service \<Rightarrow> 'w \<Rightarrow> 'w" where
  "hook_world S w = (case gs_beforeMergeCAS S of None \<Rightarrow> w | Some hook \<Rightarrow> snd (hook w))"

lemma before_cas_apply: "before_cas S k w = k (hook_world S w)"
  by (simp add: before_cas_def hook_world_def ignoring_apply split: option.split)

lemma advance_target_cases:
  assumes ok: "git_refs_ok v S" and "advance_target S p t new old w = (res, w')"
  shows "case res of Inl _ \<Rightarrow> v w' = v w | Inr _ \<Rightarrow> v w p t = Some old \<and> v w' = set_ref p t new (v w)"
proof -
  obtain q u where q: "gs_exec S (update_ref p t new old) w = (q, u)" by force
  have frame: "frames v (gs_ctx_Err S)" by (rule surroundings_frames [OF reading_frames(2) [OF ok]])
  have cas: "case q of Inl _ \<Rightarrow> v u = v w | Inr _ \<Rightarrow> v w p t = Some old \<and> v u = set_ref p t new (v w)"
    using ok q unfolding git_refs_ok_def by (auto split: prod.splits sum.splits)
  show ?thesis
    using assms(2) q cas framesD [OF frame]
    by (auto simp: advance_target_def git_run_def git_runWithEnv_def update_ref_def op_eval
        split: sum.splits prod.splits)
qed

definition merge_end ::
  "('w \<Rightarrow> refs) \<Rightarrow> 'w git_service \<Rightarrow> merge_request \<Rightarrow> refs \<Rightarrow> string \<Rightarrow> (err + merge_result) \<times> 'w \<Rightarrow> bool" where
  "merge_end v S r before p result =
     (let target = branch_ref (mr_TargetBranch r)
      in case result of
           (Inl _, w') \<Rightarrow> v w' = before \<or> (\<exists>u. v u = before \<and> v w' = v (hook_world S u))
         | (Inr m, w') \<Rightarrow> \<exists>u. v u = before \<and> v (hook_world S u) p target = Some (mr_ExpectedTargetSHA r)
             \<and> v w' = set_ref p target (res_NewSHA m) (v (hook_world S u)))"

text \<open>Where a call leaves the view alone, what holds of every result from there holds of the call.\<close>

lemma framed_call:
  assumes "frames v m" and "v w = V" and "\<And>e u. v u = V \<Longrightarrow> Q (Inl e, u)"
    and "\<And>x u. v u = V \<Longrightarrow> Q (k x u)"
  shows "Q (call m h k w)"
proof -
  obtain q u where m: "m w = (q, u)" by force
  then have "v u = V" using assms(1,2) by (auto dest: framesD)
  then show ?thesis using m assms(3,4) by (simp add: call_apply split: sum.split)
qed

lemma call_returns: "m w = (Inr x, u) \<Longrightarrow> call m h k w = k x u"
  by (simp add: call_apply)

lemma framed_check:
  "(\<And>e. Q (Inl e, w)) \<Longrightarrow> (r = None \<Longrightarrow> Q (k w)) \<Longrightarrow> Q (check r h k w)"
  by (simp add: check_apply split: option.split)

lemma framed_fail_if: "Q (Inl e, w) \<Longrightarrow> (\<not> c \<Longrightarrow> Q (k w)) \<Longrightarrow> Q (fail_if c e k w)"
  by (simp add: fail_if_apply)

lemma merge_end_error: "v u = V \<Longrightarrow> merge_end v S r V p (Inl e, u)"
  by (simp add: merge_end_def)

lemma merge_isolated_end:
  assumes ok: "git_refs_ok v S" and "v w = V" and "targetSHA = mr_ExpectedTargetSHA r"
  shows "merge_end v S r V p (merge_isolated S r p d n (branch_ref (mr_TargetBranch r)) targetSHA headSHA w)"
  unfolding merge_isolated_def
proof (rule framed_call [OF merge_steps_frame(5) [OF ok] assms(2)], rule merge_end_error, assumption)
  fix x :: "string \<times> string" and u assume u: "v u = V"
  obtain treeSHA newSHA where x: "x = (treeSHA, newSHA)" by force
  obtain q w' where adv: "advance_target S p (branch_ref (mr_TargetBranch r)) newSHA targetSHA (hook_world S u) = (q, w')"
    by force
  show "merge_end v S r V p
     ((case x of (treeSHA, newSHA) \<Rightarrow> before_cas S (
        call (advance_target S p (branch_ref (mr_TargetBranch r)) newSHA targetSHA) (\<lambda>e. e) (\<lambda>_.
        ret \<lparr>res_OldSHA = targetSHA, res_NewSHA = newSHA, res_HeadSHA = headSHA, res_TreeSHA = treeSHA,
          res_TargetRef = branch_ref (mr_TargetBranch r), res_Strategy = mr_Strategy r\<rparr>))) u)"
    using advance_target_cases [OF ok adv] u adv
    by (cases q) (auto simp: x before_cas_apply call_apply ret_def merge_end_def Let_def assms(3))
qed

lemma deferring_end:
  assumes "frames v c" and "merge_end v S r V p (m w)"
  shows "merge_end v S r V p (deferring c m w)"
  using assms by (cases "m w") (auto simp: merge_end_def deferring_apply frames_def Let_def split: sum.splits)

lemma git_Merge_end:
  assumes ok: "git_refs_ok v S" and path: "fst (gs_Path S rid w) = Inr p"
  shows "merge_end v S r (v w) p (git_Merge S rid r w)"
proof -
  note surroundings = surroundings_frames [OF reading_frames(2) [OF ok]]
  obtain u where u: "gs_Path S rid w = (Inr p, u)" using path by (cases "gs_Path S rid w") auto
  have vu: "v u = v w" using u surroundings(2) by (auto dest: framesD)
  have path: "git_repositoryPath S rid w = (Inr p, u)"
    by (simp add: git_repositoryPath_def call_apply u ret_def)
  show ?thesis
    unfolding git_Merge_def
    apply (rule framed_check, rule merge_end_error, rule refl)
    apply (subst call_returns [where m = "git_repositoryPath S rid", OF path])
    apply (rule framed_call [OF merge_steps_frame(2) [OF ok] vu], erule merge_end_error)
    apply (split prod.split, intro allI impI)
    apply (rule framed_check, erule merge_end_error)+
    apply (rule framed_call [OF merge_steps_frame(3) [OF ok]], assumption, erule merge_end_error)
    apply (rule framed_fail_if, erule merge_end_error)
    apply (rule framed_call [OF merge_steps_frame(3) [OF ok]], assumption, erule merge_end_error)
    apply (rule framed_fail_if, erule merge_end_error)
    apply (rule framed_call [OF merge_steps_frame(4) [OF ok]], assumption, erule merge_end_error)
    apply (rule deferring_end [OF surroundings(6)], rule merge_isolated_end [OF ok], assumption)
    apply simp
    done
qed

end
