(* ===== verification/Repo_Consistency.thy ===== *)
theory Repo_Consistency imports Repo_Location Git_Safety begin

text \<open>
  The repository service keeps the Git data of personal repositories where their state says,
  on a disk that works, although the database, the id generator and the publisher may
  fail at any call.
\<close>

section \<open>What Git does to the places of repositories\<close>

text \<open>
  From Git's documentation: a command other than \<open>init\<close> neither creates nor removes a
  repository, and \<open>init\<close> at a path creates the repository there. The import of a fork
  initializes its destination and nothing else.
\<close>

definition commands_ok :: "git_installation \<Rightarrow> bool" where
  "commands_ok G \<longleftrightarrow> (\<forall>c d r d'. gi_exec G c d = (r, d') \<longrightarrow> disk_ok d \<longrightarrow>
     disk_ok d' \<and> (commandOperation (gc_args c) \<noteq> ''init'' \<longrightarrow> same_places (gi_storage G) {} d d'))"

definition init_ok :: "git_installation \<Rightarrow> bool" where
  "init_ok G \<longleftrightarrow> (\<forall>rid b d r d'.
     gi_exec G (command [''init'', ''--bare'', b, path_text (live_path (gi_storage G) rid)]) d = (r, d') \<longrightarrow> disk_ok d \<longrightarrow>
     same_places (gi_storage G) {rid} d d' \<and> (\<forall>x. r = Inr x \<longrightarrow> is_dir d' (live_path (gi_storage G) rid)))"

definition fork_ok :: "git_installation \<Rightarrow> bool" where
  "fork_ok G \<longleftrightarrow> (\<forall>f rid s b d r d'. gi_forker G = Some f \<longrightarrow> gf_Fork f rid s b d = (r, d') \<longrightarrow> disk_ok d \<longrightarrow>
     disk_ok d' \<and> same_places (gi_storage G) {rid} d d' \<and> (r = Inr () \<longrightarrow> is_dir d' (live_path (gi_storage G) rid)))"

definition git_installed :: "git_installation \<Rightarrow> bool" where
  "git_installed G \<longleftrightarrow>
     commands_ok G \<and> init_ok G \<and> fork_ok G \<and> uuid_text_ok (fs_uuid_string (gi_storage G))"

definition undisturbed :: "filesystem \<Rightarrow> uuid set \<Rightarrow> disk_state \<Rightarrow> disk_state \<Rightarrow> bool" where
  "undisturbed F X d0 d \<longleftrightarrow> disk_ok d \<and> same_places F X d0 d"

lemma same_places_trans: "same_places F X d0 d \<Longrightarrow> same_places F Y d d' \<Longrightarrow> same_places F (X \<union> Y) d0 d'"
  by (auto simp: same_places_def)

lemma undisturbed_refl: "disk_ok d \<Longrightarrow> undisturbed F X d d"
  by (simp add: undisturbed_def same_places_def)

lemma undisturbed_ok: "undisturbed F X d0 d \<Longrightarrow> disk_ok d"
  by (simp add: undisturbed_def)

lemma undisturbed_trans:
  "undisturbed F X d0 d \<Longrightarrow> same_places F Y d d' \<Longrightarrow> disk_ok d' \<Longrightarrow> undisturbed F (X \<union> Y) d0 d'"
  by (auto simp: undisturbed_def dest: same_places_trans)

lemma undisturbed_chain: "undisturbed F {} d0 d \<Longrightarrow> undisturbed F {} d d' \<Longrightarrow> undisturbed F {} d0 d'"
  using undisturbed_trans [of F "{}" d0 d "{}" d'] by (simp add: undisturbed_def)

lemma exec_ok:
  assumes "git_installed G" and "gi_exec G c d = (r, d')" and "disk_ok d"
  shows "disk_ok d'" and "commandOperation (gc_args c) \<noteq> ''init'' \<Longrightarrow> same_places (gi_storage G) {} d d'"
proof -
  have "commands_ok G" using assms(1) by (simp only: git_installed_def)
  with assms(2,3) show "disk_ok d'" and "commandOperation (gc_args c) \<noteq> ''init'' \<Longrightarrow> same_places (gi_storage G) {} d d'"
    unfolding commands_ok_def by (metis)+
qed

lemma gs_exec_native [simp]: "gs_exec (native_git G) = gi_exec G"
  by (simp add: native_git_def)

lemma exec_keeps:
  assumes G: "git_installed G" and "commandOperation (gc_args c) \<noteq> ''init''"
  shows "keeps (undisturbed (gi_storage G) {} d0) (gi_exec G c)"
proof (rule keepsI)
  fix d assume d: "undisturbed (gi_storage G) {} d0 d"
  obtain r d' where "gi_exec G c d = (r, d')" by force
  with exec_ok [OF G this undisturbed_ok [OF d]] assms(2) d
  show "undisturbed (gi_storage G) {} d0 (snd (gi_exec G c d))"
    using undisturbed_chain by (fastforce simp: undisturbed_def)
qed

lemma path_keeps: "git_installed G \<Longrightarrow> keeps (undisturbed (gi_storage G) X d0) (gs_Path (native_git G) rid)"
  by (rule keepsI)
     (simp add: native_git_def call_apply lifecyclePaths_quiet(1) git_installed_def undisturbed_def disk_ok_def ret_def)

lemma commands_keep:
  assumes "git_installed G" and "commandOperation args \<noteq> ''init''"
  shows "keeps (undisturbed (gi_storage G) {} d0) (git_run (native_git G) args)" and "keeps (undisturbed (gi_storage G) {} d0) (git_runBounded (native_git G) limit args)"
  unfolding git_run_def git_runWithEnv_def git_runBounded_def
  by (intro op_keeps; simp add: native_git_def exec_keeps assms)+

lemma SetDefaultBranch_keeps: "git_installed G \<Longrightarrow> keeps (undisturbed (gi_storage G) {} d0) (git_SetDefaultBranch (native_git G) rid b)"
  unfolding git_SetDefaultBranch_def check_ref_format_def git_Refs_def set_head_def Let_def
  by (intro op_keeps commands_keep path_keeps; simp add: known_operations_def)

lemma prepared:
  assumes G: "git_installed G" and "disk_ok d"
  shows "case gs_Prepare (native_git G) rid d of (Inl _, d') \<Rightarrow> undisturbed (gi_storage G) {} d d'
    | (Inr p, d') \<Rightarrow> p = path_text (live_path (gi_storage G) rid) \<and> undisturbed (gi_storage G) {} d d'"
proof -
  let ?p = "live_path (gi_storage G) rid"
  have text_ok: "uuid_text_ok (fs_uuid_string (gi_storage G))" using G by (simp add: git_installed_def)
  have quiet: "disk_faults d = []" using assms by (simp add: disk_ok_def)
  have same: "same_places (gi_storage G) {} d (d\<lparr>entries := mkdirs (butlast ?p) (entries d)\<rparr>)"
  proof -
    have "\<not> prefix (live_path (gi_storage G) rid') (butlast ?p)" for rid'
      using strict_prefix_butlast [of ?p "live_path (gi_storage G) rid'"] places_parallel(3) [OF text_ok, of rid rid']
      by (cases "rid = rid'") (auto simp: parallel_def strict_prefix_def)
    then have "mkdirs (butlast ?p) (entries d) (live_path (gi_storage G) rid') = entries d (live_path (gi_storage G) rid')" for rid'
      using mkdirs_beneath [of "live_path (gi_storage G) rid'" "butlast ?p" "entries d" "[]"] by simp
    then show ?thesis by (simp add: same_places_def is_dir_def)
  qed
  have "tree (mkdirs (butlast ?p) (entries d))" if "\<And>q. prefix q (butlast ?p) \<Longrightarrow> entries d q \<noteq> Some Other_Entry"
    using tree_mkdirs(1) [OF _ that] assms by (auto simp: disk_ok_def)
  with same assms quiet show ?thesis
    by (auto simp: native_git_def fs_Prepare_def op_eval lifecyclePaths_quiet(1) text_ok quiet_calls list_ex_iff
        undisturbed_refl) (auto simp: undisturbed_def disk_ok_def)
qed

lemma init_at:
  assumes G: "git_installed G" and d: "undisturbed (gi_storage G) {} d0 d"
    and run: "gi_exec G (command [''init'', ''--bare'', c, path_text (live_path (gi_storage G) rid)]) d = (r, d')"
  shows "undisturbed (gi_storage G) {rid} d0 d' \<and> (\<forall>x. r = Inr x \<longrightarrow> is_dir d' (live_path (gi_storage G) rid))"
proof -
  have "init_ok G" using G by (simp only: git_installed_def)
  then have places: "same_places (gi_storage G) {rid} d d' \<and> (\<forall>x. r = Inr x \<longrightarrow> is_dir d' (live_path (gi_storage G) rid))"
    using run undisturbed_ok [OF d] unfolding init_ok_def by blast
  show ?thesis
    using undisturbed_trans [OF d conjunct1 [OF places] exec_ok(1) [OF G run undisturbed_ok [OF d]]] places by simp
qed

lemma Init_triple:
  assumes G: "git_installed G"
  shows "triple (\<lambda>d. d = d0 \<and> disk_ok d0) (git_Init (native_git G) rid b)
     (\<lambda>_ d. undisturbed (gi_storage G) {rid} d0 d \<and> is_dir d (live_path (gi_storage G) rid)) (undisturbed (gi_storage G) {rid} d0)"
proof -
  have wide: "undisturbed (gi_storage G) {} d0 d \<Longrightarrow> undisturbed (gi_storage G) {rid} d0 d" for d
    by (auto simp: undisturbed_def same_places_def)
  have init: "triple (undisturbed (gi_storage G) {} d0) (gi_exec G (command [''init'', ''--bare'', c, path_text (live_path (gi_storage G) rid)]))
      (\<lambda>_ d. undisturbed (gi_storage G) {rid} d0 d \<and> is_dir d (live_path (gi_storage G) rid)) (undisturbed (gi_storage G) {rid} d0)" for c
    using init_at [OF G] by (intro tripleI) blast+
  have prepare: "triple (undisturbed (gi_storage G) {} d0) (gs_Prepare (native_git G) rid)
      (\<lambda>p d. p = path_text (live_path (gi_storage G) rid) \<and> undisturbed (gi_storage G) {} d0 d) (undisturbed (gi_storage G) {rid} d0)"
  proof (rule tripleI)
    fix d e d' assume "undisturbed (gi_storage G) {} d0 d" "gs_Prepare (native_git G) rid d = (Inl e, d')"
    with prepared [OF G _, of d rid] undisturbed_ok show "undisturbed (gi_storage G) {rid} d0 d'"
      by (auto intro: wide undisturbed_chain)
  next
    fix d p d' assume "undisturbed (gi_storage G) {} d0 d" "gs_Prepare (native_git G) rid d = (Inr p, d')"
    with prepared [OF G _, of d rid] undisturbed_ok show "p = path_text (live_path (gi_storage G) rid) \<and> undisturbed (gi_storage G) {} d0 d'"
      by (auto intro: undisturbed_chain)
  qed
  have format: "triple (\<lambda>d. d = d0 \<and> disk_ok d0) (check_ref_format (native_git G) b) (\<lambda>_. undisturbed (gi_storage G) {} d0) (undisturbed (gi_storage G) {rid} d0)"
    unfolding check_ref_format_def
    by (rule triple_weaken [OF keeps_triple [OF keeps_call [OF commands_keep(1) [OF G] keeps_ret]]])
       (auto simp: known_operations_def undisturbed_refl intro: wide)
  have run: "triple (\<lambda>d. p = path_text (live_path (gi_storage G) rid) \<and> undisturbed (gi_storage G) {} d0 d)
      (git_run (native_git G) [''init'', ''--bare'', c, p])
      (\<lambda>_ d. undisturbed (gi_storage G) {rid} d0 d \<and> is_dir d (live_path (gi_storage G) rid))
      (undisturbed (gi_storage G) {rid} d0)" for p c
  proof (cases "p = path_text (live_path (gi_storage G) rid)")
    case True
    then show ?thesis
      unfolding git_run_def git_runWithEnv_def by (simp add: triple_call [OF init] triple_ret)
  qed (simp add: triple_def)
  show ?thesis
    unfolding git_Init_def
    by (rule triple_call [OF format], rule triple_call [OF prepare], rule triple_call [OF run], rule triple_ret)
qed

end
