(* ===== verification/Repo_Moves.thy ===== *)
theory Repo_Moves imports Repo_Consistency begin

text \<open>
  The methods of the repository service keep \<open>located\<close>. Between two calls the data of one
  repository may be where its state does not say: \<open>creating\<close>, \<open>quarantined\<close> and
  \<open>returned\<close> say what holds then.
\<close>

section \<open>Assertions on tables and disk\<close>

lemma triple_on_disk:
  assumes "\<And>t d. P t d \<Longrightarrow> triple (\<lambda>d'. d' = d) m (\<lambda>x. Q x t) (E t)"
  shows "triple (both P) (on_disk m) (\<lambda>x. both (Q x)) (both E)"
proof (rule tripleI)
  fix w e w' assume "both P w" "on_disk m w = (Inl e, w')"
  with triple_Inl [OF assms, of "tables w" "disk w" "disk w" e "disk w'"] show "both E w'"
    by (auto simp: both_def on_disk_def split: prod.splits)
next
  fix w x w' assume "both P w" "on_disk m w = (Inr x, w')"
  with triple_Inr [OF assms, of "tables w" "disk w" "disk w" x "disk w'"] show "both (Q x) w'"
    by (auto simp: both_def on_disk_def split: prod.splits)
qed

lemma triple_pg_exec:
  assumes "\<And>t d x t'. P t d \<Longrightarrow> q t = Inr (x, t') \<Longrightarrow> Q x t' d"
  shows "triple (both P) (pg_exec q) (\<lambda>x. both (Q x)) (both P)"
proof (rule tripleI)
  fix w :: repo_world and e w' assume "both P w" "pg_exec q w = (Inl e, w')"
  then show "both P w'" by (auto simp: both_def pg_exec_def Let_def split: if_splits sum.splits prod.splits)
next
  fix w :: repo_world and x w' assume "both P w" "pg_exec q w = (Inr x, w')"
  then show "both (Q x) w'"
    using assms by (auto simp: both_def pg_exec_def Let_def split: if_splits sum.splits prod.splits)
qed

lemma triple_repo_query:
  "(\<And>t d x t'. P t d \<Longrightarrow> q t = Inr (x, t') \<Longrightarrow> Q x t' d) \<Longrightarrow>
     triple (both P) (repo_query q) (\<lambda>x. both (Q x)) (both P)"
  unfolding repo_query_def by (rule triple_call [OF triple_pg_exec triple_ret]) auto

text \<open>Reading statements keep every assertion.\<close>

lemma read_query:
  "(\<And>t x t'. q t = Inr (x, t') \<Longrightarrow> t' = t) \<Longrightarrow> keeps (both P) (repo_query q)"
  unfolding repo_query_def by (intro keeps_call both_pg_exec keeps_ret) metis

lemma withOrganizationSlug_keeps [op_keeps]: "keeps (both P) (withOrganizationSlug v)"
  unfolding withOrganizationSlug_def
  by (intro op_keeps read_query) (auto simp: sql_GetOrganizationByID_def one_row_def split: option.splits)

lemma pg_GetOrganizationIdentity_keeps [op_keeps]: "keeps (both P) (pg_GetOrganizationIdentity oid)"
  unfolding pg_GetOrganizationIdentity_def
  by (intro op_keeps read_query) (auto simp: sql_GetOrganizationByID_def one_row_def split: option.splits)

lemma publication_keeps [op_keeps]: "keeps (both P) (repo_publication_for (repositories_of C) v)"
  unfolding repo_publication_for_def supported_def by (cases "repo_OrganizationID v") (auto intro!: op_keeps)

lemma publish_keeps [op_keeps]: "keeps (both P) (rsv_Publish (repositories_of C) p)"
  by (simp add: both_outside)

lemma unpublish_keeps [op_keeps]: "keeps (both P) (unpublish_record p i)"
  unfolding unpublish_record_def by (intro op_keeps)

lemma compensate_keeps [op_keeps]:
  "keeps (both P) k \<Longrightarrow> keeps (both P) (compensatePublication (repositories_of C) u v i k)"
  unfolding compensatePublication_def by (intro op_keeps) (auto intro!: op_keeps)

lemma unpublish_current_keeps [op_keeps]: "keeps (both P) (unpublish_current (repositories_of C) v msg)"
  unfolding unpublish_current_def supported_def by (simp, intro op_keeps)

lemma synchronize_keeps [op_keeps]: "keeps (both P) (synchronize_record (repositories_of C) u v)"
  unfolding synchronize_record_def by (intro op_keeps)

section \<open>Between two calls\<close>

abbreviation personal :: "uuid \<Rightarrow> repo_row \<Rightarrow> bool" where
  "personal rid r \<equiv> rr_id r = rid \<and> rr_org r = None \<and> live_repo r"

definition creating :: "filesystem \<Rightarrow> uuid \<Rightarrow> org_tables \<Rightarrow> disk_state \<Rightarrow> bool" where
  "creating F rid t d \<longleftrightarrow> located_except F {rid} t d
     \<and> (\<forall>r \<in> set (repositories t). personal rid r \<longrightarrow> rr_state r \<noteq> StateActive \<and> rr_state r \<noteq> StateDeleting)"

definition created :: "filesystem \<Rightarrow> uuid \<Rightarrow> org_tables \<Rightarrow> disk_state \<Rightarrow> bool" where
  "created F rid t d \<longleftrightarrow> creating F rid t d \<and> is_dir d (live_path F rid)"

definition quarantined :: "filesystem \<Rightarrow> uuid \<Rightarrow> org_tables \<Rightarrow> disk_state \<Rightarrow> bool" where
  "quarantined F rid t d \<longleftrightarrow> located_except F {rid} t d \<and> entries d (live_path F rid) = None
     \<and> movable (quarantine_path F rid) (live_path F rid) d
     \<and> (\<forall>r \<in> set (repositories t). personal rid r \<longrightarrow> rr_state r \<noteq> StateDeleting)"

definition returned :: "filesystem \<Rightarrow> uuid \<Rightarrow> org_tables \<Rightarrow> disk_state \<Rightarrow> bool" where
  "returned F rid t d \<longleftrightarrow> located_except F {rid} t d \<and> is_dir d (live_path F rid)
     \<and> movable (live_path F rid) (quarantine_path F rid) d
     \<and> (\<forall>r \<in> set (repositories t). personal rid r \<longrightarrow> rr_state r \<noteq> StateActive)"

lemma creating_located: "creating F rid t d \<Longrightarrow> located F t d"
  unfolding creating_def by (elim conjE, erule located_closeI) auto

lemma created_located: "created F rid t d \<Longrightarrow> located F t d"
  by (auto simp: created_def intro: creating_located)

text \<open>Moving out of the live namespace, and back.\<close>

lemma located_weaken: "located F t d \<Longrightarrow> located_except F X t d"
  by (simp add: located_except_def)

lemma located_moved:
  assumes "uuid_text_ok (fs_uuid_string F)" and "located_except F {rid} t d"
  shows "movable (live_path F rid) (quarantine_path F rid) d \<Longrightarrow>
      located_except F {rid} t (after_move (live_path F rid) (quarantine_path F rid) d)"
    and "movable (quarantine_path F rid) (live_path F rid) d \<Longrightarrow>
      located_except F {rid} t (after_move (quarantine_path F rid) (live_path F rid) d)"
proof -
  have ok: "disk_ok d" using assms(2) by (simp add: located_except_def)
  show "located_except F {rid} t (after_move (live_path F rid) (quarantine_path F rid) d)"
    if "movable (live_path F rid) (quarantine_path F rid) d"
    using located_places [OF assms(2) same_places_move(1) [OF assms(1)] after_move_ok [OF ok places_parallel(1) that]] by simp
  show "located_except F {rid} t (after_move (quarantine_path F rid) (live_path F rid) d)"
    if "movable (quarantine_path F rid) (live_path F rid) d"
    using located_places [OF assms(2) same_places_move(2) [OF assms(1)] after_move_ok [OF ok places_parallel(2) that]] by simp
qed

lemma is_dir_moved:
  assumes "movable a b d" and "parallel a b" and "b \<noteq> []"
  shows "is_dir (after_move a b d) b" and "entries (after_move a b d) a = None"
  using assms(1) after_move_entries(1,2) [OF assms(2,3), where d = d and s = "[]"]
  by (auto simp: is_dir_def movable_def)

lemma Quarantine_triple:
  assumes F: "uuid_text_ok (fs_uuid_string F)"
  shows "triple (both (located F)) (on_disk (fs_Quarantine F rid)) (\<lambda>_. both (quarantined F rid)) (both (located F))"
    and "triple (both (returned F rid)) (on_disk (fs_Quarantine F rid)) (\<lambda>_. both (located F)) (both (located F))"
proof -
  let ?live = "live_path F rid" and ?quarantine = "quarantine_path F rid"
  show "triple (both (located F)) (on_disk (fs_Quarantine F rid)) (\<lambda>_. both (quarantined F rid)) (both (located F))"
  proof (rule triple_on_disk)
    fix t d assume located: "located F t d"
    then have ok: "disk_ok d" by (simp add: located_except_def)
    show "triple (\<lambda>d'. d' = d) (fs_Quarantine F rid) (\<lambda>_. quarantined F rid t) (located F t)"
    proof (cases "movable ?live ?quarantine d")
      case True
      from fs_Quarantine_run(1) [OF ok F True] located is_dir_moved [OF True places_parallel(1)]
        movable_back [OF ok places_parallel(1) True] located_moved(1) [OF F located_weaken True] True
      show ?thesis
        by (auto simp: triple_def quarantined_def movable_def is_dir_def located_except_def)
    next
      case False
      with fs_Quarantine_run(2) [OF ok F False] located show ?thesis by (auto simp: triple_def)
    qed
  qed
  show "triple (both (returned F rid)) (on_disk (fs_Quarantine F rid)) (\<lambda>_. both (located F)) (both (located F))"
  proof (rule triple_on_disk)
    fix t d assume returned: "returned F rid t d"
    then have ok: "disk_ok d" and move: "movable ?live ?quarantine d" and except: "located_except F {rid} t d"
      by (auto simp: returned_def located_except_def)
    have "located F t (after_move ?live ?quarantine d)"
      using located_moved(1) [OF F except move] is_dir_moved [OF move places_parallel(1)] returned
      by (intro located_closeI) (auto simp: returned_def)
    with fs_Quarantine_run(1) [OF ok F move]
    show "triple (\<lambda>d'. d' = d) (fs_Quarantine F rid) (\<lambda>_. located F t) (located F t)"
      by (simp add: triple_def)
  qed
qed

lemma Restore_triple:
  assumes F: "uuid_text_ok (fs_uuid_string F)"
  shows "triple (both (located F)) (on_disk (fs_Restore F rid)) (\<lambda>_. both (returned F rid)) (both (located F))"
    and "triple (both (quarantined F rid)) (on_disk (fs_Restore F rid)) (\<lambda>_. both (located F)) (both (located F))"
proof -
  let ?live = "live_path F rid" and ?quarantine = "quarantine_path F rid"
  show "triple (both (located F)) (on_disk (fs_Restore F rid)) (\<lambda>_. both (returned F rid)) (both (located F))"
  proof (rule triple_on_disk)
    fix t d assume located: "located F t d"
    then have ok: "disk_ok d" by (simp add: located_except_def)
    show "triple (\<lambda>d'. d' = d) (fs_Restore F rid) (\<lambda>_. returned F rid t) (located F t)"
    proof (cases "movable ?quarantine ?live d")
      case True
      from fs_Restore_run(1) [OF ok F True] located is_dir_moved [OF True places_parallel(2)]
        movable_back [OF ok places_parallel(2) True] located_moved(2) [OF F located_weaken True] True
      show ?thesis
        by (auto simp: triple_def returned_def movable_def is_dir_def located_except_def)
    next
      case False
      with fs_Restore_run(2) [OF ok F False] located show ?thesis by (auto simp: triple_def)
    qed
  qed
  show "triple (both (quarantined F rid)) (on_disk (fs_Restore F rid)) (\<lambda>_. both (located F)) (both (located F))"
  proof (rule triple_on_disk)
    fix t d assume quarantined: "quarantined F rid t d"
    then have ok: "disk_ok d" and move: "movable ?quarantine ?live d" and except: "located_except F {rid} t d"
      by (auto simp: quarantined_def located_except_def)
    have "located F t (after_move ?quarantine ?live d)"
      using located_moved(2) [OF F except move] is_dir_moved [OF move places_parallel(2)] quarantined
      by (intro located_closeI) (auto simp: quarantined_def)
    with fs_Restore_run(1) [OF ok F move]
    show "triple (\<lambda>d'. d' = d) (fs_Restore F rid) (\<lambda>_. located F t) (located F t)"
      by (simp add: triple_def)
  qed
qed

end
