(* ===== verification/Repo_Safety.thy ===== *)
theory Repo_Safety imports Repo_Moves begin

text \<open>
  The methods of the repository service and a run of the purge worker keep the Git data of
  personal repositories where their state says.
\<close>

section \<open>Statements\<close>

definition has_deletion :: "uuid \<Rightarrow> uuid \<Rightarrow> org_tables \<Rightarrow> bool" where
  "has_deletion i rid t \<longleftrightarrow> (\<exists>d \<in> set (repository_deletions t). dr_id d = i \<and> dr_repository d = rid)"

lemma both_mono: "(\<And>t d. P t d \<Longrightarrow> Q t d) \<Longrightarrow> both P w \<Longrightarrow> both Q w"
  by (simp add: both_def)

lemma located_same: "located_except F {rid} t d \<Longrightarrow> states_within {rid} t t' \<Longrightarrow> located_except F {rid} t' d"
  using located_states [of F "{rid}" t d "{rid}" t'] by simp

lemma located_step: "located F t d \<Longrightarrow> states_within X t t' \<Longrightarrow> located_except F X t' d"
  using located_states [of F "{}" t d X t'] by simp

text \<open>What is known of the tables stays known over an operation on the disk.\<close>

lemma triple_with_tables:
  assumes "triple (both P) m (\<lambda>x. both (Q x)) (both E)" and "frames tables m"
  shows "triple (both (\<lambda>t d. P t d \<and> K t)) m (\<lambda>x. both (\<lambda>t d. Q x t d \<and> K t)) (both E)"
proof (rule tripleI)
  fix w e w' assume "both (\<lambda>t d. P t d \<and> K t) w" "m w = (Inl e, w')"
  then show "both E w'" using triple_Inl [OF assms(1)] by (auto simp: both_def)
next
  fix w x w' assume "both (\<lambda>t d. P t d \<and> K t) w" "m w = (Inr x, w')"
  then show "both (\<lambda>t d. Q x t d \<and> K t) w'"
    using triple_Inr [OF assms(1)] framesD [OF assms(2)] by (fastforce simp: both_def)
qed

lemma RequestDeletion_triple:
  assumes "del_RepositoryID x = rid"
  shows "triple (both (quarantined F rid)) (pg_RequestDeletion x) (\<lambda>_. both (located F)) (both (quarantined F rid))"
  unfolding pg_RequestDeletion_def
proof (rule triple_repo_query)
  fix t d y t' assume q: "quarantined F rid t d" and run: "sql_RequestRepositoryDeletion x t = Inr (y, t')"
  then have except: "located_except F {rid} t d" and keyed: "keyed rr_id (repositories t)"
    by (auto simp: quarantined_def located_except_def)
  from states_RequestDeletion(2) [OF run keyed] assms q show "located F t' d"
    using located_same [OF except] states_RequestDeletion(1) [OF run]
    by (intro located_closeI) (auto simp: quarantined_def)
qed

lemma GetDeletion_triple:
  "triple (both (located F)) (pg_GetDeletion i)
     (\<lambda>x. both (\<lambda>t d. located F t d \<and> has_deletion i (del_RepositoryID x) t)) (both (located F))"
  unfolding pg_GetDeletion_def
  by (rule triple_repo_query)
     (auto simp: sql_GetRepositoryDeletion_def one_row_def has_deletion_def dest!: find_Some_in split: option.splits)

lemma RestoreDeletion_triple:
  "triple (both (\<lambda>t d. returned F rid t d \<and> has_deletion i rid t)) (pg_RestoreDeletion i now)
     (\<lambda>_. both (located F)) (both (returned F rid))"
proof -
  let ?restored = "\<lambda>x t d. located F t d \<and> (repo_OrganizationID x \<noteq> None \<longrightarrow> returned F rid t d)"
  have run: "triple (both (\<lambda>t d. returned F rid t d \<and> has_deletion i rid t))
      (repo_query (sql_RestoreRepositoryDeletion i now)) (\<lambda>x. both (?restored x)) (both (returned F rid))"
  proof (rule triple_weaken [OF triple_repo_query])
    fix t d x t'
    assume P: "returned F rid t d \<and> has_deletion i rid t" and run: "sql_RestoreRepositoryDeletion i now t = Inr (x, t')"
    then obtain e where e: "e \<in> set (repository_deletions t)" "dr_id e = i" "dr_repository e = rid"
      by (auto simp: has_deletion_def)
    have keys: "keyed dr_id (repository_deletions t)" "keyed rr_id (repositories t)" and except: "located_except F {rid} t d"
      using P by (auto simp: returned_def located_except_def)
    have within: "states_within {rid} t t'" using states_RestoreDeletion(1) [OF run keys(1) e(1,2)] e(3) by simp
    then have except': "located_except F {rid} t' d" by (rule located_same [OF except])
    have state: "repo_OrganizationID x = rr_org r \<and> rr_state r = StateActive"
      if "r \<in> set (repositories t')" "rr_id r = rid" for r
    proof -
      from run e keys obtain p u where "update_repo (\<lambda>r. rr_id r = dr_repository p)
          (\<lambda>v. v\<lparr>repo_State := StateActive, repo_UpdatedAt := now\<rparr>) u = Inr (x, t')"
        "repositories u = repositories t" "p \<in> set (repository_deletions t)" "dr_id p = i"
        by (auto simp: sql_RestoreRepositoryDeletion_def Let_def dest: find_Some_in split: option.splits)
      moreover from this e keys have "p = e" by (auto intro: keyed_unique)
      ultimately obtain u where u: "repositories u = repositories t" and upd: "update_repo (\<lambda>r. rr_id r = rid)
          (\<lambda>v. v\<lparr>repo_State := StateActive, repo_UpdatedAt := now\<rparr>) u = Inr (x, t')"
        using e(3) by blast
      from update_repo_row [OF upd that(1)] u obtain r0 where r0: "r0 \<in> set (repositories t)"
        "rr_repo r = (if rr_id r0 = rid then (rr_repo r0)\<lparr>repo_State := StateActive, repo_UpdatedAt := now\<rparr> else rr_repo r0)"
        by metis
      from update_repo_result [OF upd] u obtain r1 where r1: "r1 \<in> set (repositories t)" "rr_id r1 = rid"
        "x = (rr_repo r1)\<lparr>repo_State := StateActive, repo_UpdatedAt := now\<rparr>"
        by auto
      from r0(2) that(2) have "rr_id r0 = rid" by (auto split: if_splits)
      with r0(1) r1(1,2) keys(2) have "r0 = r1" by (auto intro: keyed_unique)
      with r0(2) r1 show ?thesis by simp
    qed
    have "located F t' d" using except' P state by (intro located_closeI) (auto simp: returned_def)
    moreover have "returned F rid t' d" if "repo_OrganizationID x \<noteq> None"
    proof -
      have "rr_org r \<noteq> None" if "r \<in> set (repositories t')" "rr_id r = rid" for r
        using state [OF that] \<open>repo_OrganizationID x \<noteq> None\<close> by simp
      with except' P show ?thesis by (fastforce simp: returned_def)
    qed
    ultimately show "?restored x t' d" by simp
  qed (auto simp: both_def)
  show ?thesis
    unfolding pg_RestoreDeletion_def
  proof (rule triple_call [OF run])
    fix x
    show "triple (both (?restored x)) (withOrganizationSlug x) (\<lambda>_. both (located F)) (both (returned F rid))"
    proof (cases "repo_OrganizationID x")
      case None
      then show ?thesis unfolding withOrganizationSlug_def by (auto intro!: triple_ret simp: both_def)
    next
      case (Some oid)
      then show ?thesis
        by (intro triple_weaken [OF keeps_triple [OF withOrganizationSlug_keeps [where P = "?restored x"]]]) (auto simp: both_def)
    qed
  qed
qed

lemma UpdateState_triple: "keeps (both (creating F rid)) (pg_UpdateState rid StateFailed now)"
  unfolding pg_UpdateState_def repo_query_def
proof (intro op_keeps both_pg_exec)
  fix t d x t' assume c: "creating F rid t d" and run: "sql_UpdateRepositoryState rid StateFailed now t = Inr (x, t')"
  have "rr_state r = StateFailed" if "r \<in> set (repositories t')" "personal rid r" for r
    using that by (intro update_repo_state [OF run [unfolded sql_UpdateRepositoryState_def]]) auto
  moreover from c have "located_except F {rid} t' d"
    by (auto simp: creating_def intro: located_same [OF _ states_UpdateState [OF run]])
  ultimately show "creating F rid t' d" by (simp add: creating_def)
qed

lemma Activate_triple:
  "triple (both (created F rid)) (pg_ActivateRepository rid i now) (\<lambda>_. both (located F)) (both (created F rid))"
  unfolding pg_ActivateRepository_def
proof (rule triple_repo_query)
  fix t d x t'
  assume c: "created F rid t d" and run: "sql_ActivateRepository rid (identity_columns i) now t = Inr (x, t')"
  have "rr_state r = StateActive" if "r \<in> set (repositories t')" "personal rid r" for r
  proof -
    from run have upd: "update_repo (\<lambda>r. rr_id r = rid \<and> live_repo r)
        (\<lambda>v. v\<lparr>repo_State := StateActive, repo_ATURI := at_URI (identity_columns i),
                repo_ATCID := at_CID (identity_columns i), repo_UpdatedAt := now\<rparr>) t = Inr (x, t')"
      by (simp add: sql_ActivateRepository_def split: if_splits)
    show ?thesis using that by (intro update_repo_state [OF upd]) auto
  qed
  moreover from c have "located_except F {rid} t' d" "is_dir d (live_path F rid)"
    by (auto simp: created_def creating_def intro: located_same [OF _ states_Activate [OF run]])
  ultimately show "located F t' d" by (intro located_closeI) auto
qed

lemma Create_triple:
  assumes "repo_State v = StateCreating"
  shows "triple (both (located F)) (pg_CreateRepository v)
    (\<lambda>x. both (\<lambda>t d. repo_ID x = repo_ID v \<and> creating F (repo_ID v) t d)) (both (located F))"
proof -
  have run: "triple (both (located F)) (repo_query (sql_CreateRepository v))
      (\<lambda>x. both (\<lambda>t d. repo_ID x = repo_ID v \<and> creating F (repo_ID v) t d)) (both (located F))"
  proof (rule triple_repo_query)
    fix t d x t' assume l: "located F t d" and run: "sql_CreateRepository v t = Inr (x, t')"
    from located_step [OF l states_Create(1) [OF run]] states_Create(2-4) [OF run] assms
    show "repo_ID x = repo_ID v \<and> creating F (repo_ID v) t' d" by (auto simp: creating_def)
  qed
  show ?thesis
    unfolding pg_CreateRepository_def by (rule triple_call [OF run], rule triple_ret) (simp add: both_def)
qed

lemma UpdateSettings_keeps: "keeps (both (located F)) (pg_UpdateSettings rid input i archived a now)"
  unfolding pg_UpdateSettings_def repo_query_def
proof (intro op_keeps both_pg_exec)
  fix t d x t'
  assume "located F t d" "sql_UpdateRepositorySettings rid i input archived (identity_columns a) now t = Inr (x, t')"
  then show "located F t' d" by (blast intro: located_step states_UpdateSettings)
qed

lemma MarkPurged_keeps: "keeps (both (located F)) (pg_MarkPurged i now)"
  unfolding pg_MarkPurged_def
proof (rule keeps_call [OF both_pg_exec keeps_ret])
  fix t d and x :: unit and t' assume l: "located F t d" and "sql_MarkRepositoryPurged i now t = Inr (x, t')"
  then obtain X where X: "states_within X t t'" "\<forall>r \<in> set (repositories t'). rr_id r \<in> X \<longrightarrow> \<not> live_repo r"
    using states_MarkPurged by blast
  from located_step [OF l X(1)] X(2) show "located F t' d" by (auto simp: located_except_def)
qed

section \<open>Methods\<close>

abbreviation storage_of :: "instance_config \<Rightarrow> filesystem" where
  "storage_of C \<equiv> gi_storage (ic_git C)"

abbreviation C_located :: "instance_config \<Rightarrow> repo_world \<Rightarrow> bool" where
  "C_located C \<equiv> both (located (storage_of C))"

lemma both_reads [op_keeps]:
  "keeps (both P) (pg_GetForkSourceByURI uri)"
  unfolding pg_GetForkSourceByURI_def
  by (intro read_query) (auto simp: sql_GetForkSourceByURI_def one_row_def split: option.splits)

lemma keeps_on_disk_undisturbed:
  assumes "\<And>d0. keeps (undisturbed F {} d0) m"
  shows "keeps (both (located F)) (on_disk m)"
proof (rule both_on_disk)
  fix t d r d' assume l: "located F t d" and m: "m d = (r, d')"
  then have "undisturbed F {} d d" by (simp add: located_except_def undisturbed_refl)
  from keepsD [OF assms this] m have "undisturbed F {} d d'" by simp
  then show "located F t d'"
    using located_places [OF l, of "{}" d'] by (simp add: undisturbed_def)
qed

lemma undo_quarantine:
  assumes "uuid_text_ok (fs_uuid_string F)" and "keeps (both (located F)) m"
  shows "triple (both (quarantined F rid)) (ignoring (on_disk (fs_Restore F rid)) m)
     (\<lambda>_. both (located F)) (both (located F))"
  by (rule triple_ignoring [OF Restore_triple(2) [OF assms(1)] keeps_triple [OF assms(2)]])

lemma quarantine_and_request_keeps:
  assumes "git_installed (ic_git C)"
  shows "keeps (C_located C) (quarantine_and_request (repositories_of C) postgres_lifecycle_store
     (git_on_disk (ic_git C)) current actor retention)"
proof -
  let ?F = "storage_of C" and ?rid = "repo_ID current"
  have F: "uuid_text_ok (fs_uuid_string ?F)" using assms by (simp add: git_installed_def)
  have ids: "triple (both (quarantined ?F ?rid)) repo_ids (\<lambda>_. both (quarantined ?F ?rid)) (both (quarantined ?F ?rid))"
    by (rule keeps_triple) (rule both_outside)
  have abandon: "triple (both (quarantined ?F ?rid)) (abandon_deletion (repositories_of C) (git_on_disk (ic_git C)) current e)
      (\<lambda>_. C_located C) (C_located C)" for e
    unfolding abandon_deletion_def Let_def by (simp split del: if_split, rule undo_quarantine [OF F], intro op_keeps)
  have "triple (C_located C) (quarantine_and_request (repositories_of C) postgres_lifecycle_store
     (git_on_disk (ic_git C)) current actor retention) (\<lambda>_. C_located C) (C_located C)"
    unfolding quarantine_and_request_def
    by (simp, rule triple_call [OF Quarantine_triple(1) [OF F]], rule triple_attempt [OF ids],
        rule undo_quarantine [OF F], rule op_keeps, rule triple_with_now [OF both_outside(3)],
        rule triple_attempt [OF RequestDeletion_triple abandon]) (simp_all add: triple_ret)
  then show ?thesis by (simp add: triple_keeps)
qed

lemma Delete_located:
  "git_installed (ic_git C) \<Longrightarrow> keeps (C_located C) (repo_Delete (repositories_of C) current actor retention)"
  unfolding repo_Delete_def supported_def
  by (simp split del: if_split, intro op_keeps quarantine_and_request_keeps)

lemma republish_keeps:
  "keeps (C_located C) (republish_restored (repositories_of C) postgres_lifecycle_store v)"
  unfolding republish_restored_def by (simp, intro op_keeps UpdateSettings_keeps)

lemma Restore_located:
  assumes "git_installed (ic_git C)"
  shows "keeps (C_located C) (repo_RestoreDeletion (repositories_of C) i)"
proof -
  let ?F = "storage_of C"
  have F: "uuid_text_ok (fs_uuid_string ?F)" using assms by (simp add: git_installed_def)
  have undo: "triple (both (returned ?F rid)) (ignoring (on_disk (fs_Quarantine ?F rid)) (raise e))
      (\<lambda>_. C_located C) (C_located C)" for rid e
    by (rule triple_ignoring [OF Quarantine_triple(2) [OF F]]) (rule triple_raise)
  have "triple (both (\<lambda>t d. located ?F t d \<and> has_deletion i rid t))
      (restore_quarantined (repositories_of C) postgres_lifecycle_store (git_on_disk (ic_git C)) i rid)
      (\<lambda>_. C_located C) (C_located C)" for rid
    unfolding restore_quarantined_def
    by (simp split del: if_split,
        rule triple_call [OF triple_with_tables [OF Restore_triple(1) [OF F] on_disk_tables]],
        rule triple_with_now [OF both_outside(3)], rule triple_attempt [OF RestoreDeletion_triple undo])
       (intro keeps_triple op_keeps republish_keeps)
  then have "triple (C_located C) (repo_RestoreDeletion (repositories_of C) i) (\<lambda>_. C_located C) (C_located C)"
    unfolding repo_RestoreDeletion_def supported_def by (simp, intro triple_call [OF GetDeletion_triple])
  then show ?thesis by (simp add: triple_keeps)
qed

lemma Update_located:
  assumes "git_installed (ic_git C)"
  shows "keeps (C_located C) (repo_Update (repositories_of C) current input)"
proof -
  have "keeps (C_located C) (on_disk (git_SetDefaultBranch (native_git (ic_git C)) rid b))" for rid b
    by (rule keeps_on_disk_undisturbed) (rule SetDefaultBranch_keeps [OF assms])
  moreover have "keeps (C_located C) (store_settings (repositories_of C) postgres_lifecycle_store current input now)" for now
    unfolding store_settings_def Let_def by (simp, intro op_keeps UpdateSettings_keeps)
  ultimately show ?thesis
    unfolding repo_Update_def supported_def Let_def undoing_def by (simp, intro conjI impI op_keeps)
qed

lemma creating_undisturbed:
  "creating F rid t d \<Longrightarrow> undisturbed F {rid} d d' \<Longrightarrow> creating F rid t d'"
  using located_places [of F "{rid}" t d "{rid}" d'] by (auto simp: creating_def undisturbed_def)

lemma created_disk:
  assumes "\<And>d. disk_ok d \<Longrightarrow> triple (\<lambda>d'. d' = d) m
      (\<lambda>_ d'. undisturbed F {rid} d d' \<and> is_dir d' (live_path F rid)) (undisturbed F {rid} d)"
  shows "triple (both (creating F rid)) (on_disk m) (\<lambda>_. both (created F rid)) (both (creating F rid))"
proof (rule triple_on_disk)
  fix t d assume c: "creating F rid t d"
  then have "disk_ok d" by (simp add: creating_def located_except_def)
  from triple_weaken [OF assms [OF this]]
  show "triple (\<lambda>d'. d' = d) m (\<lambda>_. created F rid t) (creating F rid t)"
    using creating_undisturbed [OF c] by (auto simp: created_def)
qed

lemma initialize_git_triple:
  assumes G: "git_installed (ic_git C)" and "repo_ID v = rid"
  shows "triple (both (creating (storage_of C) rid)) (initialize_git (repositories_of C) input v)
     (\<lambda>_. both (created (storage_of C) rid)) (both (creating (storage_of C) rid))"
proof (cases "rci_ForkedFrom input")
  case None
  have "triple (\<lambda>d'. d' = d) (git_Init (native_git (ic_git C)) rid b)
      (\<lambda>_ d'. undisturbed (storage_of C) {rid} d d' \<and> is_dir d' (live_path (storage_of C) rid))
      (undisturbed (storage_of C) {rid} d)" if "disk_ok d" for d b
    using Init_triple [OF G, of d rid b] that by simp
  from created_disk [OF this] None assms(2) show ?thesis by (simp add: initialize_git_def)
next
  case (Some source)
  show ?thesis
  proof (cases "gi_forker (ic_git C)")
    case None
    with Some show ?thesis
      by (simp add: initialize_git_def supported_def repositories_of_def triple_raise)
  next
    case forker: (Some f)
    have "fork_ok (ic_git C)" using G by (simp only: git_installed_def)
    then have "triple (\<lambda>d'. d' = d) (gf_Fork f rid source b)
        (\<lambda>_ d'. undisturbed (storage_of C) {rid} d d' \<and> is_dir d' (live_path (storage_of C) rid))
        (undisturbed (storage_of C) {rid} d)" if "disk_ok d" for d b
      using forker that unfolding fork_ok_def undisturbed_def by (intro tripleI) fastforce+
    from created_disk [OF this] Some forker assms(2) show ?thesis
      by (simp add: initialize_git_def supported_def repositories_of_def)
  qed
qed

lemma repo_fail_triple:
  "triple (both (creating (storage_of C) rid)) (repo_fail (repositories_of C) rid cause) (\<lambda>_. C_located C) (C_located C)"
  unfolding repo_fail_def
  by (simp, rule triple_with_now [OF both_outside(3)], rule triple_attempt [OF keeps_triple [OF UpdateState_triple]])
     (auto intro!: triple_raise simp: both_def intro: creating_located)

lemma activate_created_triple:
  assumes "repo_ID v = rid"
  shows "triple (both (created (storage_of C) rid)) (activate_created (repositories_of C) v i) (\<lambda>_. C_located C) (C_located C)"
proof -
  have "triple (both (created (storage_of C) rid)) (repo_fail (repositories_of C) rid cause) (\<lambda>_. C_located C) (C_located C)" for cause
    by (rule triple_weaken [OF repo_fail_triple]) (auto simp: both_def created_def)
  then show ?thesis
    unfolding activate_created_def
    by (simp add: assms, intro triple_with_now [OF both_outside(3)] triple_attempt [OF Activate_triple] triple_ret)
qed

lemma publish_created_triple:
  assumes "repo_ID v = rid"
  shows "triple (both (created (storage_of C) rid)) (publish_created (repositories_of C) input v)
     (\<lambda>_. C_located C) (C_located C)"
proof -
  have failed: "triple (both (created (storage_of C) rid)) (repo_fail (repositories_of C) rid cause)
      (\<lambda>_. C_located C) (C_located C)" for cause
    by (rule triple_weaken [OF repo_fail_triple]) (auto simp: both_def created_def)
  show ?thesis
    unfolding publish_created_def
    by (rule triple_if)
       (simp_all add: assms triple_attempt [OF keeps_triple [OF both_outside(2)] failed] activate_created_triple)
qed

lemma complete_creation_triple:
  assumes "git_installed (ic_git C)"
  shows "triple (both (\<lambda>t d. repo_ID v = rid \<and> creating (storage_of C) rid t d))
     (complete_creation (repositories_of C) input v) (\<lambda>_. C_located C) (C_located C)"
proof (cases "repo_ID v = rid")
  case True
  then show ?thesis
    unfolding complete_creation_def
    by (simp, intro triple_attempt [OF initialize_git_triple [OF assms]] repo_fail_triple publish_created_triple)
qed (simp add: triple_def both_def)

lemma Create_located:
  assumes "git_installed (ic_git C)"
  shows "keeps (C_located C) (repo_Create (repositories_of C) input)"
proof -
  have "triple (C_located C) (repo_Create (repositories_of C) input) (\<lambda>_. C_located C) (C_located C)"
    unfolding repo_Create_def
    by (simp, intro triple_check triple_call [OF keeps_triple [OF both_outside(1)]]
          triple_with_now [OF both_outside(3)] triple_call [OF Create_triple complete_creation_triple [OF assms]]) simp_all
  then show ?thesis by (simp add: triple_keeps)
qed

lemma purge_each_keeps:
  assumes "git_installed (ic_git C)"
  shows "keeps (C_located C) (purge_each (purger_of C) ds)"
proof (rule keeps_purge_each)
  show "keeps (C_located C) (pw_Purge (purger_of C) (del_RepositoryID d))" for d
  proof (simp, rule both_on_disk)
    let ?q = "quarantine_path (storage_of C) (del_RepositoryID d)"
    fix t e r e' assume l: "located (storage_of C) t e" and run: "fs_Purge (storage_of C) (del_RepositoryID d) e = (r, e')"
    have ok: "disk_ok e" using l by (simp add: located_except_def)
    have apart: "\<not> prefix ?q (live_path (storage_of C) rid)" for rid
      using places_parallel(2) [of "storage_of C"] by (simp add: parallel_def)
    have "uuid_text_ok (fs_uuid_string (storage_of C))" using assms by (simp add: git_installed_def)
    from fs_Purge_run [OF ok this, of "del_RepositoryID d"] run
    have "e' = e \<or> e' = e\<lparr>entries := (\<lambda>q. if prefix ?q q then None else entries e q)\<rparr>" by auto
    then have "same_places (storage_of C) {} e e'" "disk_ok e'"
      using ok apart by (auto simp: same_places_def is_dir_def disk_ok_def tree_removed)
    then show "located (storage_of C) t e'" using located_places [OF l] by fastforce
  qed
qed (simp_all add: both_outside MarkPurged_keeps)

end
