(* ===== verification/Repo_Invariants.thy ===== *)
theory Repo_Invariants
  imports Storage Repo_Safety
begin

text \<open>
  The text form of a UUID, as \<open>uuid.UUID.String\<close> documents it: 32 lower-case hexadecimal
  digits in groups of 8, 4, 4, 4 and 12. Theorems take any function with the properties
  \<open>uuid_text_ok\<close> names; this one has them.
\<close>

definition hex_digit :: "nat \<Rightarrow> char" where
  "hex_digit n = ''0123456789abcdef'' ! n"

definition nibble :: "uuid \<Rightarrow> nat \<Rightarrow> nat" where
  "nibble u i = unat u div 16 ^ i mod 16"

definition hex_digits :: "uuid \<Rightarrow> string" where
  "hex_digits u = map (\<lambda>i. hex_digit (nibble u i)) (rev [0..<32])"

definition uuid_text :: "uuid \<Rightarrow> string" where
  "uuid_text u =
     (let ds = hex_digits u
      in take 8 ds @ ''-'' @ take 4 (drop 8 ds) @ ''-'' @ take 4 (drop 12 ds) @ ''-''
           @ take 4 (drop 16 ds) @ ''-'' @ drop 20 ds)"

lemma hex_digit_range: "n < 16 \<Longrightarrow> hex_digit n \<noteq> CHR ''-'' \<and> hex_digit n \<noteq> CHR ''.''"
proof -
  assume "n < 16"
  then have "hex_digit n \<in> set ''0123456789abcdef''" unfolding hex_digit_def by (intro nth_mem) simp
  then show ?thesis by auto
qed

lemma hex_digit_inj:
  assumes "m < 16" and "n < 16" and "hex_digit m = hex_digit n"
  shows "m = n"
proof -
  have "distinct ''0123456789abcdef''" by simp
  from nth_eq_iff_index_eq [OF this, of m n] assms show ?thesis by (simp add: hex_digit_def)
qed

lemma nibble_less: "nibble u i < 16"
  by (simp add: nibble_def)

lemma digits_determine:
  fixes a b :: nat
  shows "(\<And>i. i < n \<Longrightarrow> a div 16 ^ i mod 16 = b div 16 ^ i mod 16) \<Longrightarrow> a mod 16 ^ n = b mod 16 ^ n"
proof (induction n)
  case (Suc n)
  have "a mod 16 ^ Suc n = 16 ^ n * (a div 16 ^ n mod 16) + a mod 16 ^ n" for a :: nat
    by (metis add.commute mod_mult2_eq power_Suc2)
  with Suc show ?case by simp
qed simp

lemma hex_digits_inj: "hex_digits u = hex_digits v \<Longrightarrow> u = v"
proof -
  assume "hex_digits u = hex_digits v"
  then have "\<forall>i < 32. hex_digit (nibble u i) = hex_digit (nibble v i)" by (simp add: hex_digits_def)
  then have "\<And>i. i < 32 \<Longrightarrow> unat u div 16 ^ i mod 16 = unat v div 16 ^ i mod 16"
    using hex_digit_inj nibble_less by (fastforce simp: nibble_def)
  then have "unat u mod 16 ^ 32 = unat v mod 16 ^ 32" by (rule digits_determine)
  moreover have "unat x mod 16 ^ 32 = unat x" for x :: uuid
  proof -
    have "unat x < 2 ^ LENGTH(128)" by (rule unsigned_less)
    then show ?thesis by simp
  qed
  ultimately show "u = v" by (simp only: word_unat_eq_iff)
qed

lemma compact_append [simp]: "compact (s @ t) = compact s @ compact t"
  by (simp add: compact_def)

lemma compact_hyphen [simp]: "compact (CHR ''-'' # s) = compact s"
  by (simp add: compact_def)

lemma compact_no_hyphen: "CHR ''-'' \<notin> set s \<Longrightarrow> compact s = s"
  by (auto simp: compact_def filter_id_conv)

lemma hex_digits_set: "c \<in> set (hex_digits u) \<Longrightarrow> c \<noteq> CHR ''-'' \<and> c \<noteq> CHR ''.''"
  using hex_digit_range [OF nibble_less] by (auto simp: hex_digits_def)

lemma compact_uuid_text: "compact (uuid_text u) = hex_digits u"
proof -
  let ?ds = "hex_digits u"
  have no: "CHR ''-'' \<notin> set (take m (drop n ?ds))" "CHR ''-'' \<notin> set (take m ?ds)" "CHR ''-'' \<notin> set (drop n ?ds)" for m n
    using hex_digits_set by (auto dest: in_set_takeD in_set_dropD)
  have parts: "?ds = take 8 ?ds @ take 4 (drop 8 ?ds) @ take 4 (drop 12 ?ds) @ take 4 (drop 16 ?ds) @ drop 20 ?ds"
  proof -
    have "drop 16 ?ds = take 4 (drop 16 ?ds) @ drop 20 ?ds" using append_take_drop_id [of 4 "drop 16 ?ds"] by simp
    moreover have "drop 12 ?ds = take 4 (drop 12 ?ds) @ drop 16 ?ds" using append_take_drop_id [of 4 "drop 12 ?ds"] by simp
    moreover have "drop 8 ?ds = take 4 (drop 8 ?ds) @ drop 12 ?ds" using append_take_drop_id [of 4 "drop 8 ?ds"] by simp
    ultimately show ?thesis using append_take_drop_id [of 8 ?ds] by simp
  qed
  have "compact (uuid_text u) = take 8 ?ds @ take 4 (drop 8 ?ds) @ take 4 (drop 12 ?ds) @ take 4 (drop 16 ?ds) @ drop 20 ?ds"
    by (simp add: uuid_text_def Let_def compact_no_hyphen no)
  with parts show ?thesis by simp
qed

lemma uuid_text_ok: "uuid_text_ok uuid_text"
proof -
  have "inj uuid_text" by (rule injI) (metis compact_uuid_text hex_digits_inj)
  moreover have "CHR ''.'' \<notin> set (uuid_text u)" for u
    using hex_digits_set by (auto simp: uuid_text_def Let_def dest: in_set_takeD in_set_dropD)
  ultimately show ?thesis by (simp add: uuid_text_ok_def compact_uuid_text) (simp add: hex_digits_def)
qed

text \<open>
  Requests to the repository service and runs of the purge worker, and an instance with a
  small Git that only knows how to create repositories.
\<close>

section \<open>Runs of the purge worker\<close>

definition pending_deletions :: "repo_world \<Rightarrow> uuid set" where
  "pending_deletions w = dr_id ` {d \<in> set (repository_deletions (tables w)). open_deletion d}"

lemma pending_frames: "frames tables m \<Longrightarrow> frames pending_deletions m"
  by (simp add: frames_def pending_deletions_def)

lemma update_where_closed:
  "(\<And>d. \<not> q (f d)) \<Longrightarrow> {d \<in> set (update_where p f rows). q d} = {d \<in> set rows. q d \<and> \<not> p d}"
  by (induction rows) (auto simp: update_where_def)

lemma MarkPurged_pending:
  assumes "pg_MarkPurged i now w = (Inr (), w')"
  shows "pending_deletions w' = pending_deletions w - {i}"
proof -
  from assms have run: "sql_MarkRepositoryPurged i now (tables w) = Inr ((), tables w')"
    by (auto simp: pg_MarkPurged_def op_ok pg_exec_def Let_def split: if_splits sum.splits prod.splits)
  show ?thesis
  proof (cases "find (\<lambda>d. dr_id d = i \<and> open_deletion d) (repository_deletions (tables w))")
    case None
    with run show ?thesis by (auto simp: sql_MarkRepositoryPurged_def pending_deletions_def find_None_in)
  next
    case (Some d)
    have "Inr ((), tables w') = sql_MarkRepositoryPurged i now (tables w)" using run by (rule sym)
    then have "repository_deletions (tables w') = update_where (\<lambda>d. dr_id d = i \<and> open_deletion d)
        (\<lambda>d. d\<lparr>dr_purged_at := Some now\<rparr>) (repository_deletions (tables w))"
      by (simp add: sql_MarkRepositoryPurged_def Some)
    then have "{d \<in> set (repository_deletions (tables w')). open_deletion d}
        = {d \<in> set (repository_deletions (tables w)). open_deletion d \<and> \<not> (dr_id d = i \<and> open_deletion d)}"
      by (simp add: update_where_closed)
    then show ?thesis by (auto simp: pending_deletions_def)
  qed
qed

lemma ListDue_frames [op_frames]: "frames tables (pg_ListDueDeletions now after limit)"
  unfolding pg_ListDueDeletions_def repo_select_def by (intro op_frames) simp

lemma ListDue_rows:
  assumes "pg_ListDueDeletions now after limit w = (Inr ds, w')"
  shows "ds = sql_ListDueRepositoryDeletions now after limit (tables w)"
  using assms
  by (auto simp: pg_ListDueDeletions_def repo_select_def op_ok pg_exec_def Let_def split: if_splits)

interpretation purger: purge_store "purger_of C" pending_deletions for C
proof unfold_locales
  show "finite (pending_deletions w)" for w by (simp add: pending_deletions_def)
  show "del_ID ` set ds \<subseteq> pending_deletions w"
    if "pw_ListDueDeletions (purger_of C) now after limit w = (Inr ds, w')" for now after limit w ds w'
    using that ListDue_rows [of now after limit w ds w']
    by (auto simp: sql_ListDueRepositoryDeletions_def pending_deletions_def dest: in_set_takeD)
  show "frames pending_deletions (pw_ListDueDeletions (purger_of C) now after limit)" for now after limit
    by (simp add: pending_frames ListDue_frames)
  show "frames pending_deletions (pw_Purge (purger_of C) rid)" for rid
    by (simp add: pending_frames on_disk_tables)
  show "pending_deletions (snd (pw_now (purger_of C) w)) = pending_deletions w" for w
    by (simp add: pending_deletions_def repo_clock_def)
  show "pending_deletions w' = pending_deletions w - {i}"
    if "pw_MarkPurged (purger_of C) i now w = (Inr (), w')" for i now w w'
    using that MarkPurged_pending by simp
qed

section \<open>Requests\<close>

datatype repo_request =
    Create_Repository repo_create_input
  | Update_Repository repository settings_input
  | Delete_Repository repository did duration
  | Restore_Repository uuid
  | Purge_Deletions

definition serve_repository :: "instance_config \<Rightarrow> repo_request \<Rightarrow> repo_world \<Rightarrow> repo_world" where
  "serve_repository C r w =
     (case r of
        Create_Repository input \<Rightarrow> snd (repo_Create (repositories_of C) input w)
      | Update_Repository current input \<Rightarrow> snd (repo_Update (repositories_of C) current input w)
      | Delete_Repository current actor retention \<Rightarrow> snd (repo_Delete (repositories_of C) current actor retention w)
      | Restore_Repository i \<Rightarrow> snd (repo_RestoreDeletion (repositories_of C) i w)
      | Purge_Deletions \<Rightarrow> (case purge (purger_of C) None w of None \<Rightarrow> w | Some (_, w') \<Rightarrow> w'))"

definition serve_repositories :: "instance_config \<Rightarrow> repo_request list \<Rightarrow> repo_world \<Rightarrow> repo_world" where
  "serve_repositories C rs w = fold (serve_repository C) rs w"

lemma purge_page_keeps:
  assumes "git_installed (ic_git C)"
  shows "keeps (C_located C) (purge_page (purger_of C) after)"
  unfolding purge_page_def pg_ListDueDeletions_def repo_select_def
  by (simp add: pg_ListDueDeletions_def repo_select_def, intro op_keeps purge_each_keeps assms both_pg_exec) simp

lemma serve_repository_located:
  assumes G: "git_installed (ic_git C)" and "C_located C w"
  shows "C_located C (serve_repository C r w)"
proof (cases r)
  case Purge_Deletions
  with assms show ?thesis
    by (auto simp: serve_repository_def split: option.split intro: purger.purge_keeps [OF purge_page_keeps])
qed (simp_all add: serve_repository_def keepsD [OF Create_located [OF G]] keepsD [OF Update_located [OF G]]
       keepsD [OF Delete_located [OF G]] keepsD [OF Restore_located [OF G]] assms(2))

lemma serve_repositories_located:
  "git_installed (ic_git C) \<Longrightarrow> C_located C w \<Longrightarrow> C_located C (serve_repositories C rs w)"
  by (induction rs arbitrary: w) (simp_all add: serve_repositories_def serve_repository_located)

text \<open>
  Invariants of the repository tables. A fact that every statement of the repository
  service keeps, the service and the purge worker keep, in any order of requests and with
  any calls failing.
\<close>

section \<open>Facts the statements keep\<close>

locale repository_invariant =
  fixes I :: "org_tables \<Rightarrow> bool"
  assumes creating: "repo_State v = StateCreating \<Longrightarrow> I t \<Longrightarrow> sql_CreateRepository v t = Inr (x, t') \<Longrightarrow> I t'"
    and failing: "I t \<Longrightarrow> sql_UpdateRepositoryState rid StateFailed now t = Inr (x, t') \<Longrightarrow> I t'"
    and activating: "I t \<Longrightarrow> sql_ActivateRepository rid a now t = Inr (x, t') \<Longrightarrow> I t'"
    and settings: "I t \<Longrightarrow> sql_UpdateRepositorySettings rid i s archived a now t = Inr (x, t') \<Longrightarrow> I t'"
    and requesting: "I t \<Longrightarrow> sql_RequestRepositoryDeletion d t = Inr (x', t') \<Longrightarrow> I t'"
    and restoring: "I t \<Longrightarrow> sql_RestoreRepositoryDeletion i now t = Inr (x, t') \<Longrightarrow> I t'"
    and purging: "I t \<Longrightarrow> sql_MarkRepositoryPurged i now t = Inr ((), t') \<Longrightarrow> I t'"
begin

abbreviation kept :: "repo_world \<Rightarrow> bool" where
  "kept \<equiv> both (\<lambda>t _. I t)"

lemma kept_query:
  "(\<And>t x t'. I t \<Longrightarrow> q t = Inr (x, t') \<Longrightarrow> I t') \<Longrightarrow> keeps kept (repo_query q)"
  unfolding repo_query_def by (intro op_keeps both_pg_exec)

lemma kept_frame: "frames tables m \<Longrightarrow> keeps kept m"
  by (auto simp: keeps_def both_def frames_def)

lemma kept_reads [op_keeps]:
  "keeps kept (on_disk m)" "keeps kept (pg_ListDueDeletions now after limit)" "keeps kept (pg_GetDeletion i)"
proof -
  show "keeps kept (on_disk m)" "keeps kept (pg_ListDueDeletions now after limit)"
    by (intro kept_frame on_disk_tables ListDue_frames)+
  show "keeps kept (pg_GetDeletion i)"
    unfolding pg_GetDeletion_def
    by (intro kept_query) (auto simp: sql_GetRepositoryDeletion_def one_row_def split: option.splits)
qed

lemma kept_statements [op_keeps]:
  "repo_State v = StateCreating \<Longrightarrow> keeps kept (pg_CreateRepository v)" "keeps kept (pg_UpdateState rid StateFailed now)"
  "keeps kept (pg_ActivateRepository rid identity now)" "keeps kept (pg_UpdateSettings rid s i archived identity now)"
  "keeps kept (pg_RequestDeletion d)" "keeps kept (pg_RestoreDeletion i now)" "keeps kept (pg_MarkPurged i now)"
proof -
  show "keeps kept (pg_UpdateState rid StateFailed now)"
    unfolding pg_UpdateState_def by (rule kept_query) (rule failing)
  show "keeps kept (pg_ActivateRepository rid identity now)"
    unfolding pg_ActivateRepository_def by (rule kept_query) (rule activating)
  show "keeps kept (pg_RequestDeletion d)"
    unfolding pg_RequestDeletion_def by (rule kept_query) (rule requesting)
  show "keeps kept (pg_CreateRepository v)" if "repo_State v = StateCreating"
    unfolding pg_CreateRepository_def by (rule keeps_call [OF kept_query keeps_ret]) (rule creating [OF that])
  show "keeps kept (pg_UpdateSettings rid s i archived identity now)"
    unfolding pg_UpdateSettings_def by (rule keeps_call [OF kept_query withOrganizationSlug_keeps]) (rule settings)
  show "keeps kept (pg_RestoreDeletion i now)"
    unfolding pg_RestoreDeletion_def by (rule keeps_call [OF kept_query withOrganizationSlug_keeps]) (rule restoring)
  show "keeps kept (pg_MarkPurged i now)"
    unfolding pg_MarkPurged_def by (rule keeps_call [OF both_pg_exec keeps_ret]) (simp add: purging)
qed

lemma methods_kept:
  "keeps kept (repo_Create (repositories_of C) input)"
  "keeps kept (repo_Update (repositories_of C) current s)"
  "keeps kept (repo_Delete (repositories_of C) current actor retention)"
  "keeps kept (repo_RestoreDeletion (repositories_of C) i)"
proof -
  have fail: "keeps kept (repo_fail (repositories_of C) rid e)" for rid and e :: err
    unfolding repo_fail_def by (simp, intro op_keeps)
  have fork: "gf_Fork f = (\<lambda>rid s b. on_disk (gf_Fork g rid s b)) \<Longrightarrow> keeps kept (gf_Fork f rid source b)" for f g rid source b
    by (simp add: op_keeps)
  have init: "keeps kept (initialize_git (repositories_of C) input v)" for v
    unfolding initialize_git_def supported_def
    by (cases "rci_ForkedFrom input"; cases "gi_forker (ic_git C)") (simp_all add: repositories_of_def op_keeps)
  show "keeps kept (repo_Create (repositories_of C) input)"
    unfolding repo_Create_def complete_creation_def publish_created_def activate_created_def
    by (simp, intro op_keeps fail init) (simp_all add: op_keeps)
  have store: "keeps kept (store_settings (repositories_of C) postgres_lifecycle_store current s now)" for now
    unfolding store_settings_def Let_def by (simp, intro op_keeps)
  show "keeps kept (repo_Update (repositories_of C) current s)"
    unfolding repo_Update_def supported_def undoing_def Let_def by (simp, intro conjI impI op_keeps store)
  have request: "keeps kept (quarantine_and_request (repositories_of C) postgres_lifecycle_store
      (git_on_disk (ic_git C)) current actor retention)"
    unfolding quarantine_and_request_def abandon_deletion_def Let_def by (simp split del: if_split, intro op_keeps)
  show "keeps kept (repo_Delete (repositories_of C) current actor retention)"
    unfolding repo_Delete_def supported_def by (simp split del: if_split, intro op_keeps request)
  have republish: "keeps kept (republish_restored (repositories_of C) postgres_lifecycle_store v)" for v
    unfolding republish_restored_def by (simp, intro op_keeps)
  show "keeps kept (repo_RestoreDeletion (repositories_of C) i)"
    unfolding repo_RestoreDeletion_def supported_def restore_quarantined_def
    by (simp split del: if_split, intro op_keeps republish)
qed

lemma purge_page_kept: "keeps kept (purge_page (purger_of C) after)"
  unfolding purge_page_def by (simp, intro op_keeps keeps_purge_each) (simp_all add: op_keeps)

lemma serve_kept:
  assumes "I (tables w)"
  shows "I (tables (serve_repository C r w))"
proof -
  have "kept (serve_repository C r w)"
  proof (cases r)
    case Purge_Deletions
    with assms show ?thesis
      by (auto simp: serve_repository_def both_def split: option.split intro: purger.purge_keeps [OF purge_page_kept, unfolded both_def])
  qed (use assms in \<open>simp_all add: serve_repository_def keepsD [OF methods_kept(1)] keepsD [OF methods_kept(2)]
        keepsD [OF methods_kept(3)] keepsD [OF methods_kept(4)] both_def [of _ w]\<close>)
  then show ?thesis by (simp add: both_def)
qed

lemma requests_keep: "I (tables w) \<Longrightarrow> I (tables (serve_repositories C rs w))"
  by (induction rs arbitrary: w) (simp_all add: serve_repositories_def serve_kept)

end

end
