(* ===== verification/Repo_Lifecycle.thy ===== *)
theory Repo_Lifecycle imports Repo_Invariants begin

text \<open>
  The life of a repository in the tables: how states and deletions belong together, and
  that a deletion, once requested, stays on record.
\<close>

section \<open>Effects of the statements\<close>

lemma update_repo_effect:
  "update_repo p f t = Inr (x, t') \<Longrightarrow>
     repository_deletions t' = repository_deletions t
     \<and> repositories t' = update_where p (\<lambda>r. r\<lparr>rr_repo := f (rr_repo r)\<rparr>) (repositories t)"
  by (auto simp: update_repo_def split: option.splits)

lemma settings_effect:
  assumes "sql_UpdateRepositorySettings rid i s archived a now t = Inr (x, t')"
  shows "repository_deletions t' = repository_deletions t"
    and "repositories t' = update_where (\<lambda>r. rr_id r = rid \<and> live_repo r \<and> rr_state r = StateActive)
       (\<lambda>r. r\<lparr>rr_repo := new_settings s archived a now (rr_repo r)\<rparr>) (repositories t)"
  using assms by (auto simp: sql_UpdateRepositorySettings_def Let_def split: option.splits if_splits)

lemma create_effect:
  assumes "sql_CreateRepository v t = Inr (x, t')"
  shows "repository_deletions t' = repository_deletions t"
    and "repositories t' = repositories t @ [\<lparr>rr_repo = x, rr_deleted_at = None\<rparr>]"
    and "repo_State x = repo_State v" and "repo_ID x = repo_ID v" and "repo_ID v \<notin> rr_id ` set (repositories t)"
  using assms by (auto simp: sql_CreateRepository_def Let_def list_ex_iff split: if_splits)

lemma request_effect:
  assumes "sql_RequestRepositoryDeletion d t = Inr (x, t')"
  shows "repository_deletions t' = repository_deletions t @ [\<lparr>dr_deletion = d, dr_restored_at = None, dr_purged_at = None\<rparr>]"
    and "repositories t' = update_where (\<lambda>r. rr_id r = del_RepositoryID d \<and> rr_state r = StateActive \<and> live_repo r)
       (\<lambda>r. r\<lparr>rr_repo := (rr_repo r)\<lparr>repo_State := StateDeleting, repo_UpdatedAt := del_RequestedAt d\<rparr>\<rparr>) (repositories t)"
    and "\<exists>r \<in> set (repositories t). rr_id r = del_RepositoryID d \<and> rr_state r = StateActive \<and> live_repo r"
    and "del_ID d \<notin> dr_id ` set (repository_deletions t)"
    and "del_RepositoryID d \<notin> dr_repository ` set (repository_deletions t)"
  using assms by (auto simp: sql_RequestRepositoryDeletion_def Let_def list_ex_iff split: if_splits)

lemma restore_effect:
  assumes "sql_RestoreRepositoryDeletion i now t = Inr (x, t')"
  obtains d where "d \<in> set (repository_deletions t)" "dr_id d = i" "open_deletion d" "now < dr_due d"
    "repository_deletions t' = update_where (\<lambda>d. dr_id d = i \<and> open_deletion d \<and> now < dr_due d)
       (\<lambda>d. d\<lparr>dr_restored_at := Some now\<rparr>) (repository_deletions t)"
    "repositories t' = update_where (\<lambda>r. rr_id r = dr_repository d)
       (\<lambda>r. r\<lparr>rr_repo := (rr_repo r)\<lparr>repo_State := StateActive, repo_UpdatedAt := now\<rparr>\<rparr>) (repositories t)"
proof -
  let ?p = "\<lambda>d. dr_id d = i \<and> open_deletion d \<and> now < dr_due d"
  from assms obtain d where d: "find ?p (repository_deletions t) = Some d"
    by (auto simp: sql_RestoreRepositoryDeletion_def Let_def split: option.splits)
  with assms have "update_repo (\<lambda>r. rr_id r = dr_repository d) (\<lambda>v. v\<lparr>repo_State := StateActive, repo_UpdatedAt := now\<rparr>)
      (t\<lparr>repository_deletions := update_where ?p (\<lambda>d. d\<lparr>dr_restored_at := Some now\<rparr>) (repository_deletions t)\<rparr>) = Inr (x, t')"
    by (simp add: sql_RestoreRepositoryDeletion_def)
  from update_repo_effect [OF this] find_Some_in [OF d] that show thesis by auto
qed

lemma purged_effect:
  assumes "sql_MarkRepositoryPurged i now t = Inr ((), t')"
  obtains "t' = t" | d where "d \<in> set (repository_deletions t)" "dr_id d = i" "open_deletion d"
    "repository_deletions t' = update_where (\<lambda>d. dr_id d = i \<and> open_deletion d)
       (\<lambda>d. d\<lparr>dr_purged_at := Some now\<rparr>) (repository_deletions t)"
    "repositories t' = update_where (\<lambda>r. rr_id r = dr_repository d)
       (\<lambda>r. r\<lparr>rr_repo := (rr_repo r)\<lparr>repo_State := StateDeleted, repo_UpdatedAt := now\<rparr>, rr_deleted_at := Some now\<rparr>)
       (repositories t)"
proof (cases "find (\<lambda>d. dr_id d = i \<and> open_deletion d) (repository_deletions t)")
  case None
  with assms that(1) show thesis by (simp add: sql_MarkRepositoryPurged_def)
next
  case (Some d)
  with find_Some_in [OF Some] assms that(2) show thesis by (auto simp: sql_MarkRepositoryPurged_def)
qed

section \<open>Deletions stay on record\<close>

definition deletion_recorded :: "uuid \<Rightarrow> org_tables \<Rightarrow> bool" where
  "deletion_recorded rid t \<longleftrightarrow> rid \<in> dr_repository ` set (repository_deletions t)"

lemma recorded_update:
  "(\<And>d. dr_repository (f d) = dr_repository d) \<Longrightarrow> dr_repository ` set (update_where p f rows) = dr_repository ` set rows"
proof -
  assume "\<And>d. dr_repository (f d) = dr_repository d"
  then have "map dr_repository (update_where p f rows) = map dr_repository rows" by (auto simp: update_where_def)
  then show ?thesis by (metis set_map)
qed

interpretation recorded: repository_invariant "deletion_recorded rid" for rid
proof unfold_locales
  show "deletion_recorded rid t'" if "deletion_recorded rid t" "sql_RestoreRepositoryDeletion i now t = Inr (x, t')" for t t' i now x
    using that(2) by (rule restore_effect) (use that(1) in \<open>simp add: deletion_recorded_def recorded_update\<close>)
  show "deletion_recorded rid t'" if "deletion_recorded rid t" "sql_MarkRepositoryPurged i now t = Inr ((), t')" for t t' i now
    using that(2) by (rule purged_effect) (use that(1) in \<open>simp_all add: deletion_recorded_def recorded_update\<close>)
qed (auto simp: deletion_recorded_def create_effect(1) settings_effect(1) request_effect(1) sql_UpdateRepositoryState_def
       sql_ActivateRepository_def dest!: update_repo_effect split: if_splits)

lemma recorded_refuses:
  assumes "deletion_recorded (del_RepositoryID d) t"
  shows "\<exists>e. sql_RequestRepositoryDeletion d t = Inl e"
proof (cases "sql_RequestRepositoryDeletion d t")
  case (Inr p)
  with assms request_effect(5) [of d t "fst p" "snd p"] show ?thesis by (simp add: deletion_recorded_def)
qed simp

section \<open>States and deletions\<close>

definition lifecycle_ok :: "org_tables \<Rightarrow> bool" where
  "lifecycle_ok t \<longleftrightarrow>
     keyed rr_id (repositories t) \<and> keyed dr_id (repository_deletions t) \<and> keyed dr_repository (repository_deletions t)
     \<and> (\<forall>r \<in> set (repositories t). live_repo r \<longleftrightarrow> rr_state r \<noteq> StateDeleted)
     \<and> (\<forall>r \<in> set (repositories t). rr_state r = StateDeleting \<longrightarrow>
          (\<exists>d \<in> set (repository_deletions t). dr_repository d = rr_id r \<and> open_deletion d))
     \<and> (\<forall>d \<in> set (repository_deletions t). open_deletion d \<longrightarrow>
          (\<forall>r \<in> set (repositories t). rr_id r = dr_repository d \<longrightarrow> live_repo r))"

text \<open>A step that leaves the deletions and moves live repositories between live states, other than to \<open>deleting\<close>.\<close>

lemma lifecycle_update:
  assumes "lifecycle_ok t" and "repository_deletions t' = repository_deletions t"
    and "repositories t' = update_where p f (repositories t)"
    and "\<And>r. r \<in> set (repositories t) \<Longrightarrow> p r \<Longrightarrow> rr_id (f r) = rr_id r \<and> rr_deleted_at (f r) = rr_deleted_at r
      \<and> live_repo r \<and> rr_state (f r) \<noteq> StateDeleted \<and> rr_state (f r) \<noteq> StateDeleting"
  shows "lifecycle_ok t'"
proof -
  have "keyed rr_id (repositories t')"
    unfolding assms(3) using assms(1,4) by (subst keyed_update_where) (auto simp: lifecycle_ok_def)
  moreover have "(live_repo r \<longleftrightarrow> rr_state r \<noteq> StateDeleted)
      \<and> (rr_state r = StateDeleting \<longrightarrow> (\<exists>d \<in> set (repository_deletions t'). dr_repository d = rr_id r \<and> open_deletion d))
      \<and> (\<forall>d \<in> set (repository_deletions t'). open_deletion d \<longrightarrow> rr_id r = dr_repository d \<longrightarrow> live_repo r)"
    if "r \<in> set (repositories t')" for r
  proof -
    from that obtain r0 where r0: "r0 \<in> set (repositories t)" "r = (if p r0 then f r0 else r0)"
      unfolding assms(3) by (auto simp: update_where_def)
    show ?thesis
    proof (cases "p r0")
      case True
      with r0 assms(4) [OF r0(1)] show ?thesis by simp
    next
      case False
      with r0 assms(1,2) show ?thesis unfolding lifecycle_ok_def by auto
    qed
  qed
  ultimately show ?thesis using assms(1,2) unfolding lifecycle_ok_def by auto
qed

text \<open>A step that closes the deletion \<open>d\<close> and settles its repository.\<close>

lemma lifecycle_close:
  assumes ok: "lifecycle_ok t" and d: "d \<in> set (repository_deletions t)" "dr_id d = i" "open_deletion d" and "p d"
    and deletions: "repository_deletions t' = update_where (\<lambda>d. dr_id d = i \<and> p d) g (repository_deletions t)"
    and rows: "repositories t' = update_where (\<lambda>r. rr_id r = dr_repository d) f (repositories t)"
    and g: "\<And>d. dr_id (g d) = dr_id d \<and> dr_repository (g d) = dr_repository d \<and> \<not> open_deletion (g d)"
    and f: "\<And>r. rr_id (f r) = rr_id r \<and> rr_state (f r) \<noteq> StateDeleting"
      "\<And>r. live_repo r \<Longrightarrow> live_repo (f r) \<longleftrightarrow> rr_state (f r) \<noteq> StateDeleted"
  shows "lifecycle_ok t'"
proof -
  have keys: "keyed dr_id (repository_deletions t)" "keyed dr_repository (repository_deletions t)" "keyed rr_id (repositories t)"
    using ok by (simp_all add: lifecycle_ok_def)
  have only: "e = d" if "e \<in> set (repository_deletions t)" "dr_id e = i" for e
    using that d keys by (auto intro: keyed_unique)
  have open': "e \<in> set (repository_deletions t') \<and> open_deletion e
      \<longleftrightarrow> e \<in> set (repository_deletions t) \<and> open_deletion e \<and> dr_repository e \<noteq> dr_repository d" for e
  proof -
    have "e \<in> set (repository_deletions t') \<and> open_deletion e \<longleftrightarrow> e \<in> set (repository_deletions t) \<and> open_deletion e \<and> e \<noteq> d"
    proof -
      have "{e \<in> set (repository_deletions t'). open_deletion e}
          = {e \<in> set (repository_deletions t). open_deletion e \<and> \<not> (dr_id e = i \<and> p e)}"
        unfolding deletions by (rule update_where_closed) (use g in blast)
      then have "e \<in> set (repository_deletions t') \<and> open_deletion e
          \<longleftrightarrow> e \<in> set (repository_deletions t) \<and> open_deletion e \<and> \<not> (dr_id e = i \<and> p e)" by blast
      moreover have "e \<in> set (repository_deletions t) \<Longrightarrow> dr_id e = i \<and> p e \<longleftrightarrow> e = d"
        using only [of e] \<open>p d\<close> d(2) by blast
      ultimately show ?thesis by blast
    qed
    moreover have "e = d \<longleftrightarrow> dr_repository e = dr_repository d" if "e \<in> set (repository_deletions t)"
      using that d(1) keys(2) by (auto intro: keyed_unique)
    ultimately show ?thesis by auto
  qed
  have row: "\<exists>r0 \<in> set (repositories t). rr_id r = rr_id r0 \<and> (r = r0 \<and> rr_id r \<noteq> dr_repository d \<or> r = f r0 \<and> rr_id r = dr_repository d)"
    if "r \<in> set (repositories t')" for r
    using that f(1) unfolding rows in_update_where by (auto; metis)
  have "keyed rr_id (repositories t')" "keyed dr_id (repository_deletions t')" "keyed dr_repository (repository_deletions t')"
    unfolding rows deletions using keys f(1) g by (simp_all add: keyed_update_where)
  moreover have "live_repo r \<longleftrightarrow> rr_state r \<noteq> StateDeleted" if r: "r \<in> set (repositories t')" for r
  proof -
    from row [OF r] obtain r0 where r0: "r0 \<in> set (repositories t)" "rr_id r = rr_id r0"
      "r = r0 \<or> r = f r0 \<and> rr_id r = dr_repository d" by blast
    from ok r0(1) have "live_repo r0 \<longleftrightarrow> rr_state r0 \<noteq> StateDeleted" by (simp add: lifecycle_ok_def)
    moreover from ok r0(1) d(1,3) have "live_repo r0" if "rr_id r0 = dr_repository d"
      using that unfolding lifecycle_ok_def by blast
    ultimately show ?thesis using r0(2,3) f(2) [of r0] by auto
  qed
  moreover have "\<exists>e \<in> set (repository_deletions t'). dr_repository e = rr_id r \<and> open_deletion e"
    if r: "r \<in> set (repositories t')" "rr_state r = StateDeleting" for r
  proof -
    from row [OF r(1)] r(2) f(1) have "r \<in> set (repositories t)" "rr_id r \<noteq> dr_repository d" by auto
    with ok r(2) obtain e where "e \<in> set (repository_deletions t)" "dr_repository e = rr_id r" "open_deletion e"
      unfolding lifecycle_ok_def by blast
    with open' [of e] \<open>rr_id r \<noteq> dr_repository d\<close> show ?thesis by auto
  qed
  moreover have "live_repo r" if "e \<in> set (repository_deletions t')" "open_deletion e" "r \<in> set (repositories t')" "rr_id r = dr_repository e" for e r
    using row [OF that(3)] open' [of e] that ok unfolding lifecycle_ok_def by metis
  ultimately show ?thesis unfolding lifecycle_ok_def by blast
qed

lemma lifecycle_request:
  assumes ok: "lifecycle_ok t" and run: "sql_RequestRepositoryDeletion d t = Inr (x, t')"
  shows "lifecycle_ok t'"
proof -
  let ?new = "\<lparr>dr_deletion = d, dr_restored_at = None, dr_purged_at = None\<rparr>"
  note effect = request_effect [OF run]
  have row: "\<exists>r0 \<in> set (repositories t). rr_id r = rr_id r0 \<and> rr_deleted_at r = rr_deleted_at r0 \<and>
      (r = r0 \<or> rr_id r = del_RepositoryID d \<and> live_repo r \<and> rr_state r = StateDeleting)"
    if "r \<in> set (repositories t')" for r
    using that unfolding effect(2) in_update_where by (auto; metis)
  have "keyed rr_id (repositories t')"
    unfolding effect(2) using ok by (simp add: keyed_update_where lifecycle_ok_def)
  moreover have "keyed dr_id (repository_deletions t')" "keyed dr_repository (repository_deletions t')"
    using ok effect(4,5) by (simp_all add: effect(1) lifecycle_ok_def)
  moreover have "live_repo r \<longleftrightarrow> rr_state r \<noteq> StateDeleted" if "r \<in> set (repositories t')" for r
    using row [OF that] ok unfolding lifecycle_ok_def by force
  moreover have "\<exists>e \<in> set (repository_deletions t'). dr_repository e = rr_id r \<and> open_deletion e"
    if "r \<in> set (repositories t')" "rr_state r = StateDeleting" for r
    using row [OF that(1)] that(2) ok unfolding lifecycle_ok_def effect(1) by (auto; blast)
  moreover have "live_repo r" if "e \<in> set (repository_deletions t')" "open_deletion e" "r \<in> set (repositories t')" "rr_id r = dr_repository e" for e r
  proof (cases "e \<in> set (repository_deletions t)")
    case True
    then show ?thesis using row [OF that(3)] that ok unfolding lifecycle_ok_def by metis
  next
    case False
    with that(1) have "e = ?new" by (simp add: effect(1))
    with that row [OF that(3)] effect(3) ok show ?thesis
      unfolding lifecycle_ok_def by (auto dest: keyed_unique)
  qed
  ultimately show ?thesis unfolding lifecycle_ok_def by blast
qed

interpretation lifecycle: repository_invariant lifecycle_ok
proof unfold_locales
  show "lifecycle_ok t'" if "repo_State v = StateCreating" "lifecycle_ok t" "sql_CreateRepository v t = Inr (x, t')" for v t x t'
  proof -
    note effect = create_effect [OF that(3)]
    from effect that show ?thesis unfolding lifecycle_ok_def by (auto simp: image_iff)
  qed
  show "lifecycle_ok t'" if "lifecycle_ok t" "sql_UpdateRepositoryState rid StateFailed now t = Inr (x, t')" for t rid now x t'
    using update_repo_effect [OF that(2) [unfolded sql_UpdateRepositoryState_def]]
    by (elim conjE) (rule lifecycle_update [OF that(1)], assumption+, auto)
  show "lifecycle_ok t'" if "lifecycle_ok t" "sql_ActivateRepository rid a now t = Inr (x, t')" for t rid a now x t'
  proof -
    from that(2) have "update_repo (\<lambda>r. rr_id r = rid \<and> live_repo r) (\<lambda>v. v\<lparr>repo_State := StateActive, repo_ATURI := at_URI a,
        repo_ATCID := at_CID a, repo_UpdatedAt := now\<rparr>) t = Inr (x, t')"
      by (simp add: sql_ActivateRepository_def split: if_splits)
    from update_repo_effect [OF this] show ?thesis by (elim conjE) (rule lifecycle_update [OF that(1)], assumption+, auto)
  qed
  show "lifecycle_ok t'" if "lifecycle_ok t" "sql_UpdateRepositorySettings rid i s archived a now t = Inr (x, t')" for t rid i s archived a now x t'
    by (rule lifecycle_update [OF that(1) settings_effect [OF that(2)]]) (auto simp: new_settings_def)
  show "lifecycle_ok t'" if "lifecycle_ok t" "sql_RequestRepositoryDeletion d t = Inr (x', t')" for t d x' t'
    using that by (rule lifecycle_request)
  show "lifecycle_ok t'" if "lifecycle_ok t" "sql_RestoreRepositoryDeletion i now t = Inr (x, t')" for t i now x t'
    using that(2)
  proof (rule restore_effect)
    fix d assume d: "d \<in> set (repository_deletions t)" "dr_id d = i" "open_deletion d" "now < dr_due d"
      and effect: "repository_deletions t' = update_where (\<lambda>d. dr_id d = i \<and> open_deletion d \<and> now < dr_due d)
        (\<lambda>d. d\<lparr>dr_restored_at := Some now\<rparr>) (repository_deletions t)"
      "repositories t' = update_where (\<lambda>r. rr_id r = dr_repository d)
        (\<lambda>r. r\<lparr>rr_repo := (rr_repo r)\<lparr>repo_State := StateActive, repo_UpdatedAt := now\<rparr>\<rparr>) (repositories t)"
    show ?thesis
      by (rule lifecycle_close [where p = "\<lambda>d. open_deletion d \<and> now < dr_due d", OF that(1) d(1-3) _ effect]) (use d in auto)
  qed
  show "lifecycle_ok t'" if "lifecycle_ok t" "sql_MarkRepositoryPurged i now t = Inr ((), t')" for t i now t'
    using that(2)
  proof (rule purged_effect)
    fix d assume d: "d \<in> set (repository_deletions t)" "dr_id d = i" "open_deletion d"
      and effect: "repository_deletions t' = update_where (\<lambda>d. dr_id d = i \<and> open_deletion d)
        (\<lambda>d. d\<lparr>dr_purged_at := Some now\<rparr>) (repository_deletions t)"
      "repositories t' = update_where (\<lambda>r. rr_id r = dr_repository d)
        (\<lambda>r. r\<lparr>rr_repo := (rr_repo r)\<lparr>repo_State := StateDeleted, repo_UpdatedAt := now\<rparr>, rr_deleted_at := Some now\<rparr>)
        (repositories t)"
    show ?thesis
      by (rule lifecycle_close [where p = open_deletion, OF that(1) d _ effect]) (use d in auto)
  qed (use that(1) in simp)
qed

end
