(* ===== verification/Repo_Completion.thy ===== *)
theory Repo_Completion
  imports Repo_Invariants Repo_Lifecycle
begin

text \<open>
  The purge worker and the deadlines: a run takes no data whose deadline is ahead, and
  leaves no deletion pending that was due when it started.
\<close>

section \<open>Not before the deadline\<close>

text \<open>Whatever fails, purging a repository touches nothing but its place in the quarantine.\<close>

lemma faulty_cases: "faulty f m d = (r, d') \<Longrightarrow> \<exists>u. entries u = entries d \<and> (f u = (r, d') \<or> m u = (r, d'))"
  by (rule exI [of _ "d\<lparr>disk_faults := tl (disk_faults d)\<rparr>"]) (auto simp: faulty_def Let_def split: if_splits)

lemma reading_entries:
  "ctx_Err d = (r, d') \<Longrightarrow> entries d' = entries d" "os_Lstat p d = (r1, d') \<Longrightarrow> entries d' = entries d"
  by (auto simp: ctx_Err_def os_Lstat_def ret_def raise_def dest!: faulty_cases)

lemma RemoveAll_beneath:
  assumes "os_RemoveAll p d = (r, d')" and "\<not> prefix p q"
  shows "entries d' q = entries d q"
proof -
  have "\<not> strict_prefix p q" using assms(2) by (auto simp: strict_prefix_def)
  with assms show ?thesis unfolding os_RemoveAll_def by (auto dest!: faulty_cases)
qed

lemma Purge_beneath:
  assumes "fs_Purge F rid d = (r, d')" and "\<not> prefix (quarantine_path F rid) q"
  shows "entries d' q = entries d q"
proof -
  let ?same = "\<lambda>u. entries u q = entries d q"
  have reads: "keeps ?same ctx_Err" "keeps ?same (os_Lstat p)" for p
    by (rule keepsI, simp add: reading_entries [OF surjective_pairing])+
  have remove: "keeps ?same (os_RemoveAll (quarantine_path F rid))"
    by (rule keepsI) (simp add: RemoveAll_beneath [OF surjective_pairing assms(2)])
  have paths: "keeps ?same (lifecyclePaths F rid)"
    unfolding lifecyclePaths_def fs_Path_def Let_def by (intro op_keeps reads)
  have "keeps ?same (fs_Purge F rid)"
    unfolding fs_Purge_def
  proof (rule keeps_call_result [OF paths])
    fix x w w' assume "lifecyclePaths F rid w = (Inr x, w')"
    then obtain live where "x = (live, quarantine_path F rid)"
      by (auto simp: lifecyclePaths_def op_ok quarantine_path_def Let_def)
    then show "keeps ?same (case x of (_, kept) \<Rightarrow>
        attempt (requireDirectory kept)
          (\<lambda>e. if os_IsNotExist e then ret () else raise (wrapf ''inspect quarantined repository'' e)) (\<lambda>_.
        call (os_RemoveAll kept) (wrapf ''purge quarantined repository'') ret))"
      unfolding requireDirectory_def by (simp, intro op_keeps reads remove)
  qed
  from keepsD [OF this, of d] assms(1) show ?thesis by simp
qed

definition untouched :: "filesystem \<Rightarrow> uuid \<Rightarrow> (path \<Rightarrow> node option) \<Rightarrow> instant \<Rightarrow> repo_world \<Rightarrow> bool" where
  "untouched F rid f deadline w \<longleftrightarrow>
     (\<forall>n. rw_instants w n < deadline)
     \<and> (\<forall>d \<in> set (repository_deletions (tables w)). dr_repository d = rid \<longrightarrow> open_deletion d \<longrightarrow> deadline \<le> dr_due d)
     \<and> (\<forall>s. entries (disk w) (live_path F rid @ s) = f (live_path F rid @ s)
          \<and> entries (disk w) (quarantine_path F rid @ s) = f (quarantine_path F rid @ s))"

lemma untouched_outside:
  "keeps_clock (untouched F rid f T) repo_clock" "keeps (untouched F rid f T) (pg_ListDueDeletions now after limit)"
  by (auto simp: keeps_clock_def keeps_def untouched_def repo_clock_def pg_ListDueDeletions_def repo_select_def
      call_apply pg_exec_def Let_def ret_def split: prod.split sum.split)

lemma MarkPurged_tables:
  assumes "pg_MarkPurged i now w = (r, w')"
  shows "disk w' = disk w \<and> rw_instants w' = rw_instants w \<and> (tables w' = tables w \<or>
     repository_deletions (tables w') = update_where (\<lambda>d. dr_id d = i \<and> open_deletion d)
       (\<lambda>d. d\<lparr>dr_purged_at := Some now\<rparr>) (repository_deletions (tables w)))"
  using assms
  by (cases "find (\<lambda>d. dr_id d = i \<and> open_deletion d) (repository_deletions (tables w))")
     (auto simp: pg_MarkPurged_def call_apply pg_exec_def Let_def ret_def sql_MarkRepositoryPurged_def
      split: if_splits sum.splits prod.splits)

lemma untouched_MarkPurged: "keeps (untouched F rid f T) (pg_MarkPurged i now)"
proof (rule keepsI)
  fix w :: repo_world assume u: "untouched F rid f T w"
  obtain r w' where run: "pg_MarkPurged i now w = (r, w')" by force
  have "T \<le> dr_due d"
    if d: "d \<in> set (repository_deletions (tables w'))" "dr_repository d = rid" "open_deletion d" for d
  proof -
    have "{d \<in> set (repository_deletions (tables w')). open_deletion d}
        \<subseteq> {d \<in> set (repository_deletions (tables w)). open_deletion d}"
      using MarkPurged_tables [OF run]
    proof (elim conjE disjE)
      assume "repository_deletions (tables w') = update_where (\<lambda>d. dr_id d = i \<and> open_deletion d)
         (\<lambda>d. d\<lparr>dr_purged_at := Some now\<rparr>) (repository_deletions (tables w))"
      then show ?thesis by (simp add: update_where_closed) auto
    qed simp
    with d have "d \<in> set (repository_deletions (tables w))" by blast
    with u d show ?thesis by (auto simp: untouched_def)
  qed
  with u MarkPurged_tables [OF run] have "untouched F rid f T w'"
    unfolding untouched_def by simp
  with run show "untouched F rid f T (snd (pg_MarkPurged i now w))" by simp
qed

lemma untouched_purge:
  assumes "uuid_text_ok (fs_uuid_string F)" and "rid' \<noteq> rid"
  shows "keeps (untouched F rid f T) (on_disk (fs_Purge F rid'))"
proof (rule keepsI)
  fix w :: repo_world assume u: "untouched F rid f T w"
  obtain r d' where run: "fs_Purge F rid' (disk w) = (r, d')" by force
  have "\<not> prefix (quarantine_path F rid') (live_path F rid @ s)"
    "\<not> prefix (quarantine_path F rid') (quarantine_path F rid @ s)" for s
    using places_parallel(2) [of F rid' rid] places_parallel(4) [OF assms]
    by (auto simp: parallel_def prefix_append dest: prefix_same_cases [OF _ prefixI [OF refl]])
  with Purge_beneath [OF run] u run show "untouched F rid f T (snd (on_disk (fs_Purge F rid') w))"
    by (simp add: untouched_def on_disk_apply)
qed

lemma untouched_page:
  assumes "uuid_text_ok (fs_uuid_string (storage_of C))"
  shows "keeps (untouched (storage_of C) rid f T) (purge_page (purger_of C) after)"
proof -
  let ?I = "untouched (storage_of C) rid f T"
  have page: "?I w \<Longrightarrow> ?I (snd (purge_page (purger_of C) after w))" for w
  proof -
    assume I: "?I w"
    obtain now u where clock: "repo_clock w = (now, u)" by force
    then have u: "?I u" and now: "now < T" using I untouched_outside(1)
      by (auto simp: keeps_clock_def untouched_def repo_clock_def)
    obtain q v where list: "pg_ListDueDeletions now after 100 u = (q, v)" by force
    have v: "?I v" using keepsD [OF untouched_outside(2) u, of now after 100] list by simp
    show ?thesis
    proof (cases q)
      case (Inl e)
      with clock list v show ?thesis by (simp add: purge_page_def op_eval)
    next
      case (Inr ds)
      have "del_RepositoryID d \<noteq> rid" if "d \<in> set ds" for d
        using ListDue_rows [of now after 100 u ds v] list Inr that u now
        by (fastforce simp: sql_ListDueRepositoryDeletions_def untouched_def dest!: in_set_takeD)
      then have "keeps ?I (purge_each (purger_of C) ds)"
        by (intro keeps_purge_each) (simp_all add: untouched_purge [OF assms] untouched_outside untouched_MarkPurged)
      from keepsD [OF this v] clock list Inr show ?thesis
        by (simp add: purge_page_def op_eval split: prod.split sum.split) (metis snd_conv)
    qed
  qed
  then show ?thesis by (rule keepsI)
qed

text \<open>
  A run of the purge worker that reports success leaves no deletion open that was due when
  it started: the pages it lists follow each other without a gap.
\<close>

section \<open>One deletion\<close>

text \<open>\<open>closes X t t'\<close>: the deletions \<open>X\<close> are closed, the other ones stay open, and none is forgotten.\<close>

definition closes :: "uuid set \<Rightarrow> org_tables \<Rightarrow> org_tables \<Rightarrow> bool" where
  "closes X t t' \<longleftrightarrow>
     map dr_deletion (repository_deletions t') = map dr_deletion (repository_deletions t)
     \<and> {d \<in> set (repository_deletions t'). open_deletion d} = {d \<in> set (repository_deletions t). open_deletion d \<and> dr_id d \<notin> X}"

lemma closes_refl: "closes {} t t"
  by (simp add: closes_def)

lemma closes_trans: "closes X t u \<Longrightarrow> closes Y u v \<Longrightarrow> closes (X \<union> Y) t v"
  unfolding closes_def by (auto; blast)

lemma closes_mark:
  assumes "sql_MarkRepositoryPurged i now t = Inr ((), t')"
  shows "closes {i} t t'"
proof (cases "find (\<lambda>d. dr_id d = i \<and> open_deletion d) (repository_deletions t)")
  case None
  with assms have "t' = t" by (simp add: sql_MarkRepositoryPurged_def)
  with None show ?thesis by (auto simp: closes_def find_None_in)
next
  case (Some d)
  with assms have deletions: "repository_deletions t' = update_where (\<lambda>d. dr_id d = i \<and> open_deletion d)
       (\<lambda>d. d\<lparr>dr_purged_at := Some now\<rparr>) (repository_deletions t)"
    by (auto simp: sql_MarkRepositoryPurged_def)
  have "map dr_deletion (repository_deletions t') = map dr_deletion (repository_deletions t)"
    by (simp add: deletions update_where_def)
  moreover have "{d \<in> set (repository_deletions t'). open_deletion d} = {d \<in> set (repository_deletions t). open_deletion d \<and> dr_id d \<notin> {i}}"
    unfolding deletions by (subst update_where_closed) auto
  ultimately show ?thesis by (simp add: closes_def)
qed

lemma closes_each:
  "purge_each (purger_of C) ds w = (Inr (), w') \<Longrightarrow>
     closes (del_ID ` set ds) (tables w) (tables w') \<and> rw_instants w' = rw_instants w \<and> rw_ticks w \<le> rw_ticks w'"
proof (induction ds arbitrary: w)
  case Nil
  then show ?case by (simp add: op_ok closes_refl)
next
  case (Cons d ds)
  from Cons.prems obtain u x where run: "on_disk (fs_Purge (storage_of C) (del_RepositoryID d)) w = (Inr (), u)"
    "pg_MarkPurged (del_ID d) (rw_instants u (rw_ticks u)) (u\<lparr>rw_ticks := Suc (rw_ticks u)\<rparr>) = (Inr (), x)"
    "purge_each (purger_of C) ds x = (Inr (), w')"
    by (auto simp: op_ok repo_clock_def)
  from run(1) have u: "tables u = tables w" "rw_instants u = rw_instants w" "rw_ticks u = rw_ticks w"
    by (auto simp: on_disk_apply)
  from run(2) u have "sql_MarkRepositoryPurged (del_ID d) (rw_instants w (rw_ticks w)) (tables w) = Inr ((), tables x)"
    "rw_instants x = rw_instants w" "rw_ticks x = Suc (rw_ticks w)"
    by (auto simp: pg_MarkPurged_def op_ok pg_exec_def Let_def split: if_splits sum.splits prod.splits)
  then show ?case
    using Cons.IH [OF run(3)] closes_trans [OF closes_mark, of "del_ID d" _ "tables w" "tables x" "del_ID ` set ds" "tables w'"] by simp
qed

section \<open>Pages\<close>

text \<open>Every open deletion that was due at \<open>T\<close> comes after the cursor.\<close>

definition ahead :: "instant \<Rightarrow> uuid option \<Rightarrow> repo_world \<Rightarrow> bool" where
  "ahead T after w \<longleftrightarrow>
     keyed dr_id (repository_deletions (tables w)) \<and> (\<forall>n \<ge> rw_ticks w. T \<le> rw_instants w n)
     \<and> (\<forall>d \<in> set (repository_deletions (tables w)). open_deletion d \<longrightarrow> dr_due d \<le> T \<longrightarrow>
          (case after of None \<Rightarrow> True
           | Some a \<Rightarrow> \<exists>c \<in> set (repository_deletions (tables w)). dr_id c = a \<and> due_order c d \<and> dr_id c \<noteq> dr_id d))"

definition none_due :: "instant \<Rightarrow> repo_world \<Rightarrow> bool" where
  "none_due T w \<longleftrightarrow> (\<forall>d \<in> set (repository_deletions (tables w)). open_deletion d \<longrightarrow> T < dr_due d)"

lemma due_order_total: "due_order a b \<or> due_order b a"
  by (auto simp: due_order_def)

lemma due_order_trans: "due_order a b \<Longrightarrow> due_order b c \<Longrightarrow> due_order a c"
  by (auto simp: due_order_def)

text \<open>What is ahead and not on a page comes after the page.\<close>

lemma listed_or_later:
  assumes "ahead T after u" and "T \<le> now" and "d \<in> set (repository_deletions (tables u))" and "open_deletion d" and "dr_due d \<le> T"
    and ds: "ds = sql_ListDueRepositoryDeletions now after 100 (tables u)" and "del_ID (dr_deletion d) \<notin> del_ID ` set ds"
  shows "length ds = 100 \<and> (\<exists>c \<in> set (repository_deletions (tables u)). dr_id c = del_ID (last ds) \<and> due_order c d)"
proof -
  let ?D = "repository_deletions (tables u)"
  let ?P = "\<lambda>d. open_deletion d \<and> dr_due d \<le> now \<and> (case after of None \<Rightarrow> True
      | Some a \<Rightarrow> (case find (\<lambda>c. dr_id c = a) ?D of None \<Rightarrow> False
          | Some c \<Rightarrow> due_order c d \<and> (dr_due d, dr_id d) \<noteq> (dr_due c, dr_id c)))"
  define L where "L = sort_by due_order (filter ?P ?D)"
  have ds_L: "ds = map dr_deletion (take 100 L)" by (simp add: ds sql_ListDueRepositoryDeletions_def L_def)
  have in_L: "set L = {d \<in> set ?D. ?P d}" by (auto simp: L_def)
  have sorted: "sorted_wrt due_order L"
    unfolding L_def by (rule sorted_sort_by [OF due_order_total]) (rule due_order_trans)
  have "?P d"
  proof (cases after)
    case (Some a)
    with assms(1,3-5) obtain c where c: "c \<in> set ?D" "dr_id c = a" "due_order c d" "dr_id c \<noteq> dr_id d"
      by (auto simp: ahead_def)
    moreover have "find (\<lambda>c. dr_id c = a) ?D = Some c"
      using c assms(1) by (intro keyed_find [where k = dr_id]) (auto simp: ahead_def)
    ultimately show ?thesis using Some assms(2,4,5) by auto
  qed (use assms(2,4,5) in simp)
  with assms(3) have "d \<in> set L" by (simp only: in_L) simp
  moreover have "d \<notin> set (take 100 L)" using assms(7) ds_L by auto
  moreover have "set L = set (take 100 L) \<union> set (drop 100 L)"
    by (simp only: set_append [symmetric] append_take_drop_id)
  ultimately have later: "d \<in> set (drop 100 L)" by blast
  then have full: "100 < length L" by (cases "100 < length L") auto
  then have nonempty: "take 100 L \<noteq> []" by auto
  have "sorted_wrt due_order (take 100 L @ drop 100 L)" using sorted by (simp only: append_take_drop_id)
  then have "due_order (last (take 100 L)) d"
    unfolding sorted_wrt_append using later last_in_set [OF nonempty] by blast
  moreover have "last (take 100 L) \<in> set ?D"
    using in_set_takeD [OF last_in_set [OF nonempty]] by (simp only: in_L) simp
  moreover have "dr_id (last (take 100 L)) = del_ID (last ds)"
    using nonempty by (simp add: ds_L last_map)
  moreover have "length ds = 100" using full by (simp add: ds_L)
  ultimately show ?thesis by blast
qed

lemma page_advances:
  assumes "ahead T after w" and "purge_page (purger_of C) after w = (Inr ds, w')"
  shows "(length ds < 100 \<longrightarrow> none_due T w') \<and> ahead T (Some (del_ID (last ds))) w'"
proof -
  define now where "now = rw_instants w (rw_ticks w)"
  define u where "u = w\<lparr>rw_ticks := Suc (rw_ticks w)\<rparr>"
  from assms(2) obtain v where list: "pg_ListDueDeletions now after 100 u = (Inr ds, v)" and each: "purge_each (purger_of C) ds v = (Inr (), w')"
    by (auto simp: purge_page_def op_ok repo_clock_def now_def u_def)
  have u: "ahead T after u" "T \<le> now" using assms(1) by (cases after; auto simp: ahead_def u_def now_def)+
  note ds = ListDue_rows [OF list]
  have v: "tables v = tables u" "rw_instants v = rw_instants u" "rw_ticks v = rw_ticks u"
    using list by (auto simp: pg_ListDueDeletions_def repo_select_def op_ok pg_exec_def Let_def split: if_splits)
  from closes_each [OF each] v have closed: "closes (del_ID ` set ds) (tables u) (tables w')"
    and clock: "rw_instants w' = rw_instants u" "rw_ticks u \<le> rw_ticks w'" by simp_all
  have old: "d \<in> set (repository_deletions (tables u)) \<and> dr_id d \<notin> del_ID ` set ds"
    if "d \<in> set (repository_deletions (tables w'))" "open_deletion d" for d
    using closed that unfolding closes_def by blast
  have later: "length ds = 100 \<and> (\<exists>c \<in> set (repository_deletions (tables u)). dr_id c = del_ID (last ds) \<and> due_order c d)
      \<and> dr_id d \<notin> del_ID ` set ds"
    if "d \<in> set (repository_deletions (tables w'))" "open_deletion d" "dr_due d \<le> T" for d
    using listed_or_later [OF u _ that(2,3) ds] old [OF that(1,2)] by simp
  have "none_due T w'" if "length ds < 100"
    unfolding none_due_def using later that by (auto simp: not_le [symmetric])
  moreover have "keyed dr_id (repository_deletions (tables w'))"
  proof -
    have "map del_ID (map dr_deletion (repository_deletions (tables w'))) = map del_ID (map dr_deletion (repository_deletions (tables u)))"
      using closed by (simp add: closes_def)
    with u(1) show ?thesis by (simp add: ahead_def comp_def)
  qed
  moreover have "\<exists>c \<in> set (repository_deletions (tables w')). dr_id c = del_ID (last ds) \<and> due_order c d \<and> dr_id c \<noteq> dr_id d"
    if d: "d \<in> set (repository_deletions (tables w'))" "open_deletion d" "dr_due d \<le> T" for d
  proof -
    from later [OF d] obtain c where c: "c \<in> set (repository_deletions (tables u))" "dr_id c = del_ID (last ds)" "due_order c d"
      "length ds = 100" "dr_id d \<notin> del_ID ` set ds" by auto
    have "dr_deletion c \<in> set (map dr_deletion (repository_deletions (tables w')))"
      using closed c(1) by (simp add: closes_def)
    then obtain c' where c': "c' \<in> set (repository_deletions (tables w'))" "dr_deletion c' = dr_deletion c" by auto
    have "ds \<noteq> []" using c(4) by auto
    then have "del_ID (last ds) \<in> del_ID ` set ds" by simp
    with c(2,5) have "dr_id c \<noteq> dr_id d" by metis
    with c c' show ?thesis by (intro bexI [of _ c']) (simp_all add: due_order_def)
  qed
  ultimately show ?thesis using u(1) clock by (auto simp: ahead_def)
qed

lemma purge_completes:
  "purge (purger_of C) after w = Some (Inr (), w') \<Longrightarrow> ahead T after w \<Longrightarrow> none_due T w'"
proof (induction "card (pending_deletions w)" arbitrary: after w rule: less_induct)
  case less
  obtain q u where page: "purge_page (purger_of C) after w = (q, u)" by force
  with less.prems(1) obtain ds where ds: "q = Inr ds" by (cases q) (simp_all add: purge.simps)
  note step = page_advances [OF less.prems(2) page [unfolded ds]]
  show ?case
  proof (cases "length ds < 100")
    case True
    with page ds less.prems(1) step show ?thesis by (simp add: purge.simps)
  next
    case False
    from page ds False have "card (pending_deletions u) < card (pending_deletions w)" by (simp add: purger.full_page_shrinks)
    from less.hyps [OF this _ conjunct2 [OF step]] page ds False less.prems(1) show ?thesis by (simp add: purge.simps)
  qed
qed

end
