(* ===== verification/Repo_Example.thy ===== *)
theory Repo_Example imports Repo_Invariants Org_World begin

text \<open>
  A small Git that only knows how to create repositories, on a disk with one directory, and
  a world with one personal and one organization repository around it. The assumptions of
  the theorems on repositories hold there.
\<close>

section \<open>Git\<close>

definition text_path :: "string \<Rightarrow> path" where
  "text_path s = tl (split_on (CHR ''/'') s)"

definition small_git :: "git_command \<Rightarrow> (disk_state, string list) op" where
  "small_git c d =
     (let p = text_path (last (gc_args c))
      in if commandOperation (gc_args c) \<noteq> ''init'' then (Inr [], d)
         else case entries d p of
             Some (Directory _) \<Rightarrow> (Inr [], d)
           | Some Other_Entry \<Rightarrow> (Inl (Command_Error 128), d)
           | None \<Rightarrow>
               (case entries d (butlast p) of
                  Some (Directory _) \<Rightarrow> (Inr [], d\<lparr>entries := (entries d)(p \<mapsto> Directory ''bare'')\<rparr>)
                | _ \<Rightarrow> (Inl (Command_Error 128), d)))"

definition small_installation :: git_installation where
  "small_installation =
     \<lparr>gi_storage = \<lparr>fs_root = [''srv''], fs_uuid_string = uuid_text\<rparr>, gi_exec = small_git,
      gi_temporary = \<lparr>tf_MkdirTemp = ret ''/tmp/m'', tf_Mkdir = (\<lambda>_. ret ()), tf_WriteFile = (\<lambda>_ _. ret ()),
                      tf_RemoveAll = (\<lambda>_. ret ())\<rparr>,
      gi_forker = None\<rparr>"

lemma small_storage [simp]: "fs_root (gi_storage small_installation) = [''srv'']"
  "fs_uuid_string (gi_storage small_installation) = uuid_text" "gi_exec small_installation = small_git"
  "gi_forker small_installation = None"
  by (simp_all add: small_installation_def)

lemma split_path: "\<forall>c \<in> set p. CHR ''/'' \<notin> set c \<Longrightarrow> p \<noteq> [] \<Longrightarrow> text_path (path_text p) = p"
proof -
  assume free: "\<forall>c \<in> set p. CHR ''/'' \<notin> set c" and "p \<noteq> []"
  have "split_on (CHR ''/'') (c @ path_text p) = c # p"
    if "CHR ''/'' \<notin> set c" "\<forall>c \<in> set p. CHR ''/'' \<notin> set c" for c p
    using that
  proof (induction p arbitrary: c)
    case Nil
    then show ?case by (simp add: path_text_def split_on_no)
  next
    case (Cons x p)
    then show ?case using split_on_cons [of "CHR ''/''" c "x @ path_text p"] by (simp add: path_text_def)
  qed
  from this [of "[]" p] free show ?thesis by (simp add: text_path_def)
qed

lemma uuid_text_slash: "CHR ''/'' \<notin> set (uuid_text u)"
proof -
  have "hex_digit n \<noteq> CHR ''/''" if "n < 16" for n
  proof -
    from that have "hex_digit n \<in> set ''0123456789abcdef''" unfolding hex_digit_def by (intro nth_mem) simp
    then show ?thesis by auto
  qed
  then have "CHR ''/'' \<notin> set (hex_digits u)"
    using nibble_less by (force simp: hex_digits_def)
  then show ?thesis by (auto simp: uuid_text_def Let_def dest: in_set_takeD in_set_dropD)
qed

lemma small_path: "text_path (path_text (live_path (gi_storage small_installation) rid)) = live_path (gi_storage small_installation) rid"
proof (rule split_path)
  have "CHR ''/'' \<notin> set (compact (uuid_text rid))" using uuid_text_slash by (auto simp: compact_def)
  then show "\<forall>c \<in> set (live_path (gi_storage small_installation) rid). CHR ''/'' \<notin> set c"
    using uuid_text_slash by (auto simp: live_path_def sharded_def dest: in_set_takeD in_set_dropD)
qed simp

lemma tree_child:
  assumes "tree f" and "f (butlast p) = Some (Directory c)" and "f p = None"
  shows "tree (f(p \<mapsto> n))"
proof -
  have "p \<noteq> []" using assms(2,3) by auto
  have "\<exists>c. (f(p \<mapsto> n)) q = Some (Directory c)" if "(f(p \<mapsto> n)) r \<noteq> None" "strict_prefix q r" for r q
  proof (cases "r = p")
    case True
    then have "prefix q (butlast p)" using that(2) \<open>p \<noteq> []\<close> by (simp add: strict_prefix_butlast)
    then have "q = butlast p \<or> strict_prefix q (butlast p)" by (auto simp: strict_prefix_def)
    moreover have "q \<noteq> p" using that(2) True by auto
    ultimately show ?thesis using assms(1,2) unfolding tree_def by fastforce
  next
    case False
    with that assms(1) obtain c where "f q = Some (Directory c)" unfolding tree_def by fastforce
    with assms(3) show ?thesis by (cases "q = p") auto
  qed
  then show ?thesis unfolding tree_def by blast
qed

lemma small_git_result:
  assumes "small_git c d = (r, d')" and "disk_ok d"
  shows "disk_ok d' \<and> (d' = d \<or> commandOperation (gc_args c) = ''init''
      \<and> (\<forall>q. q \<noteq> text_path (last (gc_args c)) \<longrightarrow> entries d' q = entries d q))
    \<and> (commandOperation (gc_args c) = ''init'' \<longrightarrow> (\<forall>x. r = Inr x \<longrightarrow> is_dir d' (text_path (last (gc_args c)))))"
  using assms
  by (auto simp: small_git_def Let_def disk_ok_def is_dir_def tree_child simp del: commandOperation.simps
      split: if_splits option.splits node.splits)

lemma small_installed: "git_installed small_installation"
proof -
  have "commands_ok small_installation"
    unfolding commands_ok_def
    by (auto simp: same_places_def dest: small_git_result)
  moreover have "init_ok small_installation"
    unfolding init_ok_def
  proof (intro allI impI)
    fix rid b d r d'
    let ?F = "gi_storage small_installation" and ?c = "command [''init'', ''--bare'', b, path_text (live_path (gi_storage small_installation) rid)]"
    assume run: "gi_exec small_installation ?c d = (r, d')" and "disk_ok d"
    have op: "commandOperation (gc_args ?c) = ''init''" by (simp add: known_operations_def)
    have "live_path ?F rid' \<noteq> live_path ?F rid" if "rid' \<noteq> rid" for rid'
      using places_parallel(3) [of ?F rid' rid] that uuid_text_ok by (auto simp: parallel_def)
    with small_git_result [OF _ \<open>disk_ok d\<close>, of ?c r d'] run op small_path
    show "same_places ?F {rid} d d' \<and> (\<forall>x. r = Inr x \<longrightarrow> is_dir d' (live_path ?F rid))"
      by (auto simp: same_places_def is_dir_def)
  qed
  ultimately show ?thesis
    by (simp add: git_installed_def fork_ok_def uuid_text_ok)
qed

section \<open>The world\<close>

definition small_config :: instance_config where
  "small_config =
     \<lparr>ic_pick = hd, ic_git = small_installation,
      ic_endpoints = \<lparr>ep_baseURL = ''https://x'', ep_sshHost = ''x'', ep_sshPort = 22\<rparr>, ic_uuid_string = uuid_text\<rparr>"

definition small_repository :: "uuid \<Rightarrow> uuid option \<Rightarrow> repo_state \<Rightarrow> repository" where
  "small_repository rid oid state =
     \<lparr>repo_ID = rid, repo_OwnerDID = ''did:a'', repo_OrganizationID = oid,
      repo_OrganizationSlug = (if oid = None then [] else ''acme''), repo_Slug = ''r'', repo_DisplayName = [],
      repo_Description = [], repo_Visibility = Repo_Private, repo_State = state, repo_DefaultBranch = ''main'',
      repo_StorageKey = uuid_text rid, repo_ATURI = [], repo_ATCID = [], repo_ForkedFrom = None,
      repo_TransferredFrom = None, repo_ForkCount = 0, repo_ViewerCanAdmin = False, repo_ArchivedAt = None,
      repo_CreatedAt = 1, repo_UpdatedAt = 1\<rparr>"

definition small_disk :: "path list \<Rightarrow> disk_state" where
  "small_disk ps =
     \<lparr>entries = (\<lambda>q. if list_ex (prefix q) ps then Some (Directory []) else None), disk_faults = []\<rparr>"

definition small_world :: "bool list \<Rightarrow> repo_row list \<Rightarrow> deletion_row list \<Rightarrow> path list \<Rightarrow> repo_world" where
  "small_world fs rows ds ps =
     \<lparr>tables = example_tables\<lparr>repositories := rows, repository_deletions := ds\<rparr>, collation = (\<lambda>_ _. True), faults = fs,
      disk = small_disk ps, rw_instants = (\<lambda>n. int n + 10), rw_ticks = 0, rw_ids = (\<lambda>n. Inr (of_nat n + 100)),
      rw_ids_used = 0, rw_replies = (\<lambda>_. Inr \<lparr>at_URI = ''at:r'', at_CID = ''cr''\<rparr>), rw_sent = []\<rparr>"

abbreviation small_live :: "uuid \<Rightarrow> path" where
  "small_live \<equiv> live_path (gi_storage small_installation)"

abbreviation small_quarantine :: "uuid \<Rightarrow> path" where
  "small_quarantine \<equiv> quarantine_path (gi_storage small_installation)"

lemma small_disk_ok: "disk_ok (small_disk ps)"
  by (auto simp: disk_ok_def small_disk_def tree_def list_ex_iff dest: prefix_order.trans prefix_order.less_imp_le)

lemma small_world_simps [simp]:
  "repositories (tables (small_world fs rows ds ps)) = rows" "repository_deletions (tables (small_world fs rows ds ps)) = ds"
  "disk (small_world fs rows ds ps) = small_disk ps" "rw_instants (small_world fs rows ds ps) = (\<lambda>n. int n + 10)"
  "rw_ticks (small_world fs rows ds ps) = 0" "faults (small_world fs rows ds ps) = fs" "rw_ids (small_world fs rows ds ps) = (\<lambda>n. Inr (of_nat n + 100))"
  "organizations (tables (small_world fs rows ds ps)) = organizations example_tables"
  "ic_git small_config = small_installation"
  by (simp_all add: small_world_def small_config_def)

end
