(* ===== verification/Repo_Properties.thy ===== *)
theory Repo_Properties imports Repo_Completion Repo_Example begin

text \<open>
  Properties of the repository service, its storage and its purge worker.
\<close>

section \<open>Data and state\<close>

definition small_row :: "uuid \<Rightarrow> uuid option \<Rightarrow> repo_state \<Rightarrow> repo_row" where
  "small_row rid oid state = \<lparr>rr_repo = small_repository rid oid state, rr_deleted_at = None\<rparr>"

definition small_deletion :: "uuid \<Rightarrow> uuid \<Rightarrow> instant \<Rightarrow> deletion_row" where
  "small_deletion i rid due =
     \<lparr>dr_deletion = \<lparr>del_ID = i, del_RepositoryID = rid, del_RequestedByDID = ''did:a'', del_RequestedAt = 1, del_PurgeAfter = due\<rparr>,
      dr_restored_at = None, dr_purged_at = None\<rparr>"

lemma small_row_simps [simp]:
  "rr_id (small_row rid oid state) = rid" "rr_org (small_row rid oid state) = oid"
  "rr_state (small_row rid oid state) = state" "live_repo (small_row rid oid state)"
  by (simp_all add: small_row_def small_repository_def)

lemma small_deletion_simps [simp]:
  "dr_id (small_deletion i rid due) = i" "dr_repository (small_deletion i rid due) = rid"
  "dr_due (small_deletion i rid due) = due" "open_deletion (small_deletion i rid due)"
  by (simp_all add: small_deletion_def)

text \<open>One active repository, one whose deletion is due.\<close>

definition example_repositories :: repo_world where
  "example_repositories =
     small_world [False, True] [small_row 1 None StateActive, small_row 2 None StateDeleting] [small_deletion 5 2 3]
       [small_live 1, small_quarantine 2]"

lemma small_dir: "is_dir (small_disk ps) p \<longleftrightarrow> list_ex (prefix p) ps" "entries (small_disk ps) p = None \<longleftrightarrow> \<not> list_ex (prefix p) ps"
  by (simp_all add: is_dir_def small_disk_def)

lemma small_prefixes:
  "prefix (small_live rid) (small_live rid') \<longleftrightarrow> rid = rid'" "\<not> prefix (small_live rid) (small_quarantine rid')"
  "prefix (small_quarantine rid) (small_quarantine rid') \<longleftrightarrow> rid = rid'" "\<not> prefix (small_quarantine rid) (small_live rid')"
  using live_paths_apart [of "gi_storage small_installation"] namespaces_apart uuid_text_ok by auto




section \<open>The purge worker\<close>

text \<open>
  C33. A run of the purge worker returns, with an error or without, whatever fails on the
  way: every full page it lists leaves fewer deletions pending.
\<close>

theorem purge_always_returns: "\<exists>r w'. purge (purger_of C) None w = Some (r, w')"
  using purger.purge_returns [of C None w] by auto

text \<open>
  C34. The purge worker takes no data before its time: a repository none of whose open
  deletions is due while the worker runs, restored ones among them, keeps everything in its
  live directory and in its quarantine, even on a failing disk.
\<close>

theorem purge_respects_deadlines:
  assumes "uuid_text_ok (fs_uuid_string (storage_of C))"
    and "\<forall>n. rw_instants w n < deadline"
    and "\<forall>d \<in> set (repository_deletions (tables w)). dr_repository d = rid \<longrightarrow> open_deletion d \<longrightarrow> deadline \<le> dr_due d"
    and "purge (purger_of C) None w = Some (r, w')"
  shows "entries (disk w') (live_path (storage_of C) rid @ s) = entries (disk w) (live_path (storage_of C) rid @ s)
       \<and> entries (disk w') (quarantine_path (storage_of C) rid @ s) = entries (disk w) (quarantine_path (storage_of C) rid @ s)"
proof -
  have "untouched (storage_of C) rid (entries (disk w)) deadline w"
    using assms(2,3) by (simp add: untouched_def)
  from purger.purge_keeps [OF untouched_page [OF assms(1)] assms(4) this] show ?thesis
    by (simp add: untouched_def)
qed

definition early_world :: repo_world where
  "early_world =
     (small_world [] [small_row 2 None StateDeleting] [small_deletion 5 2 30] [small_quarantine 2])\<lparr>rw_instants := \<lambda>_. 20\<rparr>"

theorem purge_respects_deadlines_witness:
  "\<exists>r w'. purge (purger_of small_config) None early_world = Some (r, w') \<and> is_dir (disk w') (small_quarantine 2)"
proof -
  obtain r w' where run: "purge (purger_of small_config) None early_world = Some (r, w')"
    using purger.purge_returns [of small_config None early_world] by auto
  from purge_respects_deadlines [of small_config early_world 30 2 r w' "[]"] run
  show ?thesis
    by (auto simp: early_world_def uuid_text_ok is_dir_def small_disk_def small_prefixes)
qed

text \<open>
  C32. The purge worker finishes its work: a run that reports success leaves no open deletion
  that was due when it started, however many pages there were, where the clock does not go
  back.
\<close>

theorem purge_clears_due:
  assumes "keyed dr_id (repository_deletions (tables w))"
    and "\<forall>n \<ge> rw_ticks w. rw_instants w (rw_ticks w) \<le> rw_instants w n"
    and "purge (purger_of C) None w = Some (Inr (), w')"
    and "d \<in> set (repository_deletions (tables w'))" and "open_deletion d"
  shows "rw_instants w (rw_ticks w) < dr_due d"
proof -
  have "ahead (rw_instants w (rw_ticks w)) None w" using assms(1,2) by (simp add: ahead_def)
  from purge_completes [OF assms(3) this] assms(4,5) show ?thesis by (simp add: none_due_def)
qed

definition due_world :: repo_world where
  "due_world = small_world [] [small_row 2 None StateDeleting] [small_deletion 5 2 3, small_deletion 6 1 40] [small_quarantine 2]"

lemma small_purge:
  assumes "list_ex (prefix (small_quarantine rid)) ps"
  shows "\<exists>e. fs_Purge (gi_storage small_installation) rid (small_disk ps) = (Inr (), e)"
proof -
  have quiet: "disk_faults (small_disk ps) = []" by (simp add: small_disk_def)
  have "requireDirectory (small_quarantine rid) (small_disk ps) = (Inr (), small_disk ps)"
    using requireDirectory_quiet [OF quiet, of "small_quarantine rid"] assms by (simp add: small_dir prod_eq_iff)
  with lifecyclePaths_quiet(2) [OF quiet, of "gi_storage small_installation" rid] show ?thesis
    by (simp add: fs_Purge_def op_eval uuid_text_ok quiet_calls [OF quiet])
qed

theorem purge_clears_due_witness:
  "\<exists>w'. purge (purger_of small_config) None due_world = Some (Inr (), w')
     \<and> (\<forall>d \<in> set (repository_deletions (tables w')). open_deletion d \<longrightarrow> 10 < dr_due d)"
proof -
  obtain e where purged: "fs_Purge (gi_storage small_installation) 2 (small_disk [small_quarantine 2]) = (Inr (), e)"
    using small_purge [of 2 "[small_quarantine 2]"] by (auto simp: small_prefixes)
  have "\<exists>w'. purge (purger_of small_config) None due_world = Some (Inr (), w')"
    by (simp add: purge.simps purge_page_def op_eval repo_clock_def due_world_def pg_ListDueDeletions_def repo_select_def
        pg_exec_def sql_ListDueRepositoryDeletions_def small_deletion_def on_disk_apply purged pg_MarkPurged_def
        sql_MarkRepositoryPurged_def)
  then obtain w' where run: "purge (purger_of small_config) None due_world = Some (Inr (), w')" ..
  from purge_clears_due [OF _ _ run] show ?thesis using run by (auto simp: due_world_def)
qed

section \<open>The quarantine\<close>

text \<open>
  What \<open>Quarantine\<close> takes away, \<open>Restore\<close> brings back: on a disk that works the restore
  succeeds, every file of the repository is what it was, and so is every other repository.
\<close>

theorem quarantine_round_trip:
  assumes "uuid_text_ok (fs_uuid_string (gi_storage G))" and "disk_ok d"
    and "git_Quarantine (native_git G) rid d = (Inr (), q)" and "git_Restore (native_git G) rid q = (r, d')"
  shows "r = Inr ()
    \<and> entries q (live_path (gi_storage G) rid @ s) = None
    \<and> entries d' (live_path (gi_storage G) rid @ s) = entries d (live_path (gi_storage G) rid @ s)
    \<and> (rid' \<noteq> rid \<longrightarrow>
         entries d' (live_path (gi_storage G) rid' @ s) = entries d (live_path (gi_storage G) rid' @ s)
         \<and> entries d' (quarantine_path (gi_storage G) rid' @ s) = entries d (quarantine_path (gi_storage G) rid' @ s))"
proof -
  let ?a = "live_path (gi_storage G) rid" and ?b = "quarantine_path (gi_storage G) rid"
  note apart = places_parallel(1,2) [of "gi_storage G" rid rid]
  from assms(3) have quarantine: "fs_Quarantine (gi_storage G) rid d = (Inr (), q)"
    by (simp add: git_Quarantine_def native_git_def storage_lifecycle_def)
  then have free: "movable ?a ?b d" and q: "q = after_move ?a ?b d"
    using fs_Quarantine_run [OF assms(2,1)] by (cases "movable ?a ?b d"; fastforce)+
  have "disk_ok q" unfolding q by (rule after_move_ok [OF assms(2) apart(1) free]) simp
  moreover have "movable ?b ?a q" unfolding q by (rule movable_back [OF assms(2) apart(1) free]) simp_all
  ultimately have "fs_Restore (gi_storage G) rid q = (Inr (), after_move ?b ?a q)"
    using fs_Restore_run(1) assms(1) by blast
  with assms(4) have r: "r = Inr ()" "d' = after_move ?b ?a q"
    by (simp_all add: git_Restore_def native_git_def storage_lifecycle_def)
  have brought: "entries d' (?a @ s) = entries d (?a @ s)"
    using after_move_entries(1) [OF apart(2)] after_move_entries(1) [OF apart(1)] by (simp add: r(2) q)
  have other: "entries d' (x @ s) = entries d (x @ s)" if "parallel x ?a" "parallel x ?b" for x
    using after_move_entries(3) [OF apart(2) _ that(2,1)] after_move_entries(3) [OF apart(1) _ that] by (simp add: r(2) q)
  have "rid' \<noteq> rid \<Longrightarrow> parallel (live_path (gi_storage G) rid') ?a \<and> parallel (live_path (gi_storage G) rid') ?b
      \<and> parallel (quarantine_path (gi_storage G) rid') ?a \<and> parallel (quarantine_path (gi_storage G) rid') ?b"
    using places_parallel [of "gi_storage G" rid' rid] assms(1) by simp
  with r(1) brought other after_move_entries(2) [OF apart(1)] show ?thesis by (simp add: q)
qed

theorem quarantine_round_trip_witness:
  "\<exists>q d'. git_Quarantine (native_git small_installation) 1 (small_disk [small_live 1]) = (Inr (), q)
     \<and> entries q (small_live 1) = None \<and> git_Restore (native_git small_installation) 1 q = (Inr (), d') \<and> is_dir d' (small_live 1)"
proof -
  let ?d = "small_disk [small_live 1]" and ?G = "small_installation"
  have "prefix q (small_quarantine 1) \<Longrightarrow> entries ?d q \<noteq> Some Other_Entry" for q by (simp add: small_disk_def)
  then have "movable (small_live 1) (small_quarantine 1) ?d"
    by (simp add: movable_def small_dir small_prefixes) (meson prefixeq_butlast prefix_order.trans)
  then obtain q where q: "git_Quarantine (native_git ?G) 1 ?d = (Inr (), q)"
    using fs_Quarantine_run(1) [OF small_disk_ok, of "gi_storage ?G" 1] uuid_text_ok
    by (auto simp: git_Quarantine_def native_git_def storage_lifecycle_def)
  obtain r d' where d': "git_Restore (native_git ?G) 1 q = (r, d')" by force
  from quarantine_round_trip [OF _ small_disk_ok q d', of "[]"] q d' small_dir(1) [of "[small_live 1]" "small_live 1"]
  show ?thesis by (auto simp: uuid_text_ok is_dir_def)
qed

section \<open>Deletion and restoration\<close>

text \<open>
  C31. No repository is stuck: after any requests and purges, whatever fails, a repository in
  the state \<open>deleting\<close> has exactly one deletion that can still be restored or purged, and a
  repository is gone from every list exactly when its state is \<open>deleted\<close>.
\<close>

theorem deleting_repositories_are_recoverable:
  assumes "lifecycle_ok (tables w)" and "r \<in> set (repositories (tables (serve_repositories C rs w)))"
  shows "(rr_state r = StateDeleting \<longrightarrow>
            (\<exists>!d. d \<in> set (repository_deletions (tables (serve_repositories C rs w)))
                 \<and> dr_repository d = rr_id r \<and> open_deletion d))
       \<and> (live_repo r \<longleftrightarrow> rr_state r \<noteq> StateDeleted)"
proof -
  let ?t = "tables (serve_repositories C rs w)"
  have ok: "lifecycle_ok ?t" using assms(1) by (rule lifecycle.requests_keep)
  have "d = e" if "d \<in> set (repository_deletions ?t)" "e \<in> set (repository_deletions ?t)" "dr_repository d = dr_repository e" for d e
    using ok that unfolding lifecycle_ok_def by (auto intro: keyed_unique)
  with ok assms(2) show ?thesis unfolding lifecycle_ok_def by (intro conjI impI ex_ex1I) auto
qed

lemma example_lifecycle: "lifecycle_ok (tables example_repositories)"
  by (auto simp: lifecycle_ok_def example_repositories_def)

theorem deleting_repositories_are_recoverable_witness:
  "\<exists>!d. d \<in> set (repository_deletions (tables (serve_repositories small_config [] example_repositories)))
     \<and> dr_repository d = 2 \<and> open_deletion d"
  using deleting_repositories_are_recoverable [OF example_lifecycle, of "small_row 2 None StateDeleting" small_config "[]"]
  by (simp add: serve_repositories_def example_repositories_def)

text \<open>
  C39. A deletion on record refuses every later one: once a deletion of a repository was
  requested, no request to delete that repository succeeds any more, whatever happened in
  between, its restoration included.
\<close>

theorem restored_repositories_cannot_be_deleted:
  assumes "repo_ID current \<in> dr_repository ` set (repository_deletions (tables w))"
    and "repo_Delete (repositories_of C) current actor retention (serve_repositories C rs w) = (result, w')"
  shows "\<exists>e. result = Inl e"
proof -
  let ?S = "repositories_of C"
  let ?K = "both (\<lambda>t _. deletion_recorded (repo_ID current) t)"
  have K: "?K (serve_repositories C rs w)"
    using assms(1) recorded.requests_keep by (simp add: deletion_recorded_def both_def)
  have kept: "keeps ?K m \<Longrightarrow> triple ?K m (\<lambda>_. ?K) (\<lambda>_. True)" for m :: "(repo_world, 'a) op"
    by (rule triple_weaken [OF keeps_triple]) auto
  have request: "triple ?K (pg_RequestDeletion d) (\<lambda>_ _. False) (\<lambda>_. True)" if "del_RepositoryID d = repo_ID current" for d
    unfolding pg_RequestDeletion_def
    by (rule triple_weaken [OF triple_repo_query [where P = "\<lambda>t _. deletion_recorded (repo_ID current) t" and Q = "\<lambda>_ _ _. False"]])
       (use recorded_refuses [of d] that in \<open>fastforce simp: both_def\<close>)+
  have abandon: "triple (\<lambda>_. True) (abandon_deletion ?S git current e) (\<lambda>_ _. False) (\<lambda>_. True)" for git e
    by (rule tripleI) (auto simp: abandon_deletion_def op_ok Let_def split: if_splits)
  have never: "triple ?K (quarantine_and_request ?S postgres_lifecycle_store (git_on_disk (ic_git C)) current actor retention)
      (\<lambda>_ _. False) (\<lambda>_. True)"
    unfolding quarantine_and_request_def
    by (simp, rule triple_call [OF kept [OF recorded.kept_reads(1)]], rule triple_attempt [OF kept [OF both_outside(1)]],
        rule tripleI, simp, simp add: op_ok, rule triple_with_now [OF both_outside(3)],
        rule triple_attempt [OF request abandon]) (simp_all add: triple_ret)
  have "triple ?K (repo_Delete ?S current actor retention) (\<lambda>_ _. False) (\<lambda>_. True)"
    unfolding repo_Delete_def supported_def
    by (simp split del: if_split, intro triple_fail_if triple_if never
          triple_call [OF kept [OF unpublish_current_keeps] never]) simp_all
  from triple_Inr [OF this K] assms(2) show ?thesis by (cases result) auto
qed

theorem restored_repositories_cannot_be_deleted_witness:
  "\<exists>e. fst (repo_Delete (repositories_of small_config) (small_repository 2 None StateActive) ''did:a'' 5
     (serve_repositories small_config [Restore_Repository 5] example_repositories)) = Inl e"
  using restored_repositories_cannot_be_deleted
    [of "small_repository 2 None StateActive" example_repositories small_config "''did:a''" 5 "[Restore_Repository 5]", OF _ surjective_pairing]
  by (simp add: example_repositories_def small_repository_def)

text \<open>What \<open>RestoreDeletion\<close> writes where nothing fails.\<close>

lemma restore_writes:
  assumes "keyed dr_id (repository_deletions t)" and "d \<in> set (repository_deletions t)" and "open_deletion d"
    and "now < dr_due d" and "r \<in> set (repositories t)" and "rr_id r = dr_repository d"
  obtains x t' where "sql_RestoreRepositoryDeletion (dr_id d) now t = Inr (x, t')"
    and "\<exists>r' \<in> set (repositories t'). rr_id r' = rr_id r \<and> rr_state r' = StateActive"
    and "keyed rr_id (repositories t) \<Longrightarrow> repo_OrganizationID x = rr_org r"
proof -
  have "find (\<lambda>e. dr_id e = dr_id d \<and> open_deletion e \<and> now < dr_due e) (repository_deletions t) = Some d"
    using assms(1-4) by (intro keyed_find [where k = dr_id]) auto
  moreover obtain s where s: "find (\<lambda>r. rr_id r = dr_repository d) (repositories t) = Some s"
    using assms(5,6) by (cases "find (\<lambda>r. rr_id r = dr_repository d) (repositories t)") (auto simp: find_None_in)
  ultimately obtain x t' where run: "sql_RestoreRepositoryDeletion (dr_id d) now t = Inr (x, t')"
    and x: "x = (rr_repo s)\<lparr>repo_State := StateActive, repo_UpdatedAt := now\<rparr>"
    and rows: "repositories t' = update_where (\<lambda>r. rr_id r = dr_repository d)
        (\<lambda>r. r\<lparr>rr_repo := (rr_repo r)\<lparr>repo_State := StateActive, repo_UpdatedAt := now\<rparr>\<rparr>) (repositories t)"
    by (simp add: sql_RestoreRepositoryDeletion_def update_repo_def)
  show thesis
  proof (rule that [OF run])
    show "\<exists>r' \<in> set (repositories t'). rr_id r' = rr_id r \<and> rr_state r' = StateActive"
    proof (rule bexI)
      show "r\<lparr>rr_repo := (rr_repo r)\<lparr>repo_State := StateActive, repo_UpdatedAt := now\<rparr>\<rparr> \<in> set (repositories t')"
        using assms(5,6) unfolding rows in_update_where by blast
    qed simp
    show "repo_OrganizationID x = rr_org r" if "keyed rr_id (repositories t)"
      using keyed_unique [OF that, of s r] find_Some_in [OF s] assms(5,6) x by simp
  qed
qed

text \<open>
  C35. The one way an active repository loses its Git data: where the organization of a
  repository cannot be read just after its restoration was committed, the service takes the
  restoration for failed and moves the data back to the quarantine, although the repository
  is active again and its deletion is no longer open to be restored.
\<close>

theorem failed_organization_read_strands_data:
  assumes "git_installed (ic_git C)" and "disk_ok (disk w)" and "lifecycle_ok (tables w)"
    and "d \<in> set (repository_deletions (tables w))" and "open_deletion d" and "rw_instants w (rw_ticks w) < dr_due d"
    and "r \<in> set (repositories (tables w))" and "rr_id r = dr_repository d" and "rr_org r = Some oid"
    and "movable (quarantine_path (storage_of C) (rr_id r)) (live_path (storage_of C) (rr_id r)) (disk w)"
    and "faults w = [False, False, True]"
    and "repo_RestoreDeletion (repositories_of C) (dr_id d) w = (result, w')"
  shows "(\<exists>e. result = Inl e)
       \<and> (\<exists>r' \<in> set (repositories (tables w')). rr_id r' = rr_id r \<and> rr_state r' = StateActive)
       \<and> entries (disk w') (live_path (storage_of C) (rr_id r)) = None
       \<and> is_dir (disk w') (quarantine_path (storage_of C) (rr_id r))"
proof -
  let ?F = "storage_of C" and ?rid = "rr_id r"
  let ?q = "quarantine_path ?F ?rid" and ?l = "live_path ?F ?rid"
  have F: "uuid_text_ok (fs_uuid_string ?F)" using assms(1) by (simp add: git_installed_def)
  have keys: "keyed dr_id (repository_deletions (tables w))" "keyed rr_id (repositories (tables w))"
    using assms(3) by (simp_all add: lifecycle_ok_def)
  have get: "pg_GetDeletion (dr_id d) w = (Inr (dr_deletion d), w\<lparr>faults := [False, True]\<rparr>)"
  proof -
    have "find (\<lambda>e. dr_id e = dr_id d \<and> open_deletion e \<and> list_ex (\<lambda>r. rr_id r = dr_repository e) (repositories (tables w)))
        (repository_deletions (tables w)) = Some d"
      using keys(1) assms(4,5,7,8) by (intro keyed_find [where k = dr_id]) (auto simp: list_ex_iff)
    with assms(11) show ?thesis
      by (simp add: pg_GetDeletion_def repo_query_def op_eval pg_exec_def sql_GetRepositoryDeletion_def one_row_def)
  qed
  define w1 where "w1 = w\<lparr>faults := [False, True], disk := after_move ?q ?l (disk w)\<rparr>"
  have out: "on_disk (fs_Restore ?F ?rid) (w\<lparr>faults := [False, True]\<rparr>) = (Inr (), w1)"
    using fs_Restore_run(1) [OF assms(2) F assms(10)] by (simp add: on_disk_apply w1_def)
  obtain x t' where sql: "sql_RestoreRepositoryDeletion (dr_id d) (rw_instants w (rw_ticks w)) (tables w) = Inr (x, t')"
    and row: "\<exists>r' \<in> set (repositories t'). rr_id r' = rr_id r \<and> rr_state r' = StateActive" and org: "repo_OrganizationID x = Some oid"
    using restore_writes [OF keys(1) assms(4-8)] keys(2) assms(9) by metis
  have restored: "pg_RestoreDeletion (dr_id d) (rw_instants w (rw_ticks w)) (w1\<lparr>rw_ticks := Suc (rw_ticks w)\<rparr>)
      = (Inl (repo_mapStoreError (Opaque ''database'')), w1\<lparr>rw_ticks := Suc (rw_ticks w), faults := [], tables := t'\<rparr>)"
    by (simp add: pg_RestoreDeletion_def repo_query_def op_eval pg_exec_def sql withOrganizationSlug_def org w1_def)
  have ok1: "disk_ok (disk w1)"
    using after_move_ok [OF assms(2) places_parallel(2) assms(10)] by (simp add: w1_def)
  have again: "movable ?l ?q (disk w1)"
    using movable_back [OF assms(2) places_parallel(2) assms(10)] by (simp add: w1_def)
  have taken: "fs_Quarantine ?F ?rid (disk w1) = (Inr (), after_move ?l ?q (disk w1))"
    by (rule fs_Quarantine_run(1) [OF ok1 F again])
  have result: "(\<exists>e. result = Inl e) \<and> tables w' = t' \<and> disk w' = after_move ?l ?q (disk w1)"
    using assms(12) get out restored taken assms(8)
    by (auto simp: repo_RestoreDeletion_def supported_def restore_quarantined_def op_eval repo_clock_def w1_def on_disk_apply)
  moreover have "is_dir (disk w1) ?l" using again by (simp add: movable_def)
  ultimately show ?thesis
    using row after_move_entries(1,2) [OF places_parallel(1), of ?F ?rid ?rid "disk w1" "[]"] by (auto simp: is_dir_def)
qed

definition stranded_world :: repo_world where
  "stranded_world =
     small_world [False, False, True] [small_row 3 (Some 1) StateDeleting] [small_deletion 5 3 30]
       [small_quarantine 3]"

theorem failed_organization_read_strands_data_witness:
  "\<exists>e w'. repo_RestoreDeletion (repositories_of small_config) 5 stranded_world = (Inl e, w')
     \<and> (\<exists>r' \<in> set (repositories (tables w')). rr_id r' = 3 \<and> rr_state r' = StateActive)
     \<and> entries (disk w') (small_live 3) = None"
proof -
  obtain q w' where run: "repo_RestoreDeletion (repositories_of small_config) (dr_id (small_deletion 5 3 30)) stranded_world = (q, w')"
    by force
  have "movable (small_quarantine 3) (small_live 3) (small_disk [small_quarantine 3])"
    by (simp add: movable_def small_dir small_prefixes) (simp add: small_disk_def)
  moreover have "lifecycle_ok (tables stranded_world)"
    by (simp add: lifecycle_ok_def stranded_world_def)
  ultimately show ?thesis
    using failed_organization_read_strands_data
      [OF _ _ _ _ _ _ _ _ _ _ _ run, of "small_row 3 (Some 1) StateDeleting" 1] run
    by (auto simp: stranded_world_def small_installed small_disk_ok)
qed

end
