(* ===== verification/Git_Read.thy ===== *)
theory Git_Read imports Go_Parse Git_Safety begin

text \<open>
  \<^verbatim>\<open>internal/git/read.go\<close>: branches, tags, directory listings and blobs. What Git prints is
  parsed strictly: a listing that does not have the form asked for is an error, never a
  partial result.
\<close>

section \<open>Results\<close>

record branch =
  br_Name :: string
  br_SHA :: string
  br_Default :: bool

record tag =
  tag_Name :: string
  tag_SHA :: string
  tag_ObjectType :: string
  tag_PeeledSHA :: string
  tag_PeeledType :: string

record tree_entry =
  te_Mode :: string
  te_Type :: string
  te_SHA :: string
  te_Size :: int
  te_Name :: string
  te_Path :: string

record tree =
  tree_CommitSHA :: string
  tree_Path :: string
  tree_Entries :: "tree_entry list"

record blob_metadata =
  bm_SHA :: string
  bm_Type :: string
  bm_Size :: int

definition maxRevisionLength :: int where "maxRevisionLength = 1024"
definition maxTreePathLength :: int where "maxTreePathLength = 4096"
definition maxTreeOutput :: int where "maxTreeOutput = 32 * 1024 * 1024"
definition maxTreeEntries :: int where "maxTreeEntries = 100000"

section \<open>Validation\<close>

definition control_rune :: "nat \<Rightarrow> bool" where
  "control_rune r \<longleftrightarrow> r = 0 \<or> r < 32 \<or> r = 127"

definition validateRevision :: "string \<Rightarrow> err option" where
  "validateRevision revision =
     (if revision = [] \<or> int (length revision) > maxRevisionLength \<or> prefix ''-'' revision
         \<or> \<not> valid_string revision then Some (wrapf ''invalid revision'' (Sentinel git_ErrInvalidInput))
      else if list_ex control_rune (runes revision)
      then Some (wrapf ''invalid revision'' (Sentinel git_ErrInvalidInput))
      else None)"

definition unsafe_component :: "string \<Rightarrow> bool" where
  "unsafe_component c \<longleftrightarrow> c = [] \<or> c = ''.'' \<or> c = ''..'' \<or> list_ex control_rune (runes c)"

definition validateTreePath :: "string \<Rightarrow> err option" where
  "validateTreePath p =
     (if int (length p) > maxTreePathLength \<or> \<not> valid_string p \<or> prefix ''/'' p \<or> suffix ''/'' p
         \<or> contains p [CHR 0x5C] then Some (wrapf ''invalid tree path'' (Sentinel git_ErrInvalidInput))
      else if p = [] then None
      else if list_ex unsafe_component (split_on (CHR ''/'') p)
      then Some (wrapf ''invalid tree path'' (Sentinel git_ErrInvalidInput))
      else None)"

definition validateBlobSHA :: "string \<Rightarrow> err option" where
  "validateBlobSHA sha =
     (if length sha \<noteq> 40 \<and> length sha \<noteq> 64
      then Some (wrapf ''blob SHA must be a full 40- or 64-character object ID'' (Sentinel git_ErrInvalidInput))
      else if \<not> list_all lower_hex sha
      then Some (wrapf ''blob SHA must be lowercase hexadecimal'' (Sentinel git_ErrInvalidInput))
      else None)"

section \<open>Parsing\<close>

text \<open>\<open>bytes.Split\<close> at the terminator of a record, without the empty last part; nothing of empty output.\<close>

definition output_records :: "char \<Rightarrow> string \<Rightarrow> string list" where
  "output_records d s =
     (if s = [] then [] else let rs = split_on d s in if last rs = [] then butlast rs else rs)"

definition record_fields :: "nat \<Rightarrow> string \<Rightarrow> err + string list" where
  "record_fields count line =
     (let parts = split_on nul line
      in if length parts \<noteq> count then Inl (errorf ''unexpected field count'') else Inr parts)"

definition parseLineRecords :: "string \<Rightarrow> nat \<Rightarrow> err + string list list" where
  "parseLineRecords output count = traverse (record_fields count) (output_records newline output)"

definition parse_size :: "string \<Rightarrow> err + int" where
  "parse_size text =
     (if text = ''-'' then Inr (- 1)
      else case parse_int64 text of
             None \<Rightarrow> Inl (errorf ''invalid size'')
           | Some n \<Rightarrow> if n < 0 then Inl (errorf ''invalid size'') else Inr n)"

definition parse_tree_entry :: "string \<Rightarrow> string \<Rightarrow> err + tree_entry" where
  "parse_tree_entry parent r =
     (case index_byte (CHR 0x09) r of
        None \<Rightarrow> Inl (errorf ''missing entry name'')
      | Some tab \<Rightarrow>
          (case strings_Fields (take tab r) of
             [mode, otype, sha, size_text] \<Rightarrow>
               (let name = drop (tab + 1) r
                in if \<not> valid_string name
                   then Inl (wrapf ''invalid UTF-8 entry name'' (Sentinel git_ErrInvalidInput))
                   else if name = [] \<or> name = ''.'' \<or> name = ''..'' \<or> contains name ''/''
                   then Inl (wrapf ''invalid entry name'' (Sentinel git_ErrInvalidInput))
                   else if otype \<noteq> ''tree'' \<and> otype \<noteq> ''blob'' \<and> otype \<noteq> ''commit''
                   then Inl (wrapf ''entry type'' (Sentinel git_ErrUnsupportedObject))
                   else case parse_size size_text of
                          Inl e \<Rightarrow> Inl e
                        | Inr n \<Rightarrow> Inr \<lparr>te_Mode = mode, te_Type = otype, te_SHA = sha, te_Size = n,
                                      te_Name = name, te_Path = path_Join parent name\<rparr>)
           | _ \<Rightarrow> Inl (errorf ''unexpected header field count'')))"

text \<open>
  The order of a listing: directories first, then by the bytes of the names. \<open>sort.Slice\<close> leaves open in
  what order elements stand that compare equal; a Git tree has no two entries of one name.
\<close>

definition entry_less :: "tree_entry \<Rightarrow> tree_entry \<Rightarrow> bool" where
  "entry_less a b =
     (let left = (te_Type a = ''tree''); right = (te_Type b = ''tree'')
      in if left \<noteq> right then left else bytes_less (te_Name a) (te_Name b))"

definition parseTreeEntries :: "string \<Rightarrow> string \<Rightarrow> err + tree_entry list" where
  "parseTreeEntries output parent =
     (let records = output_records nul output
      in if int (length records) > maxTreeEntries then Inl (Sentinel git_ErrOutputLimit)
         else case traverse (parse_tree_entry parent) records of
                Inl e \<Rightarrow> Inl e
              | Inr entries \<Rightarrow> Inr (sort_by (\<lambda>a b. \<not> entry_less b a) entries))"

section \<open>Branches and tags\<close>

definition parse_branch :: "string \<Rightarrow> string list \<Rightarrow> err + branch" where
  "parse_branch defaultBranch parts =
     (if \<not> valid_string (parts ! 1) then Inl (errorf ''parse branches: invalid UTF-8 name'')
      else Inr \<lparr>br_Name = parts ! 1, br_SHA = parts ! 0, br_Default = (parts ! 1 = defaultBranch)\<rparr>)"

definition git_Branches :: "'w git_service \<Rightarrow> uuid \<Rightarrow> string \<Rightarrow> ('w, branch list) op" where
  "git_Branches S rid defaultBranch =
     call (git_repositoryPath S rid) (\<lambda>e. e) (\<lambda>p.
     call (git_runBounded S maxRefOutput
             [''--git-dir='' @ p, ''for-each-ref'', ''--format=%(objectname)%00%(refname:strip=2)'', ''refs/heads/''])
       (wrapf ''list branches'') (\<lambda>output.
     call (outcome (parseLineRecords output 2)) (wrapf ''parse branches'') (\<lambda>records.
     outcome (traverse (parse_branch defaultBranch) records))))"

definition parse_tag :: "string list \<Rightarrow> err + tag" where
  "parse_tag parts =
     (if \<not> valid_string (parts ! 4) then Inl (errorf ''parse tags: invalid UTF-8 name'')
      else let t = \<lparr>tag_Name = parts ! 4, tag_SHA = parts ! 0, tag_ObjectType = parts ! 1,
                    tag_PeeledSHA = parts ! 2, tag_PeeledType = parts ! 3\<rparr>
           in Inr (if tag_PeeledSHA t = []
                   then t\<lparr>tag_PeeledSHA := tag_SHA t, tag_PeeledType := tag_ObjectType t\<rparr> else t))"

definition git_Tags :: "'w git_service \<Rightarrow> uuid \<Rightarrow> ('w, tag list) op" where
  "git_Tags S rid =
     call (git_repositoryPath S rid) (\<lambda>e. e) (\<lambda>p.
     call (git_runBounded S maxRefOutput
             [''--git-dir='' @ p, ''for-each-ref'',
              ''--format=%(objectname)%00%(objecttype)%00%(*objectname)%00%(*objecttype)%00%(refname:strip=2)'',
              ''refs/tags/''])
       (wrapf ''list tags'') (\<lambda>output.
     call (outcome (parseLineRecords output 5)) (wrapf ''parse tags'') (\<lambda>records.
     outcome (traverse parse_tag records))))"

section \<open>Trees\<close>

text \<open>A revision that is no commit but some other object is told apart from one that does not exist.\<close>

definition resolve_tree_commit :: "'w git_service \<Rightarrow> string \<Rightarrow> string \<Rightarrow> ('w, string) op" where
  "resolve_tree_commit S p revision =
     attempt (git_resolve S p (revision @ ''^{commit}''))
       (\<lambda>e. if errors_is e git_ErrObjectNotFound
             then attempt (git_resolve S p (revision @ ''^{object}''))
                    (\<lambda>_. raise (wrapf ''resolve revision'' e))
                    (\<lambda>objectSHA.
                     call (git_objectProperty S p ''-t'' objectSHA) (wrapf ''inspect revision'') (\<lambda>objectType.
                     raise (wrapf ''revision type'' (Sentinel git_ErrUnsupportedObject))))
             else raise (wrapf ''resolve revision'' e))
       ret"

definition tree_listing :: "string \<Rightarrow> string \<Rightarrow> string list" where
  "tree_listing p treeSHA = [''--git-dir='' @ p, ''ls-tree'', ''-z'', ''-l'', ''--full-tree'', treeSHA, ''--'']"

definition git_Tree :: "'w git_service \<Rightarrow> uuid \<Rightarrow> string \<Rightarrow> string \<Rightarrow> ('w, tree) op" where
  "git_Tree S rid revision treePath =
     check (validateRevision revision) (\<lambda>e. e) (
     check (validateTreePath treePath) (\<lambda>e. e) (
     call (git_repositoryPath S rid) (\<lambda>e. e) (\<lambda>p.
     call (resolve_tree_commit S p revision) (\<lambda>e. e) (\<lambda>commitSHA.
     call (git_resolve S p (if treePath \<noteq> [] then commitSHA @ '':'' @ treePath else commitSHA @ ''^{tree}''))
       (wrapf ''resolve tree path'') (\<lambda>treeSHA.
     call (git_objectProperty S p ''-t'' treeSHA) (wrapf ''inspect tree path'') (\<lambda>objectType.
     fail_if (objectType \<noteq> ''tree'') (wrapf ''tree path type'' (Sentinel git_ErrUnsupportedObject)) (
     call (git_runBounded S maxTreeOutput (tree_listing p treeSHA)) (wrapf ''list tree'') (\<lambda>output.
     call (outcome (parseTreeEntries output treePath)) (wrapf ''parse tree'') (\<lambda>entries.
     ret \<lparr>tree_CommitSHA = commitSHA, tree_Path = treePath, tree_Entries = entries\<rparr>)))))))))"

section \<open>Blobs\<close>

definition git_blobMetadata :: "'w git_service \<Rightarrow> string \<Rightarrow> string \<Rightarrow> ('w, blob_metadata) op" where
  "git_blobMetadata S p sha =
     call (git_objectProperty S p ''-t'' sha) (wrapf ''inspect blob type'') (\<lambda>objectType.
     fail_if (objectType \<noteq> ''blob'') (wrapf ''object type'' (Sentinel git_ErrUnsupportedObject)) (
     call (git_objectProperty S p ''-s'' sha) (wrapf ''inspect blob size'') (\<lambda>sizeText.
     (case parse_int64 sizeText of
        None \<Rightarrow> raise (errorf ''parse blob size'')
      | Some n \<Rightarrow> if n < 0 then raise (errorf ''parse blob size'')
                  else ret \<lparr>bm_SHA = sha, bm_Type = objectType, bm_Size = n\<rparr>))))"

definition git_BlobMetadata :: "'w git_service \<Rightarrow> uuid \<Rightarrow> string \<Rightarrow> ('w, blob_metadata) op" where
  "git_BlobMetadata S rid sha =
     check (validateBlobSHA sha) (\<lambda>e. e) (
     call (git_repositoryPath S rid) (\<lambda>e. e) (\<lambda>p. git_blobMetadata S p sha))"

text \<open>
  \<open>StreamBlob\<close> writes what the process prints to the caller's writer, a \<open>Some\<close> unless it is nil; the
  pieces it accepted are counted, as 64-bit integers.
\<close>

definition countingWriter_Write :: "'c \<times> 64 word \<Rightarrow> ('c \<Rightarrow> string \<Rightarrow> 'c) \<Rightarrow> string \<Rightarrow> 'c \<times> 64 word" where
  "countingWriter_Write c write piece = (case c of (sink, written) \<Rightarrow> (write sink piece, written + of_nat (length piece)))"

definition stream_pieces :: "('c \<Rightarrow> string \<Rightarrow> 'c) \<Rightarrow> 'c \<Rightarrow> string list \<Rightarrow> 'c \<times> 64 word" where
  "stream_pieces write sink pieces = foldl (\<lambda>c piece. countingWriter_Write c write piece) (sink, 0) pieces"

definition git_StreamBlob ::
  "'w git_service \<Rightarrow> uuid \<Rightarrow> string \<Rightarrow> (('c \<Rightarrow> string \<Rightarrow> 'c) \<times> 'c) option \<Rightarrow> ('w, 'c) op" where
  "git_StreamBlob S rid sha output =
     check (validateBlobSHA sha) (\<lambda>e. e) (
     (case output of
        None \<Rightarrow> raise (wrapf ''output writer must not be nil'' (Sentinel git_ErrInvalidInput))
      | Some (write, sink) \<Rightarrow>
          call (git_repositoryPath S rid) (\<lambda>e. e) (\<lambda>p.
          call (git_blobMetadata S p sha) (\<lambda>e. e) (\<lambda>metadata.
          call (gs_exec S (command [''--git-dir='' @ p, ''cat-file'', ''blob'', sha])) (wrapf ''stream blob'') (\<lambda>pieces.
          fail_if (sint (snd (stream_pieces write sink pieces)) \<noteq> bm_Size metadata)
            (errorf ''stream blob: unexpected size'') (
          ret (fst (stream_pieces write sink pieces))))))))"

section \<open>What is parsed\<close>

lemma output_records_terminated:
  assumes "\<And>r. r \<in> set rs \<Longrightarrow> d \<notin> set r"
  shows "output_records d (concat (map (\<lambda>r. r @ [d]) rs)) = rs"
proof -
  have "split_on d (concat (map (\<lambda>r. r @ [d]) rs)) = rs @ [[]]"
    using assms by (induction rs) (simp_all add: split_on_cons)
  then show ?thesis by (auto simp: output_records_def Let_def)
qed

text \<open>The entries a listing may give: the type of object, a size that is unknown or not negative, a name
  that is one component of a path, and the path of the parent and the name.\<close>

definition entry_ok :: "string \<Rightarrow> tree_entry \<Rightarrow> bool" where
  "entry_ok parent e \<longleftrightarrow>
     te_Type e \<in> set [''tree'', ''blob'', ''commit''] \<and> (te_Size e = - 1 \<or> 0 \<le> te_Size e \<and> te_Size e < 2 ^ 63)
     \<and> plain_element (te_Name e) \<and> CHR ''/'' \<notin> set (te_Name e) \<and> valid_string (te_Name e)
     \<and> te_Path e = (if parent = [] then te_Name e else parent @ CHR ''/'' # te_Name e)"

definition safe_parent :: "string \<Rightarrow> bool" where
  "safe_parent p \<longleftrightarrow> p = [] \<or> list_all plain_element (split_on (CHR ''/'') p)"

lemma validateTreePath_safe: "validateTreePath p = None \<Longrightarrow> safe_parent p"
  by (auto simp: validateTreePath_def safe_parent_def list_ex_iff list_all_iff plain_element_def
      unsafe_component_def split: if_splits)

lemma parse_size_ok: "parse_size s = Inr n \<Longrightarrow> n = - 1 \<or> 0 \<le> n \<and> n < 2 ^ 63"
  by (auto simp: parse_size_def dest: parse_int64_bounds split: if_splits option.splits)

lemma parse_tree_entry_ok:
  assumes "parse_tree_entry parent r = Inr e" and "safe_parent parent"
  shows "entry_ok parent e"
proof -
  from assms(1) obtain tab where tab: "index_byte (CHR 0x09) r = Some tab"
    by (auto simp: parse_tree_entry_def split: option.splits)
  define name where "name = drop (tab + 1) r"
  from assms(1) obtain mode otype sha size_text where header: "strings_Fields (take tab r) = [mode, otype, sha, size_text]"
    by (auto simp: parse_tree_entry_def tab split: list.splits)
  from assms(1) obtain n where "parse_size size_text = Inr n"
    and e: "e = \<lparr>te_Mode = mode, te_Type = otype, te_SHA = sha, te_Size = n, te_Name = name,
             te_Path = path_Join parent name\<rparr>"
    and name: "plain_element name" "CHR ''/'' \<notin> set name" "valid_string name"
    and "otype = ''tree'' \<or> otype = ''blob'' \<or> otype = ''commit''"
    unfolding parse_tree_entry_def tab option.case header list.case Let_def name_def [symmetric]
    by (auto simp: contains_char plain_element_def split: if_splits sum.splits)
  moreover have "path_Join parent name = (if parent = [] then name else parent @ CHR ''/'' # name)"
    using assms(2) name by (intro path_Join_plain) (simp_all add: safe_parent_def)
  ultimately show ?thesis
    using parse_size_ok by (auto simp: entry_ok_def)
qed

lemma entry_order: "sorted_wrt (\<lambda>a b. \<not> entry_less b a) (sort_by (\<lambda>a b. \<not> entry_less b a) es)"
proof (rule sorted_sort_by)
  show "\<not> entry_less b a \<or> \<not> entry_less a b" for a b
    using bytes_less_total [of "te_Name a" "te_Name b"] by (auto simp: entry_less_def Let_def)
  show "\<not> entry_less c a" if "\<not> entry_less b a" "\<not> entry_less c b" for a b c
    using that bytes_less_trans [of "te_Name b" "te_Name a" "te_Name c"]
    by (auto simp: entry_less_def Let_def split: if_splits)
qed

lemma parseTreeEntries_ok:
  assumes "parseTreeEntries output parent = Inr entries" and "safe_parent parent"
  shows "list_all (entry_ok parent) entries" and "sorted_wrt (\<lambda>a b. \<not> entry_less b a) entries"
    and "int (length entries) \<le> maxTreeEntries"
proof -
  obtain es where es: "list_all2 (\<lambda>r e. parse_tree_entry parent r = Inr e) (output_records nul output) es"
    "entries = sort_by (\<lambda>a b. \<not> entry_less b a) es" "int (length (output_records nul output)) \<le> maxTreeEntries"
    using assms(1) by (auto simp: parseTreeEntries_def Let_def traverse_Inr_iff split: if_splits sum.splits)
  have "\<forall>e \<in> set es. entry_ok parent e"
    using es(1) parse_tree_entry_ok [OF _ assms(2)] by (fastforce simp: list_all2_conv_all_nth in_set_conv_nth)
  then show "list_all (entry_ok parent) entries" by (simp add: es(2) list_all_iff)
  show "sorted_wrt (\<lambda>a b. \<not> entry_less b a) entries" by (simp add: es(2) entry_order)
  show "int (length entries) \<le> maxTreeEntries" using es by (simp add: list_all2_lengthD)
qed

end
