(* ===== verification/Git_Listings.thy ===== *)
theory Git_Listings
  imports Git_Safety Git_Read "HOL-Library.Multiset"
begin

text \<open>
  Properties of the Git service, and a small Git to see them at work: one that keeps the
  references of repositories and computes the same commit for every merge.
\<close>

section \<open>A small Git\<close>

definition toy_sha :: "char \<Rightarrow> string" where "toy_sha c = replicate 40 c"

definition toy_line :: "string \<Rightarrow> string list" where "toy_line s = [take 3 s, drop 3 s, [newline]]"

definition toy_exec :: "git_command \<Rightarrow> (refs, string list) op" where
  "toy_exec c f =
     (let args = gc_args c; operation = commandOperation args; p = drop 10 (hd args);
          revision = take (length (last args) - 9) (last args)
      in if operation = ''update-ref'' then
           (if f p (args ! 3) = Some (args ! 5) then (Inr [], set_ref p (args ! 3) (args ! 4) f)
            else (Inl (Command_Error 128), f))
         else if operation \<noteq> ''rev-parse'' then (Inr (toy_line (toy_sha (CHR ''d''))), f)
         else if last args = ''--show-object-format'' then (Inr (toy_line ''sha1''), f)
         else if prefix ''refs/'' revision then
           (case f p revision of None \<Rightarrow> (Inl (Command_Error 128), f) | Some sha \<Rightarrow> (Inr (toy_line sha), f))
         else (Inr (toy_line revision), f))"

definition toy_git :: "refs git_service" where
  "toy_git =
     \<lparr>gs_exec = toy_exec, gs_ctx_Err = ret (), gs_Prepare = (\<lambda>_. ret ''/repo''), gs_Path = (\<lambda>_. ret ''/repo''),
      gs_lifecycle = None,
      gs_temporary = \<lparr>tf_MkdirTemp = ret ''/tmp/m'', tf_Mkdir = (\<lambda>_. ret ()), tf_WriteFile = (\<lambda>_ _. ret ()),
                      tf_RemoveAll = (\<lambda>_. ret ())\<rparr>,
      gs_beforeMergeCAS = None\<rparr>"

definition toy_identity :: merge_identity where
  "toy_identity = \<lparr>mi_Name = ''A'', mi_Email = ''a'', mi_Time = 63000000000000000000, mi_offset = 0\<rparr>"

definition toy_request :: merge_request where
  "toy_request =
     \<lparr>mr_TargetBranch = ''main'', mr_ExpectedTargetSHA = toy_sha (CHR ''1''), mr_HeadSHA = toy_sha (CHR ''2''),
      mr_Strategy = MergeCommit, mr_Message = ''m'', mr_Author = toy_identity, mr_Committer = toy_identity\<rparr>"

definition toy_refs :: refs where
  "toy_refs = (\<lambda>p r. if p = ''/repo'' \<and> r = ''refs/heads/main'' then Some (toy_sha (CHR ''1'')) else None)"

lemma toy_git_ok: "git_refs_ok id toy_git"
proof -
  have "frames id (toy_exec c)" if "reads_only c" for c
    using that by (auto simp: frames_def toy_exec_def Let_def reads_only_def split: option.split)
  moreover have "commandOperation (gc_args (update_ref p r new old)) = ''update-ref''" for p r new old
    by (simp add: update_ref_def known_operations_def)
  ultimately show ?thesis
    by (auto simp: git_refs_ok_def merge_surroundings_def toy_git_def toy_exec_def update_ref_def Let_def op_frames
        simp del: commandOperation.simps split: prod.splits sum.splits if_splits)
qed

lemma toy_git_simps [simp]:
  "gs_exec toy_git = toy_exec" "gs_ctx_Err toy_git = ret ()" "gs_Path toy_git i = ret ''/repo''"
  "tf_MkdirTemp (gs_temporary toy_git) = ret ''/tmp/m''" "tf_Mkdir (gs_temporary toy_git) d = ret ()"
  "tf_WriteFile (gs_temporary toy_git) d s = ret ()" "tf_RemoveAll (gs_temporary toy_git) d = ret ()"
  "gs_beforeMergeCAS toy_git = None"
  by (simp_all add: toy_git_def)

lemma toy_request_valid: "validateMergeRequest toy_request = None"
  by code_simp

lemma toy_shas: "validateMergeSHA (toy_sha (CHR ''1'')) 40 = None" "validateMergeSHA (toy_sha (CHR ''2'')) 40 = None"
  "validateMergeSHA (toy_sha (CHR ''d'')) 40 = None"
  by code_simp+

lemma toy_output:
  "length s \<le> 40 \<Longrightarrow> bounded_output maxMetadataOutput (toy_line s) = \<lparr>lb_buffer = s @ [newline], lb_limit = 4096, lb_truncated = False\<rparr>"
  using limitedBuffer_collects [of 4096 "toy_line s"]
  by (simp add: bounded_output_def maxMetadataOutput_def toy_line_def)

lemma toy_single_line: "c \<noteq> newline \<Longrightarrow> singleLine (toy_sha c @ [newline]) = Inr (toy_sha c)"
  by (simp add: singleLine_roundtrip toy_sha_def)

lemma toy_format_line: "singleLine (''sha1'' @ [newline]) = Inr ''sha1''"
  by (rule singleLine_roundtrip) simp_all

lemma toy_sha_not_ref: "c \<noteq> CHR ''r'' \<Longrightarrow> \<not> prefix ''refs/'' (toy_sha c)"
  by (auto simp: toy_sha_def prefix_def numeral_eq_Suc)

lemma length_toy_sha [simp]: "length (toy_sha c) = 40"
  by (simp add: toy_sha_def)

lemmas toy_steps = toy_exec_def Let_def known_operations_def git_runBounded_def object_query_def
  isolated_command_def op_eval toy_output toy_single_line toy_shas parse_sha_def

lemma toy_format: "git_objectFormat toy_git p f = (Inr (''sha1'', 40), f)"
  by (simp add: git_objectFormat_def toy_steps toy_format_line [simplified])

lemma toy_resolve:
  "prefix ''refs/'' r \<Longrightarrow> f p r = Some (toy_sha c) \<Longrightarrow> c \<noteq> newline \<Longrightarrow> resolveMergeCommit toy_git p r f = (Inr (toy_sha c), f)"
  "c \<noteq> newline \<Longrightarrow> c \<noteq> CHR ''r'' \<Longrightarrow> resolveMergeCommit toy_git p (toy_sha c) f = (Inr (toy_sha c), f)"
  by (simp_all add: resolveMergeCommit_def git_resolve_def toy_steps toy_sha_not_ref)

lemma toy_isolated: "isolatedBareRepository toy_git format f = (Inr ''/tmp/m'', f)"
  by (simp add: isolatedBareRepository_def toy_steps)

lemma toy_commit:
  "create_commit toy_git r objects d 40 a b f = (Inr (toy_sha (CHR ''d''), toy_sha (CHR ''d'')), f)"
  by (simp add: create_commit_def hardenedMergeArgs_def toy_steps)

lemma toy_merges:
  "case fst (git_Merge toy_git 1 toy_request toy_refs) of Inl _ \<Rightarrow> False | Inr m \<Rightarrow> res_NewSHA m = toy_sha (CHR ''d'')"
  by (simp add: git_Merge_def toy_request_valid merge_isolated_def toy_format toy_isolated toy_commit op_eval
      git_repositoryPath_def before_cas_def advance_target_def git_run_def git_runWithEnv_def update_ref_def)
    (simp add: toy_request_def toy_resolve toy_format toy_isolated toy_refs_def branch_ref_def toy_shas op_eval
      toy_commit toy_exec_def known_operations_def Let_def)

section \<open>Merging\<close>

text \<open>
  C22. A merge is a compare-and-swap of its target branch, whatever Git answers and
  whatever runs beside it just before the swap: a merge that returns a result found the
  branch at the expected commit and moved it, and nothing else, to the commit it
  reports; a merge that returns an error moved no reference itself.
\<close>

theorem merge_is_compare_and_swap:
  assumes "git_refs_ok v S" and "fst (gs_Path S rid w) = Inr p" and "git_Merge S rid r w = (result, w')"
  shows "case result of
      Inl _ \<Rightarrow> v w' = v w \<or> (\<exists>u. v u = v w \<and> v w' = v (hook_world S u))
    | Inr m \<Rightarrow> \<exists>u. v u = v w
        \<and> v (hook_world S u) p (branch_ref (mr_TargetBranch r)) = Some (mr_ExpectedTargetSHA r)
        \<and> v w' = set_ref p (branch_ref (mr_TargetBranch r)) (res_NewSHA m) (v (hook_world S u))"
  using git_Merge_end [OF assms(1,2), of r] assms(3) by (simp add: merge_end_def Let_def)

theorem merge_is_compare_and_swap_witness:
  "\<exists>f. snd (git_Merge toy_git 1 toy_request toy_refs) = f
     \<and> f = set_ref ''/repo'' (branch_ref ''main'') (toy_sha (CHR ''d'')) toy_refs"
proof -
  obtain m f where run: "git_Merge toy_git 1 toy_request toy_refs = (Inr m, f)" "res_NewSHA m = toy_sha (CHR ''d'')"
    using toy_merges by (cases "git_Merge toy_git 1 toy_request toy_refs") (auto split: sum.splits)
  have "fst (gs_Path toy_git 1 toy_refs) = Inr ''/repo''" by (simp add: toy_git_def ret_def)
  from merge_is_compare_and_swap [OF toy_git_ok this run(1)] run show ?thesis
    by (auto simp: hook_world_def toy_git_def toy_request_def)
qed

section \<open>Output\<close>

text \<open>
  C40. However Git's output arrives in pieces, a bounded command returns all of it where
  it fits the bound and the limit error where it does not, and never a part of it.
\<close>

theorem bounded_output_is_all_or_nothing:
  assumes "gs_exec S (command args) w = (Inr chunks, w')" and "0 \<le> limit"
  shows "git_runBounded S limit args w =
     (if int (length (concat chunks)) \<le> limit then Inr (concat chunks) else Inl (Sentinel git_ErrOutputLimit), w')"
  using assms by (simp add: git_runBounded_def op_eval bounded_output_def limitedBuffer_collects)

theorem bounded_output_is_all_or_nothing_witness:
  "git_runBounded toy_git 4 [''rev-parse'', ''--show-object-format''] toy_refs = (Inl (Sentinel git_ErrOutputLimit), toy_refs)
   \<and> git_runBounded toy_git 5 [''rev-parse'', ''--show-object-format''] toy_refs = (Inr (''sha1'' @ [newline]), toy_refs)"
proof -
  have "gs_exec toy_git (command [''rev-parse'', ''--show-object-format'']) toy_refs = (Inr [''sha'', ''1'', [newline]], toy_refs)"
    by (simp add: toy_git_def toy_exec_def known_operations_def toy_line_def)
  from bounded_output_is_all_or_nothing [OF this] show ?thesis by simp
qed

text \<open>
  The references a repository has are the references the service lists: what Git
  prints of them, in whatever pieces, is read back as it was, where their names hold no
  control characters (which Git refuses) and the listing fits the bound.
\<close>

theorem refs_round_trip:
  assumes "gs_Path S rid w = (Inr path, u)"
    and "gs_exec S (command [''--git-dir='' @ path, ''for-each-ref'',
           ''--format=%(objectname)%00%(refname)%00%(objecttype)'']) u = (Inr chunks, w')"
    and "concat chunks = concat (map (\<lambda>r. ref_line r @ [newline]) refs)"
    and "\<forall>r \<in> set refs. printable_ref r" and "int (length (concat chunks)) \<le> maxRefOutput"
  shows "git_Refs S rid w = (Inr refs, w')"
  using assms parse_refs_roundtrip [of refs]
  by (simp add: git_Refs_def git_runBounded_def op_eval bounded_output_def limitedBuffer_collects maxRefOutput_def)

definition example_ref :: git_ref where
  "example_ref = \<lparr>ref_SHA = ''ab'', ref_Name = ''refs/heads/main'', ref_Type = ''commit''\<rparr>"

theorem refs_round_trip_witness:
  "git_Refs (toy_git\<lparr>gs_exec := \<lambda>_. ret [ref_line example_ref, newline # ref_line example_ref, [newline]]\<rparr>) 1 toy_refs
     = (Inr [example_ref, example_ref], toy_refs)"
  by (rule refs_round_trip [where path = "''/repo''" and u = toy_refs])
     (auto simp: toy_git_def ret_def example_ref_def ref_line_def printable_ref_def scan_limit_def maxRefOutput_def)

text \<open>
  Properties of the directory listings: their entries are well formed and in order, and no entry of
  what Git prints is lost, invented or changed.
\<close>

section \<open>What Git prints of an entry\<close>

text \<open>\<open>ls-tree -l\<close> prints sizes right-aligned in seven columns, and a dash where there is none.\<close>

definition size_text :: "tree_entry \<Rightarrow> string" where
  "size_text e = (if te_Size e = - 1 then ''-'' else decimal (te_Size e))"

definition padded :: "string \<Rightarrow> string" where
  "padded s = replicate (7 - length s) (CHR 0x20) @ s"

definition ls_tree_line :: "tree_entry \<Rightarrow> string" where
  "ls_tree_line e =
     te_Mode e @ CHR 0x20 # te_Type e @ CHR 0x20 # te_SHA e @ CHR 0x20 # padded (size_text e) @ CHR 0x09 # te_Name e"

definition printable_entry :: "string \<Rightarrow> tree_entry \<Rightarrow> bool" where
  "printable_entry parent e \<longleftrightarrow>
     entry_ok parent e \<and> te_Mode e \<noteq> [] \<and> te_SHA e \<noteq> [] \<and> list_all visible (te_Mode e @ te_SHA e)
     \<and> nul \<notin> set (te_Name e)"

lemma digit_visible: "is_digit c \<Longrightarrow> visible c"
  by (simp add: is_digit_def visible_def in_range_def)

lemma size_text_visible: "- 1 \<le> te_Size e \<Longrightarrow> list_all visible (size_text e) \<and> size_text e \<noteq> []"
  using digits_are_digits [of "nat (te_Size e)"]
  by (auto simp: size_text_def decimal_def list_all_iff digit_visible) (simp add: visible_def in_range_def)

lemma parse_size_text: "te_Size e = - 1 \<or> 0 \<le> te_Size e \<and> te_Size e < 2 ^ 63 \<Longrightarrow> parse_size (size_text e) = Inr (te_Size e)"
  using digits_are_digits [of "nat (te_Size e)"] digits_no_sign(1) [of "nat (te_Size e)"]
  by (auto simp: parse_size_def size_text_def parse_int64_decimal) (simp add: decimal_def)

lemma header_fields:
  assumes "list_all visible m" "list_all visible t" "list_all visible s" "list_all visible z"
    and "m \<noteq> []" "t \<noteq> []" "s \<noteq> []" "z \<noteq> []"
  shows "strings_Fields (m @ CHR 0x20 # t @ CHR 0x20 # s @ CHR 0x20 # replicate n (CHR 0x20) @ z) = [m, t, s, z]"
proof -
  have word: "fields_from [] (w @ CHR 0x20 # rest) = w # fields_from [] rest" if "list_all visible w" "w \<noteq> []" for w rest
    using that by (simp add: fields_word fields_end del: fields_from.simps)
  have "fields_from [] z = [z]"
    using fields_word [OF assms(4), of "[]" "[]"] assms(8) by simp
  then show ?thesis
    using assms by (simp add: strings_Fields_def word fields_blank del: fields_from.simps)
qed

lemma not_visible_tab: "list_all visible s \<Longrightarrow> CHR 0x09 \<notin> set s" "list_all visible s \<Longrightarrow> nul \<notin> set s"
  by (auto simp: list_all_iff dest: visible_facts)

lemma type_visible: "entry_ok parent e \<Longrightarrow> list_all visible (te_Type e) \<and> te_Type e \<noteq> []"
  by (auto simp: entry_ok_def visible_def in_range_def)

lemma parse_ls_tree_line:
  assumes e: "printable_entry parent e" and "safe_parent parent"
  shows "parse_tree_entry parent (ls_tree_line e) = Inr e" and "nul \<notin> set (ls_tree_line e)"
proof -
  define z where "z = size_text e"
  define head where "head = te_Mode e @ CHR 0x20 # te_Type e @ CHR 0x20 # te_SHA e @ CHR 0x20 # padded z"
  have ok: "entry_ok parent e" "list_all visible (te_Mode e)" "list_all visible (te_SHA e)" "te_Mode e \<noteq> []" "te_SHA e \<noteq> []"
    and size: "te_Size e = - 1 \<or> 0 \<le> te_Size e \<and> te_Size e < 2 ^ 63"
    and name: "nul \<notin> set (te_Name e)" "plain_element (te_Name e)" "CHR ''/'' \<notin> set (te_Name e)" "valid_string (te_Name e)"
    using e by (auto simp: printable_entry_def entry_ok_def)
  have z: "list_all visible z" "z \<noteq> []" using size_text_visible [of e] size by (auto simp: z_def)
  have line: "ls_tree_line e = head @ CHR 0x09 # te_Name e" by (simp add: ls_tree_line_def head_def z_def)
  have fields: "strings_Fields head = [te_Mode e, te_Type e, te_SHA e, z]"
    unfolding head_def padded_def using ok z type_visible [OF ok(1)] by (intro header_fields) auto
  note plain = not_visible_tab [OF ok(2)] not_visible_tab [OF ok(3)] not_visible_tab [OF z(1)]
    not_visible_tab [OF conjunct1 [OF type_visible [OF ok(1)]]]
  then have "CHR 0x09 \<notin> set head" "nul \<notin> set head" by (auto simp: head_def padded_def)
  then show "nul \<notin> set (ls_tree_line e)" using name(1) by (simp add: line)
  have tab: "index_byte (CHR 0x09) (ls_tree_line e) = Some (length head)"
    using \<open>CHR 0x09 \<notin> set head\<close> by (simp add: line index_byte_first)
  have path: "path_Join parent (te_Name e) = te_Path e"
    using path_Join_plain [of parent "te_Name e"] assms(2) name ok(1) by (simp add: safe_parent_def entry_ok_def)
  have parts: "take (length head) (ls_tree_line e) = head" "drop (length head + 1) (ls_tree_line e) = te_Name e"
    by (simp_all add: line)
  have sum: "parse_size z = Inr (te_Size e)" unfolding z_def by (rule parse_size_text [OF size])
  have "te_Type e = ''tree'' \<or> te_Type e = ''blob'' \<or> te_Type e = ''commit''" using ok(1) by (auto simp: entry_ok_def)
  then show "parse_tree_entry parent (ls_tree_line e) = Inr e"
    unfolding parse_tree_entry_def tab option.case parts fields list.case Let_def sum path
    using name by (auto simp: contains_char plain_element_def)
qed

lemma mset_sort_by: "mset (sort_by le xs) = mset xs"
proof -
  have "mset (insert_by le x ys) = add_mset x (mset ys)" for x ys
    by (induction ys) auto
  then show ?thesis by (induction xs) simp_all
qed

section \<open>Properties\<close>

text \<open>
  Every directory listing is well formed, whatever Git prints: at most a hundred thousand
  entries, each a tree, a blob or a commit with a size that is unknown or not negative, a
  valid name that is a single component, and the path of that name under the directory;
  directories come first, and each group is in the order of its names.
\<close>

theorem tree_entries_are_well_formed:
  assumes "git_Tree S rid revision treePath w = (Inr t, w')"
  shows "tree_Path t = treePath \<and> validateTreePath treePath = None
     \<and> list_all (entry_ok treePath) (tree_Entries t)
     \<and> sorted_wrt (\<lambda>a b. \<not> entry_less b a) (tree_Entries t)
     \<and> int (length (tree_Entries t)) \<le> maxTreeEntries"
  using assms parseTreeEntries_ok [OF _ validateTreePath_safe]
  by (auto simp: git_Tree_def op_ok)

definition readme_entry :: tree_entry where
  "readme_entry = \<lparr>te_Mode = ''100644'', te_Type = ''blob'', te_SHA = toy_sha (CHR ''4''), te_Size = 12,
                   te_Name = ''README'', te_Path = ''docs/README''\<rparr>"

definition images_entry :: tree_entry where
  "images_entry = \<lparr>te_Mode = ''040000'', te_Type = ''tree'', te_SHA = toy_sha (CHR ''5''), te_Size = - 1,
                   te_Name = ''images'', te_Path = ''docs/images''\<rparr>"

lemma example_entries: "printable_entry ''docs'' readme_entry" "printable_entry ''docs'' images_entry" "safe_parent ''docs''"
  by code_simp+

definition listing_exec :: "git_command \<Rightarrow> (refs, string list) op" where
  "listing_exec c f =
     (let operation = commandOperation (gc_args c)
      in if operation = ''ls-tree'' then (Inr [ls_tree_line readme_entry @ [nul], ls_tree_line images_entry, [nul]], f)
         else if operation = ''cat-file'' then (Inr [''tree'', [newline]], f)
         else (Inr [toy_sha (CHR ''1''), [newline]], f))"

text \<open>
  No entry of a directory is lost, invented or changed: what Git prints of a list of entries, in
  any order and with any names Git allows (spaces, tabs and line ends included), is
  read back as the same entries.
\<close>

theorem tree_listing_round_trip:
  assumes "safe_parent parent" and "\<forall>e \<in> set es. printable_entry parent e" and "int (length es) \<le> maxTreeEntries"
  shows "\<exists>entries. parseTreeEntries (concat (map (\<lambda>e. ls_tree_line e @ [nul]) es)) parent = Inr entries
     \<and> mset entries = mset es"
proof -
  note line = parse_ls_tree_line [OF bspec [OF assms(2)] assms(1)]
  have "output_records nul (concat (map (\<lambda>r. r @ [nul]) (map ls_tree_line es))) = map ls_tree_line es"
    by (rule output_records_terminated) (use line(2) in auto)
  then have "output_records nul (concat (map (\<lambda>e. ls_tree_line e @ [nul]) es)) = map ls_tree_line es"
    by (simp add: comp_def)
  moreover have "traverse (parse_tree_entry parent) (map ls_tree_line es) = Inr es"
    by (rule traverse_map) (rule line(1))
  ultimately show ?thesis
    using assms(3) by (simp add: parseTreeEntries_def mset_sort_by)
qed

theorem tree_listing_round_trip_witness:
  "\<exists>entries. parseTreeEntries (concat (map (\<lambda>e. ls_tree_line e @ [nul]) [readme_entry, images_entry])) ''docs'' = Inr entries
     \<and> mset entries = {#readme_entry, images_entry#}"
  using tree_listing_round_trip [of "''docs''" "[readme_entry, images_entry]"] example_entries
  by (simp add: maxTreeEntries_def)

lemma listing_runs:
  "git_Tree (toy_git\<lparr>gs_exec := listing_exec\<rparr>) 1 ''main'' ''docs'' toy_refs
     = (Inr \<lparr>tree_CommitSHA = toy_sha (CHR ''1''), tree_Path = ''docs'', tree_Entries = [images_entry, readme_entry]\<rparr>, toy_refs)"
proof -
  have valid: "validateRevision ''main'' = None" "validateTreePath ''docs'' = None" by code_simp+
  have out: "bounded_output maxMetadataOutput [''tree'', [newline]] = \<lparr>lb_buffer = ''tree'' @ [newline], lb_limit = 4096, lb_truncated = False\<rparr>"
    "bounded_output maxMetadataOutput [toy_sha (CHR ''1''), [newline]]
       = \<lparr>lb_buffer = toy_sha (CHR ''1'') @ [newline], lb_limit = 4096, lb_truncated = False\<rparr>"
    "bounded_output maxTreeOutput [ls_tree_line readme_entry @ [nul], ls_tree_line images_entry, [nul]]
       = \<lparr>lb_buffer = ls_tree_line readme_entry @ nul # ls_tree_line images_entry @ [nul], lb_limit = 33554432, lb_truncated = False\<rparr>"
    by code_simp+
  have parsed: "parseTreeEntries (ls_tree_line readme_entry @ nul # ls_tree_line images_entry @ [nul]) ''docs''
      = Inr [images_entry, readme_entry]"
    by code_simp
  have tree: "singleLine (''tree'' @ [newline]) = Inr ''tree''" by (rule singleLine_roundtrip) simp_all
  show ?thesis
    by (simp add: git_Tree_def valid op_eval git_repositoryPath_def resolve_tree_commit_def git_resolve_def
        git_objectProperty_def object_query_def git_runBounded_def listing_exec_def known_operations_def tree_listing_def
        Let_def out toy_single_line tree [simplified] parsed)
qed

theorem tree_entries_are_well_formed_witness:
  "list_all (entry_ok ''docs'') [images_entry, readme_entry]
   \<and> sorted_wrt (\<lambda>a b. \<not> entry_less b a) [images_entry, readme_entry]"
  using tree_entries_are_well_formed [OF listing_runs] by simp

end
