(* ===== verification/Git_Address.thy ===== *)
theory Git_Address imports Go_Net begin

text \<open>
  The address policy of \<^verbatim>\<open>internal/git/remote.go\<close>: which addresses a remote fetch may connect to,
  and what the prefixes of the policy mean as ranges of addresses.
\<close>

section \<open>The policy\<close>

text \<open>\<open>netip.MustParsePrefix\<close> panics where this gives no prefix.\<close>

definition parse_prefix :: "string \<Rightarrow> (ip_addr \<times> nat) option" where
  "parse_prefix s =
     (case last_index_byte (CHR ''/'') s of
        None \<Rightarrow> None
      | Some i \<Rightarrow>
          (case (ParseAddr (take i s), parse_digits (drop (i + 1) s)) of
             (Some (V4 a), Some n) \<Rightarrow> if n \<le> 32 then Some (V4 a, n) else None
           | (Some (V6 a), Some n) \<Rightarrow> if n \<le> 128 then Some (V6 a, n) else None
           | _ \<Rightarrow> None))"

definition prohibited_values :: "string list" where
  "prohibited_values =
     [''0.0.0.0/8'', ''100.64.0.0/10'', ''192.0.0.0/24'', ''192.0.2.0/24'', ''192.88.99.0/24'', ''192.175.48.0/24'',
      ''198.18.0.0/15'', ''198.51.100.0/24'', ''203.0.113.0/24'', ''240.0.0.0/4'', ''64:ff9b::/96'',
      ''64:ff9b:1::/48'', ''100::/64'', ''2001::/23'', ''2001:db8::/32'', ''2002::/16'', ''2620:4f:8000::/48'',
      ''3fff::/20'', ''5f00::/16'']"

definition prohibitedPrefixes :: "(ip_addr \<times> nat) list" where
  "prohibitedPrefixes = map (\<lambda>s. the (parse_prefix s)) prohibited_values"

definition isPublicIP :: "net_ip \<Rightarrow> bool" where
  "isPublicIP ip =
     (case AddrFromSlice ip of
        None \<Rightarrow> False
      | Some address0 \<Rightarrow>
          let address = addr_Unmap address0
          in if \<not> addr_IsGlobalUnicast address \<or> addr_IsPrivate address \<or> addr_IsLoopback address
                \<or> addr_IsLinkLocalUnicast address \<or> addr_IsLinkLocalMulticast address \<or> addr_IsMulticast address
                \<or> addr_IsUnspecified address then False
             else \<not> list_ex (\<lambda>p. in_prefix p address) prohibitedPrefixes)"

text \<open>Every value of the table is a prefix, so nothing panics.\<close>

lemma prohibited_values_parse: "list_all (\<lambda>s. parse_prefix s \<noteq> None) prohibited_values"
  by code_simp

lemma prohibited_table [code_unfold]:
  "prohibitedPrefixes =
     [(V4 0x00000000, 8), (V4 0x64400000, 10), (V4 0xC0000000, 24), (V4 0xC0000200, 24), (V4 0xC0586300, 24),
      (V4 0xC0AF3000, 24), (V4 0xC6120000, 15), (V4 0xC6336400, 24), (V4 0xCB007100, 24), (V4 0xF0000000, 4),
      (V6 0x0064FF9B000000000000000000000000, 96), (V6 0x0064FF9B000100000000000000000000, 48),
      (V6 0x01000000000000000000000000000000, 64), (V6 0x20010000000000000000000000000000, 23),
      (V6 0x20010DB8000000000000000000000000, 32), (V6 0x20020000000000000000000000000000, 16),
      (V6 0x2620004F800000000000000000000000, 48), (V6 0x3FFF0000000000000000000000000000, 20),
      (V6 0x5F000000000000000000000000000000, 16)]"
  by code_simp

section \<open>Prefixes as ranges\<close>

lemma v4_prefix_range:
  assumes "n \<le> 32" and "unat p mod 2 ^ (32 - n) = 0"
  shows "in_prefix (V4 p, n) (V4 a) \<longleftrightarrow> unat p \<le> unat a \<and> unat a < unat p + 2 ^ (32 - n)"
proof -
  let ?m = "2 ^ (32 - n) :: nat"
  have "unat (drop_bit k x) = unat x div 2 ^ k" for k and x :: "32 word"
    by (subst unat_drop_bit_eq) (simp only: drop_bit_eq_div)
  then have "in_prefix (V4 p, n) (V4 a) \<longleftrightarrow> unat p div ?m = unat a div ?m"
    by (simp only: in_prefix.simps word_unat_eq_iff)
  also have "\<dots> \<longleftrightarrow> unat p \<le> unat a \<and> unat a < unat p + ?m"
  proof -
    obtain k where p: "unat p = k * ?m" using assms(2) by (auto simp: mod_eq_0_iff_dvd dvd_def mult.commute)
    have "k = unat a div ?m \<longleftrightarrow> k * ?m \<le> unat a \<and> unat a < k * ?m + ?m"
      by (metis add.commute div_nat_eqI dividend_less_div_times less_exp mult.commute mult_Suc
          mult_Suc_right nat_zero_less_power_iff times_div_less_eq_dividend zero_less_numeral)
    then show ?thesis by (simp add: p)
  qed
  finally show ?thesis .
qed

text \<open>The ranges of addresses of 32 bits a fetch may not connect to, lowest first, as the first address and the first one above.\<close>

definition reserved_v4 :: "(nat \<times> nat) list" where
  "reserved_v4 =
     [(0x00000000, 0x01000000), (0x0A000000, 0x0B000000), (0x64400000, 0x64800000), (0x7F000000, 0x80000000),
      (0xA9FE0000, 0xA9FF0000), (0xAC100000, 0xAC200000), (0xC0000000, 0xC0000100), (0xC0000200, 0xC0000300),
      (0xC0586300, 0xC0586400), (0xC0A80000, 0xC0A90000), (0xC0AF3000, 0xC0AF3100), (0xC6120000, 0xC6140000),
      (0xC6336400, 0xC6336500), (0xCB007100, 0xCB007200), (0xE0000000, 0x100000000)]"

definition outside :: "(nat \<times> nat) list \<Rightarrow> nat \<Rightarrow> bool" where
  "outside ranges n \<longleftrightarrow> list_all (\<lambda>(lo, hi). n < lo \<or> hi \<le> n) ranges"

lemma v4_ranges:
  "in_prefix (V4 0x00000000, 8) (V4 a) \<longleftrightarrow> unat a < 0x01000000"
  "in_prefix (V4 0x0A000000, 8) (V4 a) \<longleftrightarrow> 0x0A000000 \<le> unat a \<and> unat a < 0x0B000000"
  "in_prefix (V4 0x64400000, 10) (V4 a) \<longleftrightarrow> 0x64400000 \<le> unat a \<and> unat a < 0x64800000"
  "in_prefix (V4 0x7F000000, 8) (V4 a) \<longleftrightarrow> 0x7F000000 \<le> unat a \<and> unat a < 0x80000000"
  "in_prefix (V4 0xA9FE0000, 16) (V4 a) \<longleftrightarrow> 0xA9FE0000 \<le> unat a \<and> unat a < 0xA9FF0000"
  "in_prefix (V4 0xAC100000, 12) (V4 a) \<longleftrightarrow> 0xAC100000 \<le> unat a \<and> unat a < 0xAC200000"
  "in_prefix (V4 0xC0000000, 24) (V4 a) \<longleftrightarrow> 0xC0000000 \<le> unat a \<and> unat a < 0xC0000100"
  "in_prefix (V4 0xC0000200, 24) (V4 a) \<longleftrightarrow> 0xC0000200 \<le> unat a \<and> unat a < 0xC0000300"
  "in_prefix (V4 0xC0586300, 24) (V4 a) \<longleftrightarrow> 0xC0586300 \<le> unat a \<and> unat a < 0xC0586400"
  "in_prefix (V4 0xC0A80000, 16) (V4 a) \<longleftrightarrow> 0xC0A80000 \<le> unat a \<and> unat a < 0xC0A90000"
  "in_prefix (V4 0xC0AF3000, 24) (V4 a) \<longleftrightarrow> 0xC0AF3000 \<le> unat a \<and> unat a < 0xC0AF3100"
  "in_prefix (V4 0xC6120000, 15) (V4 a) \<longleftrightarrow> 0xC6120000 \<le> unat a \<and> unat a < 0xC6140000"
  "in_prefix (V4 0xC6336400, 24) (V4 a) \<longleftrightarrow> 0xC6336400 \<le> unat a \<and> unat a < 0xC6336500"
  "in_prefix (V4 0xCB007100, 24) (V4 a) \<longleftrightarrow> 0xCB007100 \<le> unat a \<and> unat a < 0xCB007200"
  "in_prefix (V4 0xE0000000, 4) (V4 a) \<longleftrightarrow> 0xE0000000 \<le> unat a \<and> unat a < 0xF0000000"
  "in_prefix (V4 0xE0000000, 24) (V4 a) \<longleftrightarrow> 0xE0000000 \<le> unat a \<and> unat a < 0xE0000100"
  "in_prefix (V4 0xF0000000, 4) (V4 a) \<longleftrightarrow> 0xF0000000 \<le> unat a \<and> unat a < 0x100000000"
  by (subst v4_prefix_range; simp)+

definition public_addr :: "ip_addr \<Rightarrow> bool" where
  "public_addr address \<longleftrightarrow>
     \<not> (\<not> addr_IsGlobalUnicast address \<or> addr_IsPrivate address \<or> addr_IsLoopback address
        \<or> addr_IsLinkLocalUnicast address \<or> addr_IsLinkLocalMulticast address \<or> addr_IsMulticast address
        \<or> addr_IsUnspecified address) \<and> \<not> list_ex (\<lambda>p. in_prefix p address) prohibitedPrefixes"

lemma isPublicIP_alt:
  "isPublicIP ip = (case AddrFromSlice ip of None \<Rightarrow> False | Some a \<Rightarrow> public_addr (addr_Unmap a))"
  by (auto simp: isPublicIP_def public_addr_def Let_def split: option.split)

lemma public_v4: "public_addr (V4 a) \<longleftrightarrow> outside reserved_v4 (unat a)"
proof -
  define n where "n = unat a"
  have bound: "n < 0x100000000" using unsigned_less [of a] by (simp add: n_def)
  have extremes: "a = 0 \<longleftrightarrow> n = 0" "a = 0xFFFFFFFF \<longleftrightarrow> n = 0xFFFFFFFF"
    by (simp_all add: word_unat_eq_iff n_def)
  have covered: "n = 0 \<Longrightarrow> n < 0x01000000" "n = 0xFFFFFFFF \<Longrightarrow> 0xF0000000 \<le> n"
    "0xE0000000 \<le> n \<Longrightarrow> n < 0xE0000100 \<Longrightarrow> n < 0xF0000000"
    "0xF0000000 \<le> n \<Longrightarrow> 0xE0000000 \<le> n" "n < 0xF0000000 \<or> 0xF0000000 \<le> n"
    by auto
  have outside_iff: "(n < lo \<or> hi \<le> n) = (\<not> (lo \<le> n \<and> n < hi))" for lo hi by auto
  have outer: "(0 \<le> n \<and> n < hi) = (n < hi)" "(lo \<le> n \<and> n < 0x100000000) = (lo \<le> n)" for lo hi
    using bound by auto
  note defs = addr_IsGlobalUnicast_def addr_IsPrivate_def addr_IsLoopback_def addr_IsLinkLocalUnicast_def
    addr_IsLinkLocalMulticast_def addr_IsMulticast_def addr_IsUnspecified_def
  have rhs: "outside reserved_v4 n \<longleftrightarrow>
     \<not> n < 0x01000000 \<and> list_all (\<lambda>(lo, hi). \<not> (lo \<le> n \<and> n < hi)) (butlast (tl reserved_v4)) \<and> \<not> 0xE0000000 \<le> n"
    using bound by (simp add: outside_def reserved_v4_def outside_iff outer)
  show ?thesis
    unfolding n_def [symmetric] rhs
    unfolding public_addr_def prohibited_table defs reserved_v4_def
    apply (simp only: list_ex_Nil_iff list_ex_Cons_iff list_all_Nil_iff list_all_Cons_iff butlast.simps list.sel
        v4_ranges in_prefix.simps(3,4) ip_addr.inject ip_addr.distinct ip_addr.case simp_thms prod.case extremes
        n_def [symmetric] outer list.distinct if_True if_False)
    using covered by argo
qed

end
