(* ===== verification/Git_Remote.thy ===== *)
theory Git_Remote imports Git_Address Git_Safety Repository begin

text \<open>
  \<^verbatim>\<open>internal/git/remote.go\<close> and \<^verbatim>\<open>internal/git/fork.go\<close>: fetches from other servers. The resolver, the
  certificate authority of the runner and the source of randomness are added to the Git service.
\<close>

section \<open>The service\<close>

record 'w remote_service =
  rs_git :: "'w git_service"
  rs_LookupIP :: "string \<Rightarrow> ('w, net_ip list) op"
  rs_allowIP :: "net_ip \<Rightarrow> bool"
  rs_httpCAInfo :: string
  rs_rand :: "('w, string) op"

text \<open>\<open>NewServiceWithResolver\<close>: no policy given is the policy of public addresses.\<close>

definition NewServiceWithResolver ::
  "'w git_service \<Rightarrow> (string \<Rightarrow> ('w, net_ip list) op) \<Rightarrow> (net_ip \<Rightarrow> bool) option \<Rightarrow> string \<Rightarrow> ('w, string) op
     \<Rightarrow> 'w remote_service" where
  "NewServiceWithResolver S resolver allow ca rand =
     \<lparr>rs_git = S, rs_LookupIP = resolver,
      rs_allowIP = (case allow of None \<Rightarrow> isPublicIP | Some a \<Rightarrow> a), rs_httpCAInfo = ca, rs_rand = rand\<rparr>"

record remote_fetch =
  rf_SourceURL :: string
  rf_SourceBranch :: string
  rf_ExpectedHead :: string
  rf_Destination :: string
  rf_PriorHead :: string

section \<open>Validation\<close>

definition remote_input :: "string \<Rightarrow> err" where
  "remote_input message = wrapf message (Sentinel git_ErrRemoteInput)"

definition validateRemoteSHA :: "string \<Rightarrow> err option" where
  "validateRemoteSHA sha =
     (if length sha \<noteq> 40 \<and> length sha \<noteq> 64 then Some (remote_input ''SHA must be full length'')
      else if \<not> list_all lower_hex sha then Some (remote_input ''SHA must be lowercase hexadecimal'')
      else None)"

definition controlledPullRef :: "string \<Rightarrow> err + string" where
  "controlledPullRef destination =
     (if destination = [] \<or> 128 < length destination then Inl (remote_input ''invalid destination'')
      else if \<not> list_all (\<lambda>c. is_lower c \<or> is_upper c \<or> is_digit c \<or> c = CHR ''-'') destination
      then Inl (remote_input ''invalid destination'')
      else Inr (''refs/adenosine/pull/'' @ destination @ ''/head''))"

text \<open>\<open>strings.Trim(hostname, "0123456789.") == ""\<close> holds of the names made of these characters.\<close>

definition canonical_label :: "string \<Rightarrow> bool" where
  "canonical_label label \<longleftrightarrow>
     label \<noteq> [] \<and> length label \<le> 63 \<and> hd label \<noteq> CHR ''-'' \<and> last label \<noteq> CHR ''-''
     \<and> list_all (\<lambda>c. is_lower c \<or> is_digit c \<or> c = CHR ''-'') label"

definition canonicalHostname :: "string \<Rightarrow> bool" where
  "canonicalHostname hostname =
     (case ParseAddr hostname of
        Some address \<Rightarrow> addr_String address = hostname
      | None \<Rightarrow>
          if 253 < length hostname \<or> CHR '':'' \<in> set hostname
             \<or> list_all (\<lambda>c. is_digit c \<or> c = CHR ''.'') hostname then False
          else list_all canonical_label (split_on (CHR ''.'') hostname))"

definition canonical_port :: "string \<Rightarrow> bool" where
  "canonical_port port =
     (port = [] \<or> (case parse_int64 port of
                     None \<Rightarrow> False
                   | Some n \<Rightarrow> \<not> (n < 1 \<or> 65535 < n \<or> decimal n \<noteq> port \<or> n = 443)))"

definition canonical_authority :: "url \<Rightarrow> string" where
  "canonical_authority u =
     (let hostname = url_Hostname u; port = url_Port u
      in if port \<noteq> [] then join_host_port hostname port
         else if ParseAddr hostname \<noteq> None \<and> CHR '':'' \<in> set hostname then ''['' @ hostname @ '']''
         else hostname)"

definition url_component_ok :: "string \<Rightarrow> bool" where
  "url_component_ok c \<longleftrightarrow>
     list_all (\<lambda>c. is_lower c \<or> is_upper c \<or> is_digit c \<or> c \<in> set ''-._~:'') c"

definition validate_endpoint :: "string \<Rightarrow> err + url" where
  "validate_endpoint source =
     (case url_Parse source of
        None \<Rightarrow> Inl (remote_input ''source URL must be canonical HTTPS'')
      | Some u \<Rightarrow>
          if u_Scheme u \<noteq> ''https'' \<or> u_User u \<or> u_RawQuery u \<noteq> [] \<or> u_ForceQuery u \<or> u_Fragment u \<noteq> []
             \<or> u_Opaque u \<noteq> [] then Inl (remote_input ''source URL must be canonical HTTPS'')
          else if url_Hostname u = [] \<or> u_RawPath u \<noteq> [] \<or> u_Path u = [] \<or> hd (u_Path u) \<noteq> CHR ''/''
                  \<or> contains (u_Path u) ''//'' \<or> suffix ''/'' (u_Path u)
          then Inl (remote_input ''source URL must have a canonical host and path'')
          else let components = split_on (CHR ''/'') (tl (u_Path u))
               in if list_ex (\<lambda>c. c = [] \<or> c = ''.'' \<or> c = ''..'' \<or> \<not> url_component_ok c) components
                  then Inl (remote_input ''source URL path is not canonical'')
          else if url_Hostname u \<noteq> lower (url_Hostname u) \<or> contains (url_Hostname u) ''%''
                  \<or> \<not> canonicalHostname (url_Hostname u)
          then Inl (remote_input ''source URL host is not canonical'')
          else if \<not> canonical_port (url_Port u) then Inl (remote_input ''source URL port is not canonical'')
          else if u_Host u \<noteq> canonical_authority u \<or> url_String u \<noteq> source
          then Inl (remote_input ''source URL representation is not canonical'')
          else Inr u)"

definition validateRemoteFetch :: "remote_fetch \<Rightarrow> err + url" where
  "validateRemoteFetch r =
     (case validateRemoteSHA (rf_ExpectedHead r) of
        Some e \<Rightarrow> Inl e
      | None \<Rightarrow>
          (case (if rf_PriorHead r \<noteq> [] then validateRemoteSHA (rf_PriorHead r) else None) of
             Some e \<Rightarrow> Inl e
           | None \<Rightarrow>
               (case controlledPullRef (rf_Destination r) of
                  Inl e \<Rightarrow> Inl e
                | Inr _ \<Rightarrow>
                    (case validateBranch (rf_SourceBranch r) of
                       Some e \<Rightarrow> Inl e
                     | None \<Rightarrow> validate_endpoint (rf_SourceURL r)))))"

section \<open>Where a fetch connects\<close>

definition resolveRemote :: "'w remote_service \<Rightarrow> string \<Rightarrow> ('w, net_ip list) op" where
  "resolveRemote R hostname =
     call (rs_LookupIP R hostname) (wrapf ''resolve remote Git endpoint'') (\<lambda>addresses.
     fail_if (addresses = []) (errorf ''resolve remote Git endpoint: no addresses'') (
     fail_if (\<not> list_all (rs_allowIP R) addresses)
       (wrapf ''prohibited address'' (Sentinel git_ErrRemoteAddress)) (
     ret addresses)))"

definition fetch_port :: "url \<Rightarrow> string" where
  "fetch_port u = (if url_Port u = [] then ''443'' else url_Port u)"

definition pinned_address :: "url \<Rightarrow> net_ip \<Rightarrow> string" where
  "pinned_address u address =
     url_Hostname u @ '':'' @ fetch_port u @ '':''
       @ (if ip_To4 address = None then ''['' @ ip_String address @ '']'' else ip_String address)"

text \<open>A setting given for all of HTTP and again for the URL that is fetched.\<close>

definition scoped :: "url \<Rightarrow> string \<Rightarrow> string list" where
  "scoped u setting = [''-c'', ''http.'' @ setting, ''-c'', ''http.'' @ url_String u @ ''.'' @ setting]"

definition hardenedFetchArgs :: "string \<Rightarrow> url \<Rightarrow> net_ip list \<Rightarrow> string \<Rightarrow> string list" where
  "hardenedFetchArgs repositoryPath u addresses caInfo =
     [''--git-dir='' @ repositoryPath,
      ''-c'', ''protocol.allow=never'', ''-c'', ''protocol.https.allow=always'',
      ''-c'', ''credential.helper='', ''-c'', ''core.askPass='']
     @ concat (map (scoped u)
         [''sslVerify=true'', ''followRedirects=false'', ''proxy='', ''extraHeader='', ''cookieFile='', ''saveCookies=false''])
     @ (if caInfo \<noteq> [] then scoped u (''sslCAInfo='' @ caInfo) else [])
     @ concat (map (\<lambda>a. scoped u (''curloptResolve='' @ pinned_address u a)) addresses)"

definition randomQuarantineRef :: "'w remote_service \<Rightarrow> ('w, string) op" where
  "randomQuarantineRef R =
     call (rs_rand R) (\<lambda>e. e) (\<lambda>value. ret (''refs/adenosine/quarantine/'' @ hex_bytes value))"

text \<open>
  A deferred clean-up whose error is joined to the result: the method fails where it had succeeded, after
  all it did.
\<close>

definition deferring_joined :: "('w, unit) op \<Rightarrow> (err \<Rightarrow> err) \<Rightarrow> ('w, 'a) op \<Rightarrow> ('w, 'a) op" where
  "deferring_joined cleanup h m = (\<lambda>w. case m w of
     (r, w') \<Rightarrow> (case cleanup w' of
        (Inr _, w'') \<Rightarrow> (r, w'')
      | (Inl e, w'') \<Rightarrow> (Inl (Joined ((case r of Inl e' \<Rightarrow> [e'] | Inr _ \<Rightarrow> []) @ [h e])), w'')))"

definition delete_ref :: "string \<Rightarrow> string \<Rightarrow> git_command" where
  "delete_ref p r = command [''--git-dir='' @ p, ''update-ref'', ''-d'', r]"

definition plain_update_ref :: "string \<Rightarrow> string \<Rightarrow> string \<Rightarrow> string \<Rightarrow> git_command" where
  "plain_update_ref p r new old = command [''--git-dir='' @ p, ''update-ref'', r, new, old]"

definition git_exec_unit :: "'w git_service \<Rightarrow> git_command \<Rightarrow> ('w, unit) op" where
  "git_exec_unit S c = git_runWithEnv S (gc_args c) (gc_input c) (gc_env c)"

section \<open>Fetching a pull request's head\<close>

definition repository_format :: "'w git_service \<Rightarrow> string \<Rightarrow> ('w, nat) op" where
  "repository_format S p =
     call (git_runBounded S maxMetadataOutput [''--git-dir='' @ p, ''rev-parse'', ''--show-object-format''])
       (wrapf ''determine object format'') (\<lambda>output.
     call (outcome (singleLine output)) (wrapf ''parse object format'') (\<lambda>objectFormat.
     if objectFormat = ''sha256'' then ret 64
     else if objectFormat \<noteq> ''sha1'' then raise (errorf ''unsupported object format'')
     else ret 40))"

text \<open>What is fetched is looked at in quarantine, and only the declared commit is promoted.\<close>

definition fetch_args :: "remote_fetch \<Rightarrow> string \<Rightarrow> string list" where
  "fetch_args r quarantine =
     [''fetch'', ''--no-tags'', ''--no-write-fetch-head'', ''--no-recurse-submodules'', ''--force'', rf_SourceURL r,
      ''+refs/heads/'' @ rf_SourceBranch r @ '':'' @ quarantine]"

definition promote_fetched ::
  "'w git_service \<Rightarrow> remote_fetch \<Rightarrow> string \<Rightarrow> nat \<Rightarrow> string \<Rightarrow> ('w, unit) op" where
  "promote_fetched S r p expectedLength fetched =
     call (outcome (controlledPullRef (rf_Destination r))) (\<lambda>e. e) (\<lambda>destination.
     attempt (git_exec_unit S (plain_update_ref p destination fetched
                (if rf_PriorHead r = [] then replicate expectedLength (CHR ''0'') else rf_PriorHead r)))
       (\<lambda>e. raise (Errorf ''promote fetched head'' [Sentinel git_ErrRefConflict, e] [])) ret)"

definition fetch_into_quarantine ::
  "'w remote_service \<Rightarrow> remote_fetch \<Rightarrow> url \<Rightarrow> net_ip list \<Rightarrow> string \<Rightarrow> nat \<Rightarrow> string \<Rightarrow> ('w, unit) op" where
  "fetch_into_quarantine R r u addresses p expectedLength quarantine =
     (let S = rs_git R
      in call (git_run S (hardenedFetchArgs p u addresses (rs_httpCAInfo R) @ fetch_args r quarantine))
           (wrapf ''fetch remote branch'') (\<lambda>_.
         call (git_resolve S p quarantine) (wrapf ''resolve fetched head'') (\<lambda>fetched.
         call (git_objectProperty S p ''-t'' fetched) (wrapf ''inspect fetched head'') (\<lambda>objectType.
         fail_if (objectType \<noteq> ''commit'' \<or> fetched \<noteq> rf_ExpectedHead r) (Sentinel git_ErrHeadMismatch) (
         promote_fetched S r p expectedLength fetched)))))"

definition git_FetchRemote :: "'w remote_service \<Rightarrow> uuid \<Rightarrow> remote_fetch \<Rightarrow> ('w, unit) op" where
  "git_FetchRemote R rid r =
     (let S = rs_git R
      in call (outcome (validateRemoteFetch r)) (\<lambda>e. e) (\<lambda>u.
         call (resolveRemote R (url_Hostname u)) (\<lambda>e. e) (\<lambda>addresses.
         call (git_repositoryPath S rid) (\<lambda>e. e) (\<lambda>p.
         call (repository_format S p) (\<lambda>e. e) (\<lambda>expectedLength.
         fail_if (length (rf_ExpectedHead r) \<noteq> expectedLength
                  \<or> rf_PriorHead r \<noteq> [] \<and> length (rf_PriorHead r) \<noteq> expectedLength)
           (remote_input ''SHA length does not match repository'') (
         call (randomQuarantineRef R) (wrapf ''create quarantine ref'') (\<lambda>quarantine.
         deferring_joined (git_exec_unit S (delete_ref p quarantine)) (wrapf ''delete quarantine ref'')
           (fetch_into_quarantine R r u addresses p expectedLength quarantine))))))))"

definition validateFullSHA :: "string \<Rightarrow> err option" where
  "validateFullSHA sha =
     (if length sha \<noteq> 40 \<and> length sha \<noteq> 64 then Some (errorf ''invalid full object ID'')
      else if \<not> list_all lower_hex sha then Some (errorf ''invalid full object ID'')
      else None)"

definition git_ControlledHead :: "'w git_service \<Rightarrow> uuid \<Rightarrow> string \<Rightarrow> ('w, string) op" where
  "git_ControlledHead S rid destination =
     call (outcome (controlledPullRef destination)) (\<lambda>e. e) (\<lambda>r.
     call (git_repositoryPath S rid) (\<lambda>e. e) (\<lambda>p.
     attempt (git_resolve S p r)
       (\<lambda>e. if errors_is e git_ErrObjectNotFound then ret [] else raise (wrapf ''resolve controlled pull head'' e))
       (\<lambda>sha. check (validateFullSHA sha) (wrapf ''parse controlled pull head'') (ret sha))))"

section \<open>Forks\<close>

definition fork_request :: "string \<Rightarrow> remote_fetch" where
  "fork_request source =
     \<lparr>rf_SourceURL = source, rf_SourceBranch = ''main'', rf_ExpectedHead = replicate 40 (CHR ''0''),
      rf_Destination = ''fork'', rf_PriorHead = []\<rparr>"

definition forkFetchArgs :: "'w remote_service \<Rightarrow> string \<Rightarrow> fork_source \<Rightarrow> ('w, string list \<times> string) op" where
  "forkFetchArgs R destination source =
     (case fork_LocalRepositoryID source of
        Some local \<Rightarrow>
          fail_if (local = uuid_nil) (remote_input ''local fork source is invalid'') (
          call (git_repositoryPath (rs_git R) local) (wrapf ''resolve local fork source'') (\<lambda>p.
          ret ([''--git-dir='' @ destination], p)))
      | None \<Rightarrow>
          call (outcome (validateRemoteFetch (fork_request (fork_GitHTTPS source)))) (\<lambda>e. e) (\<lambda>u.
          call (resolveRemote R (url_Hostname u)) (\<lambda>e. e) (\<lambda>addresses.
          ret (hardenedFetchArgs destination u addresses (rs_httpCAInfo R), fork_GitHTTPS source))))"

definition git_Fork :: "'w remote_service \<Rightarrow> uuid \<Rightarrow> fork_source \<Rightarrow> string \<Rightarrow> ('w, unit) op" where
  "git_Fork R rid source defaultBranch =
     call (git_Init (rs_git R) rid defaultBranch) (\<lambda>e. e) (\<lambda>_.
     call (git_repositoryPath (rs_git R) rid) (\<lambda>e. e) (\<lambda>destination.
     call (forkFetchArgs R destination source) (\<lambda>e. e) (\<lambda>(args, sourceArgument).
     call (git_run (rs_git R)
            (args @ [''fetch'', ''--no-write-fetch-head'', ''--no-recurse-submodules'', ''--force'', sourceArgument,
                     ''+refs/heads/*:refs/heads/*'', ''+refs/tags/*:refs/tags/*'']))
       (wrapf ''fetch fork source'') ret)))"

definition is_ancestor :: "string \<Rightarrow> string \<Rightarrow> string \<Rightarrow> git_command" where
  "is_ancestor p before after = command [''--git-dir='' @ p, ''merge-base'', ''--is-ancestor'', before, after]"

definition verify_fast_forward :: "'w git_service \<Rightarrow> string \<Rightarrow> string \<Rightarrow> string \<Rightarrow> ('w, unit) op" where
  "verify_fast_forward S p before after =
     (if before = [] then ret ()
      else attempt (git_exec_unit S (is_ancestor p before after))
             (\<lambda>e. raise (if as_command_error e = Some 1 then Sentinel git_ErrForkDiverged
                          else wrapf ''verify fork fast-forward'' e))
             ret)"

definition advance_fork :: "'w git_service \<Rightarrow> string \<Rightarrow> string \<Rightarrow> string \<Rightarrow> string \<Rightarrow> ('w, fork_sync) op" where
  "advance_fork S p branch before after =
     (let sync = \<lparr>BeforeSHA = before, AfterSHA = after, Updated = (before \<noteq> after)\<rparr>
      in if before = after then ret sync
         else call (verify_fast_forward S p before after) (\<lambda>e. e) (\<lambda>_.
              call (git_exec_unit S (plain_update_ref p branch after
                      (if before = [] then replicate (length after) (CHR ''0'') else before)))
                (wrapf ''advance fork branch'') (\<lambda>_. ret sync)))"

definition sync_from ::
  "'w remote_service \<Rightarrow> string \<Rightarrow> fork_source \<Rightarrow> string \<Rightarrow> string \<Rightarrow> ('w, fork_sync) op" where
  "sync_from R destination source defaultBranch quarantine =
     (let S = rs_git R
      in call (forkFetchArgs R destination source) (\<lambda>e. e) (\<lambda>(args, sourceArgument).
         call (git_run S (args @ [''fetch'', ''--no-tags'', ''--no-write-fetch-head'', ''--no-recurse-submodules'',
                                  ''--force'', sourceArgument, ''+refs/heads/'' @ defaultBranch @ '':'' @ quarantine]))
           (wrapf ''fetch fork upstream'') (\<lambda>_.
         call (git_resolve S destination quarantine) (wrapf ''resolve fork upstream'') (\<lambda>after.
         attempt (git_resolve S destination (branch_ref defaultBranch))
           (\<lambda>e. if errors_is e git_ErrObjectNotFound
                 then advance_fork S destination (branch_ref defaultBranch) [] after
                 else raise (wrapf ''resolve fork branch'' e))
           (\<lambda>before. advance_fork S destination (branch_ref defaultBranch) before after)))))"

definition git_SyncFork :: "'w remote_service \<Rightarrow> uuid \<Rightarrow> fork_source \<Rightarrow> string \<Rightarrow> ('w, fork_sync) op" where
  "git_SyncFork R rid source defaultBranch =
     check (validateBranch defaultBranch) (\<lambda>e. e) (
     call (git_repositoryPath (rs_git R) rid) (\<lambda>e. e) (\<lambda>destination.
     call (randomQuarantineRef R) (wrapf ''create fork sync ref'') (\<lambda>quarantine.
     deferring_joined (git_exec_unit (rs_git R) (delete_ref destination quarantine)) (wrapf ''delete fork sync ref'')
       (sync_from R destination source defaultBranch quarantine))))"

end
