(* ===== verification/Git_Remote_Safety.thy ===== *)
theory Git_Remote_Safety
  imports Git_Remote Triples
begin

text \<open>
  What fetches from other servers do to the references of a repository, and where they connect, from what
  Git documents of its commands.
\<close>

section \<open>Validated branch names\<close>

text \<open>A byte below 128 is a rune of its own, so that a name without a rune does not hold it as a byte.\<close>

lemma decode_rune_continues:
  "x \<in> set (take (snd (decode_rune (c # cs)) - 1) cs) \<Longrightarrow> 128 \<le> byte x"
proof -
  assume x: "x \<in> set (take (snd (decode_rune (c # cs)) - 1) cs)"
  have c: "\<not> byte c < 128" using x by (cases "byte c < 128") simp_all
  then obtain width lo hi where shape: "rune_shape (byte c) = Some (width, lo, hi)"
    using x by (cases "rune_shape (byte c)") (auto simp: decode_rune_def)
  have lo: "128 \<le> lo" and width: "width = 2 \<or> width = 3 \<or> width = 4"
    using shape by (auto simp: rune_shape_def split: if_splits)
  obtain c1 cs1 where cs: "cs = c1 # cs1" using x by (cases cs) auto
  have c1: "in_range lo hi (byte c1)"
    using x c shape cs by (cases "in_range lo hi (byte c1)") (simp_all add: decode_rune_def)
  note start = decode_rune_def c shape cs c1
  show "128 \<le> byte x"
  proof (cases "width = 2")
    case True
    then show ?thesis using x c1 lo by (simp add: start in_range_def)
  next
    case False
    then obtain c2 cs2 where cs1: "cs1 = c2 # cs2" using x by (cases cs1) (auto simp: start)
    have c2: "cont c2" using x False by (cases "cont c2") (simp_all add: start cs1)
    show ?thesis
    proof (cases "width = 3")
      case True
      then show ?thesis using x c1 c2 lo by (auto simp: start cs1 in_range_def numeral_2_eq_2)
    next
      case False2: False
      then obtain c3 cs3 where cs2: "cs2 = c3 # cs3" using x False c2 by (cases cs2) (auto simp: start cs1)
      have c3: "cont c3" using x False False2 c2 by (cases "cont c3") (simp_all add: start cs1 cs2)
      show ?thesis using x False False2 c1 c2 c3 lo by (auto simp: start cs1 cs2 in_range_def numeral_3_eq_3)
    qed
  qed
qed

lemma runes_ascii: "x \<in> set s \<Longrightarrow> byte x < 128 \<Longrightarrow> byte x \<in> set (runes s)"
proof (induction s rule: runes.induct)
  case (2 c cs)
  let ?n = "snd (decode_rune (c # cs)) - 1"
  show ?case
  proof (cases "x = c")
    case False
    have "x \<notin> set (take ?n cs)" using decode_rune_continues 2(3) by fastforce
    then have "x \<in> set (drop ?n cs)"
      using 2(2) False by (metis Un_iff append_take_drop_id set_ConsD set_append)
    then show ?thesis using 2(1) 2(3) by simp
  qed (use 2(3) in simp)
qed simp

lemma validateBranch_runes:
  assumes "validateBranch b = None" and "x \<in> set b" and "byte x < 128"
  shows "32 < byte x" and "x \<notin> set (CHR 0x5C # ''~^:?*['')"
  using assms runes_ascii [OF assms(2,3)] by (auto simp: validateBranch_def Let_def list_ex_iff split: if_splits)

lemma validateBranch_refspec:
  assumes "validateBranch b = None"
  shows "CHR '':'' \<notin> set b" and "CHR ''*'' \<notin> set b"
  using validateBranch_runes(2) [OF assms, of "CHR '':''"] validateBranch_runes(2) [OF assms, of "CHR ''*''"] by auto

section \<open>Commands\<close>

text \<open>What a reference was, by the old value of \<open>update-ref\<close>: zeros say that it did not exist.\<close>

definition ref_was :: "string \<Rightarrow> string option" where
  "ref_was old = (if list_all (\<lambda>c. c = CHR ''0'') old then None else Some old)"

text \<open>A fetch of one branch into one reference, without tags.\<close>

definition fetch_into :: "string \<Rightarrow> string \<Rightarrow> git_command \<Rightarrow> bool" where
  "fetch_into p q c \<longleftrightarrow>
     commandOperation (gc_args c) = ''fetch'' \<and> hd (gc_args c) = ''--git-dir='' @ p \<and> ''--no-tags'' \<in> set (gc_args c)
     \<and> (\<exists>src. CHR '':'' \<notin> set src \<and> CHR ''*'' \<notin> set src \<and> last (gc_args c) = ''+'' @ src @ '':'' @ q)"

definition git_fetch_ok :: "('w \<Rightarrow> refs) \<Rightarrow> (string \<Rightarrow> string \<Rightarrow> bool) \<Rightarrow> 'w git_service \<Rightarrow> bool" where
  "git_fetch_ok v ancestor S \<longleftrightarrow>
     merge_surroundings v S \<and> (\<forall>c. reads_only c \<longrightarrow> frames v (gs_exec S c))
     \<and> (\<forall>p q c w p' r. fetch_into p q c \<longrightarrow> (p', r) \<noteq> (p, q) \<longrightarrow> v (snd (gs_exec S c w)) p' r = v w p' r)
     \<and> (\<forall>p q w. v (snd (gs_exec S (delete_ref p q) w)) \<in> {v w, (v w)(p := (v w p)(q := None))})
     \<and> (\<forall>p r new old w. prefix ''refs/'' r \<longrightarrow> (case gs_exec S (plain_update_ref p r new old) w of
          (Inl _, w') \<Rightarrow> v w' = v w
        | (Inr _, w') \<Rightarrow> v w p r = ref_was old \<and> v w' = set_ref p r new (v w)))
     \<and> (\<forall>p before after w. (case fst (gs_exec S (is_ancestor p before after) w) of Inl _ \<Rightarrow> True | Inr _ \<Rightarrow> ancestor before after))"

definition remote_ok :: "('w \<Rightarrow> refs) \<Rightarrow> (string \<Rightarrow> string \<Rightarrow> bool) \<Rightarrow> 'w remote_service \<Rightarrow> bool" where
  "remote_ok v ancestor R \<longleftrightarrow>
     git_fetch_ok v ancestor (rs_git R) \<and> (\<forall>h. frames v (rs_LookupIP R h)) \<and> frames v (rs_rand R)"

lemma operation_scoped [simp]: "commandOperation (concat (map (\<lambda>x. scoped u (f x)) xs) @ args) = commandOperation args"
  by (induction xs) (simp_all add: scoped_def)

lemma operation_hardened:
  "commandOperation (hardenedFetchArgs p u addresses ca @ args) = commandOperation args"
proof -
  have scoped: "commandOperation (scoped u setting @ rest) = commandOperation rest" for setting rest
    by (simp add: scoped_def)
  show ?thesis by (simp add: hardenedFetchArgs_def scoped)
qed

lemma operation_fetch [simp]: "commandOperation (''fetch'' # args) = ''fetch''"
  by (simp add: known_operations_def)

lemma fork_args_git_dir: "hd (hardenedFetchArgs p u addresses ca @ args) = ''--git-dir='' @ p"
  by (simp add: hardenedFetchArgs_def)

section \<open>References during a fetch\<close>

definition quarantine_ref :: "string \<Rightarrow> bool" where
  "quarantine_ref r \<longleftrightarrow> prefix ''refs/adenosine/quarantine/'' r"

text \<open>
  \<open>promoted p target allowed f g\<close>: from the references \<open>f\<close> to \<open>g\<close>, nothing changed outside the quarantine of
  the repository \<open>p\<close> but \<open>target\<close>, and that only as allowed.
\<close>

definition outside_quarantine :: "string \<Rightarrow> string \<Rightarrow> string \<Rightarrow> bool" where
  "outside_quarantine p p' r \<longleftrightarrow> \<not> (p' = p \<and> quarantine_ref r)"

definition quarantined :: "string \<Rightarrow> refs \<Rightarrow> refs \<Rightarrow> bool" where
  "quarantined p f g \<longleftrightarrow> (\<forall>p' r. outside_quarantine p p' r \<longrightarrow> g p' r = f p' r)"

definition promoted ::
  "string \<Rightarrow> string \<Rightarrow> (string option \<Rightarrow> string option \<Rightarrow> bool) \<Rightarrow> refs \<Rightarrow> refs \<Rightarrow> bool" where
  "promoted p target allowed f g \<longleftrightarrow>
     (\<forall>p' r. outside_quarantine p p' r \<longrightarrow> (p', r) \<noteq> (p, target) \<longrightarrow> g p' r = f p' r)
     \<and> (g p target = f p target \<or> allowed (f p target) (g p target))"

lemma quarantined_refl: "quarantined p f f"
  by (simp add: quarantined_def)

lemma quarantined_promoted: "\<not> quarantine_ref target \<Longrightarrow> quarantined p f g \<Longrightarrow> promoted p target allowed f g"
  by (simp add: quarantined_def promoted_def outside_quarantine_def)

lemma promoted_set_ref:
  assumes "quarantined p f g" and "\<not> quarantine_ref target" and "allowed (g p target) (Some new)"
  shows "promoted p target allowed f (set_ref p target new g)"
  using assms by (auto simp: promoted_def quarantined_def set_ref_def outside_quarantine_def)

lemma branch_not_quarantine: "\<not> quarantine_ref (branch_ref b)" and branch_is_ref: "prefix ''refs/'' (branch_ref b)"
  by (simp_all add: quarantine_ref_def branch_ref_def)

lemma controlledPullRef_ok: "controlledPullRef d = Inr r \<Longrightarrow> r = ''refs/adenosine/pull/'' @ d @ ''/head'' \<and> \<not> quarantine_ref r"
  by (auto simp: controlledPullRef_def quarantine_ref_def split: if_splits)

section \<open>The steps\<close>

lemma triple_pure: "(P \<Longrightarrow> triple A m Q E) \<Longrightarrow> triple (\<lambda>w. A w \<and> P) m Q E"
  by (auto simp: triple_def)

lemma triple_frames:
  "frames v m \<Longrightarrow> (\<And>w. I (v w) \<Longrightarrow> E w) \<Longrightarrow> triple (\<lambda>w. I (v w)) m (\<lambda>_ w. I (v w)) E"
  by (rule tripleI) (auto dest: framesD)

lemma triple_deferring_joined:
  assumes "triple P m (\<lambda>_. I) I" and "keeps I cleanup"
  shows "triple P (deferring_joined cleanup h m) (\<lambda>_. I) I"
proof (rule tripleI)
  fix w e w' assume P: "P w" and run: "deferring_joined cleanup h m w = (Inl e, w')"
  obtain r u where m: "m w = (r, u)" by force
  have "I u" using m triple_Inl [OF assms(1) P] triple_Inr [OF assms(1) P] by (cases r) auto
  then have "I (snd (cleanup u))" by (rule keepsD [OF assms(2)])
  then show "I w'" using run m by (auto simp: deferring_joined_def split: prod.splits sum.splits)
next
  fix w x w' assume P: "P w" and run: "deferring_joined cleanup h m w = (Inr x, w')"
  obtain r u where m: "m w = (r, u)" by force
  have "I u" using m triple_Inl [OF assms(1) P] triple_Inr [OF assms(1) P] by (cases r) auto
  then have "I (snd (cleanup u))" by (rule keepsD [OF assms(2)])
  then show "I w'" using run m by (auto simp: deferring_joined_def split: prod.splits sum.splits)
qed

lemma fetch_ok_frames:
  assumes "git_fetch_ok v ancestor S"
  shows "reads_only c \<Longrightarrow> frames v (gs_exec S c)" and "merge_surroundings v S"
  using assms by (simp_all add: git_fetch_ok_def)

lemma fetch_ok_writes:
  assumes "git_fetch_ok v ancestor S"
  shows "fetch_into p q c \<Longrightarrow> (p', r) \<noteq> (p, q) \<Longrightarrow> v (snd (gs_exec S c w)) p' r = v w p' r"
    and "v (snd (gs_exec S (delete_ref p q) w)) = v w \<or> v (snd (gs_exec S (delete_ref p q) w)) = (v w)(p := (v w p)(q := None))"
    and "prefix ''refs/'' r \<Longrightarrow> gs_exec S (plain_update_ref p r new old) w = (Inl e, w') \<Longrightarrow> v w' = v w"
    and "prefix ''refs/'' r \<Longrightarrow> gs_exec S (plain_update_ref p r new old) w = (Inr x, w') \<Longrightarrow> v w p r = ref_was old \<and> v w' = set_ref p r new (v w)"
    and "gs_exec S (is_ancestor p before after) w = (Inr x, w') \<Longrightarrow> ancestor before after"
proof -
  note parts = assms [unfolded git_fetch_ok_def, THEN conjunct2, THEN conjunct2]
  show "fetch_into p q c \<Longrightarrow> (p', r) \<noteq> (p, q) \<Longrightarrow> v (snd (gs_exec S c w)) p' r = v w p' r"
    using parts [THEN conjunct1] by blast
  show "v (snd (gs_exec S (delete_ref p q) w)) = v w \<or> v (snd (gs_exec S (delete_ref p q) w)) = (v w)(p := (v w p)(q := None))"
    using parts [THEN conjunct2, THEN conjunct1] by blast
  show "prefix ''refs/'' r \<Longrightarrow> gs_exec S (plain_update_ref p r new old) w = (Inl e, w') \<Longrightarrow> v w' = v w"
    and "prefix ''refs/'' r \<Longrightarrow> gs_exec S (plain_update_ref p r new old) w = (Inr x, w') \<Longrightarrow> v w p r = ref_was old \<and> v w' = set_ref p r new (v w)"
    using parts [THEN conjunct2, THEN conjunct2, THEN conjunct1, THEN spec [of _ p], THEN spec [of _ r], THEN spec [of _ new],
        THEN spec [of _ old], THEN spec [of _ w]] by simp_all
  show "gs_exec S (is_ancestor p before after) w = (Inr x, w') \<Longrightarrow> ancestor before after"
    using parts [THEN conjunct2, THEN conjunct2, THEN conjunct2, THEN spec [of _ p], THEN spec [of _ before], THEN spec [of _ after],
        THEN spec [of _ w]] by simp
qed

lemma exec_unit_snd: "snd (git_exec_unit S c w) = snd (gs_exec S c w)" "snd (git_run S args w) = snd (gs_exec S (command args) w)"
  by (cases c; simp add: git_exec_unit_def git_runWithEnv_def call_apply ret_def split: prod.splits sum.splits)
    (simp add: git_run_def git_runWithEnv_def call_apply ret_def split: prod.splits sum.splits)

lemma remote_steps_frame:
  assumes "remote_ok v ancestor R"
  shows "frames v (git_repositoryPath (rs_git R) rid)" and "frames v (git_resolve (rs_git R) p revision)"
    and "frames v (git_objectProperty (rs_git R) p option sha)" and "frames v (repository_format (rs_git R) p)"
    and "frames v (resolveRemote R host)" and "frames v (randomQuarantineRef R)" and "frames v (forkFetchArgs R p source)"
    and "frames v (git_exec_unit (rs_git R) (is_ancestor p before after))"
proof -
  have ok: "git_fetch_ok v ancestor (rs_git R)" and lookup: "\<And>h. frames v (rs_LookupIP R h)" and rand: "frames v (rs_rand R)"
    using assms by (auto simp: remote_ok_def)
  note steps = fetch_ok_frames(1) [OF ok] surroundings_frames [OF fetch_ok_frames(2) [OF ok]] lookup rand
  have args: "commandOperation (''cat-file'' # rest) = ''cat-file''" for rest by (simp add: known_operations_def)
  show "frames v (git_repositoryPath (rs_git R) rid)" and "frames v (git_resolve (rs_git R) p revision)"
    and "frames v (git_objectProperty (rs_git R) p option sha)" and "frames v (repository_format (rs_git R) p)"
    and host: "frames v (resolveRemote R host)" for rid p revision option sha host
    unfolding git_repositoryPath_def git_resolve_def git_objectProperty_def object_query_def git_runBounded_def
      repository_format_def resolveRemote_def
    by (intro op_frames steps; simp add: reads_only_def known_operations_def)+
  show "frames v (randomQuarantineRef R)" and "frames v (forkFetchArgs R p source)"
    unfolding randomQuarantineRef_def forkFetchArgs_def git_repositoryPath_def
    by (intro op_frames steps host)+
  show "frames v (git_exec_unit (rs_git R) (is_ancestor p before after))"
    unfolding git_exec_unit_def git_runWithEnv_def is_ancestor_def
    by (intro op_frames steps; simp add: reads_only_def known_operations_def)
qed

lemma quarantine_name: "randomQuarantineRef R w = (Inr q, w') \<Longrightarrow> quarantine_ref q"
  by (auto simp: randomQuarantineRef_def op_ok quarantine_ref_def)

lemma triple_quarantine_name:
  assumes "remote_ok v ancestor R" and "\<And>w. I (v w) \<Longrightarrow> E w"
  shows "triple (\<lambda>w. I (v w)) (randomQuarantineRef R) (\<lambda>q w. I (v w) \<and> quarantine_ref q) E"
  by (rule tripleI) (use framesD [OF remote_steps_frame(6) [OF assms(1)]] quarantine_name assms(2) in \<open>fastforce\<close>)+

lemma keeps_fetch:
  assumes "git_fetch_ok v ancestor S" and "fetch_into p q (command args)" and "quarantine_ref q"
  shows "keeps (\<lambda>w. quarantined p f (v w)) (git_run S args)"
proof (rule keepsI)
  fix w assume "quarantined p f (v w)"
  moreover have "v (snd (gs_exec S (command args) w)) p' r = v w p' r" if "outside_quarantine p p' r" for p' r
    using assms(3) that by (intro fetch_ok_writes(1) [OF assms(1,2)]) (auto simp: outside_quarantine_def)
  ultimately show "quarantined p f (v (snd (git_run S args w)))"
    by (simp add: quarantined_def exec_unit_snd)
qed

lemma keeps_cleanup:
  assumes "git_fetch_ok v ancestor S" and "quarantine_ref q" and "\<not> quarantine_ref target"
  shows "keeps (\<lambda>w. promoted p target allowed f (v w)) (git_exec_unit S (delete_ref p q))"
proof (rule keepsI)
  fix w assume before: "promoted p target allowed f (v w)"
  have "promoted p target allowed f ((v w)(p := (v w p)(q := None)))"
    using before assms(2,3) by (auto simp: promoted_def outside_quarantine_def)
  with before show "promoted p target allowed f (v (snd (git_exec_unit S (delete_ref p q) w)))"
    using fetch_ok_writes(2) [OF assms(1), of p q w] by (auto simp: exec_unit_snd)
qed

text \<open>The compare-and-swap at the end of a fetch.\<close>

lemma triple_promote:
  assumes ok: "git_fetch_ok v ancestor S" and target: "\<not> quarantine_ref target" and ref: "prefix ''refs/'' target"
    and allowed: "allowed (ref_was old) (Some new)"
  shows "triple (\<lambda>w. quarantined p f (v w)) (git_exec_unit S (plain_update_ref p target new old))
     (\<lambda>_ w. promoted p target allowed f (v w) \<and> v w p target = Some new)
     (\<lambda>w. promoted p target allowed f (v w))"
proof -
  note swap = fetch_ok_writes(3,4) [OF ok ref, of p new old]
  have run: "git_exec_unit S (plain_update_ref p target new old) w
      = (case gs_exec S (plain_update_ref p target new old) w of (Inl e, w') \<Rightarrow> (Inl e, w') | (Inr _, w') \<Rightarrow> (Inr (), w'))" for w
    by (simp add: git_exec_unit_def git_runWithEnv_def plain_update_ref_def call_apply ret_def)
  show ?thesis
  proof (rule tripleI)
    fix w e w' assume before: "quarantined p f (v w)" and "git_exec_unit S (plain_update_ref p target new old) w = (Inl e, w')"
    then have "v w' = v w" using swap(1) [of w e w'] by (auto simp: run split: prod.splits sum.splits)
    then show "promoted p target allowed f (v w')" using before target by (simp add: quarantined_promoted)
  next
    fix w x w' assume before: "quarantined p f (v w)" and "git_exec_unit S (plain_update_ref p target new old) w = (Inr x, w')"
    then have "v w p target = ref_was old \<and> v w' = set_ref p target new (v w)"
      using swap(2) [of w _ w'] by (auto simp: run split: prod.splits sum.splits)
    moreover have "promoted p target allowed f (set_ref p target new (v w))" if "v w p target = ref_was old"
      using before target allowed that by (simp add: promoted_set_ref)
    ultimately show "promoted p target allowed f (v w') \<and> v w' p target = Some new"
      by (simp add: set_ref_def [of p target new "v w"])
  qed
qed

text \<open>
  The two fetches from end to end: what each may do to the references of the repository, and the
  commands it may run.
\<close>

section \<open>Fetching a declared head\<close>

lemma triple_outcome: "(\<And>w. A w \<Longrightarrow> E w) \<Longrightarrow> triple A (outcome x) (\<lambda>y w. A w \<and> x = Inr y) E"
  by (rule tripleI) (auto simp: outcome_def)

lemma call_outcome_Inr: "call (outcome (Inr x)) h k = k x"
  by (rule ext) (simp add: call_apply outcome_apply)

lemma triple_deferring_result:
  assumes m: "triple P m Q I" and cleanup: "keeps I c" "\<And>x. keeps (Q x) c" and weak: "\<And>x w. Q x w \<Longrightarrow> I w"
  shows "triple P (deferring_joined c h m) Q I"
proof (rule tripleI)
  fix w e w' assume P: "P w" and run: "deferring_joined c h m w = (Inl e, w')"
  obtain r u where r: "m w = (r, u)" by force
  have "I u" using r triple_Inl [OF m P] triple_Inr [OF m P] weak by (cases r) auto
  then have "I (snd (c u))" by (rule keepsD [OF cleanup(1)])
  then show "I w'" using run r by (auto simp: deferring_joined_def split: prod.splits sum.splits)
next
  fix w x w' assume P: "P w" and run: "deferring_joined c h m w = (Inr x, w')"
  obtain u where u: "m w = (Inr x, u)" and w': "w' = snd (c u)"
    using run by (auto simp: deferring_joined_def split: prod.splits sum.splits)
  then show "Q x w'" using keepsD [OF cleanup(2)] triple_Inr [OF m P] by auto
qed

definition pull_target :: "remote_fetch \<Rightarrow> string" where
  "pull_target r = ''refs/adenosine/pull/'' @ rf_Destination r @ ''/head''"

definition prior_head :: "remote_fetch \<Rightarrow> string option" where
  "prior_head r = (if rf_PriorHead r = [] then None else ref_was (rf_PriorHead r))"

definition declared_move :: "remote_fetch \<Rightarrow> string option \<Rightarrow> string option \<Rightarrow> bool" where
  "declared_move r old new \<longleftrightarrow> old = prior_head r \<and> new = Some (rf_ExpectedHead r)"

definition path_is :: "'w git_service \<Rightarrow> uuid \<Rightarrow> string \<Rightarrow> bool" where
  "path_is S rid p \<longleftrightarrow> (\<forall>w x w'. gs_Path S rid w = (Inr x, w') \<longrightarrow> x = p)"

lemma triple_path:
  assumes "remote_ok v ancestor R" and "path_is (rs_git R) rid p" and "\<And>w. I (v w) \<Longrightarrow> E w"
  shows "triple (\<lambda>w. I (v w)) (git_repositoryPath (rs_git R) rid) (\<lambda>x w. I (v w) \<and> x = p) E"
proof (rule tripleI)
  note frame = framesD [OF remote_steps_frame(1) [OF assms(1)]]
  show "E w'" if "I (v w)" "git_repositoryPath (rs_git R) rid w = (Inl e, w')" for w e w'
    using that frame assms(3) by force
  show "I (v w') \<and> x = p" if "I (v w)" "git_repositoryPath (rs_git R) rid w = (Inr x, w')" for w x w'
    using that frame [OF that(2)] assms(2) by (auto simp: git_repositoryPath_def path_is_def op_ok)
qed

lemma validateRemoteFetch_ok:
  assumes "validateRemoteFetch r = Inr u"
  shows "validateBranch (rf_SourceBranch r) = None" and "controlledPullRef (rf_Destination r) = Inr (pull_target r)"
    and "validate_endpoint (rf_SourceURL r) = Inr u"
  using assms controlledPullRef_ok [of "rf_Destination r"]
  by (auto simp: validateRemoteFetch_def pull_target_def split: option.splits sum.splits if_splits)

lemma pull_target_not_quarantine: "\<not> quarantine_ref (pull_target r)" and pull_target_is_ref: "prefix ''refs/'' (pull_target r)"
  by (simp_all add: quarantine_ref_def pull_target_def)

lemma ref_was_zeros: "ref_was (replicate n (CHR ''0'')) = None"
  by (simp add: ref_was_def list_all_iff)

lemma ref_was_Some: "ref_was x = Some y \<Longrightarrow> y = x"
  by (simp add: ref_was_def split: if_splits)

lemma fetch_args_into:
  assumes "validateBranch (rf_SourceBranch r) = None"
  shows "fetch_into p q (command (hardenedFetchArgs p u addresses ca @ fetch_args r q))"
proof -
  have "commandOperation (hardenedFetchArgs p u addresses ca @ fetch_args r q) = ''fetch''"
    unfolding operation_hardened by (simp add: fetch_args_def known_operations_def)
  moreover have "CHR '':'' \<notin> set (''refs/heads/'' @ rf_SourceBranch r)" "CHR ''*'' \<notin> set (''refs/heads/'' @ rf_SourceBranch r)"
    using validateBranch_refspec [OF assms] by auto
  moreover have "last (hardenedFetchArgs p u addresses ca @ fetch_args r q) = ''+'' @ (''refs/heads/'' @ rf_SourceBranch r) @ '':'' @ q"
    by (simp add: fetch_args_def)
  moreover have "''--no-tags'' \<in> set (hardenedFetchArgs p u addresses ca @ fetch_args r q)"
    by (simp add: fetch_args_def)
  ultimately show ?thesis
    unfolding fetch_into_def git_command.select_convs fork_args_git_dir by blast
qed

lemma keeps_promoted_head:
  assumes "git_fetch_ok v ancestor S" and "quarantine_ref q" and "\<not> quarantine_ref target"
  shows "keeps (\<lambda>w. promoted p target allowed f (v w) \<and> v w p target = Some new) (git_exec_unit S (delete_ref p q))"
proof (rule keepsI)
  fix w assume before: "promoted p target allowed f (v w) \<and> v w p target = Some new"
  then have "promoted p target allowed f (v (snd (git_exec_unit S (delete_ref p q) w)))"
    by (blast intro: keepsD [OF keeps_cleanup [OF assms]])
  moreover have "q \<noteq> target" using assms(2,3) by auto
  ultimately show "promoted p target allowed f (v (snd (git_exec_unit S (delete_ref p q) w)))
      \<and> v (snd (git_exec_unit S (delete_ref p q) w)) p target = Some new"
    using before fetch_ok_writes(2) [OF assms(1), of p q w] by (auto simp: exec_unit_snd)
qed

lemma remote_ok_git: "remote_ok v ancestor R \<Longrightarrow> git_fetch_ok v ancestor (rs_git R)"
  by (simp add: remote_ok_def)

lemma triple_fetch_into_quarantine:
  assumes ok: "remote_ok v ancestor R" and r: "validateRemoteFetch r = Inr u" and q: "quarantine_ref q"
  shows "triple (\<lambda>w. quarantined p f (v w)) (fetch_into_quarantine R r u addresses p n q)
     (\<lambda>_ w. promoted p (pull_target r) (declared_move r) f (v w) \<and> v w p (pull_target r) = Some (rf_ExpectedHead r))
     (\<lambda>w. promoted p (pull_target r) (declared_move r) f (v w))"
proof -
  note git = remote_ok_git [OF ok] and head = validateRemoteFetch_ok [OF r]
  note weak = quarantined_promoted [OF pull_target_not_quarantine]
  have swap: "triple (\<lambda>w. quarantined p f (v w)) (promote_fetched (rs_git R) r p n (rf_ExpectedHead r))
     (\<lambda>_ w. promoted p (pull_target r) (declared_move r) f (v w) \<and> v w p (pull_target r) = Some (rf_ExpectedHead r))
     (\<lambda>w. promoted p (pull_target r) (declared_move r) f (v w))"
    unfolding promote_fetched_def head(2) call_outcome_Inr
    apply (rule triple_attempt [OF triple_promote [where allowed = "declared_move r", OF git pull_target_not_quarantine pull_target_is_ref]])
      apply (simp add: declared_move_def prior_head_def ref_was_zeros)
     apply (rule triple_raise, assumption)
    apply (rule triple_ret, assumption)
    done
  show ?thesis
    unfolding fetch_into_quarantine_def Let_def
    apply (rule triple_call [OF triple_weaken [OF keeps_triple [OF keeps_fetch [OF git fetch_args_into [OF head(1)] q]]]],
        assumption, assumption, erule weak)
    apply (rule triple_call [OF triple_frames [OF remote_steps_frame(2) [OF ok]]], erule weak)
    apply (rule triple_call [OF triple_frames [OF remote_steps_frame(3) [OF ok]]], erule weak)
    apply (rule triple_fail_if, erule weak)
    using swap by simp
qed

lemma triple_FetchRemote:
  assumes ok: "remote_ok v ancestor R" and p: "path_is (rs_git R) rid p"
  shows "triple (\<lambda>w. quarantined p f (v w)) (git_FetchRemote R rid r)
     (\<lambda>_ w. promoted p (pull_target r) (declared_move r) f (v w) \<and> v w p (pull_target r) = Some (rf_ExpectedHead r))
     (\<lambda>w. promoted p (pull_target r) (declared_move r) f (v w))"
proof -
  note git = remote_ok_git [OF ok] and weak = quarantined_promoted [OF pull_target_not_quarantine]
  show ?thesis
    unfolding git_FetchRemote_def Let_def
    apply (rule triple_call [OF triple_outcome], erule weak, rule triple_pure)
    apply (rule triple_call [OF triple_frames [OF remote_steps_frame(5) [OF ok]]], erule weak)
    apply (rule triple_call [OF triple_path [OF ok p]], erule weak, rule triple_pure)
    apply (rule triple_call [OF triple_frames [OF remote_steps_frame(4) [OF ok]]], erule weak)
    apply (rule triple_fail_if, erule weak)
    apply (rule triple_call [OF triple_quarantine_name [OF ok]], erule weak, rule triple_pure)
    apply (simp only:)
    apply (rule triple_deferring_result [OF triple_fetch_into_quarantine [OF ok]], assumption, assumption)
      apply (rule keeps_cleanup [OF git], assumption, rule pull_target_not_quarantine)
     apply (rule keeps_promoted_head [OF git], assumption, rule pull_target_not_quarantine)
    apply simp
    done
qed

section \<open>Synchronizing a fork\<close>

definition forward_move :: "(string \<Rightarrow> string \<Rightarrow> bool) \<Rightarrow> string option \<Rightarrow> string option \<Rightarrow> bool" where
  "forward_move ancestor old new \<longleftrightarrow>
     (\<exists>after. new = Some after \<and> (\<forall>before. old = Some before \<longrightarrow> ancestor before after))"

lemma triple_verify:
  assumes ok: "remote_ok v ancestor R" and weak: "\<And>w. I (v w) \<Longrightarrow> E w"
  shows "triple (\<lambda>w. I (v w)) (verify_fast_forward (rs_git R) p before after)
     (\<lambda>_ w. I (v w) \<and> (before = [] \<or> ancestor before after)) E"
proof (cases "before = []")
  case True
  then show ?thesis by (auto simp: verify_fast_forward_def intro: triple_ret)
next
  case False
  have "triple (\<lambda>w. I (v w)) (git_exec_unit (rs_git R) (is_ancestor p before after))
     (\<lambda>_ w. I (v w) \<and> (before = [] \<or> ancestor before after)) E"
  proof (rule tripleI)
    note frame = framesD [OF remote_steps_frame(8) [OF ok]]
    show "E w'" if "I (v w)" "git_exec_unit (rs_git R) (is_ancestor p before after) w = (Inl e, w')" for w e w'
      using that frame weak by force
    show "I (v w') \<and> (before = [] \<or> ancestor before after)"
      if "I (v w)" "git_exec_unit (rs_git R) (is_ancestor p before after) w = (Inr x, w')" for w x w'
      using that frame [OF that(2)] fetch_ok_writes(5) [OF remote_ok_git [OF ok]]
      by (auto simp: git_exec_unit_def git_runWithEnv_def op_ok is_ancestor_def)
  qed
  then show ?thesis
    using False unfolding verify_fast_forward_def
    by (auto intro!: triple_attempt intro: triple_raise triple_ret)
qed

lemma triple_advance_fork:
  assumes ok: "remote_ok v ancestor R" and target: "\<not> quarantine_ref target" and ref: "prefix ''refs/'' target"
  shows "triple (\<lambda>w. quarantined p f (v w)) (advance_fork (rs_git R) p target before after)
     (\<lambda>_ w. promoted p target (forward_move ancestor) f (v w)) (\<lambda>w. promoted p target (forward_move ancestor) f (v w))"
  unfolding advance_fork_def Let_def
  apply (rule triple_if)
   apply (rule triple_ret, erule quarantined_promoted [OF target])
  apply (rule triple_call [OF triple_verify [OF ok]], erule quarantined_promoted [OF target], rule triple_pure)
  apply (rule triple_call [OF triple_promote [OF remote_ok_git [OF ok] target ref]])
   apply (auto simp: forward_move_def ref_was_zeros dest!: ref_was_Some intro: triple_ret)
  done

lemma fork_args_form:
  assumes "forkFetchArgs R p source w = (Inr (args, arg), w')"
  shows "hd (args @ rest) = ''--git-dir='' @ p \<and> commandOperation (args @ ''fetch'' # rest) = ''fetch''"
  using assms
  by (auto simp: forkFetchArgs_def op_ok operation_hardened fork_args_git_dir known_operations_def split: option.splits)

lemma triple_fork_args:
  assumes ok: "remote_ok v ancestor R" and "\<And>w. I (v w) \<Longrightarrow> E w"
  shows "triple (\<lambda>w. I (v w)) (forkFetchArgs R p source)
     (\<lambda>x w. I (v w) \<and> (\<forall>rest. hd (fst x @ rest) = ''--git-dir='' @ p \<and> commandOperation (fst x @ ''fetch'' # rest) = ''fetch'')) E"
proof (rule tripleI)
  note frame = framesD [OF remote_steps_frame(7) [OF ok]]
  show "E w'" if "I (v w)" "forkFetchArgs R p source w = (Inl e, w')" for w e w'
    using that frame assms(2) by force
  show "I (v w') \<and> (\<forall>rest. hd (fst x @ rest) = ''--git-dir='' @ p \<and> commandOperation (fst x @ ''fetch'' # rest) = ''fetch'')"
    if "I (v w)" "forkFetchArgs R p source w = (Inr x, w')" for w x w'
    using that frame [OF that(2)] fork_args_form [of R p source w "fst x" "snd x" w'] by simp
qed

lemma sync_args_into:
  assumes "validateBranch b = None"
    and "\<forall>rest. hd (args @ rest) = ''--git-dir='' @ p \<and> commandOperation (args @ ''fetch'' # rest) = ''fetch''"
  shows "fetch_into p q (command (args @ [''fetch'', ''--no-tags'', ''--no-write-fetch-head'', ''--no-recurse-submodules'',
           ''--force'', source, ''+refs/heads/'' @ b @ '':'' @ q]))"
proof -
  have "CHR '':'' \<notin> set (''refs/heads/'' @ b)" "CHR ''*'' \<notin> set (''refs/heads/'' @ b)"
    using validateBranch_refspec [OF assms(1)] by auto
  then have "\<exists>src. CHR '':'' \<notin> set src \<and> CHR ''*'' \<notin> set src \<and> ''+refs/heads/'' @ b @ '':'' @ q = ''+'' @ src @ '':'' @ q"
    by (intro exI [of _ "''refs/heads/'' @ b"]) simp
  then show ?thesis
    unfolding fetch_into_def git_command.select_convs using assms(2) by simp
qed

lemma triple_SyncFork:
  assumes ok: "remote_ok v ancestor R" and p: "path_is (rs_git R) rid p"
  shows "triple (\<lambda>w. quarantined p f (v w)) (git_SyncFork R rid source b)
     (\<lambda>_ w. promoted p (branch_ref b) (forward_move ancestor) f (v w))
     (\<lambda>w. promoted p (branch_ref b) (forward_move ancestor) f (v w))"
proof -
  note git = remote_ok_git [OF ok] and weak = quarantined_promoted [OF branch_not_quarantine]
  have sync: "triple (\<lambda>w. quarantined p f (v w)) (sync_from R p source b q)
     (\<lambda>_ w. promoted p (branch_ref b) (forward_move ancestor) f (v w))
     (\<lambda>w. promoted p (branch_ref b) (forward_move ancestor) f (v w))"
    if b: "validateBranch b = None" and q: "quarantine_ref q" for q
  proof -
    have fetch: "triple (\<lambda>w. quarantined p f (v w))
        (git_run (rs_git R) (args @ [''fetch'', ''--no-tags'', ''--no-write-fetch-head'', ''--no-recurse-submodules'',
           ''--force'', arg, ''+refs/heads/'' @ b @ '':'' @ q]))
        (\<lambda>_ w. quarantined p f (v w)) (\<lambda>w. promoted p (branch_ref b) (forward_move ancestor) f (v w))"
      if "\<forall>rest. hd (fst (args, arg) @ rest) = ''--git-dir='' @ p
            \<and> commandOperation (fst (args, arg) @ ''fetch'' # rest) = ''fetch''" for args arg
      using that by (intro triple_weaken [OF keeps_triple [OF keeps_fetch [OF git sync_args_into [OF b] q]]] weak) simp_all
    show ?thesis
    unfolding sync_from_def Let_def
    apply (rule triple_call [OF triple_fork_args [OF ok]], erule weak, rule triple_pure, split prod.split, intro allI impI)
    apply (hypsubst, rule triple_call [OF fetch], assumption)
    apply (rule triple_call [OF triple_frames [OF remote_steps_frame(2) [OF ok]]], erule weak)
    apply (rule triple_attempt [OF triple_frames [where I = "quarantined p f" and E = "\<lambda>w. quarantined p f (v w)",
          OF remote_steps_frame(2) [OF ok]]], assumption)
     apply (rule triple_if, rule triple_advance_fork [OF ok branch_not_quarantine branch_is_ref], rule triple_raise, erule weak)
    apply (rule triple_advance_fork [OF ok branch_not_quarantine branch_is_ref])
    done
  qed
  show ?thesis
    unfolding git_SyncFork_def
    apply (rule triple_check, erule weak)
    apply (rule triple_call [OF triple_path [OF ok p]], erule weak, rule triple_pure)
    apply (rule triple_call [OF triple_quarantine_name [OF ok]], erule weak, rule triple_pure)
    apply (simp only:)
    apply (rule triple_deferring_joined [OF sync], assumption, assumption)
    apply (rule keeps_cleanup [OF git], assumption, rule branch_not_quarantine)
    done
qed

end
