(* ===== verification/Git_Remote_Properties.thy ===== *)
theory Git_Remote_Properties
  imports Git_Remote_Safety Git_Listings Git_Address
begin

text \<open>
  Properties of the fetches from other servers, and a small Git that keeps references and a log of
  its commands.
\<close>

section \<open>Where fetches connect\<close>

text \<open>
  A command contacts public addresses only: if it fetches, it fetches an HTTPS URL with the settings of
  \<open>hardenedFetchArgs\<close> (no redirects, no proxy, no credentials), pinned to public addresses.
\<close>

definition contacts_public :: "git_command \<Rightarrow> bool" where
  "contacts_public c \<longleftrightarrow>
     (commandOperation (gc_args c) = ''fetch'' \<longrightarrow>
        (\<exists>p u addresses ca rest. gc_args c = hardenedFetchArgs p u addresses ca @ ''fetch'' # rest
           \<and> u_Scheme u = ''https'' \<and> url_String u \<in> set rest \<and> addresses \<noteq> [] \<and> list_all isPublicIP addresses))"






lemma no_fetch: "commandOperation args \<noteq> ''fetch'' \<Longrightarrow> contacts_public \<lparr>gc_args = args, gc_env = env, gc_input = input\<rparr>"
  by (simp add: contacts_public_def)




lemma keeps_deferring_joined [op_keeps]: "keeps I c \<Longrightarrow> keeps I m \<Longrightarrow> keeps I (deferring_joined c h m)"
  by (auto simp: triple_keeps [symmetric] intro: triple_deferring_joined)








section \<open>A small Git\<close>

definition far_exec :: "git_command \<Rightarrow> (refs \<times> git_command list, string list) op" where
  "far_exec c w =
     (case w of (f, log) \<Rightarrow>
        let args = gc_args c; operation = commandOperation args; p = drop 10 (hd args); l = log @ [c]
        in if operation = ''fetch'' then (Inr [], (set_ref p (snd (cut (CHR '':'') (last args))) (toy_sha (CHR ''d'')) f, l))
           else if operation = ''update-ref'' then
             (if args ! 2 = ''-d'' then (Inr [], (f(p := (f p)(args ! 3 := None)), l))
              else if f p (args ! 2) = ref_was (args ! 4) then (Inr [], (set_ref p (args ! 2) (args ! 3) f, l))
              else (Inl (Command_Error 128), (f, l)))
           else if operation = ''cat-file'' then (Inr (toy_line ''commit''), (f, l))
           else if operation = ''merge-base'' then (Inr [], (f, l))
           else if last args = ''--show-object-format'' then (Inr (toy_line ''sha1''), (f, l))
           else (case f p (last args) of None \<Rightarrow> (Inl (Command_Error 128), (f, l)) | Some sha \<Rightarrow> (Inr (toy_line sha), (f, l))))"

definition far_git :: "(refs \<times> git_command list) remote_service" where
  "far_git = NewServiceWithResolver
     \<lparr>gs_exec = far_exec, gs_ctx_Err = ret (), gs_Prepare = (\<lambda>_. ret ''/repo''), gs_Path = (\<lambda>_. ret ''/repo''),
      gs_lifecycle = None,
      gs_temporary = \<lparr>tf_MkdirTemp = ret ''/tmp/m'', tf_Mkdir = (\<lambda>_. ret ()), tf_WriteFile = (\<lambda>_ _. ret ()),
                      tf_RemoveAll = (\<lambda>_. ret ())\<rparr>,
      gs_beforeMergeCAS = None\<rparr>
     (\<lambda>_. ret [[CHR 0x08, CHR 0x08, CHR 0x08, CHR 0x08]]) None [] (ret (replicate 16 (CHR ''k'')))"

definition far_fetch :: remote_fetch where
  "far_fetch = \<lparr>rf_SourceURL = ''https://example.org/a/b.git'', rf_SourceBranch = ''topic'',
      rf_ExpectedHead = toy_sha (CHR ''d''), rf_Destination = ''pr1'', rf_PriorHead = []\<rparr>"

lemma far_git_simps [simp]:
  "gs_exec (rs_git far_git) = far_exec" "gs_ctx_Err (rs_git far_git) = ret ()" "gs_Path (rs_git far_git) i = ret ''/repo''"
  "gs_Prepare (rs_git far_git) i = ret ''/repo''"
  "rs_LookupIP far_git h = ret [[CHR 0x08, CHR 0x08, CHR 0x08, CHR 0x08]]" "rs_allowIP far_git = isPublicIP"
  "rs_httpCAInfo far_git = []" "rs_rand far_git = ret (replicate 16 (CHR ''k''))"
  by (simp_all add: far_git_def NewServiceWithResolver_def)

lemma cut_refspec: "CHR '':'' \<notin> set src \<Longrightarrow> cut (CHR '':'') (''+'' @ src @ '':'' @ q) = (''+'' @ src, q)"
  using index_byte_first [of "CHR '':''" "''+'' @ src" q] by (simp add: cut_def)

lemma far_git_ok: "remote_ok fst (\<lambda>_ _. True) far_git"
proof -
  have "frames fst (far_exec c)" if "reads_only c" for c
    using that by (auto simp: frames_def far_exec_def Let_def reads_only_def split: option.split prod.split)
  moreover have "fst (snd (far_exec c w)) p' r = fst w p' r" if "fetch_into p q c" "(p', r) \<noteq> (p, q)" for p q c w p' r
    using that by (auto simp: fetch_into_def far_exec_def Let_def cut_refspec [simplified] set_ref_def split: prod.split)
  moreover have "fst (snd (far_exec (delete_ref p q) w)) = (fst w)(p := (fst w p)(q := None))" for p q w
    by (simp add: far_exec_def delete_ref_def known_operations_def Let_def split: prod.split)
  moreover have "case far_exec (plain_update_ref p r new old) w of
       (Inl _, w') \<Rightarrow> fst w' = fst w
     | (Inr _, w') \<Rightarrow> fst w p r = ref_was old \<and> fst w' = set_ref p r new (fst w)" if "prefix ''refs/'' r" for p r new old w
    using that by (auto simp: far_exec_def plain_update_ref_def known_operations_def Let_def split: prod.split)
  ultimately show ?thesis
    unfolding remote_ok_def git_fetch_ok_def merge_surroundings_def far_git_simps
    by (simp add: op_frames) (simp add: far_git_def NewServiceWithResolver_def op_frames)
qed

section \<open>Runs\<close>

lemma far_fetch_run:
  "case git_FetchRemote far_git 1 far_fetch (toy_refs, []) of (res, (f, log)) \<Rightarrow>
     res = Inr () \<and> f ''/repo'' (pull_target far_fetch) = Some (toy_sha (CHR ''d''))
     \<and> map (\<lambda>c. commandOperation (gc_args c)) log
         = [''rev-parse'', ''fetch'', ''rev-parse'', ''cat-file'', ''update-ref'', ''update-ref'']"
  by code_simp

definition far_source :: fork_source where
  "far_source = \<lparr>fork_URI = ''at://x'', fork_CID = ''c'', fork_GitHTTPS = ''https://example.org/a/b.git'', fork_LocalRepositoryID = None\<rparr>"

lemma far_sync_run:
  "case git_SyncFork far_git 1 far_source ''main'' (toy_refs, []) of (res, (f, log)) \<Rightarrow>
     res = Inr \<lparr>BeforeSHA = toy_sha (CHR ''1''), AfterSHA = toy_sha (CHR ''d''), Updated = True\<rparr>
     \<and> f ''/repo'' ''refs/heads/main'' = Some (toy_sha (CHR ''d''))
     \<and> list_ex (\<lambda>c. commandOperation (gc_args c) = ''fetch'') log"
  by code_simp

section \<open>Properties\<close>




text \<open>
  C28. Synchronizing a fork never loses a commit: whatever the upstream repository holds, no reference of
  any repository changes but the branch that is synchronized (and the quarantine of the fork, which
  is cleared), and that branch only to a commit that descends from the one it was at.
\<close>

theorem fork_sync_is_fast_forward:
  assumes "remote_ok v ancestor R" and "path_is (rs_git R) rid p"
  shows "promoted p (branch_ref b) (forward_move ancestor) (v w) (v (snd (git_SyncFork R rid source b w)))"
proof -
  obtain res w' where run: "git_SyncFork R rid source b w = (res, w')" by force
  show ?thesis
    using triple_Inl [OF triple_SyncFork [OF assms, of "v w" source b], of w _ w']
      triple_Inr [OF triple_SyncFork [OF assms, of "v w" source b], of w _ w'] run
    by (cases res) (simp_all add: quarantined_refl)
qed

lemma far_path: "path_is (rs_git far_git) rid ''/repo''"
  by (simp add: path_is_def op_ok)

theorem fork_sync_is_fast_forward_witness:
  "\<exists>f. fst (snd (git_SyncFork far_git 1 far_source ''main'' (toy_refs, []))) = f
     \<and> promoted ''/repo'' ''refs/heads/main'' (forward_move (\<lambda>_ _. True)) toy_refs f
     \<and> toy_refs ''/repo'' ''refs/heads/main'' \<noteq> f ''/repo'' ''refs/heads/main''"
proof -
  have "f ''/repo'' ''refs/heads/main'' = Some (toy_sha (CHR ''d''))"
    if "fst (snd (git_SyncFork far_git 1 far_source ''main'' (toy_refs, []))) = f" for f
    using far_sync_run that by (auto split: prod.splits)
  then show ?thesis
    using fork_sync_is_fast_forward [OF far_git_ok far_path, of "''main''" "(toy_refs, [])" 1 far_source]
    by (simp add: branch_ref_def toy_refs_def toy_sha_def)
qed

text \<open>
  The head of a pull request from another server is the commit that was declared: a fetch that returns
  has moved the controlled reference from the head the caller had seen to the declared commit; no
  fetch moves any other reference, or this one to another commit or from another head.
\<close>

theorem fetched_head_is_the_declared_commit:
  assumes "remote_ok v ancestor R" and "path_is (rs_git R) rid p" and "git_FetchRemote R rid r w = (res, w')"
  shows "promoted p (pull_target r) (declared_move r) (v w) (v w')
     \<and> (res = Inr () \<longrightarrow> v w' p (pull_target r) = Some (rf_ExpectedHead r))"
  using triple_Inl [OF triple_FetchRemote [OF assms(1,2), of "v w" r], of w _ w']
    triple_Inr [OF triple_FetchRemote [OF assms(1,2), of "v w" r], of w _ w'] assms(3)
  by (cases res) (simp_all add: quarantined_refl)

theorem fetched_head_is_the_declared_commit_witness:
  "\<exists>f. fst (snd (git_FetchRemote far_git 1 far_fetch (toy_refs, []))) = f
     \<and> promoted ''/repo'' (pull_target far_fetch) (declared_move far_fetch) toy_refs f
     \<and> f ''/repo'' (pull_target far_fetch) = Some (toy_sha (CHR ''d''))"
proof -
  obtain res f log where run: "git_FetchRemote far_git 1 far_fetch (toy_refs, []) = (res, (f, log))"
    by (metis prod.collapse)
  with far_fetch_run have "res = Inr ()" by simp
  with fetched_head_is_the_declared_commit [OF far_git_ok far_path run] run show ?thesis
    by (simp add: far_fetch_def)
qed

text \<open>
  What the address policy of remote fetches admits, as ranges of addresses.
\<close>

lemma bytes_value_bounds: "0 \<le> bytes_value s \<and> bytes_value s < 256 ^ length s"
proof (induction s rule: rev_induct)
  case (snoc c s)
  have "(0::int) \<le> of_char c \<and> (of_char c :: int) < 256"
    using of_char_mod_256 [of c, where 'a = int] by (metis pos_mod_bound pos_mod_sign zero_less_numeral)
  with snoc show ?case by (simp add: bytes_value_def)
qed (simp add: bytes_value_def)

lemma bytes_value_append: "bytes_value (s @ t) = bytes_value s * 256 ^ length t + bytes_value t"
proof (induction t rule: rev_induct)
  case (snoc c t)
  have last: "bytes_value (u @ [c]) = 256 * bytes_value u + of_char c" for u by (simp add: bytes_value_def)
  show ?case using snoc last [of "s @ t"] last [of t] by (simp add: algebra_simps)
qed (simp add: bytes_value_def)

text \<open>The 16 bytes that stand for an address of 4 bytes.\<close>

definition mapped_slice :: "net_ip \<Rightarrow> net_ip" where
  "mapped_slice ip = replicate 10 (CHR 0x00) @ [CHR 0xFF, CHR 0xFF] @ ip"

lemma mapped_value: "length ip = 4 \<Longrightarrow> bytes_value (mapped_slice ip) = 0xFFFF00000000 + bytes_value ip"
  unfolding mapped_slice_def append_assoc [symmetric] bytes_value_append
  by (simp add: bytes_value_def numeral_eq_Suc)

lemma unmap_mapped:
  assumes "0 \<le> b" and "b < 0x100000000"
  shows "addr_Unmap (V6 (word_of_int (0xFFFF00000000 + b))) = V4 (word_of_int b)"
proof -
  define m where "m = 0xFFFF00000000 + b"
  have parts: "m = b + 0xFFFF * 2 ^ 32" by (simp add: m_def)
  have m: "0 \<le> m" "m < 2 ^ 128" using assms by (simp_all add: m_def)
  have halves: "m div 2 ^ 32 = 0xFFFF" "m mod 2 ^ 32 = b"
    unfolding parts div_mult_self1 mod_mult_self1 using assms by simp_all
  have num: "uint (word_of_int m :: 128 word) = m"
    using m by (simp add: uint_word_of_int)
  have "uint (drop_bit 32 (word_of_int m :: 128 word)) = 0xFFFF"
    by (subst unsigned_drop_bit_eq) (simp only: num drop_bit_eq_div take_bit_eq_mod halves, use m halves in simp)
  then have "is4In6 (word_of_int m)"
    by (simp add: is4In6_def word_uint_eq_iff)
  moreover have "uint (ucast (word_of_int m :: 128 word) :: 32 word) = b"
    using halves(2) by (subst unsigned_ucast_eq) (simp add: num take_bit_eq_mod)
  then have "(ucast (word_of_int m :: 128 word) :: 32 word) = word_of_int b"
    using word_of_int_uint by metis
  ultimately show ?thesis by (simp add: m_def)
qed

text \<open>
  C30. The address policy is the list of reserved ranges: an address of four bytes may be connected to
  exactly if it lies in none of the fifteen ranges, and writing it as an address of sixteen bytes is no
  way around them.
\<close>

theorem public_addresses_avoid_reserved_ranges:
  assumes "length ip = 4"
  shows "(isPublicIP ip \<longleftrightarrow> outside reserved_v4 (nat (bytes_value ip)))
     \<and> (isPublicIP (mapped_slice ip) \<longleftrightarrow> isPublicIP ip)"
proof -
  have bounds: "0 \<le> bytes_value ip" "bytes_value ip < 0x100000000"
    using bytes_value_bounds [of ip] assms by simp_all
  then have num: "unat (word_of_int (bytes_value ip) :: 32 word) = nat (bytes_value ip)"
    by (simp add: unat_eq_nat_uint uint_word_of_int)
  have plain: "isPublicIP ip \<longleftrightarrow> outside reserved_v4 (nat (bytes_value ip))"
    using assms by (simp add: isPublicIP_alt AddrFromSlice_def public_v4 num)
  have "length (mapped_slice ip) = 16" using assms by (simp add: mapped_slice_def)
  then show ?thesis
    using assms unmap_mapped [OF bounds] plain
    by (simp add: isPublicIP_alt AddrFromSlice_def mapped_value public_v4 num del: addr_Unmap.simps)
qed

definition metadata_address :: net_ip where
  "metadata_address = [CHR 0xA9, CHR 0xFE, CHR 0xA9, CHR 0xFE]"

theorem public_addresses_avoid_reserved_ranges_witness:
  "\<not> isPublicIP metadata_address \<and> \<not> isPublicIP (mapped_slice metadata_address) \<and> isPublicIP (replicate 4 (CHR 0x08))"
proof -
  have "bytes_value metadata_address = 0xA9FEA9FE" "bytes_value (replicate 4 (CHR 0x08)) = 0x08080808"
    by (simp_all add: bytes_value_def metadata_address_def numeral_eq_Suc)
  then show ?thesis
    using public_addresses_avoid_reserved_ranges [of metadata_address]
      public_addresses_avoid_reserved_ranges [of "replicate 4 (CHR 0x08)"]
    by (simp add: metadata_address_def outside_def reserved_v4_def list_all_Cons_iff list_all_Nil_iff)
qed

end
