(* ===== verification/Protection.thy ===== *)
theory Protection imports Git_Service Org_Queries begin

text \<open>
  \<^verbatim>\<open>internal/branchprotection/branchprotection.go\<close> with the queries of \<^verbatim>\<open>branch_protections.sql\<close> on the
  table of migration 20: the rules on pushes to a repository, kept in the database and written to
  the configuration that \<open>git receive-pack\<close> enforces.
\<close>

section \<open>Data\<close>

record protection =
  bp_ID :: uuid
  bp_RepositoryID :: uuid
  bp_Pattern :: string
  bp_DenyForcePush :: bool
  bp_DenyDeletion :: bool
  bp_CreatedAt :: instant
  bp_UpdatedAt :: instant

record protection_input =
  bi_Pattern :: string
  bi_DenyForcePush :: bool
  bi_DenyDeletion :: bool

record protection_page =
  bpp_Items :: "protection list"
  bpp_NextCursor :: "uuid option"

definition ProtectionInput_Validate :: "protection_input \<Rightarrow> err option" where
  "ProtectionInput_Validate input =
     (if bi_Pattern input \<noteq> ''*''
      then Some (because bp_ErrValidation ''basic protection supports only the repository-wide * pattern'')
      else if \<not> bi_DenyForcePush input \<and> \<not> bi_DenyDeletion input
      then Some (because bp_ErrValidation ''at least one protection must be enabled'')
      else None)"

section \<open>The world\<close>

text \<open>
  The table, the repositories its rows refer to, the schedules of \<open>uuid.NewV7\<close> and of database
  faults, and the world of Git.
\<close>

record 'g protection_world =
  bw_rows :: "protection list"
  bw_repositories :: "uuid list"
  bw_faults :: "bool list"
  bw_ids :: "nat \<Rightarrow> err + uuid"
  bw_ids_used :: nat
  bw_git :: 'g

type_synonym ('g, 'a) protection_sql = "'g protection_world \<Rightarrow> err + 'a \<times> protection list"

definition bp_query :: "('g, 'a) protection_sql \<Rightarrow> ('g protection_world, 'a) op" where
  "bp_query q w =
     (let v = w\<lparr>bw_faults := tl (bw_faults w)\<rparr>
      in if bw_faults w \<noteq> [] \<and> hd (bw_faults w) then (Inl (Opaque ''database''), v)
         else case q w of
             Inl e \<Rightarrow> (Inl e, v)
           | Inr (x, rows) \<Rightarrow> (Inr x, v\<lparr>bw_rows := rows\<rparr>))"

definition bp_NewV7 :: "('g protection_world, uuid) op" where
  "bp_NewV7 w = (bw_ids w (bw_ids_used w), w\<lparr>bw_ids_used := Suc (bw_ids_used w)\<rparr>)"

definition on_git :: "('g, 'a) op \<Rightarrow> ('g protection_world, 'a) op" where
  "on_git m w = (case m (bw_git w) of (r, g) \<Rightarrow> (r, w\<lparr>bw_git := g\<rparr>))"

section \<open>Queries\<close>

definition sql_CreateBranchProtection :: "protection \<Rightarrow> ('g, protection) protection_sql" where
  "sql_CreateBranchProtection p w =
     (if bp_RepositoryID p \<notin> set (bw_repositories w) then Inl (Pg_Error ''23503'')
      else if \<not> (1 \<le> length (runes (bp_Pattern p)) \<and> length (runes (bp_Pattern p)) \<le> 255) then Inl (Pg_Error ''23514'')
      else if list_ex (\<lambda>r. bp_ID r = bp_ID p \<or> bp_RepositoryID r = bp_RepositoryID p \<and> bp_Pattern r = bp_Pattern p)
                (bw_rows w) then Inl (Pg_Error ''23505'')
      else Inr (p, bw_rows w @ [p]))"

definition same_protection :: "uuid \<Rightarrow> uuid \<Rightarrow> protection \<Rightarrow> bool" where
  "same_protection rid pid r \<longleftrightarrow> bp_ID r = pid \<and> bp_RepositoryID r = rid"

definition sql_GetBranchProtection :: "uuid \<Rightarrow> uuid \<Rightarrow> ('g, protection) protection_sql" where
  "sql_GetBranchProtection rid pid w =
     (case find (same_protection rid pid) (bw_rows w) of
        None \<Rightarrow> Inl (Sentinel pgx_ErrNoRows) | Some r \<Rightarrow> Inr (r, bw_rows w))"

text \<open>A cursor that is no protection of the repository compares with no row.\<close>

definition before_cursor :: "uuid \<Rightarrow> uuid option \<Rightarrow> protection list \<Rightarrow> protection \<Rightarrow> bool" where
  "before_cursor rid after_id rows p \<longleftrightarrow>
     (case after_id of
        None \<Rightarrow> True
      | Some a \<Rightarrow>
          (case find (same_protection rid a) rows of
             None \<Rightarrow> False
           | Some c \<Rightarrow> bp_CreatedAt p < bp_CreatedAt c \<or> bp_CreatedAt p = bp_CreatedAt c \<and> bp_ID p < bp_ID c))"

definition sql_PageBranchProtections :: "uuid \<Rightarrow> uuid option \<Rightarrow> int \<Rightarrow> ('g, protection list) protection_sql" where
  "sql_PageBranchProtections rid after_id page_limit w =
     Inr (take (nat page_limit)
            (sort_by (\<lambda>a b. bp_CreatedAt b < bp_CreatedAt a \<or> bp_CreatedAt a = bp_CreatedAt b \<and> bp_ID b \<le> bp_ID a)
              (filter (\<lambda>p. bp_RepositoryID p = rid \<and> before_cursor rid after_id (bw_rows w) p) (bw_rows w))),
          bw_rows w)"

definition apply_input :: "protection_input \<Rightarrow> instant \<Rightarrow> protection \<Rightarrow> protection" where
  "apply_input input now r =
     r\<lparr>bp_Pattern := bi_Pattern input, bp_DenyForcePush := bi_DenyForcePush input,
       bp_DenyDeletion := bi_DenyDeletion input, bp_UpdatedAt := now\<rparr>"

definition sql_UpdateBranchProtection ::
  "uuid \<Rightarrow> uuid \<Rightarrow> protection_input \<Rightarrow> instant \<Rightarrow> ('g, protection) protection_sql" where
  "sql_UpdateBranchProtection rid pid input now w =
     (case find (same_protection rid pid) (bw_rows w) of
        None \<Rightarrow> Inl (Sentinel pgx_ErrNoRows)
      | Some r \<Rightarrow>
          if \<not> (1 \<le> length (runes (bi_Pattern input)) \<and> length (runes (bi_Pattern input)) \<le> 255) then Inl (Pg_Error ''23514'')
          else if list_ex (\<lambda>s. \<not> same_protection rid pid s \<and> bp_RepositoryID s = rid \<and> bp_Pattern s = bi_Pattern input)
                    (bw_rows w) then Inl (Pg_Error ''23505'')
          else Inr (apply_input input now r, update_where (same_protection rid pid) (apply_input input now) (bw_rows w)))"

definition sql_DeleteBranchProtection :: "uuid \<Rightarrow> uuid \<Rightarrow> ('g, int) protection_sql" where
  "sql_DeleteBranchProtection rid pid w =
     Inr (int (length (filter (same_protection rid pid) (bw_rows w))), delete_where (same_protection rid pid) (bw_rows w))"

text \<open>The disjunction over the protections of the repository; false of none.\<close>

definition sql_GetEffectiveReceiveProtection :: "uuid \<Rightarrow> ('g, bool \<times> bool) protection_sql" where
  "sql_GetEffectiveReceiveProtection rid w =
     (let rows = filter (\<lambda>p. bp_RepositoryID p = rid) (bw_rows w)
      in Inr ((list_ex bp_DenyForcePush rows, list_ex bp_DenyDeletion rows), bw_rows w))"

section \<open>The service\<close>

text \<open>\<open>mapError\<close>\<close>

definition bp_mapError :: "err \<Rightarrow> err" where
  "bp_mapError e =
     (if errors_is e pgx_ErrNoRows then Sentinel bp_ErrNotFound
      else if as_pg_error e = Some ''23505'' then Sentinel bp_ErrConflict
      else wrapf ''branch protection query'' e)"

definition bp_syncGit :: "'g git_service \<Rightarrow> uuid \<Rightarrow> ('g protection_world, unit) op" where
  "bp_syncGit G rid =
     call (bp_query (sql_GetEffectiveReceiveProtection rid)) (wrapf ''resolve effective branch protection'')
       (\<lambda>(denyForcePush, denyDeletion).
     call (on_git (git_SetReceiveProtection G rid denyForcePush denyDeletion))
       (wrapf ''apply Git branch protection'') ret)"

definition bp_Create ::
  "'g git_service \<Rightarrow> uuid \<Rightarrow> protection_input \<Rightarrow> instant \<Rightarrow> ('g protection_world, protection) op" where
  "bp_Create G rid input now =
     check (ProtectionInput_Validate input) (\<lambda>e. e) (
     call bp_NewV7 (wrapf ''generate branch protection ID'') (\<lambda>pid.
     call (bp_query (sql_CreateBranchProtection
             \<lparr>bp_ID = pid, bp_RepositoryID = rid, bp_Pattern = bi_Pattern input,
              bp_DenyForcePush = bi_DenyForcePush input, bp_DenyDeletion = bi_DenyDeletion input,
              bp_CreatedAt = now, bp_UpdatedAt = now\<rparr>)) bp_mapError (\<lambda>row.
     call (bp_syncGit G rid) (\<lambda>e. e) (\<lambda>_.
     ret row))))"

definition bp_Get :: "uuid \<Rightarrow> uuid \<Rightarrow> ('g protection_world, protection) op" where
  "bp_Get rid pid = call (bp_query (sql_GetBranchProtection rid pid)) bp_mapError ret"

definition bp_Page :: "uuid \<Rightarrow> uuid option \<Rightarrow> int \<Rightarrow> ('g protection_world, protection_page) op" where
  "bp_Page rid after_id limit =
     fail_if (limit < 1 \<or> 100 < limit) (because bp_ErrValidation ''limit must be between 1 and 100'') (
     call (bp_query (sql_PageBranchProtections rid after_id (limit + 1))) (wrapf ''page branch protections'') (\<lambda>rows.
     ret \<lparr>bpp_Items = page_items rows (nat limit), bpp_NextCursor = page_cursor rows (nat limit) bp_ID\<rparr>))"

definition bp_Update ::
  "'g git_service \<Rightarrow> uuid \<Rightarrow> uuid \<Rightarrow> protection_input \<Rightarrow> instant \<Rightarrow> ('g protection_world, protection) op" where
  "bp_Update G rid pid input now =
     check (ProtectionInput_Validate input) (\<lambda>e. e) (
     call (bp_query (sql_UpdateBranchProtection rid pid input now)) bp_mapError (\<lambda>row.
     call (bp_syncGit G rid) (\<lambda>e. e) (\<lambda>_.
     ret row)))"

definition bp_Delete :: "'g git_service \<Rightarrow> uuid \<Rightarrow> uuid \<Rightarrow> ('g protection_world, unit) op" where
  "bp_Delete G rid pid =
     call (bp_query (sql_DeleteBranchProtection rid pid)) (wrapf ''delete branch protection'') (\<lambda>rows.
     fail_if (rows = 0) (Sentinel bp_ErrNotFound) (
     bp_syncGit G rid))"

section \<open>Evaluation\<close>

lemma bp_query_apply [op_eval]:
  "bp_query q w =
     (let v = w\<lparr>bw_faults := tl (bw_faults w)\<rparr>
      in if bw_faults w \<noteq> [] \<and> hd (bw_faults w) then (Inl (Opaque ''database''), v)
         else case q w of Inl e \<Rightarrow> (Inl e, v) | Inr (x, rows) \<Rightarrow> (Inr x, v\<lparr>bw_rows := rows\<rparr>))"
  by (rule bp_query_def)

lemma bp_query_ok [op_ok]:
  "bp_query q w = (Inr x, w') \<longleftrightarrow>
     \<not> (bw_faults w \<noteq> [] \<and> hd (bw_faults w)) \<and>
     (\<exists>rows. q w = Inr (x, rows) \<and> w' = w\<lparr>bw_faults := tl (bw_faults w), bw_rows := rows\<rparr>)"
  by (auto simp: bp_query_def Let_def split: sum.splits)

lemma on_git_ok [op_ok]: "on_git m w = (Inr x, w') \<longleftrightarrow> (\<exists>g. m (bw_git w) = (Inr x, g) \<and> w' = w\<lparr>bw_git := g\<rparr>)"
  by (auto simp: on_git_def split: prod.splits)

text \<open>What a query that fails leaves behind: everything but the fault script.\<close>

lemma bp_query_fails:
  "bp_query q w = (Inl e, w') \<Longrightarrow> bw_rows w' = bw_rows w \<and> bw_git w' = bw_git w \<and> bw_repositories w' = bw_repositories w"
  by (auto simp: bp_query_def Let_def split: if_splits sum.splits)

end
