(* ===== verification/Protection_Properties.thy ===== *)
theory Protection_Properties
  imports Protection Go_Parse
begin

text \<open>
  What the branch protections promise, as an abstract machine: each repository has at most one
  protection, and what Git enforces on a push is that protection. The service and its table
  implement the machine.
\<close>

section \<open>The abstract machine\<close>

type_synonym protections = "uuid \<Rightarrow> (uuid \<times> bool \<times> bool) option"

datatype protection_request =
    Protect uuid protection_input
  | Change uuid uuid protection_input
  | Unprotect uuid uuid

fun request_repository :: "protection_request \<Rightarrow> uuid" where
  "request_repository (Protect rid _) = rid"
| "request_repository (Change rid _ _) = rid"
| "request_repository (Unprotect rid _) = rid"

abbreviation rule_of :: "uuid \<Rightarrow> protection_input \<Rightarrow> uuid \<times> bool \<times> bool" where
  "rule_of pid input \<equiv> (pid, bi_DenyForcePush input, bi_DenyDeletion input)"

inductive protects :: "protection_request \<Rightarrow> protections \<Rightarrow> protections \<Rightarrow> bool" where
  Protected: "m rid = None \<Longrightarrow> bi_DenyForcePush input \<or> bi_DenyDeletion input \<Longrightarrow>
     protects (Protect rid input) m (m(rid \<mapsto> rule_of pid input))"
| Changed: "m rid = Some (pid, rule) \<Longrightarrow> bi_DenyForcePush input \<or> bi_DenyDeletion input \<Longrightarrow>
     protects (Change rid pid input) m (m(rid \<mapsto> rule_of pid input))"
| Unprotected: "m rid = Some (pid, rule) \<Longrightarrow> protects (Unprotect rid pid) m (m(rid := None))"

inductive_cases protects_ProtectE: "protects (Protect rid input) m m'"
inductive_cases protects_ChangeE: "protects (Change rid pid input) m m'"
inductive_cases protects_UnprotectE: "protects (Unprotect rid pid) m m'"

definition effective :: "protections \<Rightarrow> uuid \<Rightarrow> bool \<times> bool" where
  "effective m rid = (case m rid of None \<Rightarrow> (False, False) | Some (_, rule) \<Rightarrow> rule)"

lemma protects_elsewhere: "protects r m m' \<Longrightarrow> rid \<noteq> request_repository r \<Longrightarrow> m' rid = m rid"
  by (induction rule: protects.induct) auto

section \<open>The abstraction\<close>

definition rule_in :: "protection \<Rightarrow> uuid \<times> bool \<times> bool" where
  "rule_in p = (bp_ID p, bp_DenyForcePush p, bp_DenyDeletion p)"

definition abs_protections :: "protection list \<Rightarrow> protections" where
  "abs_protections rows rid = map_option rule_in (find (\<lambda>p. bp_RepositoryID p = rid) rows)"

definition protections_ok :: "protection list \<Rightarrow> bool" where
  "protections_ok rows \<longleftrightarrow> keyed bp_ID rows \<and> keyed bp_RepositoryID rows
     \<and> list_all (\<lambda>p. bp_Pattern p = ''*'' \<and> (bp_DenyForcePush p \<or> bp_DenyDeletion p)) rows"

lemma abs_Some:
  assumes "protections_ok rows"
  shows "abs_protections rows rid = Some rule \<longleftrightarrow> (\<exists>p \<in> set rows. bp_RepositoryID p = rid \<and> rule_in p = rule)"
proof -
  have "p \<in> set rows \<Longrightarrow> find (\<lambda>q. bp_RepositoryID q = bp_RepositoryID p) rows = Some p" for p
    using assms by (auto simp: protections_ok_def intro: keyed_find)
  then show ?thesis by (auto simp: abs_protections_def dest: find_Some_in)
qed

lemma abs_None: "abs_protections rows rid = None \<longleftrightarrow> (\<forall>p \<in> set rows. bp_RepositoryID p \<noteq> rid)"
  by (simp add: abs_protections_def find_None_in)

text \<open>What the database computes for Git is the rule of the repository.\<close>

lemma effective_abs:
  assumes "protections_ok rows"
  shows "effective (abs_protections rows) rid
     = (let ps = filter (\<lambda>p. bp_RepositoryID p = rid) rows in (list_ex bp_DenyForcePush ps, list_ex bp_DenyDeletion ps))"
proof (cases "abs_protections rows rid")
  case None
  then have "filter (\<lambda>p. bp_RepositoryID p = rid) rows = []" by (simp add: abs_None filter_empty_conv)
  then show ?thesis using None by (simp add: effective_def)
next
  case (Some rule)
  then obtain p where p: "p \<in> set rows" "bp_RepositoryID p = rid" "rule_in p = rule"
    using abs_Some [OF assms] by blast
  then have only: "q \<in> set rows \<Longrightarrow> bp_RepositoryID q = rid \<Longrightarrow> q = p" for q
    using assms by (metis keyed_unique protections_ok_def)
  have "set (filter (\<lambda>p. bp_RepositoryID p = rid) rows) = {p}"
    by (intro equalityI subsetI) (auto dest: only simp: p(1,2))
  then have "list_ex P (filter (\<lambda>p. bp_RepositoryID p = rid) rows) \<longleftrightarrow> P p" for P
    by (simp add: list_ex_iff)
  then show ?thesis
    using p(3) [symmetric] Some by (simp add: effective_def rule_in_def Let_def)
qed

section \<open>The statements\<close>

lemma abs_ext:
  assumes "protections_ok rows" "protections_ok rows'"
    and "\<And>rid rule. (\<exists>p \<in> set rows'. bp_RepositoryID p = rid \<and> rule_in p = rule) \<longleftrightarrow> m rid = Some rule"
  shows "abs_protections rows' = m"
proof
  fix rid show "abs_protections rows' rid = m rid"
    using assms(3) [of rid] abs_Some [OF assms(2), of rid] by (metis option.exhaust)
qed

lemma insert_protection:
  assumes ok: "protections_ok rows" and "bp_Pattern p = ''*''" and "bp_DenyForcePush p \<or> bp_DenyDeletion p"
    and new: "\<not> list_ex (\<lambda>r. bp_ID r = bp_ID p \<or> bp_RepositoryID r = bp_RepositoryID p \<and> bp_Pattern r = bp_Pattern p) rows"
  shows "protections_ok (rows @ [p])" and "abs_protections rows (bp_RepositoryID p) = None"
    and "abs_protections (rows @ [p]) = (abs_protections rows)(bp_RepositoryID p \<mapsto> rule_in p)"
proof -
  have fresh: "\<forall>r \<in> set rows. bp_ID r \<noteq> bp_ID p \<and> bp_RepositoryID r \<noteq> bp_RepositoryID p"
    using new ok assms(2) by (auto simp: list_ex_iff protections_ok_def list_all_iff)
  then show ok': "protections_ok (rows @ [p])"
    using ok assms(2,3) by (auto simp: protections_ok_def list_all_iff)
  show "abs_protections rows (bp_RepositoryID p) = None" using fresh by (simp add: abs_None)
  show "abs_protections (rows @ [p]) = (abs_protections rows)(bp_RepositoryID p \<mapsto> rule_in p)"
    by (rule abs_ext [OF ok ok']) (use fresh in \<open>auto simp: abs_Some [OF ok]\<close>)
qed

lemma update_protection:
  assumes ok: "protections_ok rows" and found: "find (same_protection rid pid) rows = Some r"
    and input: "ProtectionInput_Validate input = None"
  shows "protections_ok (update_where (same_protection rid pid) (apply_input input now) rows)"
    and "\<exists>rule. abs_protections rows rid = Some (pid, rule)"
    and "abs_protections (update_where (same_protection rid pid) (apply_input input now) rows)
       = (abs_protections rows)(rid \<mapsto> rule_of pid input)"
proof -
  have r: "r \<in> set rows" "bp_ID r = pid" "bp_RepositoryID r = rid"
    using find_Some_in [OF found] by (auto simp: same_protection_def)
  have only: "q \<in> set rows \<Longrightarrow> bp_RepositoryID q = rid \<Longrightarrow> q = r" for q
    using ok r by (metis keyed_unique protections_ok_def)
  have valid: "bi_Pattern input = ''*''" "bi_DenyForcePush input \<or> bi_DenyDeletion input"
    using input by (auto simp: ProtectionInput_Validate_def split: if_splits)
  show ok': "protections_ok (update_where (same_protection rid pid) (apply_input input now) rows)"
    using ok valid
    by (auto simp: protections_ok_def list_all_iff in_update_where keyed_update_where apply_input_def)
  show "\<exists>rule. abs_protections rows rid = Some (pid, rule)"
    using r by (auto simp: abs_Some [OF ok] rule_in_def)
  show "abs_protections (update_where (same_protection rid pid) (apply_input input now) rows)
       = (abs_protections rows)(rid \<mapsto> rule_of pid input)"
  proof (rule abs_ext [OF ok ok'])
    fix rid' rule
    show "(\<exists>p \<in> set (update_where (same_protection rid pid) (apply_input input now) rows).
             bp_RepositoryID p = rid' \<and> rule_in p = rule)
        \<longleftrightarrow> ((abs_protections rows)(rid \<mapsto> rule_of pid input)) rid' = Some rule"
    proof (cases "rid' = rid")
      case True
      let ?rows = "update_where (same_protection rid pid) (apply_input input now) rows"
      have member: "apply_input input now r \<in> set ?rows" "bp_RepositoryID (apply_input input now r) = rid"
        "rule_in (apply_input input now r) = rule_of pid input"
        using r by (auto simp: in_update_where same_protection_def apply_input_def rule_in_def)
      have alone: "p = apply_input input now r" if "p \<in> set ?rows" "bp_RepositoryID p = rid" for p
      proof -
        obtain q where q: "q \<in> set rows" "p = apply_input input now q \<and> same_protection rid pid q \<or> p = q \<and> \<not> same_protection rid pid q"
          using \<open>p \<in> set ?rows\<close> by (auto simp: in_update_where)
        then have "bp_RepositoryID q = rid" using that(2) by (auto simp: apply_input_def)
        from only [OF q(1) this] q(2) r show ?thesis by (auto simp: same_protection_def)
      qed
      have "(\<exists>p \<in> set ?rows. bp_RepositoryID p = rid \<and> rule_in p = rule) \<longleftrightarrow> rule_of pid input = rule"
        using member alone by (metis (no_types, lifting))
      then show ?thesis using True by simp
    next
      case False
      then have "(p \<in> set (update_where (same_protection rid pid) (apply_input input now) rows) \<and> bp_RepositoryID p = rid')
          \<longleftrightarrow> (p \<in> set rows \<and> bp_RepositoryID p = rid')" for p
        by (auto simp: in_update_where apply_input_def same_protection_def)
      then show ?thesis
        using False by (simp only: abs_Some [OF ok] Bex_def conj_assoc [symmetric] fun_upd_apply if_False)
    qed
  qed
qed

lemma delete_protection:
  assumes ok: "protections_ok rows" and "filter (same_protection rid pid) rows \<noteq> []"
  shows "protections_ok (delete_where (same_protection rid pid) rows)"
    and "\<exists>rule. abs_protections rows rid = Some (pid, rule)"
    and "abs_protections (delete_where (same_protection rid pid) rows) = (abs_protections rows)(rid := None)"
proof -
  obtain r where r: "r \<in> set rows" "bp_ID r = pid" "bp_RepositoryID r = rid"
    using assms(2) by (auto simp: filter_empty_conv same_protection_def)
  have only: "q \<in> set rows \<Longrightarrow> bp_RepositoryID q = rid \<Longrightarrow> q = r" for q
    using ok r by (metis keyed_unique protections_ok_def)
  show ok': "protections_ok (delete_where (same_protection rid pid) rows)"
    using ok by (auto simp: protections_ok_def list_all_iff keyed_delete_where)
  show "\<exists>rule. abs_protections rows rid = Some (pid, rule)"
    using r by (auto simp: abs_Some [OF ok] rule_in_def)
  show "abs_protections (delete_where (same_protection rid pid) rows) = (abs_protections rows)(rid := None)"
  proof (rule abs_ext [OF ok ok'])
    fix rid' rule
    have same: "same_protection rid pid q \<longleftrightarrow> bp_RepositoryID q = rid" if "q \<in> set rows" for q
      using only [OF that] r by (auto simp: same_protection_def)
    show "(\<exists>p \<in> set (delete_where (same_protection rid pid) rows). bp_RepositoryID p = rid' \<and> rule_in p = rule)
        \<longleftrightarrow> ((abs_protections rows)(rid := None)) rid' = Some rule"
      using same by (cases "rid' = rid") (auto simp: abs_Some [OF ok])
  qed
qed

section \<open>Git's configuration\<close>

definition config_command :: "string \<Rightarrow> string \<Rightarrow> bool \<Rightarrow> git_command" where
  "config_command p key b = command [''--git-dir='' @ p, ''config'', ''--bool'', key, bool_text b]"

text \<open>
  What Git documents of \<open>git config\<close>: a call that succeeds sets the key of that repository, and one
  that fails sets nothing. The directories of two repositories differ.
\<close>

definition config_ok :: "('g \<Rightarrow> string \<Rightarrow> string \<Rightarrow> bool) \<Rightarrow> (uuid \<Rightarrow> string) \<Rightarrow> 'g git_service \<Rightarrow> bool" where
  "config_ok cfg path G \<longleftrightarrow>
     inj path \<and> (\<forall>rid. frames cfg (gs_Path G rid)) \<and> (\<forall>rid g p g'. gs_Path G rid g = (Inr p, g') \<longrightarrow> p = path rid)
     \<and> (\<forall>p key b g. case gs_exec G (config_command p key b) g of
          (Inl _, g') \<Rightarrow> cfg g' = cfg g
        | (Inr _, g') \<Rightarrow> cfg g' = (cfg g)(p := (cfg g p)(key := b)))"

definition enforced :: "('g \<Rightarrow> string \<Rightarrow> string \<Rightarrow> bool) \<Rightarrow> (uuid \<Rightarrow> string) \<Rightarrow> 'g \<Rightarrow> uuid \<Rightarrow> bool \<times> bool" where
  "enforced cfg path g rid = (cfg g (path rid) ''receive.denyNonFastForwards'', cfg g (path rid) ''receive.denyDeletes'')"

lemma git_run_config:
  assumes "config_ok cfg path G"
  shows "git_run G [''--git-dir='' @ p, ''config'', ''--bool'', key, bool_text b] g = (res, g') \<Longrightarrow>
     case res of Inl _ \<Rightarrow> cfg g' = cfg g | Inr _ \<Rightarrow> cfg g' = (cfg g)(p := (cfg g p)(key := b))"
  using assms [unfolded config_ok_def, THEN conjunct2, THEN conjunct2, THEN conjunct2, THEN spec [of _ p],
      THEN spec [of _ key], THEN spec [of _ b], THEN spec [of _ g]]
  by (auto simp: git_run_def git_runWithEnv_def config_command_def call_apply ret_def split: prod.splits sum.splits)

lemma SetReceiveProtection_config:
  assumes ok: "config_ok cfg path G" and run: "git_SetReceiveProtection G rid force delete g = (res, g')"
  shows "rid' \<noteq> rid \<Longrightarrow> enforced cfg path g' rid' = enforced cfg path g rid'"
    and "res = Inr () \<Longrightarrow> enforced cfg path g' rid = (force, delete)"
proof -
  have inj: "inj path" and path: "frames cfg (gs_Path G rid)" "\<And>g p g'. gs_Path G rid g = (Inr p, g') \<Longrightarrow> p = path rid"
    using ok unfolding config_ok_def by blast+
  note config = git_run_config [OF ok]
  obtain q u where u: "gs_Path G rid g = (q, u)" by force
  have cfg_u: "cfg u = cfg g" using framesD [OF path(1) u] .
  obtain q1 u1 where u1: "git_run G [''--git-dir='' @ path rid, ''config'', ''--bool'', ''receive.denyNonFastForwards'', bool_text force] u = (q1, u1)"
    by force
  obtain q2 u2 where u2: "git_run G [''--git-dir='' @ path rid, ''config'', ''--bool'', ''receive.denyDeletes'', bool_text delete] u1 = (q2, u2)"
    by force
  note steps = config [OF u1] config [OF u2]
  have apart: "rid' \<noteq> rid \<Longrightarrow> path rid' \<noteq> path rid" for rid' using inj by (meson injD)
  show "rid' \<noteq> rid \<Longrightarrow> enforced cfg path g' rid' = enforced cfg path g rid'"
    using run u path(2) [of g _ u] cfg_u u1 u2 steps apart [of rid']
    by (auto simp: git_SetReceiveProtection_def enforced_def op_eval split: sum.splits)
  show "res = Inr () \<Longrightarrow> enforced cfg path g' rid = (force, delete)"
    using run u path(2) [of g _ u] cfg_u u1 u2 steps
    by (auto simp: git_SetReceiveProtection_def enforced_def op_eval split: sum.splits)
qed

text \<open>
  The service implements the abstract machine of the protections, request by request, and the
  configuration Git enforces follows it as long as requests succeed.
\<close>

section \<open>Requests\<close>

definition serve_protection ::
  "'g git_service \<Rightarrow> instant \<Rightarrow> protection_request \<Rightarrow> ('g protection_world, unit) op" where
  "serve_protection G now r =
     (case r of
        Protect rid input \<Rightarrow> call (bp_Create G rid input now) (\<lambda>e. e) (\<lambda>_. ret ())
      | Change rid pid input \<Rightarrow> call (bp_Update G rid pid input now) (\<lambda>e. e) (\<lambda>_. ret ())
      | Unprotect rid pid \<Rightarrow> bp_Delete G rid pid)"

text \<open>
  \<open>mirrors\<close>: the table is well formed, and Git enforces its protections, on every repository.
\<close>

definition mirrors ::
  "('g \<Rightarrow> string \<Rightarrow> string \<Rightarrow> bool) \<Rightarrow> (uuid \<Rightarrow> string) \<Rightarrow> 'g protection_world \<Rightarrow> bool" where
  "mirrors cfg path w \<longleftrightarrow> protections_ok (bw_rows w)
     \<and> (\<forall>rid. enforced cfg path (bw_git w) rid = effective (abs_protections (bw_rows w)) rid)"

text \<open>
  What a request did: nothing to the protections, or a step of the abstract machine; and Git's
  configuration changed of this repository at most, to its protection where the request succeeded.
\<close>

definition request_outcome ::
  "('g \<Rightarrow> string \<Rightarrow> string \<Rightarrow> bool) \<Rightarrow> (uuid \<Rightarrow> string) \<Rightarrow> protection_request \<Rightarrow> 'g protection_world
     \<Rightarrow> (err + unit) \<times> 'g protection_world \<Rightarrow> bool" where
  "request_outcome cfg path r w result \<longleftrightarrow>
     (case result of (res, w') \<Rightarrow>
        let before = abs_protections (bw_rows w); after = abs_protections (bw_rows w'); rid = request_repository r
        in protections_ok (bw_rows w')
         \<and> (res \<noteq> Inr () \<and> bw_rows w' = bw_rows w \<and> bw_git w' = bw_git w
            \<or> protects r before after
              \<and> (\<forall>other. other \<noteq> rid \<longrightarrow> enforced cfg path (bw_git w') other = enforced cfg path (bw_git w) other)
              \<and> (res = Inr () \<longrightarrow> enforced cfg path (bw_git w') rid = effective after rid)))"

lemma syncGit_outcome:
  assumes ok: "config_ok cfg path G" and rows: "protections_ok (bw_rows w)"
    and run: "bp_syncGit G rid w = (res, w')"
  shows "bw_rows w' = bw_rows w"
    and "other \<noteq> rid \<Longrightarrow> enforced cfg path (bw_git w') other = enforced cfg path (bw_git w) other"
    and "res = Inr () \<Longrightarrow> enforced cfg path (bw_git w') rid = effective (abs_protections (bw_rows w)) rid"
proof -
  obtain q u where q: "bp_query (sql_GetEffectiveReceiveProtection rid) w = (q, u)" by force
  have "bw_rows w' = bw_rows w
     \<and> (other \<noteq> rid \<longrightarrow> enforced cfg path (bw_git w') other = enforced cfg path (bw_git w) other)
     \<and> (res = Inr () \<longrightarrow> enforced cfg path (bw_git w') rid = effective (abs_protections (bw_rows w)) rid)"
  proof (cases q)
    case (Inl e)
    with q run bp_query_fails [of _ w e u] show ?thesis by (auto simp: bp_syncGit_def call_apply)
  next
    case (Inr x)
    obtain force deletes where x: "x = (force, deletes)" by (cases x)
    have u: "bw_rows u = bw_rows w" "bw_git u = bw_git w"
      and eff: "(force, deletes) = effective (abs_protections (bw_rows w)) rid"
      using q Inr x by (auto simp: bp_query_ok sql_GetEffectiveReceiveProtection_def effective_abs [OF rows] Let_def)
    obtain s g where s: "git_SetReceiveProtection G rid force deletes (bw_git w) = (s, g)" by force
    have w': "bw_rows w' = bw_rows w" "bw_git w' = g" "res = Inr () \<longleftrightarrow> s = Inr ()"
      using run q Inr x u s by (auto simp: bp_syncGit_def call_apply on_git_def ret_def split: sum.splits)
    show ?thesis
      using w' SetReceiveProtection_config [OF ok s] eff by simp
  qed
  then show "bw_rows w' = bw_rows w"
    and "other \<noteq> rid \<Longrightarrow> enforced cfg path (bw_git w') other = enforced cfg path (bw_git w) other"
    and "res = Inr () \<Longrightarrow> enforced cfg path (bw_git w') rid = effective (abs_protections (bw_rows w)) rid" by auto
qed

text \<open>A statement that took a step of the machine, and the synchronization after it.\<close>

lemma step_and_sync:
  assumes ok: "config_ok cfg path G" and rows: "protections_ok (bw_rows u)" and git: "bw_git u = bw_git w"
    and step: "protects r (abs_protections (bw_rows w)) (abs_protections (bw_rows u))"
    and run: "bp_syncGit G (request_repository r) u = (res, w')"
  shows "request_outcome cfg path r w (res, w')"
  using syncGit_outcome [OF ok rows run] rows step git by (simp add: request_outcome_def Let_def)

lemma refused_outcome:
  "protections_ok (bw_rows w) \<Longrightarrow> bw_rows w' = bw_rows w \<Longrightarrow> bw_git w' = bw_git w \<Longrightarrow> request_outcome cfg path r w (Inl e, w')"
  by (simp add: request_outcome_def Let_def)

lemma call_ret_unit: "call (call m h (\<lambda>x. call (k x) (\<lambda>e. e) (\<lambda>_. ret x))) (\<lambda>e. e) (\<lambda>_. ret ()) = call m h k"
  for k :: "'a \<Rightarrow> ('w, unit) op"
  by (rule ext) (auto simp: call_apply ret_def split: prod.splits sum.splits)

lemma Protect_outcome:
  assumes ok: "config_ok cfg path G" and rows: "protections_ok (bw_rows w)"
    and run: "serve_protection G now (Protect rid input) w = (res, w')"
  shows "request_outcome cfg path (Protect rid input) w (res, w')"
proof (cases "ProtectionInput_Validate input")
  case (Some e)
  then show ?thesis using run rows by (auto simp: serve_protection_def bp_Create_def op_eval intro: refused_outcome)
next
  case None
  then have valid: "bi_Pattern input = ''*''" "bi_DenyForcePush input \<or> bi_DenyDeletion input"
    by (auto simp: ProtectionInput_Validate_def split: if_splits)
  obtain i u where i: "bp_NewV7 w = (i, u)" and u: "bw_rows u = bw_rows w" "bw_git u = bw_git w"
    by (simp add: bp_NewV7_def)
  show ?thesis
  proof (cases i)
    case (Inl e)
    then show ?thesis using run rows i u None by (auto simp: serve_protection_def bp_Create_def op_eval intro: refused_outcome)
  next
    case (Inr pid)
    let ?p = "\<lparr>bp_ID = pid, bp_RepositoryID = rid, bp_Pattern = bi_Pattern input,
       bp_DenyForcePush = bi_DenyForcePush input, bp_DenyDeletion = bi_DenyDeletion input, bp_CreatedAt = now, bp_UpdatedAt = now\<rparr>"
    obtain q v where q: "bp_query (sql_CreateBranchProtection ?p) u = (q, v)" by force
    show ?thesis
    proof (cases q)
      case Inl': (Inl e)
      then show ?thesis
        using run rows i u None Inr q bp_query_fails [of _ u e v]
        by (auto simp: serve_protection_def bp_Create_def call_apply check_apply intro: refused_outcome)
    next
      case Inr': (Inr p)
      have new: "\<not> list_ex (\<lambda>r. bp_ID r = bp_ID ?p \<or> bp_RepositoryID r = bp_RepositoryID ?p \<and> bp_Pattern r = bp_Pattern ?p) (bw_rows w)"
        and v: "bw_rows v = bw_rows w @ [?p]" "bw_git v = bw_git w"
        using q Inr' u by (auto simp: bp_query_ok sql_CreateBranchProtection_def split: if_splits)
      have "protects (Protect rid input) (abs_protections (bw_rows w)) (abs_protections (bw_rows v))"
        and ok': "protections_ok (bw_rows v)"
        using insert_protection [OF rows _ _ new] valid protects.Protected [of "abs_protections (bw_rows w)" rid input pid]
        by (simp_all add: v rule_in_def)
      moreover have "bp_syncGit G rid v = (res, w')"
        using run i None Inr q Inr'
        by (auto simp: serve_protection_def bp_Create_def call_apply check_apply ret_def split: prod.splits sum.splits)
      ultimately show ?thesis using step_and_sync [OF ok ok' v(2), of "Protect rid input" res w'] by simp
    qed
  qed
qed

lemma Change_outcome:
  assumes ok: "config_ok cfg path G" and rows: "protections_ok (bw_rows w)"
    and run: "serve_protection G now (Change rid pid input) w = (res, w')"
  shows "request_outcome cfg path (Change rid pid input) w (res, w')"
proof (cases "ProtectionInput_Validate input")
  case (Some e)
  then show ?thesis using run rows by (auto simp: serve_protection_def bp_Update_def op_eval intro: refused_outcome)
next
  case None
  then have valid: "bi_DenyForcePush input \<or> bi_DenyDeletion input"
    by (auto simp: ProtectionInput_Validate_def split: if_splits)
  obtain q v where q: "bp_query (sql_UpdateBranchProtection rid pid input now) w = (q, v)" by force
  show ?thesis
  proof (cases q)
    case (Inl e)
    then show ?thesis
      using run rows None q bp_query_fails [of _ w e v]
      by (auto simp: serve_protection_def bp_Update_def call_apply check_apply intro: refused_outcome)
  next
    case (Inr p)
    obtain r where found: "find (same_protection rid pid) (bw_rows w) = Some r"
      and v: "bw_rows v = update_where (same_protection rid pid) (apply_input input now) (bw_rows w)" "bw_git v = bw_git w"
      using q Inr by (auto simp: bp_query_ok sql_UpdateBranchProtection_def split: if_splits option.splits)
    obtain rule where "abs_protections (bw_rows w) rid = Some (pid, rule)"
      using update_protection(2) [OF rows found None] by blast
    then have "protects (Change rid pid input) (abs_protections (bw_rows w)) (abs_protections (bw_rows v))"
      and ok': "protections_ok (bw_rows v)"
      using update_protection(1,3) [OF rows found None] protects.Changed [OF _ valid] by (simp_all add: v)
    moreover have "bp_syncGit G rid v = (res, w')"
      using run None q Inr
      by (auto simp: serve_protection_def bp_Update_def call_apply check_apply ret_def split: prod.splits sum.splits)
    ultimately show ?thesis using step_and_sync [OF ok ok' v(2), of "Change rid pid input" res w'] by simp
  qed
qed

lemma Unprotect_outcome:
  assumes ok: "config_ok cfg path G" and rows: "protections_ok (bw_rows w)"
    and run: "serve_protection G now (Unprotect rid pid) w = (res, w')"
  shows "request_outcome cfg path (Unprotect rid pid) w (res, w')"
proof -
  obtain q v where q: "bp_query (sql_DeleteBranchProtection rid pid) w = (q, v)" by force
  show ?thesis
  proof (cases q)
    case (Inl e)
    then show ?thesis
      using run rows q bp_query_fails [of _ w e v]
      by (auto simp: serve_protection_def bp_Delete_def call_apply intro: refused_outcome)
  next
    case (Inr n)
    have v: "bw_rows v = delete_where (same_protection rid pid) (bw_rows w)" "bw_git v = bw_git w"
      and n: "n = int (length (filter (same_protection rid pid) (bw_rows w)))"
      using q Inr by (auto simp: bp_query_ok sql_DeleteBranchProtection_def)
    show ?thesis
    proof (cases "n = 0")
      case True
      then have "\<forall>r \<in> set (bw_rows w). \<not> same_protection rid pid r" using n by (simp add: filter_empty_conv)
      then have "bw_rows v = bw_rows w" by (simp add: v delete_where_def filter_id_conv)
      then show ?thesis
        using run rows q Inr True v
        by (auto simp: serve_protection_def bp_Delete_def call_apply fail_if_def raise_def intro: refused_outcome)
    next
      case False
      then have some: "filter (same_protection rid pid) (bw_rows w) \<noteq> []" using n by simp
      obtain rule where "abs_protections (bw_rows w) rid = Some (pid, rule)"
        using delete_protection(2) [OF rows some] by blast
      then have "protects (Unprotect rid pid) (abs_protections (bw_rows w)) (abs_protections (bw_rows v))"
        and ok': "protections_ok (bw_rows v)"
        using delete_protection(1,3) [OF rows some] protects.Unprotected by (simp_all add: v)
      moreover have "bp_syncGit G rid v = (res, w')"
        using run q Inr False by (auto simp: serve_protection_def bp_Delete_def call_apply fail_if_def)
      ultimately show ?thesis using step_and_sync [OF ok ok' v(2), of "Unprotect rid pid" res w'] by simp
    qed
  qed
qed

lemma protection_request_outcome:
  assumes "config_ok cfg path G" and "protections_ok (bw_rows w)"
  shows "request_outcome cfg path r w (serve_protection G now r w)"
  using Protect_outcome [OF assms] Change_outcome [OF assms] Unprotect_outcome [OF assms]
  by (cases "serve_protection G now r w"; cases r) simp_all

section \<open>An example\<close>

definition config_exec :: "git_command \<Rightarrow> (string \<Rightarrow> string \<Rightarrow> bool, string list) op" where
  "config_exec c f =
     (let p = drop 10 (hd (gc_args c)) in (Inr [], f(p := (f p)(gc_args c ! 3 := gc_args c ! 4 = ''true''))))"

definition config_git :: "(string \<Rightarrow> string \<Rightarrow> bool) git_service" where
  "config_git =
     \<lparr>gs_exec = config_exec, gs_ctx_Err = ret (), gs_Prepare = (\<lambda>rid. ret (digits (unat rid))),
      gs_Path = (\<lambda>rid. ret (digits (unat rid))), gs_lifecycle = None,
      gs_temporary = \<lparr>tf_MkdirTemp = ret [], tf_Mkdir = (\<lambda>_. ret ()), tf_WriteFile = (\<lambda>_ _. ret ()), tf_RemoveAll = (\<lambda>_. ret ())\<rparr>,
      gs_beforeMergeCAS = None\<rparr>"

lemma config_git_ok: "config_ok id (\<lambda>rid. digits (unat rid)) config_git"
proof -
  have "inj (\<lambda>rid :: uuid. digits (unat rid))"
    by (rule injI) (metis option.inject parse_digits_digits word_unat_eq_iff)
  then show ?thesis
    by (auto simp: config_ok_def config_git_def config_exec_def config_command_def bool_text_def ret_def frames_def Let_def)
qed

definition protected_input :: protection_input where
  "protected_input = \<lparr>bi_Pattern = ''*'', bi_DenyForcePush = True, bi_DenyDeletion = False\<rparr>"

definition unprotected_world :: "bool list \<Rightarrow> (string \<Rightarrow> string \<Rightarrow> bool) protection_world" where
  "unprotected_world script =
     \<lparr>bw_rows = [], bw_repositories = [1], bw_faults = script, bw_ids = (\<lambda>_. Inr 7), bw_ids_used = 0, bw_git = (\<lambda>_ _. False)\<rparr>"

lemma unprotected_mirrors: "mirrors id (\<lambda>rid. digits (unat rid)) (unprotected_world script)"
  by (simp add: mirrors_def protections_ok_def unprotected_world_def enforced_def effective_def abs_protections_def)

lemma protect_runs: "fst (serve_protection config_git 5 (Protect 1 protected_input) (unprotected_world [])) = Inr ()"
  by (simp add: serve_protection_def bp_Create_def ProtectionInput_Validate_def protected_input_def op_eval bp_NewV7_def
      unprotected_world_def sql_CreateBranchProtection_def Let_def bp_syncGit_def on_git_def
      sql_GetEffectiveReceiveProtection_def git_SetReceiveProtection_def config_git_def git_run_def git_runWithEnv_def
      config_exec_def)

text \<open>
  The second database call of a creation fails: the caller is told of an error, and the protection is
  in the table, where it is listed as any other, but Git does not enforce it.
\<close>

lemma protection_not_enforced:
  "case serve_protection config_git 5 (Protect 1 protected_input) (unprotected_world [False, True]) of
     (res, w') \<Rightarrow> res \<noteq> Inr () \<and> effective (abs_protections (bw_rows w')) 1 = (True, False)
       \<and> enforced id (\<lambda>rid. digits (unat rid)) (bw_git w') 1 = (False, False)"
  by (simp add: serve_protection_def bp_Create_def ProtectionInput_Validate_def protected_input_def op_eval bp_NewV7_def
      unprotected_world_def sql_CreateBranchProtection_def Let_def bp_syncGit_def effective_def abs_protections_def
      rule_in_def enforced_def)

section \<open>Properties\<close>

text \<open>
  C29. The service implements the abstract machine of branch protections: from a state where Git
  enforces the protections of the table, a request that returns takes a step of the machine and
  ends in such a state, so that what a push may do is always what the protection of its repository
  says.
\<close>

theorem protections_are_enforced:
  assumes "config_ok cfg path G" and "mirrors cfg path w" and "serve_protection G now r w = (Inr (), w')"
  shows "mirrors cfg path w' \<and> protects r (abs_protections (bw_rows w)) (abs_protections (bw_rows w'))"
proof -
  have rows: "protections_ok (bw_rows w)" using assms(2) by (simp add: mirrors_def)
  note outcome = protection_request_outcome [OF assms(1) rows, where r = r and now = now, unfolded assms(3)]
  from outcome have step: "protects r (abs_protections (bw_rows w)) (abs_protections (bw_rows w'))"
    and elsewhere: "\<And>rid. rid \<noteq> request_repository r \<Longrightarrow> enforced cfg path (bw_git w') rid = enforced cfg path (bw_git w) rid"
    and here: "enforced cfg path (bw_git w') (request_repository r)
      = effective (abs_protections (bw_rows w')) (request_repository r)"
    and ok: "protections_ok (bw_rows w')"
    by (auto simp: request_outcome_def Let_def)
  have "enforced cfg path (bw_git w') rid = effective (abs_protections (bw_rows w')) rid" for rid
  proof (cases "rid = request_repository r")
    case False
    then show ?thesis
      using elsewhere [OF False] assms(2) protects_elsewhere [OF step False] by (simp add: mirrors_def effective_def)
  qed (use here in simp)
  then show ?thesis using ok step by (simp add: mirrors_def)
qed

theorem protections_are_enforced_witness:
  "\<exists>w. snd (serve_protection config_git 5 (Protect 1 protected_input) (unprotected_world [])) = w
     \<and> enforced id (\<lambda>rid. digits (unat rid)) (bw_git w) 1 = effective (abs_protections (bw_rows w)) 1
     \<and> abs_protections (bw_rows w) 1 \<noteq> None"
proof -
  obtain w where run: "serve_protection config_git 5 (Protect 1 protected_input) (unprotected_world []) = (Inr (), w)"
    using protect_runs by (metis prod.collapse)
  from protections_are_enforced [OF config_git_ok unprotected_mirrors run] show ?thesis
    by (auto simp: run mirrors_def elim!: protects_ProtectE)
qed

text \<open>
  A request that fails either did nothing, or took its step in the table and could not write it to Git:
  then no other repository is concerned, and any later request for the repository that returns
  makes Git enforce its protections again.
\<close>

theorem failed_protection_requests:
  assumes "config_ok cfg path G" and "protections_ok (bw_rows w)" and "serve_protection G now r w = (Inl e, w')"
  shows "protections_ok (bw_rows w')
     \<and> (bw_rows w' = bw_rows w \<and> bw_git w' = bw_git w
        \<or> protects r (abs_protections (bw_rows w)) (abs_protections (bw_rows w'))
          \<and> (\<forall>other. other \<noteq> request_repository r \<longrightarrow> enforced cfg path (bw_git w') other = enforced cfg path (bw_git w) other)
          \<and> (\<forall>r' now' w''. request_repository r' = request_repository r \<longrightarrow> serve_protection G now' r' w' = (Inr (), w'') \<longrightarrow>
               enforced cfg path (bw_git w'') (request_repository r) = effective (abs_protections (bw_rows w'')) (request_repository r)))"
proof -
  note outcome = protection_request_outcome [OF assms(1,2), where r = r and now = now, unfolded assms(3)]
  then have ok: "protections_ok (bw_rows w')" by (auto simp: request_outcome_def Let_def)
  have "enforced cfg path (bw_git w'') (request_repository r) = effective (abs_protections (bw_rows w'')) (request_repository r)"
    if "request_repository r' = request_repository r" "serve_protection G now' r' w' = (Inr (), w'')" for r' now' w''
    using protection_request_outcome [OF assms(1) ok, where r = r' and now = now', unfolded that(2)] that(1)
    by (auto simp: request_outcome_def Let_def)
  with outcome show ?thesis by (auto simp: request_outcome_def Let_def)
qed

theorem failed_protection_requests_witness:
  "\<exists>w. snd (serve_protection config_git 5 (Protect 1 protected_input) (unprotected_world [False, True])) = w
     \<and> protects (Protect 1 protected_input) (abs_protections []) (abs_protections (bw_rows w))"
proof -
  obtain res w where run: "serve_protection config_git 5 (Protect 1 protected_input) (unprotected_world [False, True]) = (res, w)"
    by force
  have failed: "res \<noteq> Inr ()" and "effective (abs_protections (bw_rows w)) 1 = (True, False)"
    using protection_not_enforced by (simp_all add: run)
  then have changed: "bw_rows w \<noteq> []" by (auto simp: effective_def abs_protections_def)
  obtain e where e: "res = Inl e" using failed by (cases res) simp_all
  have "protections_ok (bw_rows (unprotected_world [False, True]))" by (simp add: unprotected_world_def protections_ok_def)
  moreover have "bw_rows (unprotected_world [False, True]) = []" by (simp add: unprotected_world_def)
  ultimately have "protects (Protect 1 protected_input) (abs_protections []) (abs_protections (bw_rows w))"
    using failed_protection_requests [OF config_git_ok _ run [unfolded e]] changed by auto
  then show ?thesis by (simp add: run)
qed

end
