(* ===== verification/Git_History.thy ===== *)
theory Git_History
  imports Go_Parse Git_Remote Git_Read
begin

text \<open>
  \<^verbatim>\<open>internal/git/history.go\<close>: commits, differences and merge bases, read from the output of Git commands.
\<close>

section \<open>Results\<close>

record commit_identity =
  ci_Name :: string
  ci_Email :: string
  ci_Time :: instant
  ci_offset :: int

record commit_summary =
  cs_SHA :: string
  cs_Parents :: "string list"
  cs_Author :: commit_identity
  cs_Committer :: commit_identity
  cs_Summary :: string

record commit = commit_summary +
  cm_Message :: string

record diff_file =
  df_Status :: string
  df_OldPath :: string
  df_NewPath :: string
  df_Additions :: "int option"
  df_Deletions :: "int option"

record diff =
  diff_BaseSHA :: string
  diff_HeadSHA :: string
  diff_Files :: "diff_file list"
  diff_Patch :: string

definition maxCommitListOutput :: int where "maxCommitListOutput = 16 * 1024"
definition maxCommitOutput :: int where "maxCommitOutput = 4 * 1024 * 1024"
definition maxDiffOutput :: int where "maxDiffOutput = 8 * 1024 * 1024"
definition maxDiffFiles :: int where "maxDiffFiles = 10000"

section \<open>Commits\<close>

definition git_resolveCommit :: "'w git_service \<Rightarrow> string \<Rightarrow> string \<Rightarrow> ('w, string) op" where
  "git_resolveCommit S p revision =
     attempt (git_resolve S p (revision @ ''^{commit}''))
       (\<lambda>e. if \<not> errors_is e git_ErrObjectNotFound then raise e
             else attempt (git_resolve S p (revision @ ''^{object}''))
                    (\<lambda>_. raise e)
                    (\<lambda>objectSHA.
                     call (git_objectProperty S p ''-t'' objectSHA) (\<lambda>t. t) (\<lambda>objectType.
                     raise (wrapf ''revision type'' (Sentinel git_ErrUnsupportedObject)))))
       (\<lambda>sha. check (validateFullSHA sha) (wrapf ''parse resolved commit'') (ret sha))"

definition parse_identity :: "string \<Rightarrow> string \<Rightarrow> string \<Rightarrow> string \<Rightarrow> err + commit_identity" where
  "parse_identity who name email date =
     (case parse_rfc3339 date of
        None \<Rightarrow> Inl (errorf (''parse '' @ who @ '' date''))
      | Some (t, offset) \<Rightarrow> Inr \<lparr>ci_Name = name, ci_Email = email, ci_Time = t, ci_offset = offset\<rparr>)"

definition parse_parents :: "string \<Rightarrow> err + string list" where
  "parse_parents field =
     traverse (\<lambda>s. case validateFullSHA s of Some e \<Rightarrow> Inl (wrapf ''parse parent SHA'' e) | None \<Rightarrow> Inr s)
       (if field = [] then [] else strings_Fields field)"

text \<open>The fields that \<open>show\<close> prints of a commit: all of it but the message.\<close>

definition parse_metadata :: "string \<Rightarrow> err + commit_summary" where
  "parse_metadata metadata =
     (let parts = split_on nul (trim_suffix_byte newline metadata)
      in if length parts \<noteq> 10 \<or> parts ! 9 \<noteq> [] then Inl (errorf ''unexpected commit metadata field count'')
         else if \<not> list_all valid_string (take 9 parts)
         then Inl (wrapf ''commit metadata is not valid UTF-8'' (Sentinel git_ErrInvalidInput))
         else case parse_identity ''author'' (parts ! 2) (parts ! 3) (parts ! 4) of
                Inl e \<Rightarrow> Inl e
              | Inr author \<Rightarrow>
                  (case parse_identity ''committer'' (parts ! 5) (parts ! 6) (parts ! 7) of
                     Inl e \<Rightarrow> Inl e
                   | Inr committer \<Rightarrow>
                       (case parse_parents (parts ! 1) of
                          Inl e \<Rightarrow> Inl e
                        | Inr parents \<Rightarrow>
                            Inr \<lparr>cs_SHA = parts ! 0, cs_Parents = parents, cs_Author = author,
                                 cs_Committer = committer, cs_Summary = parts ! 8\<rparr>)))"

text \<open>The message is what follows the first empty line of the commit object.\<close>

definition commit_message :: "string \<Rightarrow> err + string" where
  "commit_message raw =
     (if \<not> valid_string raw then Inl (wrapf ''commit object is not valid UTF-8'' (Sentinel git_ErrInvalidInput))
      else case index_string [newline, newline] raw of
             None \<Rightarrow> Inl (errorf ''commit object has no message separator'')
           | Some i \<Rightarrow> Inr (drop (i + 2) raw))"

definition show_commit :: "string \<Rightarrow> string \<Rightarrow> string list" where
  "show_commit p sha =
     [''--git-dir='' @ p, ''show'', ''--no-ext-diff'', ''--no-textconv'', ''--no-patch'', ''--no-decorate'',
      ''--encoding=UTF-8'', ''--format=%H%x00%P%x00%an%x00%ae%x00%aI%x00%cn%x00%ce%x00%cI%x00%s%x00'',
      ''--end-of-options'', sha, ''--'']"

definition git_readCommit :: "'w git_service \<Rightarrow> string \<Rightarrow> string \<Rightarrow> ('w, commit) op" where
  "git_readCommit S p sha =
     call (git_runBounded S maxMetadataOutput (show_commit p sha)) (\<lambda>e. e) (\<lambda>metadata.
     call (outcome (parse_metadata metadata)) (\<lambda>e. e) (\<lambda>c.
     call (git_runBounded S maxCommitOutput [''--git-dir='' @ p, ''cat-file'', ''commit'', sha]) (\<lambda>e. e) (\<lambda>raw.
     call (outcome (commit_message raw)) (\<lambda>e. e) (\<lambda>message.
     fail_if (validateFullSHA (cs_SHA c) \<noteq> None \<or> cs_SHA c \<noteq> sha) (errorf ''unexpected commit SHA'') (
     ret \<lparr>cs_SHA = cs_SHA c, cs_Parents = cs_Parents c, cs_Author = cs_Author c, cs_Committer = cs_Committer c,
          cs_Summary = cs_Summary c, cm_Message = message\<rparr>)))))"

definition git_Commit :: "'w git_service \<Rightarrow> uuid \<Rightarrow> string \<Rightarrow> ('w, commit) op" where
  "git_Commit S rid revision =
     check (validateRevision revision) (\<lambda>e. e) (
     call (git_repositoryPath S rid) (\<lambda>e. e) (\<lambda>p.
     call (git_resolveCommit S p revision) (wrapf ''resolve commit'') (\<lambda>sha.
     call (git_readCommit S p sha) (wrapf ''read commit'') ret)))"

text \<open>One entry for each line, also for an empty one, which is no SHA.\<close>

definition parseSHALines :: "string \<Rightarrow> err + string list" where
  "parseSHALines output =
     (if output = [] then Inr []
      else traverse (\<lambda>s. case validateFullSHA s of Some e \<Rightarrow> Inl e | None \<Rightarrow> Inr s)
             (split_on newline (trim_suffix_byte newline output)))"

fun read_commits :: "'w git_service \<Rightarrow> string \<Rightarrow> string list \<Rightarrow> ('w, commit_summary list) op" where
  "read_commits S p [] = ret []"
| "read_commits S p (sha # shas) =
     call (git_readCommit S p sha) (wrapf ''read commit'') (\<lambda>c.
     call (read_commits S p shas) (\<lambda>e. e) (\<lambda>cs. ret (commit_summary.truncate c # cs)))"

definition git_Commits :: "'w git_service \<Rightarrow> uuid \<Rightarrow> string \<Rightarrow> int \<Rightarrow> ('w, commit_summary list) op" where
  "git_Commits S rid r limit =
     check (validateRevision r) (\<lambda>e. e) (
     fail_if (limit < 1 \<or> 100 < limit)
       (wrapf ''commit limit must be between 1 and 100'' (Sentinel git_ErrInvalidInput)) (
     call (git_repositoryPath S rid) (\<lambda>e. e) (\<lambda>p.
     call (git_resolveCommit S p r) (wrapf ''resolve history ref'') (\<lambda>commitSHA.
     call (git_runBounded S maxCommitListOutput
             [''--git-dir='' @ p, ''rev-list'', ''--max-count='' @ decimal limit, ''--end-of-options'', commitSHA, ''--''])
       (wrapf ''list commits'') (\<lambda>output.
     call (outcome (parseSHALines output)) (wrapf ''parse commit list'') (\<lambda>shas.
     read_commits S p shas))))))"

section \<open>Merge bases\<close>

definition git_MergeBase :: "'w git_service \<Rightarrow> uuid \<Rightarrow> string \<Rightarrow> string \<Rightarrow> ('w, string) op" where
  "git_MergeBase S rid a b =
     check (validateRevision a) (\<lambda>e. e) (
     check (validateRevision b) (\<lambda>e. e) (
     call (git_repositoryPath S rid) (\<lambda>e. e) (\<lambda>p.
     call (git_resolveCommit S p a) (wrapf ''resolve first merge-base revision'') (\<lambda>aSHA.
     call (git_resolveCommit S p b) (wrapf ''resolve second merge-base revision'') (\<lambda>bSHA.
     attempt (git_runBounded S maxMetadataOutput [''--git-dir='' @ p, ''merge-base'', ''--end-of-options'', aSHA, bSHA])
       (\<lambda>e. call (gs_ctx_Err S) (\<lambda>c. c) (\<lambda>_.
            raise (if errors_is e git_ErrOutputLimit then e
                   else if as_command_error e = Some 1 then Sentinel git_ErrObjectNotFound
                   else wrapf ''calculate merge base'' e)))
       (\<lambda>output.
        call (outcome (singleLine output)) (wrapf ''parse merge base'') (\<lambda>sha.
        check (validateFullSHA sha) (wrapf ''parse merge base'') (ret sha))))))))"

section \<open>Differences\<close>

text \<open>The fields of output whose every field is terminated.\<close>

definition terminated_fields :: "string \<Rightarrow> string \<Rightarrow> err + string list" where
  "terminated_fields message output =
     (if output = [] then Inr []
      else let parts = split_on nul output
           in if last parts \<noteq> [] then Inl (errorf message) else Inr (butlast parts))"

definition diff_path_count :: "char \<Rightarrow> nat" where
  "diff_path_count code = (if code = CHR ''R'' \<or> code = CHR ''C'' then 2 else 1)"

definition status_file :: "char \<Rightarrow> string list \<Rightarrow> diff_file" where
  "status_file code paths =
     (let old = (if code = CHR ''A'' then [] else paths ! 0);
          new = (if code = CHR ''D'' then [] else if code = CHR ''R'' \<or> code = CHR ''C'' then paths ! 1 else paths ! 0)
      in \<lparr>df_Status = [code], df_OldPath = old, df_NewPath = new, df_Additions = None, df_Deletions = None\<rparr>)"

fun status_files :: "nat \<Rightarrow> string list \<Rightarrow> err + diff_file list" where
  "status_files count [] = Inr []"
| "status_files count (status # rest) =
     (case status of
        [] \<Rightarrow> Inl (errorf ''empty diff status'')
      | code # _ \<Rightarrow>
          if code \<notin> set ''AMDRCT'' then Inl (errorf ''unsupported diff status'')
          else if length rest < diff_path_count code then Inl (errorf ''missing path for diff status'')
          else if \<not> list_all valid_string (take (diff_path_count code) rest)
          then Inl (wrapf ''diff path is not valid UTF-8'' (Sentinel git_ErrInvalidInput))
          else if int (count + 1) > maxDiffFiles then Inl (Sentinel git_ErrOutputLimit)
          else case status_files (count + 1) (drop (diff_path_count code) rest) of
                 Inl e \<Rightarrow> Inl e
               | Inr files \<Rightarrow> Inr (status_file code (take (diff_path_count code) rest) # files))"

definition parseDiffStatus :: "string \<Rightarrow> err + diff_file list" where
  "parseDiffStatus output =
     (case terminated_fields ''unterminated diff status'' output of
        Inl e \<Rightarrow> Inl e | Inr parts \<Rightarrow> status_files 0 parts)"

type_synonym diff_counts = "int option \<times> int option"

definition parse_count :: "string \<Rightarrow> string \<Rightarrow> err + int" where
  "parse_count message text =
     (case parse_int64 text of
        None \<Rightarrow> Inl (errorf message) | Some n \<Rightarrow> if n < 0 then Inl (errorf message) else Inr n)"

definition parseDiffCounts :: "string \<Rightarrow> string \<Rightarrow> err + diff_counts" where
  "parseDiffCounts additionsText deletionsText =
     (if additionsText = ''-'' \<and> deletionsText = ''-'' then Inr (None, None)
      else case parse_count ''invalid addition count'' additionsText of
             Inl e \<Rightarrow> Inl e
           | Inr additions \<Rightarrow>
               (case parse_count ''invalid deletion count'' deletionsText of
                  Inl e \<Rightarrow> Inl e | Inr deletions \<Rightarrow> Inr (Some additions, Some deletions)))"

definition diffPathKey :: "string \<Rightarrow> string \<Rightarrow> string" where
  "diffPathKey oldPath newPath = oldPath @ nul # newPath"

type_synonym diff_statistics = "(string \<times> diff_counts) list"

text \<open>The map of statistics, as the list of its entries; a path that has one already is an error.\<close>

definition add_statistics ::
  "string \<Rightarrow> string \<Rightarrow> string \<Rightarrow> string \<Rightarrow> diff_statistics \<Rightarrow> err + diff_statistics" where
  "add_statistics additionsText deletionsText oldPath newPath statistics =
     (case parseDiffCounts additionsText deletionsText of
        Inl e \<Rightarrow> Inl e
      | Inr counts \<Rightarrow>
          if map_of statistics (diffPathKey oldPath newPath) \<noteq> None then Inl (errorf ''duplicate diff statistics path'')
          else if int (length statistics + 1) > maxDiffFiles then Inl (Sentinel git_ErrOutputLimit)
          else Inr (statistics @ [(diffPathKey oldPath newPath, counts)]))"

definition invalid_diff_path :: err where
  "invalid_diff_path = wrapf ''diff path is not valid UTF-8'' (Sentinel git_ErrInvalidInput)"

fun numstat_entries :: "diff_statistics \<Rightarrow> string list \<Rightarrow> err + diff_statistics" where
  "numstat_entries statistics [] = Inr statistics"
| "numstat_entries statistics (field # rest) =
     (case split_on (CHR 0x09) field of
        [additionsText, deletionsText, path] \<Rightarrow>
          (if path = [] then
             (case rest of
                oldPath # newPath # rest' \<Rightarrow>
                  if \<not> valid_string oldPath \<or> \<not> valid_string newPath then Inl invalid_diff_path
                  else (case add_statistics additionsText deletionsText oldPath newPath statistics of
                          Inl e \<Rightarrow> Inl e | Inr statistics' \<Rightarrow> numstat_entries statistics' rest')
              | _ \<Rightarrow> Inl (errorf ''missing renamed paths in diff statistics''))
           else if \<not> valid_string path then Inl invalid_diff_path
           else (case add_statistics additionsText deletionsText path path statistics of
                   Inl e \<Rightarrow> Inl e | Inr statistics' \<Rightarrow> numstat_entries statistics' rest))
      | _ \<Rightarrow> Inl (errorf ''unexpected diff statistics field count''))"

definition parseDiffNumstat :: "string \<Rightarrow> err + diff_statistics" where
  "parseDiffNumstat output =
     (case terminated_fields ''unterminated diff statistics'' output of
        Inl e \<Rightarrow> Inl e | Inr parts \<Rightarrow> numstat_entries [] parts)"

definition count_file :: "diff_statistics \<Rightarrow> diff_file \<Rightarrow> err + diff_file" where
  "count_file statistics f =
     (let oldPath = (if df_OldPath f = [] then df_NewPath f else df_OldPath f);
          newPath = (if df_NewPath f = [] then oldPath else df_NewPath f)
      in case map_of statistics (diffPathKey oldPath newPath) of
           None \<Rightarrow> Inl (errorf ''missing statistics'')
         | Some (additions, deletions) \<Rightarrow> Inr (f\<lparr>df_Additions := additions, df_Deletions := deletions\<rparr>))"

definition count_files :: "diff_file list \<Rightarrow> diff_statistics \<Rightarrow> err + diff_file list" where
  "count_files files statistics =
     (case traverse (count_file statistics) files of
        Inl e \<Rightarrow> Inl e
      | Inr counted \<Rightarrow>
          if length statistics \<noteq> length counted
          then Inl (errorf ''diff status and statistics file counts differ'') else Inr counted)"

definition diff_args :: "string \<Rightarrow> string list \<Rightarrow> string \<Rightarrow> string \<Rightarrow> string list" where
  "diff_args p options base head =
     [''--git-dir='' @ p, ''-c'', ''diff.renames=true'', ''-c'', ''diff.renameLimit='' @ decimal maxDiffFiles, ''diff'',
      ''--no-ext-diff'', ''--no-textconv'', ''--find-renames=50%'', ''--no-color'', ''--diff-algorithm=myers'',
      ''--no-indent-heuristic'', ''-O/dev/null''] @ options @ [base, head, ''--'']"

definition git_Diff :: "'w git_service \<Rightarrow> uuid \<Rightarrow> string \<Rightarrow> string \<Rightarrow> ('w, diff) op" where
  "git_Diff S rid base head =
     check (validateRevision base) (\<lambda>e. e) (
     check (validateRevision head) (\<lambda>e. e) (
     call (git_repositoryPath S rid) (\<lambda>e. e) (\<lambda>p.
     call (git_resolveCommit S p base) (wrapf ''resolve diff base'') (\<lambda>baseSHA.
     call (git_resolveCommit S p head) (wrapf ''resolve diff head'') (\<lambda>headSHA.
     call (git_runBounded S maxDiffOutput (diff_args p [''--name-status'', ''-z''] baseSHA headSHA))
       (wrapf ''read diff status'') (\<lambda>statusOutput.
     call (outcome (parseDiffStatus statusOutput)) (wrapf ''parse diff status'') (\<lambda>files.
     call (git_runBounded S maxDiffOutput (diff_args p [''--numstat'', ''-z''] baseSHA headSHA))
       (wrapf ''read diff statistics'') (\<lambda>numstatOutput.
     call (outcome (parseDiffNumstat numstatOutput)) (wrapf ''parse diff statistics'') (\<lambda>statistics.
     call (outcome (count_files files statistics)) (\<lambda>e. e) (\<lambda>counted.
     call (git_runBounded S maxDiffOutput
             (diff_args p [''--patch'', ''--unified=3'', ''--full-index'', ''--src-prefix=a/'', ''--dst-prefix=b/'']
                baseSHA headSHA))
       (wrapf ''read diff patch'') (\<lambda>patchOutput.
     fail_if (\<not> valid_string patchOutput)
       (wrapf ''diff patch is not valid UTF-8'' (Sentinel git_ErrInvalidInput)) (
     ret \<lparr>diff_BaseSHA = baseSHA, diff_HeadSHA = headSHA, diff_Files = counted, diff_Patch = patchOutput\<rparr>))))))))))))"

text \<open>What Git prints of changed files with \<^verbatim>\<open>--numstat -z\<close>, and what the service reads of it.\<close>

section \<open>Printing\<close>

text \<open>
  A changed file: its counts, none of a binary file, and its paths, which differ if it was renamed. With \<^verbatim>\<open>-z\<close>
  Git prints paths as they are and ends each with a zero byte; the paths of a renamed file follow as two fields.
\<close>

type_synonym numstat_entry = "diff_counts \<times> string \<times> string"

abbreviation tab :: char where "tab \<equiv> CHR 0x09"

fun count_texts :: "diff_counts \<Rightarrow> string \<times> string" where
  "count_texts (Some a, Some d) = (decimal a, decimal d)"
| "count_texts _ = (''-'', ''-'')"

definition numstat_fields :: "numstat_entry \<Rightarrow> string list" where
  "numstat_fields e =
     (case e of (counts, old, new) \<Rightarrow> case count_texts counts of (a, d) \<Rightarrow>
        if old = new then [a @ tab # d @ tab # new] else [a @ tab # d @ [tab], old, new])"

definition numstat_output :: "numstat_entry list \<Rightarrow> string" where
  "numstat_output es = concat (map (\<lambda>f. f @ [nul]) (concat (map numstat_fields es)))"

definition numstat_key :: "numstat_entry \<Rightarrow> string" where
  "numstat_key e = (case e of (counts, old, new) \<Rightarrow> diffPathKey old new)"

definition numstat_entry_ok :: "numstat_entry \<Rightarrow> bool" where
  "numstat_entry_ok e \<longleftrightarrow>
     (case e of (counts, old, new) \<Rightarrow>
        (counts = (None, None) \<or> (\<exists>a d. counts = (Some a, Some d) \<and> 0 \<le> a \<and> a < 2 ^ 63 \<and> 0 \<le> d \<and> d < 2 ^ 63))
        \<and> old \<noteq> [] \<and> new \<noteq> [] \<and> valid_string old \<and> valid_string new \<and> nul \<notin> set old \<and> nul \<notin> set new)"

text \<open>The name of a file that was not renamed holds a tab.\<close>

definition tab_in_name :: "numstat_entry \<Rightarrow> bool" where
  "tab_in_name e \<longleftrightarrow> (case e of (counts, old, new) \<Rightarrow> old = new \<and> tab \<in> set new)"

section \<open>Reading\<close>

lemma split_terminated: "\<forall>f \<in> set fs. d \<notin> set f \<Longrightarrow> split_on d (concat (map (\<lambda>f. f @ [d]) fs)) = fs @ [[]]"
proof (induction fs)
  case (Cons f fs)
  then show ?case using split_on_append [of d f "concat (map (\<lambda>f. f @ [d]) fs)"] by (simp add: split_on_no)
qed simp

lemma terminated_fields_print:
  assumes "\<forall>f \<in> set fs. nul \<notin> set f"
  shows "terminated_fields message (concat (map (\<lambda>f. f @ [nul]) fs)) = Inr fs"
  using split_terminated [OF assms] by (cases fs) (auto simp: terminated_fields_def Let_def)

lemma count_texts_clean:
  assumes "numstat_entry_ok (counts, old, new)" and "count_texts counts = (a, d)"
  shows "tab \<notin> set a" "tab \<notin> set d" "nul \<notin> set a" "nul \<notin> set d" "parseDiffCounts a d = Inr counts"
proof -
  have clean: "tab \<notin> set (digits n)" "nul \<notin> set (digits n)" "digits n \<noteq> ''-''" for n
    using digits_are_digits [of n] by (auto simp: list_all_iff is_digit_def in_range_def)
  have decimal: "decimal m = digits (nat m)" if "0 \<le> m" for m using that by (simp add: decimal_def)
  have parse: "parse_int64 (digits (nat m)) = Some m" if "0 \<le> m" "m < 9223372036854775808" for m
    using parse_int64_decimal [of m] that by (simp add: decimal)
  show "tab \<notin> set a" "tab \<notin> set d" "nul \<notin> set a" "nul \<notin> set d" "parseDiffCounts a d = Inr counts"
    using assms clean by (auto simp: numstat_entry_ok_def decimal parseDiffCounts_def parse_count_def parse)
qed

lemma numstat_fields_clean: "numstat_entry_ok e \<Longrightarrow> f \<in> set (numstat_fields e) \<Longrightarrow> nul \<notin> set f"
proof -
  assume ok: "numstat_entry_ok e" and f: "f \<in> set (numstat_fields e)"
  obtain counts old new where e: "e = (counts, old, new)" by (cases e)
  obtain a d where texts: "count_texts counts = (a, d)" by force
  from ok f count_texts_clean [OF ok [unfolded e] texts] show ?thesis
    by (auto simp: e texts numstat_fields_def numstat_entry_ok_def split: if_splits)
qed

text \<open>One entry, read from the front of the fields.\<close>

lemma numstat_entry_read:
  assumes "numstat_entry_ok e" and "map_of statistics (numstat_key e) = None" and "int (length statistics + 1) \<le> maxDiffFiles"
  shows "numstat_entries statistics (numstat_fields e @ rest) =
     (if tab_in_name e then Inl (errorf ''unexpected diff statistics field count'')
      else numstat_entries (statistics @ [(numstat_key e, fst e)]) rest)"
proof -
  obtain counts old new where e: "e = (counts, old, new)" by (cases e)
  obtain a d where texts: "count_texts counts = (a, d)" by force
  note clean = count_texts_clean [OF assms(1) [unfolded e] texts]
  have split: "split_on tab (a @ tab # d @ tab # s) = a # d # split_on tab s" for s
    using split_on_append [of tab a "d @ tab # s"] split_on_append [of tab d s] clean(1,2) by (simp add: split_on_no)
  have add: "add_statistics a d old new statistics = Inr (statistics @ [(diffPathKey old new, counts)])"
    using assms(2,3) clean(5) by (simp add: add_statistics_def e numstat_key_def)
  show ?thesis
  proof (cases "old = new")
    case renamed: False
    have "split_on tab (a @ tab # d @ [tab]) = [a, d, []]" using split [of "[]"] by simp
    with renamed add assms(1) show ?thesis
      by (simp add: e texts numstat_fields_def tab_in_name_def numstat_key_def numstat_entry_ok_def)
  next
    case same: True
    show ?thesis
    proof (cases "tab \<in> set new")
      case True
      then obtain u t where "new = u @ tab # t" using split_list by fastforce
      then have "split_on tab new = split_on tab u @ split_on tab t" using split_on_append [of tab u t] by simp
      moreover obtain x xs where "split_on tab u = x # xs" by (cases "split_on tab u") auto
      moreover obtain y ys where "split_on tab t = y # ys" by (cases "split_on tab t") auto
      ultimately obtain x y zs where "split_on tab new = x # y # zs" by (cases xs) auto
      with True same split [of new] show ?thesis
        by (simp add: e texts numstat_fields_def tab_in_name_def)
    next
      case False
      with same split [of new] add assms(1) show ?thesis
        by (simp add: e texts numstat_fields_def tab_in_name_def numstat_key_def numstat_entry_ok_def split_on_no)
    qed
  qed
qed

lemma numstat_entries_read:
  assumes "\<forall>e \<in> set es. numstat_entry_ok e" and "distinct (map fst statistics @ map numstat_key es)"
    and "int (length statistics + length es) \<le> maxDiffFiles"
  shows "numstat_entries statistics (concat (map numstat_fields es)) =
     (if list_ex tab_in_name es then Inl (errorf ''unexpected diff statistics field count'')
      else Inr (statistics @ map (\<lambda>e. (numstat_key e, fst e)) es))"
  using assms
proof (induction es arbitrary: statistics)
  case (Cons e es)
  have "map_of statistics (numstat_key e) = None" using Cons.prems(2) by (auto simp: map_of_eq_None_iff)
  with Cons show ?case by (simp add: numstat_entry_read)
qed simp

section \<open>Properties\<close>

text \<open>
  C27. The statistics of a difference are read back as Git prints them, of any files, binary and renamed ones
  among them, whose names are valid text and which are at most 10000: unless the name of a file that was not
  renamed holds a tab, which Git allows. Then the whole output is refused, and with it the difference.
\<close>

theorem numstat_round_trip:
  assumes "\<forall>e \<in> set es. numstat_entry_ok e" and "distinct (map numstat_key es)" and "int (length es) \<le> maxDiffFiles"
  shows "parseDiffNumstat (numstat_output es) =
     (if list_ex tab_in_name es then Inl (errorf ''unexpected diff statistics field count'')
      else Inr (map (\<lambda>e. (numstat_key e, fst e)) es))"
proof -
  have "\<forall>f \<in> set (concat (map numstat_fields es)). nul \<notin> set f" using assms(1) numstat_fields_clean by fastforce
  then show ?thesis
    using numstat_entries_read [of es "[]"] assms
    by (simp add: parseDiffNumstat_def numstat_output_def terminated_fields_print)
qed

definition plain_entry :: numstat_entry where "plain_entry = ((Some 2, Some 0), ''a.txt'', ''a.txt'')"
definition renamed_entry :: numstat_entry where "renamed_entry = ((None, None), ''old'', ''new'' @ [tab])"
definition tab_entry :: numstat_entry where "tab_entry = ((Some 1, Some 1), ''b'' @ [tab], ''b'' @ [tab])"

theorem numstat_round_trip_witness:
  "parseDiffNumstat (numstat_output [plain_entry, renamed_entry])
     = Inr [(''a.txt'' @ nul # ''a.txt'', (Some 2, Some 0)), (''old'' @ nul # ''new'' @ [tab], (None, None))]
   \<and> parseDiffNumstat (numstat_output [plain_entry, tab_entry]) = Inl (errorf ''unexpected diff statistics field count'')"
  using numstat_round_trip [of "[plain_entry, renamed_entry]"] numstat_round_trip [of "[plain_entry, tab_entry]"]
  by (simp add: plain_entry_def renamed_entry_def tab_entry_def numstat_entry_ok_def numstat_key_def diffPathKey_def
      tab_in_name_def maxDiffFiles_def)

end
