(* ===== verification/Go_Hash.thy ===== *)
theory Go_Hash imports Git_Merge begin

text \<open>
  \<open>crypto/sha256\<close>, \<open>encoding/hex\<close> and \<open>encoding/base32\<close>, as far as the program names references and
  records by digests.
\<close>

unbundle bit_operations_syntax

section \<open>SHA-256\<close>

definition sha256_constants :: "32 word list" where
  "sha256_constants =
     [0x428a2f98, 0x71374491, 0xb5c0fbcf, 0xe9b5dba5, 0x3956c25b, 0x59f111f1, 0x923f82a4, 0xab1c5ed5,
      0xd807aa98, 0x12835b01, 0x243185be, 0x550c7dc3, 0x72be5d74, 0x80deb1fe, 0x9bdc06a7, 0xc19bf174,
      0xe49b69c1, 0xefbe4786, 0x0fc19dc6, 0x240ca1cc, 0x2de92c6f, 0x4a7484aa, 0x5cb0a9dc, 0x76f988da,
      0x983e5152, 0xa831c66d, 0xb00327c8, 0xbf597fc7, 0xc6e00bf3, 0xd5a79147, 0x06ca6351, 0x14292967,
      0x27b70a85, 0x2e1b2138, 0x4d2c6dfc, 0x53380d13, 0x650a7354, 0x766a0abb, 0x81c2c92e, 0x92722c85,
      0xa2bfe8a1, 0xa81a664b, 0xc24b8b70, 0xc76c51a3, 0xd192e819, 0xd6990624, 0xf40e3585, 0x106aa070,
      0x19a4c116, 0x1e376c08, 0x2748774c, 0x34b0bcb5, 0x391c0cb3, 0x4ed8aa4a, 0x5b9cca4f, 0x682e6ff3,
      0x748f82ee, 0x78a5636f, 0x84c87814, 0x8cc70208, 0x90befffa, 0xa4506ceb, 0xbef9a3f7, 0xc67178f2]"

definition sha256_start :: "32 word list" where
  "sha256_start =
     [0x6a09e667, 0xbb67ae85, 0x3c6ef372, 0xa54ff53a, 0x510e527f, 0x9b05688c, 0x1f83d9ab, 0x5be0cd19]"

text \<open>A number as so many bytes, the most significant first, and a byte string as a number.\<close>

fun bytes_of :: "nat \<Rightarrow> int \<Rightarrow> string" where
  "bytes_of 0 n = []"
| "bytes_of (Suc k) n = bytes_of k (n div 256) @ [char_of (n mod 256)]"

definition number_of_bytes :: "string \<Rightarrow> int" where
  "number_of_bytes = foldl (\<lambda>n c. 256 * n + int (byte c)) 0"

text \<open>The message, a one bit, zeros up to eight bytes before a multiple of 64, and the length in bits.\<close>

definition sha256_padded :: "string \<Rightarrow> string" where
  "sha256_padded s =
     s @ char_of (128 :: int) # replicate ((119 - length s mod 64) mod 64) nul @ bytes_of 8 (8 * int (length s))"

function chunks_of :: "nat \<Rightarrow> 'a list \<Rightarrow> 'a list list" where
  "chunks_of n xs = (if xs = [] \<or> n = 0 then [] else take n xs # chunks_of n (drop n xs))"
  by pat_completeness auto
termination
  by (relation "measure (\<lambda>(n, xs). length xs)") auto

declare chunks_of.simps [simp del]

definition sha256_words :: "string \<Rightarrow> 32 word list" where
  "sha256_words block = map (\<lambda>c. word_of_int (number_of_bytes c)) (chunks_of 4 block)"

text \<open>The message schedule, kept as the last 16 words: each round uses one and computes one.\<close>

definition schedule_word :: "32 word list \<Rightarrow> 32 word" where
  "schedule_word w =
     (let s0 = word_rotr 7 (w ! 1) XOR word_rotr 18 (w ! 1) XOR drop_bit 3 (w ! 1);
          s1 = word_rotr 17 (w ! 14) XOR word_rotr 19 (w ! 14) XOR drop_bit 10 (w ! 14)
      in s1 + w ! 9 + s0 + w ! 0)"

fun sha256_rounds :: "32 word list \<Rightarrow> 32 word list \<Rightarrow> 32 word list \<Rightarrow> 32 word list" where
  "sha256_rounds [] w h = h"
| "sha256_rounds (k # ks) w [a, b, c, d, e, f, g, i] =
     (let t1 = i + (word_rotr 6 e XOR word_rotr 11 e XOR word_rotr 25 e) + ((e AND f) XOR (NOT e AND g)) + k + hd w;
          t2 = (word_rotr 2 a XOR word_rotr 13 a XOR word_rotr 22 a) + ((a AND b) XOR (a AND c) XOR (b AND c))
      in sha256_rounds ks (tl w @ [schedule_word w]) [t1 + t2, a, b, c, d + t1, e, f, g])"
| "sha256_rounds (k # ks) w h = h"

definition sha256_block :: "string \<Rightarrow> 32 word list \<Rightarrow> 32 word list" where
  "sha256_block block h = map2 (+) h (sha256_rounds sha256_constants (sha256_words block) h)"

definition sha256 :: "string \<Rightarrow> string" where
  "sha256 s = concat (map (\<lambda>w. bytes_of 4 (uint w)) (fold sha256_block (chunks_of 64 (sha256_padded s)) sha256_start))"

section \<open>Encodings\<close>

text \<open>\<open>hex.EncodeToString\<close>\<close>

definition hex_char :: "nat \<Rightarrow> char" where
  "hex_char n = ''0123456789abcdef'' ! n"

definition hex_EncodeToString :: "string \<Rightarrow> string" where
  "hex_EncodeToString s = concat (map (\<lambda>c. [hex_char (byte c div 16), hex_char (byte c mod 16)]) s)"

text \<open>
  \<open>base32.StdEncoding\<close> without padding, in lower case: five bits make a character, the last of them
  filled with zeros.
\<close>

definition bits_of_byte :: "char \<Rightarrow> bool list" where
  "bits_of_byte c = map (\<lambda>i. odd (byte c div 2 ^ i)) (rev [0..<8])"

definition base32_char :: "bool list \<Rightarrow> char" where
  "base32_char bits =
     ''abcdefghijklmnopqrstuvwxyz234567'' ! foldl (\<lambda>n b. 2 * n + (if b then 1 else 0)) 0
        (bits @ replicate (5 - length bits) False)"

definition base32_lower :: "string \<Rightarrow> string" where
  "base32_lower s = map base32_char (chunks_of 5 (concat (map bits_of_byte s)))"

section \<open>Shapes\<close>

lemma length_bytes_of [simp]: "length (bytes_of k n) = k"
  by (induction k arbitrary: n) auto

lemma length_sha256_rounds: "length h = 8 \<Longrightarrow> length (sha256_rounds ks w h) = 8"
  by (induction ks w h rule: sha256_rounds.induct) (auto simp: Let_def)

lemma length_sha256_blocks: "length h = 8 \<Longrightarrow> length (fold sha256_block blocks h) = 8"
  by (induction blocks arbitrary: h) (simp_all add: sha256_block_def length_sha256_rounds)

lemma length_concat_same: "(\<And>x. x \<in> set xs \<Longrightarrow> length (f x) = n) \<Longrightarrow> length (concat (map f xs)) = n * length xs"
  by (induction xs) auto

text \<open>A digest has 32 bytes.\<close>

lemma length_sha256 [simp]: "length (sha256 s) = 32"
  by (simp add: sha256_def length_concat_same [of _ _ 4] length_sha256_blocks sha256_start_def)

lemma hex_char_lower: "n < 16 \<Longrightarrow> lower_hex (hex_char n)"
proof -
  assume "n < 16"
  then have "hex_char n \<in> set ''0123456789abcdef''" unfolding hex_char_def by (intro nth_mem) simp
  then show ?thesis by (auto simp: lower_hex_def is_digit_def in_range_def)
qed

lemma hex_EncodeToString_shape:
  "length (hex_EncodeToString s) = 2 * length s" "list_all lower_hex (hex_EncodeToString s)"
proof -
  show "length (hex_EncodeToString s) = 2 * length s"
    unfolding hex_EncodeToString_def by (rule length_concat_same) simp
  have "byte c < 256" for c :: char by (metis mod_less_divisor of_char_mod_256 zero_less_numeral)
  then have "byte c div 16 < 16" for c :: char by (simp add: div_less_iff_less_mult)
  then show "list_all lower_hex (hex_EncodeToString s)"
    by (auto simp: hex_EncodeToString_def list_all_iff intro!: hex_char_lower)
qed

end
