(* ===== verification/Pull_Request.thy ===== *)
theory Pull_Request imports Go_Hash Git_Remote begin

text \<open>
  \<^verbatim>\<open>internal/pullrequest/pullrequest.go\<close>: pull requests, reviews and statuses as records of the AT
  Protocol, and their validation. The parsers of AT Protocol identifiers are a library: \<open>at_syntax\<close> holds
  them, each returning the identifier it read or nothing, and the parts of an AT URI.
\<close>

section \<open>Identifiers\<close>

record at_syntax =
  sx_ParseATURI :: "string \<Rightarrow> string option"
  sx_Authority :: "string \<Rightarrow> string"
  sx_AsDID :: "string \<Rightarrow> string option"
  sx_Collection :: "string \<Rightarrow> string"
  sx_RecordKey :: "string \<Rightarrow> string"
  sx_ParseDID :: "string \<Rightarrow> string option"
  sx_ParseCID :: "string \<Rightarrow> string option"
  sx_ParseRecordKey :: "string \<Rightarrow> string option"

definition pull_Collection :: string where "pull_Collection = ''dev.adenosine.pullRequest''"
definition StatusCollection :: string where "StatusCollection = ''dev.adenosine.pullRequestStatus''"
definition ReviewCollection :: string where "ReviewCollection = ''dev.adenosine.pullRequestReview''"
definition repositoryCollection :: string where "repositoryCollection = ''dev.adenosine.repo''"

section \<open>Data\<close>

datatype pull_state = StateOpen | StateClosed | StateMerged | Pull_State_Other string

datatype verdict = VerdictComment | VerdictApprove | VerdictRequestChanges | Verdict_Other string

record strong_ref =
  sr_URI :: string
  sr_CID :: string

record pull_record =
  pl_SourceRepository :: strong_ref
  pl_TargetRepository :: strong_ref
  pl_SourceBranch :: string
  pl_TargetBranch :: string
  pl_HeadSHA :: string
  pl_Title :: string
  pl_Body :: string
  pl_CreatedAt :: instant
  pl_UpdatedAt :: instant

record pull_request = pull_record +
  pl_URI :: string
  pl_CID :: string
  pl_AuthorDID :: did

record status_record =
  st_Subject :: strong_ref
  st_TargetRepository :: strong_ref
  st_State :: pull_state
  st_MergeCommitSHA :: string
  st_CreatedAt :: instant
  st_UpdatedAt :: instant

record pull_status = status_record +
  st_URI :: string
  st_CID :: string
  st_AuthorDID :: did

record review_record =
  rv_Subject :: strong_ref
  rv_Verdict :: verdict
  rv_Body :: string
  rv_CreatedAt :: instant
  rv_UpdatedAt :: instant

record review = review_record +
  rv_URI :: string
  rv_CID :: string
  rv_AuthorDID :: did

section \<open>Errors\<close>

text \<open>
  \<open>ErrPermissionDenied\<close> wraps \<open>ErrAuthorization\<close>. The other types unwrap to their sentinel and, where
  there is one, the cause.
\<close>

definition pull_invalid :: "string \<Rightarrow> string \<Rightarrow> err" where
  "pull_invalid field problem = Field_Error pr_ErrValidation field problem"

definition ErrPermissionDenied :: err where
  "ErrPermissionDenied = Joined [Sentinel pr_ErrPermissionDenied, Sentinel pr_ErrAuthorization]"

definition conflict_error :: "err \<Rightarrow> err" where
  "conflict_error cause = Joined [Sentinel pr_ErrConflict, cause]"

definition authorization_error :: "string \<Rightarrow> err" where
  "authorization_error message = Joined [Sentinel pr_ErrAuthorization, errorf message]"

section \<open>Validation of fields\<close>

definition ValidateRecordKey :: "at_syntax \<Rightarrow> string \<Rightarrow> err option" where
  "ValidateRecordKey X key =
     (if sx_ParseRecordKey X key \<noteq> Some key
      then Some (pull_invalid ''rkey'' ''must be a canonical AT Protocol record key'') else None)"

text \<open>A CID that parses has ASCII characters only.\<close>

definition ValidateCID :: "at_syntax \<Rightarrow> string \<Rightarrow> err option" where
  "ValidateCID X cid =
     (if sx_ParseCID X cid \<noteq> Some cid \<or> cid \<noteq> lower cid \<or> \<not> prefix ''b'' cid
      then Some (pull_invalid ''CID'' ''must be a canonical CID'') else None)"

definition pull_validateBranch :: "string \<Rightarrow> string \<Rightarrow> err option" where
  "pull_validateBranch branch field =
     (let invalid = pull_invalid field ''must be a safe Git branch name containing at most 255 bytes''
      in if branch = [] \<or> 255 < length branch \<or> \<not> valid_string branch \<or> branch = [CHR 0x40] \<or> prefix ''-'' branch
            \<or> prefix ''/'' branch \<or> suffix ''/'' branch \<or> suffix ''.'' branch \<or> contains branch ''//''
            \<or> contains branch ''..'' \<or> contains branch (CHR 0x40 # ''{'') then Some invalid
         else if list_ex (\<lambda>component. prefix ''.'' component \<or> suffix ''.lock'' component)
                   (split_on (CHR ''/'') branch) then Some invalid
         else if list_ex (\<lambda>r. is_space r \<or> is_control r \<or> r \<in> set (map byte (CHR 0x5C # ''~^:?*['')))
                   (runes branch) then Some invalid
         else None)"

text \<open>\<open>gitSHAPattern\<close>: \<^verbatim>\<open>^(?:[0-9a-f]{40}|[0-9a-f]{64})$\<close>\<close>

definition gitSHAPattern :: "string \<Rightarrow> bool" where
  "gitSHAPattern sha \<longleftrightarrow> (length sha = 40 \<or> length sha = 64) \<and> list_all lower_hex sha"

definition validateGitSHA :: "string \<Rightarrow> string \<Rightarrow> err option" where
  "validateGitSHA sha field =
     (if \<not> gitSHAPattern sha \<or> list_all (\<lambda>c. c = CHR ''0'') sha
      then Some (pull_invalid field ''must be a lowercase 40 or 64 character hexadecimal Git object ID'') else None)"

definition validateATURI :: "at_syntax \<Rightarrow> string \<Rightarrow> string \<Rightarrow> string \<Rightarrow> err + string" where
  "validateATURI X uri collection field =
     (case sx_ParseATURI X uri of
        None \<Rightarrow> Inl (pull_invalid field (''must be a canonical '' @ collection @ '' AT URI''))
      | Some parsed \<Rightarrow>
          if parsed \<noteq> uri \<or> sx_Collection X parsed \<noteq> collection \<or> sx_RecordKey X parsed = []
          then Inl (pull_invalid field (''must be a canonical '' @ collection @ '' AT URI''))
          else if sx_AsDID X (sx_Authority X parsed) \<noteq> Some (sx_Authority X parsed)
          then Inl (pull_invalid field ''must use a canonical DID authority'')
          else Inr parsed)"

definition failure :: "err + 'a \<Rightarrow> err option" where
  "failure r = (case r of Inl e \<Rightarrow> Some e | Inr _ \<Rightarrow> None)"

definition validateStrongRef :: "at_syntax \<Rightarrow> strong_ref \<Rightarrow> string \<Rightarrow> string \<Rightarrow> err option" where
  "validateStrongRef X ref collection field =
     (case validateATURI X (sr_URI ref) collection (field @ ''.uri'') of
        Inl e \<Rightarrow> Some e
      | Inr _ \<Rightarrow> if ValidateCID X (sr_CID ref) \<noteq> None
                 then Some (pull_invalid (field @ ''.cid'') ''must be a canonical CID'') else None)"

definition validateTimes :: "instant \<Rightarrow> instant \<Rightarrow> err option" where
  "validateTimes createdAt updatedAt =
     (if createdAt = 0 then Some (pull_invalid ''createdAt'' ''must not be empty'')
      else if updatedAt = 0 then Some (pull_invalid ''updatedAt'' ''must not be empty'')
      else if updatedAt < createdAt then Some (pull_invalid ''updatedAt'' ''must not precede createdAt'')
      else None)"

text \<open>The first check that fails gives the error.\<close>

fun first_error :: "err option list \<Rightarrow> err option" where
  "first_error [] = None"
| "first_error (None # rs) = first_error rs"
| "first_error (Some e # rs) = Some e"

definition invalid_if :: "bool \<Rightarrow> string \<Rightarrow> string \<Rightarrow> err option" where
  "invalid_if c field problem = (if c then Some (pull_invalid field problem) else None)"

section \<open>Validation of records\<close>

definition PullRecord_Validate :: "at_syntax \<Rightarrow> 'a pull_record_scheme \<Rightarrow> err option" where
  "PullRecord_Validate X r =
     first_error
       [validateStrongRef X (pl_SourceRepository r) repositoryCollection ''sourceRepository'',
        validateStrongRef X (pl_TargetRepository r) repositoryCollection ''targetRepository'',
        pull_validateBranch (pl_SourceBranch r) ''sourceBranch'',
        pull_validateBranch (pl_TargetBranch r) ''targetBranch'',
        invalid_if (sr_URI (pl_SourceRepository r) = sr_URI (pl_TargetRepository r) \<and> pl_SourceBranch r = pl_TargetBranch r)
          ''sourceRepository'' ''source and target repository branches must differ'',
        validateGitSHA (pl_HeadSHA r) ''headSHA'',
        invalid_if (pl_Title r = [] \<or> 255 < length (pl_Title r) \<or> \<not> valid_string (pl_Title r))
          ''title'' ''must contain between 1 and 255 bytes'',
        invalid_if (int (length (pl_Body r)) > 65535 \<or> \<not> valid_string (pl_Body r))
          ''body'' ''must contain at most 65535 bytes'',
        validateTimes (pl_CreatedAt r) (pl_UpdatedAt r)]"

definition StatusRecord_Validate :: "at_syntax \<Rightarrow> 'a status_record_scheme \<Rightarrow> err option" where
  "StatusRecord_Validate X r =
     first_error
       [validateStrongRef X (st_Subject r) pull_Collection ''subject'',
        validateStrongRef X (st_TargetRepository r) repositoryCollection ''targetRepository'',
        invalid_if (st_State r \<noteq> StateOpen \<and> st_State r \<noteq> StateClosed \<and> st_State r \<noteq> StateMerged)
          ''state'' ''must be open, closed, or merged'',
        if st_State r = StateMerged then validateGitSHA (st_MergeCommitSHA r) ''mergeCommitSHA''
        else invalid_if (st_MergeCommitSHA r \<noteq> []) ''mergeCommitSHA'' ''must be absent unless state is merged'',
        validateTimes (st_CreatedAt r) (st_UpdatedAt r)]"

definition ReviewRecord_Validate :: "at_syntax \<Rightarrow> 'a review_record_scheme \<Rightarrow> err option" where
  "ReviewRecord_Validate X r =
     first_error
       [validateStrongRef X (rv_Subject r) pull_Collection ''subject'',
        invalid_if (rv_Verdict r \<noteq> VerdictComment \<and> rv_Verdict r \<noteq> VerdictApprove \<and> rv_Verdict r \<noteq> VerdictRequestChanges)
          ''verdict'' ''must be comment, approve, or request_changes'',
        invalid_if (int (length (rv_Body r)) > 65535 \<or> \<not> valid_string (rv_Body r))
          ''body'' ''must contain at most 65535 bytes'',
        validateTimes (rv_CreatedAt r) (rv_UpdatedAt r)]"

section \<open>Envelopes\<close>

definition validateEnvelope :: "at_syntax \<Rightarrow> string \<Rightarrow> string \<Rightarrow> did \<Rightarrow> string \<Rightarrow> err + string" where
  "validateEnvelope X uriValue cidValue authorDID collection =
     (if sx_ParseDID X authorDID \<noteq> Some authorDID
      then Inl (pull_invalid ''authorDID'' ''must be a canonical AT Protocol DID'')
      else case validateATURI X uriValue collection ''URI'' of
             Inl e \<Rightarrow> Inl e
           | Inr uri \<Rightarrow>
               if sx_Authority X uri \<noteq> authorDID
               then Inl (authorization_error ''record is not authored by its envelope authority'')
               else case ValidateCID X cidValue of Some e \<Rightarrow> Inl e | None \<Rightarrow> Inr uri)"

definition RepositoryOwnerDID :: "at_syntax \<Rightarrow> string \<Rightarrow> err + did" where
  "RepositoryOwnerDID X repositoryURI =
     map_sum id (sx_Authority X) (validateATURI X repositoryURI repositoryCollection ''targetRepository.uri'')"

definition StatusRecordKey :: "at_syntax \<Rightarrow> string \<Rightarrow> err + string" where
  "StatusRecordKey X pullRequestURI =
     map_sum id (\<lambda>_. base32_lower (sha256 (StatusCollection @ nul # pullRequestURI)))
       (validateATURI X pullRequestURI pull_Collection ''subject.uri'')"

definition PullRequest_Validate :: "at_syntax \<Rightarrow> pull_request \<Rightarrow> err option" where
  "PullRequest_Validate X p =
     (case PullRecord_Validate X p of
        Some e \<Rightarrow> Some e
      | None \<Rightarrow>
          (case validateEnvelope X (pl_URI p) (pl_CID p) (pl_AuthorDID p) pull_Collection of
             Inl e \<Rightarrow> Some e | Inr uri \<Rightarrow> ValidateRecordKey X (sx_RecordKey X uri)))"

definition Status_Validate :: "at_syntax \<Rightarrow> pull_status \<Rightarrow> err option" where
  "Status_Validate X s =
     (case StatusRecord_Validate X s of
        Some e \<Rightarrow> Some e
      | None \<Rightarrow>
          (case validateEnvelope X (st_URI s) (st_CID s) (st_AuthorDID s) StatusCollection of
             Inl e \<Rightarrow> Some e
           | Inr uri \<Rightarrow>
               (case RepositoryOwnerDID X (sr_URI (st_TargetRepository s)) of
                  Inl e \<Rightarrow> Some e
                | Inr owner \<Rightarrow>
                    if owner \<noteq> st_AuthorDID s
                    then Some (authorization_error ''status author is not target repository owner'')
                    else case StatusRecordKey X (sr_URI (st_Subject s)) of
                           Inl e \<Rightarrow> Some e
                         | Inr wantRKey \<Rightarrow>
                             invalid_if (sx_RecordKey X uri \<noteq> wantRKey)
                               ''URI'' ''must use the deterministic pull request status record key'')))"

definition Review_Validate :: "at_syntax \<Rightarrow> review \<Rightarrow> err option" where
  "Review_Validate X r =
     (case ReviewRecord_Validate X r of
        Some e \<Rightarrow> Some e
      | None \<Rightarrow>
          (case validateEnvelope X (rv_URI r) (rv_CID r) (rv_AuthorDID r) ReviewCollection of
             Inl e \<Rightarrow> Some e | Inr uri \<Rightarrow> ValidateRecordKey X (sx_RecordKey X uri)))"

text \<open>\<open>RandomRecordKey\<close>: the hexadecimal digits of a new UUID.\<close>

definition RandomRecordKey :: "(uuid \<Rightarrow> string) \<Rightarrow> ('w, uuid) op \<Rightarrow> ('w, string) op" where
  "RandomRecordKey uuid_string NewV7 =
     call NewV7 (wrapf ''generate pull request record key'') (\<lambda>i. ret (filter (\<lambda>c. c \<noteq> CHR ''-'') (uuid_string i)))"

section \<open>Facts\<close>

lemma first_error_None: "first_error rs = None \<longleftrightarrow> (\<forall>r \<in> set rs. r = None)"
  by (induction rs rule: first_error.induct) auto

lemma invalid_if_None [simp]: "invalid_if c f p = None \<longleftrightarrow> \<not> c"
  by (simp add: invalid_if_def)

end
