(* ===== verification/Pull_Service.thy ===== *)
theory Pull_Service imports Pull_Request Git_History begin

text \<open>
  \<^verbatim>\<open>internal/pullrequest/service.go\<close>: the operations on projected pull requests. The store, Git, the
  publisher of records, the access checks and the outbox are the interfaces the service holds.
\<close>

section \<open>Data\<close>

record fetch_target =
  ft_URI :: string
  ft_CID :: string
  ft_RepositoryID :: uuid
  ft_SourceURL :: string
  ft_SourceBranch :: string
  ft_HeadSHA :: string
  ft_TargetBranch :: string

record repository_targets =
  tg_Source :: strong_ref
  tg_Target :: strong_ref

record status_target =
  sg_Subject :: strong_ref
  sg_TargetRepository :: strong_ref
  sg_RepositoryID :: "uuid option"
  sg_StatusCreatedAt :: instant

record merge_target =
  mt_Subject :: strong_ref
  mt_SourceRepository :: strong_ref
  mt_SourceBranch :: string
  mt_HeadSHA :: string
  mt_TargetRepository :: strong_ref
  mt_TargetBranch :: string
  mt_Title :: string
  mt_Body :: string
  mt_CreatedAt :: instant
  mt_TargetOwnerDID :: did
  mt_RepositoryID :: uuid
  mt_State :: pull_state
  mt_StatusCreatedAt :: instant

record projected_pull_request = pull_request +
  pp_State :: pull_state
  pp_Status :: strong_ref
  pp_MergedCommitSHA :: string
  pp_ReviewCount :: int
  pp_IndexedAt :: instant

record projection =
  pj_PullRequestCount :: int
  pj_OpenPullRequestCount :: int
  pj_PullRequests :: "projected_pull_request list"

record projected_review = review +
  pv_IndexedAt :: instant

record pull_result =
  rs_RepositoryID :: uuid
  rs_HeadRef :: string
  rs_MergeBase :: string
  rs_Diff :: diff

record checkout =
  co_GitHTTPSURL :: string
  co_SourceBranch :: string
  co_HeadSHA :: string

record pull_create_input =
  pci_SourceRepositoryURI :: string
  pci_TargetRepositoryURI :: string
  pci_SourceBranch :: string
  pci_TargetBranch :: string
  pci_HeadSHA :: string
  pci_Title :: string
  pci_Body :: string

record review_input =
  ri_PullRequestURI :: string
  ri_Verdict :: verdict
  ri_Body :: string

record status_input =
  si_PullRequestURI :: string
  si_State :: pull_state

record merge_input =
  mg_PullRequestURI :: string
  mg_Strategy :: merge_strategy

record pull_merge_result =
  pm_Git :: merge_result
  pm_Status :: pull_status

record git_refs_updated =
  ru_RepositoryID :: uuid
  ru_Ref :: string
  ru_OldSHA :: string
  ru_NewSHA :: string
  ru_HeadSHA :: string
  ru_ActorDID :: did
  ru_PullRequestURI :: string
  ru_PullRequestCID :: string
  ru_Strategy :: string

section \<open>Interfaces\<close>

record 'w projection_store =
  pj_GetFetchTarget :: "string \<Rightarrow> ('w, fetch_target) op"
  pj_GetMergeTarget :: "string \<Rightarrow> ('w, merge_target) op"
  pj_List :: "string \<Rightarrow> int \<Rightarrow> ('w, projection) op"
  pj_Get :: "string \<Rightarrow> ('w, projected_pull_request) op"
  pj_GetRepositoryTargets :: "string \<Rightarrow> string \<Rightarrow> ('w, repository_targets) op"
  pj_ListReviews :: "string \<Rightarrow> int \<Rightarrow> ('w, projected_review list) op"
  pj_GetReviewTarget :: "string \<Rightarrow> ('w, strong_ref) op"
  pj_GetStatusTarget :: "string \<Rightarrow> ('w, status_target) op"

record 'w pull_git =
  gt_ControlledHead :: "uuid \<Rightarrow> string \<Rightarrow> ('w, string) op"
  gt_FetchRemote :: "uuid \<Rightarrow> remote_fetch \<Rightarrow> ('w, unit) op"
  gt_MergeBase :: "uuid \<Rightarrow> string \<Rightarrow> string \<Rightarrow> ('w, string) op"
  gt_Diff :: "uuid \<Rightarrow> string \<Rightarrow> string \<Rightarrow> ('w, diff) op"
  gt_Commit :: "uuid \<Rightarrow> string \<Rightarrow> ('w, commit) op"
  gt_Merge :: "uuid \<Rightarrow> merge_request \<Rightarrow> ('w, merge_result) op"

record 'w pull_publisher =
  pb_CreatePullRequest :: "did \<Rightarrow> string \<Rightarrow> pull_record \<Rightarrow> ('w, pull_request) op"
  pb_CreatePullRequestReview :: "did \<Rightarrow> string \<Rightarrow> review_record \<Rightarrow> ('w, review) op"
  pb_PutPullRequestStatus :: "did \<Rightarrow> status_record \<Rightarrow> ('w, pull_status) op"

text \<open>The authorizer may lack the triage check, which the service finds by a type assertion.\<close>

record 'w pull_service =
  pq_store :: "'w projection_store"
  pq_git :: "'w pull_git"
  pq_publisher :: "'w pull_publisher"
  pq_clock :: "'w \<Rightarrow> instant \<times> 'w"
  pq_CanWriteRepository :: "did \<Rightarrow> uuid \<Rightarrow> ('w, bool) op"
  pq_CanTriageRepository :: "(did \<Rightarrow> uuid \<Rightarrow> ('w, bool) op) option"
  pq_GitRefsUpdated :: "git_refs_updated \<Rightarrow> ('w, unit) op"
  pq_syntax :: at_syntax
  pq_uuid_string :: "uuid \<Rightarrow> string"
  pq_NewV7 :: "('w, uuid) op"

section \<open>Reads\<close>

definition projectionError :: "string \<Rightarrow> err \<Rightarrow> err" where
  "projectionError operation e =
     (if errors_is e pr_ErrNotFound then Sentinel pr_ErrNotFound else wrapf operation e)"

abbreviation pull_uri :: "'w pull_service \<Rightarrow> string \<Rightarrow> err option" where
  "pull_uri S uri \<equiv> failure (validateATURI (pq_syntax S) uri pull_Collection ''pull_request_uri'')"

abbreviation repository_uri :: "'w pull_service \<Rightarrow> string \<Rightarrow> err option" where
  "repository_uri S uri \<equiv> failure (RepositoryOwnerDID (pq_syntax S) uri)"

definition pull_Checkout :: "'w pull_service \<Rightarrow> string \<Rightarrow> ('w, checkout) op" where
  "pull_Checkout S uri =
     call (pj_GetFetchTarget (pq_store S) uri) (projectionError ''load pull request checkout'') (\<lambda>target.
     ret \<lparr>co_GitHTTPSURL = ft_SourceURL target, co_SourceBranch = ft_SourceBranch target, co_HeadSHA = ft_HeadSHA target\<rparr>)"

definition pull_List :: "'w pull_service \<Rightarrow> string \<Rightarrow> ('w, projection) op" where
  "pull_List S uri =
     check (repository_uri S uri) (\<lambda>e. e) (
     call (pj_List (pq_store S) uri 100) (projectionError ''list projected pull requests'') ret)"

definition pull_Get :: "'w pull_service \<Rightarrow> string \<Rightarrow> ('w, projected_pull_request) op" where
  "pull_Get S uri =
     check (pull_uri S uri) (\<lambda>e. e) (
     call (pj_Get (pq_store S) uri) (projectionError ''get projected pull request'') ret)"

definition pull_Reviews :: "'w pull_service \<Rightarrow> string \<Rightarrow> ('w, projected_review list) op" where
  "pull_Reviews S uri =
     check (pull_uri S uri) (\<lambda>e. e) (
     call (pj_GetReviewTarget (pq_store S) uri) (projectionError ''get pull request review target'') (\<lambda>_.
     call (pj_ListReviews (pq_store S) uri 100) (projectionError ''list projected pull request reviews'') ret))"

section \<open>Authoring\<close>

definition pull_Create :: "'w pull_service \<Rightarrow> did \<Rightarrow> pull_create_input \<Rightarrow> ('w, pull_request) op" where
  "pull_Create S authorDID input =
     check (repository_uri S (pci_SourceRepositoryURI input)) (\<lambda>e. e) (
     check (repository_uri S (pci_TargetRepositoryURI input)) (\<lambda>e. e) (
     call (pj_GetRepositoryTargets (pq_store S) (pci_SourceRepositoryURI input) (pci_TargetRepositoryURI input))
       (projectionError ''get pull request repository targets'') (\<lambda>targets.
     with_now (pq_clock S) (\<lambda>now.
     (let r = \<lparr>pl_SourceRepository = tg_Source targets, pl_TargetRepository = tg_Target targets,
               pl_SourceBranch = pci_SourceBranch input, pl_TargetBranch = pci_TargetBranch input,
               pl_HeadSHA = pci_HeadSHA input, pl_Title = pci_Title input, pl_Body = pci_Body input,
               pl_CreatedAt = now, pl_UpdatedAt = now\<rparr>
      in check (PullRecord_Validate (pq_syntax S) r) (\<lambda>e. e) (
         call (RandomRecordKey (pq_uuid_string S) (pq_NewV7 S)) (wrapf ''create pull request record key'') (\<lambda>rkey.
         pb_CreatePullRequest (pq_publisher S) authorDID rkey r)))))))"

definition pull_CreateReview :: "'w pull_service \<Rightarrow> did \<Rightarrow> review_input \<Rightarrow> ('w, review) op" where
  "pull_CreateReview S authorDID input =
     check (pull_uri S (ri_PullRequestURI input)) (\<lambda>e. e) (
     call (pj_GetReviewTarget (pq_store S) (ri_PullRequestURI input))
       (projectionError ''get pull request review target'') (\<lambda>subject.
     with_now (pq_clock S) (\<lambda>now.
     (let r = \<lparr>rv_Subject = subject, rv_Verdict = ri_Verdict input, rv_Body = ri_Body input,
               rv_CreatedAt = now, rv_UpdatedAt = now\<rparr>
      in check (ReviewRecord_Validate (pq_syntax S) r) (\<lambda>e. e) (
         call (RandomRecordKey (pq_uuid_string S) (pq_NewV7 S)) (wrapf ''create pull request review record key'') (\<lambda>rkey.
         pb_CreatePullRequestReview (pq_publisher S) authorDID rkey r))))))"

definition no_triage :: err where
  "no_triage = authorization_error ''status actor lacks repository triage permission''"

text \<open>Anyone but the owner of the target repository needs the triage permission on it.\<close>

definition authorize_status :: "'w pull_service \<Rightarrow> did \<Rightarrow> did \<Rightarrow> uuid option \<Rightarrow> ('w, unit) op" where
  "authorize_status S authorDID ownerDID repositoryID =
     (if authorDID \<noteq> ownerDID then
        (case (pq_CanTriageRepository S, repositoryID) of
           (Some triager, Some rid) \<Rightarrow>
             call (triager authorDID rid) (wrapf ''authorize pull request status'') (\<lambda>allowed.
             fail_if (\<not> allowed) no_triage (ret ()))
         | _ \<Rightarrow> raise no_triage)
      else ret ())"

definition pull_PutStatus :: "'w pull_service \<Rightarrow> did \<Rightarrow> status_input \<Rightarrow> ('w, pull_status) op" where
  "pull_PutStatus S authorDID input =
     check (pull_uri S (si_PullRequestURI input)) (\<lambda>e. e) (
     fail_if (si_State input \<noteq> StateOpen \<and> si_State input \<noteq> StateClosed)
       (pull_invalid ''state'' ''must be open or closed'') (
     call (pj_GetStatusTarget (pq_store S) (si_PullRequestURI input))
       (projectionError ''get pull request status target'') (\<lambda>target.
     call (outcome (RepositoryOwnerDID (pq_syntax S) (sr_URI (sg_TargetRepository target)))) (\<lambda>e. e) (\<lambda>ownerDID.
     call (authorize_status S authorDID ownerDID (sg_RepositoryID target)) (\<lambda>e. e) (\<lambda>_.
     with_now (pq_clock S) (\<lambda>now.
     pb_PutPullRequestStatus (pq_publisher S) ownerDID
       \<lparr>st_Subject = sg_Subject target, st_TargetRepository = sg_TargetRepository target, st_State = si_State input,
        st_MergeCommitSHA = [],
        st_CreatedAt = (if sg_StatusCreatedAt target = 0 then now else sg_StatusCreatedAt target),
        st_UpdatedAt = now\<rparr>))))))"

section \<open>Refreshing\<close>

definition destinationKey :: "string \<Rightarrow> string" where
  "destinationKey pullRequestURI = hex_EncodeToString (sha256 pullRequestURI)"

definition pull_request_fetch :: "fetch_target \<Rightarrow> string \<Rightarrow> remote_fetch" where
  "pull_request_fetch target priorHead =
     \<lparr>rf_SourceURL = ft_SourceURL target, rf_SourceBranch = ft_SourceBranch target, rf_ExpectedHead = ft_HeadSHA target,
      rf_Destination = destinationKey (ft_URI target), rf_PriorHead = priorHead\<rparr>"

text \<open>Where another refresh moved the reference first, its head is looked at once more.\<close>

definition fetch_head :: "'w pull_git \<Rightarrow> fetch_target \<Rightarrow> string \<Rightarrow> ('w, unit) op" where
  "fetch_head G target priorHead =
     attempt (gt_FetchRemote G (ft_RepositoryID target) (pull_request_fetch target priorHead))
       (\<lambda>e. if \<not> errors_is e git_ErrRefConflict then raise (wrapf ''fetch projected pull request head'' e)
             else call (gt_ControlledHead G (ft_RepositoryID target) (destinationKey (ft_URI target)))
                    (wrapf ''inspect concurrently refreshed pull request head'') (\<lambda>currentHead.
                  fail_if (currentHead \<noteq> ft_HeadSHA target) (wrapf ''fetch projected pull request head'' e) (ret ())))
       (\<lambda>_. ret ())"

definition pull_Refresh :: "'w pull_service \<Rightarrow> string \<Rightarrow> ('w, pull_result) op" where
  "pull_Refresh S uri =
     (let G = pq_git S in
     call (pj_GetFetchTarget (pq_store S) uri) (wrapf ''load projected pull request fetch target'') (\<lambda>target.
     (let rid = ft_RepositoryID target; destination = destinationKey (ft_URI target) in
     call (gt_ControlledHead G rid destination) (wrapf ''inspect projected pull request head'') (\<lambda>priorHead.
     call (if priorHead \<noteq> ft_HeadSHA target then fetch_head G target priorHead else ret ()) (\<lambda>e. e) (\<lambda>_.
     call (gt_MergeBase G rid (branch_ref (ft_TargetBranch target)) (ft_HeadSHA target))
       (wrapf ''compute projected pull request merge base'') (\<lambda>base.
     call (gt_Diff G rid base (ft_HeadSHA target)) (wrapf ''compute projected pull request diff'') (\<lambda>d.
     call (pj_GetFetchTarget (pq_store S) uri) (wrapf ''revalidate projected pull request fetch target'') (\<lambda>current.
     fail_if (current \<noteq> target) (Sentinel pr_ErrProjectionChanged) (
     ret \<lparr>rs_RepositoryID = rid, rs_HeadRef = ''refs/adenosine/pull/'' @ destination @ ''/head'',
          rs_MergeBase = base, rs_Diff = d\<rparr>)))))))))"

section \<open>Merging\<close>

fun strategy_string :: "merge_strategy \<Rightarrow> string" where
  "strategy_string MergeCommit = ''merge-commit''"
| "strategy_string MergeSquash = ''squash''"
| "strategy_string (Merge_Strategy_Other s) = s"

definition mergeTrailers :: "merge_target \<Rightarrow> merge_strategy \<Rightarrow> string" where
  "mergeTrailers target strategy =
     ''Adenosine-Pull-Request: '' @ sr_URI (mt_Subject target) @ [newline]
       @ ''Adenosine-Pull-Request-CID: '' @ sr_CID (mt_Subject target) @ [newline]
       @ ''Adenosine-Pull-Request-Head: '' @ mt_HeadSHA target @ [newline]
       @ ''Adenosine-Merge-Strategy: '' @ strategy_string strategy"

definition mergeMessage :: "merge_target \<Rightarrow> string \<Rightarrow> string" where
  "mergeMessage target trailers =
     mt_Title target @ (if mt_Body target \<noteq> [] then [newline, newline] @ mt_Body target else [])
       @ [newline, newline] @ trailers @ [newline]"

definition mergeEmail :: "did \<Rightarrow> string" where
  "mergeEmail actorDID = hex_EncodeToString (take 16 (sha256 actorDID)) @ (CHR 0x40 # ''users.noreply.adenosine.local'')"

definition recognizedMerge :: "commit \<Rightarrow> merge_target \<Rightarrow> merge_strategy \<Rightarrow> string \<Rightarrow> merge_result option" where
  "recognizedMerge c target strategy trailers =
     (if \<not> suffix trailers (trim_space (cm_Message c)) \<or> cs_Parents c = [] then None
      else if strategy = MergeCommit \<and> (length (cs_Parents c) \<noteq> 2 \<or> cs_Parents c ! 1 \<noteq> mt_HeadSHA target) then None
      else if strategy = MergeSquash \<and> length (cs_Parents c) \<noteq> 1 then None
      else Some \<lparr>res_OldSHA = cs_Parents c ! 0, res_NewSHA = cs_SHA c, res_HeadSHA = mt_HeadSHA target, res_TreeSHA = [],
                 res_TargetRef = branch_ref (mt_TargetBranch target), res_Strategy = strategy\<rparr>)"

definition merge_identity_of :: "did \<Rightarrow> instant \<Rightarrow> merge_identity" where
  "merge_identity_of actorDID now =
     \<lparr>mi_Name = actorDID, mi_Email = mergeEmail actorDID, mi_Time = now, mi_offset = 0\<rparr>"

definition merge_request_of :: "merge_target \<Rightarrow> merge_strategy \<Rightarrow> string \<Rightarrow> did \<Rightarrow> instant \<Rightarrow> merge_request" where
  "merge_request_of target strategy expected actorDID now =
     \<lparr>mr_TargetBranch = mt_TargetBranch target, mr_ExpectedTargetSHA = expected, mr_HeadSHA = mt_HeadSHA target,
      mr_Strategy = strategy, mr_Message = mergeMessage target (mergeTrailers target strategy),
      mr_Author = merge_identity_of actorDID now, mr_Committer = merge_identity_of actorDID now\<rparr>"

text \<open>The merge commit an earlier request left at the tip, or a new one.\<close>

definition place_merge :: "'w pull_service \<Rightarrow> did \<Rightarrow> merge_target \<Rightarrow> merge_strategy \<Rightarrow> commit \<Rightarrow> ('w, merge_result) op" where
  "place_merge S actorDID target strategy tip =
     (case recognizedMerge tip target strategy (mergeTrailers target strategy) of
        Some result \<Rightarrow> ret result
      | None \<Rightarrow>
          with_now (pq_clock S) (\<lambda>now.
          attempt (gt_Merge (pq_git S) (mt_RepositoryID target) (merge_request_of target strategy (cs_SHA tip) actorDID now))
            (\<lambda>e. raise (if errors_is e git_ErrMergeConflict \<or> errors_is e git_ErrMergeRefConflict then conflict_error e
                         else wrapf ''merge pull request Git ref'' e)) ret))"

definition refs_updated :: "merge_target \<Rightarrow> merge_strategy \<Rightarrow> did \<Rightarrow> merge_result \<Rightarrow> git_refs_updated" where
  "refs_updated target strategy actorDID result =
     \<lparr>ru_RepositoryID = mt_RepositoryID target, ru_Ref = res_TargetRef result, ru_OldSHA = res_OldSHA result,
      ru_NewSHA = res_NewSHA result, ru_HeadSHA = mt_HeadSHA target, ru_ActorDID = actorDID,
      ru_PullRequestURI = sr_URI (mt_Subject target), ru_PullRequestCID = sr_CID (mt_Subject target),
      ru_Strategy = strategy_string strategy\<rparr>"

definition merged_status :: "merge_target \<Rightarrow> merge_result \<Rightarrow> instant \<Rightarrow> status_record" where
  "merged_status target result now =
     \<lparr>st_Subject = mt_Subject target, st_TargetRepository = mt_TargetRepository target, st_State = StateMerged,
      st_MergeCommitSHA = res_NewSHA result,
      st_CreatedAt = (if mt_StatusCreatedAt target = 0 then now else mt_StatusCreatedAt target), st_UpdatedAt = now\<rparr>"

definition publish_merge :: "'w pull_service \<Rightarrow> did \<Rightarrow> merge_target \<Rightarrow> merge_strategy \<Rightarrow> merge_result \<Rightarrow> ('w, pull_merge_result) op" where
  "publish_merge S actorDID target strategy result =
     call (pq_GitRefsUpdated S (refs_updated target strategy actorDID result)) (wrapf ''record pull request merge event'') (\<lambda>_.
     with_now (pq_clock S) (\<lambda>now.
     call (pb_PutPullRequestStatus (pq_publisher S) (mt_TargetOwnerDID target) (merged_status target result now)) (\<lambda>e. e) (\<lambda>status.
     ret \<lparr>pm_Git = result, pm_Status = status\<rparr>)))"

definition pull_Merge :: "'w pull_service \<Rightarrow> did \<Rightarrow> merge_input \<Rightarrow> ('w, pull_merge_result) op" where
  "pull_Merge S actorDID input =
     check (pull_uri S (mg_PullRequestURI input)) (\<lambda>e. e) (
     fail_if (mg_Strategy input \<noteq> MergeCommit \<and> mg_Strategy input \<noteq> MergeSquash)
       (pull_invalid ''strategy'' ''must be merge-commit or squash'') (
     call (pj_GetMergeTarget (pq_store S) (mg_PullRequestURI input)) (projectionError ''get pull request merge target'') (\<lambda>target.
     fail_if (mt_State target \<noteq> StateOpen) (conflict_error (errorf ''pull request state is not open'')) (
     call (pq_CanWriteRepository S actorDID (mt_RepositoryID target)) (wrapf ''authorize pull request merge'') (\<lambda>allowed.
     fail_if (\<not> allowed) ErrPermissionDenied (
     call (pull_Refresh S (mg_PullRequestURI input)) (\<lambda>e. e) (\<lambda>_.
     call (pj_GetMergeTarget (pq_store S) (mg_PullRequestURI input))
       (projectionError ''revalidate pull request merge target'') (\<lambda>current.
     fail_if (current \<noteq> target \<or> mt_State current \<noteq> StateOpen) (conflict_error (Sentinel pr_ErrProjectionChanged)) (
     call (gt_Commit (pq_git S) (mt_RepositoryID target) (branch_ref (mt_TargetBranch target)))
       (wrapf ''read pull request merge target ref'') (\<lambda>tip.
     call (place_merge S actorDID target (mg_Strategy input) tip) (\<lambda>e. e) (\<lambda>result.
     publish_merge S actorDID target (mg_Strategy input) result)))))))))))"

end
