(* ===== verification/Pull_Tables.thy ===== *)
theory Pull_Tables
  imports Pull_Service Repo_Tables Org_Store Team_Store
begin

text \<open>
  \<^verbatim>\<open>internal/pullrequest/postgres.go\<close> with its queries in \<^verbatim>\<open>federation.sql\<close>, on the projection of the
  network's records that the federation worker keeps (migrations 5, 11 and 21). Other transactions change
  the tables between the queries of one request: \<open>pw_views\<close> is what each query of the store finds.
\<close>

section \<open>Rows\<close>

record network_row = network_repository +
  nw_OwnerDID :: did
  nw_canonical_uri :: string
  nw_lineage_uri :: string
  nw_PullRequestCount :: int
  nw_OpenPullRequestCount :: int

record pull_row = pull_request +
  pr_indexed_at :: instant
  pr_deleted_at :: "instant option"
  pr_status_uri :: string
  pr_status_cid :: string

record status_row = pull_status +
  sw_indexed_at :: instant
  sw_deleted_at :: "instant option"

record review_row = review +
  rw_indexed_at :: instant
  rw_deleted_at :: "instant option"

record network_tables =
  nt_repositories :: "network_row list"
  nt_pull_requests :: "pull_row list"
  nt_statuses :: "status_row list"
  nt_reviews :: "review_row list"

text \<open>The primary keys, by which every query of one row finds at most one.\<close>

definition network_keys :: "network_tables \<Rightarrow> bool" where
  "network_keys n \<longleftrightarrow> keyed nr_URI (nt_repositories n) \<and> keyed pl_URI (nt_pull_requests n)
     \<and> keyed st_URI (nt_statuses n) \<and> keyed rv_URI (nt_reviews n)"

section \<open>Joins\<close>

abbreviation live_network :: "network_row \<Rightarrow> bool" where
  "live_network r \<equiv> nr_deleted_at r = None \<and> nr_CID r \<noteq> []"

abbreviation live_pull :: "pull_row \<Rightarrow> bool" where
  "live_pull p \<equiv> pr_deleted_at p = None \<and> pl_CID p \<noteq> []"

abbreviation live_review :: "review_row \<Rightarrow> bool" where
  "live_review r \<equiv> rw_deleted_at r = None \<and> rv_CID r \<noteq> []"

definition pull_by_uri :: "network_tables \<Rightarrow> string \<Rightarrow> pull_row option" where
  "pull_by_uri n uri = find (\<lambda>p. pl_URI p = uri \<and> live_pull p) (nt_pull_requests n)"

definition network_by_ref :: "network_tables \<Rightarrow> strong_ref \<Rightarrow> network_row option" where
  "network_by_ref n ref = find (\<lambda>r. nr_URI r = sr_URI ref \<and> nr_CID r = sr_CID ref \<and> live_network r) (nt_repositories n)"

text \<open>The status a pull request's row names, while it is about this version of the pull request.\<close>

definition current_status :: "network_tables \<Rightarrow> pull_row \<Rightarrow> status_row option" where
  "current_status n p =
     (if pr_status_uri p = [] then None
      else find (\<lambda>s. st_URI s = pr_status_uri p \<and> st_CID s = pr_status_cid p \<and> sr_URI (st_Subject s) = pl_URI p
                   \<and> sr_CID (st_Subject s) = pl_CID p \<and> sw_deleted_at s = None \<and> st_CID s \<noteq> []) (nt_statuses n))"

definition state_of :: "status_row option \<Rightarrow> pull_state" where
  "state_of s = (case s of None \<Rightarrow> StateOpen | Some r \<Rightarrow> st_State r)"

definition status_created_at :: "status_row option \<Rightarrow> instant" where
  "status_created_at s = (case s of None \<Rightarrow> 0 | Some r \<Rightarrow> st_CreatedAt r)"

definition review_count :: "network_tables \<Rightarrow> pull_row \<Rightarrow> int" where
  "review_count n p =
     int (length (filter (\<lambda>r. sr_URI (rv_Subject r) = pl_URI p \<and> sr_CID (rv_Subject r) = pl_CID p \<and> live_review r)
       (nt_reviews n)))"

section \<open>Queries\<close>

type_synonym 'a net_sql = "(string \<Rightarrow> string \<Rightarrow> bool) \<Rightarrow> network_tables \<Rightarrow> org_tables \<Rightarrow> err + 'a"

definition optional_row :: "'a option \<Rightarrow> err + 'a" where
  "optional_row r = (case r of None \<Rightarrow> Inl no_rows | Some x \<Rightarrow> Inr x)"

definition sql_GetProjectedPullRequestFetchTarget :: "string \<Rightarrow> fetch_target net_sql" where
  "sql_GetProjectedPullRequestFetchTarget uri le n t =
     optional_row (Option.bind (pull_by_uri n uri) (\<lambda>p.
       Option.bind (network_by_ref n (pl_SourceRepository p)) (\<lambda>source.
       Option.bind (network_by_ref n (pl_TargetRepository p)) (\<lambda>target.
       case nr_LocalRepositoryID target of
         None \<Rightarrow> None
       | Some rid \<Rightarrow>
           if \<not> prefix ''https://'' (nr_GitHTTPS source) then None
           else Some \<lparr>ft_URI = pl_URI p, ft_CID = pl_CID p, ft_RepositoryID = rid, ft_SourceURL = nr_GitHTTPS source,
                      ft_SourceBranch = pl_SourceBranch p, ft_HeadSHA = pl_HeadSHA p,
                      ft_TargetBranch = pl_TargetBranch p\<rparr>))))"

text \<open>The repository of this server that the target's record was published for.\<close>

definition local_target :: "org_tables \<Rightarrow> network_row \<Rightarrow> uuid \<Rightarrow> bool" where
  "local_target t target rid \<longleftrightarrow>
     list_ex (\<lambda>r. rr_id r = rid \<and> repo_ATURI (rr_repo r) = nr_URI target \<and> repo_ATCID (rr_repo r) = nr_CID target
                \<and> repo_OwnerDID (rr_repo r) = nw_OwnerDID target \<and> rr_state r = StateActive \<and> live_repo r) (repositories t)"

definition sql_GetProjectedPullRequestMergeTarget :: "string \<Rightarrow> merge_target net_sql" where
  "sql_GetProjectedPullRequestMergeTarget uri le n t =
     optional_row (Option.bind (pull_by_uri n uri) (\<lambda>p.
       Option.bind (network_by_ref n (pl_TargetRepository p)) (\<lambda>target.
       case nr_LocalRepositoryID target of
         None \<Rightarrow> None
       | Some rid \<Rightarrow>
           if \<not> local_target t target rid then None
           else Some \<lparr>mt_Subject = \<lparr>sr_URI = pl_URI p, sr_CID = pl_CID p\<rparr>, mt_SourceRepository = pl_SourceRepository p,
                      mt_SourceBranch = pl_SourceBranch p, mt_HeadSHA = pl_HeadSHA p,
                      mt_TargetRepository = pl_TargetRepository p, mt_TargetBranch = pl_TargetBranch p,
                      mt_Title = pl_Title p, mt_Body = pl_Body p, mt_CreatedAt = pl_CreatedAt p,
                      mt_TargetOwnerDID = nw_OwnerDID target, mt_RepositoryID = rid,
                      mt_State = state_of (current_status n p),
                      mt_StatusCreatedAt = status_created_at (current_status n p)\<rparr>)))"

definition canonical_repository :: "network_tables \<Rightarrow> string \<Rightarrow> network_row option" where
  "canonical_repository n uri =
     Option.bind (find (\<lambda>r. nr_URI r = uri \<and> live_network r) (nt_repositories n)) (\<lambda>requested.
       find (\<lambda>r. nr_URI r = nw_canonical_uri requested \<and> live_network r) (nt_repositories n))"

definition network_ref :: "network_row \<Rightarrow> strong_ref" where
  "network_ref r = \<lparr>sr_URI = nr_URI r, sr_CID = nr_CID r\<rparr>"

definition sql_GetProjectedPullRequestRepositoryTargets :: "string \<Rightarrow> string \<Rightarrow> repository_targets net_sql" where
  "sql_GetProjectedPullRequestRepositoryTargets sourceURI targetURI le n t =
     optional_row (Option.bind (canonical_repository n sourceURI) (\<lambda>source.
       map_option (\<lambda>target. \<lparr>tg_Source = network_ref source, tg_Target = network_ref target\<rparr>)
         (canonical_repository n targetURI)))"

definition sql_GetProjectedPullRequestCounts :: "string \<Rightarrow> (int \<times> int) net_sql" where
  "sql_GetProjectedPullRequestCounts uri le n t =
     optional_row (map_option (\<lambda>r. (nw_PullRequestCount r, nw_OpenPullRequestCount r))
       (find (\<lambda>r. nr_URI r = uri \<and> live_network r) (nt_repositories n)))"

text \<open>\<open>projectedPullRequest\<close>: a row of the two queries that show pull requests.\<close>

definition projectedPullRequest :: "network_tables \<Rightarrow> pull_row \<Rightarrow> projected_pull_request" where
  "projectedPullRequest n p =
     pull_request.extend (pull_request.truncate p)
       (projected_pull_request.fields (state_of (current_status n p))
          (case current_status n p of None \<Rightarrow> \<lparr>sr_URI = [], sr_CID = []\<rparr> | Some s \<Rightarrow> \<lparr>sr_URI = st_URI s, sr_CID = st_CID s\<rparr>)
          (case current_status n p of None \<Rightarrow> [] | Some s \<Rightarrow> st_MergeCommitSHA s)
          (review_count n p) (pr_indexed_at p))"

text \<open>Pull requests to any repository of the lineage, the newest first.\<close>

definition same_lineage :: "network_tables \<Rightarrow> string \<Rightarrow> string \<Rightarrow> bool" where
  "same_lineage n target uri \<longleftrightarrow>
     list_ex (\<lambda>observed. nr_URI observed = target
        \<and> list_ex (\<lambda>requested. nr_URI requested = uri \<and> nw_lineage_uri observed = nw_lineage_uri requested) (nt_repositories n))
       (nt_repositories n)"

definition sql_ListProjectedPullRequests :: "string \<Rightarrow> int \<Rightarrow> projected_pull_request list net_sql" where
  "sql_ListProjectedPullRequests uri limit le n t =
     Inr (map (projectedPullRequest n) (take (nat limit)
       (sort_by (\<lambda>a b. pl_CreatedAt b < pl_CreatedAt a \<or> pl_CreatedAt a = pl_CreatedAt b \<and> le (pl_URI b) (pl_URI a))
          (filter (\<lambda>p. same_lineage n (sr_URI (pl_TargetRepository p)) uri \<and> live_pull p) (nt_pull_requests n)))))"

definition sql_GetProjectedPullRequest :: "string \<Rightarrow> projected_pull_request net_sql" where
  "sql_GetProjectedPullRequest uri le n t = optional_row (map_option (projectedPullRequest n) (pull_by_uri n uri))"

definition sql_ListProjectedPullRequestReviews :: "string \<Rightarrow> int \<Rightarrow> projected_review list net_sql" where
  "sql_ListProjectedPullRequestReviews uri limit le n t =
     Inr (map (\<lambda>r. review.extend (review.truncate r) (projected_review.fields (rw_indexed_at r)))
       (take (nat limit)
         (sort_by (\<lambda>a b. rv_CreatedAt a < rv_CreatedAt b \<or> rv_CreatedAt a = rv_CreatedAt b \<and> le (rv_URI a) (rv_URI b))
            (filter (\<lambda>r. sr_URI (rv_Subject r) = uri \<and> live_review r
                \<and> (case pull_by_uri n uri of None \<Rightarrow> False | Some p \<Rightarrow> pl_CID p = sr_CID (rv_Subject r))) (nt_reviews n)))))"

definition sql_GetProjectedPullRequestReviewTarget :: "string \<Rightarrow> strong_ref net_sql" where
  "sql_GetProjectedPullRequestReviewTarget uri le n t =
     optional_row (map_option (\<lambda>p. \<lparr>sr_URI = pl_URI p, sr_CID = pl_CID p\<rparr>) (pull_by_uri n uri))"

text \<open>
  The local repository may be missing. The repository the pull request names may be a former identity of the target.
\<close>

definition sql_GetProjectedPullRequestStatusTarget :: "string \<Rightarrow> status_target net_sql" where
  "sql_GetProjectedPullRequestStatusTarget uri le n t =
     optional_row (Option.bind (pull_by_uri n uri) (\<lambda>p.
       Option.bind (find (\<lambda>r. nr_URI r = sr_URI (pl_TargetRepository p)) (nt_repositories n)) (\<lambda>observed.
       Option.bind (find (\<lambda>r. nr_URI r = nw_canonical_uri observed \<and> live_network r) (nt_repositories n)) (\<lambda>target.
       Some \<lparr>sg_Subject = \<lparr>sr_URI = pl_URI p, sr_CID = pl_CID p\<rparr>, sg_TargetRepository = pl_TargetRepository p,
             sg_RepositoryID =
               (case nr_LocalRepositoryID target of
                  None \<Rightarrow> None
                | Some rid \<Rightarrow> if list_ex (\<lambda>r. rr_id r = rid \<and> live_repo r) (repositories t) then Some rid else None),
             sg_StatusCreatedAt = status_created_at (current_status n p)\<rparr>))))"

section \<open>The world\<close>

datatype pull_sent =
    Sent_PullRequest did string pull_record
  | Sent_Review did string review_record
  | Sent_Status did status_record
  | Sent_Event git_refs_updated

record 'g pull_world = pg_world +
  pw_views :: "nat \<Rightarrow> network_tables \<times> org_tables"
  pw_reads :: nat
  pw_instants :: "nat \<Rightarrow> instant"
  pw_ticks :: nat
  pw_ids :: "nat \<Rightarrow> err + uuid"
  pw_ids_used :: nat
  pw_replies :: "nat \<Rightarrow> err + string \<times> string"
  pw_sent :: "pull_sent list"
  pw_git :: 'g

text \<open>A query of the store finds the next view, which the access checks after it see too.\<close>

definition net_query :: "'a net_sql \<Rightarrow> ('g pull_world, 'a) op" where
  "net_query q w =
     (let v = w\<lparr>faults := tl (faults w), tables := snd (pw_views w (pw_reads w)), pw_reads := Suc (pw_reads w)\<rparr>
      in if faults w \<noteq> [] \<and> hd (faults w) then (Inl (Opaque ''database''), v)
         else (q (collation w) (fst (pw_views w (pw_reads w))) (tables v), v))"

section \<open>The store\<close>

definition pull_query :: "string \<Rightarrow> 'a net_sql \<Rightarrow> ('g pull_world, 'a) op" where
  "pull_query what q =
     call (net_query q) (\<lambda>e. if errors_is e pgx_ErrNoRows then Sentinel pr_ErrNotFound else wrapf what e) ret"

definition pg_ListPulls :: "string \<Rightarrow> int \<Rightarrow> ('g pull_world, projection) op" where
  "pg_ListPulls uri limit =
     call (pull_query ''query projected pull request counts'' (sql_GetProjectedPullRequestCounts uri)) (\<lambda>e. e) (\<lambda>(total, open_count).
     call (net_query (sql_ListProjectedPullRequests uri limit)) (wrapf ''query projected pull requests'') (\<lambda>rows.
     ret \<lparr>pj_PullRequestCount = total, pj_OpenPullRequestCount = open_count, pj_PullRequests = rows\<rparr>))"

definition pg_GetPull :: "string \<Rightarrow> ('g pull_world, projected_pull_request) op" where
  "pg_GetPull uri = pull_query ''query projected pull request'' (sql_GetProjectedPullRequest uri)"

definition pg_GetRepositoryTargets :: "string \<Rightarrow> string \<Rightarrow> ('g pull_world, repository_targets) op" where
  "pg_GetRepositoryTargets source target =
     pull_query ''query projected pull request repository targets'' (sql_GetProjectedPullRequestRepositoryTargets source target)"

definition pg_ListReviews :: "string \<Rightarrow> int \<Rightarrow> ('g pull_world, projected_review list) op" where
  "pg_ListReviews uri limit =
     call (net_query (sql_ListProjectedPullRequestReviews uri limit)) (wrapf ''query projected pull request reviews'') ret"

definition pg_GetReviewTarget :: "string \<Rightarrow> ('g pull_world, strong_ref) op" where
  "pg_GetReviewTarget uri =
     pull_query ''query projected pull request review target'' (sql_GetProjectedPullRequestReviewTarget uri)"

definition pg_GetStatusTarget :: "string \<Rightarrow> ('g pull_world, status_target) op" where
  "pg_GetStatusTarget uri =
     pull_query ''query projected pull request status target'' (sql_GetProjectedPullRequestStatusTarget uri)"

definition pg_GetFetchTarget :: "string \<Rightarrow> ('g pull_world, fetch_target) op" where
  "pg_GetFetchTarget uri =
     pull_query ''query projected pull request fetch target'' (sql_GetProjectedPullRequestFetchTarget uri)"

definition pg_GetMergeTarget :: "string \<Rightarrow> ('g pull_world, merge_target) op" where
  "pg_GetMergeTarget uri =
     pull_query ''query projected pull request merge target'' (sql_GetProjectedPullRequestMergeTarget uri)"

definition postgres_projection_store :: "'g pull_world projection_store" where
  "postgres_projection_store =
     \<lparr>pj_GetFetchTarget = pg_GetFetchTarget, pj_GetMergeTarget = pg_GetMergeTarget, pj_List = pg_ListPulls,
      pj_Get = pg_GetPull, pj_GetRepositoryTargets = pg_GetRepositoryTargets, pj_ListReviews = pg_ListReviews,
      pj_GetReviewTarget = pg_GetReviewTarget, pj_GetStatusTarget = pg_GetStatusTarget\<rparr>"

text \<open>
  The pull request service over its store, the Git service and the access checks. The clock, the
  generator of identifiers, the outbox and the publisher are schedules; what they are sent is recorded
  in order.
\<close>

section \<open>The outside\<close>

definition pull_clock :: "'g pull_world \<Rightarrow> instant \<times> 'g pull_world" where
  "pull_clock w = (pw_instants w (pw_ticks w), w\<lparr>pw_ticks := Suc (pw_ticks w)\<rparr>)"

definition pull_ids :: "('g pull_world, uuid) op" where
  "pull_ids w = (pw_ids w (pw_ids_used w), w\<lparr>pw_ids_used := Suc (pw_ids_used w)\<rparr>)"

definition pull_send :: "pull_sent \<Rightarrow> ('g pull_world, string \<times> string) op" where
  "pull_send r w = (pw_replies w (length (pw_sent w)), w\<lparr>pw_sent := pw_sent w @ [r]\<rparr>)"

definition scheduled_publisher :: "'g pull_world pull_publisher" where
  "scheduled_publisher =
     \<lparr>pb_CreatePullRequest = (\<lambda>author key r.
        call (pull_send (Sent_PullRequest author key r)) (\<lambda>e. e) (\<lambda>(uri, cid).
        ret (pull_record.extend r (pull_request.fields uri cid author)))),
      pb_CreatePullRequestReview = (\<lambda>author key r.
        call (pull_send (Sent_Review author key r)) (\<lambda>e. e) (\<lambda>(uri, cid).
        ret (review_record.extend r (review.fields uri cid author)))),
      pb_PutPullRequestStatus = (\<lambda>author r.
        call (pull_send (Sent_Status author r)) (\<lambda>e. e) (\<lambda>(uri, cid).
        ret (status_record.extend r (pull_status.fields uri cid author))))\<rparr>"

definition scheduled_outbox :: "git_refs_updated \<Rightarrow> ('g pull_world, unit) op" where
  "scheduled_outbox e = call (pull_send (Sent_Event e)) (\<lambda>e. e) (\<lambda>_. ret ())"

section \<open>The service\<close>

definition on_pull_git :: "('g, 'a) op \<Rightarrow> ('g pull_world, 'a) op" where
  "on_pull_git m w = (case m (pw_git w) of (r, g) \<Rightarrow> (r, w\<lparr>pw_git := g\<rparr>))"

definition pull_git_of :: "'g remote_service \<Rightarrow> 'g pull_world pull_git" where
  "pull_git_of R =
     \<lparr>gt_ControlledHead = (\<lambda>rid d. on_pull_git (git_ControlledHead (rs_git R) rid d)),
      gt_FetchRemote = (\<lambda>rid r. on_pull_git (git_FetchRemote R rid r)),
      gt_MergeBase = (\<lambda>rid a b. on_pull_git (git_MergeBase (rs_git R) rid a b)),
      gt_Diff = (\<lambda>rid a b. on_pull_git (git_Diff (rs_git R) rid a b)),
      gt_Commit = (\<lambda>rid r. on_pull_git (git_Commit (rs_git R) rid r)),
      gt_Merge = (\<lambda>rid r. on_pull_git (git_Merge (rs_git R) rid r))\<rparr>"

record 'g pull_config =
  pf_remote :: "'g remote_service"
  pf_syntax :: at_syntax
  pf_uuid_string :: "uuid \<Rightarrow> string"

definition pulls_of :: "'g pull_config \<Rightarrow> 'g pull_world pull_service" where
  "pulls_of C =
     \<lparr>pq_store = postgres_projection_store, pq_git = pull_git_of (pf_remote C), pq_publisher = scheduled_publisher,
      pq_clock = pull_clock, pq_CanWriteRepository = CanWriteRepository, pq_CanTriageRepository = Some CanTriageRepository,
      pq_GitRefsUpdated = scheduled_outbox, pq_syntax = pf_syntax C, pq_uuid_string = pf_uuid_string C, pq_NewV7 = pull_ids\<rparr>"

lemma pulls_of_simps [simp]:
  "pq_store (pulls_of C) = postgres_projection_store" "pq_git (pulls_of C) = pull_git_of (pf_remote C)"
  "pq_publisher (pulls_of C) = scheduled_publisher" "pq_clock (pulls_of C) = pull_clock"
  "pq_CanWriteRepository (pulls_of C) = CanWriteRepository"
  "pq_CanTriageRepository (pulls_of C) = Some CanTriageRepository"
  "pq_GitRefsUpdated (pulls_of C) = scheduled_outbox" "pq_syntax (pulls_of C) = pf_syntax C"
  "pq_uuid_string (pulls_of C) = pf_uuid_string C" "pq_NewV7 (pulls_of C) = pull_ids"
  by (simp_all add: pulls_of_def)

lemma projection_store_simps [simp]:
  "pj_GetFetchTarget postgres_projection_store = pg_GetFetchTarget"
  "pj_GetMergeTarget postgres_projection_store = pg_GetMergeTarget"
  "pj_GetRepositoryTargets postgres_projection_store = pg_GetRepositoryTargets"
  "pj_GetReviewTarget postgres_projection_store = pg_GetReviewTarget"
  "pj_GetStatusTarget postgres_projection_store = pg_GetStatusTarget"
  by (simp_all add: postgres_projection_store_def)

lemma pull_git_simps [simp]:
  "gt_ControlledHead (pull_git_of R) rid d = on_pull_git (git_ControlledHead (rs_git R) rid d)"
  "gt_FetchRemote (pull_git_of R) rid r = on_pull_git (git_FetchRemote R rid r)"
  "gt_MergeBase (pull_git_of R) rid a b = on_pull_git (git_MergeBase (rs_git R) rid a b)"
  "gt_Diff (pull_git_of R) rid a b = on_pull_git (git_Diff (rs_git R) rid a b)"
  "gt_Commit (pull_git_of R) rid a = on_pull_git (git_Commit (rs_git R) rid a)"
  "gt_Merge (pull_git_of R) rid q = on_pull_git (git_Merge (rs_git R) rid q)"
  by (simp_all add: pull_git_of_def)

section \<open>What a step leaves alone\<close>

text \<open>Git's world beside what stays the same during a request: the schedule of views and the order of text.\<close>

definition pull_view :: "('g \<Rightarrow> 'v) \<Rightarrow> 'g pull_world \<Rightarrow> 'v \<times> (nat \<Rightarrow> network_tables \<times> org_tables) \<times> (string \<Rightarrow> string \<Rightarrow> bool)" where
  "pull_view v w = (v (pw_git w), pw_views w, collation w)"

lemma net_query_frames [op_frames]: "frames (pull_view v) (net_query q)" "frames pw_sent (net_query q)" "frames pw_git (net_query q)"
  by (simp_all add: frames_def net_query_def Let_def pull_view_def)

lemma pull_query_frames [op_frames]:
  "frames (pull_view v) (pull_query what q)" "frames pw_sent (pull_query what q)" "frames pw_git (pull_query what q)"
  unfolding pull_query_def by (intro op_frames)+

lemma on_pull_git_frames [op_frames]:
  "frames v m \<Longrightarrow> frames (pull_view v) (on_pull_git m)" "frames pw_sent (on_pull_git m)"
  by (simp_all add: frames_def on_pull_git_def pull_view_def split: prod.split) (metis snd_conv)

lemma pull_ids_frames [op_frames]: "frames (pull_view v) pull_ids" "frames pw_sent pull_ids"
  by (simp_all add: frames_def pull_ids_def pull_view_def)

lemma pull_send_frames [op_frames]: "frames (pull_view v) (pull_send r)"
  by (simp add: frames_def pull_send_def pull_view_def)

lemma keeps_pull_clock: "keeps_clock (\<lambda>w. I (pull_view v w)) pull_clock" "keeps_clock (\<lambda>w. J (pw_sent w)) pull_clock"
  by (simp_all add: keeps_clock_def pull_clock_def pull_view_def)

lemma pg_exec_frames_git [op_frames]:
  "frames (\<lambda>w. pw_git w) (pg_exec q)" "frames pw_sent (pg_exec q)" "frames (pull_view v) (pg_exec q)"
  by (simp_all add: frames_def pg_exec_def Let_def pull_view_def split: sum.split prod.split)

end
