(* ===== verification/Pull_Safety.thy ===== *)
theory Pull_Safety imports Pull_Tables Git_Remote_Safety begin

text \<open>
  What a request to merge may do to the references of the repositories, from what Git documents of its
  commands, and what it sends to the outbox and the publisher.
\<close>

section \<open>Commands of the history that only read\<close>

lemma history_steps_frame:
  assumes "git_refs_ok v S"
  shows "frames v (git_resolveCommit S p revision)" and "frames v (git_readCommit S p sha)"
    and "frames v (git_Commit S rid revision)" and "frames v (git_MergeBase S rid a b)" and "frames v (git_Diff S rid a b)"
    and "frames v (git_ControlledHead S rid d)"
proof -
  note steps = reading_frames(1) [OF assms] surroundings_frames [OF reading_frames(2) [OF assms]]
  have resolve: "frames v (git_resolveCommit S p revision)" for p revision
    unfolding git_resolveCommit_def git_resolve_def git_objectProperty_def object_query_def git_runBounded_def
    by (intro op_frames steps; simp add: reads_only_def known_operations_def)
  have read: "frames v (git_readCommit S p sha)" for p sha
    unfolding git_readCommit_def git_runBounded_def show_commit_def
    by (intro op_frames steps; simp add: reads_only_def known_operations_def)
  show "frames v (git_resolveCommit S p revision)" "frames v (git_readCommit S p sha)" by (rule resolve read)+
  show "frames v (git_Commit S rid revision)"
    unfolding git_Commit_def by (intro op_frames merge_steps_frame(1) [OF assms] resolve read)
  show "frames v (git_MergeBase S rid a b)"
    unfolding git_MergeBase_def git_runBounded_def
    by (intro op_frames merge_steps_frame(1) [OF assms] resolve steps; simp add: reads_only_def known_operations_def)
  show "frames v (git_Diff S rid a b)"
    unfolding git_Diff_def git_runBounded_def diff_args_def
    by (intro op_frames merge_steps_frame(1) [OF assms] resolve steps; simp add: reads_only_def known_operations_def)
  show "frames v (git_ControlledHead S rid d)"
    unfolding git_ControlledHead_def git_resolve_def object_query_def git_runBounded_def
    by (intro op_frames merge_steps_frame(1) [OF assms] steps; simp add: reads_only_def known_operations_def)
qed

section \<open>References outside the server's own\<close>

definition own_ref :: "string \<Rightarrow> bool" where
  "own_ref r \<longleftrightarrow> prefix ''refs/adenosine/'' r"

definition same_branches :: "refs \<Rightarrow> refs \<Rightarrow> bool" where
  "same_branches f g \<longleftrightarrow> (\<forall>p r. \<not> own_ref r \<longrightarrow> g p r = f p r)"

lemma quarantine_is_own: "quarantine_ref r \<Longrightarrow> own_ref r"
  unfolding quarantine_ref_def own_ref_def by (erule prefix_order.trans [rotated]) simp

lemma pull_target_is_own: "own_ref (pull_target r)"
  by (simp add: own_ref_def pull_target_def)

lemma branch_not_own: "\<not> own_ref (branch_ref b)"
  by (simp add: own_ref_def branch_ref_def)

lemma promoted_same_branches:
  "promoted p (pull_target r) allowed f g \<Longrightarrow> same_branches e f \<Longrightarrow> same_branches e g"
proof -
  assume moved: "promoted p (pull_target r) allowed f g" and same: "same_branches e f"
  have "g q s = f q s" if "\<not> own_ref s" for q s
  proof -
    have "\<not> quarantine_ref s" "s \<noteq> pull_target r" using that quarantine_is_own pull_target_is_own by auto
    then show ?thesis using moved by (simp add: promoted_def outside_quarantine_def)
  qed
  with same show ?thesis by (simp add: same_branches_def)
qed

definition paths_are :: "'w git_service \<Rightarrow> (uuid \<Rightarrow> string) \<Rightarrow> bool" where
  "paths_are S paths \<longleftrightarrow> (\<forall>rid. path_is S rid (paths rid))"

text \<open>The hypotheses on Git of a merge request: the documented effect of its commands on references.\<close>

definition pull_git_ok :: "('g \<Rightarrow> refs) \<Rightarrow> (string \<Rightarrow> string \<Rightarrow> bool) \<Rightarrow> (uuid \<Rightarrow> string) \<Rightarrow> 'g remote_service \<Rightarrow> bool" where
  "pull_git_ok v ancestor paths R \<longleftrightarrow>
     remote_ok v ancestor R \<and> git_refs_ok v (rs_git R) \<and> paths_are (rs_git R) paths \<and> gs_beforeMergeCAS (rs_git R) = None"

lemma pull_git_okD:
  assumes "pull_git_ok v ancestor paths R"
  shows "remote_ok v ancestor R" and "git_refs_ok v (rs_git R)" and "path_is (rs_git R) rid (paths rid)"
    and "gs_beforeMergeCAS (rs_git R) = None"
  using assms by (simp_all add: pull_git_ok_def paths_are_def)

section \<open>Refreshing\<close>

definition quiet :: "('g \<Rightarrow> refs) \<Rightarrow> 'g pull_world \<Rightarrow> 'g pull_world \<Rightarrow> bool" where
  "quiet v w0 w \<longleftrightarrow> same_branches (v (pw_git w0)) (v (pw_git w)) \<and> pw_views w = pw_views w0 \<and> collation w = collation w0"

lemma quiet_refl: "quiet v w w"
  by (simp add: quiet_def same_branches_def)

lemma frames_quiet: "frames (pull_view v) m \<Longrightarrow> keeps (quiet v w0) m"
  using frames_keeps [of "pull_view v" m "\<lambda>(g, V, L). same_branches (v (pw_git w0)) g \<and> V = pw_views w0 \<and> L = collation w0"]
  by (simp add: pull_view_def quiet_def [abs_def])

lemma keeps_FetchRemote:
  assumes "pull_git_ok v ancestor paths R"
  shows "keeps (quiet v w0) (on_pull_git (git_FetchRemote R rid r))"
proof (rule keepsI)
  fix w assume w: "quiet v w0 w"
  obtain res g where run: "git_FetchRemote R rid r (pw_git w) = (res, g)" by force
  note fetch = triple_FetchRemote [OF pull_git_okD(1,3) [OF assms], where f = "v (pw_git w)" and r = r]
  have "promoted (paths rid) (pull_target r) (declared_move r) (v (pw_git w)) (v g)"
    using triple_Inl [OF fetch quarantined_refl, where w' = g] triple_Inr [OF fetch quarantined_refl, where w' = g] run
    by (cases res) auto
  then show "quiet v w0 (snd (on_pull_git (git_FetchRemote R rid r) w))"
    using w run promoted_same_branches by (auto simp: quiet_def on_pull_git_def)
qed

lemma keeps_Refresh:
  assumes "pull_git_ok v ancestor paths (pf_remote C)"
  shows "keeps (quiet v w0) (pull_Refresh (pulls_of C) uri)"
proof -
  note reads = history_steps_frame [OF pull_git_okD(2) [OF assms]]
  show ?thesis
    unfolding pull_Refresh_def fetch_head_def Let_def pulls_of_simps projection_store_simps pull_git_simps pg_GetFetchTarget_def
    by (intro op_keeps keeps_FetchRemote [OF assms] frames_quiet pull_query_frames on_pull_git_frames(1) reads)
qed

section \<open>Merging\<close>

text \<open>
  The merge was permitted: some view showed the pull request open with this target, and its access
  tables let the actor write the repository.
\<close>

definition merge_permitted :: "'g pull_world \<Rightarrow> did \<Rightarrow> string \<Rightarrow> merge_target \<Rightarrow> bool" where
  "merge_permitted w actorDID uri target \<longleftrightarrow> mt_State target = StateOpen \<and>
     (\<exists>i. sql_GetProjectedPullRequestMergeTarget uri (collation w) (fst (pw_views w i)) (snd (pw_views w i)) = Inr target
        \<and> map_sum id fst (sql_CanWriteRepository actorDID (mt_RepositoryID target) (snd (pw_views w i))) = Inr True)"

definition target_moved :: "(uuid \<Rightarrow> string) \<Rightarrow> merge_target \<Rightarrow> string \<Rightarrow> string \<Rightarrow> refs \<Rightarrow> refs \<Rightarrow> bool" where
  "target_moved paths target old new f g \<longleftrightarrow>
     (let p = paths (mt_RepositoryID target); b = branch_ref (mt_TargetBranch target)
      in f p b = Some old \<and> g p b = Some new
         \<and> (\<forall>q r. \<not> own_ref r \<longrightarrow> (q, r) \<noteq> (p, b) \<longrightarrow> g q r = f q r))"

definition merge_moves ::
  "('g \<Rightarrow> refs) \<Rightarrow> (uuid \<Rightarrow> string) \<Rightarrow> did \<Rightarrow> string \<Rightarrow> 'g pull_world \<Rightarrow> 'g pull_world \<Rightarrow> bool" where
  "merge_moves v paths actorDID uri w0 w \<longleftrightarrow>
     same_branches (v (pw_git w0)) (v (pw_git w))
     \<or> (\<exists>target old new. merge_permitted w0 actorDID uri target
          \<and> target_moved paths target old new (v (pw_git w0)) (v (pw_git w)))"

lemma quiet_moves: "quiet v w0 w \<Longrightarrow> merge_moves v paths actorDID uri w0 w"
  by (simp add: quiet_def merge_moves_def)

lemma frames_moves: "frames (pull_view v) m \<Longrightarrow> keeps (merge_moves v paths actorDID uri w0) m"
  using frames_keeps [of "pull_view v" m "\<lambda>(g, V, L). same_branches (v (pw_git w0)) g
      \<or> (\<exists>target old new. merge_permitted w0 actorDID uri target \<and> target_moved paths target old new (v (pw_git w0)) g)"]
  by (simp add: pull_view_def merge_moves_def [abs_def])

lemma triple_MergeTarget:
  "triple (quiet v w0) (pg_GetMergeTarget uri)
     (\<lambda>target w. quiet v w0 w \<and> (\<exists>i. tables w = snd (pw_views w0 i)
        \<and> sql_GetProjectedPullRequestMergeTarget uri (collation w0) (fst (pw_views w0 i)) (snd (pw_views w0 i)) = Inr target))
     (quiet v w0)"
proof (rule tripleI)
  fix w e w' assume "quiet v w0 w" and "pg_GetMergeTarget uri w = (Inl e, w')"
  then show "quiet v w0 w'"
    using keeps_result [OF frames_quiet [OF pull_query_frames(1)]] unfolding pg_GetMergeTarget_def by blast
next
  fix w target w' assume w: "quiet v w0 w" and run: "pg_GetMergeTarget uri w = (Inr target, w')"
  have "quiet v w0 w'"
    using keeps_result [OF frames_quiet [OF pull_query_frames(1)]] w run unfolding pg_GetMergeTarget_def by blast
  moreover have "tables w' = snd (pw_views w0 (pw_reads w))
      \<and> sql_GetProjectedPullRequestMergeTarget uri (collation w0) (fst (pw_views w0 (pw_reads w))) (snd (pw_views w0 (pw_reads w)))
          = Inr target"
    using w run by (auto simp: pg_GetMergeTarget_def pull_query_def op_ok net_query_def Let_def quiet_def split: if_splits)
  ultimately show "quiet v w0 w' \<and> (\<exists>i. tables w' = snd (pw_views w0 i)
        \<and> sql_GetProjectedPullRequestMergeTarget uri (collation w0) (fst (pw_views w0 i)) (snd (pw_views w0 i)) = Inr target)"
    by blast
qed

lemma triple_CanWrite:
  "triple (\<lambda>w. quiet v w0 w \<and> tables w = t) (CanWriteRepository actorDID rid)
     (\<lambda>allowed w. quiet v w0 w \<and> (allowed \<longrightarrow> map_sum id fst (sql_CanWriteRepository actorDID rid t) = Inr True))
     (quiet v w0)"
proof (rule tripleI)
  have frame: "frames (pull_view v) (CanWriteRepository actorDID rid)"
    unfolding CanWriteRepository_def auth_query_def by (intro op_frames)
  show "quiet v w0 w'" if "quiet v w0 w \<and> tables w = t" "CanWriteRepository actorDID rid w = (Inl e, w')" for w e w'
    using keeps_result [OF frames_quiet [OF frame]] that by blast
  show "quiet v w0 w' \<and> (allowed \<longrightarrow> map_sum id fst (sql_CanWriteRepository actorDID rid t) = Inr True)"
    if "quiet v w0 w \<and> tables w = t" "CanWriteRepository actorDID rid w = (Inr allowed, w')" for w allowed w'
  proof -
    have "quiet v w0 w'" using keeps_result [OF frames_quiet [OF frame]] that by blast
    moreover have "map_sum id fst (sql_CanWriteRepository actorDID rid t) = Inr True" if allowed
      using \<open>quiet v w0 w \<and> tables w = t\<close> \<open>CanWriteRepository actorDID rid w = (Inr allowed, w')\<close> that
      by (auto simp: CanWriteRepository_def auth_query_def op_ok pg_exec_def Let_def split: if_splits sum.splits)
    ultimately show ?thesis by blast
  qed
qed

text \<open>Git's merge moves the branch it is asked to move, or nothing.\<close>

lemma git_Merge_moves:
  assumes ok: "pull_git_ok v ancestor paths R" and run: "git_Merge (rs_git R) rid r g = (res, g')"
  shows "case res of
      Inl _ \<Rightarrow> v g' = v g
    | Inr m \<Rightarrow> v g (paths rid) (branch_ref (mr_TargetBranch r)) = Some (mr_ExpectedTargetSHA r)
        \<and> v g' = set_ref (paths rid) (branch_ref (mr_TargetBranch r)) (res_NewSHA m) (v g)"
proof (cases "fst (gs_Path (rs_git R) rid g)")
  case (Inl e)
  have frame: "frames v (git_repositoryPath (rs_git R) rid)" by (rule merge_steps_frame(1) [OF pull_git_okD(2) [OF ok]])
  obtain u where u: "git_repositoryPath (rs_git R) rid g = (Inl (wrapf ''resolve repository path'' e), u)"
    using Inl by (cases "gs_Path (rs_git R) rid g") (simp add: git_repositoryPath_def call_apply)
  then have "v u = v g" using frame by (auto dest: framesD)
  then show ?thesis
    using run u by (auto simp: git_Merge_def check_apply call_apply split: option.splits)
next
  case (Inr p)
  have p: "p = paths rid"
    using pull_git_okD(3) [OF ok, of rid] Inr by (cases "gs_Path (rs_git R) rid g") (auto simp: path_is_def)
  have "hook_world (rs_git R) u = u" for u by (simp add: hook_world_def pull_git_okD(4) [OF ok])
  then show ?thesis
    using git_Merge_end [OF pull_git_okD(2) [OF ok] Inr, of r] run p
    by (cases res) (auto simp: merge_end_def Let_def)
qed

lemma target_moved_set_ref:
  assumes "same_branches f g" and "g (paths (mt_RepositoryID target)) (branch_ref (mt_TargetBranch target)) = Some old"
  shows "target_moved paths target old new f
     (set_ref (paths (mt_RepositoryID target)) (branch_ref (mt_TargetBranch target)) new g)"
  using assms branch_not_own [of "mt_TargetBranch target"]
  by (auto simp: target_moved_def same_branches_def set_ref_def Let_def)

lemma triple_place_merge:
  assumes ok: "pull_git_ok v ancestor paths (pf_remote C)" and permitted: "merge_permitted w0 actorDID uri target"
  shows "triple (quiet v w0) (place_merge (pulls_of C) actorDID target strategy tip)
     (\<lambda>_. merge_moves v paths actorDID uri w0) (merge_moves v paths actorDID uri w0)"
proof (cases "recognizedMerge tip target strategy (mergeTrailers target strategy)")
  case (Some m)
  then show ?thesis by (simp add: place_merge_def triple_ret quiet_moves)
next
  case None
  have merge: "triple (quiet v w0) (on_pull_git (git_Merge (rs_git (pf_remote C)) (mt_RepositoryID target) r))
      (\<lambda>_. merge_moves v paths actorDID uri w0) (quiet v w0)"
    if "mr_TargetBranch r = mt_TargetBranch target" for r
  proof (rule tripleI)
    fix w e w' assume "quiet v w0 w" and "on_pull_git (git_Merge (rs_git (pf_remote C)) (mt_RepositoryID target) r) w = (Inl e, w')"
    then show "quiet v w0 w'"
      using git_Merge_moves [OF ok, of _ r "pw_git w"] by (auto simp: on_pull_git_def quiet_def split: prod.splits) force
  next
    fix w m w' assume w: "quiet v w0 w"
      and run: "on_pull_git (git_Merge (rs_git (pf_remote C)) (mt_RepositoryID target) r) w = (Inr m, w')"
    then obtain g where g: "git_Merge (rs_git (pf_remote C)) (mt_RepositoryID target) r (pw_git w) = (Inr m, g)"
      and w': "pw_git w' = g" by (auto simp: on_pull_git_def split: prod.splits)
    have "target_moved paths target (mr_ExpectedTargetSHA r) (res_NewSHA m) (v (pw_git w0)) (v g)"
      using git_Merge_moves [OF ok g] w that by (auto simp: quiet_def intro: target_moved_set_ref)
    then show "merge_moves v paths actorDID uri w0 w'"
      using permitted w' unfolding merge_moves_def by blast
  qed
  have clock: "keeps_clock (quiet v w0) (pull_clock :: 'a pull_world \<Rightarrow> _)"
    by (simp add: keeps_clock_def pull_clock_def quiet_def)
  show ?thesis
    unfolding place_merge_def None option.case pulls_of_simps pull_git_simps
    apply (rule triple_with_now [OF clock])
    apply (rule triple_attempt [OF merge])
      apply (simp add: merge_request_of_def)
     apply (rule triple_raise, erule quiet_moves)
    apply (rule triple_ret, assumption)
    done
qed

lemma keeps_publish_merge: "keeps (merge_moves v paths actorDID uri w0) (publish_merge (pulls_of C) actorDID target strategy m)"
proof -
  have "keeps_clock (merge_moves v paths actorDID uri w0) (pull_clock :: 'a pull_world \<Rightarrow> _)"
    by (simp add: keeps_clock_def pull_clock_def merge_moves_def)
  then show ?thesis
    unfolding publish_merge_def pulls_of_simps scheduled_outbox_def scheduled_publisher_def pull_publisher.simps
    by (intro op_keeps frames_moves pull_send_frames)
qed

lemma triple_quiet: "keeps (quiet v w0) m \<Longrightarrow> triple (quiet v w0) m (\<lambda>_. quiet v w0) (merge_moves v paths actorDID uri w0)"
  by (rule triple_weaken [where P = "quiet v w0" and Q = "\<lambda>_. quiet v w0" and E = "quiet v w0", OF keeps_triple])
    (auto intro: quiet_moves)

lemma triple_weaken_error: "triple P m Q E \<Longrightarrow> (\<And>w. E w \<Longrightarrow> E' w) \<Longrightarrow> triple P m Q E'"
  by (rule triple_weaken)

lemma triple_target_again:
  "triple (quiet v w0) (pg_GetMergeTarget uri) (\<lambda>_. quiet v w0) (merge_moves v paths actorDID uri w0)"
  unfolding pg_GetMergeTarget_def by (intro triple_quiet frames_quiet pull_query_frames)

lemma triple_Merge:
  assumes ok: "pull_git_ok v ancestor paths (pf_remote C)"
  shows "triple (quiet v w0) (pull_Merge (pulls_of C) actorDID input)
     (\<lambda>_. merge_moves v paths actorDID (mg_PullRequestURI input) w0) (merge_moves v paths actorDID (mg_PullRequestURI input) w0)"
proof -
  let ?uri = "mg_PullRequestURI input"
  let ?moves = "merge_moves v paths actorDID ?uri w0"
  note git = history_steps_frame(3) [OF pull_git_okD(2) [OF ok]]
  have rest: "triple (quiet v w0)
     (call (pull_Refresh (pulls_of C) ?uri) (\<lambda>e. e) (\<lambda>_.
      call (pg_GetMergeTarget ?uri) (projectionError ''revalidate pull request merge target'') (\<lambda>current.
      fail_if (current \<noteq> target \<or> mt_State current \<noteq> StateOpen) (conflict_error (Sentinel pr_ErrProjectionChanged)) (
      call (on_pull_git (git_Commit (rs_git (pf_remote C)) (mt_RepositoryID target) (branch_ref (mt_TargetBranch target))))
        (wrapf ''read pull request merge target ref'') (\<lambda>tip.
      call (place_merge (pulls_of C) actorDID target (mg_Strategy input) tip) (\<lambda>e. e) (\<lambda>result.
      publish_merge (pulls_of C) actorDID target (mg_Strategy input) result)))))) (\<lambda>_. ?moves) ?moves"
    if permitted: "merge_permitted w0 actorDID ?uri target" for target
    apply (rule triple_call [OF triple_quiet [OF keeps_Refresh [OF ok]]])
    apply (rule triple_call [OF triple_target_again])
    apply (rule triple_fail_if, erule quiet_moves)
    apply (rule triple_call [OF triple_quiet [OF frames_quiet [OF on_pull_git_frames(1) [OF git]]]])
    apply (rule triple_call [OF triple_place_merge [OF ok permitted]])
    apply (rule keeps_triple [OF keeps_publish_merge])
    done
  have checked: "triple (\<lambda>w. quiet v w0 w \<and> (\<exists>i. tables w = snd (pw_views w0 i)
        \<and> sql_GetProjectedPullRequestMergeTarget ?uri (collation w0) (fst (pw_views w0 i)) (snd (pw_views w0 i)) = Inr target))
     (CanWriteRepository actorDID (mt_RepositoryID target))
     (\<lambda>allowed w. quiet v w0 w \<and> (allowed \<longrightarrow> mt_State target = StateOpen \<longrightarrow> merge_permitted w0 actorDID ?uri target)) ?moves" for target
  proof (rule tripleI)
    fix w e w' assume w: "quiet v w0 w \<and> (\<exists>i. tables w = snd (pw_views w0 i)
        \<and> sql_GetProjectedPullRequestMergeTarget ?uri (collation w0) (fst (pw_views w0 i)) (snd (pw_views w0 i)) = Inr target)"
      and "CanWriteRepository actorDID (mt_RepositoryID target) w = (Inl e, w')"
    then show "?moves w'" using triple_Inl [OF triple_CanWrite [of v w0 "tables w"]] by (blast intro: quiet_moves)
  next
    fix w allowed w' assume w: "quiet v w0 w \<and> (\<exists>i. tables w = snd (pw_views w0 i)
        \<and> sql_GetProjectedPullRequestMergeTarget ?uri (collation w0) (fst (pw_views w0 i)) (snd (pw_views w0 i)) = Inr target)"
      and run: "CanWriteRepository actorDID (mt_RepositoryID target) w = (Inr allowed, w')"
    with triple_Inr [OF triple_CanWrite [of v w0 "tables w"] _ run]
    have "quiet v w0 w' \<and> (allowed \<longrightarrow> map_sum id fst (sql_CanWriteRepository actorDID (mt_RepositoryID target) (tables w)) = Inr True)"
      by blast
    with w show "quiet v w0 w' \<and> (allowed \<longrightarrow> mt_State target = StateOpen \<longrightarrow> merge_permitted w0 actorDID ?uri target)"
      unfolding merge_permitted_def by metis
  qed
  show ?thesis
    unfolding pull_Merge_def pulls_of_simps projection_store_simps pull_git_simps
    apply (rule triple_check, erule quiet_moves)
    apply (rule triple_fail_if, erule quiet_moves)
    apply (rule triple_call [OF triple_weaken_error [OF triple_MergeTarget]], erule quiet_moves)
    apply (rule triple_fail_if, erule conjunct1 [THEN quiet_moves])
    apply (rule triple_call [OF checked])
    apply (rule triple_fail_if, erule conjunct1 [THEN quiet_moves])
    apply (rule triple_weaken [where P = "\<lambda>w. quiet v w0 w \<and> merge_permitted w0 actorDID ?uri target" for target, OF triple_pure [OF rest]])
       apply assumption
      apply simp
     apply assumption
    apply assumption
    done
qed

end
