(* ===== verification/Pull_Published.thy ===== *)
theory Pull_Published imports Pull_Safety begin

text \<open>
  What the requests on pull requests send to the publisher and the outbox, whatever Git, the database,
  the clock and the publisher answer.
\<close>

section \<open>Steps that send nothing\<close>

definition sent_view :: "'g pull_world \<Rightarrow> pull_sent list \<times> (nat \<Rightarrow> network_tables \<times> org_tables) \<times> (string \<Rightarrow> string \<Rightarrow> bool)" where
  "sent_view w = (pw_sent w, pw_views w, collation w)"

definition idle :: "'g pull_world \<Rightarrow> 'g pull_world \<Rightarrow> bool" where
  "idle w0 w \<longleftrightarrow> pw_sent w = pw_sent w0 \<and> pw_views w = pw_views w0 \<and> collation w = collation w0"

lemma idle_refl: "idle w w"
  by (simp add: idle_def)

lemma frames_idle: "frames sent_view m \<Longrightarrow> keeps (idle w0) m"
  using frames_keeps [of sent_view m "\<lambda>s. s = sent_view w0"] by (simp add: idle_def [abs_def] sent_view_def)

lemma sent_view_frames [op_frames]:
  "frames sent_view (net_query q)" "frames sent_view (pull_query what q)" "frames sent_view (on_pull_git m)"
  "frames sent_view pull_ids" "frames sent_view (pg_exec x)"
proof -
  show net: "frames sent_view (net_query q)" for q :: "'b net_sql" by (simp add: frames_def net_query_def Let_def sent_view_def)
  show "frames sent_view (pull_query what q)" unfolding pull_query_def by (intro op_frames net)
  show "frames sent_view (on_pull_git m)" by (simp add: frames_def on_pull_git_def sent_view_def split: prod.split)
  show "frames sent_view pull_ids" by (simp add: frames_def pull_ids_def sent_view_def)
  show "frames sent_view (pg_exec x)" by (simp add: frames_def pg_exec_def Let_def sent_view_def split: sum.split prod.split)
qed

lemma keeps_clock_idle: "keeps_clock (idle w0) pull_clock"
  by (simp add: keeps_clock_def pull_clock_def idle_def)

lemma triple_idle: "keeps (idle w0) m \<Longrightarrow> (\<And>w. idle w0 w \<Longrightarrow> E w) \<Longrightarrow> triple (idle w0) m (\<lambda>_. idle w0) E"
  by (rule triple_weaken_error [OF keeps_triple])

text \<open>The same, with what the step returned.\<close>

lemma triple_idle_result:
  assumes "keeps (idle w0) m" and "\<And>w. idle w0 w \<Longrightarrow> E w"
  shows "triple (idle w0) m (\<lambda>x w. idle w0 w \<and> (\<exists>u u'. m u = (Inr x, u'))) E"
proof (rule tripleI)
  show "E w'" if "idle w0 w" "m w = (Inl e, w')" for w e w' using that keeps_result [OF assms(1)] assms(2) by blast
  show "idle w0 w' \<and> (\<exists>u u'. m u = (Inr x, u'))" if "idle w0 w" "m w = (Inr x, w')" for w x w'
    using that keeps_result [OF assms(1)] by blast
qed

lemma on_pull_git_Inr: "on_pull_git m u = (Inr x, u') \<Longrightarrow> \<exists>h h'. m h = (Inr x, h')"
  by (cases "m (pw_git u)") (auto simp: on_pull_git_def)

lemma triple_send:
  "triple (idle w0) (pull_send r) (\<lambda>_ w. pw_sent w = pw_sent w0 @ [r]) (\<lambda>w. pw_sent w = pw_sent w0 @ [r])"
  by (rule tripleI) (auto simp: pull_send_def idle_def)

section \<open>Authoring\<close>

lemma triple_Create:
  "triple (idle w0) (pull_Create (pulls_of C) authorDID input)
     (\<lambda>_ w. \<exists>key r. PullRecord_Validate (pf_syntax C) r = None \<and> pw_sent w = pw_sent w0 @ [Sent_PullRequest authorDID key r])
     (\<lambda>w. pw_sent w = pw_sent w0
        \<or> (\<exists>key r. PullRecord_Validate (pf_syntax C) r = None \<and> pw_sent w = pw_sent w0 @ [Sent_PullRequest authorDID key r]))"
  unfolding pull_Create_def Let_def pulls_of_simps projection_store_simps pg_GetRepositoryTargets_def scheduled_publisher_def
    pull_publisher.simps RandomRecordKey_def
  apply (rule triple_check, simp add: idle_def)
  apply (rule triple_check, simp add: idle_def)
  apply (rule triple_call [OF triple_idle [OF frames_idle]], rule op_frames, simp add: idle_def)
  apply (rule triple_with_now [OF keeps_clock_idle])
  apply (rule triple_check, simp add: idle_def)
  apply (rule triple_call [OF triple_idle [OF frames_idle]], intro op_frames, simp add: idle_def)
  apply (rule triple_call [OF triple_weaken_error [OF triple_send]], blast)
  apply (auto intro!: triple_ret)
  done

lemma triple_CreateReview:
  "triple (idle w0) (pull_CreateReview (pulls_of C) authorDID input)
     (\<lambda>_ w. \<exists>key r. ReviewRecord_Validate (pf_syntax C) r = None \<and> pw_sent w = pw_sent w0 @ [Sent_Review authorDID key r])
     (\<lambda>w. pw_sent w = pw_sent w0
        \<or> (\<exists>key r. ReviewRecord_Validate (pf_syntax C) r = None \<and> pw_sent w = pw_sent w0 @ [Sent_Review authorDID key r]))"
  unfolding pull_CreateReview_def Let_def pulls_of_simps projection_store_simps pg_GetReviewTarget_def scheduled_publisher_def
    pull_publisher.simps RandomRecordKey_def
  apply (rule triple_check, simp add: idle_def)
  apply (rule triple_call [OF triple_idle [OF frames_idle]], rule op_frames, simp add: idle_def)
  apply (rule triple_with_now [OF keeps_clock_idle])
  apply (rule triple_check, simp add: idle_def)
  apply (rule triple_call [OF triple_idle [OF frames_idle]], intro op_frames, simp add: idle_def)
  apply (rule triple_call [OF triple_weaken_error [OF triple_send]], blast)
  apply (auto intro!: triple_ret)
  done

section \<open>Merging\<close>

definition announcement :: "merge_target \<Rightarrow> merge_strategy \<Rightarrow> did \<Rightarrow> merge_result \<Rightarrow> instant \<Rightarrow> pull_sent list" where
  "announcement target strategy actorDID m now =
     [Sent_Event (refs_updated target strategy actorDID m), Sent_Status (mt_TargetOwnerDID target) (merged_status target m now)]"

text \<open>The result is the merge commit at the tip of the target branch, or what Git's merge into that tip returned.\<close>

definition merge_placed :: "'g git_service \<Rightarrow> did \<Rightarrow> merge_target \<Rightarrow> merge_strategy \<Rightarrow> merge_result \<Rightarrow> bool" where
  "merge_placed S actorDID target strategy m \<longleftrightarrow>
     (\<exists>tip g g'. git_Commit S (mt_RepositoryID target) (branch_ref (mt_TargetBranch target)) g = (Inr tip, g')
        \<and> (recognizedMerge tip target strategy (mergeTrailers target strategy) = Some m
           \<or> (\<exists>now h h'. git_Merge S (mt_RepositoryID target) (merge_request_of target strategy (cs_SHA tip) actorDID now) h
                = (Inr m, h'))))"

lemma merge_placedI:
  "git_Commit S (mt_RepositoryID target) (branch_ref (mt_TargetBranch target)) g = (Inr tip, g') \<Longrightarrow>
     git_Merge S (mt_RepositoryID target) (merge_request_of target strategy (cs_SHA tip) actorDID now) h = (Inr m, h') \<Longrightarrow>
     merge_placed S actorDID target strategy m"
  unfolding merge_placed_def by blast

definition merge_sent :: "'g pull_config \<Rightarrow> did \<Rightarrow> merge_input \<Rightarrow> 'g pull_world \<Rightarrow> 'g pull_world \<Rightarrow> bool" where
  "merge_sent C actorDID input w0 w \<longleftrightarrow> pw_sent w = pw_sent w0 \<or>
     (\<exists>target m now n. merge_placed (rs_git (pf_remote C)) actorDID target (mg_Strategy input) m
        \<and> pw_sent w = pw_sent w0 @ take n (announcement target (mg_Strategy input) actorDID m now))"

definition merge_announced :: "'g pull_config \<Rightarrow> did \<Rightarrow> merge_input \<Rightarrow> 'g pull_world \<Rightarrow> pull_merge_result \<Rightarrow> 'g pull_world \<Rightarrow> bool" where
  "merge_announced C actorDID input w0 r w \<longleftrightarrow>
     (\<exists>target now. merge_placed (rs_git (pf_remote C)) actorDID target (mg_Strategy input) (pm_Git r)
        \<and> pw_sent w = pw_sent w0 @ announcement target (mg_Strategy input) actorDID (pm_Git r) now)"

lemma idle_sent: "idle w0 w \<Longrightarrow> merge_sent C actorDID input w0 w"
  by (simp add: idle_def merge_sent_def)

lemma triple_publish_merge:
  fixes w0 :: "'g pull_world"
  assumes placed: "merge_placed (rs_git (pf_remote C)) actorDID target (mg_Strategy input) m"
  shows "triple (idle w0) (publish_merge (pulls_of C) actorDID target (mg_Strategy input) m)
     (merge_announced C actorDID input w0) (merge_sent C actorDID input w0)"
proof -
  have event: "triple (idle w0) (scheduled_outbox (refs_updated target (mg_Strategy input) actorDID m))
      (\<lambda>_ w. pw_sent w = pw_sent w0 @ [Sent_Event (refs_updated target (mg_Strategy input) actorDID m)])
      (merge_sent C actorDID input w0)"
    unfolding scheduled_outbox_def
    apply (rule triple_call [OF triple_weaken_error [OF triple_send]])
     apply (unfold merge_sent_def announcement_def)
     apply (rule disjI2, rule exI [of _ target], rule exI [of _ m], rule exI, rule exI [of _ 1], simp add: placed)
    apply (rule triple_ret, assumption)
    done
  have status: "triple (\<lambda>w. pw_sent w = pw_sent w0 @ [Sent_Event (refs_updated target (mg_Strategy input) actorDID m)])
      (pull_send (Sent_Status (mt_TargetOwnerDID target) (merged_status target m now)))
      (\<lambda>_ w. pw_sent w = pw_sent w0 @ announcement target (mg_Strategy input) actorDID m now)
      (merge_sent C actorDID input w0)" for now
  proof (rule tripleI)
    fix w w' :: "'g pull_world" and e assume "pw_sent w = pw_sent w0 @ [Sent_Event (refs_updated target (mg_Strategy input) actorDID m)]"
      and "pull_send (Sent_Status (mt_TargetOwnerDID target) (merged_status target m now)) w = (Inl e, w')"
    then have "pw_sent w' = pw_sent w0 @ take 2 (announcement target (mg_Strategy input) actorDID m now)"
      by (auto simp: pull_send_def announcement_def)
    with placed show "merge_sent C actorDID input w0 w'" unfolding merge_sent_def by blast
  qed (auto simp: pull_send_def announcement_def)
  have clock: "keeps_clock (\<lambda>w. pw_sent w = s) pull_clock" for s by (simp add: keeps_clock_def pull_clock_def)
  show ?thesis
    unfolding publish_merge_def pulls_of_simps scheduled_publisher_def pull_publisher.simps
    apply (rule triple_call [OF event])
    apply (rule triple_with_now [OF clock])
    apply (rule triple_call [OF triple_call [OF status]])
     apply (split prod.split, intro allI impI, rule triple_ret, assumption)
    apply (rule triple_ret)
    using placed by (auto simp: merge_announced_def)
qed

lemma triple_place_merge_idle:
  fixes w0 :: "'g pull_world"
  assumes "git_Commit (rs_git (pf_remote C)) (mt_RepositoryID target) (branch_ref (mt_TargetBranch target)) g = (Inr tip, g')"
  shows "triple (idle w0) (place_merge (pulls_of C) actorDID target strategy tip)
     (\<lambda>m w. idle w0 w \<and> merge_placed (rs_git (pf_remote C)) actorDID target strategy m) (idle w0)"
proof (cases "recognizedMerge tip target strategy (mergeTrailers target strategy)")
  case (Some m)
  then have "merge_placed (rs_git (pf_remote C)) actorDID target strategy m"
    using assms unfolding merge_placed_def by blast
  with Some show ?thesis by (simp add: place_merge_def triple_ret)
next
  case None
  have merge: "triple (idle w0) (on_pull_git (git_Merge (rs_git (pf_remote C)) (mt_RepositoryID target)
        (merge_request_of target strategy (cs_SHA tip) actorDID now)))
      (\<lambda>m w. idle w0 w \<and> merge_placed (rs_git (pf_remote C)) actorDID target strategy m) (idle w0)" for now
  proof (rule triple_weaken [OF triple_idle_result [OF frames_idle [OF sent_view_frames(3)]]])
    fix m and w :: "'g pull_world"
    assume "idle w0 w \<and> (\<exists>u u'. on_pull_git (git_Merge (rs_git (pf_remote C)) (mt_RepositoryID target)
        (merge_request_of target strategy (cs_SHA tip) actorDID now)) (u :: 'g pull_world) = (Inr m, u'))"
    then show "idle w0 w \<and> merge_placed (rs_git (pf_remote C)) actorDID target strategy m"
      by (auto dest!: on_pull_git_Inr intro: merge_placedI [OF assms])
  qed auto
  show ?thesis
    unfolding place_merge_def None option.case pulls_of_simps pull_git_simps
    apply (rule triple_with_now [OF keeps_clock_idle])
    apply (rule triple_attempt [OF merge])
     apply (rule triple_raise, assumption)
    apply (rule triple_ret, assumption)
    done
qed

lemma keeps_idle_Refresh: "keeps (idle w0) (pull_Refresh (pulls_of C) uri)"
  unfolding pull_Refresh_def fetch_head_def Let_def pulls_of_simps projection_store_simps pull_git_simps pg_GetFetchTarget_def
  by (intro op_keeps frames_idle op_frames)

lemma triple_Merge_sent:
  fixes w0 :: "'g pull_world"
  shows "triple (idle w0) (pull_Merge (pulls_of C) actorDID input) (merge_announced C actorDID input w0) (merge_sent C actorDID input w0)"
proof -
  have access: "frames sent_view (CanWriteRepository a i)" for a i
    unfolding CanWriteRepository_def auth_query_def by (intro op_frames)
  have tip: "triple (idle w0) (on_pull_git (git_Commit S rid b))
      (\<lambda>tip w. idle w0 w \<and> (\<exists>g g'. git_Commit S rid b g = (Inr tip, g'))) (merge_sent C actorDID input w0)" for S rid b
  proof (rule triple_weaken [OF triple_idle_result [OF frames_idle [OF sent_view_frames(3)]]])
    fix m and w :: "'g pull_world" assume "idle w0 w \<and> (\<exists>u u'. on_pull_git (git_Commit S rid b) (u :: 'g pull_world) = (Inr m, u'))"
    then show "idle w0 w \<and> (\<exists>g g'. git_Commit S rid b g = (Inr m, g'))"
      by (auto dest!: on_pull_git_Inr)
  qed (auto intro: idle_sent)
  have placed: "triple (\<lambda>w. idle w0 w \<and> (\<exists>g g'. git_Commit (rs_git (pf_remote C)) (mt_RepositoryID target)
          (branch_ref (mt_TargetBranch target)) g = (Inr tip, g')))
      (call (place_merge (pulls_of C) actorDID target (mg_Strategy input) tip) (\<lambda>e. e) (\<lambda>result.
       publish_merge (pulls_of C) actorDID target (mg_Strategy input) result))
      (merge_announced C actorDID input w0) (merge_sent C actorDID input w0)" for target tip
  proof (rule triple_pure)
    assume "\<exists>g g'. git_Commit (rs_git (pf_remote C)) (mt_RepositoryID target) (branch_ref (mt_TargetBranch target)) g = (Inr tip, g')"
    then obtain g g' where commit: "git_Commit (rs_git (pf_remote C)) (mt_RepositoryID target)
        (branch_ref (mt_TargetBranch target)) g = (Inr tip, g')" by blast
    show "triple (idle w0) (call (place_merge (pulls_of C) actorDID target (mg_Strategy input) tip) (\<lambda>e. e) (\<lambda>result.
       publish_merge (pulls_of C) actorDID target (mg_Strategy input) result))
      (merge_announced C actorDID input w0) (merge_sent C actorDID input w0)"
      apply (rule triple_call [OF triple_weaken_error [OF triple_place_merge_idle [OF commit]]], erule idle_sent)
      apply (rule triple_pure [OF triple_publish_merge], assumption)
      done
  qed
  show ?thesis
    unfolding pull_Merge_def pulls_of_simps projection_store_simps pull_git_simps pg_GetMergeTarget_def
    apply (rule triple_check, erule idle_sent)
    apply (rule triple_fail_if, erule idle_sent)
    apply (rule triple_call [OF triple_idle [OF frames_idle]], rule op_frames, erule idle_sent)
    apply (rule triple_fail_if, erule idle_sent)
    apply (rule triple_call [OF triple_idle [OF frames_idle]], rule access, erule idle_sent)
    apply (rule triple_fail_if, erule idle_sent)
    apply (rule triple_call [OF triple_idle [OF keeps_idle_Refresh]], erule idle_sent)
    apply (rule triple_call [OF triple_idle [OF frames_idle]], rule op_frames, erule idle_sent)
    apply (rule triple_fail_if, erule idle_sent)
    apply (rule triple_call [OF tip])
    apply (rule placed)
    done
qed

section \<open>Statuses\<close>

text \<open>What a query returned is what it finds in some view, which the next access check sees as well.\<close>

lemma triple_pull_query:
  "triple (idle w0) (pull_query what q)
     (\<lambda>x w. idle w0 w \<and> (\<exists>i. tables w = snd (pw_views w0 i) \<and> q (collation w0) (fst (pw_views w0 i)) (snd (pw_views w0 i)) = Inr x))
     (idle w0)"
proof (rule tripleI)
  fix w e w' assume "idle w0 w" and "pull_query what q w = (Inl e, w')"
  then show "idle w0 w'" using keeps_result [OF frames_idle [OF sent_view_frames(2)]] by blast
next
  fix w x w' assume w: "idle w0 w" and run: "pull_query what q w = (Inr x, w')"
  have "tables w' = snd (pw_views w0 (pw_reads w))
      \<and> q (collation w0) (fst (pw_views w0 (pw_reads w))) (snd (pw_views w0 (pw_reads w))) = Inr x"
    using w run by (auto simp: pull_query_def op_ok net_query_def Let_def idle_def split: if_splits)
  moreover have "idle w0 w'" using keeps_result [OF frames_idle [OF sent_view_frames(2)]] w run by blast
  ultimately show "idle w0 w' \<and> (\<exists>i. tables w' = snd (pw_views w0 i)
      \<and> q (collation w0) (fst (pw_views w0 i)) (snd (pw_views w0 i)) = Inr x)" by blast
qed

lemma triple_exists:
  "(\<And>i. Q i \<Longrightarrow> triple (\<lambda>w. A w \<and> B i w) m R E) \<Longrightarrow> triple (\<lambda>w. A w \<and> (\<exists>i. B i w \<and> Q i)) m R E"
  unfolding triple_def
proof (intro allI impI, elim conjE exE)
  fix w i assume run: "\<And>i. Q i \<Longrightarrow> \<forall>w. A w \<and> B i w \<longrightarrow> (case m w of (Inl e, w') \<Rightarrow> E w' | (Inr x, w') \<Rightarrow> R x w')"
    and "A w" "B i w" "Q i"
  then show "case m w of (Inl e, w') \<Rightarrow> E w' | (Inr x, w') \<Rightarrow> R x w'"
    using run [OF \<open>Q i\<close>, THEN spec [of _ w]] by simp
qed

text \<open>The actor is the owner of the target repository, or has the triage permission on it.\<close>

definition status_permitted :: "'g pull_world \<Rightarrow> did \<Rightarrow> did \<Rightarrow> string \<Rightarrow> status_target \<Rightarrow> bool" where
  "status_permitted w actorDID ownerDID uri target \<longleftrightarrow>
     (\<exists>i. sql_GetProjectedPullRequestStatusTarget uri (collation w) (fst (pw_views w i)) (snd (pw_views w i)) = Inr target
        \<and> (actorDID = ownerDID \<or> (\<exists>rid. sg_RepositoryID target = Some rid
             \<and> map_sum id fst (sql_CanTriageRepository actorDID rid (snd (pw_views w i))) = Inr True)))"

definition status_sent :: "'g pull_config \<Rightarrow> did \<Rightarrow> status_input \<Rightarrow> 'g pull_world \<Rightarrow> 'g pull_world \<Rightarrow> bool" where
  "status_sent C actorDID input w0 w \<longleftrightarrow>
     (\<exists>target owner r. status_permitted w0 actorDID owner (si_PullRequestURI input) target
        \<and> RepositoryOwnerDID (pf_syntax C) (sr_URI (st_TargetRepository r)) = Inr owner
        \<and> st_Subject r = sg_Subject target \<and> st_TargetRepository r = sg_TargetRepository target
        \<and> st_State r = si_State input \<and> st_State r \<in> {StateOpen, StateClosed} \<and> st_MergeCommitSHA r = []
        \<and> pw_sent w = pw_sent w0 @ [Sent_Status owner r])"

lemma triple_authorize_status:
  fixes w0 :: "'g pull_world"
  assumes "sql_GetProjectedPullRequestStatusTarget uri (collation w0) (fst (pw_views w0 i)) (snd (pw_views w0 i)) = Inr target"
  shows "triple (\<lambda>w. idle w0 w \<and> tables w = snd (pw_views w0 i))
     (authorize_status (pulls_of C) actorDID ownerDID (sg_RepositoryID target))
     (\<lambda>_ w. idle w0 w \<and> status_permitted w0 actorDID ownerDID uri target) (idle w0)"
proof (rule tripleI)
  have access: "frames sent_view (CanTriageRepository a j)" for a j
    unfolding CanTriageRepository_def auth_query_def by (intro op_frames)
  have "frames sent_view (authorize_status (pulls_of C) actorDID ownerDID (sg_RepositoryID target))"
    unfolding authorize_status_def pulls_of_simps option.case prod.case
    by (cases "sg_RepositoryID target") (auto intro!: op_frames access)
  then have keep: "keeps (idle w0) (authorize_status (pulls_of C) actorDID ownerDID (sg_RepositoryID target))"
    by (rule frames_idle)
  show "idle w0 w'" if "idle w0 w \<and> tables w = snd (pw_views w0 i)"
      "authorize_status (pulls_of C) actorDID ownerDID (sg_RepositoryID target) w = (Inl e, w')" for w e w'
    using keeps_result [OF keep] that by blast
  show "idle w0 w' \<and> status_permitted w0 actorDID ownerDID uri target"
    if w: "idle w0 w \<and> tables w = snd (pw_views w0 i)"
      and run: "authorize_status (pulls_of C) actorDID ownerDID (sg_RepositoryID target) w = (Inr x, w')" for w x w'
  proof -
    have "actorDID = ownerDID \<or> (\<exists>rid. sg_RepositoryID target = Some rid
             \<and> map_sum id fst (sql_CanTriageRepository actorDID rid (snd (pw_views w0 i))) = Inr True)"
      using run w
      by (auto simp: authorize_status_def op_ok CanTriageRepository_def auth_query_def pg_exec_def Let_def
          split: if_splits option.splits sum.splits)
    then show ?thesis using keeps_result [OF keep] w run assms unfolding status_permitted_def by blast
  qed
qed

lemma triple_PutStatus:
  fixes w0 :: "'g pull_world"
  shows "triple (idle w0) (pull_PutStatus (pulls_of C) actorDID input) (\<lambda>_. status_sent C actorDID input w0)
     (\<lambda>w. pw_sent w = pw_sent w0 \<or> status_sent C actorDID input w0 w)"
proof -
  let ?E = "\<lambda>w. pw_sent w = pw_sent w0 \<or> status_sent C actorDID input w0 w"
  have put: "triple (idle w0) (pull_send (Sent_Status owner r)) (\<lambda>_. status_sent C actorDID input w0) ?E"
    if "status_permitted w0 actorDID owner (si_PullRequestURI input) target"
      and "RepositoryOwnerDID (pf_syntax C) (sr_URI (sg_TargetRepository target)) = Inr owner"
      and "st_Subject r = sg_Subject target" "st_TargetRepository r = sg_TargetRepository target"
        "st_State r = si_State input" "si_State input \<in> {StateOpen, StateClosed}" "st_MergeCommitSHA r = []" for owner r target
  proof (rule triple_weaken [OF triple_send])
    show "status_sent C actorDID input w0 w" if "pw_sent w = pw_sent w0 @ [Sent_Status owner r]" for w
      unfolding status_sent_def using that \<open>status_permitted _ _ _ _ _\<close> \<open>RepositoryOwnerDID _ _ = _\<close> \<open>st_Subject r = _\<close>
        \<open>st_TargetRepository r = _\<close> \<open>st_State r = _\<close> \<open>si_State input \<in> _\<close> \<open>st_MergeCommitSHA r = _\<close>
      by (intro exI [of _ target] exI [of _ owner] exI [of _ r]) simp
    then show "?E w" if "pw_sent w = pw_sent w0 @ [Sent_Status owner r]" for w using that by blast
  qed
  have rest: "triple (\<lambda>w. idle w0 w \<and> tables w = snd (pw_views w0 i))
      (call (outcome (RepositoryOwnerDID (pf_syntax C) (sr_URI (sg_TargetRepository target)))) (\<lambda>e. e) (\<lambda>ownerDID.
       call (authorize_status (pulls_of C) actorDID ownerDID (sg_RepositoryID target)) (\<lambda>e. e) (\<lambda>_.
       with_now pull_clock (\<lambda>now.
       call (pull_send (Sent_Status ownerDID (s now))) (\<lambda>e. e) (k now ownerDID)))))
      (\<lambda>_. status_sent C actorDID input w0) ?E"
    if view: "sql_GetProjectedPullRequestStatusTarget (si_PullRequestURI input) (collation w0) (fst (pw_views w0 i)) (snd (pw_views w0 i)) = Inr target"
      and s: "\<And>now. st_Subject (s now) = sg_Subject target \<and> st_TargetRepository (s now) = sg_TargetRepository target
        \<and> st_State (s now) = si_State input \<and> st_MergeCommitSHA (s now) = []"
      and state: "si_State input \<in> {StateOpen, StateClosed}" and k: "\<And>now owner reply. \<exists>x. k now owner reply = ret x" for i target s k
    apply (rule triple_call [OF triple_outcome], simp add: idle_def, rule triple_pure)
    apply (rule triple_call [OF triple_weaken_error [OF triple_authorize_status [OF view]]], simp add: idle_def, rule triple_pure)
    apply (rule triple_with_now [OF keeps_clock_idle])
    apply (rule triple_call [OF put], assumption, assumption)
         apply (simp_all add: s)
    using state apply simp
    using k by (metis triple_ret)
  show ?thesis
    unfolding pull_PutStatus_def pulls_of_simps projection_store_simps pg_GetStatusTarget_def scheduled_publisher_def pull_publisher.simps
    apply (rule triple_check, simp add: idle_def)
    apply (rule triple_fail_if, simp add: idle_def)
    apply (rule triple_call [OF triple_weaken_error [OF triple_pull_query]], simp add: idle_def)
    apply (rule triple_exists, rule rest, assumption)
      apply simp
     apply blast
    apply (split prod.split, blast)
    done
qed

end
