(* ===== verification/Pull_Messages.thy ===== *)
theory Pull_Messages imports Pull_Service Git_Remote_Safety begin

text \<open>
  The composition of the pull request service with Git: what a validated pull request asks of a fetch, and how
  the merge commit of an earlier request is known again.
\<close>

section \<open>Pull requests can be fetched\<close>

lemma lock_component: "suffix ''.lock'' b \<Longrightarrow> \<exists>c \<in> set (split_on (CHR ''/'') b). suffix ''.lock'' c"
proof -
  assume "suffix ''.lock'' b"
  then obtain a where b: "b = a @ ''.lock''" by (auto simp: suffix_def)
  show ?thesis
    unfolding b
  proof (induction a)
    case (Cons x a)
    then obtain c where c: "c \<in> set (split_on (CHR ''/'') (a @ ''.lock''))" "suffix ''.lock'' c" by blast
    obtain w ws where ws: "split_on (CHR ''/'') (a @ ''.lock'') = w # ws" by (cases "split_on (CHR ''/'') (a @ ''.lock'')") auto
    show ?case
    proof (cases "x = CHR ''/'' \<or> c \<noteq> w")
      case True
      with c ws show ?thesis by (intro bexI [of _ c]) auto
    next
      case False
      with c ws show ?thesis by (intro bexI [of _ "x # w"]) (auto simp: suffix_ConsI)
    qed
  qed simp
qed

lemma pull_branch_is_git_branch: "pull_validateBranch b field = None \<Longrightarrow> validateBranch b = None"
proof -
  assume ok: "pull_validateBranch b field = None"
  have "\<not> suffix ''.lock'' b"
    using ok lock_component by (auto simp: pull_validateBranch_def Let_def list_ex_iff split: if_splits)
  moreover have "\<not> list_ex (\<lambda>r. r \<le> 32 \<or> r = 127 \<or> r \<in> set (map byte (CHR 0x5C # ''~^:?*[''))) (runes b)"
  proof
    assume "list_ex (\<lambda>r. r \<le> 32 \<or> r = 127 \<or> r \<in> set (map byte (CHR 0x5C # ''~^:?*[''))) (runes b)"
    then obtain r where r: "r \<in> set (runes b)" "r \<le> 32 \<or> r = 127 \<or> r \<in> set (map byte (CHR 0x5C # ''~^:?*[''))"
      unfolding list_ex_iff by blast
    then have "is_space r \<or> is_control r \<or> r \<in> set (map byte (CHR 0x5C # ''~^:?*[''))"
      unfolding is_space_def is_control_def in_range_def by linarith
    with r(1) have "list_ex (\<lambda>r. is_space r \<or> is_control r \<or> r \<in> set (map byte (CHR 0x5C # ''~^:?*[''))) (runes b)"
      unfolding list_ex_iff by blast
    with ok show False by (simp add: pull_validateBranch_def Let_def split: if_splits)
  qed
  ultimately show ?thesis
    using ok by (simp add: pull_validateBranch_def validateBranch_def Let_def split: if_splits)
qed

lemma validateGitSHA_ok:
  assumes "validateGitSHA sha field = None"
  shows "length sha = 40 \<or> length sha = 64" and "list_all lower_hex sha" and "validateRemoteSHA sha = None"
  using assms by (auto simp: validateGitSHA_def gitSHAPattern_def validateRemoteSHA_def split: if_splits)

lemma destinationKey_shape: "length (destinationKey uri) = 64" "list_all lower_hex (destinationKey uri)"
  unfolding destinationKey_def by (simp add: hex_EncodeToString_shape(1)) (rule hex_EncodeToString_shape(2))

lemma destinationKey_controlled:
  "controlledPullRef (destinationKey uri) = Inr (''refs/adenosine/pull/'' @ destinationKey uri @ ''/head'')"
proof -
  have "destinationKey uri \<noteq> []" using destinationKey_shape(1) [of uri] by auto
  moreover have "list_all (\<lambda>c. is_lower c \<or> is_upper c \<or> is_digit c \<or> c = CHR ''-'') (destinationKey uri)"
    using destinationKey_shape(2) [of uri] by (auto simp: list_all_iff lower_hex_def is_lower_def in_range_def)
  ultimately show ?thesis by (simp add: controlledPullRef_def destinationKey_shape)
qed

lemma validated_pull_record:
  assumes "PullRecord_Validate X r = None"
  shows "pull_validateBranch (pl_SourceBranch r) ''sourceBranch'' = None" and "validateGitSHA (pl_HeadSHA r) ''headSHA'' = None"
    and "pull_validateBranch (pl_TargetBranch r) ''targetBranch'' = None"
  using assms by (simp_all add: PullRecord_Validate_def first_error_None)

section \<open>Recognizing a merge\<close>

lemma decode_rune_before_ascii:
  assumes "x \<noteq> []" and "t \<noteq> []" and "byte (hd t) < 128"
  shows "snd (decode_rune (x @ t)) \<le> length x"
proof (rule ccontr)
  assume long: "\<not> snd (decode_rune (x @ t)) \<le> length x"
  obtain c y where x: "x = c # y" using assms(1) by (cases x) auto
  obtain d u where t: "t = d # u" using assms(2) by (cases t) auto
  have "d \<in> set (take (snd (decode_rune (c # y @ t)) - 1) (y @ t))"
    using long by (simp add: x t take_Cons')
  then have "128 \<le> byte d" by (rule decode_rune_continues)
  with assms(3) t show False by simp
qed

text \<open>Trimming at the left stops at a visible byte, trimming at the right after one.\<close>

lemma trim_left_before:
  assumes "t \<noteq> []" and "byte (hd t) < 128" and "\<not> is_space (byte (hd t))"
  shows "\<exists>y. trim_left (x @ t) = y @ t"
proof (induction "length x" arbitrary: x rule: less_induct)
  case less
  obtain d u where t: "t = d # u" using assms(1) by (cases t) auto
  show ?case
  proof (cases "x = []")
    case True
    then show ?thesis using assms trim_left_ascii [of d u] by (auto simp: t)
  next
    case x: False
    show ?thesis
    proof (cases "is_space (fst (decode_rune (x @ t)))")
      case True
      let ?n = "max 1 (snd (decode_rune (x @ t)))"
      have n: "?n \<le> length x" using decode_rune_before_ascii [OF x assms(1,2)] x by (cases x) auto
      then have "trim_left (x @ t) = trim_left (drop ?n x @ t)"
        using True x by (subst trim_left.simps) simp
      moreover have "length (drop ?n x) < length x" using x by simp
      ultimately show ?thesis using less [of "drop ?n x"] by auto
    next
      case False
      then show ?thesis using x by (subst trim_left.simps) auto
    qed
  qed
qed

lemma trim_right_after:
  assumes "byte d < 128" and "\<not> is_space (byte d)"
  shows "trim_right (s @ [d, newline]) = s @ [d]"
proof -
  have nl: "byte newline = 10" by simp
  have "trim_right (s @ [d]) = s @ [d]"
    using assms by (subst trim_right.simps) (simp add: decode_last_rune_def)
  moreover have "trim_right (s @ [d, newline]) = trim_right (s @ [d])"
    by (subst trim_right.simps) (simp add: decode_last_rune_def is_space_def in_range_def)
  ultimately show ?thesis by simp
qed

lemma trim_space_suffix:
  assumes t: "t = c # m @ [d]" and "visible c" and "visible d"
  shows "suffix t (trim_space (x @ t @ [newline]))"
proof -
  have "\<exists>y. trim_left (x @ (t @ [newline])) = y @ (t @ [newline])"
    by (rule trim_left_before) (use visible_facts [OF assms(2)] in \<open>simp_all add: t\<close>)
  then obtain y where "trim_left (x @ t @ [newline]) = (y @ c # m) @ [d, newline]" by (auto simp: t)
  then have "trim_space (x @ t @ [newline]) = y @ t"
    using trim_right_after [of d "y @ c # m"] visible_facts [OF assms(3)] by (simp add: trim_space_def t)
  then show ?thesis by (simp add: suffix_def)
qed

lemma trailers_shape:
  assumes "strategy = MergeCommit \<or> strategy = MergeSquash"
  shows "\<exists>m d. mergeTrailers target strategy = CHR ''A'' # m @ [d] \<and> visible d"
proof -
  obtain s d where "strategy_string strategy = s @ [d]" "visible d"
    using assms that [of "''merge-commi''" "CHR ''t''"] that [of "''squas''" "CHR ''h''"]
    by (auto simp: visible_def in_range_def)
  then show ?thesis by (auto simp: mergeTrailers_def)
qed

definition merge_commit_parents :: "merge_strategy \<Rightarrow> string \<Rightarrow> string \<Rightarrow> string list" where
  "merge_commit_parents strategy old head = old # (if strategy = MergeCommit then [head] else [])"

lemma recognized_merge:
  assumes "strategy = MergeCommit \<or> strategy = MergeSquash"
    and "cm_Message c = mergeMessage target (mergeTrailers target strategy)"
    and "cs_Parents c = merge_commit_parents strategy old (mt_HeadSHA target)"
  shows "recognizedMerge c target strategy (mergeTrailers target strategy) =
     Some \<lparr>res_OldSHA = old, res_NewSHA = cs_SHA c, res_HeadSHA = mt_HeadSHA target, res_TreeSHA = [],
           res_TargetRef = branch_ref (mt_TargetBranch target), res_Strategy = strategy\<rparr>"
proof -
  obtain m d where trailers: "mergeTrailers target strategy = CHR ''A'' # m @ [d]" and d: "visible d"
    using trailers_shape [OF assms(1)] by blast
  have "visible (CHR ''A'')" by (simp add: visible_def in_range_def)
  from trim_space_suffix [OF trailers this d, of "mt_Title target
      @ (if mt_Body target \<noteq> [] then [newline, newline] @ mt_Body target else []) @ [newline, newline]"]
  have "suffix (mergeTrailers target strategy) (trim_space (cm_Message c))"
    by (simp add: assms(2) mergeMessage_def split: if_splits)
  then show ?thesis
    using assms(1,3) by (auto simp: recognizedMerge_def merge_commit_parents_def)
qed

end
