(* ===== verification/Pull_Properties.thy ===== *)
theory Pull_Properties
  imports Pull_Published Pull_Messages Git_Remote_Properties Org_World
begin

text \<open>
  A small network for the witnesses: one repository with a pull request from another server, a Git that
  carries out what is documented of its commands, and a parser of AT URIs.
\<close>

section \<open>Identifiers\<close>

definition uri_parts :: "string \<Rightarrow> string list" where
  "uri_parts uri = split_on (CHR ''/'') (drop 5 uri)"

definition toy_did :: "string \<Rightarrow> string option" where
  "toy_did s = (if prefix ''did:'' s then Some s else None)"

definition toy_syntax :: at_syntax where
  "toy_syntax =
     \<lparr>sx_ParseATURI = (\<lambda>uri. if prefix ''at://'' uri \<and> length (uri_parts uri) = 3 then Some uri else None),
      sx_Authority = (\<lambda>uri. uri_parts uri ! 0), sx_AsDID = toy_did, sx_Collection = (\<lambda>uri. uri_parts uri ! 1),
      sx_RecordKey = (\<lambda>uri. uri_parts uri ! 2), sx_ParseDID = toy_did, sx_ParseCID = Some,
      sx_ParseRecordKey = (\<lambda>k. if k = [] then None else Some k)\<rparr>"

definition pull_uri_1 :: string where "pull_uri_1 = ''at://did:b/dev.adenosine.pullRequest/1''"
definition target_ref_1 :: strong_ref where
  "target_ref_1 = \<lparr>sr_URI = ''at://did:a/dev.adenosine.repo/t'', sr_CID = ''bt''\<rparr>"
definition source_ref_1 :: strong_ref where
  "source_ref_1 = \<lparr>sr_URI = ''at://did:b/dev.adenosine.repo/s'', sr_CID = ''bs''\<rparr>"

section \<open>Git\<close>

text \<open>The small Git of the fetches, which also carries out the compare-and-swap of a merge.\<close>

definition pull_exec :: "git_command \<Rightarrow> (refs \<times> git_command list, string list) op" where
  "pull_exec c w =
     (let args = gc_args c; p = drop 10 (hd args)
      in if commandOperation args = ''update-ref'' \<and> args ! 2 = ''--no-deref'' then
           (if fst w p (args ! 3) = Some (args ! 5)
            then (Inr [], (set_ref p (args ! 3) (args ! 4) (fst w), snd w @ [c]))
            else (Inl (Command_Error 128), (fst w, snd w @ [c])))
         else far_exec c w)"

definition pull_remote :: "(refs \<times> git_command list) remote_service" where
  "pull_remote = far_git\<lparr>rs_git := (rs_git far_git)\<lparr>gs_exec := pull_exec\<rparr>\<rparr>"

lemma pull_exec_far:
  "reads_only c \<Longrightarrow> pull_exec c = far_exec c" "fetch_into p q c \<Longrightarrow> pull_exec c = far_exec c"
  "pull_exec (delete_ref p q) = far_exec (delete_ref p q)"
  "prefix ''refs/'' r \<Longrightarrow> pull_exec (plain_update_ref p r new old) = far_exec (plain_update_ref p r new old)"
  "pull_exec (is_ancestor p before after) = far_exec (is_ancestor p before after)"
  by (rule ext, auto simp: pull_exec_def reads_only_def fetch_into_def delete_ref_def plain_update_ref_def is_ancestor_def
      known_operations_def Let_def)+

lemma pull_remote_simps [simp]:
  "gs_exec (rs_git pull_remote) = pull_exec" "gs_ctx_Err (rs_git pull_remote) = ret ()"
  "gs_Path (rs_git pull_remote) i = ret ''/repo''" "gs_temporary (rs_git pull_remote) = gs_temporary (rs_git far_git)"
  "gs_beforeMergeCAS (rs_git pull_remote) = None" "rs_LookupIP pull_remote = rs_LookupIP far_git" "rs_rand pull_remote = rs_rand far_git"
  by (simp_all add: pull_remote_def far_git_def NewServiceWithResolver_def)

lemma pull_remote_ok: "pull_git_ok fst (\<lambda>_ _. True) (\<lambda>_. ''/repo'') pull_remote"
proof -
  note far = far_git_ok [unfolded remote_ok_def git_fetch_ok_def]
  have surroundings: "merge_surroundings fst (rs_git pull_remote)"
    using far [THEN conjunct1, THEN conjunct1] by (simp add: merge_surroundings_def op_frames)
  have reads: "\<forall>c. reads_only c \<longrightarrow> frames fst (gs_exec (rs_git pull_remote) c)"
    using far [THEN conjunct1, THEN conjunct2, THEN conjunct1] by (simp add: pull_exec_far(1))
  have "remote_ok fst (\<lambda>_ _. True) pull_remote"
    using far surroundings reads
    unfolding remote_ok_def git_fetch_ok_def pull_remote_simps far_git_simps(1)
    by (simp add: pull_exec_far cong: conj_cong imp_cong)
  moreover have "case pull_exec (update_ref p r new old) w of
      (Inl _, w') \<Rightarrow> fst w' = fst w
    | (Inr _, w') \<Rightarrow> fst w p r = Some old \<and> fst w' = set_ref p r new (fst w)" for p r new old w
    by (simp add: pull_exec_def update_ref_def known_operations_def Let_def)
  ultimately show ?thesis
    using surroundings reads by (simp add: pull_git_ok_def git_refs_ok_def paths_are_def path_is_def op_ok)
qed

section \<open>The network\<close>

definition pull_1 :: pull_row where
  "pull_1 =
     \<lparr>pl_SourceRepository = source_ref_1, pl_TargetRepository = target_ref_1, pl_SourceBranch = ''topic'',
      pl_TargetBranch = ''main'', pl_HeadSHA = toy_sha (CHR ''d''), pl_Title = ''Change'', pl_Body = [],
      pl_CreatedAt = 5, pl_UpdatedAt = 5, pl_URI = pull_uri_1, pl_CID = ''bp'', pl_AuthorDID = ''did:b'',
      pr_indexed_at = 6, pr_deleted_at = None, pr_status_uri = [], pr_status_cid = []\<rparr>"

definition network_row_of :: "strong_ref \<Rightarrow> did \<Rightarrow> string \<Rightarrow> uuid option \<Rightarrow> network_row" where
  "network_row_of ref owner url rid =
     \<lparr>nr_URI = sr_URI ref, nr_CID = sr_CID ref, nr_GitHTTPS = url, nr_LocalRepositoryID = rid, nr_deleted_at = None,
      nw_OwnerDID = owner, nw_canonical_uri = sr_URI ref, nw_lineage_uri = sr_URI ref,
      nw_PullRequestCount = 0, nw_OpenPullRequestCount = 0\<rparr>"

definition network_1 :: network_tables where
  "network_1 =
     \<lparr>nt_repositories = [network_row_of source_ref_1 ''did:b'' ''https://example.org/a/b.git'' None,
                         network_row_of target_ref_1 ''did:a'' ''https://here.example/t.git'' (Some 1)],
      nt_pull_requests = [pull_1], nt_statuses = [], nt_reviews = []\<rparr>"

definition repository_1 :: repository where
  "repository_1 =
     \<lparr>repo_ID = 1, repo_OwnerDID = ''did:a'', repo_OrganizationID = None, repo_OrganizationSlug = [], repo_Slug = ''t'',
      repo_DisplayName = ''t'', repo_Description = [], repo_Visibility = Repo_Public, repo_State = StateActive,
      repo_DefaultBranch = ''main'', repo_StorageKey = ''k'', repo_ATURI = sr_URI target_ref_1, repo_ATCID = sr_CID target_ref_1,
      repo_ForkedFrom = None, repo_TransferredFrom = None, repo_ForkCount = 0, repo_ViewerCanAdmin = False,
      repo_ArchivedAt = None, repo_CreatedAt = 1, repo_UpdatedAt = 1\<rparr>"

definition core_1 :: org_tables where
  "core_1 = example_tables\<lparr>repositories := [\<lparr>rr_repo = repository_1, rr_deleted_at = None\<rparr>]\<rparr>"

definition pull_world_1 :: "(refs \<times> git_command list) pull_world" where
  "pull_world_1 =
     \<lparr>tables = core_1, collation = (\<lambda>_ _. True), faults = [], pw_views = (\<lambda>_. (network_1, core_1)), pw_reads = 0,
      pw_instants = (\<lambda>n. int n + 10), pw_ticks = 0, pw_ids = (\<lambda>n. Inr (of_nat n + 1)), pw_ids_used = 0,
      pw_replies = (\<lambda>_. Inr (''at://did:a/dev.adenosine.pullRequestStatus/1'', ''bs'')), pw_sent = [],
      pw_git = (toy_refs, [])\<rparr>"

definition pulls_1 :: "(refs \<times> git_command list) pull_config" where
  "pulls_1 = \<lparr>pf_remote = pull_remote, pf_syntax = toy_syntax, pf_uuid_string = (\<lambda>_. ''id'')\<rparr>"

definition merge_target_1 :: merge_target where
  "merge_target_1 =
     \<lparr>mt_Subject = \<lparr>sr_URI = pull_uri_1, sr_CID = ''bp''\<rparr>, mt_SourceRepository = source_ref_1, mt_SourceBranch = ''topic'',
      mt_HeadSHA = toy_sha (CHR ''d''), mt_TargetRepository = target_ref_1, mt_TargetBranch = ''main'', mt_Title = ''Change'',
      mt_Body = [], mt_CreatedAt = 5, mt_TargetOwnerDID = ''did:a'', mt_RepositoryID = 1, mt_State = StateOpen,
      mt_StatusCreatedAt = 0\<rparr>"

lemma merge_target_found:
  "sql_GetProjectedPullRequestMergeTarget pull_uri_1 le network_1 core_1 = Inr merge_target_1"
  by (simp add: sql_GetProjectedPullRequestMergeTarget_def pull_by_uri_def network_by_ref_def network_1_def pull_1_def
      network_row_of_def source_ref_1_def target_ref_1_def local_target_def core_1_def repository_1_def optional_row_def
      current_status_def state_of_def status_created_at_def merge_target_1_def)

lemma write_access_1: "map_sum id fst (sql_CanWriteRepository account 1 core_1) = Inr (account = ''did:a'')"
  by (auto simp: sql_CanWriteRepository_def exists_repository_def core_1_def repository_1_def example_tables_def
      account_owner_def owner_grant_def base_grant_def org_member_of_def team_grant_def collaborator_grant_def)

text \<open>The properties of pull requests.\<close>

lemma triple_result: "triple P m Q E \<Longrightarrow> P w \<Longrightarrow> case m w of (Inl e, w') \<Rightarrow> E w' | (Inr x, w') \<Rightarrow> Q x w'"
  by (simp only: triple_def)

section \<open>Who moves a branch\<close>

text \<open>
  C24. Merging needs write access. Whatever Git, the other server, the publisher and concurrent changes of the
  database do, a merge request, failed or not, leaves every reference outside the server's own namespace
  alone, except that it may move the target branch of a pull request that a view of the
  database showed open, with that target, while the same view gave the actor write access to the repository.
\<close>

theorem merging_needs_write_access:
  assumes "pull_git_ok v ancestor paths (pf_remote C)"
  shows "merge_moves v paths actorDID (mg_PullRequestURI input) w (snd (pull_Merge (pulls_of C) actorDID input w))"
proof -
  obtain res w' where run: "pull_Merge (pulls_of C) actorDID input w = (res, w')" by force
  note merge = triple_Merge [OF assms, of w actorDID input]
  show ?thesis
    using triple_Inl [OF merge quiet_refl, of _ w'] triple_Inr [OF merge quiet_refl, of _ w'] run by (cases res) simp_all
qed

definition merge_input_1 :: merge_input where
  "merge_input_1 = \<lparr>mg_PullRequestURI = pull_uri_1, mg_Strategy = MergeSquash\<rparr>"

theorem merging_needs_write_access_witness:
  "same_branches toy_refs (fst (pw_git (snd (pull_Merge (pulls_of pulls_1) ''did:m'' merge_input_1 pull_world_1))))
   \<and> sql_GetProjectedPullRequestMergeTarget pull_uri_1 (collation pull_world_1) network_1 core_1 = Inr merge_target_1"
proof -
  have "\<not> merge_permitted pull_world_1 ''did:m'' pull_uri_1 target" for target
    using write_access_1 [of "''did:m''"] merge_target_found
    by (auto simp: merge_permitted_def pull_world_1_def merge_target_1_def)
  moreover have "pf_remote pulls_1 = pull_remote" by (simp add: pulls_1_def)
  ultimately show ?thesis
    using merging_needs_write_access [of fst "\<lambda>_ _. True" "\<lambda>_. ''/repo''" pulls_1 "''did:m''" merge_input_1 pull_world_1]
      pull_remote_ok merge_target_found
    by (simp add: merge_moves_def merge_input_1_def pull_world_1_def)
qed

section \<open>What a merge announces\<close>

text \<open>
  A merge is announced once, in order, and only after it is placed. A request to merge that returns has sent the
  event of its reference and then the status "merged" of the owner of the target repository, both with the commit the
  request reports; that commit was at the tip of the target branch as the merge of this pull request, or Git's merge
  into that tip returned it. A request that fails has sent nothing, or a first part of this.
\<close>

theorem merges_are_announced_in_order:
  "case pull_Merge (pulls_of C) actorDID input w of
     (Inl _, w') \<Rightarrow> merge_sent C actorDID input w w'
   | (Inr r, w') \<Rightarrow> merge_announced C actorDID input w r w'"
  by (rule triple_result [OF triple_Merge_sent idle_refl])

section \<open>Retrying a merge\<close>

text \<open>
  C25. A merge is not done twice. Where the tip of the target branch is the commit of an earlier request to merge this
  version of the pull request, whose event or status was lost, the request takes that commit as its result: it
  calls Git for no merge and leaves everything as it is.
\<close>

theorem retried_merges_are_recognized:
  assumes "strategy = MergeCommit \<or> strategy = MergeSquash"
    and "cm_Message tip = mr_Message (merge_request_of target strategy old actorDID now)"
    and "cs_Parents tip = merge_commit_parents strategy old (mt_HeadSHA target)"
  shows "place_merge S another target strategy tip w =
     (Inr \<lparr>res_OldSHA = old, res_NewSHA = cs_SHA tip, res_HeadSHA = mt_HeadSHA target, res_TreeSHA = [],
           res_TargetRef = branch_ref (mt_TargetBranch target), res_Strategy = strategy\<rparr>, w)"
  using recognized_merge [OF assms(1) _ assms(3)] assms(2)
  by (simp add: place_merge_def merge_request_of_def ret_def)

definition merged_tip :: commit where
  "merged_tip =
     \<lparr>cs_SHA = toy_sha (CHR ''e''), cs_Parents = [toy_sha (CHR ''1'')],
      cs_Author = \<lparr>ci_Name = ''did:a'', ci_Email = ''a'', ci_Time = 9, ci_offset = 0\<rparr>,
      cs_Committer = \<lparr>ci_Name = ''did:a'', ci_Email = ''a'', ci_Time = 9, ci_offset = 0\<rparr>, cs_Summary = ''Change'',
      cm_Message = mergeMessage merge_target_1 (mergeTrailers merge_target_1 MergeSquash)\<rparr>"

theorem retried_merges_are_recognized_witness:
  "\<exists>m. place_merge (pulls_of pulls_1) ''did:a'' merge_target_1 MergeSquash merged_tip pull_world_1 = (Inr m, pull_world_1)
     \<and> res_NewSHA m = toy_sha (CHR ''e'') \<and> res_OldSHA m = toy_sha (CHR ''1'')"
  using retried_merges_are_recognized [of MergeSquash merged_tip merge_target_1 "toy_sha (CHR ''1'')" "''did:b''" 3
      "pulls_of pulls_1" "''did:a''" pull_world_1]
  by (simp add: merged_tip_def merge_request_of_def merge_commit_parents_def)

section \<open>Who sets a status\<close>

text \<open>
  Only the owner of the target repository, or an account with the triage permission on it, opens or closes a pull
  request: whatever a request does, it publishes at most one status, of the owner that the status's target names, with
  the state that was asked for (open or closed, never merged), about the version of the pull request that a view
  of the database showed, while the actor was that owner or the view gave the actor the permission.
\<close>

theorem statuses_need_triage_permission:
  "case pull_PutStatus (pulls_of C) actorDID input w of
     (Inl _, w') \<Rightarrow> pw_sent w' = pw_sent w \<or> status_sent C actorDID input w w'
   | (Inr _, w') \<Rightarrow> status_sent C actorDID input w w'"
  by (rule triple_result [OF triple_PutStatus idle_refl])

section \<open>What is published\<close>

text \<open>
  C26. Only valid records are published: a request to create a pull request or a review publishes nothing, or one record
  of its author that passes validation, and a request that returns has published it.
\<close>

theorem published_pull_requests_are_valid:
  "(case pull_Create (pulls_of C) authorDID input w of (res, w') \<Rightarrow>
      (case res of Inl _ \<Rightarrow> pw_sent w' = pw_sent w | Inr _ \<Rightarrow> False)
      \<or> (\<exists>key r. PullRecord_Validate (pf_syntax C) r = None \<and> pw_sent w' = pw_sent w @ [Sent_PullRequest authorDID key r]))
   \<and> (case pull_CreateReview (pulls_of C) authorDID review_input w of (res, w') \<Rightarrow>
      (case res of Inl _ \<Rightarrow> pw_sent w' = pw_sent w | Inr _ \<Rightarrow> False)
      \<or> (\<exists>key r. ReviewRecord_Validate (pf_syntax C) r = None \<and> pw_sent w' = pw_sent w @ [Sent_Review authorDID key r]))"
proof -
  obtain res w' where create: "pull_Create (pulls_of C) authorDID input w = (res, w')" by force
  obtain res2 w2 where review: "pull_CreateReview (pulls_of C) authorDID review_input w = (res2, w2)" by force
  show ?thesis
    using triple_Inl [OF triple_Create idle_refl, of C authorDID input w _ w'] triple_Inr [OF triple_Create idle_refl, of C authorDID input w _ w']
      triple_Inl [OF triple_CreateReview idle_refl, of C authorDID review_input w _ w2]
      triple_Inr [OF triple_CreateReview idle_refl, of C authorDID review_input w _ w2]
    unfolding create review by (cases res; cases res2) simp_all
qed

section \<open>What a refresh asks of Git\<close>

text \<open>
  The head of every pull request can be asked for: of a pull request that passed validation, the fetch that a refresh
  asks for is refused, whatever the head it saw before, only where the address of the source repository is: its branch,
  its commit and the reference derived from its URI are what \<open>FetchRemote\<close> accepts.
\<close>

theorem validated_pull_requests_are_fetchable:
  assumes "sql_GetProjectedPullRequestFetchTarget uri le n t = Inr target"
    and "list_all (\<lambda>p. PullRecord_Validate X p = None) (nt_pull_requests n)"
    and "prior = [] \<or> validateRemoteSHA prior = None"
  shows "validateRemoteFetch (pull_request_fetch target prior) = validate_endpoint (ft_SourceURL target)"
proof -
  obtain p where p: "pull_by_uri n uri = Some p" and target: "ft_HeadSHA target = pl_HeadSHA p" "ft_SourceBranch target = pl_SourceBranch p"
    using assms(1)
    by (auto simp: sql_GetProjectedPullRequestFetchTarget_def optional_row_def bind_eq_Some_conv split: option.splits if_splits)
  then have valid: "PullRecord_Validate X p = None"
    using assms(2) by (auto simp: pull_by_uri_def list_all_iff dest: find_Some_in)
  show ?thesis
    using assms(3) validateGitSHA_ok(3) [OF validated_pull_record(2) [OF valid]]
      pull_branch_is_git_branch [OF validated_pull_record(1) [OF valid]]
    by (auto simp: validateRemoteFetch_def pull_request_fetch_def target destinationKey_controlled)
qed

lemma pull_1_valid: "PullRecord_Validate toy_syntax pull_1 = None"
  by code_simp

theorem validated_pull_requests_are_fetchable_witness:
  "\<exists>target. sql_GetProjectedPullRequestFetchTarget pull_uri_1 (\<lambda>_ _. True) network_1 core_1 = Inr target
     \<and> validateRemoteFetch (pull_request_fetch target (toy_sha (CHR ''1''))) = validate_endpoint ''https://example.org/a/b.git''"
proof -
  obtain target where target: "sql_GetProjectedPullRequestFetchTarget pull_uri_1 (\<lambda>_ _. True) network_1 core_1 = Inr target"
    and url: "ft_SourceURL target = ''https://example.org/a/b.git''"
    by (simp add: sql_GetProjectedPullRequestFetchTarget_def pull_by_uri_def network_by_ref_def network_1_def pull_1_def
      network_row_of_def source_ref_1_def target_ref_1_def optional_row_def)
  have "list_all (\<lambda>p. PullRecord_Validate toy_syntax p = None) (nt_pull_requests network_1)"
    by (simp add: network_1_def pull_1_valid)
  moreover have "validateRemoteSHA (toy_sha (CHR ''1'')) = None" by code_simp
  ultimately show ?thesis
    using validated_pull_requests_are_fetchable [OF target] target url by simp
qed

end
