(* ===== verification/Repo_Transfer.thy ===== *)
theory Repo_Transfer imports Go_Hash Repository begin

text \<open>
  \<^verbatim>\<open>internal/transfer/transfer.go\<close>: the transfer of a repository to another owner. The source proposes,
  the destination accepts, and every step that publishes a record stores its identity before the next,
  so that a request that fails in between is resumed by the next one.
\<close>

section \<open>Data\<close>

datatype transfer_status = StatusPending | StatusCompleted | StatusCancelled

datatype owner_kind = OwnerAccount | OwnerOrganization

record transfer_owner =
  own_Kind :: owner_kind
  own_Alias :: string
  own_AccountDID :: did
  own_OrganizationID :: "uuid option"
  own_Organization :: "at_identity option"
  own_RecordAuthorDID :: did

record transfer_identity =
  ti_URI :: string
  ti_CID :: string

record proposal_publication =
  pp_ID :: uuid
  pp_ActorDID :: did
  pp_Repository :: transfer_identity
  pp_DestinationDID :: did
  pp_DestinationOwnerAlias :: string
  pp_DestinationOrganization :: "at_identity option"
  pp_CreatedAt :: instant
  pp_ExpiresAt :: instant

record acceptance_publication =
  ap_ActorDID :: did
  ap_Proposal :: transfer_identity
  ap_Repository :: transfer_identity
  ap_CreatedAt :: instant

record transfer =
  tf_ID :: uuid
  tf_RepositoryID :: uuid
  tf_SourceOwnerDID :: did
  tf_SourceOrganizationID :: "uuid option"
  tf_SourceOwnerAlias :: string
  tf_SourceRepository :: "transfer_identity option"
  tf_Destination :: transfer_owner
  tf_InitiatedByDID :: did
  tf_AcceptedByDID :: did
  tf_Proposal :: "transfer_identity option"
  tf_Successor :: "transfer_identity option"
  tf_Acceptance :: "transfer_identity option"
  tf_SourceRedirectCID :: string
  tf_Status :: transfer_status
  tf_CreatedAt :: instant
  tf_ExpiresAt :: instant
  tf_AcceptanceStartedAt :: "instant option"
  tf_AcceptedAt :: "instant option"
  tf_CancelledAt :: "instant option"

record transfer_page =
  tfp_Items :: "transfer list"
  tfp_NextCursor :: "uuid option"

text \<open>Seven days, in nanoseconds.\<close>

definition transfer_Lifetime :: duration where
  "transfer_Lifetime = 7 * 24 * 3600 * 1000000000"

text \<open>The keys of the records: the UUID without its hyphens, and the hash of the proposal's URI.\<close>

definition ProposalRecordKey :: "(uuid \<Rightarrow> string) \<Rightarrow> uuid \<Rightarrow> string" where
  "ProposalRecordKey show_uuid i = filter (\<lambda>c. c \<noteq> CHR ''-'') (show_uuid i)"

definition AcceptanceRecordKey :: "string \<Rightarrow> string" where
  "AcceptanceRecordKey proposalURI = base32_lower (sha256 proposalURI)"

section \<open>The service\<close>

record 'w transfer_store =
  ts_ResolveOwner :: "string \<Rightarrow> ('w, transfer_owner) op"
  ts_ResolveOrganizationIdentity :: "uuid \<Rightarrow> ('w, at_identity) op"
  ts_CanInitiate :: "uuid \<Rightarrow> did \<Rightarrow> ('w, bool) op"
  ts_CanAccept :: "transfer_owner \<Rightarrow> did \<Rightarrow> ('w, bool) op"
  ts_CanComplete :: "uuid \<Rightarrow> ('w, bool) op"
  ts_ResolveSourceAlias :: "uuid \<Rightarrow> ('w, string) op"
  ts_GetRepository :: "uuid \<Rightarrow> ('w, repository) op"
  ts_GetPending :: "uuid \<Rightarrow> ('w, transfer) op"
  ts_Create :: "transfer \<Rightarrow> ('w, transfer) op"
  ts_Get :: "uuid \<Rightarrow> ('w, transfer) op"
  ts_Page :: "uuid \<Rightarrow> uuid option \<Rightarrow> int \<Rightarrow> ('w, transfer list) op"
  ts_SetProposal :: "uuid \<Rightarrow> transfer_identity \<Rightarrow> ('w, transfer) op"
  ts_SetSuccessor :: "uuid \<Rightarrow> transfer_identity \<Rightarrow> ('w, transfer) op"
  ts_StartAcceptance :: "uuid \<Rightarrow> instant \<Rightarrow> ('w, transfer) op"
  ts_SetAcceptance :: "uuid \<Rightarrow> transfer_identity \<Rightarrow> ('w, transfer) op"
  ts_SetSourceRedirect :: "uuid \<Rightarrow> string \<Rightarrow> ('w, transfer) op"
  ts_Cancel :: "uuid \<Rightarrow> instant \<Rightarrow> ('w, transfer) op"
  ts_Complete :: "uuid \<Rightarrow> uuid \<Rightarrow> uuid \<Rightarrow> did \<Rightarrow> instant \<Rightarrow> ('w, transfer) op"
  ts_CompletePrivate :: "uuid \<Rightarrow> uuid \<Rightarrow> uuid \<Rightarrow> did \<Rightarrow> instant \<Rightarrow> ('w, transfer) op"

record 'w transfer_publisher =
  tp_PublishProposal :: "proposal_publication \<Rightarrow> ('w, transfer_identity) op"
  tp_DeleteProposal :: "proposal_publication \<Rightarrow> transfer_identity \<Rightarrow> ('w, unit) op"
  tp_PublishAcceptance :: "acceptance_publication \<Rightarrow> ('w, transfer_identity) op"

text \<open>
  A nil interface is an absent field. \<open>uuid.NewSHA1\<close>, the name-based UUID of the uuid package, is a parameter.
\<close>

record 'w transfer_service =
  tv_store :: "'w transfer_store"
  tv_publisher :: "'w transfer_publisher option"
  tv_repositoryPublisher :: "(repo_publication \<Rightarrow> ('w, at_identity) op) option"
  tv_endpoints :: "(repository \<Rightarrow> string \<times> string \<times> string) option"
  tv_NewV7 :: "('w, uuid) op"
  tv_clock :: "'w \<Rightarrow> instant \<times> 'w"
  tv_NewSHA1 :: "uuid \<Rightarrow> string \<Rightarrow> uuid"

text \<open>\<open>providerError\<close> unwraps to \<open>ErrProvider\<close> and to its cause.\<close>

definition transfer_providerFailure :: "string \<Rightarrow> err \<Rightarrow> err" where
  "transfer_providerFailure operation cause = Errorf operation [Sentinel transfer_ErrProvider, cause] []"

abbreviation transfer_invalid :: "string \<Rightarrow> err" where
  "transfer_invalid msg \<equiv> because transfer_ErrValidation msg"

abbreviation transfer_unavailable :: "string \<Rightarrow> err" where
  "transfer_unavailable msg \<equiv> because transfer_ErrProvider msg"

text \<open>A dereferenced pointer: nil is a panic, which ends the request.\<close>

definition deref :: "'a option \<Rightarrow> ('a \<Rightarrow> ('w, 'b) op) \<Rightarrow> ('w, 'b) op" where
  "deref p k = (case p of None \<Rightarrow> raise (Opaque ''nil pointer dereference'') | Some x \<Rightarrow> k x)"

lemma deref_simps [simp]: "deref (Some x) k = k x" "deref None k = raise (Opaque ''nil pointer dereference'')"
  by (simp_all add: deref_def)

lemma deref_ok [op_ok]: "deref p k w = (Inr y, w') \<longleftrightarrow> (\<exists>x. p = Some x \<and> k x w = (Inr y, w'))"
  by (cases p) (simp_all add: op_ok)

section \<open>Owners and publications\<close>

definition same_owner_ids :: "uuid option \<Rightarrow> uuid option \<Rightarrow> bool \<Rightarrow> bool" where
  "same_owner_ids left right otherwise =
     (case (left, right) of (None, None) \<Rightarrow> otherwise | (Some a, Some b) \<Rightarrow> a = b | _ \<Rightarrow> False)"

definition sameOwner :: "repository \<Rightarrow> transfer_owner \<Rightarrow> bool" where
  "sameOwner v owner =
     same_owner_ids (repo_OrganizationID v) (own_OrganizationID owner) (repo_OwnerDID v = own_AccountDID owner)"

definition sameDestination :: "transfer_owner \<Rightarrow> transfer_owner \<Rightarrow> bool" where
  "sameDestination left right =
     same_owner_ids (own_OrganizationID left) (own_OrganizationID right) (own_AccountDID left = own_AccountDID right)"

definition proposalPublication :: "transfer \<Rightarrow> transfer_identity \<Rightarrow> proposal_publication" where
  "proposalPublication v source =
     \<lparr>pp_ID = tf_ID v, pp_ActorDID = tf_SourceOwnerDID v, pp_Repository = source,
      pp_DestinationDID = own_AccountDID (tf_Destination v), pp_DestinationOwnerAlias = own_Alias (tf_Destination v),
      pp_DestinationOrganization = own_Organization (tf_Destination v),
      pp_CreatedAt = tf_CreatedAt v, pp_ExpiresAt = tf_ExpiresAt v\<rparr>"

definition repositoryPublication :: "repository \<Rightarrow> string \<times> string \<times> string \<Rightarrow> instant \<Rightarrow> repo_publication" where
  "repositoryPublication v addresses updatedAt =
     (case addresses of (web, gitHTTPS, gitSSH) \<Rightarrow>
       \<lparr>rpub_ID = repo_ID v, rpub_OwnerDID = repo_OwnerDID v, rpub_Organization = None, rpub_ForkedFrom = None,
        rpub_TransferredFrom = repo_TransferredFrom v, rpub_TransferredTo = None, rpub_Slug = repo_Slug v,
        rpub_Name = (if repo_DisplayName v = [] then repo_Slug v else repo_DisplayName v),
        rpub_Description = repo_Description v, rpub_DefaultBranch = repo_DefaultBranch v,
        rpub_GitHTTPS = gitHTTPS, rpub_GitSSH = gitSSH, rpub_Web = web,
        rpub_CreatedAt = repo_CreatedAt v, rpub_UpdatedAt = updatedAt\<rparr>)"

abbreviation as_repository_identity :: "transfer_identity \<Rightarrow> at_identity" where
  "as_repository_identity i \<equiv> \<lparr>at_URI = ti_URI i, at_CID = ti_CID i\<rparr>"

definition successor_repository :: "transfer \<Rightarrow> repository \<Rightarrow> instant \<Rightarrow> repository" where
  "successor_repository v repo now =
     (let d = tf_Destination v
      in repo\<lparr>repo_OwnerDID := own_RecordAuthorDID d, repo_OrganizationID := own_OrganizationID d,
              repo_OrganizationSlug := (if own_OrganizationID d = None then [] else own_Alias d),
              repo_UpdatedAt := now\<rparr>)"

definition successorPublication ::
  "'w transfer_service \<Rightarrow> (repository \<Rightarrow> string \<times> string \<times> string) \<Rightarrow> transfer \<Rightarrow> repository \<Rightarrow> instant
     \<Rightarrow> ('w, repo_publication) op" where
  "successorPublication S endpoints v repo now =
     (let moved = successor_repository v repo now; base = repositoryPublication moved (endpoints moved) now
      in deref (tf_SourceRepository v) (\<lambda>source.
         let publication = base\<lparr>rpub_TransferredFrom := Some (as_repository_identity source)\<rparr>
         in case own_OrganizationID (tf_Destination v) of
              None \<Rightarrow> ret publication
            | Some oid \<Rightarrow>
                (case own_Organization (tf_Destination v) of
                   Some organization \<Rightarrow> ret (publication\<lparr>rpub_Organization := Some organization\<rparr>)
                 | None \<Rightarrow>
                     call (ts_ResolveOrganizationIdentity (tv_store S) oid) (wrapf ''resolve destination organization'') (\<lambda>identity.
                     ret (publication\<lparr>rpub_Organization := Some identity\<rparr>)))))"

definition sourceRedirectPublication ::
  "'w transfer_service \<Rightarrow> (repository \<Rightarrow> string \<times> string \<times> string) \<Rightarrow> transfer \<Rightarrow> repository \<Rightarrow> instant
     \<Rightarrow> ('w, repo_publication) op" where
  "sourceRedirectPublication S endpoints v repo now =
     (let left = (if tf_SourceOrganizationID v = None then repo else repo\<lparr>repo_OrganizationSlug := tf_SourceOwnerAlias v\<rparr>);
          base = repositoryPublication left (endpoints left) now
      in deref (tf_Successor v) (\<lambda>successor.
         let publication = base\<lparr>rpub_OwnerDID := tf_SourceOwnerDID v,
                                rpub_TransferredTo := Some (as_repository_identity successor)\<rparr>
         in case tf_SourceOrganizationID v of
              None \<Rightarrow> ret publication
            | Some oid \<Rightarrow>
                call (ts_ResolveOrganizationIdentity (tv_store S) oid) (wrapf ''resolve source organization'') (\<lambda>identity.
                ret (publication\<lparr>rpub_Organization := Some identity\<rparr>))))"

section \<open>Proposing\<close>

definition publishPendingProposal :: "'w transfer_service \<Rightarrow> transfer \<Rightarrow> ('w, transfer) op" where
  "publishPendingProposal S v =
     (case (tf_SourceRepository v, tf_Proposal v) of
        (Some source, None) \<Rightarrow>
          (case tv_publisher S of
             None \<Rightarrow> raise (transfer_unavailable ''proposal publisher is unavailable'')
           | Some publisher \<Rightarrow>
               call (tp_PublishProposal publisher (proposalPublication v source))
                 (transfer_providerFailure ''publish proposal'') (\<lambda>proposal.
               call (ts_SetProposal (tv_store S) (tf_ID v) proposal) (wrapf ''store proposal identity'') ret))
      | _ \<Rightarrow> ret v)"

definition proposed_transfer ::
  "uuid \<Rightarrow> repository \<Rightarrow> string \<Rightarrow> transfer_owner \<Rightarrow> did \<Rightarrow> instant \<Rightarrow> transfer" where
  "proposed_transfer i v alias destination actor now =
     \<lparr>tf_ID = i, tf_RepositoryID = repo_ID v, tf_SourceOwnerDID = repo_OwnerDID v,
      tf_SourceOrganizationID = repo_OrganizationID v, tf_SourceOwnerAlias = alias,
      tf_SourceRepository =
        (if repo_ATURI v \<noteq> [] \<and> repo_ATCID v \<noteq> [] then Some \<lparr>ti_URI = repo_ATURI v, ti_CID = repo_ATCID v\<rparr> else None),
      tf_Destination = destination, tf_InitiatedByDID = actor, tf_AcceptedByDID = [],
      tf_Proposal = None, tf_Successor = None, tf_Acceptance = None, tf_SourceRedirectCID = [],
      tf_Status = StatusPending, tf_CreatedAt = now, tf_ExpiresAt = now + transfer_Lifetime,
      tf_AcceptanceStartedAt = None, tf_AcceptedAt = None, tf_CancelledAt = None\<rparr>"

definition resume_pending :: "'w transfer_service \<Rightarrow> transfer_owner \<Rightarrow> transfer \<Rightarrow> ('w, transfer) op" where
  "resume_pending S destination pending =
     with_now (tv_clock S) (\<lambda>now.
     fail_if (\<not> now < tf_ExpiresAt pending) (Sentinel transfer_ErrConflict) (
     fail_if (\<not> sameDestination (tf_Destination pending) destination) (Sentinel transfer_ErrConflict) (
     publishPendingProposal S (pending\<lparr>tf_Destination := destination\<rparr>))))"

definition create_transfer ::
  "'w transfer_service \<Rightarrow> repository \<Rightarrow> string \<Rightarrow> transfer_owner \<Rightarrow> did \<Rightarrow> ('w, transfer) op" where
  "create_transfer S v alias destination actor =
     call (tv_NewV7 S) (wrapf ''generate transfer ID'') (\<lambda>i.
     with_now (tv_clock S) (\<lambda>now.
     call (ts_Create (tv_store S) (proposed_transfer i v alias destination actor now)) (wrapf ''create transfer'') (\<lambda>created.
     publishPendingProposal S (created\<lparr>tf_Destination := destination\<rparr>))))"

definition transfer_Initiate :: "'w transfer_service \<Rightarrow> repository \<Rightarrow> did \<Rightarrow> string \<Rightarrow> ('w, transfer) op" where
  "transfer_Initiate S v actorDID destinationAlias =
     (let actor = trim_space actorDID; alias = trim_space destinationAlias
      in fail_if (actor = [] \<or> alias = [] \<or> repo_State v \<noteq> StateActive)
           (transfer_invalid ''active repository, actor, and destination are required'') (
         call (ts_CanInitiate (tv_store S) (repo_ID v) actor) (wrapf ''authorize current owner'') (\<lambda>allowed.
         fail_if (\<not> allowed) (Sentinel transfer_ErrForbidden) (
         call (ts_ResolveSourceAlias (tv_store S) (repo_ID v)) (wrapf ''resolve current owner route'') (\<lambda>sourceAlias.
         call (ts_ResolveOwner (tv_store S) alias) (\<lambda>e. e) (\<lambda>destination.
         fail_if (sameOwner v destination) (transfer_invalid ''destination already owns repository'') (
         attempt (ts_GetPending (tv_store S) (repo_ID v))
           (\<lambda>e. fail_if (\<not> errors_is e transfer_ErrNotFound) (wrapf ''get pending transfer'' e)
                  (create_transfer S v sourceAlias destination actor))
           (resume_pending S destination))))))))"

section \<open>Reading\<close>

definition source_of :: "transfer \<Rightarrow> transfer_owner" where
  "source_of v =
     \<lparr>own_Kind = (if tf_SourceOrganizationID v = None then OwnerAccount else OwnerOrganization), own_Alias = [],
      own_AccountDID = tf_SourceOwnerDID v, own_OrganizationID = tf_SourceOrganizationID v,
      own_Organization = None, own_RecordAuthorDID = []\<rparr>"

definition authorizeInspection :: "'w transfer_service \<Rightarrow> transfer \<Rightarrow> did \<Rightarrow> ('w, unit) op" where
  "authorizeInspection S v actorDID =
     (let actor = trim_space actorDID
      in call (ts_CanInitiate (tv_store S) (tf_RepositoryID v) (trim_space actor)) (wrapf ''authorize current repository owner'') (\<lambda>allowed.
         if allowed then ret ()
         else call (ts_CanAccept (tv_store S) (source_of v) actor) (wrapf ''authorize source owner'') (\<lambda>allowed.
         if allowed then ret ()
         else call (ts_CanAccept (tv_store S) (tf_Destination v) (trim_space actor)) (wrapf ''authorize destination owner'') (\<lambda>allowed.
         fail_if (\<not> allowed) (Sentinel transfer_ErrForbidden) (ret ())))))"

definition transfer_Get :: "'w transfer_service \<Rightarrow> uuid \<Rightarrow> did \<Rightarrow> ('w, transfer) op" where
  "transfer_Get S i actorDID =
     call (ts_Get (tv_store S) i) (\<lambda>e. e) (\<lambda>v.
     call (authorizeInspection S v actorDID) (\<lambda>e. e) (\<lambda>_.
     ret v))"

definition transfer_Page ::
  "'w transfer_service \<Rightarrow> uuid \<Rightarrow> did \<Rightarrow> uuid option \<Rightarrow> int \<Rightarrow> ('w, transfer_page) op" where
  "transfer_Page S repositoryID actorDID after limit =
     fail_if (limit < 1 \<or> limit > 100) (transfer_invalid ''limit must be between 1 and 100'') (
     call (ts_CanInitiate (tv_store S) repositoryID (trim_space actorDID)) (wrapf ''authorize transfer history'') (\<lambda>allowed.
     fail_if (\<not> allowed) (Sentinel transfer_ErrForbidden) (
     call (ts_Page (tv_store S) repositoryID after (limit + 1)) (wrapf ''page transfers'') (\<lambda>values.
     let items = take (nat limit) values
     in ret \<lparr>tfp_Items = items,
             tfp_NextCursor = (if int (length values) > limit then Some (tf_ID (last items)) else None)\<rparr>))))"

section \<open>Accepting\<close>

definition AuthorizeAcceptance :: "'w transfer_service \<Rightarrow> uuid \<Rightarrow> did \<Rightarrow> ('w, transfer \<times> repository) op" where
  "AuthorizeAcceptance S i actorDID =
     call (ts_Get (tv_store S) i) (\<lambda>e. e) (\<lambda>v.
     fail_if (tf_Status v \<noteq> StatusPending) (Sentinel transfer_ErrConflict) (
     let authorized =
       call (ts_CanAccept (tv_store S) (tf_Destination v) (trim_space actorDID)) (wrapf ''authorize destination owner'') (\<lambda>allowed.
       fail_if (\<not> allowed) (Sentinel transfer_ErrForbidden) (
       call (ts_GetRepository (tv_store S) (tf_RepositoryID v)) (\<lambda>e. e) (\<lambda>repo.
       ret (v, repo))))
     in if tf_AcceptanceStartedAt v = None
        then with_now (tv_clock S) (\<lambda>now.
             fail_if (\<not> now < tf_ExpiresAt v) (Sentinel transfer_ErrConflict) authorized)
        else authorized))"

definition accept_successor ::
  "'w transfer_service \<Rightarrow> uuid \<Rightarrow> (repo_publication \<Rightarrow> ('w, at_identity) op) \<Rightarrow> (repository \<Rightarrow> string \<times> string \<times> string)
     \<Rightarrow> repository \<Rightarrow> instant \<Rightarrow> transfer \<Rightarrow> ('w, transfer) op" where
  "accept_successor S i publish endpoints repo workflowAt v =
     (if tf_Successor v \<noteq> None then ret v
      else call (successorPublication S endpoints v repo workflowAt) (\<lambda>e. e) (\<lambda>publication.
           call (publish publication) (transfer_providerFailure ''publish successor'') (\<lambda>identity.
           call (ts_SetSuccessor (tv_store S) i \<lparr>ti_URI = at_URI identity, ti_CID = at_CID identity\<rparr>)
             (wrapf ''store successor identity'') ret)))"

definition accept_acceptance ::
  "'w transfer_service \<Rightarrow> uuid \<Rightarrow> 'w transfer_publisher \<Rightarrow> instant \<Rightarrow> transfer \<Rightarrow> ('w, transfer) op" where
  "accept_acceptance S i publisher workflowAt v =
     (if tf_Acceptance v \<noteq> None then ret v
      else deref (tf_Proposal v) (\<lambda>proposal. deref (tf_Successor v) (\<lambda>successor.
           call (tp_PublishAcceptance publisher
               \<lparr>ap_ActorDID = own_RecordAuthorDID (tf_Destination v), ap_Proposal = proposal,
                ap_Repository = successor, ap_CreatedAt = workflowAt\<rparr>)
             (transfer_providerFailure ''publish acceptance'') (\<lambda>identity.
           call (ts_SetAcceptance (tv_store S) i identity) (wrapf ''store acceptance identity'') ret))))"

definition accept_redirect ::
  "'w transfer_service \<Rightarrow> uuid \<Rightarrow> (repo_publication \<Rightarrow> ('w, at_identity) op) \<Rightarrow> (repository \<Rightarrow> string \<times> string \<times> string)
     \<Rightarrow> repository \<Rightarrow> instant \<Rightarrow> transfer \<Rightarrow> ('w, transfer) op" where
  "accept_redirect S i publish endpoints repo workflowAt v =
     (if tf_SourceRedirectCID v \<noteq> [] then ret v
      else call (sourceRedirectPublication S endpoints v repo workflowAt) (\<lambda>e. e) (\<lambda>publication.
           call (publish publication) (transfer_providerFailure ''publish source redirect'') (\<lambda>identity.
           call (ts_SetSourceRedirect (tv_store S) i (at_CID identity)) (wrapf ''store source redirect'') ret)))"

definition accept_portable ::
  "'w transfer_service \<Rightarrow> uuid \<Rightarrow> repository \<Rightarrow> instant \<Rightarrow> did \<Rightarrow> instant \<Rightarrow> transfer \<Rightarrow> ('w, transfer) op" where
  "accept_portable S i repo workflowAt actorDID now v =
     (case (tf_Proposal v, tv_publisher S, tv_repositoryPublisher S, tv_endpoints S) of
        (Some _, Some publisher, Some publish, Some endpoints) \<Rightarrow>
          call (accept_successor S i publish endpoints repo workflowAt v) (\<lambda>e. e) (\<lambda>v.
          call (accept_acceptance S i publisher workflowAt v) (\<lambda>e. e) (\<lambda>v.
          call (accept_redirect S i publish endpoints repo workflowAt v) (\<lambda>e. e) (\<lambda>v.
          call (ts_Complete (tv_store S) i (tv_NewSHA1 S i ''source-owner-alias'') (tv_NewSHA1 S i ''source-owner-did-alias'')
                  actorDID now) (wrapf ''complete transfer'') ret)))
      | _ \<Rightarrow> raise (transfer_unavailable ''portable transfer is not ready''))"

definition transfer_Accept :: "'w transfer_service \<Rightarrow> uuid \<Rightarrow> did \<Rightarrow> ('w, transfer) op" where
  "transfer_Accept S i actorDID =
     call (AuthorizeAcceptance S i actorDID) (\<lambda>e. e) (\<lambda>(v, repo).
     call (ts_CanComplete (tv_store S) i) (wrapf ''check destination route'') (\<lambda>available.
     fail_if (\<not> available) (Sentinel transfer_ErrConflict) (
     with_now (tv_clock S) (\<lambda>now.
     call (if tf_AcceptanceStartedAt v = None then ts_StartAcceptance (tv_store S) i now else ret v)
       (wrapf ''start transfer acceptance'') (\<lambda>v.
     deref (tf_AcceptanceStartedAt v) (\<lambda>workflowAt.
     if tf_SourceRepository v = None
     then ts_CompletePrivate (tv_store S) i (tv_NewSHA1 S i ''source-owner-alias'') (tv_NewSHA1 S i ''source-owner-did-alias'')
            actorDID now
     else accept_portable S i repo workflowAt actorDID now v))))))"

section \<open>Cancelling\<close>

definition delete_proposal :: "'w transfer_service \<Rightarrow> transfer \<Rightarrow> ('w, unit) op" where
  "delete_proposal S v =
     (case (tf_Proposal v, tv_publisher S) of
        (Some proposal, Some publisher) \<Rightarrow>
          deref (tf_SourceRepository v) (\<lambda>source.
          call (tp_DeleteProposal publisher (proposalPublication v source) proposal)
            (transfer_providerFailure ''delete proposal'') ret)
      | _ \<Rightarrow> ret ())"

definition transfer_Cancel :: "'w transfer_service \<Rightarrow> uuid \<Rightarrow> did \<Rightarrow> ('w, transfer) op" where
  "transfer_Cancel S i actorDID =
     call (ts_Get (tv_store S) i) (\<lambda>e. e) (\<lambda>v.
     call (ts_CanInitiate (tv_store S) (tf_RepositoryID v) actorDID) (wrapf ''authorize cancellation'') (\<lambda>allowed.
     fail_if (\<not> allowed) (Sentinel transfer_ErrForbidden) (
     if tf_Status v = StatusCancelled then ret v
     else fail_if (tf_Status v \<noteq> StatusPending \<or> tf_AcceptanceStartedAt v \<noteq> None) (Sentinel transfer_ErrConflict) (
          call (delete_proposal S v) (\<lambda>e. e) (\<lambda>_.
          with_now (tv_clock S) (\<lambda>now.
          ts_Cancel (tv_store S) i now))))))"

end
