(* ===== verification/Transfer_Tables.thy ===== *)
theory Transfer_Tables imports Repo_Transfer Repo_Tables Org_Store begin

text \<open>
  \<^verbatim>\<open>internal/transfer/postgres.go\<close> with the statements of \<^verbatim>\<open>transfers.sql\<close> on the table of migration 21, and the
  transfer service over this store. Of several routes of one account the \<open>pick\<close>ed one is what the database
  gives; that it is the newest, where a query orders by age, is not used.
\<close>

section \<open>Rows\<close>

text \<open>The pairs of a URI and a CID are null together (the constraints \<open>\<dots>_pair\<close>).\<close>

record transfer_row =
  xr_id :: uuid
  xr_repository_id :: uuid
  xr_source_owner_did :: did
  xr_source_organization_id :: "uuid option"
  xr_source_owner_alias :: string
  xr_source_repository :: "transfer_identity option"
  xr_destination_owner_did :: did
  xr_destination_organization_id :: "uuid option"
  xr_destination_owner_alias :: string
  xr_initiated_by_did :: did
  xr_accepted_by_did :: "did option"
  xr_proposal :: "transfer_identity option"
  xr_successor :: "transfer_identity option"
  xr_acceptance :: "transfer_identity option"
  xr_source_redirect_cid :: "string option"
  xr_status :: transfer_status
  xr_created_at :: instant
  xr_expires_at :: instant
  xr_acceptance_started_at :: "instant option"
  xr_accepted_at :: "instant option"
  xr_cancelled_at :: "instant option"

abbreviation pending_row :: "transfer_row \<Rightarrow> bool" where
  "pending_row r \<equiv> xr_status r = StatusPending"

text \<open>The check constraints \<open>\<dots>_expiry\<close>, \<open>\<dots>_acceptance_window\<close> and \<open>\<dots>_terminal_state\<close>.\<close>

definition transfer_checks :: "transfer_row \<Rightarrow> bool" where
  "transfer_checks r \<longleftrightarrow>
     xr_created_at r < xr_expires_at r
     \<and> (case xr_acceptance_started_at r of None \<Rightarrow> True | Some s \<Rightarrow> xr_created_at r \<le> s \<and> s < xr_expires_at r)
     \<and> (case xr_status r of
          StatusPending \<Rightarrow> xr_accepted_by_did r = None \<and> xr_accepted_at r = None \<and> xr_cancelled_at r = None
        | StatusCompleted \<Rightarrow>
            (case (xr_acceptance_started_at r, xr_accepted_at r) of
               (Some s, Some a) \<Rightarrow> s \<le> a \<and> xr_accepted_by_did r \<noteq> None | _ \<Rightarrow> False) \<and> xr_cancelled_at r = None
        | StatusCancelled \<Rightarrow>
            xr_acceptance_started_at r = None \<and> xr_accepted_by_did r = None \<and> xr_accepted_at r = None
            \<and> xr_cancelled_at r \<noteq> None)"

definition transferFromRow :: "transfer_row \<Rightarrow> transfer" where
  "transferFromRow r =
     \<lparr>tf_ID = xr_id r, tf_RepositoryID = xr_repository_id r, tf_SourceOwnerDID = xr_source_owner_did r,
      tf_SourceOrganizationID = xr_source_organization_id r, tf_SourceOwnerAlias = xr_source_owner_alias r,
      tf_SourceRepository = xr_source_repository r,
      tf_Destination =
        \<lparr>own_Kind = (if xr_destination_organization_id r = None then OwnerAccount else OwnerOrganization),
         own_Alias = xr_destination_owner_alias r, own_AccountDID = xr_destination_owner_did r,
         own_OrganizationID = xr_destination_organization_id r, own_Organization = None,
         own_RecordAuthorDID = xr_destination_owner_did r\<rparr>,
      tf_InitiatedByDID = xr_initiated_by_did r,
      tf_AcceptedByDID = (case xr_accepted_by_did r of None \<Rightarrow> [] | Some d \<Rightarrow> d),
      tf_Proposal = xr_proposal r, tf_Successor = xr_successor r, tf_Acceptance = xr_acceptance r,
      tf_SourceRedirectCID = (case xr_source_redirect_cid r of None \<Rightarrow> [] | Some c \<Rightarrow> c),
      tf_Status = xr_status r, tf_CreatedAt = xr_created_at r, tf_ExpiresAt = xr_expires_at r,
      tf_AcceptanceStartedAt = xr_acceptance_started_at r, tf_AcceptedAt = xr_accepted_at r,
      tf_CancelledAt = xr_cancelled_at r\<rparr>"

text \<open>\<open>repositoryFromRow\<close> leaves out the fork source.\<close>

definition transfer_repositoryFromRow :: "repository \<Rightarrow> repository" where
  "transfer_repositoryFromRow r =
     r\<lparr>repo_OrganizationSlug := [], repo_ForkedFrom := None, repo_ViewerCanAdmin := False\<rparr>"

section \<open>Owners\<close>

type_synonym 'a transfer_sql = "org_tables \<Rightarrow> transfer_row list \<Rightarrow> err + 'a \<times> org_tables \<times> transfer_row list"

definition transfer_read :: "'a option \<Rightarrow> 'a transfer_sql" where
  "transfer_read r t rows = (case r of None \<Rightarrow> Inl no_rows | Some x \<Rightarrow> Inr (x, t, rows))"

definition picked :: "('a list \<Rightarrow> 'a) \<Rightarrow> 'a list \<Rightarrow> 'a option" where
  "picked pick xs = (if xs = [] then None else Some (pick xs))"

type_synonym owner_route = "string \<times> route_target"

text \<open>An alias that matches comes before the routes of the account.\<close>

definition owner_route_of :: "(owner_route list \<Rightarrow> owner_route) \<Rightarrow> org_tables \<Rightarrow> string \<Rightarrow> owner_route option" where
  "owner_route_of pick t owner =
     (case find (\<lambda>r. lower (fst r) = lower owner) (owner_routes t) of
        Some r \<Rightarrow> Some r
      | None \<Rightarrow> picked pick (filter (\<lambda>r. snd r = Route_Account owner) (owner_routes t)))"

definition active_organization :: "org_tables \<Rightarrow> uuid \<Rightarrow> organization option" where
  "active_organization t oid =
     map_option or_org (find (\<lambda>r. org_key r = oid \<and> org_State (or_org r) = OrgActive \<and> live_org r) (organizations t))"

definition sql_ResolveRepositoryTransferOwner ::
  "(owner_route list \<Rightarrow> owner_route) \<Rightarrow> string \<Rightarrow> (string \<times> route_target \<times> organization option) transfer_sql" where
  "sql_ResolveRepositoryTransferOwner pick owner t rows =
     transfer_read (map_option (\<lambda>(alias, target). (alias, target,
         case target of Route_Account _ \<Rightarrow> None | Route_Organization oid \<Rightarrow> active_organization t oid))
       (owner_route_of pick t owner)) t rows"

definition sql_CanAcceptRepositoryTransfer :: "uuid option \<Rightarrow> did \<Rightarrow> did \<Rightarrow> bool transfer_sql" where
  "sql_CanAcceptRepositoryTransfer organization account destination t rows =
     Inr ((case organization of
             None \<Rightarrow> account = destination
           | Some oid \<Rightarrow> list_ex (\<lambda>m. member_key m = (oid, account) \<and> mem_Role m = RoleOwner) (organization_members t)),
          t, rows)"

abbreviation transferable :: "uuid \<Rightarrow> repo_row \<Rightarrow> bool" where
  "transferable rid r \<equiv> rr_id r = rid \<and> rr_state r = StateActive \<and> live_repo r"

definition sql_CanInitiateRepositoryTransfer :: "uuid \<Rightarrow> did \<Rightarrow> bool transfer_sql" where
  "sql_CanInitiateRepositoryTransfer rid account t rows =
     Inr (list_ex (\<lambda>r. transferable rid r \<and> (account_owner account (rr_repo r) \<or> owner_grant t account (rr_repo r)))
            (repositories t), t, rows)"

definition routes_of :: "org_tables \<Rightarrow> repository \<Rightarrow> owner_route list" where
  "routes_of t v =
     filter (\<lambda>r. snd r = (case repo_OrganizationID v of None \<Rightarrow> Route_Account (repo_OwnerDID v)
                          | Some oid \<Rightarrow> Route_Organization oid)) (owner_routes t)"

definition sql_ResolveRepositoryTransferSourceAlias ::
  "(owner_route list \<Rightarrow> owner_route) \<Rightarrow> uuid \<Rightarrow> string transfer_sql" where
  "sql_ResolveRepositoryTransferSourceAlias pick rid t rows =
     transfer_read (Option.bind (find (transferable rid) (repositories t)) (\<lambda>r.
       map_option fst (picked pick (routes_of t (rr_repo r))))) t rows"

definition sql_GetRepositoryForTransfer :: "uuid \<Rightarrow> repository transfer_sql" where
  "sql_GetRepositoryForTransfer rid t rows =
     transfer_read (map_option rr_repo (find (transferable rid) (repositories t))) t rows"

section \<open>Transfers\<close>

text \<open>No other repository and no other repository's alias is where the transferred one is to be found.\<close>

definition taken_by :: "transfer_row \<Rightarrow> repository \<Rightarrow> repo_row \<Rightarrow> bool" where
  "taken_by x v c \<longleftrightarrow>
     rr_id c \<noteq> repo_ID v \<and> live_repo c \<and> lower (rr_slug c) = lower (repo_Slug v)
     \<and> (case xr_destination_organization_id x of
          None \<Rightarrow> rr_org c = None \<and> repo_OwnerDID (rr_repo c) = xr_destination_owner_did x
        | Some oid \<Rightarrow> rr_org c = Some oid)"

definition alias_taken :: "transfer_row \<Rightarrow> repository \<Rightarrow> repo_alias \<Rightarrow> bool" where
  "alias_taken x v a \<longleftrightarrow>
     ra_RepositoryID a \<noteq> repo_ID v \<and> lower (ra_SlugAlias a) = lower (repo_Slug v)
     \<and> (lower (ra_OwnerAlias a) \<in> {lower (xr_destination_owner_alias x), lower (xr_source_owner_alias x)}
        \<or> xr_source_organization_id x = None \<and> lower (ra_OwnerAlias a) = lower (xr_source_owner_did x))"

definition route_available :: "org_tables \<Rightarrow> transfer_row \<Rightarrow> repository \<Rightarrow> bool" where
  "route_available t x v \<longleftrightarrow>
     \<not> list_ex (taken_by x v) (repositories t) \<and> \<not> list_ex (alias_taken x v) (repository_aliases t)"

definition sql_CanCompleteRepositoryTransfer :: "uuid \<Rightarrow> bool transfer_sql" where
  "sql_CanCompleteRepositoryTransfer i t rows =
     Inr (list_ex (\<lambda>x. xr_id x = i \<and> pending_row x
            \<and> list_ex (\<lambda>r. transferable (xr_repository_id x) r \<and> route_available t x (rr_repo r)) (repositories t)) rows,
          t, rows)"

definition sql_GetPendingRepositoryTransfer :: "uuid \<Rightarrow> transfer_row transfer_sql" where
  "sql_GetPendingRepositoryTransfer rid t rows =
     transfer_read (find (\<lambda>x. xr_repository_id x = rid \<and> pending_row x) rows) t rows"

definition sql_GetRepositoryTransfer :: "uuid \<Rightarrow> transfer_row transfer_sql" where
  "sql_GetRepositoryTransfer i t rows = transfer_read (find (\<lambda>x. xr_id x = i) rows) t rows"

definition newest_transfer :: "transfer_row \<Rightarrow> transfer_row \<Rightarrow> bool" where
  "newest_transfer a b \<longleftrightarrow>
     xr_created_at a > xr_created_at b \<or> xr_created_at a = xr_created_at b \<and> xr_id a \<ge> xr_id b"

definition sql_PageRepositoryTransfers :: "uuid \<Rightarrow> uuid option \<Rightarrow> int \<Rightarrow> transfer_row list transfer_sql" where
  "sql_PageRepositoryTransfers rid after_id page_limit t rows =
     Inr (take (nat page_limit) (sort_by newest_transfer (filter (\<lambda>x. xr_repository_id x = rid
            \<and> (case after_id of None \<Rightarrow> True
               | Some a \<Rightarrow>
                   (case find (\<lambda>c. xr_repository_id c = rid \<and> xr_id c = a) rows of
                      None \<Rightarrow> False | Some c \<Rightarrow> newest_transfer c x \<and> xr_id c \<noteq> xr_id x))) rows)), t, rows)"

definition transfer_references :: "org_tables \<Rightarrow> transfer_row \<Rightarrow> bool" where
  "transfer_references t x \<longleftrightarrow>
     list_ex (\<lambda>r. rr_id r = xr_repository_id x) (repositories t)
     \<and> account_exists t (xr_source_owner_did x) \<and> account_exists t (xr_destination_owner_did x)
     \<and> account_exists t (xr_initiated_by_did x)
     \<and> (\<forall>oid \<in> set_option (xr_source_organization_id x) \<union> set_option (xr_destination_organization_id x).
          list_ex (\<lambda>o'. org_key o' = oid) (organizations t))"

definition sql_CreateRepositoryTransfer :: "transfer_row \<Rightarrow> transfer_row transfer_sql" where
  "sql_CreateRepositoryTransfer x t rows =
     (if \<not> transfer_checks x then Inl check_violation
      else if list_ex (\<lambda>y. xr_id y = xr_id x \<or> xr_repository_id y = xr_repository_id x \<and> pending_row y) rows
      then Inl unique_violation
      else if \<not> transfer_references t x then Inl foreign_key_violation
      else Inr (x, t, rows @ [x]))"

text \<open>\<open>UPDATE core.repository_transfers SET f WHERE id = i AND p RETURNING *\<close>\<close>

definition update_transfer :: "uuid \<Rightarrow> (transfer_row \<Rightarrow> bool) \<Rightarrow> (transfer_row \<Rightarrow> transfer_row) \<Rightarrow> transfer_row transfer_sql" where
  "update_transfer i p f t rows =
     (case find (\<lambda>x. xr_id x = i \<and> p x) rows of
        None \<Rightarrow> Inl no_rows
      | Some x \<Rightarrow>
          if \<not> transfer_checks (f x) then Inl check_violation
          else Inr (f x, t, update_where (\<lambda>x. xr_id x = i \<and> p x) f rows))"

abbreviation unset_or :: "string \<Rightarrow> transfer_identity option \<Rightarrow> bool" where
  "unset_or uri stored \<equiv> (case stored of None \<Rightarrow> True | Some s \<Rightarrow> ti_URI s = uri)"

definition sql_SetRepositoryTransferProposal :: "uuid \<Rightarrow> transfer_identity \<Rightarrow> transfer_row transfer_sql" where
  "sql_SetRepositoryTransferProposal i identity =
     update_transfer i (\<lambda>x. pending_row x \<and> unset_or (ti_URI identity) (xr_proposal x)) (\<lambda>x. x\<lparr>xr_proposal := Some identity\<rparr>)"

definition sql_SetRepositoryTransferSuccessor :: "uuid \<Rightarrow> transfer_identity \<Rightarrow> transfer_row transfer_sql" where
  "sql_SetRepositoryTransferSuccessor i identity =
     update_transfer i (\<lambda>x. pending_row x \<and> unset_or (ti_URI identity) (xr_successor x)) (\<lambda>x. x\<lparr>xr_successor := Some identity\<rparr>)"

definition sql_StartRepositoryTransferAcceptance :: "uuid \<Rightarrow> instant \<Rightarrow> transfer_row transfer_sql" where
  "sql_StartRepositoryTransferAcceptance i started_at =
     update_transfer i (\<lambda>x. pending_row x \<and> (xr_acceptance_started_at x \<noteq> None \<or> xr_expires_at x > started_at))
       (\<lambda>x. x\<lparr>xr_acceptance_started_at :=
              Some (case xr_acceptance_started_at x of None \<Rightarrow> started_at | Some s \<Rightarrow> s)\<rparr>)"

definition sql_SetRepositoryTransferAcceptance :: "uuid \<Rightarrow> transfer_identity \<Rightarrow> transfer_row transfer_sql" where
  "sql_SetRepositoryTransferAcceptance i identity =
     update_transfer i (\<lambda>x. pending_row x \<and> unset_or (ti_URI identity) (xr_acceptance x)) (\<lambda>x. x\<lparr>xr_acceptance := Some identity\<rparr>)"

definition sql_SetRepositoryTransferSourceRedirect :: "uuid \<Rightarrow> string \<Rightarrow> transfer_row transfer_sql" where
  "sql_SetRepositoryTransferSourceRedirect i cid =
     update_transfer i pending_row (\<lambda>x. x\<lparr>xr_source_redirect_cid := Some cid\<rparr>)"

definition sql_CancelRepositoryTransfer :: "uuid \<Rightarrow> instant \<Rightarrow> transfer_row transfer_sql" where
  "sql_CancelRepositoryTransfer i cancelled_at =
     update_transfer i (\<lambda>x. pending_row x \<and> xr_acceptance_started_at x = None)
       (\<lambda>x. x\<lparr>xr_status := StatusCancelled, xr_cancelled_at := Some cancelled_at\<rparr>)"

section \<open>Completion\<close>

text \<open>
  The former routes stay as aliases: under the alias of the source owner, and under its DID where the
  source is an account whose alias is another text. An alias that the repository has already stays as it is.
\<close>

definition expected_aliases :: "uuid \<Rightarrow> uuid \<Rightarrow> transfer_row \<Rightarrow> repository \<Rightarrow> repo_alias list" where
  "expected_aliases alias_id source_did_alias_id x v =
     \<lparr>ra_ID = alias_id, ra_RepositoryID = repo_ID v, ra_OwnerAlias = xr_source_owner_alias x, ra_SlugAlias = repo_Slug v\<rparr> #
     (if xr_source_organization_id x = None \<and> lower (xr_source_owner_did x) \<noteq> lower (xr_source_owner_alias x)
      then [\<lparr>ra_ID = source_did_alias_id, ra_RepositoryID = repo_ID v, ra_OwnerAlias = xr_source_owner_did x,
             ra_SlugAlias = repo_Slug v\<rparr>]
      else [])"

text \<open>
  \<open>INSERT \<dots> ON CONFLICT (key) DO UPDATE SET repository_id WHERE\<close> it is the same repository: the aliases
  afterwards, and how many rows were inserted or updated.
\<close>

fun insert_aliases :: "repo_alias list \<Rightarrow> repo_alias list \<Rightarrow> err + nat \<times> repo_alias list" where
  "insert_aliases [] rows = Inr (0, rows)"
| "insert_aliases (a # as) rows =
     (case find (\<lambda>b. ra_key b = ra_key a) rows of
        Some b \<Rightarrow>
          (case insert_aliases as rows of
             Inl e \<Rightarrow> Inl e
           | Inr (n, rows') \<Rightarrow> Inr (if ra_RepositoryID b = ra_RepositoryID a then Suc n else n, rows'))
      | None \<Rightarrow>
          if list_ex (\<lambda>b. ra_ID b = ra_ID a) rows then Inl unique_violation
          else (case insert_aliases as (rows @ [a]) of
                  Inl e \<Rightarrow> Inl e | Inr (n, rows') \<Rightarrow> Inr (Suc n, rows')))"

definition moved_repository :: "transfer_row \<Rightarrow> bool \<Rightarrow> instant \<Rightarrow> repository \<Rightarrow> repository" where
  "moved_repository x portable accepted_at v =
     (let moved = v\<lparr>repo_OwnerDID := xr_destination_owner_did x, repo_OrganizationID := xr_destination_organization_id x,
                    repo_UpdatedAt := accepted_at\<rparr>
      in if \<not> portable then moved
         else moved\<lparr>repo_ATURI := (case xr_successor x of None \<Rightarrow> [] | Some s \<Rightarrow> ti_URI s),
                    repo_ATCID := (case xr_successor x of None \<Rightarrow> [] | Some s \<Rightarrow> ti_CID s),
                    repo_TransferredFrom := map_option as_repository_identity (xr_source_repository x)\<rparr>)"

definition link_projection :: "transfer_row \<Rightarrow> bool \<Rightarrow> network_repository list \<Rightarrow> network_repository list" where
  "link_projection x portable projections =
     (case xr_successor x of
        Some s \<Rightarrow>
          if portable then update_where (\<lambda>n. nr_URI n = ti_URI s)
                             (\<lambda>n. n\<lparr>nr_LocalRepositoryID := Some (xr_repository_id x)\<rparr>) projections
          else projections
      | None \<Rightarrow> projections)"

text \<open>What the two statements share: \<open>selected\<close> tells them apart, and what the repository row becomes.\<close>

definition complete_transfer ::
  "(transfer_row \<Rightarrow> bool) \<Rightarrow> bool \<Rightarrow> uuid \<Rightarrow> uuid \<Rightarrow> uuid \<Rightarrow> did \<Rightarrow> instant \<Rightarrow> transfer_row transfer_sql" where
  "complete_transfer selected portable i alias_id source_did_alias_id accepted_by accepted_at t rows =
     (case find (\<lambda>x. xr_id x = i \<and> selected x) rows of
        None \<Rightarrow> Inl no_rows
      | Some x \<Rightarrow>
          (case find (\<lambda>r. rr_id r = xr_repository_id x) (repositories t) of
             None \<Rightarrow> Inl no_rows
           | Some r \<Rightarrow>
               if \<not> route_available t x (rr_repo r) then Inl no_rows
               else
                 let expected = expected_aliases alias_id source_did_alias_id x (rr_repo r);
                     v = moved_repository x portable accepted_at (rr_repo r);
                     done = (\<lambda>y. y\<lparr>xr_status := StatusCompleted, xr_accepted_by_did := Some accepted_by,
                                   xr_accepted_at := Some accepted_at\<rparr>)
                 in case insert_aliases expected (repository_aliases t) of
                      Inl e \<Rightarrow> Inl e
                    | Inr (n, aliases) \<Rightarrow>
                        if n \<noteq> length expected then Inl no_rows
                        else if list_ex (\<lambda>s. rr_id s \<noteq> rr_id r
                                   \<and> ((repo_ATURI v \<noteq> [] \<and> repo_ATURI (rr_repo s) = repo_ATURI v)
                                      \<or> (live_repo s \<and> live_repo r \<and> slug_key (rr_repo s) = slug_key v))) (repositories t)
                        then Inl unique_violation
                        else if \<not> transfer_checks (done x) then Inl check_violation
                        else if \<not> account_exists t accepted_by then Inl foreign_key_violation
                        else Inr (done x,
                          t\<lparr>repository_aliases := aliases,
                            organization_team_repositories :=
                              delete_where (\<lambda>a. tr_RepositoryID a = xr_repository_id x) (organization_team_repositories t),
                            repositories := update_where (\<lambda>s. rr_id s = xr_repository_id x)
                              (\<lambda>s. s\<lparr>rr_repo := moved_repository x portable accepted_at (rr_repo s)\<rparr>) (repositories t),
                            network_repositories := link_projection x portable (network_repositories t)\<rparr>,
                          update_where (\<lambda>y. xr_id y = i \<and> xr_repository_id y = xr_repository_id x) done rows)))"

definition started_in_time :: "transfer_row \<Rightarrow> bool" where
  "started_in_time x \<longleftrightarrow> (case xr_acceptance_started_at x of None \<Rightarrow> False | Some s \<Rightarrow> s < xr_expires_at x)"

definition portable_ready :: "transfer_row \<Rightarrow> bool" where
  "portable_ready x \<longleftrightarrow>
     pending_row x \<and> xr_successor x \<noteq> None \<and> xr_acceptance x \<noteq> None \<and> xr_source_redirect_cid x \<noteq> None \<and> started_in_time x"

definition private_ready :: "transfer_row \<Rightarrow> bool" where
  "private_ready x \<longleftrightarrow> pending_row x \<and> xr_source_repository x = None \<and> started_in_time x"

definition sql_CompleteRepositoryTransfer :: "uuid \<Rightarrow> uuid \<Rightarrow> uuid \<Rightarrow> did \<Rightarrow> instant \<Rightarrow> transfer_row transfer_sql" where
  "sql_CompleteRepositoryTransfer = complete_transfer portable_ready True"

definition sql_CompletePrivateRepositoryTransfer :: "uuid \<Rightarrow> uuid \<Rightarrow> uuid \<Rightarrow> did \<Rightarrow> instant \<Rightarrow> transfer_row transfer_sql" where
  "sql_CompletePrivateRepositoryTransfer = complete_transfer private_ready False"

section \<open>The world\<close>

text \<open>What is asked of the publisher is recorded in order; its replies are a schedule.\<close>

datatype transfer_sent =
    Sent_Proposal proposal_publication
  | Withdrawn_Proposal proposal_publication transfer_identity
  | Sent_Acceptance acceptance_publication
  | Sent_Repository repo_publication

record transfer_world = pg_world +
  xw_transfers :: "transfer_row list"
  xw_instants :: "nat \<Rightarrow> instant"
  xw_ticks :: nat
  xw_ids :: "nat \<Rightarrow> err + uuid"
  xw_ids_used :: nat
  xw_replies :: "nat \<Rightarrow> err + at_identity"
  xw_sent :: "transfer_sent list"

definition transfer_exec :: "'a transfer_sql \<Rightarrow> (transfer_world, 'a) op" where
  "transfer_exec q w =
     (let v = w\<lparr>faults := tl (faults w)\<rparr>
      in if faults w \<noteq> [] \<and> hd (faults w) then (Inl (Opaque ''database''), v)
         else case q (tables w) (xw_transfers w) of
             Inl e \<Rightarrow> (Inl e, v)
           | Inr (x, t, rows) \<Rightarrow> (Inr x, v\<lparr>tables := t, xw_transfers := rows\<rparr>))"

definition transfer_clock :: "transfer_world \<Rightarrow> instant \<times> transfer_world" where
  "transfer_clock w = (xw_instants w (xw_ticks w), w\<lparr>xw_ticks := Suc (xw_ticks w)\<rparr>)"

definition transfer_ids :: "(transfer_world, uuid) op" where
  "transfer_ids w = (xw_ids w (xw_ids_used w), w\<lparr>xw_ids_used := Suc (xw_ids_used w)\<rparr>)"

definition transfer_send :: "transfer_sent \<Rightarrow> (transfer_world, at_identity) op" where
  "transfer_send m w = (xw_replies w (length (xw_sent w)), w\<lparr>xw_sent := xw_sent w @ [m]\<rparr>)"

section \<open>The store\<close>

definition transfer_mapError :: "err \<Rightarrow> err" where
  "transfer_mapError e =
     (if errors_is e pgx_ErrNoRows then Sentinel transfer_ErrNotFound
      else if as_pg_error e = Some ''23505'' then Sentinel transfer_ErrConflict
      else wrapf ''repository transfer query'' e)"

definition transfer_query :: "'a transfer_sql \<Rightarrow> (transfer_world, 'a) op" where
  "transfer_query q = call (transfer_exec q) transfer_mapError ret"

text \<open>\<open>mappedTransfer\<close>, and the same where no row is a conflict.\<close>

definition mappedTransfer :: "transfer_row transfer_sql \<Rightarrow> (transfer_world, transfer) op" where
  "mappedTransfer q = call (transfer_exec q) transfer_mapError (\<lambda>row. ret (transferFromRow row))"

definition mapped_or_conflict :: "transfer_row transfer_sql \<Rightarrow> (transfer_world, transfer) op" where
  "mapped_or_conflict q =
     call (transfer_exec q)
       (\<lambda>e. if errors_is e pgx_ErrNoRows then Sentinel transfer_ErrConflict else transfer_mapError e)
       (\<lambda>row. ret (transferFromRow row))"

definition pg_ResolveOwner :: "(owner_route list \<Rightarrow> owner_route) \<Rightarrow> string \<Rightarrow> (transfer_world, transfer_owner) op" where
  "pg_ResolveOwner pick alias =
     call (transfer_query (sql_ResolveRepositoryTransferOwner pick alias)) (\<lambda>e. e) (\<lambda>(alias, target, organization).
     case target of
       Route_Account d \<Rightarrow>
         ret \<lparr>own_Kind = OwnerAccount, own_Alias = alias, own_AccountDID = d, own_OrganizationID = None,
              own_Organization = None, own_RecordAuthorDID = d\<rparr>
     | Route_Organization oid \<Rightarrow>
         (case organization of
            None \<Rightarrow> raise (wrapf ''resolve transfer owner'' (Sentinel transfer_ErrNotFound))
          | Some o' \<Rightarrow>
              ret \<lparr>own_Kind = OwnerOrganization, own_Alias = alias, own_AccountDID = org_CreatorDID o',
                   own_OrganizationID = Some oid,
                   own_Organization = (if org_ATURI o' \<noteq> [] \<and> org_ATCID o' \<noteq> []
                                       then Some \<lparr>at_URI = org_ATURI o', at_CID = org_ATCID o'\<rparr> else None),
                   own_RecordAuthorDID = org_CreatorDID o'\<rparr>))"

definition pg_ResolveOrganizationIdentity :: "uuid \<Rightarrow> (transfer_world, at_identity) op" where
  "pg_ResolveOrganizationIdentity oid =
     call (pg_exec (sql_GetOrganizationByID oid)) transfer_mapError (\<lambda>o'.
     fail_if (org_ATURI o' = [] \<or> org_ATCID o' = [])
       (wrapf ''resolve transfer organization'' (Sentinel transfer_ErrValidation)) (
     ret \<lparr>at_URI = org_ATURI o', at_CID = org_ATCID o'\<rparr>))"

definition pg_CanInitiate :: "uuid \<Rightarrow> did \<Rightarrow> (transfer_world, bool) op" where
  "pg_CanInitiate rid actor =
     call (transfer_exec (sql_CanInitiateRepositoryTransfer rid actor)) (wrapf ''check source ownership'') ret"

definition pg_ResolveSourceAlias :: "(owner_route list \<Rightarrow> owner_route) \<Rightarrow> uuid \<Rightarrow> (transfer_world, string) op" where
  "pg_ResolveSourceAlias pick rid = transfer_query (sql_ResolveRepositoryTransferSourceAlias pick rid)"

definition pg_CanAccept :: "transfer_owner \<Rightarrow> did \<Rightarrow> (transfer_world, bool) op" where
  "pg_CanAccept owner actor =
     call (transfer_exec (sql_CanAcceptRepositoryTransfer (own_OrganizationID owner) actor (own_AccountDID owner)))
       (wrapf ''check destination ownership'') ret"

definition pg_CanComplete :: "uuid \<Rightarrow> (transfer_world, bool) op" where
  "pg_CanComplete i =
     call (transfer_exec (sql_CanCompleteRepositoryTransfer i)) (wrapf ''check destination route'') ret"

definition pg_GetTransferRepository :: "uuid \<Rightarrow> (transfer_world, repository) op" where
  "pg_GetTransferRepository rid =
     call (transfer_query (sql_GetRepositoryForTransfer rid)) (\<lambda>e. e) (\<lambda>row. ret (transfer_repositoryFromRow row))"

definition pg_GetPending :: "uuid \<Rightarrow> (transfer_world, transfer) op" where
  "pg_GetPending rid = mappedTransfer (sql_GetPendingRepositoryTransfer rid)"

text \<open>The columns of a new row.\<close>

definition transfer_columns :: "transfer \<Rightarrow> transfer_row" where
  "transfer_columns v =
     \<lparr>xr_id = tf_ID v, xr_repository_id = tf_RepositoryID v, xr_source_owner_did = tf_SourceOwnerDID v,
      xr_source_organization_id = tf_SourceOrganizationID v, xr_source_owner_alias = tf_SourceOwnerAlias v,
      xr_source_repository = tf_SourceRepository v, xr_destination_owner_did = own_AccountDID (tf_Destination v),
      xr_destination_organization_id = own_OrganizationID (tf_Destination v),
      xr_destination_owner_alias = own_Alias (tf_Destination v), xr_initiated_by_did = tf_InitiatedByDID v,
      xr_accepted_by_did = None, xr_proposal = None, xr_successor = None, xr_acceptance = None,
      xr_source_redirect_cid = None, xr_status = StatusPending, xr_created_at = tf_CreatedAt v,
      xr_expires_at = tf_ExpiresAt v, xr_acceptance_started_at = None, xr_accepted_at = None, xr_cancelled_at = None\<rparr>"

definition pg_CreateTransfer :: "transfer \<Rightarrow> (transfer_world, transfer) op" where
  "pg_CreateTransfer v = mappedTransfer (sql_CreateRepositoryTransfer (transfer_columns v))"

definition pg_GetTransfer :: "uuid \<Rightarrow> (transfer_world, transfer) op" where
  "pg_GetTransfer i = mappedTransfer (sql_GetRepositoryTransfer i)"

definition pg_PageTransfers :: "uuid \<Rightarrow> uuid option \<Rightarrow> int \<Rightarrow> (transfer_world, transfer list) op" where
  "pg_PageTransfers rid after limit =
     call (transfer_exec (sql_PageRepositoryTransfers rid after limit)) (wrapf ''query transfer history'') (\<lambda>rows.
     ret (map transferFromRow rows))"

definition pg_SetProposal :: "uuid \<Rightarrow> transfer_identity \<Rightarrow> (transfer_world, transfer) op" where
  "pg_SetProposal i identity = mappedTransfer (sql_SetRepositoryTransferProposal i identity)"

definition pg_SetSuccessor :: "uuid \<Rightarrow> transfer_identity \<Rightarrow> (transfer_world, transfer) op" where
  "pg_SetSuccessor i identity = mappedTransfer (sql_SetRepositoryTransferSuccessor i identity)"

definition pg_StartAcceptance :: "uuid \<Rightarrow> instant \<Rightarrow> (transfer_world, transfer) op" where
  "pg_StartAcceptance i startedAt = mapped_or_conflict (sql_StartRepositoryTransferAcceptance i startedAt)"

definition pg_SetAcceptance :: "uuid \<Rightarrow> transfer_identity \<Rightarrow> (transfer_world, transfer) op" where
  "pg_SetAcceptance i identity = mappedTransfer (sql_SetRepositoryTransferAcceptance i identity)"

definition pg_SetSourceRedirect :: "uuid \<Rightarrow> string \<Rightarrow> (transfer_world, transfer) op" where
  "pg_SetSourceRedirect i cid = mappedTransfer (sql_SetRepositoryTransferSourceRedirect i cid)"

definition pg_CancelTransfer :: "uuid \<Rightarrow> instant \<Rightarrow> (transfer_world, transfer) op" where
  "pg_CancelTransfer i cancelledAt = mappedTransfer (sql_CancelRepositoryTransfer i cancelledAt)"

definition pg_CompleteTransfer :: "uuid \<Rightarrow> uuid \<Rightarrow> uuid \<Rightarrow> did \<Rightarrow> instant \<Rightarrow> (transfer_world, transfer) op" where
  "pg_CompleteTransfer i aliasID sourceDIDAliasID actor acceptedAt =
     mapped_or_conflict (sql_CompleteRepositoryTransfer i aliasID sourceDIDAliasID actor acceptedAt)"

definition pg_CompletePrivate :: "uuid \<Rightarrow> uuid \<Rightarrow> uuid \<Rightarrow> did \<Rightarrow> instant \<Rightarrow> (transfer_world, transfer) op" where
  "pg_CompletePrivate i aliasID sourceDIDAliasID actor acceptedAt =
     mapped_or_conflict (sql_CompletePrivateRepositoryTransfer i aliasID sourceDIDAliasID actor acceptedAt)"

definition postgres_transfer_store :: "(owner_route list \<Rightarrow> owner_route) \<Rightarrow> transfer_world transfer_store" where
  "postgres_transfer_store pick =
     \<lparr>ts_ResolveOwner = pg_ResolveOwner pick, ts_ResolveOrganizationIdentity = pg_ResolveOrganizationIdentity,
      ts_CanInitiate = pg_CanInitiate, ts_CanAccept = pg_CanAccept, ts_CanComplete = pg_CanComplete,
      ts_ResolveSourceAlias = pg_ResolveSourceAlias pick, ts_GetRepository = pg_GetTransferRepository,
      ts_GetPending = pg_GetPending, ts_Create = pg_CreateTransfer, ts_Get = pg_GetTransfer, ts_Page = pg_PageTransfers,
      ts_SetProposal = pg_SetProposal, ts_SetSuccessor = pg_SetSuccessor, ts_StartAcceptance = pg_StartAcceptance,
      ts_SetAcceptance = pg_SetAcceptance, ts_SetSourceRedirect = pg_SetSourceRedirect, ts_Cancel = pg_CancelTransfer,
      ts_Complete = pg_CompleteTransfer, ts_CompletePrivate = pg_CompletePrivate\<rparr>"

section \<open>The service\<close>

abbreviation as_transfer_identity :: "at_identity \<Rightarrow> transfer_identity" where
  "as_transfer_identity i \<equiv> \<lparr>ti_URI = at_URI i, ti_CID = at_CID i\<rparr>"

definition scheduled_transfer_publisher :: "transfer_world transfer_publisher" where
  "scheduled_transfer_publisher =
     \<lparr>tp_PublishProposal = (\<lambda>p. call (transfer_send (Sent_Proposal p)) (\<lambda>e. e) (\<lambda>i. ret (as_transfer_identity i))),
      tp_DeleteProposal = (\<lambda>p i. call (transfer_send (Withdrawn_Proposal p i)) (\<lambda>e. e) (\<lambda>_. ret ())),
      tp_PublishAcceptance = (\<lambda>p. call (transfer_send (Sent_Acceptance p)) (\<lambda>e. e) (\<lambda>i. ret (as_transfer_identity i)))\<rparr>"

record transfer_config =
  xc_pick :: "owner_route list \<Rightarrow> owner_route"
  xc_endpoints :: "repository \<Rightarrow> string \<times> string \<times> string"
  xc_NewSHA1 :: "uuid \<Rightarrow> string \<Rightarrow> uuid"

definition transfers_of :: "transfer_config \<Rightarrow> transfer_world transfer_service" where
  "transfers_of C =
     \<lparr>tv_store = postgres_transfer_store (xc_pick C), tv_publisher = Some scheduled_transfer_publisher,
      tv_repositoryPublisher = Some (\<lambda>p. transfer_send (Sent_Repository p)), tv_endpoints = Some (xc_endpoints C),
      tv_NewV7 = transfer_ids, tv_clock = transfer_clock, tv_NewSHA1 = xc_NewSHA1 C\<rparr>"

lemma transfers_of_simps [simp]:
  "tv_store (transfers_of C) = postgres_transfer_store (xc_pick C)"
  "tv_publisher (transfers_of C) = Some scheduled_transfer_publisher"
  "tv_repositoryPublisher (transfers_of C) = Some (\<lambda>p. transfer_send (Sent_Repository p))"
  "tv_endpoints (transfers_of C) = Some (xc_endpoints C)" "tv_NewV7 (transfers_of C) = transfer_ids"
  "tv_clock (transfers_of C) = transfer_clock" "tv_NewSHA1 (transfers_of C) = xc_NewSHA1 C"
  by (simp_all add: transfers_of_def)

lemma transfer_store_simps [simp]:
  "ts_ResolveOwner (postgres_transfer_store pick) = pg_ResolveOwner pick"
  "ts_ResolveOrganizationIdentity (postgres_transfer_store pick) = pg_ResolveOrganizationIdentity"
  "ts_CanInitiate (postgres_transfer_store pick) = pg_CanInitiate"
  "ts_CanAccept (postgres_transfer_store pick) = pg_CanAccept"
  "ts_CanComplete (postgres_transfer_store pick) = pg_CanComplete"
  "ts_ResolveSourceAlias (postgres_transfer_store pick) = pg_ResolveSourceAlias pick"
  "ts_GetRepository (postgres_transfer_store pick) = pg_GetTransferRepository"
  "ts_GetPending (postgres_transfer_store pick) = pg_GetPending"
  "ts_Create (postgres_transfer_store pick) = pg_CreateTransfer"
  "ts_Get (postgres_transfer_store pick) = pg_GetTransfer"
  "ts_Page (postgres_transfer_store pick) = pg_PageTransfers"
  "ts_SetProposal (postgres_transfer_store pick) = pg_SetProposal"
  "ts_SetSuccessor (postgres_transfer_store pick) = pg_SetSuccessor"
  "ts_StartAcceptance (postgres_transfer_store pick) = pg_StartAcceptance"
  "ts_SetAcceptance (postgres_transfer_store pick) = pg_SetAcceptance"
  "ts_SetSourceRedirect (postgres_transfer_store pick) = pg_SetSourceRedirect"
  "ts_Cancel (postgres_transfer_store pick) = pg_CancelTransfer"
  "ts_Complete (postgres_transfer_store pick) = pg_CompleteTransfer"
  "ts_CompletePrivate (postgres_transfer_store pick) = pg_CompletePrivate"
  by (simp_all add: postgres_transfer_store_def)

lemma transfer_publisher_simps [simp]:
  "tp_PublishProposal scheduled_transfer_publisher p
     = call (transfer_send (Sent_Proposal p)) (\<lambda>e. e) (\<lambda>i. ret (as_transfer_identity i))"
  "tp_DeleteProposal scheduled_transfer_publisher p i'
     = call (transfer_send (Withdrawn_Proposal p i')) (\<lambda>e. e) (\<lambda>_. ret ())"
  "tp_PublishAcceptance scheduled_transfer_publisher a
     = call (transfer_send (Sent_Acceptance a)) (\<lambda>e. e) (\<lambda>i. ret (as_transfer_identity i))"
  by (simp_all add: scheduled_transfer_publisher_def)

section \<open>The records on the network\<close>

text \<open>
  Where \<^verbatim>\<open>internal/atproto/transfer.go\<close> and \<^verbatim>\<open>repository.go\<close> put a record: the account, the collection and the
  key. A record replaces what was there.
\<close>

definition record_place :: "(uuid \<Rightarrow> string) \<Rightarrow> transfer_sent \<Rightarrow> did \<times> string \<times> string" where
  "record_place show_uuid m =
     (case m of
        Sent_Proposal p \<Rightarrow> (pp_ActorDID p, ''dev.adenosine.repositoryTransfer'', ProposalRecordKey show_uuid (pp_ID p))
      | Withdrawn_Proposal p _ \<Rightarrow>
          (pp_ActorDID p, ''dev.adenosine.repositoryTransfer'', ProposalRecordKey show_uuid (pp_ID p))
      | Sent_Acceptance a \<Rightarrow>
          (ap_ActorDID a, ''dev.adenosine.repositoryTransferAcceptance'', AcceptanceRecordKey (ti_URI (ap_Proposal a)))
      | Sent_Repository p \<Rightarrow> (rpub_OwnerDID p, ''dev.adenosine.repo'', filter (\<lambda>c. c \<noteq> CHR ''-'') (show_uuid (rpub_ID p))))"

section \<open>What a step leaves alone\<close>

lemma transfer_exec_ok:
  "transfer_exec q w = (Inr x, w') \<longleftrightarrow>
     \<not> (faults w \<noteq> [] \<and> hd (faults w))
     \<and> (\<exists>t rows. q (tables w) (xw_transfers w) = Inr (x, t, rows)
          \<and> w' = w\<lparr>faults := tl (faults w), tables := t, xw_transfers := rows\<rparr>)"
  by (auto simp: transfer_exec_def Let_def split: sum.splits prod.splits)

lemma transfer_exec_sent [op_frames]: "frames xw_sent (transfer_exec q)" "frames xw_sent transfer_ids"
    "frames xw_sent (pg_exec s :: (transfer_world, 'a) op)"
  by (simp_all add: frames_def transfer_exec_def transfer_ids_def pg_exec_def Let_def split: sum.split prod.split)

lemma transfer_send_sent: "xw_sent (snd (transfer_send m w)) = xw_sent w @ [m]"
  by (simp add: transfer_send_def)
end
