(* ===== verification/Transfer_Decision.thy ===== *)
theory Transfer_Decision imports Transfer_Tables begin

text \<open>
  The abstract machine of the decision record on repository transfers
  (\<^verbatim>\<open>docs/adrs/0001-transfer-repositories-with-bilateral-successor-records.md\<close>): a transfer is proposed, its acceptance
  begins, and it is concluded; only a proposal whose acceptance has not begun is withdrawn; a repository changes
  hands where a transfer is concluded. The statements of the store implement it, in any order and from any
  requests.
\<close>

section \<open>The abstract machine\<close>

type_synonym owner_key = "did \<times> uuid option"

datatype transfer_phase = Phase_Proposed | Phase_Accepting | Phase_Concluded | Phase_Withdrawn

record decision =
  dc_repository :: uuid
  dc_source :: owner_key
  dc_destination :: owner_key
  dc_phase :: transfer_phase

record decisions =
  ds_owner :: "uuid \<Rightarrow> owner_key option"
  ds_transfer :: "uuid \<Rightarrow> decision option"

datatype decision_event = Propose uuid | Begin uuid | Record_Identity uuid | Withdraw uuid | Conclude uuid

abbreviation open_phase :: "transfer_phase \<Rightarrow> bool" where
  "open_phase p \<equiv> p = Phase_Proposed \<or> p = Phase_Accepting"

definition undecided :: "decisions \<Rightarrow> uuid \<Rightarrow> bool" where
  "undecided s rid \<longleftrightarrow> (\<exists>i d. ds_transfer s i = Some d \<and> dc_repository d = rid \<and> open_phase (dc_phase d))"

inductive decides :: "decision_event \<Rightarrow> decisions \<Rightarrow> decisions \<Rightarrow> bool" where
  Proposes: "ds_transfer s i = None \<Longrightarrow> \<not> undecided s (dc_repository d) \<Longrightarrow> dc_phase d = Phase_Proposed \<Longrightarrow>
     decides (Propose i) s (s\<lparr>ds_transfer := (ds_transfer s)(i \<mapsto> d)\<rparr>)"
| Begins: "ds_transfer s i = Some d \<Longrightarrow> open_phase (dc_phase d) \<Longrightarrow>
     decides (Begin i) s (s\<lparr>ds_transfer := (ds_transfer s)(i \<mapsto> d\<lparr>dc_phase := Phase_Accepting\<rparr>)\<rparr>)"
| Records: "ds_transfer s i = Some d \<Longrightarrow> open_phase (dc_phase d) \<Longrightarrow> decides (Record_Identity i) s s"
| Withdraws: "ds_transfer s i = Some d \<Longrightarrow> dc_phase d = Phase_Proposed \<Longrightarrow>
     decides (Withdraw i) s (s\<lparr>ds_transfer := (ds_transfer s)(i \<mapsto> d\<lparr>dc_phase := Phase_Withdrawn\<rparr>)\<rparr>)"
| Concludes: "ds_transfer s i = Some d \<Longrightarrow> dc_phase d = Phase_Accepting \<Longrightarrow> ds_owner s (dc_repository d) \<noteq> None \<Longrightarrow>
     decides (Conclude i) s
       (s\<lparr>ds_owner := (ds_owner s)(dc_repository d \<mapsto> dc_destination d),
          ds_transfer := (ds_transfer s)(i \<mapsto> d\<lparr>dc_phase := Phase_Concluded\<rparr>)\<rparr>)"

inductive_cases decides_ProposeE: "decides (Propose i) s s'"
inductive_cases decides_BeginE: "decides (Begin i) s s'"
inductive_cases decides_WithdrawE: "decides (Withdraw i) s s'"
inductive_cases decides_ConcludeE: "decides (Conclude i) s s'"

text \<open>Where a transfer may be after it was somewhere.\<close>

fun later_phase :: "transfer_phase \<Rightarrow> transfer_phase \<Rightarrow> bool" where
  "later_phase Phase_Proposed p = True"
| "later_phase Phase_Accepting p = (p = Phase_Accepting \<or> p = Phase_Concluded)"
| "later_phase Phase_Concluded p = (p = Phase_Concluded)"
| "later_phase Phase_Withdrawn p = (p = Phase_Withdrawn)"

lemma later_phase_refl [simp]: "later_phase p p"
  by (cases p) simp_all

lemma later_phase_trans: "later_phase p q \<Longrightarrow> later_phase q r \<Longrightarrow> later_phase p r"
  by (cases p; cases q; cases r) simp_all

lemma decides_later:
  "decides e s s' \<Longrightarrow> ds_transfer s i = Some d \<Longrightarrow>
     \<exists>p. ds_transfer s' i = Some (d\<lparr>dc_phase := p\<rparr>) \<and> later_phase (dc_phase d) p"
proof (induction rule: decides.induct)
  case (Begins s j c)
  then show ?case by (cases "j = i") (auto intro: exI [of _ "dc_phase d"])
next
  case (Withdraws s j c)
  then show ?case by (cases "j = i") (auto intro: exI [of _ "dc_phase d"])
next
  case (Concludes s j c)
  then show ?case by (cases "j = i") (auto intro: exI [of _ "dc_phase d"])
qed (auto intro: exI [of _ "dc_phase d"])

section \<open>The abstraction\<close>

definition owner_key_of :: "repository \<Rightarrow> owner_key" where
  "owner_key_of v = (repo_OwnerDID v, repo_OrganizationID v)"

definition phase_of :: "transfer_row \<Rightarrow> transfer_phase" where
  "phase_of x =
     (case xr_status x of
        StatusPending \<Rightarrow> if xr_acceptance_started_at x = None then Phase_Proposed else Phase_Accepting
      | StatusCompleted \<Rightarrow> Phase_Concluded
      | StatusCancelled \<Rightarrow> Phase_Withdrawn)"

definition decision_of :: "transfer_row \<Rightarrow> decision" where
  "decision_of x =
     \<lparr>dc_repository = xr_repository_id x, dc_source = (xr_source_owner_did x, xr_source_organization_id x),
      dc_destination = (xr_destination_owner_did x, xr_destination_organization_id x), dc_phase = phase_of x\<rparr>"

definition abs_decisions :: "org_tables \<Rightarrow> transfer_row list \<Rightarrow> decisions" where
  "abs_decisions t rows =
     \<lparr>ds_owner = (\<lambda>rid. map_option (\<lambda>r. owner_key_of (rr_repo r)) (find (\<lambda>r. rr_id r = rid) (repositories t))),
      ds_transfer = (\<lambda>i. map_option decision_of (find (\<lambda>x. xr_id x = i) rows))\<rparr>"

definition transfers_ok :: "transfer_row list \<Rightarrow> bool" where
  "transfers_ok rows \<longleftrightarrow> keyed xr_id rows \<and> keyed xr_repository_id (filter pending_row rows) \<and> list_all transfer_checks rows"

lemma open_phase_of: "open_phase (phase_of x) \<longleftrightarrow> pending_row x"
  by (simp add: phase_of_def split: transfer_status.split)

section \<open>Statements\<close>

datatype transfer_statement =
    Create_Statement transfer
  | Proposal_Statement uuid transfer_identity
  | Successor_Statement uuid transfer_identity
  | Start_Statement uuid instant
  | Acceptance_Statement uuid transfer_identity
  | Redirect_Statement uuid string
  | Cancel_Statement uuid instant
  | Complete_Statement uuid uuid uuid did instant
  | Complete_Private_Statement uuid uuid uuid did instant

fun run_statement :: "transfer_statement \<Rightarrow> transfer_row transfer_sql" where
  "run_statement (Create_Statement v) = sql_CreateRepositoryTransfer (transfer_columns v)"
| "run_statement (Proposal_Statement i identity) = sql_SetRepositoryTransferProposal i identity"
| "run_statement (Successor_Statement i identity) = sql_SetRepositoryTransferSuccessor i identity"
| "run_statement (Start_Statement i started) = sql_StartRepositoryTransferAcceptance i started"
| "run_statement (Acceptance_Statement i identity) = sql_SetRepositoryTransferAcceptance i identity"
| "run_statement (Redirect_Statement i cid) = sql_SetRepositoryTransferSourceRedirect i cid"
| "run_statement (Cancel_Statement i cancelled) = sql_CancelRepositoryTransfer i cancelled"
| "run_statement (Complete_Statement i a b actor accepted) = sql_CompleteRepositoryTransfer i a b actor accepted"
| "run_statement (Complete_Private_Statement i a b actor accepted) = sql_CompletePrivateRepositoryTransfer i a b actor accepted"

fun statement_event :: "transfer_statement \<Rightarrow> decision_event" where
  "statement_event (Create_Statement v) = Propose (tf_ID v)"
| "statement_event (Proposal_Statement i _) = Record_Identity i"
| "statement_event (Successor_Statement i _) = Record_Identity i"
| "statement_event (Start_Statement i _) = Begin i"
| "statement_event (Acceptance_Statement i _) = Record_Identity i"
| "statement_event (Redirect_Statement i _) = Record_Identity i"
| "statement_event (Cancel_Statement i _) = Withdraw i"
| "statement_event (Complete_Statement i _ _ _ _) = Conclude i"
| "statement_event (Complete_Private_Statement i _ _ _ _) = Conclude i"

section \<open>Rows by their key\<close>

lemma distinct_map_filter_subset:
  "distinct (map k (filter P rows)) \<Longrightarrow> (\<And>x. x \<in> set rows \<Longrightarrow> Q x \<Longrightarrow> P x) \<Longrightarrow> distinct (map k (filter Q rows))"
  by (induction rows) (auto split: if_splits)

lemma find_update_where:
  "(\<And>x. k (f x) = k x) \<Longrightarrow>
     find (\<lambda>y. k y = j) (update_where p f rows) = map_option (\<lambda>x. if p x then f x else x) (find (\<lambda>y. k y = j) rows)"
  by (induction rows) (auto simp: update_where_def)

lemma find_by_key:
  "keyed k rows \<Longrightarrow> find (\<lambda>x. k x = i \<and> p x) rows = Some x \<Longrightarrow> find (\<lambda>x. k x = i) rows = Some x"
  using keyed_find [of k rows x "\<lambda>x. k x = i"] by (auto dest: find_Some_in)

text \<open>A row of an update is the row with the key, and what becomes of the table.\<close>

lemma update_transfer_row:
  assumes ok: "transfers_ok rows" and run: "update_transfer i p f t rows = Inr (y, t', rows')"
    and id: "\<And>x. xr_id (f x) = xr_id x" "\<And>x. xr_repository_id (f x) = xr_repository_id x"
    and pending: "\<And>x. p x \<Longrightarrow> pending_row x"
  obtains x where "x \<in> set rows" "find (\<lambda>x. xr_id x = i) rows = Some x" "p x" "y = f x" "t' = t"
    and "transfers_ok rows'" and "abs_decisions t' rows' = (abs_decisions t rows)
      \<lparr>ds_transfer := (ds_transfer (abs_decisions t rows))(i \<mapsto> decision_of (f x))\<rparr>"
proof -
  obtain x where x: "find (\<lambda>x. xr_id x = i \<and> p x) rows = Some x" and checks: "transfer_checks (f x)"
    and r: "y = f x" "t' = t" "rows' = update_where (\<lambda>x. xr_id x = i \<and> p x) f rows"
    using run by (auto simp: update_transfer_def split: option.splits if_splits)
  have keys: "keyed xr_id rows" using ok by (simp add: transfers_ok_def)
  have mem: "x \<in> set rows" "xr_id x = i" "p x" using find_Some_in [OF x] by auto
  note found = find_by_key [OF keys x]
  have only: "z \<in> set rows \<Longrightarrow> xr_id z = i \<and> p z \<Longrightarrow> z = x" for z
    using keyed_unique [OF keys] mem by blast
  have "map xr_repository_id (filter pending_row rows')
      = map xr_repository_id (filter (\<lambda>z. pending_row (if xr_id z = i \<and> p z then f z else z)) rows)"
    by (simp add: r update_where_def filter_map o_def id if_distrib [of xr_repository_id] cong: if_cong)
  moreover have "distinct (map xr_repository_id (filter (\<lambda>z. pending_row (if xr_id z = i \<and> p z then f z else z)) rows))"
  proof (rule distinct_map_filter_subset [where P = pending_row])
    show "distinct (map xr_repository_id (filter pending_row rows))" using ok by (simp add: transfers_ok_def)
  qed (auto dest: pending split: if_splits)
  ultimately have "transfers_ok rows'"
    using ok checks only by (auto simp: transfers_ok_def r keyed_update_where id list_all_iff in_update_where)
  moreover have "find (\<lambda>z. xr_id z = j) rows' = (if j = i then Some (f x) else find (\<lambda>z. xr_id z = j) rows)" for j
  proof (cases "find (\<lambda>z. xr_id z = j) rows")
    case None
    then show ?thesis using found by (auto simp: r find_update_where id)
  next
    case (Some z)
    then show ?thesis using found mem(3) find_Some_in [OF Some] by (auto simp: r find_update_where id)
  qed
  then have "abs_decisions t' rows' = (abs_decisions t rows)
      \<lparr>ds_transfer := (ds_transfer (abs_decisions t rows))(i \<mapsto> decision_of (f x))\<rparr>"
    by (auto simp: abs_decisions_def r)
  ultimately show ?thesis using mem found r by (intro that)
qed

text \<open>The expected aliases are all inserted, or were the repository's own.\<close>

lemma insert_aliases_all:
  "(\<And>a b. a \<in> set as \<Longrightarrow> b \<in> set rows \<Longrightarrow> ra_key b = ra_key a \<Longrightarrow> ra_RepositoryID b = rid) \<Longrightarrow>
   (\<And>a. a \<in> set as \<Longrightarrow> ra_RepositoryID a = rid) \<Longrightarrow> insert_aliases as rows = Inr (n, rows') \<Longrightarrow>
     n = length as \<and> set rows \<subseteq> set rows' \<and> (\<forall>a \<in> set as. \<exists>b \<in> set rows'. ra_key b = ra_key a \<and> ra_RepositoryID b = rid)"
proof (induction as arbitrary: rows n rows')
  case Nil
  then show ?case by simp
next
  case (Cons a as)
  show ?case
  proof (cases "find (\<lambda>b. ra_key b = ra_key a) rows")
    case None
    then obtain m where m: "insert_aliases as (rows @ [a]) = Inr (m, rows')" "n = Suc m"
      using Cons.prems(3) by (auto split: if_splits sum.splits)
    have "m = length as \<and> set (rows @ [a]) \<subseteq> set rows'
        \<and> (\<forall>a \<in> set as. \<exists>b \<in> set rows'. ra_key b = ra_key a \<and> ra_RepositoryID b = rid)"
    proof (rule Cons.IH [OF _ _ m(1)])
      fix c d assume "c \<in> set as" "d \<in> set (rows @ [a])" "ra_key d = ra_key c"
      then show "ra_RepositoryID d = rid" using Cons.prems(1) [of c d] Cons.prems(2) [of a] by auto
    qed (rule Cons.prems(2), simp)
    then show ?thesis using m(2) Cons.prems(2) by auto
  next
    case (Some b)
    then have b: "b \<in> set rows" "ra_key b = ra_key a" by (auto dest: find_Some_in)
    then have own: "ra_RepositoryID b = rid" "ra_RepositoryID a = rid"
      using Cons.prems(1) [of a b] Cons.prems(2) [of a] by simp_all
    obtain m where m: "insert_aliases as rows = Inr (m, rows')" "n = Suc m"
      using Cons.prems(3) Some own by (auto split: sum.splits)
    have "m = length as \<and> set rows \<subseteq> set rows'
        \<and> (\<forall>a \<in> set as. \<exists>b \<in> set rows'. ra_key b = ra_key a \<and> ra_RepositoryID b = rid)"
    proof (rule Cons.IH [OF _ _ m(1)])
      fix c d assume "c \<in> set as" "d \<in> set rows" "ra_key d = ra_key c"
      then show "ra_RepositoryID d = rid" using Cons.prems(1) [of c d] Cons.prems(2) [of a] by auto
    qed (rule Cons.prems(2), simp)
    then show ?thesis using m(2) b own by auto
  qed
qed

lemma expected_aliases_free:
  assumes "route_available t x v" and "a \<in> set (expected_aliases i j x v)" and "b \<in> set (repository_aliases t)"
    and "ra_key b = ra_key a"
  shows "ra_RepositoryID b = repo_ID v"
proof (rule ccontr)
  assume other: "ra_RepositoryID b \<noteq> repo_ID v"
  have "alias_taken x v b"
    using assms(2,4) other by (auto simp: expected_aliases_def alias_taken_def split: if_splits)
  then show False using assms(1,3) by (auto simp: route_available_def list_ex_iff)
qed

definition concluded :: "did \<Rightarrow> instant \<Rightarrow> transfer_row \<Rightarrow> transfer_row" where
  "concluded accepted_by accepted_at y =
     y\<lparr>xr_status := StatusCompleted, xr_accepted_by_did := Some accepted_by, xr_accepted_at := Some accepted_at\<rparr>"

lemma complete_transfer_row:
  assumes run: "complete_transfer selected portable i a b actor now t rows = Inr (y, t', rows')"
    and keys: "keyed xr_id rows"
  obtains x r where "find (\<lambda>x. xr_id x = i) rows = Some x" "selected x" "y = concluded actor now x"
    "transfer_checks y" "find (\<lambda>r. rr_id r = xr_repository_id x) (repositories t) = Some r"
    "route_available t x (rr_repo r)" "set (repository_aliases t) \<subseteq> set (repository_aliases t')"
    "\<forall>c \<in> set (expected_aliases a b x (rr_repo r)). \<exists>d \<in> set (repository_aliases t').
       ra_key d = ra_key c \<and> ra_RepositoryID d = rr_id r"
    "repositories t' = update_where (\<lambda>s. rr_id s = xr_repository_id x)
       (\<lambda>s. s\<lparr>rr_repo := moved_repository x portable now (rr_repo s)\<rparr>) (repositories t)"
    "organization_team_repositories t' = delete_where (\<lambda>z. tr_RepositoryID z = xr_repository_id x) (organization_team_repositories t)"
    "organization_members t' = organization_members t" "accounts t' = accounts t" "organizations t' = organizations t"
    "owner_routes t' = owner_routes t"
    "rows' = update_where (\<lambda>z. xr_id z = i \<and> xr_repository_id z = xr_repository_id x) (concluded actor now) rows"
proof -
  obtain x where x: "find (\<lambda>x. xr_id x = i \<and> selected x) rows = Some x"
    using run by (auto simp: complete_transfer_def split: option.splits)
  obtain r where r: "find (\<lambda>r. rr_id r = xr_repository_id x) (repositories t) = Some r"
    using run x by (auto simp: complete_transfer_def split: option.splits)
  have free: "route_available t x (rr_repo r)"
    using run x r by (auto simp: complete_transfer_def split: if_splits)
  obtain n aliases where inserted: "insert_aliases (expected_aliases a b x (rr_repo r)) (repository_aliases t) = Inr (n, aliases)"
    using run x r free by (auto simp: complete_transfer_def Let_def split: sum.splits)
  have all: "set (repository_aliases t) \<subseteq> set aliases
      \<and> (\<forall>c \<in> set (expected_aliases a b x (rr_repo r)). \<exists>d \<in> set aliases. ra_key d = ra_key c \<and> ra_RepositoryID d = rr_id r)"
  proof -
    have "n = length (expected_aliases a b x (rr_repo r)) \<and> set (repository_aliases t) \<subseteq> set aliases
      \<and> (\<forall>c \<in> set (expected_aliases a b x (rr_repo r)). \<exists>d \<in> set aliases. ra_key d = ra_key c \<and> ra_RepositoryID d = rr_id r)"
    proof (rule insert_aliases_all [OF _ _ inserted])
      show "ra_RepositoryID d = rr_id r"
        if "c \<in> set (expected_aliases a b x (rr_repo r))" "d \<in> set (repository_aliases t)" "ra_key d = ra_key c" for c d
        using expected_aliases_free [OF free that] .
      show "ra_RepositoryID c = rr_id r" if "c \<in> set (expected_aliases a b x (rr_repo r))" for c
        using that by (auto simp: expected_aliases_def split: if_splits)
    qed
    then show ?thesis by blast
  qed
  have "complete_transfer selected portable i a b actor now t rows = Inr (y, t', rows') \<Longrightarrow>
      y = concluded actor now x \<and> transfer_checks (concluded actor now x)
      \<and> t' = t\<lparr>repository_aliases := aliases,
             organization_team_repositories :=
               delete_where (\<lambda>z. tr_RepositoryID z = xr_repository_id x) (organization_team_repositories t),
             repositories := update_where (\<lambda>s. rr_id s = xr_repository_id x)
               (\<lambda>s. s\<lparr>rr_repo := moved_repository x portable now (rr_repo s)\<rparr>) (repositories t),
             network_repositories := link_projection x portable (network_repositories t)\<rparr>
      \<and> rows' = update_where (\<lambda>z. xr_id z = i \<and> xr_repository_id z = xr_repository_id x) (concluded actor now) rows"
    unfolding complete_transfer_def x r option.case Let_def inserted sum.case prod.case concluded_def
    by (simp only: free if_False not_True_eq_False split: if_split_asm) auto
  note parts = this [OF run]
  note x' = find_by_key [OF keys x]
  show ?thesis
  proof (rule that [OF x' _ _ _ r free])
    have aliases: "repository_aliases t' = aliases" using parts by simp
    show "\<forall>c \<in> set (expected_aliases a b x (rr_repo r)). \<exists>d \<in> set (repository_aliases t').
        ra_key d = ra_key c \<and> ra_RepositoryID d = rr_id r"
      using all unfolding aliases by blast
  qed (use parts find_Some_in [OF x] all in simp_all)
qed

section \<open>The statements implement the machine\<close>

lemma undecided_iff:
  assumes "transfers_ok rows"
  shows "undecided (abs_decisions t rows) rid \<longleftrightarrow> (\<exists>x \<in> set rows. xr_repository_id x = rid \<and> pending_row x)"
proof
  assume "undecided (abs_decisions t rows) rid"
  then obtain i x where "find (\<lambda>x. xr_id x = i) rows = Some x" "xr_repository_id x = rid" "open_phase (phase_of x)"
    by (auto simp: undecided_def abs_decisions_def decision_of_def)
  then show "\<exists>x \<in> set rows. xr_repository_id x = rid \<and> pending_row x" by (auto simp: open_phase_of dest: find_Some_in)
next
  assume "\<exists>x \<in> set rows. xr_repository_id x = rid \<and> pending_row x"
  then obtain x where x: "x \<in> set rows" "xr_repository_id x = rid" "pending_row x" by blast
  have "find (\<lambda>y. xr_id y = xr_id x) rows = Some x"
    using assms x(1) by (intro keyed_find [where k = xr_id]) (auto simp: transfers_ok_def)
  then have "ds_transfer (abs_decisions t rows) (xr_id x) = Some (decision_of x)" by (simp add: abs_decisions_def)
  then show "undecided (abs_decisions t rows) rid"
    unfolding undecided_def using x(2,3) open_phase_of [of x] by (intro exI conjI) (auto simp: decision_of_def)
qed

lemma create_decides:
  assumes ok: "transfers_ok rows"
    and run: "sql_CreateRepositoryTransfer (transfer_columns v) t rows = Inr (y, t', rows')"
  shows "transfers_ok rows' \<and> decides (Propose (tf_ID v)) (abs_decisions t rows) (abs_decisions t' rows')"
proof -
  let ?x = "transfer_columns v"
  have r: "t' = t" "rows' = rows @ [?x]" "transfer_checks ?x"
    and new: "\<forall>y \<in> set rows. xr_id y \<noteq> xr_id ?x" "\<forall>y \<in> set rows. pending_row y \<longrightarrow> xr_repository_id y \<noteq> xr_repository_id ?x"
    using run by (auto simp: sql_CreateRepositoryTransfer_def list_ex_iff split: if_splits)
  have x: "xr_id ?x = tf_ID v" "pending_row ?x" "phase_of ?x = Phase_Proposed"
    by (simp_all add: transfer_columns_def phase_of_def)
  have "transfers_ok rows'" using ok new r(3) x(2) by (auto simp: transfers_ok_def r(2))
  moreover have "find (\<lambda>z. xr_id z = j) rows' = (if j = tf_ID v then Some ?x else find (\<lambda>z. xr_id z = j) rows)" for j
  proof -
    have "find P (rows @ [?x]) = (case find P rows of None \<Rightarrow> if P ?x then Some ?x else None | Some z \<Rightarrow> Some z)" for P
      by (induction rows) auto
    moreover have "find (\<lambda>z. xr_id z = tf_ID v) rows = None" using new(1) x(1) by (simp add: find_None_in)
    ultimately show ?thesis using x(1) by (auto simp: r(2) split: option.split)
  qed
  then have "abs_decisions t' rows' = (abs_decisions t rows)
      \<lparr>ds_transfer := (ds_transfer (abs_decisions t rows))(tf_ID v \<mapsto> decision_of ?x)\<rparr>"
    by (auto simp: abs_decisions_def r(1))
  moreover have "ds_transfer (abs_decisions t rows) (tf_ID v) = None"
    using new(1) x(1) by (simp add: abs_decisions_def find_None_in)
  moreover have "\<not> undecided (abs_decisions t rows) (dc_repository (decision_of ?x))"
    using new(2) by (auto simp: undecided_iff [OF ok] decision_of_def)
  ultimately show ?thesis
    using x(3) Proposes [of "abs_decisions t rows" "tf_ID v" "decision_of ?x"] by (simp add: decision_of_def)
qed

text \<open>An update that keeps who transfers what to whom.\<close>

lemma identity_decides:
  assumes ok: "transfers_ok rows" and run: "update_transfer i p f t rows = Inr (y, t', rows')"
    and id: "\<And>x. xr_id (f x) = xr_id x" and same: "\<And>x. decision_of (f x) = decision_of x"
    and pending: "\<And>x. p x \<Longrightarrow> pending_row x"
  shows "transfers_ok rows' \<and> decides (Record_Identity i) (abs_decisions t rows) (abs_decisions t' rows')"
proof -
  have repo: "xr_repository_id (f x) = xr_repository_id x" for x
    using same [of x] by (simp add: decision_of_def)
  show ?thesis
  proof (rule update_transfer_row [OF ok run id repo pending])
    fix x
    assume x: "find (\<lambda>x. xr_id x = i) rows = Some x" "p x" and ok': "transfers_ok rows'"
      and abs: "abs_decisions t' rows' = (abs_decisions t rows)
        \<lparr>ds_transfer := (ds_transfer (abs_decisions t rows))(i \<mapsto> decision_of (f x))\<rparr>"
    have at: "ds_transfer (abs_decisions t rows) i = Some (decision_of x)" using x(1) by (simp add: abs_decisions_def)
    then have "abs_decisions t' rows' = abs_decisions t rows" using abs same by (simp add: fun_upd_idem)
    moreover have "open_phase (dc_phase (decision_of x))"
      using pending [OF x(2)] open_phase_of [of x] by (simp add: decision_of_def)
    ultimately show ?thesis using ok' Records [OF at] by simp
  qed
qed

lemma start_decides:
  assumes ok: "transfers_ok rows" and run: "sql_StartRepositoryTransferAcceptance i s t rows = Inr (y, t', rows')"
  shows "transfers_ok rows' \<and> decides (Begin i) (abs_decisions t rows) (abs_decisions t' rows')"
proof (rule update_transfer_row [OF ok run [unfolded sql_StartRepositoryTransferAcceptance_def]])
  fix x
  let ?f = "\<lambda>x. x\<lparr>xr_acceptance_started_at := Some (case xr_acceptance_started_at x of None \<Rightarrow> s | Some s \<Rightarrow> s)\<rparr>"
  assume x: "find (\<lambda>x. xr_id x = i) rows = Some x"
      "pending_row x \<and> (xr_acceptance_started_at x \<noteq> None \<or> xr_expires_at x > s)"
    and ok': "transfers_ok rows'"
    and abs: "abs_decisions t' rows' = (abs_decisions t rows)
      \<lparr>ds_transfer := (ds_transfer (abs_decisions t rows))(i \<mapsto> decision_of (?f x))\<rparr>"
  have at: "ds_transfer (abs_decisions t rows) i = Some (decision_of x)" using x(1) by (simp add: abs_decisions_def)
  have "decision_of (?f x) = (decision_of x)\<lparr>dc_phase := Phase_Accepting\<rparr>"
    using x(2) by (simp add: decision_of_def phase_of_def)
  moreover have "open_phase (dc_phase (decision_of x))" using x(2) open_phase_of [of x] by (simp add: decision_of_def)
  ultimately show ?thesis using ok' abs Begins [OF at] by simp
qed auto

lemma cancel_decides:
  assumes ok: "transfers_ok rows" and run: "sql_CancelRepositoryTransfer i s t rows = Inr (y, t', rows')"
  shows "transfers_ok rows' \<and> decides (Withdraw i) (abs_decisions t rows) (abs_decisions t' rows')"
proof (rule update_transfer_row [OF ok run [unfolded sql_CancelRepositoryTransfer_def]])
  fix x
  let ?f = "\<lambda>x. x\<lparr>xr_status := StatusCancelled, xr_cancelled_at := Some s\<rparr>"
  assume x: "find (\<lambda>x. xr_id x = i) rows = Some x" "pending_row x \<and> xr_acceptance_started_at x = None"
    and ok': "transfers_ok rows'"
    and abs: "abs_decisions t' rows' = (abs_decisions t rows)
      \<lparr>ds_transfer := (ds_transfer (abs_decisions t rows))(i \<mapsto> decision_of (?f x))\<rparr>"
  have at: "ds_transfer (abs_decisions t rows) i = Some (decision_of x)" using x(1) by (simp add: abs_decisions_def)
  have "decision_of (?f x) = (decision_of x)\<lparr>dc_phase := Phase_Withdrawn\<rparr>"
    by (simp add: decision_of_def phase_of_def)
  moreover have "dc_phase (decision_of x) = Phase_Proposed" using x(2) by (simp add: decision_of_def phase_of_def)
  ultimately show ?thesis using ok' abs Withdraws [OF at] by simp
qed auto

lemma moved_repository_keys [simp]:
  "owner_key_of (moved_repository x portable now v) = (xr_destination_owner_did x, xr_destination_organization_id x)"
  "repo_ID (moved_repository x portable now v) = repo_ID v"
  by (simp_all add: moved_repository_def Let_def owner_key_of_def)

lemma conclude_decides:
  assumes ok: "transfers_ok rows" and run: "complete_transfer selected portable i a b actor now t rows = Inr (y, t', rows')"
    and selected: "\<And>x. selected x \<Longrightarrow> pending_row x \<and> xr_acceptance_started_at x \<noteq> None"
  shows "transfers_ok rows' \<and> decides (Conclude i) (abs_decisions t rows) (abs_decisions t' rows')"
proof -
  have keys: "keyed xr_id rows" using ok by (simp add: transfers_ok_def)
  show ?thesis
  proof (rule complete_transfer_row [OF run keys])
    fix x r
    assume x: "find (\<lambda>x. xr_id x = i) rows = Some x" "selected x" "y = concluded actor now x" "transfer_checks y"
      and r: "find (\<lambda>r. rr_id r = xr_repository_id x) (repositories t) = Some r"
      and repos: "repositories t' = update_where (\<lambda>s. rr_id s = xr_repository_id x)
        (\<lambda>s. s\<lparr>rr_repo := moved_repository x portable now (rr_repo s)\<rparr>) (repositories t)"
      and rows': "rows' = update_where (\<lambda>z. xr_id z = i \<and> xr_repository_id z = xr_repository_id x) (concluded actor now) rows"
    have run': "update_transfer i (\<lambda>z. z = x) (concluded actor now) t rows = Inr (y, t, rows')"
    proof -
      have mem: "x \<in> set rows" "xr_id x = i" using find_Some_in [OF x(1)] by auto
      then have alone: "(xr_id z = i \<and> z = x) = (xr_id z = i \<and> xr_repository_id z = xr_repository_id x)" if "z \<in> set rows" for z
        using keyed_unique [OF keys that mem(1)] by auto
      have "find (\<lambda>z. xr_id z = i \<and> z = x) rows = Some x"
        using keys mem by (intro keyed_find [where k = xr_id]) auto
      moreover have "update_where (\<lambda>z. xr_id z = i \<and> z = x) (concluded actor now) rows = rows'"
        unfolding rows' update_where_def using alone by (intro map_cong) auto
      ultimately show ?thesis using x(3,4) by (simp add: update_transfer_def)
    qed
    show ?thesis
    proof (rule update_transfer_row [OF ok run'])
      fix z assume "transfers_ok rows'" and z: "z = x"
        and abs: "abs_decisions t rows' = (abs_decisions t rows)
          \<lparr>ds_transfer := (ds_transfer (abs_decisions t rows))(i \<mapsto> decision_of (concluded actor now z))\<rparr>"
      have at: "ds_transfer (abs_decisions t rows) i = Some (decision_of x)" using x(1) by (simp add: abs_decisions_def)
      have "ds_owner (abs_decisions t' rows')
          = (ds_owner (abs_decisions t rows))(dc_repository (decision_of x) \<mapsto> dc_destination (decision_of x))"
      proof
        fix rid
        show "ds_owner (abs_decisions t' rows') rid
          = ((ds_owner (abs_decisions t rows))(dc_repository (decision_of x) \<mapsto> dc_destination (decision_of x))) rid"
          using r by (cases "find (\<lambda>r. rr_id r = rid) (repositories t)")
            (auto simp: abs_decisions_def repos find_update_where decision_of_def dest: find_Some_in)
      qed
      moreover have "ds_transfer (abs_decisions t' rows') = ds_transfer (abs_decisions t rows')"
        by (simp add: abs_decisions_def)
      moreover have "decision_of (concluded actor now x) = (decision_of x)\<lparr>dc_phase := Phase_Concluded\<rparr>"
        by (simp add: decision_of_def phase_of_def concluded_def)
      ultimately have "abs_decisions t' rows' = (abs_decisions t rows)
          \<lparr>ds_owner := (ds_owner (abs_decisions t rows))(dc_repository (decision_of x) \<mapsto> dc_destination (decision_of x)),
           ds_transfer := (ds_transfer (abs_decisions t rows))(i \<mapsto> (decision_of x)\<lparr>dc_phase := Phase_Concluded\<rparr>)\<rparr>"
        using abs z by simp
      moreover have "dc_phase (decision_of x) = Phase_Accepting"
        using selected [OF x(2)] by (simp add: decision_of_def phase_of_def)
      moreover have "ds_owner (abs_decisions t rows) (dc_repository (decision_of x)) \<noteq> None"
        using r by (simp add: abs_decisions_def decision_of_def)
      ultimately show ?thesis using \<open>transfers_ok rows'\<close> Concludes [OF at] by simp
    qed (use selected [OF x(2)] in \<open>auto simp: concluded_def\<close>)
  qed
qed

lemma statement_decides:
  assumes "transfers_ok rows" and run: "run_statement s t rows = Inr (y, t', rows')"
  shows "transfers_ok rows' \<and> decides (statement_event s) (abs_decisions t rows) (abs_decisions t' rows')"
proof (cases s)
  case (Create_Statement v)
  then show ?thesis using create_decides [OF assms(1)] run by simp
next
  case (Start_Statement i started)
  then show ?thesis using start_decides [OF assms(1)] run by simp
next
  case (Cancel_Statement i cancelled)
  then show ?thesis using cancel_decides [OF assms(1)] run by simp
next
  case (Complete_Statement i a b actor accepted)
  have "transfers_ok rows' \<and> decides (Conclude i) (abs_decisions t rows) (abs_decisions t' rows')"
    by (rule conclude_decides [OF assms(1) run [unfolded Complete_Statement run_statement.simps sql_CompleteRepositoryTransfer_def]])
      (auto simp: portable_ready_def started_in_time_def split: option.splits)
  then show ?thesis using Complete_Statement by simp
next
  case (Complete_Private_Statement i a b actor accepted)
  have "transfers_ok rows' \<and> decides (Conclude i) (abs_decisions t rows) (abs_decisions t' rows')"
    by (rule conclude_decides [OF assms(1) run [unfolded Complete_Private_Statement run_statement.simps sql_CompletePrivateRepositoryTransfer_def]])
      (auto simp: private_ready_def started_in_time_def split: option.splits)
  then show ?thesis using Complete_Private_Statement by simp
qed (use run in \<open>auto simp: sql_SetRepositoryTransferProposal_def sql_SetRepositoryTransferSuccessor_def
    sql_SetRepositoryTransferAcceptance_def sql_SetRepositoryTransferSourceRedirect_def decision_of_def phase_of_def
    dest!: identity_decides [OF assms(1)]\<close>)

end
