(* ===== verification/Transfer_Properties.thy ===== *)
theory Transfer_Properties imports Transfer_Decision Triples Org_World begin

text \<open>
  Properties of repository transfers: the decision record is kept, both owners take part, a retry goes on
  where the request before it stopped, and what a completed transfer leaves behind.
\<close>

section \<open>What the steps of a request leave alone\<close>

text \<open>The terms of a transfer: who offers which repository to whom, and until when.\<close>

definition xr_terms :: "transfer_row \<Rightarrow> transfer_row" where
  "xr_terms x =
     x\<lparr>xr_accepted_by_did := None, xr_proposal := None, xr_successor := None, xr_acceptance := None,
       xr_source_redirect_cid := None, xr_status := StatusPending, xr_acceptance_started_at := None,
       xr_accepted_at := None, xr_cancelled_at := None\<rparr>"

definition deal :: "transfer_world \<Rightarrow> org_tables \<times> transfer_row list" where
  "deal w = (tables w, map xr_terms (xw_transfers w))"

lemma xr_terms_keys:
  "xr_terms x = xr_terms y \<Longrightarrow> xr_id x = xr_id y \<and> xr_repository_id x = xr_repository_id y
     \<and> xr_destination_owner_did x = xr_destination_owner_did y
     \<and> xr_destination_organization_id x = xr_destination_organization_id y
     \<and> xr_source_owner_did x = xr_source_owner_did y \<and> xr_source_organization_id x = xr_source_organization_id y
     \<and> xr_source_owner_alias x = xr_source_owner_alias y \<and> xr_initiated_by_did x = xr_initiated_by_did y
     \<and> xr_source_repository x = xr_source_repository y"
  by (cases x; cases y) (simp add: xr_terms_def)

lemma xr_terms_fields [simp]:
  "xr_id (xr_terms x) = xr_id x" "xr_repository_id (xr_terms x) = xr_repository_id x"
  by (simp_all add: xr_terms_def)

definition keeps_deal :: "'a transfer_sql \<Rightarrow> bool" where
  "keeps_deal q \<longleftrightarrow> (\<forall>t rows x t' rows'. q t rows = Inr (x, t', rows') \<longrightarrow> t' = t \<and> map xr_terms rows' = map xr_terms rows)"

lemma frames_transfer_exec: "keeps_deal q \<Longrightarrow> frames deal (transfer_exec q)"
  by (auto simp: frames_def keeps_deal_def transfer_exec_def deal_def Let_def split: sum.splits prod.splits)

lemma keeps_deal_read: "keeps_deal (\<lambda>t rows. transfer_read (r t rows) t rows)"
  by (auto simp: keeps_deal_def transfer_read_def split: option.splits)

lemma keeps_deal_value: "keeps_deal (\<lambda>t rows. Inr (r t rows, t, rows))"
  by (simp add: keeps_deal_def)

lemma keeps_deal_update: "(\<And>x. xr_terms (f x) = xr_terms x) \<Longrightarrow> keeps_deal (update_transfer i p f)"
  by (auto simp: keeps_deal_def update_transfer_def update_where_def split: option.splits if_splits)

lemmas transfer_read_statements =
  sql_ResolveRepositoryTransferOwner_def [abs_def] sql_ResolveRepositoryTransferSourceAlias_def [abs_def]
  sql_GetRepositoryForTransfer_def [abs_def] sql_GetPendingRepositoryTransfer_def [abs_def] sql_GetRepositoryTransfer_def [abs_def]

lemmas transfer_value_statements =
  sql_CanAcceptRepositoryTransfer_def [abs_def] sql_CanInitiateRepositoryTransfer_def [abs_def]
  sql_CanCompleteRepositoryTransfer_def [abs_def] sql_PageRepositoryTransfers_def [abs_def]

lemma keeps_deal_statements:
  "keeps_deal (sql_ResolveRepositoryTransferOwner pick owner)" "keeps_deal (sql_ResolveRepositoryTransferSourceAlias pick rid)"
  "keeps_deal (sql_GetRepositoryForTransfer rid)" "keeps_deal (sql_GetPendingRepositoryTransfer rid)"
  "keeps_deal (sql_GetRepositoryTransfer i)" "keeps_deal (sql_CanAcceptRepositoryTransfer organization account destination)"
  "keeps_deal (sql_CanInitiateRepositoryTransfer rid account)" "keeps_deal (sql_CanCompleteRepositoryTransfer i)"
  "keeps_deal (sql_PageRepositoryTransfers rid after n)" "keeps_deal (sql_SetRepositoryTransferProposal i identity)"
  "keeps_deal (sql_SetRepositoryTransferSuccessor i identity)" "keeps_deal (sql_StartRepositoryTransferAcceptance i s)"
  "keeps_deal (sql_SetRepositoryTransferAcceptance i identity)" "keeps_deal (sql_SetRepositoryTransferSourceRedirect i cid)"
  "keeps_deal (sql_CancelRepositoryTransfer i s)"
  unfolding transfer_read_statements transfer_value_statements sql_SetRepositoryTransferProposal_def
    sql_SetRepositoryTransferSuccessor_def sql_StartRepositoryTransferAcceptance_def
    sql_SetRepositoryTransferAcceptance_def sql_SetRepositoryTransferSourceRedirect_def sql_CancelRepositoryTransfer_def
  by (rule keeps_deal_read keeps_deal_value keeps_deal_update; simp add: xr_terms_def)+

lemma deal_outside [op_frames]:
  "frames deal transfer_ids" "frames deal (transfer_send m)" "frames deal (pg_exec (sql_GetOrganizationByID oid))"
  by (simp_all add: frames_def deal_def transfer_ids_def transfer_send_def pg_exec_def Let_def
      sql_GetOrganizationByID_def one_row_def split: sum.split prod.split option.split)

lemma frames_transfer_clock [op_frames]:
  "(\<And>t. frames deal (k t)) \<Longrightarrow> frames deal (with_now transfer_clock k)"
  "(\<And>t. frames xw_sent (l t)) \<Longrightarrow> frames xw_sent (with_now transfer_clock l)"
  by (simp_all add: frames_def with_now_def transfer_clock_def deal_def)

lemma frames_deref [op_frames]: "(\<And>x. p = Some x \<Longrightarrow> frames v (k x)) \<Longrightarrow> frames v (deref p k)"
  by (cases p) (auto simp: deref_def intro: op_frames)

lemma frames_case_target [op_frames]:
  "(\<And>d. frames v (f d)) \<Longrightarrow> (\<And>i. frames v (g i)) \<Longrightarrow> frames v (case x of Route_Account d \<Rightarrow> f d | Route_Organization i \<Rightarrow> g i)"
  by (cases x) auto

lemmas transfer_store_defs =
  pg_ResolveOwner_def pg_ResolveOrganizationIdentity_def pg_CanInitiate_def pg_CanAccept_def pg_CanComplete_def
  pg_ResolveSourceAlias_def pg_GetTransferRepository_def pg_GetPending_def pg_GetTransfer_def pg_PageTransfers_def
  pg_SetProposal_def pg_SetSuccessor_def pg_StartAcceptance_def pg_SetAcceptance_def pg_SetSourceRedirect_def
  pg_CancelTransfer_def transfer_query_def mappedTransfer_def mapped_or_conflict_def

lemma frames_transfer_store [op_frames]:
  "frames deal (pg_ResolveOwner pick alias)" "frames deal (pg_ResolveOrganizationIdentity oid)"
  "frames deal (pg_CanInitiate rid actor)" "frames deal (pg_CanAccept owner actor)" "frames deal (pg_CanComplete i)"
  "frames deal (pg_ResolveSourceAlias pick rid)" "frames deal (pg_GetTransferRepository rid)" "frames deal (pg_GetPending rid)"
  "frames deal (pg_GetTransfer i)" "frames deal (pg_PageTransfers rid after n)" "frames deal (pg_SetProposal i identity)"
  "frames deal (pg_SetSuccessor i identity)" "frames deal (pg_StartAcceptance i s)" "frames deal (pg_SetAcceptance i identity)"
  "frames deal (pg_SetSourceRedirect i cid)" "frames deal (pg_CancelTransfer i s)"
  unfolding transfer_store_defs by (intro op_frames frames_transfer_exec keeps_deal_statements)+

section \<open>Requests\<close>

datatype transfer_request =
    Initiate_Request repository did string
  | Get_Request uuid did
  | Page_Request uuid did "uuid option" int
  | Accept_Request uuid did
  | Cancel_Request uuid did

fun serve_transfer :: "transfer_config \<Rightarrow> transfer_request \<Rightarrow> (transfer_world, unit) op" where
  "serve_transfer C (Initiate_Request v actor alias) =
     call (transfer_Initiate (transfers_of C) v actor alias) (\<lambda>e. e) (\<lambda>_. ret ())"
| "serve_transfer C (Get_Request i actor) = call (transfer_Get (transfers_of C) i actor) (\<lambda>e. e) (\<lambda>_. ret ())"
| "serve_transfer C (Page_Request rid actor after limit) =
     call (transfer_Page (transfers_of C) rid actor after limit) (\<lambda>e. e) (\<lambda>_. ret ())"
| "serve_transfer C (Accept_Request i actor) = call (transfer_Accept (transfers_of C) i actor) (\<lambda>e. e) (\<lambda>_. ret ())"
| "serve_transfer C (Cancel_Request i actor) = call (transfer_Cancel (transfers_of C) i actor) (\<lambda>e. e) (\<lambda>_. ret ())"

lemma delete_proposal_eq:
  "delete_proposal (transfers_of C) v =
     (case tf_Proposal v of
        None \<Rightarrow> ret ()
      | Some proposal \<Rightarrow>
          deref (tf_SourceRepository v) (\<lambda>source.
          call (call (transfer_send (Withdrawn_Proposal (proposalPublication v source) proposal)) (\<lambda>e. e) (\<lambda>_. ret ()))
            (transfer_providerFailure ''delete proposal'') ret))"
  by (simp add: delete_proposal_def split: option.split)

lemma frames_requests [op_frames]:
  "frames deal (transfer_Get (transfers_of C) i actor)" "frames deal (transfer_Page (transfers_of C) rid actor after limit)"
  "frames deal (transfer_Cancel (transfers_of C) i actor)"
  unfolding transfer_Get_def transfer_Page_def transfer_Cancel_def authorizeInspection_def delete_proposal_eq Let_def
    transfers_of_simps transfer_store_simps transfer_publisher_simps option.case
  by (intro op_frames)+

lemma frames_accepting [op_frames]:
  "frames deal (AuthorizeAcceptance (transfers_of C) i actor)"
  "frames deal (accept_successor (transfers_of C) i (\<lambda>p. transfer_send (Sent_Repository p)) endpoints repo at v)"
  "frames deal (accept_acceptance (transfers_of C) i scheduled_transfer_publisher at v)"
  "frames deal (accept_redirect (transfers_of C) i (\<lambda>p. transfer_send (Sent_Repository p)) endpoints repo at v)"
  "frames deal (publishPendingProposal (transfers_of C) v)"
  unfolding AuthorizeAcceptance_def accept_successor_def accept_acceptance_def accept_redirect_def publishPendingProposal_def
    successorPublication_def sourceRedirectPublication_def Let_def transfers_of_simps transfer_store_simps
    transfer_publisher_simps option.case prod.case
  by (intro op_frames)+

text \<open>The two owners: who may offer a repository, and who may take it.\<close>

definition may_offer :: "org_tables \<Rightarrow> uuid \<Rightarrow> did \<Rightarrow> bool" where
  "may_offer t rid account \<longleftrightarrow>
     (\<exists>r \<in> set (repositories t). transferable rid r \<and> (account_owner account (rr_repo r) \<or> owner_grant t account (rr_repo r)))"

definition may_take :: "org_tables \<Rightarrow> transfer_row \<Rightarrow> did \<Rightarrow> bool" where
  "may_take t x account \<longleftrightarrow>
     (case xr_destination_organization_id x of
        None \<Rightarrow> account = xr_destination_owner_did x
      | Some oid \<Rightarrow> \<exists>m \<in> set (organization_members t). member_key m = (oid, account) \<and> mem_Role m = RoleOwner)"

lemma mappedTransfer_ok:
  "mappedTransfer q w = (Inr v, w') \<Longrightarrow> \<exists>x t rows. q (tables w) (xw_transfers w) = Inr (x, t, rows) \<and> v = transferFromRow x
     \<and> tables w' = t \<and> xw_transfers w' = rows \<and> xw_sent w' = xw_sent w"
  by (auto simp: mappedTransfer_def op_ok transfer_exec_ok)

lemma mapped_or_conflict_ok:
  "mapped_or_conflict q w = (Inr v, w') \<Longrightarrow> \<exists>x t rows. q (tables w) (xw_transfers w) = Inr (x, t, rows) \<and> v = transferFromRow x
     \<and> tables w' = t \<and> xw_transfers w' = rows \<and> xw_sent w' = xw_sent w"
  by (auto simp: mapped_or_conflict_def op_ok transfer_exec_ok)

lemma pg_GetTransfer_ok:
  "pg_GetTransfer i w = (Inr v, w') \<Longrightarrow> \<exists>x. find (\<lambda>x. xr_id x = i) (xw_transfers w) = Some x \<and> v = transferFromRow x
     \<and> tables w' = tables w \<and> xw_transfers w' = xw_transfers w \<and> xw_sent w' = xw_sent w"
  unfolding pg_GetTransfer_def
  by (drule mappedTransfer_ok) (auto simp: sql_GetRepositoryTransfer_def transfer_read_def split: option.splits)

lemma pg_CanAccept_ok:
  "pg_CanAccept (tf_Destination (transferFromRow x)) actor w = (Inr b, w') \<Longrightarrow>
     b = may_take (tables w) x actor \<and> tables w' = tables w \<and> xw_transfers w' = xw_transfers w \<and> xw_sent w' = xw_sent w"
  by (auto simp: pg_CanAccept_def op_ok transfer_exec_ok sql_CanAcceptRepositoryTransfer_def may_take_def transferFromRow_def
      list_ex_iff split: option.splits)

lemma pg_GetTransferRepository_ok:
  "pg_GetTransferRepository rid w = (Inr repo, w') \<Longrightarrow>
     \<exists>r. find (transferable rid) (repositories (tables w)) = Some r \<and> repo = transfer_repositoryFromRow (rr_repo r)
       \<and> tables w' = tables w \<and> xw_transfers w' = xw_transfers w \<and> xw_sent w' = xw_sent w"
  by (auto simp: pg_GetTransferRepository_def transfer_query_def op_ok transfer_exec_ok sql_GetRepositoryForTransfer_def
      transfer_read_def split: option.splits)

text \<open>An acceptance that is authorized.\<close>

definition acceptable :: "transfer_world \<Rightarrow> uuid \<Rightarrow> did \<Rightarrow> transfer_row \<Rightarrow> bool" where
  "acceptable w i actor x \<longleftrightarrow>
     find (\<lambda>x. xr_id x = i) (xw_transfers w) = Some x \<and> pending_row x \<and> may_take (tables w) x (trim_space actor)
     \<and> (xr_acceptance_started_at x = None \<longrightarrow> xw_instants w (xw_ticks w) < xr_expires_at x)"

lemma AuthorizeAcceptance_ok:
  assumes "AuthorizeAcceptance (transfers_of C) i actor w = (Inr (v, repo), w')"
  shows "\<exists>x r. acceptable w i actor x \<and> v = transferFromRow x \<and> find (transferable (xr_repository_id x)) (repositories (tables w)) = Some r
     \<and> repo = transfer_repositoryFromRow (rr_repo r) \<and> tables w' = tables w \<and> xw_transfers w' = xw_transfers w \<and> xw_sent w' = xw_sent w"
proof -
  obtain v0 w1 where get: "pg_GetTransfer i w = (Inr v0, w1)" and rest: "tf_Status v0 = StatusPending"
    "(let authorized = call (pg_CanAccept (tf_Destination v0) (trim_space actor)) (wrapf ''authorize destination owner'') (\<lambda>allowed.
         fail_if (\<not> allowed) (Sentinel transfer_ErrForbidden) (
         call (pg_GetTransferRepository (tf_RepositoryID v0)) (\<lambda>e. e) (\<lambda>repo. ret (v0, repo))))
      in if tf_AcceptanceStartedAt v0 = None
         then with_now transfer_clock (\<lambda>now. fail_if (\<not> now < tf_ExpiresAt v0) (Sentinel transfer_ErrConflict) authorized)
         else authorized) w1 = (Inr (v, repo), w')"
    using assms unfolding AuthorizeAcceptance_def Let_def transfers_of_simps transfer_store_simps by (auto simp: call_ok fail_if_ok)
  obtain x where x: "find (\<lambda>x. xr_id x = i) (xw_transfers w) = Some x" "v0 = transferFromRow x"
    and w1: "tables w1 = tables w" "xw_transfers w1 = xw_transfers w" "xw_sent w1 = xw_sent w"
    using pg_GetTransfer_ok [OF get] by blast
  have clock: "xw_instants w1 = xw_instants w" "xw_ticks w1 = xw_ticks w"
    using get by (auto simp: pg_GetTransfer_def mappedTransfer_def op_ok transfer_exec_ok)
  obtain w2 w3 w4 r0 where accept: "pg_CanAccept (tf_Destination v0) (trim_space actor) w2 = (Inr True, w3)"
    and steps: "tables w2 = tables w1" "xw_transfers w2 = xw_transfers w1" "xw_sent w2 = xw_sent w1"
    and time: "tf_AcceptanceStartedAt v0 = None \<longrightarrow> xw_instants w1 (xw_ticks w1) < tf_ExpiresAt v0"
    and repo: "pg_GetTransferRepository (tf_RepositoryID v0) w3 = (Inr r0, w4)" "v = v0" "repo = r0" "w' = w4"
    using rest(2) by (cases "tf_AcceptanceStartedAt v0 = None") (auto simp: Let_def op_ok transfer_clock_def)
  note accept' = pg_CanAccept_ok [OF accept [unfolded x(2)]] and repo' = pg_GetTransferRepository_ok [OF repo(1)]
  show ?thesis
    using x w1 clock steps time accept' repo' repo(2-4) rest(1)
    by (auto simp: acceptable_def transferFromRow_def)
qed

section \<open>Handing over\<close>

text \<open>What a completion does to the tables; \<open>a\<close> and \<open>b\<close> are the identifiers of the aliases.\<close>

definition handed_over :: "transfer_row \<Rightarrow> bool \<Rightarrow> instant \<Rightarrow> uuid \<Rightarrow> uuid \<Rightarrow> org_tables \<Rightarrow> org_tables \<Rightarrow> bool" where
  "handed_over x portable now a b t t' \<longleftrightarrow>
     (\<exists>r. find (\<lambda>r. rr_id r = xr_repository_id x) (repositories t) = Some r \<and> route_available t x (rr_repo r)
        \<and> (\<forall>c \<in> set (expected_aliases a b x (rr_repo r)). \<exists>d \<in> set (repository_aliases t').
              ra_key d = ra_key c \<and> ra_RepositoryID d = rr_id r))
     \<and> set (repository_aliases t) \<subseteq> set (repository_aliases t')
     \<and> repositories t' = update_where (\<lambda>s. rr_id s = xr_repository_id x)
          (\<lambda>s. s\<lparr>rr_repo := moved_repository x portable now (rr_repo s)\<rparr>) (repositories t)
     \<and> organization_team_repositories t' =
          delete_where (\<lambda>z. tr_RepositoryID z = xr_repository_id x) (organization_team_repositories t)
     \<and> organization_members t' = organization_members t \<and> owner_routes t' = owner_routes t"

lemma complete_ok:
  assumes run: "mapped_or_conflict (complete_transfer selected portable i a b actor now) w = (Inr v, w')"
    and keys: "keyed xr_id (xw_transfers w)"
  shows "\<exists>x. find (\<lambda>x. xr_id x = i) (xw_transfers w) = Some x \<and> selected x \<and> v = transferFromRow (concluded actor now x)
     \<and> handed_over x portable now a b (tables w) (tables w') \<and> map xr_id (xw_transfers w') = map xr_id (xw_transfers w)
     \<and> xw_sent w' = xw_sent w"
proof -
  obtain y where y: "complete_transfer selected portable i a b actor now (tables w) (xw_transfers w) = Inr (y, tables w', xw_transfers w')"
    "v = transferFromRow y" "xw_sent w' = xw_sent w"
    using mapped_or_conflict_ok [OF run] by blast
  show ?thesis
  proof (rule complete_transfer_row [OF y(1) keys])
    fix x r
    assume f: "find (\<lambda>x. xr_id x = i) (xw_transfers w) = Some x" "selected x" "y = concluded actor now x"
      "find (\<lambda>r. rr_id r = xr_repository_id x) (repositories (tables w)) = Some r"
      "route_available (tables w) x (rr_repo r)"
      "set (repository_aliases (tables w)) \<subseteq> set (repository_aliases (tables w'))"
      "\<forall>c \<in> set (expected_aliases a b x (rr_repo r)). \<exists>d \<in> set (repository_aliases (tables w')).
         ra_key d = ra_key c \<and> ra_RepositoryID d = rr_id r"
      "repositories (tables w') = update_where (\<lambda>s. rr_id s = xr_repository_id x)
         (\<lambda>s. s\<lparr>rr_repo := moved_repository x portable now (rr_repo s)\<rparr>) (repositories (tables w))"
      "organization_team_repositories (tables w') =
         delete_where (\<lambda>z. tr_RepositoryID z = xr_repository_id x) (organization_team_repositories (tables w))"
      "organization_members (tables w') = organization_members (tables w)" "owner_routes (tables w') = owner_routes (tables w)"
      "xw_transfers w' = update_where (\<lambda>z. xr_id z = i \<and> xr_repository_id z = xr_repository_id x) (concluded actor now) (xw_transfers w)"
    have "handed_over x portable now a b (tables w) (tables w')"
      unfolding handed_over_def using f by blast
    moreover have "map xr_id (xw_transfers w') = map xr_id (xw_transfers w)"
      by (simp add: f update_where_def concluded_def)
    ultimately show ?thesis using f(1-3) y(2,3) by blast
  qed
qed

lemma complete_error:
  "mapped_or_conflict q w = (Inl e, w') \<Longrightarrow> deal w' = deal w"
  by (auto simp: mapped_or_conflict_def call_apply ret_apply transfer_exec_def Let_def deal_def split: prod.splits sum.splits if_splits)

text \<open>A transfer that is completed by a request that started from \<open>w0\<close>.\<close>

definition conclusion :: "transfer_config \<Rightarrow> uuid \<Rightarrow> did \<Rightarrow> transfer_row \<Rightarrow> transfer_world \<Rightarrow> transfer \<Rightarrow> transfer_world \<Rightarrow> bool" where
  "conclusion C i actor x w0 v w \<longleftrightarrow>
     (\<exists>x' portable now. xr_terms x' = xr_terms x \<and> (if portable then portable_ready x' else private_ready x')
        \<and> v = transferFromRow (concluded actor now x')
        \<and> handed_over x' portable now (xc_NewSHA1 C i ''source-owner-alias'') (xc_NewSHA1 C i ''source-owner-did-alias'')
             (tables w0) (tables w)
        \<and> map xr_id (xw_transfers w) = map xr_id (xw_transfers w0))"

lemma find_map: "find p (map f xs) = map_option f (find (p \<circ> f) xs)"
  by (induction xs) auto

lemma triple_complete:
  assumes keys: "keyed xr_id (xw_transfers w0)" and x: "find (\<lambda>x. xr_id x = i) (xw_transfers w0) = Some x"
  shows "triple (\<lambda>w. deal w = deal w0)
       (pg_CompleteTransfer i (xc_NewSHA1 C i ''source-owner-alias'') (xc_NewSHA1 C i ''source-owner-did-alias'') actor now)
       (conclusion C i actor x w0) (\<lambda>w. deal w = deal w0)" (is ?portable)
    and "triple (\<lambda>w. deal w = deal w0)
       (pg_CompletePrivate i (xc_NewSHA1 C i ''source-owner-alias'') (xc_NewSHA1 C i ''source-owner-did-alias'') actor now)
       (conclusion C i actor x w0) (\<lambda>w. deal w = deal w0)" (is ?private)
proof -
  have "triple (\<lambda>w. deal w = deal w0)
      (mapped_or_conflict (complete_transfer (if portable then portable_ready else private_ready) portable i
         (xc_NewSHA1 C i ''source-owner-alias'') (xc_NewSHA1 C i ''source-owner-did-alias'') actor now))
      (conclusion C i actor x w0) (\<lambda>w. deal w = deal w0)" for portable
  proof (rule tripleI)
    fix w v w'
    assume same: "deal w = deal w0"
      and run: "mapped_or_conflict (complete_transfer (if portable then portable_ready else private_ready) portable i
         (xc_NewSHA1 C i ''source-owner-alias'') (xc_NewSHA1 C i ''source-owner-did-alias'') actor now) w = (Inr v, w')"
    have terms: "tables w = tables w0" "map xr_terms (xw_transfers w) = map xr_terms (xw_transfers w0)"
      using same by (simp_all add: deal_def)
    have ids: "map xr_id (xw_transfers w) = map xr_id (xw_transfers w0)"
      using arg_cong [OF terms(2), of "map xr_id"] by (simp only: map_map o_def xr_terms_fields)
    obtain x' where x': "find (\<lambda>x. xr_id x = i) (xw_transfers w) = Some x'"
      "(if portable then portable_ready else private_ready) x'" "v = transferFromRow (concluded actor now x')"
      "handed_over x' portable now (xc_NewSHA1 C i ''source-owner-alias'') (xc_NewSHA1 C i ''source-owner-did-alias'') (tables w) (tables w')"
      "map xr_id (xw_transfers w') = map xr_id (xw_transfers w)"
      using complete_ok [OF run] keys ids by auto
    have "find (\<lambda>x. xr_id x = i) (map xr_terms (xw_transfers w)) = Some (xr_terms x')"
      "find (\<lambda>x. xr_id x = i) (map xr_terms (xw_transfers w0)) = Some (xr_terms x)"
      using x x'(1) by (simp_all add: find_map o_def)
    then have "xr_terms x' = xr_terms x" using terms(2) by simp
    then show "conclusion C i actor x w0 v w'"
      unfolding conclusion_def using x' terms(1) ids by (intro exI [of _ x'] exI [of _ portable] exI [of _ now]) (auto split: if_splits)
  qed (use complete_error in fastforce)
  from this [of True] this [of False] show ?portable ?private
    by (simp_all add: pg_CompleteTransfer_def pg_CompletePrivate_def sql_CompleteRepositoryTransfer_def
        sql_CompletePrivateRepositoryTransfer_def)
qed

lemma triple_deal: "frames deal m \<Longrightarrow> triple (\<lambda>w. deal w = deal w0) m (\<lambda>_ w. deal w = deal w0) (\<lambda>w. deal w = deal w0)"
  by (rule tripleI) (auto dest: framesD)

lemma triple_deref: "(\<And>w. P w \<Longrightarrow> E w) \<Longrightarrow> (\<And>x. triple P (k x) Q E) \<Longrightarrow> triple P (deref p k) Q E"
  by (cases p) (auto simp: deref_def intro: triple_raise)

lemma Accept_outcome:
  assumes keys: "keyed xr_id (xw_transfers w)" and run: "transfer_Accept (transfers_of C) i actor w = (res, w')"
  shows "case res of
       Inl _ \<Rightarrow> deal w' = deal w
     | Inr v \<Rightarrow> \<exists>x q. acceptable w i actor x \<and> conclusion C i actor x w v w'
         \<and> find (transferable (xr_repository_id x)) (repositories (tables w)) = Some q"
proof -
  obtain r w1 where auth: "AuthorizeAcceptance (transfers_of C) i actor w = (r, w1)" by force
  have same: "deal w1 = deal w" by (rule framesD [OF frames_accepting(1) auth])
  show ?thesis
  proof (cases r)
    case (Inl e)
    then show ?thesis using run auth same by (cases res) (simp_all add: transfer_Accept_def call_apply)
  next
    case (Inr vr)
    obtain v repo where vr: "vr = (v, repo)" by force
    obtain x q where x: "acceptable w i actor x"
      and q: "find (transferable (xr_repository_id x)) (repositories (tables w)) = Some q"
      using AuthorizeAcceptance_ok [OF auth [unfolded Inr vr]] by blast
    then have found: "find (\<lambda>x. xr_id x = i) (xw_transfers w) = Some x" by (simp add: acceptable_def)
    define rest where "rest = call (ts_CanComplete (tv_store (transfers_of C)) i) (wrapf ''check destination route'') (\<lambda>available.
      fail_if (\<not> available) (Sentinel transfer_ErrConflict) (
      with_now (tv_clock (transfers_of C)) (\<lambda>now.
      call (if tf_AcceptanceStartedAt v = None then ts_StartAcceptance (tv_store (transfers_of C)) i now else ret v)
        (wrapf ''start transfer acceptance'') (\<lambda>v.
      deref (tf_AcceptanceStartedAt v) (\<lambda>workflowAt.
      if tf_SourceRepository v = None
      then ts_CompletePrivate (tv_store (transfers_of C)) i (tv_NewSHA1 (transfers_of C) i ''source-owner-alias'')
             (tv_NewSHA1 (transfers_of C) i ''source-owner-did-alias'') actor now
      else accept_portable (transfers_of C) i repo workflowAt actor now v)))))"
    have "triple (\<lambda>u. deal u = deal w) (accept_portable (transfers_of C) i repo workflowAt actor now v)
        (conclusion C i actor x w) (\<lambda>u. deal u = deal w)" for workflowAt now v
      unfolding accept_portable_def transfers_of_simps transfer_store_simps
      by (cases "tf_Proposal v") (auto intro!: triple_raise triple_call [OF triple_deal] triple_call [OF triple_complete(1) [OF keys found]]
        op_frames frames_accepting triple_ret)
    then have triple: "triple (\<lambda>u. deal u = deal w) rest (conclusion C i actor x w) (\<lambda>u. deal u = deal w)"
      unfolding rest_def transfers_of_simps transfer_store_simps
      by (intro triple_call [OF triple_deal] triple_fail_if triple_with_now triple_deref triple_if op_frames
          triple_complete(2) [OF keys found]) (auto simp: keeps_clock_def transfer_clock_def deal_def)
    have "rest w1 = (res, w')"
      using run auth Inr vr by (simp add: transfer_Accept_def call_apply rest_def)
    then show ?thesis
      using triple_Inl [OF triple same] triple_Inr [OF triple same] x q by (cases res) auto
  qed
qed

section \<open>Offering\<close>

lemma triple_pure_fact: "(P \<Longrightarrow> triple A m Q E) \<Longrightarrow> triple (\<lambda>w. A w \<and> P) m Q E"
  by (auto simp: triple_def)

lemma triple_view: "frames deal m \<Longrightarrow> triple (\<lambda>w. I (deal w)) m (\<lambda>_ w. I (deal w)) (\<lambda>w. I (deal w))"
  by (rule tripleI) (auto dest: framesD)

lemma keeps_clock_deal: "keeps_clock (\<lambda>w. I (deal w)) transfer_clock"
  by (simp add: keeps_clock_def transfer_clock_def deal_def)

lemma triple_deal_error:
  "frames deal m \<Longrightarrow> (\<And>u. deal u = deal w0 \<Longrightarrow> E u) \<Longrightarrow>
     triple (\<lambda>u. deal u = deal w0) m (\<lambda>_ u. deal u = deal w0) E"
  by (rule triple_weaken [OF triple_deal])

definition offered :: "transfer_world \<Rightarrow> repository \<Rightarrow> did \<Rightarrow> org_tables \<times> transfer_row list \<Rightarrow> bool" where
  "offered w0 v actor d \<longleftrightarrow>
     d = deal w0 \<or> may_offer (tables w0) (repo_ID v) actor \<and> (\<exists>i alias destination now.
       d = (tables w0, map xr_terms (xw_transfers w0)
              @ [xr_terms (transfer_columns (proposed_transfer i v alias destination actor now))]))"

lemma triple_CanInitiate:
  "triple (\<lambda>w. deal w = deal w0) (pg_CanInitiate rid actor)
     (\<lambda>allowed w. deal w = deal w0 \<and> allowed = may_offer (tables w0) rid actor) (\<lambda>w. deal w = deal w0)"
proof (rule tripleI)
  show "deal w' = deal w0 \<and> allowed = may_offer (tables w0) rid actor"
    if "deal w = deal w0" "pg_CanInitiate rid actor w = (Inr allowed, w')" for w allowed w'
    using that framesD [OF frames_transfer_store(3) that(2)]
    by (auto simp: pg_CanInitiate_def op_ok transfer_exec_ok sql_CanInitiateRepositoryTransfer_def may_offer_def list_ex_iff deal_def)
qed (use framesD [OF frames_transfer_store(3)] in fastforce)

lemma triple_create:
  assumes "may_offer (tables w0) (repo_ID v) actor"
  shows "triple (\<lambda>w. deal w = deal w0) (create_transfer (transfers_of C) v alias destination actor)
     (\<lambda>_ w. offered w0 v actor (deal w)) (\<lambda>w. offered w0 v actor (deal w))"
proof -
  have create: "triple (\<lambda>w. deal w = deal w0) (pg_CreateTransfer (proposed_transfer i v alias destination actor now))
      (\<lambda>_ w. offered w0 v actor (deal w)) (\<lambda>w. offered w0 v actor (deal w))" for i now
  proof (rule tripleI)
    let ?x = "transfer_columns (proposed_transfer i v alias destination actor now)"
    fix w x w' assume same: "deal w = deal w0" and "pg_CreateTransfer (proposed_transfer i v alias destination actor now) w = (Inr x, w')"
    then obtain y where "sql_CreateRepositoryTransfer ?x (tables w) (xw_transfers w) = Inr (y, tables w', xw_transfers w')"
      unfolding pg_CreateTransfer_def by (blast dest: mappedTransfer_ok)
    then have "tables w' = tables w" "xw_transfers w' = xw_transfers w @ [?x]"
      by (auto simp: sql_CreateRepositoryTransfer_def split: if_splits)
    then show "offered w0 v actor (deal w')"
      using same assms unfolding offered_def by (auto simp: deal_def)
  next
    fix w e w' assume "deal w = deal w0" "pg_CreateTransfer (proposed_transfer i v alias destination actor now) w = (Inl e, w')"
    then show "offered w0 v actor (deal w')"
      by (auto simp: offered_def pg_CreateTransfer_def mappedTransfer_def call_apply ret_apply transfer_exec_def Let_def deal_def
          split: prod.splits sum.splits if_splits)
  qed
  have same: "offered w0 v actor (deal w)" if "deal w = deal w0" for w using that by (simp add: offered_def)
  show ?thesis
    unfolding create_transfer_def transfers_of_simps transfer_store_simps
    by (intro triple_call [OF triple_deal_error] triple_with_now keeps_clock_deal
        triple_call [OF create] triple_view frames_accepting deal_outside same)
qed

lemma Initiate_outcome:
  assumes "transfer_Initiate (transfers_of C) v actorDID alias w = (res, w')"
  shows "offered w v (trim_space actorDID) (deal w')"
proof -
  let ?actor = "trim_space actorDID"
  have same: "offered w v ?actor (deal u)" if "deal u = deal w" for u using that by (simp add: offered_def)
  have unchanged: "triple (\<lambda>u. deal u = deal w) m (\<lambda>_ u. offered w v ?actor (deal u)) (\<lambda>u. offered w v ?actor (deal u))"
    if "frames deal m" for m :: "(transfer_world, transfer) op"
    by (rule triple_weaken [OF triple_deal [OF that]]) (auto intro: same)
  have resume: "triple (\<lambda>u. deal u = deal w) (resume_pending (transfers_of C) destination pending)
      (\<lambda>_ u. offered w v ?actor (deal u)) (\<lambda>u. offered w v ?actor (deal u))" for destination pending
    unfolding resume_pending_def transfers_of_simps
    by (rule unchanged) (intro frames_transfer_clock op_frames frames_accepting)
  have pending: "triple (\<lambda>u. deal u = deal w)
      (attempt (pg_GetPending (repo_ID v))
         (\<lambda>e. fail_if (\<not> errors_is e transfer_ErrNotFound) (wrapf ''get pending transfer'' e)
                (create_transfer (transfers_of C) v sourceAlias destination ?actor))
         (resume_pending (transfers_of C) destination))
      (\<lambda>_ u. offered w v ?actor (deal u)) (\<lambda>u. offered w v ?actor (deal u))"
    if "may_offer (tables w) (repo_ID v) ?actor" for sourceAlias destination
    by (intro triple_attempt [OF triple_deal] frames_transfer_store triple_fail_if triple_create that resume same)
  have can: "triple (\<lambda>u. deal u = deal w) (pg_CanInitiate (repo_ID v) ?actor)
      (\<lambda>allowed u. deal u = deal w \<and> allowed = may_offer (tables w) (repo_ID v) ?actor) (\<lambda>u. offered w v ?actor (deal u))"
    by (rule triple_weaken [OF triple_CanInitiate]) (auto intro: same)
  have "triple (\<lambda>u. deal u = deal w) (transfer_Initiate (transfers_of C) v actorDID alias)
      (\<lambda>_ u. offered w v ?actor (deal u)) (\<lambda>u. offered w v ?actor (deal u))"
    unfolding transfer_Initiate_def Let_def transfers_of_simps transfer_store_simps
    by (intro triple_fail_if triple_call [OF can] triple_pure_fact triple_call [OF triple_deal_error]
        frames_transfer_store pending same) simp_all
  from triple_Inl [OF this] triple_Inr [OF this] assms show ?thesis by (cases res) auto
qed

section \<open>The example\<close>

text \<open>A repository of an account that is offered to another account, or to an organization of which the account is an owner.\<close>

definition offered_repository :: repository where
  "offered_repository =
     \<lparr>repo_ID = 1, repo_OwnerDID = ''did:a'', repo_OrganizationID = None, repo_OrganizationSlug = [],
      repo_Slug = ''lib'', repo_DisplayName = [], repo_Description = [], repo_Visibility = Repo_Public,
      repo_State = StateActive, repo_DefaultBranch = ''main'', repo_StorageKey = ''k'', repo_ATURI = ''at:lib'', repo_ATCID = ''c'',
      repo_ForkedFrom = Some \<lparr>fork_URI = ''at:up'', fork_CID = ''u'', fork_GitHTTPS = [], fork_LocalRepositoryID = None\<rparr>,
      repo_TransferredFrom = None, repo_ForkCount = 0,
      repo_ViewerCanAdmin = False, repo_ArchivedAt = None, repo_CreatedAt = 1, repo_UpdatedAt = 1\<rparr>"

definition offer :: "uuid \<Rightarrow> did \<Rightarrow> uuid option \<Rightarrow> transfer_row" where
  "offer i account organization =
     \<lparr>xr_id = i, xr_repository_id = 1, xr_source_owner_did = ''did:a'', xr_source_organization_id = None,
      xr_source_owner_alias = ''ada'', xr_source_repository = Some \<lparr>ti_URI = ''at:lib'', ti_CID = ''c''\<rparr>,
      xr_destination_owner_did = account, xr_destination_organization_id = organization,
      xr_destination_owner_alias = (if organization = None then ''bee'' else ''acme''), xr_initiated_by_did = ''did:a'',
      xr_accepted_by_did = None, xr_proposal = Some \<lparr>ti_URI = ''at:p'', ti_CID = ''cp''\<rparr>, xr_successor = None, xr_acceptance = None,
      xr_source_redirect_cid = None, xr_status = StatusPending, xr_created_at = 2, xr_expires_at = 100,
      xr_acceptance_started_at = None, xr_accepted_at = None, xr_cancelled_at = None\<rparr>"

definition offering_tables :: org_tables where
  "offering_tables = example_tables
     \<lparr>owner_routes := [(''acme'', Route_Organization 1), (''ada'', Route_Account ''did:a''), (''bee'', Route_Account ''did:b'')],
      organization_team_repositories := [\<lparr>tr_TeamID = 4, tr_RepositoryID = 1, tr_RepositorySlug = [], tr_Role = RepositoryRoleRead, tr_CreatedAt = 1, tr_UpdatedAt = 1\<rparr>],
      repositories := [\<lparr>rr_repo = offered_repository, rr_deleted_at = None\<rparr>]\<rparr>"

definition offering :: "transfer_row \<Rightarrow> bool list \<Rightarrow> transfer_world" where
  "offering x failures =
     \<lparr>tables = offering_tables, collation = (\<lambda>_ _. True), faults = failures, xw_transfers = [x],
      xw_instants = (\<lambda>n. int n + 10), xw_ticks = 0, xw_ids = (\<lambda>n. Inr (of_nat n + 50)), xw_ids_used = 0,
      xw_replies = (\<lambda>n. Inr \<lparr>at_URI = ''at:r'', at_CID = ''cr''\<rparr>), xw_sent = []\<rparr>"

definition example_transfers :: transfer_config where
  "example_transfers = \<lparr>xc_pick = hd, xc_endpoints = (\<lambda>v. (''w'', ''h'', ''s'')), xc_NewSHA1 = (\<lambda>i s. i + of_nat (length s))\<rparr>"

lemma offering_keyed [simp]: "keyed xr_id (xw_transfers (offering x failures))"
  by (simp add: offering_def)

lemma run_returns: "\<not> sum.isl (fst run) \<Longrightarrow> \<exists>x. run = (Inr x, snd run)"
  by (cases run; cases "fst run") auto

lemma offer_ok: "transfers_ok [offer i account organization]"
  by (simp add: transfers_ok_def offer_def transfer_checks_def)

section \<open>The decision record\<close>

text \<open>
  C6. Repository transfers implement the abstract machine of the decision record: every statement the store runs that returns
  a row is a step of the machine on the transfers and the owners the tables show, whatever requests the statements belong
  to and however these interleave. At most one transfer of a repository is undecided, and the table's constraints hold.
\<close>

theorem statements_implement_the_decision_record:
  assumes "transfers_ok rows" and "run_statement s t rows = Inr (y, t', rows')"
  shows "transfers_ok rows' \<and> decides (statement_event s) (abs_decisions t rows) (abs_decisions t' rows')"
  using assms by (rule statement_decides)

theorem statements_implement_the_decision_record_witness:
  "\<exists>y t rows. run_statement (Start_Statement 7 10) offering_tables [offer 7 ''did:b'' None] = Inr (y, t, rows)
     \<and> decides (Begin 7) (abs_decisions offering_tables [offer 7 ''did:b'' None]) (abs_decisions t rows)"
proof -
  obtain y t rows where run: "run_statement (Start_Statement 7 10) offering_tables [offer 7 ''did:b'' None] = Inr (y, t, rows)"
    by (simp add: sql_StartRepositoryTransferAcceptance_def update_transfer_def offer_def transfer_checks_def)
  show ?thesis using statements_implement_the_decision_record [OF offer_ok run] run by auto
qed

text \<open>Statements of any requests, one after the other, while others change the rest of the tables.\<close>

inductive transfer_history :: "org_tables \<times> transfer_row list \<Rightarrow> org_tables \<times> transfer_row list \<Rightarrow> bool" where
  Start: "transfer_history c c"
| Statement: "transfer_history c (t, rows) \<Longrightarrow> run_statement s t rows = Inr (y, t', rows') \<Longrightarrow> transfer_history c (t', rows')"
| Elsewhere: "transfer_history c (t, rows) \<Longrightarrow> transfer_history c (t', rows)"

definition outcome_of :: "transfer_row \<Rightarrow> transfer_row \<Rightarrow> bool" where
  "outcome_of x y \<longleftrightarrow> xr_id y = xr_id x \<and> later_phase (phase_of x) (phase_of y)
     \<and> (\<exists>p. decision_of y = (decision_of x)\<lparr>dc_phase := p\<rparr>)"

lemma statement_outcomes:
  assumes ok: "transfers_ok rows" and run: "run_statement s t rows = Inr (y, t', rows')" and x: "x \<in> set rows"
  shows "\<exists>z \<in> set rows'. outcome_of x z"
proof -
  have "find (\<lambda>z. xr_id z = xr_id x) rows = Some x"
    using ok x by (intro keyed_find [where k = xr_id]) (auto simp: transfers_ok_def)
  then have "ds_transfer (abs_decisions t rows) (xr_id x) = Some (decision_of x)" by (simp add: abs_decisions_def)
  then obtain p where p: "ds_transfer (abs_decisions t' rows') (xr_id x) = Some ((decision_of x)\<lparr>dc_phase := p\<rparr>)"
    "later_phase (dc_phase (decision_of x)) p"
    using statement_decides [OF ok run] by (blast dest: decides_later)
  then obtain z where z: "find (\<lambda>z. xr_id z = xr_id x) rows' = Some z" "decision_of z = (decision_of x)\<lparr>dc_phase := p\<rparr>"
    by (auto simp: abs_decisions_def)
  have "phase_of z = p" using arg_cong [OF z(2), of dc_phase] by (simp add: decision_of_def)
  then show ?thesis using find_Some_in [OF z(1)] z(2) p(2) by (auto simp: outcome_of_def decision_of_def)
qed

lemma outcome_refl [simp]: "outcome_of x x"
  by (auto simp: outcome_of_def intro: exI [of _ "dc_phase (decision_of x)"])

lemma outcome_trans: "outcome_of x y \<Longrightarrow> outcome_of y z \<Longrightarrow> outcome_of x z"
  by (auto simp: outcome_of_def intro: later_phase_trans)

text \<open>
  C9. A transfer is decided once: after any statements of any requests, a transfer that was withdrawn is withdrawn, one that
  was concluded is concluded, one whose acceptance had begun was never withdrawn, and the repository, the source and the
  destination of every transfer are what they were.
\<close>

theorem transfers_are_decided_once:
  assumes "transfer_history (t, rows) (t', rows')" and "transfers_ok rows"
  shows "transfers_ok rows' \<and> (\<forall>x \<in> set rows. \<exists>y \<in> set rows'. outcome_of x y)"
  using assms
proof (induction "(t, rows)" "(t', rows')" arbitrary: t' rows' rule: transfer_history.induct)
  case Start
  then show ?case using outcome_refl by blast
next
  case (Statement u us s y u' us')
  then show ?case using statement_decides statement_outcomes outcome_trans by meson
next
  case (Elsewhere u us u')
  then show ?case by blast
qed

theorem transfers_are_decided_once_witness:
  "\<exists>t rows. transfer_history (offering_tables, [offer 7 ''did:b'' None]) (t, rows) \<and> (\<exists>y \<in> set rows. outcome_of (offer 7 ''did:b'' None) y)"
proof -
  obtain y t rows where run: "run_statement (Start_Statement 7 10) offering_tables [offer 7 ''did:b'' None] = Inr (y, t, rows)"
    by (simp add: sql_StartRepositoryTransferAcceptance_def update_transfer_def offer_def transfer_checks_def)
  note history = transfer_history.Statement [OF transfer_history.Start run]
  show ?thesis using transfers_are_decided_once [OF history offer_ok] history by auto
qed

section \<open>Both owners take part\<close>

text \<open>Only the repository of the transfer changes hands, to the destination.\<close>

definition only_moved :: "transfer_row \<Rightarrow> repo_row list \<Rightarrow> repo_row list \<Rightarrow> bool" where
  "only_moved x before after \<longleftrightarrow>
     (\<forall>s' \<in> set after. \<exists>s \<in> set before. rr_id s' = rr_id s \<and>
        (if rr_id s = xr_repository_id x
         then owner_key_of (rr_repo s') = (xr_destination_owner_did x, xr_destination_organization_id x) else s' = s))"

lemma handed_over_only_moved:
  "handed_over x' portable now a b t t' \<Longrightarrow> xr_terms x' = xr_terms x \<Longrightarrow> only_moved x (repositories t) (repositories t')"
  by (fastforce simp: handed_over_def only_moved_def in_update_where dest: xr_terms_keys)

lemma same_deal:
  assumes "deal w' = deal w" and y: "y \<in> set (xw_transfers w')"
  shows "xr_id y \<in> xr_id ` set (xw_transfers w)"
proof -
  have "map xr_terms (xw_transfers w') = map xr_terms (xw_transfers w)" using assms(1) by (simp add: deal_def)
  moreover have "xr_terms y \<in> set (map xr_terms (xw_transfers w'))" using y by simp
  ultimately have "xr_terms y \<in> set (map xr_terms (xw_transfers w))" by (simp only:)
  then obtain z where "z \<in> set (xw_transfers w)" "xr_terms y = xr_terms z" by auto
  then show ?thesis using xr_terms_keys [of y z] by simp
qed

lemma offered_tables: "offered w v actor (deal w') \<Longrightarrow> tables w' = tables w"
  by (auto simp: offered_def deal_def)

lemma offered_transfers:
  assumes "offered w v actor (deal w')" and y: "y \<in> set (xw_transfers w')"
  shows "xr_id y \<in> xr_id ` set (xw_transfers w)
     \<or> may_offer (tables w) (repo_ID v) actor \<and> xr_repository_id y = repo_ID v \<and> xr_initiated_by_did y = actor"
  using assms(1) unfolding offered_def
proof (elim disjE conjE exE)
  fix i alias' destination now
  let ?x = "transfer_columns (proposed_transfer i v alias' destination actor now)"
  assume may: "may_offer (tables w) (repo_ID v) actor"
    and "deal w' = (tables w, map xr_terms (xw_transfers w) @ [xr_terms ?x])"
  then have "map xr_terms (xw_transfers w') = map xr_terms (xw_transfers w) @ [xr_terms ?x]" by (simp add: deal_def)
  moreover have "xr_terms y \<in> set (map xr_terms (xw_transfers w'))" using y by simp
  ultimately have "xr_terms y \<in> set (map xr_terms (xw_transfers w) @ [xr_terms ?x])" by (simp only:)
  then consider z where "z \<in> set (xw_transfers w)" "xr_terms y = xr_terms z" | "xr_terms y = xr_terms ?x" by auto
  then show ?thesis
  proof cases
    case 1 then show ?thesis using xr_terms_keys by blast
  next
    case 2
    have "xr_repository_id ?x = repo_ID v" "xr_initiated_by_did ?x = actor"
      by (simp_all add: transfer_columns_def proposed_transfer_def)
    then show ?thesis using xr_terms_keys [OF 2] may by simp
  qed
qed (use y same_deal in blast)

text \<open>
  C7. Neither owner moves a repository alone. Whatever a request for a transfer finds and whatever fails during it:
  the repositories change only in an acceptance, of a pending transfer, by the destination account or an owner of the
  destination organization, which had begun or begins before the transfer expires, and only the repository of the transfer
  changes hands, to its destination; and a new transfer comes only from a request of an account that owns the repository, or
  owns its organization, and names that account and that repository.
\<close>

theorem transfers_need_both_owners:
  assumes run: "serve_transfer C r w = (res, w')" and keys: "keyed xr_id (xw_transfers w)"
  shows "(repositories (tables w') = repositories (tables w) \<or>
       (\<exists>i actor x. r = Accept_Request i actor \<and> acceptable w i actor x
          \<and> only_moved x (repositories (tables w)) (repositories (tables w'))))
    \<and> (\<forall>y \<in> set (xw_transfers w'). xr_id y \<in> xr_id ` set (xw_transfers w) \<or>
       (\<exists>v actor alias. r = Initiate_Request v actor alias \<and> may_offer (tables w) (repo_ID v) (trim_space actor)
          \<and> xr_repository_id y = repo_ID v \<and> xr_initiated_by_did y = trim_space actor))"
proof -
  have same: ?thesis if "deal w' = deal w"
    using same_deal [OF that] that by (auto simp: deal_def)
  show ?thesis
  proof (cases r)
    case (Initiate_Request v actor route)
    then obtain res0 where "transfer_Initiate (transfers_of C) v actor route w = (res0, w')"
      using run by (auto simp: call_apply ret_apply split: prod.splits sum.splits)
    note offer = Initiate_outcome [OF this]
    show ?thesis using offered_tables [OF offer] offered_transfers [OF offer] Initiate_Request by auto
  next
    case (Accept_Request i actor)
    then obtain res0 where "transfer_Accept (transfers_of C) i actor w = (res0, w')"
      using run by (auto simp: call_apply ret_apply split: prod.splits sum.splits)
    note outcome = Accept_outcome [OF keys this]
    show ?thesis
    proof (cases res0)
      case (Inr v)
      then obtain x where x: "acceptable w i actor x" "conclusion C i actor x w v w'" using outcome by auto
      then have "only_moved x (repositories (tables w)) (repositories (tables w'))"
        "map xr_id (xw_transfers w') = map xr_id (xw_transfers w)"
        by (auto simp: conclusion_def intro: handed_over_only_moved)
      then show ?thesis using x(1) Accept_Request by (metis image_eqI image_set)
    qed (use outcome same in simp)
  qed (use run same framesD [OF frames_requests(1)] framesD [OF frames_requests(2)] framesD [OF frames_requests(3)] in
      \<open>auto simp: call_apply ret_apply split: prod.splits sum.splits\<close>)
qed

theorem transfers_need_both_owners_witness:
  "\<exists>x. acceptable (offering (offer 7 ''did:b'' None) []) 7 ''did:b'' x
     \<and> only_moved x (repositories offering_tables)
         (repositories (tables (snd (serve_transfer example_transfers (Accept_Request 7 ''did:b'') (offering (offer 7 ''did:b'' None) [])))))"
proof -
  let ?run = "serve_transfer example_transfers (Accept_Request 7 ''did:b'') (offering (offer 7 ''did:b'' None) [])"
  have "map (\<lambda>r. repo_OwnerDID (rr_repo r)) (repositories (tables (snd ?run)))
      \<noteq> map (\<lambda>r. repo_OwnerDID (rr_repo r)) (repositories (tables (offering (offer 7 ''did:b'' None) [])))" by code_simp
  then have "repositories (tables (snd ?run)) \<noteq> repositories (tables (offering (offer 7 ''did:b'' None) []))" by metis
  then show ?thesis
    using transfers_need_both_owners [of example_transfers "Accept_Request 7 ''did:b''" _ "fst ?run" "snd ?run", OF _ offering_keyed]
    by (simp add: offering_def)
qed

end
