(* ===== verification/Transfer_Acceptance.thy ===== *)
theory Transfer_Acceptance imports Transfer_Properties Repo_Service Repo_Endpoints begin

text \<open>
  What an acceptance publishes and stores: a retry goes on where the request before it stopped. What a
  completed transfer leaves behind: its owner, its former routes and its records.
\<close>

section \<open>The plan of an acceptance\<close>

text \<open>
  The records an acceptance publishes, by what they are and where they go: the author, and for repository records
  the identifier that makes the key.
\<close>

datatype acceptance_record = The_Successor did uuid | The_Acceptance did | The_Redirect did uuid | No_Part

definition record_of :: "transfer_sent \<Rightarrow> acceptance_record" where
  "record_of m =
     (case m of
        Sent_Repository p \<Rightarrow>
          if rpub_TransferredTo p = None then The_Successor (rpub_OwnerDID p) (rpub_ID p)
          else The_Redirect (rpub_OwnerDID p) (rpub_ID p)
      | Sent_Acceptance a \<Rightarrow> The_Acceptance (ap_ActorDID a)
      | _ \<Rightarrow> No_Part)"

definition records_left :: "did \<Rightarrow> did \<Rightarrow> uuid \<Rightarrow> bool \<Rightarrow> bool \<Rightarrow> bool \<Rightarrow> acceptance_record list" where
  "records_left destination source rid successor acceptance redirect =
     (if successor then [The_Successor destination rid] else [])
     @ (if acceptance then [The_Acceptance destination] else [])
     @ (if redirect then [The_Redirect source rid] else [])"

definition missing_records :: "transfer_row \<Rightarrow> acceptance_record list" where
  "missing_records x =
     records_left (xr_destination_owner_did x) (xr_source_owner_did x) (xr_repository_id x)
       (xr_successor x = None) (xr_acceptance x = None)
       (xr_source_redirect_cid x = None \<or> xr_source_redirect_cid x = Some [])"

definition row_at :: "uuid \<Rightarrow> transfer_world \<Rightarrow> transfer_row option" where
  "row_at i w = find (\<lambda>x. xr_id x = i) (xw_transfers w)"

text \<open>
  \<open>done_so_far\<close>: the records that are stored are those that were published. \<open>nearly\<close>: perhaps all but the last.
\<close>

definition done_so_far :: "uuid \<Rightarrow> transfer_world \<Rightarrow> transfer_row \<Rightarrow> transfer_row \<Rightarrow> transfer_world \<Rightarrow> bool" where
  "done_so_far i w0 x0 x w \<longleftrightarrow>
     keyed xr_id (xw_transfers w) \<and> row_at i w = Some x
     \<and> (\<exists>ms. xw_sent w = xw_sent w0 @ ms \<and> missing_records x0 = map record_of ms @ missing_records x)"

definition nearly :: "uuid \<Rightarrow> transfer_world \<Rightarrow> transfer_row \<Rightarrow> transfer_world \<Rightarrow> bool" where
  "nearly i w0 x0 w \<longleftrightarrow>
     (\<exists>x ms. row_at i w = Some x \<and> xw_sent w = xw_sent w0 @ ms
        \<and> (missing_records x0 = map record_of ms @ missing_records x
           \<or> ms \<noteq> [] \<and> missing_records x0 = map record_of (butlast ms) @ missing_records x
              \<and> (\<exists>ks. missing_records x = record_of (last ms) # ks)))"

definition all_sent :: "uuid \<Rightarrow> transfer_world \<Rightarrow> transfer_row \<Rightarrow> transfer_world \<Rightarrow> bool" where
  "all_sent i w0 x0 w \<longleftrightarrow> (\<exists>ms. xw_sent w = xw_sent w0 @ ms \<and> map record_of ms = missing_records x0)"

section \<open>One stage\<close>

definition sent_and_stored :: "transfer_world \<Rightarrow> transfer_sent list \<times> transfer_row list" where
  "sent_and_stored w = (xw_sent w, xw_transfers w)"

lemma stored_queries [op_frames]:
  "frames sent_and_stored (pg_exec s :: (transfer_world, 'a) op)" "frames sent_and_stored (pg_ResolveOrganizationIdentity oid)"
proof -
  show "frames sent_and_stored (pg_exec s :: (transfer_world, 'b) op)" for s :: "'b sql"
    by (simp add: frames_def sent_and_stored_def pg_exec_def Let_def split: sum.split prod.split)
  then show "frames sent_and_stored (pg_ResolveOrganizationIdentity oid)"
    unfolding pg_ResolveOrganizationIdentity_def by (intro op_frames)
qed

lemma call_call_ret: "call (call m (\<lambda>e. e) (\<lambda>a. ret (c a))) h k = call m h (\<lambda>a. k (c a))"
  by (rule ext) (simp add: call_apply ret_apply split: prod.split sum.split)

lemma call_ret_left: "call (ret a) h k = k a"
  by (rule ext) (simp add: call_apply ret_apply)

lemma update_at:
  assumes keys: "keyed xr_id (xw_transfers w)" and x: "row_at i w = Some x" and id: "\<And>x. xr_id (f x) = xr_id x"
    and run: "update_transfer i p f (tables w) (xw_transfers w) = Inr (y, t, xw_transfers w')"
  shows "y = f x \<and> row_at i w' = Some (f x) \<and> keyed xr_id (xw_transfers w')"
proof -
  obtain z where z: "find (\<lambda>x. xr_id x = i \<and> p x) (xw_transfers w) = Some z" "y = f z"
    and rows: "xw_transfers w' = update_where (\<lambda>x. xr_id x = i \<and> p x) f (xw_transfers w)"
    using run by (auto simp: update_transfer_def split: option.splits if_splits)
  from find_by_key [OF keys z(1)] x have "z = x" by (simp add: row_at_def)
  moreover have "row_at i w' = Some (f x)"
    using x find_Some_in [OF z(1)] \<open>z = x\<close> by (simp add: row_at_def rows find_update_where id)
  ultimately show ?thesis using z(2) keys by (simp add: rows keyed_update_where id)
qed

lemma triple_stage:
  assumes prep: "frames sent_and_stored prep" "\<And>w p w'. prep w = (Inr p, w') \<Longrightarrow> record_of (msg p) = k"
    and id: "\<And>a x. xr_id (f a x) = xr_id x"
    and plan: "\<exists>ks. missing_records x = k # ks"
  shows "triple (done_so_far i w0 x0 x)
       (call prep e_prep (\<lambda>p. call (transfer_send (msg p)) e_send (\<lambda>a.
          call (mappedTransfer (update_transfer i (q a) (f a))) e_store ret)))
       (\<lambda>v w. \<exists>a ms m. v = transferFromRow (f a x) \<and> row_at i w = Some (f a x) \<and> keyed xr_id (xw_transfers w)
          \<and> xw_sent w = xw_sent w0 @ ms @ [m] \<and> record_of m = k
          \<and> missing_records x0 = map record_of ms @ missing_records x)
       (nearly i w0 x0)"
proof (rule tripleI)
  let ?op = "call prep e_prep (\<lambda>p. call (transfer_send (msg p)) e_send (\<lambda>a.
      call (mappedTransfer (update_transfer i (q a) (f a))) e_store ret))"
  fix w e w' assume P: "done_so_far i w0 x0 x w" and run: "?op w = (Inl e, w')"
  obtain r u where u: "prep w = (r, u)" by force
  have same: "sent_and_stored u = sent_and_stored w" by (rule framesD [OF prep(1) u])
  have "nearly i w0 x0 w'" if "sent_and_stored w' = sent_and_stored w"
    using that P by (auto simp: nearly_def done_so_far_def row_at_def sent_and_stored_def)
  moreover have "nearly i w0 x0 w'" if "xw_sent w' = xw_sent u @ [m]" "xw_transfers w' = xw_transfers u" "record_of m = k" for m
  proof -
    obtain ms where "xw_sent w = xw_sent w0 @ ms" "missing_records x0 = map record_of ms @ missing_records x" "row_at i w = Some x"
      using P by (auto simp: done_so_far_def)
    then show ?thesis
      unfolding nearly_def using that same plan
      by (intro exI [of _ x] exI [of _ "ms @ [m]"]) (simp add: row_at_def sent_and_stored_def)
  qed
  moreover have "sent_and_stored w' = sent_and_stored w
      \<or> (\<exists>m. xw_sent w' = xw_sent u @ [m] \<and> xw_transfers w' = xw_transfers u \<and> record_of m = k)"
    using run u same prep(2)
    by (cases r) (auto simp: call_apply ret_apply transfer_send_def mappedTransfer_def transfer_exec_def Let_def
        split: prod.splits sum.splits if_splits)
  ultimately show "nearly i w0 x0 w'" by blast
next
  let ?op = "call prep e_prep (\<lambda>p. call (transfer_send (msg p)) e_send (\<lambda>a.
      call (mappedTransfer (update_transfer i (q a) (f a))) e_store ret))"
  fix w v w' assume P: "done_so_far i w0 x0 x w" and run: "?op w = (Inr v, w')"
  then obtain p u a u' where u: "prep w = (Inr p, u)" "transfer_send (msg p) u = (Inr a, u')"
    "mappedTransfer (update_transfer i (q a) (f a)) u' = (Inr v, w')"
    by (auto simp: call_ok ret_ok)
  have same: "sent_and_stored u = sent_and_stored w" by (rule framesD [OF prep(1) u(1)])
  have u': "xw_sent u' = xw_sent w @ [msg p]" "xw_transfers u' = xw_transfers w"
    using u(2) same by (auto simp: transfer_send_def sent_and_stored_def)
  obtain y t where y: "update_transfer i (q a) (f a) (tables u') (xw_transfers u') = Inr (y, t, xw_transfers w')"
    "v = transferFromRow y" "xw_sent w' = xw_sent u'"
    using mappedTransfer_ok [OF u(3)] by blast
  have "keyed xr_id (xw_transfers u')" "row_at i u' = Some x" using P u' by (simp_all add: done_so_far_def row_at_def)
  note at = update_at [OF this id y(1)]
  obtain ms where "xw_sent w = xw_sent w0 @ ms" "missing_records x0 = map record_of ms @ missing_records x"
    using P by (auto simp: done_so_far_def)
  then show "\<exists>a ms m. v = transferFromRow (f a x) \<and> row_at i w' = Some (f a x) \<and> keyed xr_id (xw_transfers w')
      \<and> xw_sent w' = xw_sent w0 @ ms @ [m] \<and> record_of m = k \<and> missing_records x0 = map record_of ms @ missing_records x"
    using at y u' prep(2) [OF u(1)] by (intro exI [of _ a] exI [of _ ms] exI [of _ "msg p"]) simp
qed

section \<open>The three stages\<close>

lemma publications_stored [op_frames]:
  "frames sent_and_stored (successorPublication (transfers_of C) endpoints v repo now)"
  "frames sent_and_stored (sourceRedirectPublication (transfers_of C) endpoints v repo now)"
  unfolding successorPublication_def sourceRedirectPublication_def Let_def transfers_of_simps transfer_store_simps
  by (intro op_frames)+

lemma successorPublication_ok:
  assumes "successorPublication (transfers_of C) endpoints v repo now w = (Inr p, w')"
  shows "\<exists>source organization. tf_SourceRepository v = Some source
     \<and> p = (repositoryPublication (successor_repository v repo now) (endpoints (successor_repository v repo now)) now)
             \<lparr>rpub_TransferredFrom := Some (as_repository_identity source), rpub_Organization := organization\<rparr>"
  using assms
  by (auto simp: successorPublication_def Let_def op_ok repositoryPublication_def split: option.splits prod.splits)

lemma redirectPublication_record:
  "sourceRedirectPublication (transfers_of C) endpoints v repo now w = (Inr p, w') \<Longrightarrow>
     record_of (Sent_Repository p) = The_Redirect (tf_SourceOwnerDID v) (repo_ID repo)"
  by (auto simp: sourceRedirectPublication_def Let_def op_ok record_of_def repositoryPublication_def
      split: option.splits prod.splits if_splits)

lemma successorPublication_record:
  "successorPublication (transfers_of C) endpoints v repo now w = (Inr p, w') \<Longrightarrow>
     record_of (Sent_Repository p) = The_Successor (own_RecordAuthorDID (tf_Destination v)) (repo_ID repo)"
  by (drule successorPublication_ok)
    (auto simp: record_of_def repositoryPublication_def successor_repository_def Let_def split: prod.splits)

lemma missing_records_terms:
  "xr_terms y = xr_terms x \<Longrightarrow> xr_successor y = xr_successor x \<Longrightarrow> xr_acceptance y = xr_acceptance x \<Longrightarrow>
     xr_source_redirect_cid y = xr_source_redirect_cid x \<Longrightarrow> missing_records y = missing_records x"
  using xr_terms_keys [of y x] by (simp add: missing_records_def)

lemma done_nearly: "done_so_far i w0 x0 x w \<Longrightarrow> nearly i w0 x0 w"
  by (auto simp: done_so_far_def nearly_def)

lemma transferFromRow_fields [simp]:
  "tf_ID (transferFromRow x) = xr_id x" "tf_RepositoryID (transferFromRow x) = xr_repository_id x"
  "tf_SourceOwnerDID (transferFromRow x) = xr_source_owner_did x"
  "tf_SourceRepository (transferFromRow x) = xr_source_repository x"
  "tf_Proposal (transferFromRow x) = xr_proposal x" "tf_Successor (transferFromRow x) = xr_successor x"
  "tf_Acceptance (transferFromRow x) = xr_acceptance x" "tf_Status (transferFromRow x) = xr_status x"
  "tf_SourceRedirectCID (transferFromRow x) = (case xr_source_redirect_cid x of None \<Rightarrow> [] | Some c \<Rightarrow> c)"
  "tf_AcceptanceStartedAt (transferFromRow x) = xr_acceptance_started_at x"
  "own_RecordAuthorDID (tf_Destination (transferFromRow x)) = xr_destination_owner_did x"
  by (simp_all add: transferFromRow_def)

lemma plan_successor:
  "xr_successor x = None \<Longrightarrow>
     missing_records x = The_Successor (xr_destination_owner_did x) (xr_repository_id x) # missing_records (x\<lparr>xr_successor := Some s\<rparr>)"
  unfolding missing_records_def records_left_def by simp

lemma plan_acceptance:
  "xr_successor x \<noteq> None \<Longrightarrow> xr_acceptance x = None \<Longrightarrow>
     missing_records x = The_Acceptance (xr_destination_owner_did x) # missing_records (x\<lparr>xr_acceptance := Some s\<rparr>)"
  unfolding missing_records_def records_left_def by simp

lemma plan_redirect:
  "xr_successor x \<noteq> None \<Longrightarrow> xr_acceptance x \<noteq> None \<Longrightarrow>
     missing_records x = (if xr_source_redirect_cid x = None \<or> xr_source_redirect_cid x = Some []
       then [The_Redirect (xr_source_owner_did x) (xr_repository_id x)] else [])"
  unfolding missing_records_def records_left_def by simp

text \<open>After a stage that stored what it published.\<close>

lemma stage_done:
  assumes "row_at i w = Some y" and "keyed xr_id (xw_transfers w)" and "xw_sent w = xw_sent w0 @ ms @ [m]"
    and "record_of m = k" and "missing_records x0 = map record_of ms @ missing_records x" and "missing_records x = k # missing_records y"
  shows "done_so_far i w0 x0 y w"
  unfolding done_so_far_def using assms by (intro conjI exI [of _ "ms @ [m]"]) simp_all

lemma triple_successor:
  assumes "repo_ID repo = xr_repository_id x"
  shows "triple (done_so_far i w0 x0 x)
     (accept_successor (transfers_of C) i (\<lambda>p. transfer_send (Sent_Repository p)) endpoints repo now (transferFromRow x))
     (\<lambda>v w. \<exists>y. v = transferFromRow y \<and> xr_terms y = xr_terms x \<and> xr_successor y \<noteq> None \<and> done_so_far i w0 x0 y w)
     (nearly i w0 x0)"
proof (cases "xr_successor x")
  case None
  let ?k = "The_Successor (xr_destination_owner_did x) (xr_repository_id x)"
  show ?thesis
    unfolding accept_successor_def transfers_of_simps transfer_store_simps pg_SetSuccessor_def sql_SetRepositoryTransferSuccessor_def
      transferFromRow_fields None
    apply (simp only: not_True_eq_False if_False simp_thms)
    apply (rule triple_weaken [OF triple_stage [where k = ?k and x = x]])
          apply (rule publications_stored)
         apply (simp add: successorPublication_record assms)
        apply simp
       apply (use plan_successor [OF None] in blast)
      apply assumption
     apply (elim exE conjE, intro exI conjI, assumption)
       apply (simp add: xr_terms_def)
      apply simp
     apply (rule stage_done, assumption+)
     apply (rule plan_successor [OF None])
    apply assumption
    done
qed (auto simp: accept_successor_def intro!: triple_ret)

lemma triple_acceptance:
  assumes "xr_successor x \<noteq> None"
  shows "triple (done_so_far i w0 x0 x)
     (accept_acceptance (transfers_of C) i scheduled_transfer_publisher now (transferFromRow x))
     (\<lambda>v w. \<exists>y. v = transferFromRow y \<and> xr_terms y = xr_terms x \<and> xr_successor y \<noteq> None \<and> xr_acceptance y \<noteq> None
        \<and> done_so_far i w0 x0 y w)
     (nearly i w0 x0)"
proof (cases "xr_acceptance x")
  case None
  let ?k = "The_Acceptance (xr_destination_owner_did x)"
  have stage: "triple (done_so_far i w0 x0 x)
      (call (call (transfer_send (Sent_Acceptance \<lparr>ap_ActorDID = xr_destination_owner_did x, ap_Proposal = proposal,
          ap_Repository = successor, ap_CreatedAt = now\<rparr>)) (\<lambda>e. e) (\<lambda>a. ret (as_transfer_identity a)))
         (transfer_providerFailure ''publish acceptance'') (\<lambda>identity.
       call (pg_SetAcceptance i identity) (wrapf ''store acceptance identity'') ret))
      (\<lambda>v w. \<exists>y. v = transferFromRow y \<and> xr_terms y = xr_terms x \<and> xr_successor y \<noteq> None \<and> xr_acceptance y \<noteq> None
         \<and> done_so_far i w0 x0 y w) (nearly i w0 x0)" for proposal successor
    unfolding call_call_ret pg_SetAcceptance_def sql_SetRepositoryTransferAcceptance_def
    apply (rule triple_weaken [OF triple_stage [where k = ?k and x = x and prep = "ret ()" and e_prep = "\<lambda>e. e"
        and msg = "\<lambda>_. Sent_Acceptance \<lparr>ap_ActorDID = xr_destination_owner_did x, ap_Proposal = proposal,
          ap_Repository = successor, ap_CreatedAt = now\<rparr>", unfolded call_ret_left]])
          apply (rule frames_ret)
         apply (simp add: record_of_def)
        apply simp
       apply (use plan_acceptance [OF assms None] in blast)
      apply assumption
     apply (elim exE conjE, intro exI conjI, assumption)
        apply (simp add: xr_terms_def)
       apply (simp add: assms)
      apply simp
     apply (rule stage_done, assumption+)
     apply (rule plan_acceptance [OF assms None])
    apply assumption
    done
  show ?thesis
    unfolding accept_acceptance_def transfers_of_simps transfer_store_simps transfer_publisher_simps transferFromRow_fields None
    by (simp only: not_True_eq_False if_False simp_thms) (intro triple_deref stage done_nearly)
qed (use assms in \<open>auto simp: accept_acceptance_def intro!: triple_ret\<close>)

lemma triple_redirect:
  assumes "repo_ID repo = xr_repository_id x" and stored: "xr_successor x \<noteq> None" "xr_acceptance x \<noteq> None"
  shows "triple (done_so_far i w0 x0 x)
     (accept_redirect (transfers_of C) i (\<lambda>p. transfer_send (Sent_Repository p)) endpoints repo now (transferFromRow x))
     (\<lambda>v w. all_sent i w0 x0 w \<and> nearly i w0 x0 w)
     (nearly i w0 x0)"
proof (cases "xr_source_redirect_cid x = None \<or> xr_source_redirect_cid x = Some []")
  case True
  let ?k = "The_Redirect (xr_source_owner_did x) (xr_repository_id x)"
  have plan: "missing_records x = [?k]" using plan_redirect [OF stored] True by simp
  have none: "(case xr_source_redirect_cid x of None \<Rightarrow> [] | Some c \<Rightarrow> c) = []" using True by auto
  show ?thesis
    unfolding accept_redirect_def transfers_of_simps transfer_store_simps pg_SetSourceRedirect_def
      sql_SetRepositoryTransferSourceRedirect_def transferFromRow_fields none
    apply (simp only: not_True_eq_False if_False simp_thms)
    apply (rule triple_weaken [OF triple_stage [where k = ?k and x = x]])
          apply (rule publications_stored)
         apply (simp add: redirectPublication_record assms)
        apply simp
       apply (use plan in blast)
      apply assumption
     apply (elim exE conjE)
    subgoal for v w a ms m
    proof
      assume w: "row_at i w = Some (x\<lparr>xr_source_redirect_cid := Some (at_CID a)\<rparr>)" "xw_sent w = xw_sent w0 @ ms @ [m]"
        "record_of m = ?k" "missing_records x0 = map record_of ms @ missing_records x"
      show "all_sent i w0 x0 w" using w plan unfolding all_sent_def by (intro exI [of _ "ms @ [m]"]) simp
      have "missing_records (x\<lparr>xr_source_redirect_cid := Some (at_CID a)\<rparr>) = (if at_CID a = [] then [?k] else [])"
        using plan_redirect [of "x\<lparr>xr_source_redirect_cid := Some (at_CID a)\<rparr>"] stored by simp
      then show "nearly i w0 x0 w"
        unfolding nearly_def using w plan by (intro exI conjI) (assumption | simp)+
    qed
    apply assumption
    done
next
  case False
  then have "missing_records x = []" using plan_redirect [OF stored] by simp
  then show ?thesis
    using False by (auto simp: accept_redirect_def all_sent_def done_so_far_def intro!: triple_ret done_nearly split: option.splits)
qed

section \<open>The whole acceptance\<close>

lemma stored_read: "(\<And>t rows x t' rows'. q t rows = Inr (x, t', rows') \<Longrightarrow> rows' = rows) \<Longrightarrow> frames sent_and_stored (transfer_exec q)"
  by (auto simp: frames_def transfer_exec_def sent_and_stored_def Let_def split: sum.splits prod.splits)

lemma stored_reads [op_frames]:
  "frames sent_and_stored (pg_GetTransfer i)" "frames sent_and_stored (pg_CanAccept owner actor)"
  "frames sent_and_stored (pg_GetTransferRepository rid)" "frames sent_and_stored (pg_CanComplete i)"
  unfolding pg_GetTransfer_def pg_CanAccept_def pg_GetTransferRepository_def pg_CanComplete_def mappedTransfer_def transfer_query_def
  by (intro op_frames stored_read, auto simp: sql_GetRepositoryTransfer_def sql_CanAcceptRepositoryTransfer_def
      sql_GetRepositoryForTransfer_def sql_CanCompleteRepositoryTransfer_def transfer_read_def split: option.splits)+

lemma stored_clock [op_frames]: "(\<And>t. frames sent_and_stored (k t)) \<Longrightarrow> frames sent_and_stored (with_now transfer_clock k)"
  by (simp add: frames_def with_now_def transfer_clock_def sent_and_stored_def)

lemma stored_authorization: "frames sent_and_stored (AuthorizeAcceptance (transfers_of C) i actor)"
  unfolding AuthorizeAcceptance_def Let_def transfers_of_simps transfer_store_simps by (intro op_frames)

lemma done_frames:
  "sent_and_stored w' = sent_and_stored w \<Longrightarrow> done_so_far i w0 x0 x w \<Longrightarrow> done_so_far i w0 x0 x w'"
  by (simp add: sent_and_stored_def done_so_far_def row_at_def)

lemma triple_done:
  "frames sent_and_stored m \<Longrightarrow> triple (done_so_far i w0 x0 x) m (\<lambda>_. done_so_far i w0 x0 x) (nearly i w0 x0)"
  by (rule tripleI) (blast dest: framesD intro: done_frames done_nearly)+

lemma triple_authorized:
  "triple (done_so_far i w0 x0 x) (AuthorizeAcceptance (transfers_of C) i actor)
     (\<lambda>vr w. fst vr = transferFromRow x \<and> repo_ID (snd vr) = xr_repository_id x \<and> done_so_far i w0 x0 x w) (nearly i w0 x0)"
proof (rule tripleI)
  fix w vr w' assume P: "done_so_far i w0 x0 x w" and run: "AuthorizeAcceptance (transfers_of C) i actor w = (Inr vr, w')"
  obtain v repo where vr: "vr = (v, repo)" by force
  obtain y r where y: "acceptable w i actor y" "v = transferFromRow y"
    "find (transferable (xr_repository_id y)) (repositories (tables w)) = Some r" "repo = transfer_repositoryFromRow (rr_repo r)"
    using AuthorizeAcceptance_ok [OF run [unfolded vr]] by blast
  then have "y = x" using P by (simp add: acceptable_def done_so_far_def row_at_def)
  then show "fst vr = transferFromRow x \<and> repo_ID (snd vr) = xr_repository_id x \<and> done_so_far i w0 x0 x w'"
    using y(2,4) find_Some_in [OF y(3)] done_frames [OF framesD [OF stored_authorization run] P]
    by (simp add: vr transfer_repositoryFromRow_def)
qed (blast dest: framesD [OF stored_authorization] intro: done_frames done_nearly)

lemma triple_started:
  "triple (done_so_far i w0 x0 x)
     (if tf_AcceptanceStartedAt (transferFromRow x) = None then pg_StartAcceptance i now else ret (transferFromRow x))
     (\<lambda>v w. \<exists>y. v = transferFromRow y \<and> xr_terms y = xr_terms x \<and> done_so_far i w0 x0 y w) (nearly i w0 x0)"
proof (rule triple_if)
  let ?f = "\<lambda>x. x\<lparr>xr_acceptance_started_at := Some (case xr_acceptance_started_at x of None \<Rightarrow> now | Some s \<Rightarrow> s)\<rparr>"
  show "triple (done_so_far i w0 x0 x) (pg_StartAcceptance i now)
      (\<lambda>v w. \<exists>y. v = transferFromRow y \<and> xr_terms y = xr_terms x \<and> done_so_far i w0 x0 y w) (nearly i w0 x0)"
  proof (rule tripleI)
    fix w v w' assume P: "done_so_far i w0 x0 x w" and run: "pg_StartAcceptance i now w = (Inr v, w')"
    obtain y t where y: "update_transfer i (\<lambda>x. pending_row x \<and> (xr_acceptance_started_at x \<noteq> None \<or> xr_expires_at x > now)) ?f
        (tables w) (xw_transfers w) = Inr (y, t, xw_transfers w')" "v = transferFromRow y" "xw_sent w' = xw_sent w"
      using mapped_or_conflict_ok [OF run [unfolded pg_StartAcceptance_def sql_StartRepositoryTransferAcceptance_def]] by blast
    have at: "y = ?f x \<and> row_at i w' = Some (?f x) \<and> keyed xr_id (xw_transfers w')"
      by (rule update_at [OF _ _ _ y(1)]) (use P in \<open>simp_all add: done_so_far_def\<close>)
    have "missing_records (?f x) = missing_records x" by (rule missing_records_terms) (simp_all add: xr_terms_def)
    then show "\<exists>y. v = transferFromRow y \<and> xr_terms y = xr_terms x \<and> done_so_far i w0 x0 y w'"
      using at y(2,3) P by (intro exI [of _ "?f x"]) (auto simp: xr_terms_def done_so_far_def)
  next
    fix w e w' assume "done_so_far i w0 x0 x w" "pg_StartAcceptance i now w = (Inl e, w')"
    then have "done_so_far i w0 x0 x w'"
      by (auto simp: pg_StartAcceptance_def mapped_or_conflict_def call_apply ret_apply transfer_exec_def Let_def done_so_far_def
          row_at_def split: prod.splits sum.splits if_splits)
    then show "nearly i w0 x0 w'" by (rule done_nearly)
  qed
qed (auto intro: triple_ret)

lemma triple_completed:
  "triple (\<lambda>w. all_sent i w0 x0 w \<and> nearly i w0 x0 w) (pg_CompleteTransfer i a b actor now) (\<lambda>_. all_sent i w0 x0) (nearly i w0 x0)"
proof (rule tripleI)
  fix w v w' assume "all_sent i w0 x0 w \<and> nearly i w0 x0 w" "pg_CompleteTransfer i a b actor now w = (Inr v, w')"
  then show "all_sent i w0 x0 w'"
    by (auto simp: pg_CompleteTransfer_def all_sent_def dest!: mapped_or_conflict_ok)
next
  fix w e w' assume "all_sent i w0 x0 w \<and> nearly i w0 x0 w" "pg_CompleteTransfer i a b actor now w = (Inl e, w')"
  then show "nearly i w0 x0 w'"
    by (auto simp: pg_CompleteTransfer_def mapped_or_conflict_def call_apply ret_apply transfer_exec_def Let_def nearly_def
        row_at_def split: prod.splits sum.splits if_splits)
qed

lemma triple_some:
  assumes "\<And>y. P y \<Longrightarrow> triple (A y) m Q E"
  shows "triple (\<lambda>w. \<exists>y. P y \<and> A y w) m Q E"
proof (rule tripleI)
  fix w e w' assume "\<exists>y. P y \<and> A y w" and run: "m w = (Inl e, w')"
  then obtain y where "P y" "A y w" by blast
  show "E w'" by (rule triple_Inl [OF assms [OF \<open>P y\<close>] \<open>A y w\<close> run])
next
  fix w x w' assume "\<exists>y. P y \<and> A y w" and run: "m w = (Inr x, w')"
  then obtain y where "P y" "A y w" by blast
  show "Q x w'" by (rule triple_Inr [OF assms [OF \<open>P y\<close>] \<open>A y w\<close> run])
qed

lemma triple_portable:
  assumes "repo_ID repo = xr_repository_id x"
  shows "triple (done_so_far i w0 x0 x) (accept_portable (transfers_of C) i repo at actor now (transferFromRow x))
     (\<lambda>_. all_sent i w0 x0) (nearly i w0 x0)"
proof (cases "xr_proposal x")
  case None
  then show ?thesis by (simp add: accept_portable_def triple_raise done_nearly)
next
  case (Some proposal)
  have redirect: "triple (\<lambda>w. \<exists>y. v = transferFromRow y \<and> xr_terms y = xr_terms x \<and> xr_successor y \<noteq> None \<and> xr_acceptance y \<noteq> None
        \<and> done_so_far i w0 x0 y w)
      (call (accept_redirect (transfers_of C) i (\<lambda>p. transfer_send (Sent_Repository p)) endpoints repo at v) (\<lambda>e. e) (\<lambda>v.
       call (pg_CompleteTransfer i a b actor now) (wrapf ''complete transfer'') ret))
      (\<lambda>_. all_sent i w0 x0) (nearly i w0 x0)" for v endpoints a b
    unfolding conj_assoc [symmetric]
    apply (rule triple_some)
    apply (elim conjE, simp only:)
    apply (rule triple_call [OF triple_redirect])
       apply (use xr_terms_keys assms in metis)
      apply assumption+
    apply (rule triple_call [OF triple_completed])
    apply (rule triple_ret, assumption)
    done
  have acceptance: "triple (\<lambda>w. \<exists>y. v = transferFromRow y \<and> xr_terms y = xr_terms x \<and> xr_successor y \<noteq> None \<and> done_so_far i w0 x0 y w)
      (call (accept_acceptance (transfers_of C) i scheduled_transfer_publisher at v) (\<lambda>e. e) (\<lambda>v.
       call (accept_redirect (transfers_of C) i (\<lambda>p. transfer_send (Sent_Repository p)) endpoints repo at v) (\<lambda>e. e) (\<lambda>v.
       call (pg_CompleteTransfer i a b actor now) (wrapf ''complete transfer'') ret)))
      (\<lambda>_. all_sent i w0 x0) (nearly i w0 x0)" for v endpoints a b
    unfolding conj_assoc [symmetric]
    apply (rule triple_some)
    apply (elim conjE, simp only:)
    apply (rule triple_call [OF triple_acceptance], assumption)
    apply (rule triple_weaken [OF redirect])
      apply auto
    done
  show ?thesis
    unfolding accept_portable_def transfers_of_simps transfer_store_simps transferFromRow_fields Some
    by (simp only: prod.case option.case) (intro triple_call [OF triple_successor] assms acceptance)
qed

lemma keeps_clock_done: "keeps_clock (done_so_far i w0 x0 x) transfer_clock"
  by (simp add: keeps_clock_def transfer_clock_def done_so_far_def row_at_def)

lemma triple_Accept:
  assumes "xr_source_repository x \<noteq> None"
  shows "triple (done_so_far i w0 x0 x) (transfer_Accept (transfers_of C) i actor) (\<lambda>_. all_sent i w0 x0) (nearly i w0 x0)"
proof -
  have portable: "triple (\<lambda>w. \<exists>y. v = transferFromRow y \<and> xr_terms y = xr_terms x \<and> done_so_far i w0 x0 y w)
      (deref (tf_AcceptanceStartedAt v) (\<lambda>at.
       if tf_SourceRepository v = None then pg_CompletePrivate i a b actor now
       else accept_portable (transfers_of C) i repo at actor now v))
      (\<lambda>_. all_sent i w0 x0) (nearly i w0 x0)" if "repo_ID repo = xr_repository_id x" for v a b repo now
    unfolding conj_assoc [symmetric]
  proof (rule triple_some)
    fix y assume y: "v = transferFromRow y \<and> xr_terms y = xr_terms x"
    then have "xr_source_repository y \<noteq> None" "repo_ID repo = xr_repository_id y"
      using assms that xr_terms_keys [of y x] by auto
    then show "triple (done_so_far i w0 x0 y) (deref (tf_AcceptanceStartedAt v) (\<lambda>at.
       if tf_SourceRepository v = None then pg_CompletePrivate i a b actor now
       else accept_portable (transfers_of C) i repo at actor now v))
      (\<lambda>_. all_sent i w0 x0) (nearly i w0 x0)"
      using y by (intro triple_deref) (auto intro: triple_portable done_nearly)
  qed
  have body: "triple (done_so_far i w0 x0 x)
      (call (pg_CanComplete i) (wrapf ''check destination route'') (\<lambda>available.
       fail_if (\<not> available) (Sentinel transfer_ErrConflict) (
       with_now transfer_clock (\<lambda>now.
       call (if tf_AcceptanceStartedAt (transferFromRow x) = None then pg_StartAcceptance i now else ret (transferFromRow x))
         (wrapf ''start transfer acceptance'') (\<lambda>v.
       deref (tf_AcceptanceStartedAt v) (\<lambda>at.
       if tf_SourceRepository v = None then pg_CompletePrivate i a b actor now
       else accept_portable (transfers_of C) i repo at actor now v))))))
      (\<lambda>_. all_sent i w0 x0) (nearly i w0 x0)" if "repo_ID repo = xr_repository_id x" for repo a b
    by (rule triple_call [OF triple_done], rule stored_reads, rule triple_fail_if, rule done_nearly, assumption, rule triple_with_now,
        rule keeps_clock_done, rule triple_call [OF triple_started], rule portable, rule that)
  show ?thesis
    unfolding transfer_Accept_def transfers_of_simps transfer_store_simps
    apply (rule triple_call [OF triple_authorized])
    subgoal for vr
      apply (cases vr)
      apply (simp only: prod.case)
      apply (rule triple_weaken [where P = "\<lambda>w. done_so_far i w0 x0 x w
            \<and> (fst vr = transferFromRow x \<and> repo_ID (snd vr) = xr_repository_id x)"])
         apply (rule triple_pure_fact)
         apply (elim conjE)
         apply (simp only: fst_conv snd_conv)
         apply (rule body, assumption)
        apply auto
      done
    done
qed

end
