(* ===== verification/Transfer_Outcome.thy ===== *)
theory Transfer_Outcome imports Transfer_Acceptance begin

text \<open>
  What acceptances come to: retries publish every record once and in order, a completed transfer hands the
  repository and its routes over, and what the records on the network say then.
\<close>

section \<open>Retries\<close>

text \<open>
  Acceptances of a transfer that failed, one after the other, by whomever; in between anything but the transfers and what
  was sent may change.
\<close>

inductive failed_acceptances :: "transfer_config \<Rightarrow> uuid \<Rightarrow> transfer_world \<Rightarrow> transfer_world \<Rightarrow> bool" for C i w0 where
  None_Yet: "failed_acceptances C i w0 w0"
| Meanwhile: "failed_acceptances C i w0 w \<Longrightarrow> sent_and_stored w' = sent_and_stored w \<Longrightarrow> failed_acceptances C i w0 w'"
| One_More: "failed_acceptances C i w0 w \<Longrightarrow> transfer_Accept (transfers_of C) i actor w = (Inl e, w') \<Longrightarrow> failed_acceptances C i w0 w'"

lemma remdups_adj_append_left: "remdups_adj (xs @ remdups_adj ys) = remdups_adj (xs @ ys)"
  by (induction xs) (simp_all add: remdups_adj_Cons flip: distinct_adj_altdef)

lemma missing_records_distinct [simp]: "remdups_adj (missing_records x) = missing_records x"
  by (simp add: missing_records_def records_left_def)

lemma nearly_plan:
  assumes "nearly i w0 x0 w"
  shows "\<exists>x ms. row_at i w = Some x \<and> xw_sent w = xw_sent w0 @ ms
     \<and> remdups_adj (map record_of ms @ missing_records x) = missing_records x0"
proof -
  obtain x ms where x: "row_at i w = Some x" "xw_sent w = xw_sent w0 @ ms"
    and plan: "missing_records x0 = map record_of ms @ missing_records x
      \<or> ms \<noteq> [] \<and> missing_records x0 = map record_of (butlast ms) @ missing_records x
        \<and> (\<exists>ks. missing_records x = record_of (last ms) # ks)"
    using assms by (auto simp: nearly_def)
  from plan have "remdups_adj (map record_of ms @ missing_records x) = missing_records x0"
  proof
    assume "missing_records x0 = map record_of ms @ missing_records x"
    then show ?thesis by (metis missing_records_distinct)
  next
    assume "ms \<noteq> [] \<and> missing_records x0 = map record_of (butlast ms) @ missing_records x
        \<and> (\<exists>ks. missing_records x = record_of (last ms) # ks)"
    then obtain ks where ms: "ms \<noteq> []" "missing_records x0 = map record_of (butlast ms) @ missing_records x"
      and ks: "missing_records x = record_of (last ms) # ks" by blast
    have "map record_of ms = map record_of (butlast ms) @ [record_of (last ms)]"
      using ms(1) by (metis append_butlast_last_id list.simps(8,9) map_append)
    then have "remdups_adj (map record_of ms @ missing_records x)
        = remdups_adj (map record_of (butlast ms) @ remdups_adj (record_of (last ms) # record_of (last ms) # ks))"
      by (simp only: ks remdups_adj_append_left append_assoc append_Cons append_Nil)
    also have "\<dots> = remdups_adj (map record_of (butlast ms) @ missing_records x)"
      by (simp only: ks remdups_adj.simps refl if_True remdups_adj_append_left)
    also have "\<dots> = missing_records x0" using ms(2) missing_records_distinct [of x0] by simp
    finally show ?thesis .
  qed
  then show ?thesis using x by blast
qed

text \<open>What a failed acceptance leaves: the same terms, and a plan that goes on where it stopped.\<close>

lemma Accept_plan:
  assumes run: "transfer_Accept (transfers_of C) i actor w = (res, w')" and keys: "keyed xr_id (xw_transfers w)"
    and x: "row_at i w = Some x" and portable: "xr_source_repository x \<noteq> None"
  shows "\<exists>ms. xw_sent w' = xw_sent w @ ms \<and>
     (case res of
        Inr _ \<Rightarrow> map record_of ms = missing_records x
      | Inl _ \<Rightarrow> keyed xr_id (xw_transfers w') \<and> (\<exists>y. row_at i w' = Some y \<and> xr_source_repository y \<noteq> None
          \<and> remdups_adj (map record_of ms @ missing_records y) = missing_records x))"
proof -
  have start: "done_so_far i w x x w" using keys x by (simp add: done_so_far_def exI [of _ "[]"])
  note triple = triple_Accept [OF portable, of i w x C actor]
  show ?thesis
  proof (cases res)
    case (Inr v)
    then show ?thesis using triple_Inr [OF triple start] run by (auto simp: all_sent_def)
  next
    case (Inl e)
    obtain y ms where y: "row_at i w' = Some y" "xw_sent w' = xw_sent w @ ms"
      "remdups_adj (map record_of ms @ missing_records y) = missing_records x"
      using nearly_plan [OF triple_Inl [OF triple start run [unfolded Inl]]] by blast
    have same: "map xr_terms (xw_transfers w') = map xr_terms (xw_transfers w)"
      using Accept_outcome [OF keys run] Inl by (simp add: deal_def)
    have "map xr_id (xw_transfers w') = map xr_id (xw_transfers w)"
      using arg_cong [where f = "map xr_id", OF same] unfolding map_map o_def xr_terms_fields .
    moreover have "xr_terms y = xr_terms x"
    proof -
      have "find (\<lambda>z. xr_id z = i) (map xr_terms (xw_transfers u)) = map_option xr_terms (row_at i u)" for u
        by (simp add: row_at_def find_map o_def)
      from this [of w] this [of w'] show ?thesis using same x y(1) by simp
    qed
    ultimately show ?thesis using Inl y keys portable xr_terms_keys [of y x] by (intro exI [of _ ms]) auto
  qed
qed

lemma failed_acceptances_plan:
  assumes "failed_acceptances C i w0 w" and "keyed xr_id (xw_transfers w0)"
    and "row_at i w0 = Some x" and "xr_source_repository x \<noteq> None"
  shows "keyed xr_id (xw_transfers w) \<and> (\<exists>y ms. row_at i w = Some y \<and> xr_source_repository y \<noteq> None \<and> xw_sent w = xw_sent w0 @ ms
     \<and> remdups_adj (map record_of ms @ missing_records y) = missing_records x)"
  using assms(1)
proof (induction rule: failed_acceptances.induct)
  case None_Yet
  then show ?case using assms(2-) by (simp add: exI [of _ "[]"])
next
  case (Meanwhile w w')
  then show ?case by (auto simp: sent_and_stored_def row_at_def)
next
  case (One_More w actor e w')
  then obtain y ms where y: "keyed xr_id (xw_transfers w)" "row_at i w = Some y" "xr_source_repository y \<noteq> None"
    "xw_sent w = xw_sent w0 @ ms" "remdups_adj (map record_of ms @ missing_records y) = missing_records x" by blast
  obtain ms' z where z: "xw_sent w' = xw_sent w @ ms'" "keyed xr_id (xw_transfers w')" "row_at i w' = Some z"
    "xr_source_repository z \<noteq> None" "remdups_adj (map record_of ms' @ missing_records z) = missing_records y"
    using Accept_plan [OF One_More.hyps(2) y(1-3)] by auto
  have "remdups_adj (map record_of (ms @ ms') @ missing_records z) = missing_records x"
    using y(5) remdups_adj_append_left [of "map record_of ms" "map record_of ms' @ missing_records z"] z(5) by simp
  then show ?case using y(4) z(1-4) by (intro conjI exI [of _ z] exI [of _ "ms @ ms'"]) simp_all
qed

text \<open>
  C8. Acceptances are resumed: however many acceptances of a transfer fail, at whatever step, and by whomever they are
  asked for, the one that succeeds completes what they published: the successor, the acceptance and the redirect of
  the source, as far as they were missing at first, in this order, each once or several times in a row.
\<close>

theorem retries_complete_the_plan:
  assumes "failed_acceptances C i w0 w" and "transfer_Accept (transfers_of C) i actor w = (Inr v, w')"
    and "keyed xr_id (xw_transfers w0)" and "row_at i w0 = Some x" and "xr_source_repository x \<noteq> None"
  shows "\<exists>ms. xw_sent w' = xw_sent w0 @ ms \<and> remdups_adj (map record_of ms) = missing_records x"
proof -
  obtain y ms where y: "keyed xr_id (xw_transfers w)" "row_at i w = Some y" "xr_source_repository y \<noteq> None"
    "xw_sent w = xw_sent w0 @ ms" "remdups_adj (map record_of ms @ missing_records y) = missing_records x"
    using failed_acceptances_plan [OF assms(1,3-5)] by blast
  obtain ms' where "xw_sent w' = xw_sent w @ ms'" "map record_of ms' = missing_records y"
    using Accept_plan [OF assms(2) y(1-3)] by auto
  then show ?thesis using y(4,5) by (intro exI [of _ "ms @ ms'"]) simp
qed

lemma offering_row [simp]: "row_at (xr_id x) (offering x failures) = Some x"
  by (simp add: offering_def row_at_def)

theorem retries_complete_the_plan_witness:
  "\<exists>ms. xw_sent (snd (transfer_Accept (transfers_of example_transfers) 7 ''did:b'' (snd (transfer_Accept (transfers_of example_transfers) 7
       ''did:b'' (offering (offer 7 ''did:b'' None) [False, False, False, False, False, False, True])))))
     = ms \<and> remdups_adj (map record_of ms) = missing_records (offer 7 ''did:b'' None)"
proof -
  let ?w = "offering (offer 7 ''did:b'' None) [False, False, False, False, False, False, True]"
  let ?accept = "transfer_Accept (transfers_of example_transfers) 7 ''did:b''"
  have "sum.isl (fst (?accept ?w))" "\<not> sum.isl (fst (?accept (snd (?accept ?w))))" by code_simp+
  then obtain e v where first: "?accept ?w = (Inl e, snd (?accept ?w))"
    and second: "?accept (snd (?accept ?w)) = (Inr v, snd (?accept (snd (?accept ?w))))"
    by (metis isl_def prod.collapse sum.exhaust_sel)
  have id: "row_at 7 ?w = Some (offer 7 ''did:b'' None)"
    using offering_row [of "offer 7 ''did:b'' None"] by (simp add: offer_def)
  show ?thesis
    using retries_complete_the_plan [OF One_More [OF None_Yet first] second offering_keyed id] by (simp add: offer_def offering_def)
qed

section \<open>After a transfer\<close>

lemma may_offer_after:
  assumes hand: "handed_over x portable now a b t t'" and q: "find (transferable (xr_repository_id x)) (repositories t) = Some q"
    and members: "keyed member_key (organization_members t)"
  shows "may_offer t' (xr_repository_id x) account = may_take t x account"
proof -
  let ?f = "\<lambda>s. s\<lparr>rr_repo := moved_repository x portable now (rr_repo s)\<rparr>"
  have repos: "repositories t' = update_where (\<lambda>s. rr_id s = xr_repository_id x) ?f (repositories t)"
    and same: "organization_members t' = organization_members t" using hand by (auto simp: handed_over_def)
  have q': "q \<in> set (repositories t)" "transferable (xr_repository_id x) q" using find_Some_in [OF q] by auto
  have keep: "rr_id (?f s) = rr_id s" "rr_state (?f s) = rr_state s" "rr_deleted_at (?f s) = rr_deleted_at s" for s
    by (simp_all add: moved_repository_def Let_def)
  have owned: "(account_owner account (moved_repository x portable now u) \<or> owner_grant t' account (moved_repository x portable now u))
      = may_take t x account" for u
  proof (cases "xr_destination_organization_id x")
    case None
    then show ?thesis
      by (auto simp: account_owner_def owner_grant_def org_member_of_def may_take_def moved_repository_def Let_def)
  next
    case (Some oid)
    have "(case find (\<lambda>m. member_key m = (oid, account)) (organization_members t) of None \<Rightarrow> False | Some m \<Rightarrow> mem_Role m = RoleOwner)
        = (\<exists>m \<in> set (organization_members t). member_key m = (oid, account) \<and> mem_Role m = RoleOwner)"
    proof (cases "find (\<lambda>m. member_key m = (oid, account)) (organization_members t)")
      case None
      show ?thesis unfolding None option.case using None [unfolded find_None_in] by auto
    next
      case (Some m)
      then have m: "m \<in> set (organization_members t)" "member_key m = (oid, account)" by (auto dest: find_Some_in)
      have "n = m" if "n \<in> set (organization_members t)" "member_key n = (oid, account)" for n
        using keyed_unique [OF members that(1) m(1)] that(2) m(2) by simp
      then show ?thesis unfolding Some option.case using m by blast
    qed
    then show ?thesis
      using Some by (simp add: account_owner_def owner_grant_def org_member_of_def may_take_def moved_repository_def Let_def same)
  qed
  show ?thesis
  proof
    assume "may_offer t' (xr_repository_id x) account"
    then obtain s where s: "s \<in> set (repositories t')" "rr_id s = xr_repository_id x"
      "account_owner account (rr_repo s) \<or> owner_grant t' account (rr_repo s)" by (auto simp: may_offer_def)
    then obtain u where "s = ?f u" unfolding repos in_update_where using keep(1) by auto
    then show "may_take t x account" using s(3) owned [of "rr_repo u"] by simp
  next
    assume take: "may_take t x account"
    have "?f q \<in> set (repositories t')" using q' by (auto simp: repos update_where_def image_iff intro!: bexI [of _ q])
    moreover have "transferable (xr_repository_id x) (?f q)" using q' keep [of q] by simp
    ultimately show "may_offer t' (xr_repository_id x) account"
      unfolding may_offer_def using owned [of "rr_repo q"] take by (intro bexI [of _ "?f q"]) simp_all
  qed
qed

text \<open>The former routes: those of the alias of the source owner, and of the account where an account was the source.\<close>

definition former_routes :: "transfer_row \<Rightarrow> string \<Rightarrow> (string \<times> string) set" where
  "former_routes x slug =
     {(xr_source_owner_alias x, slug)} \<union> (if xr_source_organization_id x = None then {(xr_source_owner_did x, slug)} else {})"

lemma former_routes_after:
  assumes hand: "handed_over x portable now a b t t'" and r: "find (\<lambda>r. rr_id r = xr_repository_id x) (repositories t) = Some r"
    and route: "(owner, slug) \<in> former_routes x (rr_slug r)"
  shows "\<exists>r' \<in> set (repositories t'). rr_id r' = rr_id r \<and> rr_deleted_at r' = rr_deleted_at r \<and> rr_slug r' = rr_slug r \<and> alias_route t' owner slug r'"
proof -
  let ?r = "r\<lparr>rr_repo := moved_repository x portable now (rr_repo r)\<rparr>"
  have "?r \<in> set (repositories t')"
    using hand find_Some_in [OF r] by (auto simp: handed_over_def in_update_where)
  moreover have "alias_route t' owner slug ?r"
  proof -
    have all: "\<forall>c \<in> set (expected_aliases a b x (rr_repo r)). \<exists>d \<in> set (repository_aliases t').
        ra_key d = ra_key c \<and> ra_RepositoryID d = rr_id r"
      using hand r by (auto simp: handed_over_def)
    have "\<exists>c \<in> set (expected_aliases a b x (rr_repo r)). ra_key c = (lower owner, lower slug)"
      using route by (auto simp: former_routes_def expected_aliases_def split: if_splits)
    then obtain d where "d \<in> set (repository_aliases t')" "ra_key d = (lower owner, lower slug)" "ra_RepositoryID d = rr_id r"
      using all by force
    then show ?thesis by (auto simp: alias_route_def list_ex_iff)
  qed
  moreover have "rr_id ?r = rr_id r" "rr_slug ?r = rr_slug r" by (simp_all add: moved_repository_def Let_def)
  ultimately show ?thesis by (intro bexI [of _ ?r]) simp_all
qed

lemma former_routes_terms: "xr_terms x = xr_terms y \<Longrightarrow> former_routes x = former_routes y"
  using xr_terms_keys [of x y] by (auto simp: former_routes_def fun_eq_iff)

text \<open>
  C10. A completed transfer hands the repository over: afterwards exactly those accounts may offer it that could have accepted
  the transfer, no team of the former organization keeps its role in the repository, and the routes the repository had
  under its former owner still lead to it.
\<close>

theorem completed_transfers_hand_over:
  assumes "transfer_Accept (transfers_of C) i actor w = (Inr v, w')"
    and "keyed xr_id (xw_transfers w)" and "keyed member_key (organization_members (tables w))"
    and "keyed rr_id (repositories (tables w))"
  shows "\<exists>x q. row_at i w = Some x \<and> q \<in> set (repositories (tables w)) \<and> rr_id q = xr_repository_id x \<and> tf_Status v = StatusCompleted
     \<and> (\<forall>account. may_offer (tables w') (rr_id q) account \<longleftrightarrow> may_take (tables w) x account)
     \<and> (\<forall>z \<in> set (organization_team_repositories (tables w')). tr_RepositoryID z \<noteq> rr_id q)
     \<and> (\<forall>(owner, slug) \<in> former_routes x (rr_slug q). \<exists>r \<in> set (repositories (tables w')).
          rr_id r = rr_id q \<and> live_repo r \<and> alias_route (tables w') owner slug r)"
proof -
  obtain x q where x: "acceptable w i actor x" "conclusion C i actor x w v w'"
    and q: "find (transferable (xr_repository_id x)) (repositories (tables w)) = Some q"
    using Accept_outcome [OF assms(2,1)] by auto
  then obtain x' portable now where x': "xr_terms x' = xr_terms x" "v = transferFromRow (concluded actor now x')"
    and hand: "handed_over x' portable now (xc_NewSHA1 C i ''source-owner-alias'') (xc_NewSHA1 C i ''source-owner-did-alias'')
      (tables w) (tables w')"
    by (auto simp: conclusion_def)
  have ids: "xr_repository_id x' = xr_repository_id x" "former_routes x' = former_routes x"
    "may_take (tables w) x' account = may_take (tables w) x account" for account
    using xr_terms_keys [OF x'(1)] former_routes_terms [OF x'(1)] by (simp_all add: may_take_def split: option.split)
  have q': "q \<in> set (repositories (tables w))" "rr_id q = xr_repository_id x" "live_repo q" using find_Some_in [OF q] by auto
  have found: "find (\<lambda>r. rr_id r = xr_repository_id x') (repositories (tables w)) = Some q"
    using assms(4) q' by (intro keyed_find [where k = rr_id]) (simp_all add: ids)
  note offers = may_offer_after [OF hand _ assms(3), unfolded ids, OF q]
  note routes = former_routes_after [OF hand found, unfolded ids]
  have "\<forall>z \<in> set (organization_team_repositories (tables w')). tr_RepositoryID z \<noteq> rr_id q"
    using hand q'(2) ids(1) by (auto simp: handed_over_def delete_where_def)
  moreover have "tf_Status v = StatusCompleted" using x'(2) by (simp add: concluded_def)
  moreover have "row_at i w = Some x" using x(1) by (simp add: acceptable_def row_at_def)
  ultimately show ?thesis
    using q' offers routes by (intro exI [of _ x] exI [of _ q]) fastforce
qed

lemma offering_accepted:
  "\<not> sum.isl (fst (transfer_Accept (transfers_of example_transfers) 7 ''did:b'' (offering (offer 7 ''did:b'' None) [])))"
  "\<not> sum.isl (fst (transfer_Accept (transfers_of example_transfers) 8 ''did:a'' (offering (offer 8 ''did:a'' (Some 1)) [])))"
  by code_simp+

lemma offering_tables_keyed:
  "keyed member_key (organization_members (tables (offering x failures)))" "keyed rr_id (repositories (tables (offering x failures)))"
  by (simp_all add: offering_def offering_tables_def example_tables_def example_member_def)

theorem completed_transfers_hand_over_witness:
  "\<exists>r \<in> set (repositories (tables (snd (transfer_Accept (transfers_of example_transfers) 7 ''did:b'' (offering (offer 7 ''did:b'' None) []))))).
     rr_id r = 1 \<and> live_repo r \<and> alias_route (tables (snd (transfer_Accept (transfers_of example_transfers) 7 ''did:b''
       (offering (offer 7 ''did:b'' None) [])))) ''ada'' ''lib'' r"
proof -
  obtain v where "transfer_Accept (transfers_of example_transfers) 7 ''did:b'' (offering (offer 7 ''did:b'' None) [])
      = (Inr v, snd (transfer_Accept (transfers_of example_transfers) 7 ''did:b'' (offering (offer 7 ''did:b'' None) [])))"
    using run_returns [OF offering_accepted(1)] by blast
  from completed_transfers_hand_over [OF this offering_keyed offering_tables_keyed]
  show ?thesis by (auto simp: offering_def offering_tables_def offered_repository_def offer_def row_at_def former_routes_def)
qed

section \<open>The former name\<close>




section \<open>The records\<close>

text \<open>The record at a place is the last that was sent there.\<close>

definition network_record :: "(uuid \<Rightarrow> string) \<Rightarrow> transfer_sent list \<Rightarrow> did \<times> string \<times> string \<Rightarrow> transfer_sent option" where
  "network_record show_uuid ms place = find (\<lambda>m. record_place show_uuid m = place) (rev ms)"

abbreviation repository_place :: "(uuid \<Rightarrow> string) \<Rightarrow> did \<Rightarrow> uuid \<Rightarrow> did \<times> string \<times> string" where
  "repository_place show_uuid author rid \<equiv> (author, ''dev.adenosine.repo'', filter (\<lambda>c. c \<noteq> CHR ''-'') (show_uuid rid))"

lemma find_after: "(\<And>a. a \<in> set as \<Longrightarrow> \<not> P a) \<Longrightarrow> P s \<Longrightarrow> find P (as @ s # zs) = Some s"
  by (induction as) auto

lemma record_of_cases:
  "record_of m = The_Successor d r \<Longrightarrow> \<exists>p. m = Sent_Repository p \<and> rpub_TransferredTo p = None \<and> record_place show_uuid m = repository_place show_uuid d r"
  "record_of m = The_Redirect d r \<Longrightarrow> \<exists>p. m = Sent_Repository p \<and> rpub_TransferredTo p \<noteq> None \<and> record_place show_uuid m = repository_place show_uuid d r"
  "record_of m = The_Acceptance d \<Longrightarrow> \<exists>a. m = Sent_Acceptance a"
  by (auto simp: record_of_def record_place_def split: transfer_sent.splits if_splits)

text \<open>
  C36. A redirect overwrites the successor where one account writes both: after an acceptance that published its records, the
  record at the place of the successor is the successor if the accounts of the source and of the destination differ; where they
  are one account, as between an account and an organization it created, it is the redirect of the source, which points at itself.
\<close>

theorem one_author_overwrites_the_successor:
  assumes "transfer_Accept (transfers_of C) i actor w = (Inr v, w')" and "keyed xr_id (xw_transfers w)" and "row_at i w = Some x"
    and "xr_source_repository x \<noteq> None" and "xr_successor x = None" and "xr_source_redirect_cid x = None"
  shows "\<exists>p. network_record show_uuid (xw_sent w') (repository_place show_uuid (xr_destination_owner_did x) (xr_repository_id x))
       = Some (Sent_Repository p)
     \<and> (rpub_TransferredTo p \<noteq> None \<longleftrightarrow> xr_source_owner_did x = xr_destination_owner_did x)"
proof -
  obtain ms where ms: "xw_sent w' = xw_sent w @ ms" "map record_of ms = missing_records x"
    using Accept_plan [OF assms(1-4)] by auto
  then obtain s as r where parts: "ms = s # as @ [r]" "record_of s = The_Successor (xr_destination_owner_did x) (xr_repository_id x)"
    "record_of r = The_Redirect (xr_source_owner_did x) (xr_repository_id x)" "\<forall>a \<in> set as. \<exists>d. record_of a = The_Acceptance d"
  proof -
    have plan: "missing_records x = The_Successor (xr_destination_owner_did x) (xr_repository_id x) #
        (if xr_acceptance x = None then [The_Acceptance (xr_destination_owner_did x)] else [])
        @ [The_Redirect (xr_source_owner_did x) (xr_repository_id x)]"
      using assms(5,6) by (simp add: missing_records_def records_left_def)
    then obtain s ms' where s: "ms = s # ms'" "record_of s = The_Successor (xr_destination_owner_did x) (xr_repository_id x)"
      "map record_of ms' = (if xr_acceptance x = None then [The_Acceptance (xr_destination_owner_did x)] else [])
        @ [The_Redirect (xr_source_owner_did x) (xr_repository_id x)]"
      using ms(2) by (auto simp: map_eq_Cons_conv)
    then obtain as r where "ms' = as @ [r]" "map record_of as = (if xr_acceptance x = None then [The_Acceptance (xr_destination_owner_did x)] else [])"
      "record_of r = The_Redirect (xr_source_owner_did x) (xr_repository_id x)"
      by (auto simp: map_eq_append_conv map_eq_Cons_conv)
    moreover from this have "\<forall>a \<in> set as. \<exists>d. record_of a = The_Acceptance d"
      by (metis (no_types, lifting) empty_iff image_eqI list.set(1) list.set_map set_ConsD list.set_intros(1))
    ultimately show thesis using that s by blast
  qed
  obtain ps where ps: "s = Sent_Repository ps" "rpub_TransferredTo ps = None"
    "record_place show_uuid s = repository_place show_uuid (xr_destination_owner_did x) (xr_repository_id x)"
    using record_of_cases(1) [OF parts(2)] by blast
  obtain pr where pr: "r = Sent_Repository pr" "rpub_TransferredTo pr \<noteq> None"
    "record_place show_uuid r = repository_place show_uuid (xr_source_owner_did x) (xr_repository_id x)"
    using record_of_cases(2) [OF parts(3)] by blast
  have as: "record_place show_uuid a \<noteq> repository_place show_uuid d k" if "a \<in> set as" for a d k
    using parts(4) that record_of_cases(3) by (fastforce simp: record_place_def)
  let ?at = "\<lambda>m. record_place show_uuid m = repository_place show_uuid (xr_destination_owner_did x) (xr_repository_id x)"
  have "network_record show_uuid (xw_sent w') (repository_place show_uuid (xr_destination_owner_did x) (xr_repository_id x))
      = (if ?at r then Some r else find ?at (rev as @ s # rev (xw_sent w)))"
    by (simp add: network_record_def ms(1) parts(1))
  moreover have "find ?at (rev as @ s # rev (xw_sent w)) = Some s"
    using as ps(3) by (intro find_after) auto
  ultimately show ?thesis using ps pr by (auto split: if_splits)
qed

theorem one_author_overwrites_the_successor_witness:
  "\<exists>p. network_record (\<lambda>_. ''id'') (xw_sent (snd (transfer_Accept (transfers_of example_transfers) 8 ''did:a'' (offering (offer 8 ''did:a'' (Some 1)) []))))
       (repository_place (\<lambda>_. ''id'') ''did:a'' 1) = Some (Sent_Repository p) \<and> rpub_TransferredTo p \<noteq> None"
proof -
  obtain v where run: "transfer_Accept (transfers_of example_transfers) 8 ''did:a'' (offering (offer 8 ''did:a'' (Some 1)) [])
      = (Inr v, snd (transfer_Accept (transfers_of example_transfers) 8 ''did:a'' (offering (offer 8 ''did:a'' (Some 1)) [])))"
    using run_returns [OF offering_accepted(2)] by blast
  have "row_at 8 (offering (offer 8 ''did:a'' (Some 1)) []) = Some (offer 8 ''did:a'' (Some 1))"
    using offering_row [of "offer 8 ''did:a'' (Some 1)" "[]"] by (simp add: offer_def)
  from one_author_overwrites_the_successor [OF run offering_keyed this, of "\<lambda>_. ''id''"]
  show ?thesis by (auto simp: offer_def)
qed



end
