(* ===== verification/Go_JSON.thy ===== *)
theory Go_JSON imports Go_Parse begin

text \<open>
  \<open>encoding/json\<close> as far as the program marshals: objects of strings, optional strings and optional times in UTC.
  Strings are escaped as \<open>json.Marshal\<close> does by default: \<open><\<close>, \<open>>\<close> and \<open>&\<close> too, and what is no UTF-8 becomes U+FFFD.
\<close>

section \<open>Strings\<close>

definition hex_of :: "nat \<Rightarrow> char" where
  "hex_of n = (if n < 10 then char_of (48 + n) else char_of (87 + n))"

definition json_control :: "char \<Rightarrow> string" where
  "json_control c =
     (let n = byte c
      in CHR 0x5C # (if n = 8 then ''b'' else if n = 9 then ''t'' else if n = 10 then ''n''
                     else if n = 12 then ''f'' else if n = 13 then ''r''
                     else ''u00'' @ [hex_of (n div 16), hex_of (n mod 16)]))"

fun json_escape :: "string \<Rightarrow> string" where
  "json_escape [] = []"
| "json_escape (c # cs) =
     (if byte c < 128 then
        (if c = CHR 0x22 \<or> c = CHR 0x5C then [CHR 0x5C, c]
         else if byte c < 32 \<or> c \<in> {CHR ''<'', CHR ''>'', CHR ''&''} then json_control c
         else [c]) @ json_escape cs
      else case decode_rune (c # cs) of (r, n) \<Rightarrow>
        (if n \<le> 1 then CHR 0x5C # ''ufffd''
         else if r = 8232 then CHR 0x5C # ''u2028'' else if r = 8233 then CHR 0x5C # ''u2029''
         else take n (c # cs)) @ json_escape (drop (n - 1) cs))"

definition json_quote :: "string \<Rightarrow> string" where
  "json_quote s = [CHR 0x22] @ json_escape s @ [CHR 0x22]"

section \<open>Times\<close>

text \<open>
  The date of a day, counted from the first of January of year 1, in years that begin in March, so that the
  day that not every year has is the last of its year; 306 days lie between the March before and that January.
\<close>

definition date_of_days :: "int \<Rightarrow> int \<times> int \<times> int" where
  "date_of_days days =
     (let z = days + 306; era = z div 146097; doe = z mod 146097;
          yoe = (doe - doe div 1460 + doe div 36524 - doe div 146096) div 365;
          doy = doe - (365 * yoe + yoe div 4 - yoe div 100);
          mp = (5 * doy + 2) div 153;
          month = (if mp < 10 then mp + 3 else mp - 9)
      in (yoe + era * 400 + (if month \<le> 2 then 1 else 0), month, doy - (153 * mp + 2) div 5 + 1))"

fun json_padded :: "nat \<Rightarrow> int \<Rightarrow> string" where
  "json_padded 0 n = []"
| "json_padded (Suc k) n = json_padded k (n div 10) @ [char_of (48 + nat (n mod 10))]"

text \<open>The fraction of a second without the zeros at its end.\<close>

definition json_fraction :: "int \<Rightarrow> string" where
  "json_fraction nanoseconds =
     (let digits = rev (dropWhile (\<lambda>c. c = CHR ''0'') (rev (json_padded 9 nanoseconds)))
      in if digits = [] then [] else CHR ''.'' # digits)"

text \<open>\<open>Time.MarshalJSON\<close> of a time in UTC; it refuses years of more than four digits.\<close>

definition json_time :: "instant \<Rightarrow> string option" where
  "json_time t =
     (let seconds = t div 1000000000; clock = seconds mod 86400
      in case date_of_days (seconds div 86400) of (y, m, d) \<Rightarrow>
        if y < 0 \<or> 9999 < y then None
        else Some ([CHR 0x22] @ json_padded 4 y @ ''-'' @ json_padded 2 m @ ''-'' @ json_padded 2 d @ ''T''
          @ json_padded 2 (clock div 3600) @ '':'' @ json_padded 2 (clock div 60 mod 60) @ '':'' @ json_padded 2 (clock mod 60)
          @ json_fraction (t mod 1000000000) @ ''Z'' @ [CHR 0x22]))"

section \<open>Values\<close>

datatype json_value = JSON_Null | JSON_String string | JSON_Time instant | JSON_Object "(string \<times> json_value) list"

fun separated :: "string list \<Rightarrow> string" where
  "separated [] = []"
| "separated [x] = x"
| "separated (x # xs) = x @ '','' @ separated xs"

fun json_Marshal :: "json_value \<Rightarrow> string option"
  and json_members :: "(string \<times> json_value) list \<Rightarrow> string list option" where
  "json_Marshal JSON_Null = Some ''null''"
| "json_Marshal (JSON_String s) = Some (json_quote s)"
| "json_Marshal (JSON_Time t) = json_time t"
| "json_Marshal (JSON_Object ms) = map_option (\<lambda>xs. ''{'' @ separated xs @ ''}'') (json_members ms)"
| "json_members [] = Some []"
| "json_members ((k, v) # ms) =
     (case (json_Marshal v, json_members ms) of
        (Some x, Some xs) \<Rightarrow> Some ((json_quote k @ '':'' @ x) # xs) | _ \<Rightarrow> None)"

definition optional_json :: "('a \<Rightarrow> json_value) \<Rightarrow> 'a option \<Rightarrow> json_value" where
  "optional_json f v = (case v of None \<Rightarrow> JSON_Null | Some x \<Rightarrow> f x)"

end
