(* ===== verification/Commit_Status.thy ===== *)
theory Commit_Status imports Org_Queries Go_Hash Go_JSON begin

text \<open>
  \<^verbatim>\<open>internal/commitstatus/commitstatus.go\<close> and \<^verbatim>\<open>worker.go\<close> with the queries of \<^verbatim>\<open>commit_statuses.sql\<close> on the tables of
  migration 21: what continuous integration reports of a commit. A state, a status or a conclusion is a string in the
  source, and stays one here. The database keeps times to the microsecond.
\<close>

section \<open>Data\<close>

definition status_Retention :: duration where
  "status_Retention = 90 * 24 * 3600 * 1000000000"

text \<open>\<open>shaPattern\<close>: \<^verbatim>\<open>^(?:[0-9a-f]{40}|[0-9a-f]{64})$\<close>\<close>

definition shaPattern :: "string \<Rightarrow> bool" where
  "shaPattern sha \<longleftrightarrow>
     (length sha = 40 \<or> length sha = 64) \<and> list_all (\<lambda>c. is_digit c \<or> in_range 97 102 (byte c)) sha"

abbreviation Status_Pending :: string where "Status_Pending \<equiv> ''pending''"
abbreviation Status_Success :: string where "Status_Success \<equiv> ''success''"
abbreviation Status_Failure :: string where "Status_Failure \<equiv> ''failure''"
abbreviation Status_Error :: string where "Status_Error \<equiv> ''error''"

definition status_states :: "string list" where
  "status_states = [Status_Pending, Status_Success, Status_Failure, Status_Error]"

record commit_status =
  cs_ID :: uuid
  cs_RepositoryID :: uuid
  cs_CommitSHA :: string
  cs_Context :: string
  cs_State :: string
  cs_Description :: string
  cs_TargetURL :: "string option"
  cs_CreatorDID :: did
  cs_ExternalID :: string
  cs_CreatedAt :: instant

record commit_status_input =
  si_Context :: string
  si_State :: string
  si_Description :: string
  si_TargetURL :: "string option"
  si_ExternalID :: string

abbreviation CheckQueued :: string where "CheckQueued \<equiv> ''queued''"
abbreviation CheckInProgress :: string where "CheckInProgress \<equiv> ''in_progress''"
abbreviation CheckCompleted :: string where "CheckCompleted \<equiv> ''completed''"

definition conclusions :: "string list" where
  "conclusions = [''success'', ''failure'', ''neutral'', ''cancelled'', ''skipped'', ''timed_out'', ''action_required'']"

record check_run =
  cr_ID :: uuid
  cr_RepositoryID :: uuid
  cr_CommitSHA :: string
  cr_Name :: string
  cr_ExternalID :: string
  cr_CreatorDID :: did
  cr_Status :: string
  cr_Conclusion :: "string option"
  cr_DetailsURL :: "string option"
  cr_OutputTitle :: string
  cr_OutputSummary :: string
  cr_Version :: int
  cr_StartedAt :: "instant option"
  cr_CompletedAt :: "instant option"
  cr_CreatedAt :: instant
  cr_UpdatedAt :: instant

record check_run_input =
  ki_CommitSHA :: string
  ki_Name :: string
  ki_ExternalID :: string
  ki_Status :: string
  ki_Conclusion :: "string option"
  ki_DetailsURL :: "string option"
  ki_OutputTitle :: string
  ki_OutputSummary :: string
  ki_StartedAt :: "instant option"
  ki_CompletedAt :: "instant option"

record check_run_update =
  ku_ExpectedVersion :: int
  ku_Status :: string
  ku_Conclusion :: "string option"
  ku_DetailsURL :: "string option"
  ku_OutputTitle :: string
  ku_OutputSummary :: string
  ku_StartedAt :: "instant option"
  ku_CompletedAt :: "instant option"

record 'a status_page =
  sp_Items :: "'a list"
  sp_NextCursor :: "uuid option"

record combined_status =
  cb_SHA :: string
  cb_State :: string
  cb_Items :: "commit_status list"

section \<open>Validation\<close>

abbreviation status_invalid :: "string \<Rightarrow> err" where
  "status_invalid msg \<equiv> because status_ErrValidation msg"

definition validateStatusPage :: "string \<Rightarrow> int \<Rightarrow> err option" where
  "validateStatusPage commitSHA limit =
     (if \<not> shaPattern commitSHA then Some (status_invalid ''commit SHA must be a full lowercase object ID'')
      else if limit < 1 \<or> limit > 100 then Some (status_invalid ''limit must be between 1 and 100'')
      else None)"

definition validateName :: "string \<Rightarrow> string \<Rightarrow> nat \<Rightarrow> err option" where
  "validateName field v maximum =
     (if v = [] \<or> length v > maximum \<or> list_ex (\<lambda>c. byte c \<in> {13, 10, 0}) v
      then Some (status_invalid (field @ '' must contain only safe characters'')) else None)"

definition validateCheckOutput :: "string \<Rightarrow> string \<Rightarrow> err option" where
  "validateCheckOutput title summary =
     (if length title > 255 \<or> length summary > 65535
      then Some (status_invalid ''check output exceeds its size limit'') else None)"

text \<open>Whether the URL that was parsed has a user: its authority has an at sign.\<close>

definition request_uri_user :: "string \<Rightarrow> bool" where
  "request_uri_user raw =
     (case get_scheme raw of
        None \<Rightarrow> False
      | Some (scheme, rest0) \<Rightarrow>
          let rest = (case index_byte (CHR ''?'') rest0 of None \<Rightarrow> rest0 | Some i \<Rightarrow> take i rest0)
          in scheme \<noteq> [] \<and> prefix ''//'' rest \<and> CHR 0x40 \<in> set (takeWhile (\<lambda>c. c \<noteq> CHR ''/'') (drop 2 rest)))"

text \<open>\<open>validateURL\<close> writes the trimmed text back.\<close>

definition validateURL :: "string option \<Rightarrow> err + string option" where
  "validateURL v =
     (case v of
        None \<Rightarrow> Inr None
      | Some text \<Rightarrow>
          (let trimmed = trim_space text
           in case parse_request_uri trimmed of
                None \<Rightarrow> Inl (status_invalid ''URLs must be absolute HTTPS URLs without user information'')
              | Some (scheme, host) \<Rightarrow>
                  if scheme \<noteq> ''https'' \<or> host = [] \<or> request_uri_user trimmed
                  then Inl (status_invalid ''URLs must be absolute HTTPS URLs without user information'')
                  else Inr (Some trimmed)))"

definition normalizeStatusInput :: "string \<Rightarrow> did \<Rightarrow> commit_status_input \<Rightarrow> err + commit_status_input" where
  "normalizeStatusInput commitSHA creatorDID raw =
     (let input = raw\<lparr>si_Context := trim_space (si_Context raw), si_Description := trim_space (si_Description raw),
                      si_ExternalID := trim_space (si_ExternalID raw)\<rparr>
      in if \<not> shaPattern commitSHA then Inl (status_invalid ''commit SHA must be a full lowercase object ID'')
         else if trim_space creatorDID = [] then Inl (status_invalid ''creator DID is required'')
         else case validateName ''context'' (si_Context input) 100 of Some e \<Rightarrow> Inl e | None \<Rightarrow>
           if si_State input \<notin> set status_states then Inl (status_invalid ''unsupported status state'')
           else if length (si_Description input) > 140 then Inl (status_invalid ''description must not exceed 140 characters'')
           else case validateName ''external_id'' (si_ExternalID input) 255 of Some e \<Rightarrow> Inl e | None \<Rightarrow>
             case validateURL (si_TargetURL input) of Inl e \<Rightarrow> Inl e | Inr url \<Rightarrow> Inr (input\<lparr>si_TargetURL := url\<rparr>))"

definition validConclusion :: "string \<Rightarrow> bool" where
  "validConclusion v \<longleftrightarrow> v \<in> set conclusions"

definition validTransition :: "string \<Rightarrow> string \<Rightarrow> bool" where
  "validTransition before after \<longleftrightarrow>
     before = after \<or> before = CheckQueued \<and> (after = CheckInProgress \<or> after = CheckCompleted)
     \<or> before = CheckInProgress \<and> after = CheckCompleted"

definition started_or :: "instant option \<Rightarrow> instant option \<Rightarrow> instant \<Rightarrow> instant" where
  "started_or startedAt prior now = (case startedAt of Some s \<Rightarrow> s | None \<Rightarrow> (case prior of Some s \<Rightarrow> s | None \<Rightarrow> now))"

definition normalizeLifecycle ::
  "string \<Rightarrow> string option \<Rightarrow> instant option \<Rightarrow> instant option \<Rightarrow> instant option \<Rightarrow> instant
     \<Rightarrow> err + instant option \<times> instant option" where
  "normalizeLifecycle status conclusion startedAt completedAt prior now =
     (if status = CheckQueued then
        (if conclusion \<noteq> None \<or> startedAt \<noteq> None \<or> completedAt \<noteq> None
         then Inl (status_invalid ''queued checks cannot have conclusion or execution timestamps'')
         else Inr (startedAt, completedAt))
      else if status = CheckInProgress then
        (if conclusion \<noteq> None \<or> completedAt \<noteq> None
         then Inl (status_invalid ''in-progress checks cannot have a conclusion or completion time'')
         else Inr (Some (started_or startedAt prior now), completedAt))
      else if status = CheckCompleted then
        (if \<not> (case conclusion of None \<Rightarrow> False | Some c \<Rightarrow> validConclusion c)
         then Inl (status_invalid ''completed checks require a supported conclusion'')
         else
           let started = started_or startedAt prior now;
               completed = (case completedAt of None \<Rightarrow> now | Some t \<Rightarrow> t)
           in if completed < started then Inl (status_invalid ''completion time must not precede start time'')
              else Inr (Some started, Some completed))
      else Inl (status_invalid ''unsupported check status''))"

definition normalizeCheckRunInput :: "check_run_input \<Rightarrow> did \<Rightarrow> instant \<Rightarrow> err + check_run_input" where
  "normalizeCheckRunInput raw creatorDID now =
     (let input = raw\<lparr>ki_Name := trim_space (ki_Name raw), ki_ExternalID := trim_space (ki_ExternalID raw),
                      ki_OutputTitle := trim_space (ki_OutputTitle raw)\<rparr>
      in if \<not> shaPattern (ki_CommitSHA input) then Inl (status_invalid ''commit SHA must be a full lowercase object ID'')
         else if trim_space creatorDID = [] then Inl (status_invalid ''creator DID is required'')
         else case validateName ''name'' (ki_Name input) 100 of Some e \<Rightarrow> Inl e | None \<Rightarrow>
           case validateName ''external_id'' (ki_ExternalID input) 255 of Some e \<Rightarrow> Inl e | None \<Rightarrow>
           case validateCheckOutput (ki_OutputTitle input) (ki_OutputSummary input) of Some e \<Rightarrow> Inl e | None \<Rightarrow>
           case validateURL (ki_DetailsURL input) of Inl e \<Rightarrow> Inl e | Inr url \<Rightarrow>
           case normalizeLifecycle (ki_Status input) (ki_Conclusion input) (ki_StartedAt input) (ki_CompletedAt input) None now of
             Inl e \<Rightarrow> Inl e
           | Inr (started, completed) \<Rightarrow>
               Inr (input\<lparr>ki_DetailsURL := url, ki_StartedAt := started, ki_CompletedAt := completed\<rparr>))"

definition normalizeCheckRunUpdate :: "check_run \<Rightarrow> check_run_update \<Rightarrow> instant \<Rightarrow> err + check_run_update" where
  "normalizeCheckRunUpdate current raw now =
     (let input = raw\<lparr>ku_OutputTitle := trim_space (ku_OutputTitle raw)\<rparr>
      in if ku_ExpectedVersion input < 1 then Inl (status_invalid ''expected_version must be positive'')
         else case validateCheckOutput (ku_OutputTitle input) (ku_OutputSummary input) of Some e \<Rightarrow> Inl e | None \<Rightarrow>
           case validateURL (ku_DetailsURL input) of Inl e \<Rightarrow> Inl e | Inr url \<Rightarrow>
           if \<not> validTransition (cr_Status current) (ku_Status input)
           then Inl (because status_ErrConflict ''check run cannot make this transition'')
           else case normalizeLifecycle (ku_Status input) (ku_Conclusion input) (ku_StartedAt input) (ku_CompletedAt input)
                       (cr_StartedAt current) now of
             Inl e \<Rightarrow> Inl e
           | Inr (started, completed) \<Rightarrow>
               Inr (input\<lparr>ku_DetailsURL := url, ku_StartedAt := started, ku_CompletedAt := completed\<rparr>))"

section \<open>Fingerprints\<close>

definition status_json :: "string \<Rightarrow> commit_status_input \<Rightarrow> json_value" where
  "status_json commitSHA input =
     JSON_Object [(''CommitSHA'', JSON_String commitSHA),
       (''Input'', JSON_Object [(''Context'', JSON_String (si_Context input)), (''State'', JSON_String (si_State input)),
          (''Description'', JSON_String (si_Description input)), (''TargetURL'', optional_json JSON_String (si_TargetURL input)),
          (''ExternalID'', JSON_String (si_ExternalID input))])]"

definition check_run_json :: "check_run_input \<Rightarrow> json_value" where
  "check_run_json input =
     JSON_Object [(''CommitSHA'', JSON_String (ki_CommitSHA input)), (''Name'', JSON_String (ki_Name input)),
       (''ExternalID'', JSON_String (ki_ExternalID input)), (''Status'', JSON_String (ki_Status input)),
       (''Conclusion'', optional_json JSON_String (ki_Conclusion input)),
       (''DetailsURL'', optional_json JSON_String (ki_DetailsURL input)), (''OutputTitle'', JSON_String (ki_OutputTitle input)),
       (''OutputSummary'', JSON_String (ki_OutputSummary input)), (''StartedAt'', optional_json JSON_Time (ki_StartedAt input)),
       (''CompletedAt'', optional_json JSON_Time (ki_CompletedAt input))]"

definition requestHash :: "json_value \<Rightarrow> err + string" where
  "requestHash v =
     (case json_Marshal v of
        None \<Rightarrow> Inl (wrapf ''encode replay fingerprint'' (Opaque ''json''))
      | Some encoded \<Rightarrow> Inr (sha256 encoded))"

section \<open>Rows\<close>

record commit_status_row =
  sr_status :: commit_status
  sr_request_hash :: string
  sr_expires_at :: instant

record run_row =
  rn_run :: check_run
  rn_request_hash :: string
  rn_expires_at :: instant

abbreviation sr_id :: "commit_status_row \<Rightarrow> uuid" where "sr_id r \<equiv> cs_ID (sr_status r)"
abbreviation rn_id :: "run_row \<Rightarrow> uuid" where "rn_id r \<equiv> cr_ID (rn_run r)"

text \<open>The unique constraints of the two tables, and the columns that say what a row is the latest of.\<close>

definition sr_key :: "commit_status_row \<Rightarrow> uuid \<times> did \<times> string" where
  "sr_key r = (cs_RepositoryID (sr_status r), cs_CreatorDID (sr_status r), cs_ExternalID (sr_status r))"

definition rn_key :: "run_row \<Rightarrow> uuid \<times> did \<times> string" where
  "rn_key r = (cr_RepositoryID (rn_run r), cr_CreatorDID (rn_run r), cr_ExternalID (rn_run r))"

definition sr_topic :: "commit_status_row \<Rightarrow> uuid \<times> string \<times> string" where
  "sr_topic r = (cs_RepositoryID (sr_status r), cs_CommitSHA (sr_status r), cs_Context (sr_status r))"

definition rn_topic :: "run_row \<Rightarrow> uuid \<times> string \<times> string" where
  "rn_topic r = (cr_RepositoryID (rn_run r), cr_CommitSHA (rn_run r), cr_Name (rn_run r))"

text \<open>A text of the database has no NUL; a request with one fails as one that breaks a check does.\<close>

definition text_between :: "nat \<Rightarrow> string \<Rightarrow> nat \<Rightarrow> bool" where
  "text_between low v high \<longleftrightarrow> low \<le> length (runes v) \<and> length (runes v) \<le> high \<and> CHR 0x00 \<notin> set v"

definition status_row_checks :: "commit_status_row \<Rightarrow> bool" where
  "status_row_checks r \<longleftrightarrow>
     (let s = sr_status r
      in shaPattern (cs_CommitSHA s) \<and> text_between 1 (cs_Context s) 100 \<and> cs_State s \<in> set status_states
         \<and> text_between 0 (cs_Description s) 140 \<and> text_between 1 (cs_ExternalID s) 255 \<and> cs_CreatedAt s < sr_expires_at r)"

definition run_row_checks :: "run_row \<Rightarrow> bool" where
  "run_row_checks r \<longleftrightarrow>
     (let s = rn_run r
      in shaPattern (cr_CommitSHA s) \<and> text_between 1 (cr_Name s) 100 \<and> text_between 1 (cr_ExternalID s) 255
         \<and> cr_Status s \<in> {CheckQueued, CheckInProgress, CheckCompleted}
         \<and> (case cr_Conclusion s of None \<Rightarrow> True | Some c \<Rightarrow> c \<in> set conclusions)
         \<and> text_between 0 (cr_OutputTitle s) 255 \<and> text_between 0 (cr_OutputSummary s) 65535 \<and> cr_Version s > 0
         \<and> (cr_Status s = CheckCompleted) = (cr_Conclusion s \<noteq> None) \<and> (cr_Status s = CheckCompleted) = (cr_CompletedAt s \<noteq> None)
         \<and> cr_CreatedAt s < rn_expires_at r)"

definition pg_micros :: "instant \<Rightarrow> instant" where
  "pg_micros t = t - t mod 1000"

section \<open>The world\<close>

text \<open>The two tables, what their rows refer to, and the schedules of \<open>uuid.NewV7\<close> and of database faults.\<close>

record status_world =
  sw_statuses :: "commit_status_row list"
  sw_runs :: "run_row list"
  sw_repositories :: "uuid list"
  sw_accounts :: "did list"
  sw_faults :: "bool list"
  sw_ids :: "nat \<Rightarrow> err + uuid"
  sw_ids_used :: nat

type_synonym 'a status_sql = "status_world \<Rightarrow> err + 'a \<times> commit_status_row list \<times> run_row list"

definition status_query :: "'a status_sql \<Rightarrow> (status_world, 'a) op" where
  "status_query q w =
     (let v = w\<lparr>sw_faults := tl (sw_faults w)\<rparr>
      in if sw_faults w \<noteq> [] \<and> hd (sw_faults w) then (Inl (Opaque ''database''), v)
         else case q w of
             Inl e \<Rightarrow> (Inl e, v)
           | Inr (x, statuses, runs) \<Rightarrow> (Inr x, v\<lparr>sw_statuses := statuses, sw_runs := runs\<rparr>))"

definition status_NewV7 :: "(status_world, uuid) op" where
  "status_NewV7 w = (sw_ids w (sw_ids_used w), w\<lparr>sw_ids_used := Suc (sw_ids_used w)\<rparr>)"

section \<open>Queries\<close>

text \<open>\<open>INSERT \<dots> ON CONFLICT (key) DO NOTHING RETURNING *\<close>: no row where the key is taken.\<close>

definition insert_unless :: "('r \<Rightarrow> 'k) \<Rightarrow> ('r \<Rightarrow> uuid) \<Rightarrow> ('r \<Rightarrow> bool) \<Rightarrow> bool \<Rightarrow> 'r \<Rightarrow> 'r list \<Rightarrow> err + 'r list" where
  "insert_unless key ident checks refers r rows =
     (if \<not> checks r then Inl (Pg_Error ''23514'')
      else if list_ex (\<lambda>s. key s = key r) rows then Inl (Sentinel pgx_ErrNoRows)
      else if list_ex (\<lambda>s. ident s = ident r) rows then Inl (Pg_Error ''23505'')
      else if \<not> refers then Inl (Pg_Error ''23503'')
      else Inr (rows @ [r]))"

definition found_row :: "'r option \<Rightarrow> 'r status_sql" where
  "found_row r w = (case r of None \<Rightarrow> Inl (Sentinel pgx_ErrNoRows) | Some x \<Rightarrow> Inr (x, sw_statuses w, sw_runs w))"

definition sql_CreateCommitStatus :: "commit_status_row \<Rightarrow> commit_status_row status_sql" where
  "sql_CreateCommitStatus r w =
     (case insert_unless sr_key sr_id status_row_checks
             (cs_RepositoryID (sr_status r) \<in> set (sw_repositories w) \<and> cs_CreatorDID (sr_status r) \<in> set (sw_accounts w))
             r (sw_statuses w) of
        Inl e \<Rightarrow> Inl e | Inr rows \<Rightarrow> Inr (r, rows, sw_runs w))"

definition sql_GetCommitStatusByExternalID :: "uuid \<Rightarrow> did \<Rightarrow> string \<Rightarrow> commit_status_row status_sql" where
  "sql_GetCommitStatusByExternalID rid creator external w =
     found_row (find (\<lambda>r. sr_key r = (rid, creator, external)) (sw_statuses w)) w"

text \<open>The rows of a commit after the cursor, newest first; a cursor that is no row of the commit compares with none.\<close>

definition commit_page ::
  "('r \<Rightarrow> uuid \<times> string) \<Rightarrow> ('r \<Rightarrow> instant \<times> uuid) \<Rightarrow> uuid \<times> string \<Rightarrow> uuid option \<Rightarrow> int \<Rightarrow> 'r list \<Rightarrow> 'r list" where
  "commit_page place age commit after_id page_limit rows =
     take (nat page_limit) (sort_by (\<lambda>a b. fst (age b) < fst (age a) \<or> fst (age a) = fst (age b) \<and> snd (age b) \<le> snd (age a))
       (filter (\<lambda>r. place r = commit
          \<and> (case after_id of
               None \<Rightarrow> True
             | Some a \<Rightarrow>
                 (case find (\<lambda>c. place c = commit \<and> snd (age c) = a) rows of
                    None \<Rightarrow> False
                  | Some c \<Rightarrow> fst (age r) < fst (age c) \<or> fst (age r) = fst (age c) \<and> snd (age r) < snd (age c)))) rows))"

definition sql_PageCommitStatuses :: "uuid \<Rightarrow> string \<Rightarrow> uuid option \<Rightarrow> int \<Rightarrow> commit_status_row list status_sql" where
  "sql_PageCommitStatuses rid sha after_id page_limit w =
     Inr (commit_page (\<lambda>r. (cs_RepositoryID (sr_status r), cs_CommitSHA (sr_status r)))
            (\<lambda>r. (cs_CreatedAt (sr_status r), sr_id r)) (rid, sha) after_id page_limit (sw_statuses w), sw_statuses w, sw_runs w)"

text \<open>\<open>DISTINCT ON (topic) \<dots> ORDER BY topic, id DESC\<close>: the rows with the greatest identifier of their topic.\<close>

definition latest_of :: "('r \<Rightarrow> 'k) \<Rightarrow> ('r \<Rightarrow> uuid) \<Rightarrow> 'r list \<Rightarrow> 'r \<Rightarrow> bool" where
  "latest_of topic ident rows r \<longleftrightarrow> list_all (\<lambda>s. topic s = topic r \<longrightarrow> ident s \<le> ident r) rows"

definition sql_LatestCommitStatuses :: "(string \<Rightarrow> string \<Rightarrow> bool) \<Rightarrow> uuid \<Rightarrow> string \<Rightarrow> commit_status_row list status_sql" where
  "sql_LatestCommitStatuses collate rid sha w =
     (let rows = filter (\<lambda>r. cs_RepositoryID (sr_status r) = rid \<and> cs_CommitSHA (sr_status r) = sha) (sw_statuses w)
      in Inr (sort_by (\<lambda>a b. collate (cs_Context (sr_status a)) (cs_Context (sr_status b)))
                (filter (latest_of (\<lambda>r. cs_Context (sr_status r)) sr_id rows) rows), sw_statuses w, sw_runs w))"

definition sql_CreateCheckRun :: "run_row \<Rightarrow> run_row status_sql" where
  "sql_CreateCheckRun r w =
     (case insert_unless rn_key rn_id run_row_checks
             (cr_RepositoryID (rn_run r) \<in> set (sw_repositories w) \<and> cr_CreatorDID (rn_run r) \<in> set (sw_accounts w))
             r (sw_runs w) of
        Inl e \<Rightarrow> Inl e | Inr rows \<Rightarrow> Inr (r, sw_statuses w, rows))"

definition sql_GetCheckRun :: "uuid \<Rightarrow> uuid \<Rightarrow> run_row status_sql" where
  "sql_GetCheckRun i rid w = found_row (find (\<lambda>r. rn_id r = i \<and> cr_RepositoryID (rn_run r) = rid) (sw_runs w)) w"

definition sql_GetCheckRunByExternalID :: "uuid \<Rightarrow> did \<Rightarrow> string \<Rightarrow> run_row status_sql" where
  "sql_GetCheckRunByExternalID rid creator external w =
     found_row (find (\<lambda>r. rn_key r = (rid, creator, external)) (sw_runs w)) w"

definition sql_PageCheckRuns :: "uuid \<Rightarrow> string \<Rightarrow> uuid option \<Rightarrow> int \<Rightarrow> run_row list status_sql" where
  "sql_PageCheckRuns rid sha after_id page_limit w =
     Inr (commit_page (\<lambda>r. (cr_RepositoryID (rn_run r), cr_CommitSHA (rn_run r)))
            (\<lambda>r. (cr_CreatedAt (rn_run r), rn_id r)) (rid, sha) after_id page_limit (sw_runs w), sw_statuses w, sw_runs w)"

definition updated_run :: "check_run_update \<Rightarrow> instant \<Rightarrow> instant \<Rightarrow> run_row \<Rightarrow> run_row" where
  "updated_run input updated_at expires_at r =
     r\<lparr>rn_run := (rn_run r)\<lparr>cr_Status := ku_Status input, cr_Conclusion := ku_Conclusion input, cr_DetailsURL := ku_DetailsURL input,
         cr_OutputTitle := ku_OutputTitle input, cr_OutputSummary := ku_OutputSummary input,
         cr_Version := cr_Version (rn_run r) + 1, cr_StartedAt := map_option pg_micros (ku_StartedAt input),
         cr_CompletedAt := map_option pg_micros (ku_CompletedAt input), cr_UpdatedAt := pg_micros updated_at\<rparr>,
       rn_expires_at := pg_micros expires_at\<rparr>"

definition sql_UpdateCheckRun ::
  "uuid \<Rightarrow> uuid \<Rightarrow> did \<Rightarrow> check_run_update \<Rightarrow> instant \<Rightarrow> instant \<Rightarrow> run_row status_sql" where
  "sql_UpdateCheckRun i rid creator input updated_at expires_at w =
     (let p = (\<lambda>r. rn_id r = i \<and> cr_RepositoryID (rn_run r) = rid \<and> cr_CreatorDID (rn_run r) = creator
                 \<and> cr_Version (rn_run r) = ku_ExpectedVersion input);
          f = updated_run input updated_at expires_at
      in case find p (sw_runs w) of
           None \<Rightarrow> Inl (Sentinel pgx_ErrNoRows)
         | Some r \<Rightarrow>
             if \<not> run_row_checks (f r) then Inl (Pg_Error ''23514'')
             else Inr (f r, sw_statuses w, update_where p f (sw_runs w)))"

definition sql_DeleteExpiredCommitStatuses :: "instant \<Rightarrow> int status_sql" where
  "sql_DeleteExpiredCommitStatuses cutoff w =
     (let gone = (\<lambda>r. sr_expires_at r \<le> cutoff \<and> \<not> latest_of sr_topic sr_id (sw_statuses w) r)
      in Inr (int (length (filter gone (sw_statuses w))), delete_where gone (sw_statuses w), sw_runs w))"

definition sql_DeleteExpiredCheckRuns :: "instant \<Rightarrow> int status_sql" where
  "sql_DeleteExpiredCheckRuns cutoff w =
     (let gone = (\<lambda>r. rn_expires_at r \<le> cutoff \<and> cr_Status (rn_run r) = CheckCompleted
                    \<and> \<not> latest_of rn_topic rn_id (sw_runs w) r)
      in Inr (int (length (filter gone (sw_runs w))), sw_statuses w, delete_where gone (sw_runs w)))"

section \<open>Statuses\<close>

definition status_columns :: "uuid \<Rightarrow> uuid \<Rightarrow> did \<Rightarrow> string \<Rightarrow> commit_status_input \<Rightarrow> string \<Rightarrow> instant \<Rightarrow> commit_status_row" where
  "status_columns i rid creator sha input fingerprint now =
     \<lparr>sr_status = \<lparr>cs_ID = i, cs_RepositoryID = rid, cs_CommitSHA = sha, cs_Context = si_Context input, cs_State = si_State input,
        cs_Description = si_Description input, cs_TargetURL = si_TargetURL input, cs_CreatorDID = creator,
        cs_ExternalID = si_ExternalID input, cs_CreatedAt = pg_micros now\<rparr>,
      sr_request_hash = fingerprint, sr_expires_at = pg_micros (now + status_Retention)\<rparr>"

definition CreateStatus :: "uuid \<Rightarrow> did \<Rightarrow> string \<Rightarrow> commit_status_input \<Rightarrow> instant \<Rightarrow> (status_world, commit_status \<times> bool) op" where
  "CreateStatus rid creatorDID commitSHA input now =
     (case normalizeStatusInput commitSHA creatorDID input of
        Inl e \<Rightarrow> raise e
      | Inr normalized \<Rightarrow>
          (case requestHash (status_json commitSHA normalized) of
             Inl e \<Rightarrow> raise e
           | Inr fingerprint \<Rightarrow>
               call status_NewV7 (wrapf ''generate commit status ID'') (\<lambda>i.
               attempt (status_query (sql_CreateCommitStatus (status_columns i rid creatorDID commitSHA normalized fingerprint now)))
                 (\<lambda>e. fail_if (\<not> errors_is e pgx_ErrNoRows) (wrapf ''create commit status'' e) (
                      call (status_query (sql_GetCommitStatusByExternalID rid creatorDID (si_ExternalID normalized)))
                        (wrapf ''resolve commit status replay'') (\<lambda>existing.
                      fail_if (sr_request_hash existing \<noteq> fingerprint)
                        (because status_ErrConflict ''external_id was already used with a different status'')
                        (ret (sr_status existing, False)))))
                 (\<lambda>row. ret (sr_status row, True)))))"

definition PageStatuses :: "uuid \<Rightarrow> string \<Rightarrow> uuid option \<Rightarrow> int \<Rightarrow> (status_world, commit_status status_page) op" where
  "PageStatuses rid commitSHA after_id limit =
     check (validateStatusPage commitSHA limit) (\<lambda>e. e) (
     call (status_query (sql_PageCommitStatuses rid commitSHA after_id (limit + 1))) (wrapf ''page commit statuses'') (\<lambda>rows.
     ret \<lparr>sp_Items = map sr_status (page_items rows (nat limit)), sp_NextCursor = page_cursor rows (nat limit) sr_id\<rparr>))"

definition state_priority :: "string \<Rightarrow> int" where
  "state_priority v =
     (if v = Status_Pending then 1 else if v = Status_Failure then 2 else if v = Status_Error then 3 else 0)"

definition combineState :: "string \<Rightarrow> string \<Rightarrow> string" where
  "combineState current candidate = (if state_priority candidate > state_priority current then candidate else current)"

definition Combined :: "(string \<Rightarrow> string \<Rightarrow> bool) \<Rightarrow> uuid \<Rightarrow> string \<Rightarrow> (status_world, combined_status) op" where
  "Combined collate rid commitSHA =
     fail_if (\<not> shaPattern commitSHA) (status_invalid ''commit SHA must be a full lowercase object ID'') (
     call (status_query (sql_LatestCommitStatuses collate rid commitSHA)) (wrapf ''read combined commit status'') (\<lambda>rows.
     let items = map sr_status rows
     in ret \<lparr>cb_SHA = commitSHA,
             cb_State = foldl (\<lambda>state v. combineState state (cs_State v))
               (if rows = [] then Status_Pending else Status_Success) items,
             cb_Items = items\<rparr>))"

section \<open>Check runs\<close>

definition run_columns :: "uuid \<Rightarrow> uuid \<Rightarrow> did \<Rightarrow> check_run_input \<Rightarrow> string \<Rightarrow> instant \<Rightarrow> run_row" where
  "run_columns i rid creator input fingerprint now =
     \<lparr>rn_run = \<lparr>cr_ID = i, cr_RepositoryID = rid, cr_CommitSHA = ki_CommitSHA input, cr_Name = ki_Name input,
        cr_ExternalID = ki_ExternalID input, cr_CreatorDID = creator, cr_Status = ki_Status input,
        cr_Conclusion = ki_Conclusion input, cr_DetailsURL = ki_DetailsURL input, cr_OutputTitle = ki_OutputTitle input,
        cr_OutputSummary = ki_OutputSummary input, cr_Version = 1, cr_StartedAt = map_option pg_micros (ki_StartedAt input),
        cr_CompletedAt = map_option pg_micros (ki_CompletedAt input), cr_CreatedAt = pg_micros now, cr_UpdatedAt = pg_micros now\<rparr>,
      rn_request_hash = fingerprint, rn_expires_at = pg_micros (now + status_Retention)\<rparr>"

definition CreateCheckRun :: "uuid \<Rightarrow> did \<Rightarrow> check_run_input \<Rightarrow> instant \<Rightarrow> (status_world, check_run \<times> bool) op" where
  "CreateCheckRun rid creatorDID input now =
     (case normalizeCheckRunInput input creatorDID now of
        Inl e \<Rightarrow> raise e
      | Inr normalized \<Rightarrow>
          (case requestHash (check_run_json normalized) of
             Inl e \<Rightarrow> raise e
           | Inr fingerprint \<Rightarrow>
               call status_NewV7 (wrapf ''generate check run ID'') (\<lambda>i.
               attempt (status_query (sql_CreateCheckRun (run_columns i rid creatorDID normalized fingerprint now)))
                 (\<lambda>e. fail_if (\<not> errors_is e pgx_ErrNoRows) (wrapf ''create check run'' e) (
                      call (status_query (sql_GetCheckRunByExternalID rid creatorDID (ki_ExternalID normalized)))
                        (wrapf ''resolve check run replay'') (\<lambda>existing.
                      fail_if (rn_request_hash existing \<noteq> fingerprint)
                        (because status_ErrConflict ''external_id was already used with a different check run'')
                        (ret (rn_run existing, False)))))
                 (\<lambda>row. ret (rn_run row, True)))))"

definition GetCheckRun :: "uuid \<Rightarrow> uuid \<Rightarrow> (status_world, check_run) op" where
  "GetCheckRun rid i =
     call (status_query (sql_GetCheckRun i rid))
       (\<lambda>e. if errors_is e pgx_ErrNoRows then Sentinel status_ErrNotFound else wrapf ''get check run'' e) (\<lambda>row. ret (rn_run row))"

definition PageCheckRuns :: "uuid \<Rightarrow> string \<Rightarrow> uuid option \<Rightarrow> int \<Rightarrow> (status_world, check_run status_page) op" where
  "PageCheckRuns rid commitSHA after_id limit =
     check (validateStatusPage commitSHA limit) (\<lambda>e. e) (
     call (status_query (sql_PageCheckRuns rid commitSHA after_id (limit + 1))) (wrapf ''page check runs'') (\<lambda>rows.
     ret \<lparr>sp_Items = map rn_run (page_items rows (nat limit)), sp_NextCursor = page_cursor rows (nat limit) rn_id\<rparr>))"

definition checkRunMatches :: "check_run \<Rightarrow> check_run_update \<Rightarrow> bool" where
  "checkRunMatches current input \<longleftrightarrow>
     cr_Status current = ku_Status input \<and> cr_Conclusion current = ku_Conclusion input
     \<and> cr_DetailsURL current = ku_DetailsURL input \<and> cr_OutputTitle current = ku_OutputTitle input
     \<and> cr_OutputSummary current = ku_OutputSummary input \<and> cr_StartedAt current = ku_StartedAt input
     \<and> cr_CompletedAt current = ku_CompletedAt input"

definition UpdateCheckRun ::
  "uuid \<Rightarrow> did \<Rightarrow> uuid \<Rightarrow> check_run_update \<Rightarrow> instant \<Rightarrow> (status_world, check_run \<times> bool) op" where
  "UpdateCheckRun rid creatorDID i input now =
     call (GetCheckRun rid i) (\<lambda>e. e) (\<lambda>current.
     fail_if (cr_CreatorDID current \<noteq> creatorDID) (Sentinel status_ErrNotFound) (
     case normalizeCheckRunUpdate current input now of
       Inl e \<Rightarrow> raise e
     | Inr normalized \<Rightarrow>
         if checkRunMatches current normalized then ret (current, False)
         else fail_if (cr_Version current \<noteq> ku_ExpectedVersion normalized)
                (because status_ErrConflict ''check run version does not match'') (
              call (status_query (sql_UpdateCheckRun i rid creatorDID normalized now (now + status_Retention)))
                (\<lambda>e. if errors_is e pgx_ErrNoRows then Sentinel status_ErrConflict else wrapf ''update check run'' e)
                (\<lambda>row. ret (rn_run row, True)))))"

section \<open>Retention\<close>

definition retention_cleanup :: "instant \<Rightarrow> (status_world, unit) op" where
  "retention_cleanup now =
     call (status_query (sql_DeleteExpiredCommitStatuses (pg_micros now))) (wrapf ''delete expired commit status history'') (\<lambda>_.
     call (status_query (sql_DeleteExpiredCheckRuns (pg_micros now))) (wrapf ''delete expired check run history'') (\<lambda>_.
     ret ()))"

text \<open>The loop of the worker: a run at the start, and one at each tick before the context is done, at the times the clock says.\<close>

primrec retention_loop :: "instant list \<Rightarrow> (status_world, unit) op" where
  "retention_loop [] = ret ()"
| "retention_loop (now # ticks) = call (retention_cleanup now) (\<lambda>e. e) (\<lambda>_. retention_loop ticks)"

definition RetentionWorker_Run :: "instant \<Rightarrow> instant list \<Rightarrow> (status_world, unit) op" where
  "RetentionWorker_Run now ticks = call (retention_cleanup now) (\<lambda>e. e) (\<lambda>_. retention_loop ticks)"

end
