(* ===== verification/Status_Properties.thy ===== *)
theory Status_Properties imports Commit_Status begin

text \<open>
  Properties of commit statuses and check runs: what any requests do to the two tables, replays of creations,
  concurrent updates, the combined status of a commit, and what the retention worker removes.
\<close>

section \<open>Queries\<close>

lemma status_query_ok [op_ok]:
  "status_query q w = (Inr x, w') \<longleftrightarrow>
     \<not> (sw_faults w \<noteq> [] \<and> hd (sw_faults w))
     \<and> (\<exists>statuses runs. q w = Inr (x, statuses, runs)
          \<and> w' = w\<lparr>sw_faults := tl (sw_faults w), sw_statuses := statuses, sw_runs := runs\<rparr>)"
  by (auto simp: status_query_def Let_def split: sum.splits)

lemma found_row_ok: "found_row r w = Inr (x, s, t) \<longleftrightarrow> r = Some x \<and> s = sw_statuses w \<and> t = sw_runs w"
  by (auto simp: found_row_def split: option.splits)

lemma insert_unless_ok:
  "insert_unless key ident checks refers r rows = Inr rows' \<longleftrightarrow>
     checks r \<and> refers \<and> (\<forall>s \<in> set rows. key s \<noteq> key r) \<and> (\<forall>s \<in> set rows. ident s \<noteq> ident r) \<and> rows' = rows @ [r]"
  by (auto simp: insert_unless_def list_ex_iff)

lemma delete_where_set: "set (delete_where p rows) = {r \<in> set rows. \<not> p r}"
  by (auto simp: delete_where_def)

section \<open>The life of a check run\<close>

text \<open>What the fields of a run say in each of its three statuses.\<close>

definition run_lifecycle :: "string \<Rightarrow> string option \<Rightarrow> instant option \<Rightarrow> instant option \<Rightarrow> bool" where
  "run_lifecycle status conclusion started completed \<longleftrightarrow>
     status = CheckQueued \<and> conclusion = None \<and> started = None \<and> completed = None
     \<or> status = CheckInProgress \<and> conclusion = None \<and> started \<noteq> None \<and> completed = None
     \<or> status = CheckCompleted \<and> (\<exists>c s t. conclusion = Some c \<and> validConclusion c \<and> started = Some s \<and> completed = Some t \<and> s \<le> t)"

definition run_ok :: "run_row \<Rightarrow> bool" where
  "run_ok r \<longleftrightarrow>
     run_lifecycle (cr_Status (rn_run r)) (cr_Conclusion (rn_run r)) (cr_StartedAt (rn_run r)) (cr_CompletedAt (rn_run r))
     \<and> 1 \<le> cr_Version (rn_run r)"

text \<open>Where a run may be after it was somewhere: the same run, at a later version or the same, with a later status or the same.\<close>

definition run_identity :: "run_row \<Rightarrow> uuid \<times> uuid \<times> string \<times> string \<times> string \<times> did \<times> instant \<times> string" where
  "run_identity r =
     (rn_id r, cr_RepositoryID (rn_run r), cr_CommitSHA (rn_run r), cr_Name (rn_run r), cr_ExternalID (rn_run r),
      cr_CreatorDID (rn_run r), cr_CreatedAt (rn_run r), rn_request_hash r)"

definition run_after :: "run_row \<Rightarrow> run_row \<Rightarrow> bool" where
  "run_after r s \<longleftrightarrow>
     run_identity s = run_identity r \<and> validTransition (cr_Status (rn_run r)) (cr_Status (rn_run s))
     \<and> (s = r \<or> cr_Version (rn_run r) < cr_Version (rn_run s))"

lemma run_after_refl [simp]: "run_after r r"
  by (simp add: run_after_def validTransition_def)

lemma run_after_trans: "run_after r s \<Longrightarrow> run_after s t \<Longrightarrow> run_after r t"
  by (auto simp: run_after_def validTransition_def)

lemma pg_micros_mono: "s \<le> t \<Longrightarrow> pg_micros s \<le> pg_micros t"
proof -
  have "pg_micros u = 1000 * (u div 1000)" for u by (simp add: pg_micros_def minus_mod_eq_mult_div)
  then show "s \<le> t \<Longrightarrow> pg_micros s \<le> pg_micros t" using zdiv_mono1 [of s t 1000] by simp
qed

lemma normalizeLifecycle_ok:
  "normalizeLifecycle status conclusion startedAt completedAt prior now = Inr (s, c) \<Longrightarrow>
     run_lifecycle status conclusion (map_option pg_micros s) (map_option pg_micros c)"
  by (auto simp: normalizeLifecycle_def run_lifecycle_def Let_def pg_micros_mono split: if_splits option.splits)

lemma normalizeCheckRunInput_ok:
  assumes "normalizeCheckRunInput input creator now = Inr k"
  shows "run_lifecycle (ki_Status k) (ki_Conclusion k) (map_option pg_micros (ki_StartedAt k)) (map_option pg_micros (ki_CompletedAt k))"
  using assms
  by (auto simp: normalizeCheckRunInput_def Let_def dest: normalizeLifecycle_ok split: if_splits option.splits sum.splits prod.splits)

lemma normalizeCheckRunUpdate_ok:
  assumes "normalizeCheckRunUpdate current input now = Inr k"
  shows "run_lifecycle (ku_Status k) (ku_Conclusion k) (map_option pg_micros (ku_StartedAt k)) (map_option pg_micros (ku_CompletedAt k))
     \<and> validTransition (cr_Status current) (ku_Status k) \<and> ku_ExpectedVersion k = ku_ExpectedVersion input \<and> 1 \<le> ku_ExpectedVersion k"
  using assms
  by (auto simp: normalizeCheckRunUpdate_def Let_def dest: normalizeLifecycle_ok split: if_splits option.splits sum.splits prod.splits)

section \<open>Concurrent requests\<close>

text \<open>
  Statements of any requests on the check runs, in any order. A request updates a run it read before (\<open>seen\<close>: the rows
  that were in the table at any time), with the input it normalized against that row; a new run has a new identifier.
\<close>

inductive interleaved :: "run_row list \<Rightarrow> run_row set \<Rightarrow> run_row list \<Rightarrow> bool" for rs0 where
  Begin: "interleaved rs0 (set rs0) rs0"
| Create: "interleaved rs0 seen (sw_runs w) \<Longrightarrow> normalizeCheckRunInput input creator now = Inr k \<Longrightarrow> i \<notin> rn_id ` seen \<Longrightarrow>
     sql_CreateCheckRun (run_columns i rid creator k fingerprint now) w = Inr (r, ss, rs) \<Longrightarrow>
     interleaved rs0 (seen \<union> set rs) rs"
| Update: "interleaved rs0 seen (sw_runs w) \<Longrightarrow> c \<in> seen \<Longrightarrow> normalizeCheckRunUpdate (rn_run c) input now = Inr k \<Longrightarrow>
     cr_Version (rn_run c) = ku_ExpectedVersion k \<Longrightarrow>
     sql_UpdateCheckRun (rn_id c) (cr_RepositoryID (rn_run c)) (cr_CreatorDID (rn_run c)) k now expires w = Inr (r, ss, rs) \<Longrightarrow>
     interleaved rs0 (seen \<union> set rs) rs"
| Expire: "interleaved rs0 seen (sw_runs w) \<Longrightarrow> sql_DeleteExpiredCheckRuns cutoff w = Inr (n, ss, rs) \<Longrightarrow>
     interleaved rs0 seen rs"

definition one_history :: "run_row set \<Rightarrow> run_row list \<Rightarrow> bool" where
  "one_history seen rs \<longleftrightarrow>
     keyed rn_id rs \<and> set rs \<subseteq> seen \<and> (\<forall>c \<in> seen. run_ok c)
     \<and> (\<forall>c \<in> seen. \<forall>d \<in> seen. rn_id c = rn_id d \<longrightarrow> run_after c d \<or> run_after d c)
     \<and> (\<forall>c \<in> seen. \<forall>r \<in> set rs. rn_id c = rn_id r \<longrightarrow> run_after c r)
     \<and> (\<forall>c \<in> seen. \<exists>d \<in> seen. run_after c d \<and> (d \<in> set rs \<or> cr_Status (rn_run d) = CheckCompleted))"

lemma one_historyI:
  assumes "keyed rn_id rs" and "set rs \<subseteq> seen" and "\<And>c. c \<in> seen \<Longrightarrow> run_ok c"
    and "\<And>c d. c \<in> seen \<Longrightarrow> d \<in> seen \<Longrightarrow> rn_id c = rn_id d \<Longrightarrow> run_after c d \<or> run_after d c"
    and "\<And>c r. c \<in> seen \<Longrightarrow> r \<in> set rs \<Longrightarrow> rn_id c = rn_id r \<Longrightarrow> run_after c r"
    and "\<And>c. c \<in> seen \<Longrightarrow> \<exists>d \<in> seen. run_after c d \<and> (d \<in> set rs \<or> cr_Status (rn_run d) = CheckCompleted)"
  shows "one_history seen rs"
  using assms unfolding one_history_def by blast

lemma one_historyD:
  assumes "one_history seen rs"
  shows "keyed rn_id rs" and "set rs \<subseteq> seen" and "c \<in> seen \<Longrightarrow> run_ok c"
    and "c \<in> seen \<Longrightarrow> d \<in> seen \<Longrightarrow> rn_id c = rn_id d \<Longrightarrow> run_after c d \<or> run_after d c"
    and "c \<in> seen \<Longrightarrow> r \<in> set rs \<Longrightarrow> rn_id c = rn_id r \<Longrightarrow> run_after c r"
    and "c \<in> seen \<Longrightarrow> \<exists>d \<in> seen. run_after c d \<and> (d \<in> set rs \<or> cr_Status (rn_run d) = CheckCompleted)"
  using assms unfolding one_history_def by blast+

lemma one_history_begin: "keyed rn_id rs \<Longrightarrow> \<forall>r \<in> set rs. run_ok r \<Longrightarrow> one_history (set rs) rs"
  by (rule one_historyI) (auto dest: keyed_unique intro: run_after_refl)

lemma run_after_id: "run_after c d \<Longrightarrow> rn_id d = rn_id c"
  by (simp add: run_after_def run_identity_def)

lemma one_history_create:
  assumes hist: "one_history seen rs" and "run_ok r" and "rn_id r \<notin> rn_id ` seen"
  shows "one_history (seen \<union> set (rs @ [r])) (rs @ [r])"
proof -
  note h = one_historyD [OF hist]
  have new: "rn_id c \<noteq> rn_id r" if "c \<in> seen" for c using assms(3) that by (metis image_eqI)
  have seen: "seen \<union> set (rs @ [r]) = insert r seen" using h(2) by auto
  show ?thesis
    unfolding seen
  proof (rule one_historyI)
    show "keyed rn_id (rs @ [r])" using h(1,2) new [THEN not_sym] by fastforce
    show "set (rs @ [r]) \<subseteq> insert r seen" using h(2) by auto
    show "run_ok c" if "c \<in> insert r seen" for c using that h(3) assms(2) by auto
    show "run_after c d \<or> run_after d c" if "c \<in> insert r seen" "d \<in> insert r seen" "rn_id c = rn_id d" for c d
      using that new h(4) run_after_refl by (metis insert_iff)
    show "run_after c d" if "c \<in> insert r seen" "d \<in> set (rs @ [r])" "rn_id c = rn_id d" for c d
      using that new h(2,5) run_after_refl by (metis Un_iff empty_iff insert_iff list.set(1,2) set_append subsetD)
    show "\<exists>d \<in> insert r seen. run_after c d \<and> (d \<in> set (rs @ [r]) \<or> cr_Status (rn_run d) = CheckCompleted)"
      if "c \<in> insert r seen" for c using that h(6) run_after_refl by fastforce
  qed
qed

lemma one_history_update:
  assumes hist: "one_history seen rs" and r: "r \<in> set rs" and ok: "run_ok s" and after: "run_after r s"
    and rs': "set rs' = insert s (set rs - {r})" "keyed rn_id rs'"
  shows "one_history (seen \<union> set rs') rs'"
proof -
  note h = one_historyD [OF hist]
  have id: "rn_id s = rn_id r" using run_after_id [OF after] .
  have seen: "seen \<union> set rs' = insert s seen" using h(2) rs'(1) by auto
  have to_s: "run_after c s" if "c \<in> insert s seen" "rn_id c = rn_id s" for c
    using that h(5) [OF _ r] after run_after_trans id run_after_refl by (metis insert_iff)
  show ?thesis
    unfolding seen
  proof (rule one_historyI)
    show "keyed rn_id rs'" by (rule rs'(2))
    show "set rs' \<subseteq> insert s seen" using h(2) rs'(1) by auto
    show "run_ok c" if "c \<in> insert s seen" for c using that h(3) ok by auto
    show "run_after c d \<or> run_after d c" if "c \<in> insert s seen" "d \<in> insert s seen" "rn_id c = rn_id d" for c d
      using that to_s h(4) by (metis insert_iff)
    show "run_after c d" if "c \<in> insert s seen" "d \<in> set rs'" "rn_id c = rn_id d" for c d
    proof (cases "d = s")
      case True then show ?thesis using that to_s by simp
    next
      case False
      then have d: "d \<in> set rs" "d \<noteq> r" using that(2) rs'(1) by auto
      then have "rn_id d \<noteq> rn_id r" using keyed_unique [OF h(1) _ r] by blast
      then have "c \<in> seen" using that(1,3) id by auto
      then show ?thesis using h(5) d(1) that(3) by blast
    qed
    show "\<exists>d \<in> insert s seen. run_after c d \<and> (d \<in> set rs' \<or> cr_Status (rn_run d) = CheckCompleted)"
      if "c \<in> insert s seen" for c
    proof (cases "rn_id c = rn_id s")
      case True
      then show ?thesis using to_s [OF that] rs'(1) by auto
    next
      case False
      then have "c \<in> seen" using that by auto
      from h(6) [OF this] obtain d where d: "d \<in> seen" "run_after c d" "d \<in> set rs \<or> cr_Status (rn_run d) = CheckCompleted"
        by blast
      then have "d \<noteq> r" using False id run_after_id by metis
      then show ?thesis using d rs'(1) by blast
    qed
  qed
qed

lemma one_history_expire:
  assumes hist: "one_history seen rs" and gone: "\<And>r. r \<in> set rs \<Longrightarrow> p r \<Longrightarrow> cr_Status (rn_run r) = CheckCompleted"
  shows "one_history seen (delete_where p rs)"
proof -
  note h = one_historyD [OF hist]
  note left = delete_where_set [of p rs]
  show ?thesis
  proof (rule one_historyI)
    show "keyed rn_id (delete_where p rs)" by (rule keyed_delete_where [OF h(1)])
    show "set (delete_where p rs) \<subseteq> seen" using h(2) left by auto
    show "run_ok c" if "c \<in> seen" for c using that by (rule h(3))
    show "run_after c d \<or> run_after d c" if "c \<in> seen" "d \<in> seen" "rn_id c = rn_id d" for c d using that by (rule h(4))
    show "run_after c d" if "c \<in> seen" "d \<in> set (delete_where p rs)" "rn_id c = rn_id d" for c d
      using that left h(5) by auto
    show "\<exists>d \<in> seen. run_after c d \<and> (d \<in> set (delete_where p rs) \<or> cr_Status (rn_run d) = CheckCompleted)" if "c \<in> seen" for c
      using h(6) [OF that] gone left by blast
  qed
qed

lemma interleaved_history:
  assumes "interleaved rs0 seen rs" and "keyed rn_id rs0" and "\<forall>r \<in> set rs0. run_ok r"
  shows "one_history seen rs"
  using assms(1)
proof (induction rule: interleaved.induct)
  case Begin
  then show ?case by (rule one_history_begin [OF assms(2,3)])
next
  case (Create seen w input creator now k i rid fingerprint r ss rs)
  let ?r = "run_columns i rid creator k fingerprint now"
  have rs: "rs = sw_runs w @ [?r]"
    using Create.hyps(4) by (auto simp: sql_CreateCheckRun_def insert_unless_ok split: sum.splits)
  have "run_ok ?r" using normalizeCheckRunInput_ok [OF Create.hyps(2)] by (simp add: run_ok_def run_columns_def)
  moreover have "rn_id ?r \<notin> rn_id ` seen" using Create.hyps(3) by (simp add: run_columns_def)
  ultimately show ?case using one_history_create [OF Create.IH] by (simp add: rs)
next
  case (Update seen w c input now k expires r ss rs)
  let ?p = "\<lambda>r. rn_id r = rn_id c \<and> cr_RepositoryID (rn_run r) = cr_RepositoryID (rn_run c)
      \<and> cr_CreatorDID (rn_run r) = cr_CreatorDID (rn_run c) \<and> cr_Version (rn_run r) = ku_ExpectedVersion k"
  let ?f = "updated_run k now expires"
  obtain q where q: "find ?p (sw_runs w) = Some q" and rs: "rs = update_where ?p ?f (sw_runs w)"
    using Update.hyps(5) by (auto simp: sql_UpdateCheckRun_def Let_def split: option.splits if_splits)
  have mem: "q \<in> set (sw_runs w)" "?p q" using find_Some_in [OF q] by auto
  note h = one_historyD [OF Update.IH]
  have "run_after c q" by (rule h(5) [OF Update.hyps(2) mem(1)]) (use mem(2) in simp)
  then have "q = c" using mem(2) Update.hyps(4) by (simp add: run_after_def)
  note k = normalizeCheckRunUpdate_ok [OF Update.hyps(3)]
  have "run_ok (?f q)" using k h(3) [OF Update.hyps(2)] \<open>q = c\<close> by (simp add: run_ok_def updated_run_def)
  moreover have "run_after q (?f q)"
    using k \<open>q = c\<close> by (simp add: run_after_def run_identity_def updated_run_def)
  moreover have "set rs = insert (?f q) (set (sw_runs w) - {q})"
  proof -
    have "?p r \<longleftrightarrow> r = q" if "r \<in> set (sw_runs w)" for r
      using that mem keyed_unique [OF h(1)] by metis
    then show ?thesis using mem(1) by (auto simp: rs update_where_def)
  qed
  moreover have "keyed rn_id rs"
    unfolding rs by (subst keyed_update_where) (use h(1) in \<open>auto simp: updated_run_def\<close>)
  ultimately show ?case using one_history_update [OF Update.IH mem(1)] by blast
next
  case (Expire seen w cutoff n ss rs)
  then show ?case
    by (auto simp: sql_DeleteExpiredCheckRuns_def Let_def intro!: one_history_expire)
qed

text \<open>
  C11. However requests to create and update check runs and runs of the retention worker interleave: the fields of every run agree
  with its status, its status only moves from queued to in progress to completed, its identity stays, each of its versions
  has one content, and it is not lost before it is completed.
\<close>

theorem concurrent_updates_move_runs_forward:
  assumes "interleaved rs0 seen rs" and "keyed rn_id rs0" and "\<forall>r \<in> set rs0. run_ok r"
  shows "\<forall>c \<in> seen. run_ok c
     \<and> (\<forall>d \<in> seen. rn_id c = rn_id d \<and> cr_Version (rn_run c) \<le> cr_Version (rn_run d) \<longrightarrow> run_after c d)
     \<and> (\<exists>d \<in> seen. run_after c d \<and> (d \<in> set rs \<or> cr_Status (rn_run d) = CheckCompleted))"
proof -
  note h = one_historyD [OF interleaved_history [OF assms]]
  have "run_after c d" if "c \<in> seen" "d \<in> seen" "rn_id c = rn_id d" "cr_Version (rn_run c) \<le> cr_Version (rn_run d)" for c d
    using h(4) [OF that(1-3)] that(4) by (auto simp: run_after_def)
  then show ?thesis using h(3,6) by blast
qed

section \<open>Updates\<close>

lemma status_query_fails: "status_query q w = (Inl e, w') \<Longrightarrow> sw_statuses w' = sw_statuses w \<and> sw_runs w' = sw_runs w"
  by (auto simp: status_query_def Let_def split: if_splits sum.splits)

lemma GetCheckRun_tables:
  "GetCheckRun rid i w = (res, w') \<Longrightarrow> sw_statuses w' = sw_statuses w \<and> sw_runs w' = sw_runs w"
  by (cases res) (auto simp: GetCheckRun_def call_apply ret_apply status_query_def sql_GetCheckRun_def found_row_def Let_def
      split: prod.splits sum.splits if_splits option.splits)

lemma GetCheckRun_ok:
  "GetCheckRun rid i w = (Inr v, w') \<Longrightarrow> \<exists>c. c \<in> set (sw_runs w) \<and> rn_id c = i \<and> cr_RepositoryID (rn_run c) = rid \<and> v = rn_run c"
  by (auto simp: GetCheckRun_def op_ok sql_GetCheckRun_def found_row_ok dest!: find_Some_in)

lemma UpdateCheckRun_fails: "UpdateCheckRun rid creator i input now w = (Inl e, w') \<Longrightarrow> sw_runs w' = sw_runs w"
  by (auto simp: UpdateCheckRun_def call_apply fail_if_apply ret_apply raise_apply dest!: GetCheckRun_tables status_query_fails
      split: prod.splits sum.splits if_splits)

text \<open>
  C14. An update that changes a check run is a step of the interleaving: the account that created the run asked for it, the
  version it expects is the current one, and the run has the next version afterwards. An update that asks for what the run
  says already returns the run, and one that fails changes no run.
\<close>

theorem accepted_updates_are_steps:
  assumes run: "UpdateCheckRun rid creator i input now w = (res, w')" and hist: "interleaved rs0 seen (sw_runs w)"
    and seen: "set (sw_runs w) \<subseteq> seen"
  shows "case res of
      Inl _ \<Rightarrow> sw_runs w' = sw_runs w
    | Inr (v, changed) \<Rightarrow>
        \<exists>c \<in> set (sw_runs w). rn_id c = i \<and> cr_RepositoryID (rn_run c) = rid \<and> cr_CreatorDID (rn_run c) = creator
          \<and> (if changed
             then cr_Version (rn_run c) = ku_ExpectedVersion input \<and> cr_Version v = cr_Version (rn_run c) + 1
               \<and> v \<in> rn_run ` set (sw_runs w') \<and> interleaved rs0 (seen \<union> set (sw_runs w')) (sw_runs w')
             else v = rn_run c \<and> sw_runs w' = sw_runs w)"
proof (cases res)
  case (Inl e)
  then show ?thesis using UpdateCheckRun_fails run by simp
next
  case (Inr vc)
  obtain v changed where vc: "vc = (v, changed)" by force
  obtain cur w1 where get: "GetCheckRun rid i w = (Inr cur, w1)" "cr_CreatorDID cur = creator"
    and body: "(case normalizeCheckRunUpdate cur input now of
        Inl e \<Rightarrow> raise e
      | Inr k \<Rightarrow>
          if checkRunMatches cur k then ret (cur, False)
          else fail_if (cr_Version cur \<noteq> ku_ExpectedVersion k) (because status_ErrConflict ''check run version does not match'') (
            call (status_query (sql_UpdateCheckRun i rid creator k now (now + status_Retention)))
              (\<lambda>e. if errors_is e pgx_ErrNoRows then Sentinel status_ErrConflict else wrapf ''update check run'' e)
              (\<lambda>row. ret (rn_run row, True)))) w1 = (Inr (v, changed), w')"
    using run Inr vc by (auto simp: UpdateCheckRun_def call_ok fail_if_ok)
  obtain k where k: "normalizeCheckRunUpdate cur input now = Inr k"
    using body by (cases "normalizeCheckRunUpdate cur input now") (simp_all add: raise_apply)
  have rest: "if checkRunMatches cur k then v = cur \<and> \<not> changed \<and> w' = w1
      else cr_Version cur = ku_ExpectedVersion k \<and> changed \<and>
        (\<exists>row. status_query (sql_UpdateCheckRun i rid creator k now (now + status_Retention)) w1 = (Inr row, w') \<and> v = rn_run row)"
    using body by (auto simp: k call_ok fail_if_ok ret_ok)
  obtain c where c: "c \<in> set (sw_runs w)" "rn_id c = i" "cr_RepositoryID (rn_run c) = rid" "cur = rn_run c"
    using GetCheckRun_ok [OF get(1)] by blast
  have w1: "sw_runs w1 = sw_runs w" using GetCheckRun_tables [OF get(1)] by simp
  show ?thesis
  proof (cases "checkRunMatches cur k")
    case True
    then show ?thesis using rest c get(2) w1 Inr vc by auto
  next
    case False
    then obtain row ss rs where sql: "sql_UpdateCheckRun i rid creator k now (now + status_Retention) w1 = Inr (row, ss, rs)"
      and w': "sw_runs w' = rs" "v = rn_run row" and version: "cr_Version cur = ku_ExpectedVersion k" "changed"
      using rest by (auto simp: op_ok)
    have row: "row \<in> set rs" "cr_Version (rn_run row) = ku_ExpectedVersion k + 1"
      using sql by (auto simp: sql_UpdateCheckRun_def Let_def updated_run_def update_where_def dest!: find_Some_in
          split: option.splits if_splits)
    have "interleaved rs0 (seen \<union> set rs) rs"
      by (rule interleaved.Update [of _ _ w1 c]) (use hist w1 seen c k version get(2) sql in auto)
    then show ?thesis
      using Inr vc c get(2) version w' row normalizeCheckRunUpdate_ok [OF k] by auto
  qed
qed

section \<open>The combined status\<close>

lemma foldl_combineState:
  fixes v :: string
  shows "state_priority (foldl combineState v xs) = Max (state_priority ` insert v (set xs))
     \<and> foldl combineState v xs \<in> insert v (set xs)"
proof (induction xs arbitrary: v)
  case (Cons x xs)
  have "Max (state_priority ` insert (combineState v x) (set xs)) = Max (state_priority ` insert v (set (x # xs)))"
  proof -
    have "Max (state_priority ` insert u (set xs)) = (if xs = [] then state_priority u else max (state_priority u) (Max (state_priority ` set xs)))" for u
      by (cases xs) auto
    then show ?thesis by (cases xs) (auto simp: combineState_def max_def)
  qed
  then show ?case using Cons.IH [of "combineState v x"] by (auto simp: combineState_def split: if_splits)
qed simp

lemma distinct_insert_by: "distinct (map k (insert_by le x ys)) = (k x \<notin> k ` set ys \<and> distinct (map k ys))"
  by (induction ys) auto

lemma distinct_sort_by: "distinct (map k (sort_by le xs)) = distinct (map k xs)"
  by (induction xs) (auto simp: distinct_insert_by)

definition current_commit_status :: "status_world \<Rightarrow> uuid \<Rightarrow> string \<Rightarrow> commit_status \<Rightarrow> bool" where
  "current_commit_status w rid sha s \<longleftrightarrow>
     (\<exists>r \<in> set (sw_statuses w). sr_status r = s \<and> cs_RepositoryID s = rid \<and> cs_CommitSHA s = sha
        \<and> (\<forall>q \<in> set (sw_statuses w). sr_topic q = sr_topic r \<longrightarrow> sr_id q \<le> sr_id r))"

text \<open>
  C13. The combined status of a commit lists the latest status of every context, one of each, and its state is the worst of
  theirs: error before failure before pending before success; it is pending where nothing was reported.
\<close>

theorem combined_is_the_worst_latest:
  assumes run: "Combined collate rid sha w = (Inr c, w')" and keys: "keyed sr_id (sw_statuses w)"
    and checks: "\<forall>r \<in> set (sw_statuses w). status_row_checks r"
  shows "set (cb_Items c) = Collect (current_commit_status w rid sha) \<and> distinct (map cs_Context (cb_Items c))
     \<and> (if cb_Items c = [] then cb_State c = Status_Pending
        else cb_State c \<in> cs_State ` set (cb_Items c) \<and> (\<forall>s \<in> set (cb_Items c). state_priority (cs_State s) \<le> state_priority (cb_State c)))"
proof -
  let ?mine = "filter (\<lambda>r. cs_RepositoryID (sr_status r) = rid \<and> cs_CommitSHA (sr_status r) = sha) (sw_statuses w)"
  let ?latest = "filter (latest_of (\<lambda>r. cs_Context (sr_status r)) sr_id ?mine) ?mine"
  let ?rows = "sort_by (\<lambda>a b. collate (cs_Context (sr_status a)) (cs_Context (sr_status b))) ?latest"
  have items: "cb_Items c = map sr_status ?rows"
    and state: "cb_State c = foldl combineState (if ?rows = [] then Status_Pending else Status_Success) (map cs_State (cb_Items c))"
    using run by (auto simp: Combined_def op_ok sql_LatestCommitStatuses_def Let_def foldl_map)
  have "set (cb_Items c) = Collect (current_commit_status w rid sha)"
    by (fastforce simp: items current_commit_status_def latest_of_def list_all_iff sr_topic_def)
  moreover have "distinct (map cs_Context (cb_Items c))"
  proof -
    have "r = q" if "r \<in> set ?latest" "q \<in> set ?latest" "cs_Context (sr_status r) = cs_Context (sr_status q)" for r q
    proof -
      have "sr_id r \<le> sr_id q" "sr_id q \<le> sr_id r" using that by (auto simp: latest_of_def list_all_iff)
      then show ?thesis using that keyed_unique [OF keys, of r q] by auto
    qed
    moreover have "distinct ?latest" using keys by (simp add: distinct_map)
    ultimately have "distinct (map (\<lambda>r. cs_Context (sr_status r)) ?latest)" by (auto simp: distinct_map inj_on_def)
    then show ?thesis by (simp add: items o_def distinct_sort_by [where k = "\<lambda>r. cs_Context (sr_status r)"])
  qed
  moreover have "cb_State c \<in> cs_State ` set (cb_Items c) \<and> (\<forall>s \<in> set (cb_Items c). state_priority (cs_State s) \<le> state_priority (cb_State c))"
    if some: "cb_Items c \<noteq> []"
  proof -
    let ?states = "cs_State ` set (cb_Items c)"
    have "?rows \<noteq> []" using some items by (metis list.map_disc_iff)
    then have start: "cb_State c = foldl combineState Status_Success (map cs_State (cb_Items c))" by (simp only: state if_False)
    have fold: "state_priority (cb_State c) = Max (state_priority ` insert Status_Success ?states)" "cb_State c \<in> insert Status_Success ?states"
      using foldl_combineState [of Status_Success "map cs_State (cb_Items c)"] by (simp_all only: start set_map)
    have known: "s \<in> set status_states" if "s \<in> ?states" for s
      using that checks by (auto simp: items status_row_checks_def Let_def)
    have least: "0 \<le> state_priority s" for s by (simp add: state_priority_def)
    have worst: "\<forall>s \<in> ?states. state_priority s \<le> state_priority (cb_State c)" using fold(1) by simp
    moreover have "cb_State c \<in> ?states"
    proof (rule ccontr)
      assume "cb_State c \<notin> ?states"
      then have success: "cb_State c = Status_Success" using fold(2) by simp
      obtain s where "s \<in> ?states" using some by (cases "cb_Items c") auto
      moreover from this have "state_priority s \<le> state_priority Status_Success" using worst success by auto
      ultimately have "s = Status_Success" using known [of s] by (auto simp: status_states_def state_priority_def)
      then show False using \<open>s \<in> ?states\<close> \<open>cb_State c \<notin> ?states\<close> success by simp
    qed
    ultimately show ?thesis by blast
  qed
  moreover have "cb_State c = Status_Pending" if "cb_Items c = []" using that state items by simp
  ultimately show ?thesis by simp
qed

section \<open>Replays\<close>

lemma status_NewV7_ok [op_ok]:
  "status_NewV7 w = (Inr i, w') \<longleftrightarrow> sw_ids w (sw_ids_used w) = Inr i \<and> w' = w\<lparr>sw_ids_used := Suc (sw_ids_used w)\<rparr>"
  by (auto simp: status_NewV7_def)

text \<open>What a successful creation found or made: the only row of its key, with the fingerprint of the request.\<close>

lemma CreateStatus_ok:
  assumes "CreateStatus rid creator sha input now w = (Inr (x, c), w')"
  shows "\<exists>n f i r. normalizeStatusInput sha creator input = Inr n \<and> requestHash (status_json sha n) = Inr f
     \<and> status_row_checks (status_columns i rid creator sha n f now) \<and> r \<in> set (sw_statuses w') \<and> sr_status r = x
     \<and> sr_key r = (rid, creator, si_ExternalID n) \<and> sr_request_hash r = f
     \<and> (c \<longrightarrow> (\<forall>s \<in> set (sw_statuses w). sr_key s \<noteq> sr_key r)) \<and> (\<not> c \<longrightarrow> sw_statuses w' = sw_statuses w)"
proof -
  obtain n where n: "normalizeStatusInput sha creator input = Inr n"
    using assms by (cases "normalizeStatusInput sha creator input") (auto simp: CreateStatus_def op_ok)
  obtain f where f: "requestHash (status_json sha n) = Inr f"
    using assms n by (cases "requestHash (status_json sha n)") (auto simp: CreateStatus_def op_ok)
  obtain i where body: "attempt (status_query (sql_CreateCommitStatus (status_columns i rid creator sha n f now)))
       (\<lambda>e. fail_if (\<not> errors_is e pgx_ErrNoRows) (wrapf ''create commit status'' e) (
            call (status_query (sql_GetCommitStatusByExternalID rid creator (si_ExternalID n)))
              (wrapf ''resolve commit status replay'') (\<lambda>existing.
            fail_if (sr_request_hash existing \<noteq> f)
              (because status_ErrConflict ''external_id was already used with a different status'')
              (ret (sr_status existing, False)))))
       (\<lambda>row. ret (sr_status row, True)) (w\<lparr>sw_ids_used := Suc (sw_ids_used w)\<rparr>) = (Inr (x, c), w')"
    using assms by (auto simp: CreateStatus_def n f call_ok status_NewV7_ok)
  let ?r = "status_columns i rid creator sha n f now"
  have checks: "status_row_checks ?r"
    using body by (auto simp: attempt_ok fail_if_ok status_query_def sql_CreateCommitStatus_def insert_unless_def Let_def
        split: if_splits sum.splits)
  have "\<exists>r. r \<in> set (sw_statuses w') \<and> sr_status r = x \<and> sr_key r = (rid, creator, si_ExternalID n) \<and> sr_request_hash r = f
     \<and> (c \<longrightarrow> (\<forall>s \<in> set (sw_statuses w). sr_key s \<noteq> sr_key r)) \<and> (\<not> c \<longrightarrow> sw_statuses w' = sw_statuses w)"
    using body unfolding attempt_ok
  proof (elim disjE exE conjE)
    fix e u
    assume "status_query (sql_CreateCommitStatus ?r) (w\<lparr>sw_ids_used := Suc (sw_ids_used w)\<rparr>) = (Inl e, u)"
    then have u: "sw_statuses u = sw_statuses w" using status_query_fails by fastforce
    assume "fail_if (\<not> errors_is e pgx_ErrNoRows) (wrapf ''create commit status'' e) (
            call (status_query (sql_GetCommitStatusByExternalID rid creator (si_ExternalID n)))
              (wrapf ''resolve commit status replay'') (\<lambda>existing.
            fail_if (sr_request_hash existing \<noteq> f)
              (because status_ErrConflict ''external_id was already used with a different status'')
              (ret (sr_status existing, False)))) u = (Inr (x, c), w')"
    then show ?thesis
      using u by (auto simp: op_ok sql_GetCommitStatusByExternalID_def found_row_ok dest!: find_Some_in)
  next
    fix row u
    assume "status_query (sql_CreateCommitStatus ?r) (w\<lparr>sw_ids_used := Suc (sw_ids_used w)\<rparr>) = (Inr row, u)" "ret (sr_status row, True) u = (Inr (x, c), w')"
    then show ?thesis
      by (intro exI [of _ ?r])
        (auto simp: op_ok sql_CreateCommitStatus_def insert_unless_ok status_columns_def sr_key_def split: sum.splits)
  qed
  then show ?thesis using n f checks by blast
qed

lemma pg_micros_Retention: "pg_micros t < pg_micros (t + status_Retention)"
proof -
  have "(t + status_Retention) mod 1000 = t mod 1000" by (simp add: status_Retention_def mod_add_right_eq [symmetric])
  then show ?thesis by (simp add: pg_micros_def status_Retention_def)
qed

lemma status_checks_later:
  "status_row_checks (status_columns i rid creator sha n f now) \<Longrightarrow> status_row_checks (status_columns j rid creator sha n f later)"
  using pg_micros_Retention by (simp add: status_row_checks_def status_columns_def Let_def)

lemma CreateStatus_existing:
  assumes "normalizeStatusInput sha creator input = Inr n" and "requestHash (status_json sha n) = Inr f"
    and "sw_ids w (sw_ids_used w) = Inr i" and "sw_faults w = []"
    and checks: "status_row_checks (status_columns i rid creator sha n f now)"
    and row: "keyed sr_key (sw_statuses w)" "r \<in> set (sw_statuses w)" "sr_key r = (rid, creator, si_ExternalID n)"
  shows "CreateStatus rid creator sha input now w =
     (if sr_request_hash r = f then Inr (sr_status r, False)
      else Inl (because status_ErrConflict ''external_id was already used with a different status''), w\<lparr>sw_ids_used := Suc (sw_ids_used w)\<rparr>)"
proof -
  have "sr_key (status_columns i rid creator sha n f now) = sr_key r" using row(3) by (simp add: sr_key_def status_columns_def)
  then have taken: "list_ex (\<lambda>s. sr_key s = sr_key (status_columns i rid creator sha n f now)) (sw_statuses w)"
    using row(2) by (auto simp: list_ex_iff)
  have key: "find (\<lambda>s. sr_key s = (rid, creator, si_ExternalID n)) (sw_statuses w) = Some r"
    by (rule keyed_find [of sr_key]) (use row in auto)
  show ?thesis
    using checks taken key
    by (simp add: CreateStatus_def assms(1-4) call_apply attempt_def status_NewV7_def status_query_def sql_CreateCommitStatus_def
        insert_unless_def Let_def fail_if_apply sql_GetCommitStatusByExternalID_def found_row_def ret_apply raise_apply)
qed

text \<open>
  C15. The creation of a status may be repeated: while its row is there, a repetition at any time returns the status of the
  first request and changes no row, and no other request of the account creates a status under the same external identifier.
\<close>

theorem status_creation_is_replay_safe:
  assumes first: "CreateStatus rid creator sha input now w = (Inr (s, created), w1)"
    and kept: "set (sw_statuses w1) \<subseteq> set (sw_statuses w2)" and keys: "keyed sr_key (sw_statuses w2)"
    and fine: "sw_faults w2 = []" "sw_ids w2 (sw_ids_used w2) = Inr j"
  shows "(\<exists>w3. CreateStatus rid creator sha input later w2 = (Inr (s, False), w3) \<and> sw_statuses w3 = sw_statuses w2)
     \<and> (\<forall>sha' input' n' x c w3. normalizeStatusInput sha' creator input' = Inr n' \<and> si_ExternalID n' = cs_ExternalID s
          \<and> CreateStatus rid creator sha' input' later w2 = (Inr (x, c), w3) \<longrightarrow> x = s \<and> \<not> c)"
proof -
  obtain n f i r where n: "normalizeStatusInput sha creator input = Inr n" "requestHash (status_json sha n) = Inr f"
    and checks: "status_row_checks (status_columns i rid creator sha n f now)" and r: "r \<in> set (sw_statuses w1)" "sr_status r = s"
      "sr_key r = (rid, creator, si_ExternalID n)" "sr_request_hash r = f"
    using CreateStatus_ok [OF first] by blast
  have r2: "r \<in> set (sw_statuses w2)" using r(1) kept by blast
  have external: "cs_ExternalID s = si_ExternalID n" using r(2,3) by (simp add: sr_key_def)
  have "CreateStatus rid creator sha input later w2 = (Inr (s, False), w2\<lparr>sw_ids_used := Suc (sw_ids_used w2)\<rparr>)"
    using CreateStatus_existing [OF n fine(2,1) status_checks_later [OF checks] keys r2 r(3)] r(2,4) by simp
  moreover have "x = s \<and> \<not> c" if n': "normalizeStatusInput sha' creator input' = Inr n'" "si_ExternalID n' = cs_ExternalID s"
    and other: "CreateStatus rid creator sha' input' later w2 = (Inr (x, c), w3)" for sha' input' n' x c w3
  proof -
    obtain m q where m: "normalizeStatusInput sha' creator input' = Inr m" and q: "q \<in> set (sw_statuses w3)" "sr_status q = x"
        "sr_key q = (rid, creator, si_ExternalID m)"
      and c: "c \<longrightarrow> (\<forall>s \<in> set (sw_statuses w2). sr_key s \<noteq> sr_key q)" "\<not> c \<longrightarrow> sw_statuses w3 = sw_statuses w2"
      using CreateStatus_ok [OF other] by blast
    have same: "sr_key q = sr_key r" using m q(3) r(3) n' external by simp
    have "\<not> c" using c(1) r2 same by auto
    then show ?thesis using c(2) q keyed_unique [OF keys _ r2 same] r(2) by auto
  qed
  ultimately show ?thesis by (intro conjI) (force, blast)
qed

section \<open>Replays of check runs\<close>

lemma CreateCheckRun_ok:
  assumes "CreateCheckRun rid creator input now w = (Inr (x, c), w')"
  shows "\<exists>k t i r. normalizeCheckRunInput input creator now = Inr k \<and> json_Marshal (check_run_json k) = Some t
     \<and> run_row_checks (run_columns i rid creator k (sha256 t) now) \<and> r \<in> set (sw_runs w') \<and> rn_run r = x
     \<and> rn_key r = (rid, creator, ki_ExternalID k) \<and> rn_request_hash r = sha256 t"
proof -
  obtain k where k: "normalizeCheckRunInput input creator now = Inr k"
    using assms by (cases "normalizeCheckRunInput input creator now") (auto simp: CreateCheckRun_def op_ok)
  obtain t where t: "json_Marshal (check_run_json k) = Some t"
    using assms k by (cases "json_Marshal (check_run_json k)") (auto simp: CreateCheckRun_def op_ok requestHash_def)
  obtain i where body: "attempt (status_query (sql_CreateCheckRun (run_columns i rid creator k (sha256 t) now)))
       (\<lambda>e. fail_if (\<not> errors_is e pgx_ErrNoRows) (wrapf ''create check run'' e) (
            call (status_query (sql_GetCheckRunByExternalID rid creator (ki_ExternalID k)))
              (wrapf ''resolve check run replay'') (\<lambda>existing.
            fail_if (rn_request_hash existing \<noteq> sha256 t)
              (because status_ErrConflict ''external_id was already used with a different check run'')
              (ret (rn_run existing, False)))))
       (\<lambda>row. ret (rn_run row, True)) (w\<lparr>sw_ids_used := Suc (sw_ids_used w)\<rparr>) = (Inr (x, c), w')"
    using assms by (auto simp: CreateCheckRun_def requestHash_def k t call_ok status_NewV7_ok)
  let ?r = "run_columns i rid creator k (sha256 t) now"
  have checks: "run_row_checks ?r"
    using body by (auto simp: attempt_ok fail_if_ok status_query_def sql_CreateCheckRun_def insert_unless_def Let_def
        split: if_splits sum.splits)
  have "\<exists>r. r \<in> set (sw_runs w') \<and> rn_run r = x \<and> rn_key r = (rid, creator, ki_ExternalID k) \<and> rn_request_hash r = sha256 t"
    using body unfolding attempt_ok
  proof (elim disjE exE conjE)
    fix e u
    assume "fail_if (\<not> errors_is e pgx_ErrNoRows) (wrapf ''create check run'' e) (
            call (status_query (sql_GetCheckRunByExternalID rid creator (ki_ExternalID k)))
              (wrapf ''resolve check run replay'') (\<lambda>existing.
            fail_if (rn_request_hash existing \<noteq> sha256 t)
              (because status_ErrConflict ''external_id was already used with a different check run'')
              (ret (rn_run existing, False)))) u = (Inr (x, c), w')"
    then show ?thesis by (auto simp: op_ok sql_GetCheckRunByExternalID_def found_row_ok dest!: find_Some_in)
  next
    fix row u
    assume "status_query (sql_CreateCheckRun ?r) (w\<lparr>sw_ids_used := Suc (sw_ids_used w)\<rparr>) = (Inr row, u)"
      "ret (rn_run row, True) u = (Inr (x, c), w')"
    then show ?thesis
      by (intro exI [of _ ?r])
        (auto simp: op_ok sql_CreateCheckRun_def insert_unless_ok run_columns_def rn_key_def split: sum.splits)
  qed
  then show ?thesis using k t checks by blast
qed

lemma CreateCheckRun_existing:
  assumes "normalizeCheckRunInput input creator now = Inr k" and "json_Marshal (check_run_json k) = Some t"
    and "sw_ids w (sw_ids_used w) = Inr i" and "sw_faults w = []"
    and checks: "run_row_checks (run_columns i rid creator k (sha256 t) now)"
    and row: "keyed rn_key (sw_runs w)" "r \<in> set (sw_runs w)" "rn_key r = (rid, creator, ki_ExternalID k)"
  shows "fst (CreateCheckRun rid creator input now w) =
     (if sha256 t = rn_request_hash r then Inr (rn_run r, False)
      else Inl (because status_ErrConflict ''external_id was already used with a different check run''))"
proof -
  have "rn_key (run_columns i rid creator k (sha256 t) now) = rn_key r" using row(3) by (simp add: rn_key_def run_columns_def)
  then have taken: "list_ex (\<lambda>s. rn_key s = rn_key (run_columns i rid creator k (sha256 t) now)) (sw_runs w)"
    using row(2) by (auto simp: list_ex_iff)
  have key: "find (\<lambda>s. rn_key s = (rid, creator, ki_ExternalID k)) (sw_runs w) = Some r"
    by (rule keyed_find [of rn_key]) (use row in auto)
  show ?thesis
    using checks taken key
    by (simp add: CreateCheckRun_def requestHash_def assms(1-4) call_apply attempt_def status_NewV7_def status_query_def
        sql_CreateCheckRun_def insert_unless_def Let_def fail_if_apply sql_GetCheckRunByExternalID_def found_row_def ret_apply
        raise_apply eq_commute [of "rn_request_hash r"])
qed

text \<open>What a repetition normalizes to: the input of the first request, but for the times the server puts in.\<close>

lemma normalizeCheckRunInput_shape:
  assumes "normalizeCheckRunInput input creator now = Inr k"
  shows "\<exists>url s c. validateURL (ki_DetailsURL input) = Inr url
     \<and> normalizeLifecycle (ki_Status input) (ki_Conclusion input) (ki_StartedAt input) (ki_CompletedAt input) None now = Inr (s, c)
     \<and> k = input\<lparr>ki_Name := trim_space (ki_Name input), ki_ExternalID := trim_space (ki_ExternalID input),
                ki_OutputTitle := trim_space (ki_OutputTitle input), ki_DetailsURL := url, ki_StartedAt := s, ki_CompletedAt := c\<rparr>"
  using assms by (simp add: normalizeCheckRunInput_def Let_def split: option.splits sum.splits if_splits prod.splits)

lemma normalizeLifecycle_later:
  assumes "normalizeLifecycle status conclusion startedAt completedAt prior now = Inr (s, c)"
    and "normalizeLifecycle status conclusion startedAt completedAt prior later = Inr (s', c')"
  shows "(c' = None) = (c = None)" and "status = CheckQueued \<Longrightarrow> s' = s \<and> c' = c"
    and "status = CheckInProgress \<Longrightarrow> c' = c"
    and "status = CheckInProgress \<Longrightarrow> startedAt = None \<Longrightarrow> prior = None \<Longrightarrow> s = Some now \<and> s' = Some later"
  using assms by (auto simp: normalizeLifecycle_def started_or_def Let_def split: if_splits)

lemma normalizeCheckRunInput_later:
  assumes "normalizeCheckRunInput input creator now = Inr k" and "normalizeCheckRunInput input creator later = Inr l"
  shows "l = k\<lparr>ki_StartedAt := ki_StartedAt l, ki_CompletedAt := ki_CompletedAt l\<rparr>"
    and "(ki_CompletedAt l = None) = (ki_CompletedAt k = None)"
    and "ki_Status input = CheckQueued \<Longrightarrow> l = k"
    and "ki_Status input = CheckInProgress \<Longrightarrow> ki_CompletedAt l = ki_CompletedAt k"
    and "ki_Status input = CheckInProgress \<Longrightarrow> ki_StartedAt input = None \<Longrightarrow> ki_StartedAt k = Some now \<and> ki_StartedAt l = Some later"
proof -
  obtain url s c url' s' c' where url: "url' = url"
    and life: "normalizeLifecycle (ki_Status input) (ki_Conclusion input) (ki_StartedAt input) (ki_CompletedAt input) None now = Inr (s, c)"
      "normalizeLifecycle (ki_Status input) (ki_Conclusion input) (ki_StartedAt input) (ki_CompletedAt input) None later = Inr (s', c')"
    and k: "k = input\<lparr>ki_Name := trim_space (ki_Name input), ki_ExternalID := trim_space (ki_ExternalID input),
                ki_OutputTitle := trim_space (ki_OutputTitle input), ki_DetailsURL := url, ki_StartedAt := s, ki_CompletedAt := c\<rparr>"
    and l: "l = input\<lparr>ki_Name := trim_space (ki_Name input), ki_ExternalID := trim_space (ki_ExternalID input),
                ki_OutputTitle := trim_space (ki_OutputTitle input), ki_DetailsURL := url', ki_StartedAt := s', ki_CompletedAt := c'\<rparr>"
    using normalizeCheckRunInput_shape [OF assms(1)] normalizeCheckRunInput_shape [OF assms(2)] by (metis sum.inject(2))
  note same = normalizeLifecycle_later [OF life]
  show "l = k\<lparr>ki_StartedAt := ki_StartedAt l, ki_CompletedAt := ki_CompletedAt l\<rparr>" by (simp add: k l url)
  show "(ki_CompletedAt l = None) = (ki_CompletedAt k = None)" using same(1) by (simp add: k l)
  show "ki_Status input = CheckQueued \<Longrightarrow> l = k" using same(2) by (simp add: k l url)
  show "ki_Status input = CheckInProgress \<Longrightarrow> ki_CompletedAt l = ki_CompletedAt k" using same(3) by (simp add: k l)
  show "ki_Status input = CheckInProgress \<Longrightarrow> ki_StartedAt input = None \<Longrightarrow> ki_StartedAt k = Some now \<and> ki_StartedAt l = Some later"
    using same(4) by (simp add: k l)
qed

lemma run_checks_later:
  assumes "run_row_checks (run_columns i rid creator k f now)" and "(c = None) = (ki_CompletedAt k = None)"
  shows "run_row_checks (run_columns j rid creator (k\<lparr>ki_StartedAt := s, ki_CompletedAt := c\<rparr>) g later)"
  using assms pg_micros_Retention
  by (cases c; cases "ki_CompletedAt k") (auto simp: run_row_checks_def run_columns_def Let_def)

lemma check_run_text:
  assumes "json_Marshal (check_run_json (k\<lparr>ki_StartedAt := Some a\<rparr>)) = Some t"
    and "json_Marshal (check_run_json (k\<lparr>ki_StartedAt := Some b\<rparr>)) = Some u" and "json_time a \<noteq> json_time b"
  shows "t \<noteq> u"
  using assms by (auto simp: check_run_json_def optional_json_def split: option.splits)

text \<open>
  C16. A repeated creation of a check run is told from another request by the text of its normalized input. The server puts
  its own time into an input that is in progress and names no start, so the repetition of such a request at another time has another
  text, and unless the two have one SHA-256 it is refused as a conflict; a queued run is the same each time.
\<close>

theorem check_run_retries_must_name_their_times:
  assumes first: "CreateCheckRun rid creator input now w = (Inr (v, created), w1)"
    and kept: "set (sw_runs w1) \<subseteq> set (sw_runs w2)" and keys: "keyed rn_key (sw_runs w2)"
    and fine: "sw_faults w2 = []" "sw_ids w2 (sw_ids_used w2) = Inr j"
    and again: "normalizeCheckRunInput input creator later = Inr l" "json_Marshal (check_run_json l) = Some u"
  shows "\<exists>k t. normalizeCheckRunInput input creator now = Inr k \<and> json_Marshal (check_run_json k) = Some t
     \<and> fst (CreateCheckRun rid creator input later w2) =
         (if sha256 u = sha256 t then Inr (v, False)
          else Inl (because status_ErrConflict ''external_id was already used with a different check run''))
     \<and> (ki_Status input = CheckInProgress \<and> ki_StartedAt input = None \<and> json_time now \<noteq> json_time later \<longrightarrow> u \<noteq> t)
     \<and> (ki_Status input = CheckQueued \<longrightarrow> u = t)"
proof -
  obtain k t i r where k: "normalizeCheckRunInput input creator now = Inr k" "json_Marshal (check_run_json k) = Some t"
    and checks: "run_row_checks (run_columns i rid creator k (sha256 t) now)" and r: "r \<in> set (sw_runs w1)" "rn_run r = v"
      "rn_key r = (rid, creator, ki_ExternalID k)" "rn_request_hash r = sha256 t"
    using CreateCheckRun_ok [OF first] by blast
  note same = normalizeCheckRunInput_later [OF k(1) again(1)]
  have "run_row_checks (run_columns j rid creator l (sha256 u) later)"
    by (subst same(1)) (rule run_checks_later [OF checks same(2)])
  moreover have "rn_key r = (rid, creator, ki_ExternalID l)" using r(3) by (subst same(1)) simp
  ultimately have result: "fst (CreateCheckRun rid creator input later w2) =
      (if sha256 u = sha256 t then Inr (v, False)
       else Inl (because status_ErrConflict ''external_id was already used with a different check run''))"
    using CreateCheckRun_existing [OF again fine(2,1) _ keys, of rid r] r kept by auto
  have "u \<noteq> t" if p: "ki_Status input = CheckInProgress" "ki_StartedAt input = None" and "json_time now \<noteq> json_time later"
  proof -
    have "k = k\<lparr>ki_StartedAt := Some now\<rparr>" "l = k\<lparr>ki_StartedAt := Some later\<rparr>"
      using same(1) same(4) [OF p(1)] same(5) [OF p] by (metis check_run_input.surjective check_run_input.update_convs(9,10))+
    then show ?thesis using check_run_text [where a = later and b = now and t = u and u = t] k(2) again(2) that(3) by metis
  qed
  then show ?thesis using k result same(3) again(2) by auto
qed

section \<open>Retention\<close>

lemma latest_exists:
  assumes "r \<in> set rows"
  shows "\<exists>q \<in> set rows. topic q = topic r \<and> ident r \<le> ident q \<and> latest_of topic ident rows q"
proof -
  let ?S = "{q \<in> set rows. topic q = topic r}"
  have "ident r \<in> ident ` ?S" using assms by auto
  then have max: "Max (ident ` ?S) \<in> ident ` ?S" "\<forall>q \<in> ?S. ident q \<le> Max (ident ` ?S)" by (auto intro: Max_in Max_ge)
  then obtain q where "q \<in> ?S" "ident q = Max (ident ` ?S)" by auto
  then show ?thesis using max(2) assms by (intro bexI [of _ q]) (auto simp: latest_of_def list_all_iff)
qed

lemma latest_after_deletion:
  assumes gone: "\<And>r. r \<in> set rows \<Longrightarrow> p r \<Longrightarrow> \<not> latest_of topic ident rows r"
  shows "filter (latest_of topic ident (delete_where p rows)) (delete_where p rows) = filter (latest_of topic ident rows) rows"
proof -
  note left = delete_where_set [of p rows]
  have same: "latest_of topic ident (delete_where p rows) r \<longleftrightarrow> latest_of topic ident rows r" if r: "r \<in> set rows" for r
  proof
    assume here: "latest_of topic ident (delete_where p rows) r"
    obtain q where q: "q \<in> set rows" "topic q = topic r" "ident r \<le> ident q" "latest_of topic ident rows q"
      using latest_exists [OF r] by blast
    then have "q \<in> set (delete_where p rows)" using gone left by auto
    then have "ident q \<le> ident r" using here q(2) by (auto simp: latest_of_def list_all_iff)
    then have "ident q = ident r" using q(3) by simp
    then show "latest_of topic ident rows r" using q(2,4) by (simp add: latest_of_def list_all_iff)
  qed (auto simp: latest_of_def list_all_iff left)
  have "filter (latest_of topic ident (delete_where p rows)) (delete_where p rows) = filter (\<lambda>r. latest_of topic ident rows r \<and> \<not> p r) rows"
    unfolding delete_where_def filter_filter using same by (intro filter_cong) (auto simp: delete_where_def)
  also have "\<dots> = filter (latest_of topic ident rows) rows" using gone by (intro filter_cong) auto
  finally show ?thesis .
qed

lemma retention_cleanup_ok:
  assumes "retention_cleanup now w = (Inr (), w')"
  shows "sw_statuses w' = delete_where (\<lambda>r. sr_expires_at r \<le> pg_micros now \<and> \<not> latest_of sr_topic sr_id (sw_statuses w) r) (sw_statuses w)"
    and "sw_runs w' = delete_where (\<lambda>r. rn_expires_at r \<le> pg_micros now \<and> cr_Status (rn_run r) = CheckCompleted
           \<and> \<not> latest_of rn_topic rn_id (sw_runs w) r) (sw_runs w)"
  using assms by (auto simp: retention_cleanup_def op_ok sql_DeleteExpiredCommitStatuses_def sql_DeleteExpiredCheckRuns_def Let_def)

lemma latest_of_commit:
  "(let mine = filter (\<lambda>r. cs_RepositoryID (sr_status r) = rid \<and> cs_CommitSHA (sr_status r) = sha) rows
    in filter (latest_of (\<lambda>r. cs_Context (sr_status r)) sr_id mine) mine)
   = filter (\<lambda>r. cs_RepositoryID (sr_status r) = rid \<and> cs_CommitSHA (sr_status r) = sha) (filter (latest_of sr_topic sr_id rows) rows)"
  unfolding Let_def filter_filter by (intro filter_cong) (auto simp: latest_of_def list_all_iff sr_topic_def)

lemma Combined_latest:
  assumes "filter (latest_of sr_topic sr_id (sw_statuses w')) (sw_statuses w') = filter (latest_of sr_topic sr_id (sw_statuses w)) (sw_statuses w)"
  shows "fst (Combined collate rid sha (w'\<lparr>sw_faults := []\<rparr>)) = fst (Combined collate rid sha (w\<lparr>sw_faults := []\<rparr>))"
  using assms latest_of_commit [of rid sha "sw_statuses w"] latest_of_commit [of rid sha "sw_statuses w'"]
  by (simp add: Combined_def fail_if_apply raise_apply ret_apply call_apply status_query_def sql_LatestCommitStatuses_def Let_def)

text \<open>
  C12. A run of the retention worker changes the combined status of no commit: it takes only rows past their retention,
  of the statuses none that is the latest of its context, of the check runs none that is the latest of its name or is not
  completed, and it leaves no other row past its retention.
\<close>

theorem retention_keeps_what_counts:
  assumes run: "retention_cleanup now w = (Inr (), w')"
  shows "fst (Combined collate rid sha (w'\<lparr>sw_faults := []\<rparr>)) = fst (Combined collate rid sha (w\<lparr>sw_faults := []\<rparr>))
     \<and> set (sw_statuses w') \<subseteq> set (sw_statuses w) \<and> set (sw_runs w') \<subseteq> set (sw_runs w)
     \<and> (\<forall>r \<in> set (sw_statuses w) - set (sw_statuses w'). sr_expires_at r \<le> pg_micros now \<and> \<not> latest_of sr_topic sr_id (sw_statuses w) r)
     \<and> (\<forall>r \<in> set (sw_runs w) - set (sw_runs w'). rn_expires_at r \<le> pg_micros now \<and> cr_Status (rn_run r) = CheckCompleted
          \<and> \<not> latest_of rn_topic rn_id (sw_runs w) r)
     \<and> (\<forall>r \<in> set (sw_statuses w'). sr_expires_at r \<le> pg_micros now \<longrightarrow> latest_of sr_topic sr_id (sw_statuses w') r)
     \<and> (\<forall>r \<in> set (sw_runs w'). rn_expires_at r \<le> pg_micros now \<longrightarrow>
          cr_Status (rn_run r) \<noteq> CheckCompleted \<or> latest_of rn_topic rn_id (sw_runs w') r)"
proof -
  note left = retention_cleanup_ok [OF run]
  have statuses: "filter (latest_of sr_topic sr_id (sw_statuses w')) (sw_statuses w') = filter (latest_of sr_topic sr_id (sw_statuses w)) (sw_statuses w)"
    unfolding left(1) by (rule latest_after_deletion) simp
  have fewer: "latest_of topic ident rows r \<Longrightarrow> set rows' \<subseteq> set rows \<Longrightarrow> latest_of topic ident rows' r"
    for topic :: "'r \<Rightarrow> 'k" and ident and rows rows' and r
    by (auto simp: latest_of_def list_all_iff)
  have "latest_of sr_topic sr_id (sw_statuses w') r" if "r \<in> set (sw_statuses w')" "sr_expires_at r \<le> pg_micros now" for r
    using that fewer [of sr_topic sr_id "sw_statuses w" r "sw_statuses w'"] by (auto simp: left(1) delete_where_set)
  moreover have "cr_Status (rn_run r) \<noteq> CheckCompleted \<or> latest_of rn_topic rn_id (sw_runs w') r"
    if "r \<in> set (sw_runs w')" "rn_expires_at r \<le> pg_micros now" for r
    using that fewer [of rn_topic rn_id "sw_runs w" r "sw_runs w'"] by (auto simp: left(2) delete_where_set)
  ultimately show ?thesis using Combined_latest [OF statuses] by (auto simp: left delete_where_set)
qed

text \<open>However long the worker runs, and wherever it fails, the combined statuses stay as they are.\<close>

definition latest_statuses :: "status_world \<Rightarrow> commit_status_row list" where
  "latest_statuses w = filter (latest_of sr_topic sr_id (sw_statuses w)) (sw_statuses w)"

lemma retention_cleanup_latest: "latest_statuses (snd (retention_cleanup now w)) = latest_statuses w"
proof -
  have first: "latest_statuses (snd (status_query (sql_DeleteExpiredCommitStatuses c) u)) = latest_statuses u" for c u
    by (auto simp: latest_statuses_def status_query_def sql_DeleteExpiredCommitStatuses_def Let_def intro!: latest_after_deletion)
  have second: "latest_statuses (snd (status_query (sql_DeleteExpiredCheckRuns c) u)) = latest_statuses u" for c u
    by (auto simp: latest_statuses_def status_query_def sql_DeleteExpiredCheckRuns_def Let_def)
  show ?thesis
    using first [of "pg_micros now" w] second [of "pg_micros now" "snd (status_query (sql_DeleteExpiredCommitStatuses (pg_micros now)) w)"]
    by (auto simp: retention_cleanup_def call_apply ret_apply split: prod.splits sum.splits)
qed

lemma retention_loop_latest: "latest_statuses (snd (retention_loop ticks w)) = latest_statuses w"
proof (induction ticks arbitrary: w)
  case (Cons now ticks)
  then show ?case using retention_cleanup_latest [of now w] by (auto simp: call_apply split: prod.splits sum.splits)
qed (simp add: ret_apply)

lemma worker_keeps_combined_statuses:
  "fst (Combined collate rid sha ((snd (RetentionWorker_Run now ticks w))\<lparr>sw_faults := []\<rparr>))
     = fst (Combined collate rid sha (w\<lparr>sw_faults := []\<rparr>))"
proof -
  have "RetentionWorker_Run now ticks w = retention_loop (now # ticks) w" by (simp add: RetentionWorker_Run_def)
  then have "latest_statuses (snd (RetentionWorker_Run now ticks w)) = latest_statuses w" by (simp only: retention_loop_latest)
  then show ?thesis by (intro Combined_latest) (simp only: latest_statuses_def)
qed

section \<open>An example\<close>

definition ci_sha :: string where
  "ci_sha = replicate 40 CHR ''a''"

definition ci_did :: did where
  "ci_did = ''did:plc:ci''"

definition ci_status :: commit_status_input where
  "ci_status = \<lparr>si_Context = ''build'', si_State = Status_Success, si_Description = ''passed'', si_TargetURL = None,
     si_ExternalID = ''1''\<rparr>"

definition ci_input :: "string \<Rightarrow> check_run_input" where
  "ci_input status = \<lparr>ki_CommitSHA = ci_sha, ki_Name = ''test'', ki_ExternalID = ''2'', ki_Status = status, ki_Conclusion = None,
     ki_DetailsURL = None, ki_OutputTitle = [], ki_OutputSummary = [], ki_StartedAt = None, ki_CompletedAt = None\<rparr>"

definition ci_update :: "string \<Rightarrow> check_run_update" where
  "ci_update status = \<lparr>ku_ExpectedVersion = 1, ku_Status = status, ku_Conclusion = None, ku_DetailsURL = None,
     ku_OutputTitle = [], ku_OutputSummary = [], ku_StartedAt = None, ku_CompletedAt = None\<rparr>"

definition ci_world :: "commit_status_row list \<Rightarrow> run_row list \<Rightarrow> status_world" where
  "ci_world statuses runs = \<lparr>sw_statuses = statuses, sw_runs = runs, sw_repositories = [1], sw_accounts = [ci_did], sw_faults = [],
     sw_ids = (\<lambda>n. Inr (word_of_nat (n + 1))), sw_ids_used = 0\<rparr>"

text \<open>Two statuses of the context, the second of which failed, and a run in the queue.\<close>

definition ci_statuses :: "commit_status_row list" where
  "ci_statuses = [status_columns 1 1 ci_did ci_sha ci_status [] 0,
     status_columns 2 1 ci_did ci_sha (ci_status\<lparr>si_State := Status_Failure, si_ExternalID := ''3''\<rparr>) [] 1000]"

definition ci_run :: run_row where
  "ci_run = run_columns 1 1 ci_did (ci_input CheckQueued) [] 0"

lemmas ci_defs = ci_sha_def ci_did_def ci_status_def ci_input_def ci_update_def ci_world_def ci_statuses_def ci_run_def

lemma ci_texts:
  "shaPattern ci_sha" "trim_space ''did:plc:ci'' = ''did:plc:ci''" "trim_space [] = []"
  "trim_space ''build'' = ''build''" "trim_space ''passed'' = ''passed''" "trim_space ''test'' = ''test''"
  "trim_space ''1'' = ''1''" "trim_space ''2'' = ''2''"
  "text_between (Suc 0) ''build'' 100" "text_between 0 ''passed'' 140" "text_between (Suc 0) ''1'' 255"
  "text_between (Suc 0) ''test'' 100" "text_between (Suc 0) ''2'' 255"
  "validateName ''name'' ''test'' 100 = None" "validateName ''external_id'' ''2'' 255 = None"
  by code_simp+

lemma ci_limits [simp]: "validateCheckOutput [] [] = None" "text_between 0 [] n" "validateURL None = Inr None"
  by (simp_all add: validateCheckOutput_def text_between_def validateURL_def)

lemma ci_checks: "status_row_checks (status_columns 1 1 ci_did ci_sha ci_status f 0)"
  "run_row_checks (run_columns 1 1 ci_did ((ci_input CheckInProgress)\<lparr>ki_StartedAt := Some 0\<rparr>) f 0)"
  "run_row_checks (updated_run ((ci_update CheckInProgress)\<lparr>ku_StartedAt := Some 5000\<rparr>) 5000 (5000 + status_Retention) ci_run)"
  using pg_micros_Retention [of 0] ci_texts
  by (simp_all add: status_row_checks_def status_columns_def run_row_checks_def run_columns_def updated_run_def ci_status_def ci_input_def
      ci_update_def ci_run_def status_states_def pg_micros_def status_Retention_def)

lemma ci_normal:
  "normalizeCheckRunInput (ci_input CheckInProgress) ci_did now = Inr ((ci_input CheckInProgress)\<lparr>ki_StartedAt := Some now\<rparr>)"
  "normalizeCheckRunUpdate (rn_run ci_run) (ci_update CheckInProgress) now = Inr ((ci_update CheckInProgress)\<lparr>ku_StartedAt := Some now\<rparr>)"
  using ci_texts
  by (simp_all add: normalizeCheckRunInput_def normalizeCheckRunUpdate_def normalizeLifecycle_def started_or_def validTransition_def
      ci_input_def ci_did_def ci_update_def ci_run_def run_columns_def)

lemma ci_updated:
  "sql_UpdateCheckRun 1 1 ci_did ((ci_update CheckInProgress)\<lparr>ku_StartedAt := Some 5000\<rparr>) 5000 (5000 + status_Retention) (ci_world [] [ci_run])
   = Inr (updated_run ((ci_update CheckInProgress)\<lparr>ku_StartedAt := Some 5000\<rparr>) 5000 (5000 + status_Retention) ci_run, [],
       [updated_run ((ci_update CheckInProgress)\<lparr>ku_StartedAt := Some 5000\<rparr>) 5000 (5000 + status_Retention) ci_run])"
  using ci_checks by (simp add: sql_UpdateCheckRun_def Let_def ci_world_def ci_run_def run_columns_def ci_update_def ci_input_def update_where_def)

lemma ci_run_fields [simp]: "rn_id ci_run = 1" "cr_RepositoryID (rn_run ci_run) = 1" "cr_CreatorDID (rn_run ci_run) = ci_did"
  "cr_Version (rn_run ci_run) = 1" "cr_Status (rn_run ci_run) = CheckQueued" "run_ok ci_run"
  by (simp_all add: ci_run_def run_columns_def ci_input_def run_ok_def run_lifecycle_def)

lemma concurrent_updates_move_runs_forward_witness:
  "\<exists>seen rs. ci_run \<in> seen \<and> seen \<noteq> {ci_run}
     \<and> (\<forall>c \<in> seen. run_ok c
     \<and> (\<forall>d \<in> seen. rn_id c = rn_id d \<and> cr_Version (rn_run c) \<le> cr_Version (rn_run d) \<longrightarrow> run_after c d)
     \<and> (\<exists>d \<in> seen. run_after c d \<and> (d \<in> set rs \<or> cr_Status (rn_run d) = CheckCompleted)))"
proof -
  let ?k = "(ci_update CheckInProgress)\<lparr>ku_StartedAt := Some 5000\<rparr>"
  let ?s = "updated_run ?k 5000 (5000 + status_Retention) ci_run"
  have "interleaved [ci_run] (set [ci_run] \<union> set [?s]) [?s]"
  proof (rule interleaved.Update [of _ _ "ci_world [] [ci_run]" ci_run "ci_update CheckInProgress" 5000 ?k])
    show "interleaved [ci_run] (set [ci_run]) (sw_runs (ci_world [] [ci_run]))" using interleaved.Begin [of "[ci_run]"] by (simp add: ci_world_def)
    show "normalizeCheckRunUpdate (rn_run ci_run) (ci_update CheckInProgress) 5000 = Inr ?k" by (rule ci_normal)
    show "sql_UpdateCheckRun (rn_id ci_run) (cr_RepositoryID (rn_run ci_run)) (cr_CreatorDID (rn_run ci_run)) ?k 5000
        (5000 + status_Retention) (ci_world [] [ci_run]) = Inr (?s, [], [?s])" using ci_updated by simp
  qed (simp_all add: ci_update_def)
  moreover have "cr_Status (rn_run ?s) \<noteq> cr_Status (rn_run ci_run)" by (simp add: updated_run_def ci_update_def)
  then have "?s \<noteq> ci_run" by metis
  ultimately show ?thesis
    by (intro exI [of _ "set [ci_run] \<union> set [?s]"] exI [of _ "[?s]"])
      (use concurrent_updates_move_runs_forward [of "[ci_run]" "set [ci_run] \<union> set [?s]" "[?s]"] in auto)
qed

lemma accepted_updates_are_steps_witness:
  "\<exists>v. fst (UpdateCheckRun 1 ci_did 1 (ci_update CheckInProgress) 5000 (ci_world [] [ci_run])) = Inr (v, True) \<and> cr_Version v = 2"
proof -
  let ?run = "UpdateCheckRun 1 ci_did 1 (ci_update CheckInProgress) 5000 (ci_world [] [ci_run])"
  have ok: "\<exists>v. fst ?run = Inr (v, True)"
  proof -
    have "GetCheckRun 1 1 (ci_world [] [ci_run]) = (Inr (rn_run ci_run), ci_world [] [ci_run])"
      by (simp add: GetCheckRun_def call_apply ret_apply status_query_def sql_GetCheckRun_def found_row_def Let_def ci_world_def)
    moreover have "\<not> checkRunMatches (rn_run ci_run) ((ci_update CheckInProgress)\<lparr>ku_StartedAt := Some 5000\<rparr>)"
      by (simp add: checkRunMatches_def ci_update_def)
    moreover have "sw_faults (ci_world [] [ci_run]) = []" "ku_ExpectedVersion (ci_update CheckInProgress) = 1"
      by (simp_all add: ci_world_def ci_update_def)
    ultimately show ?thesis
      using ci_updated by (simp add: UpdateCheckRun_def call_apply fail_if_apply ret_apply status_query_def Let_def ci_normal)
  qed
  have "case fst ?run of
      Inl _ \<Rightarrow> sw_runs (snd ?run) = sw_runs (ci_world [] [ci_run])
    | Inr (v, changed) \<Rightarrow>
        \<exists>c \<in> set (sw_runs (ci_world [] [ci_run])). rn_id c = 1 \<and> cr_RepositoryID (rn_run c) = 1 \<and> cr_CreatorDID (rn_run c) = ci_did
          \<and> (if changed
             then cr_Version (rn_run c) = ku_ExpectedVersion (ci_update CheckInProgress) \<and> cr_Version v = cr_Version (rn_run c) + 1
               \<and> v \<in> rn_run ` set (sw_runs (snd ?run))
               \<and> interleaved [ci_run] (set [ci_run] \<union> set (sw_runs (snd ?run))) (sw_runs (snd ?run))
             else v = rn_run c \<and> sw_runs (snd ?run) = sw_runs (ci_world [] [ci_run]))"
    by (rule accepted_updates_are_steps [OF prod.collapse [symmetric]])
      (use interleaved.Begin [of "[ci_run]"] in \<open>simp_all add: ci_world_def\<close>)
  then show ?thesis using ok by (auto simp: ci_update_def split: sum.splits)
qed

lemma combined_is_the_worst_latest_witness:
  "\<exists>c. fst (Combined (\<lambda>a b. True) 1 ci_sha (ci_world ci_statuses [])) = Inr c \<and> cb_Items c \<noteq> []
     \<and> set (cb_Items c) = Collect (current_commit_status (ci_world ci_statuses []) 1 ci_sha) \<and> cb_State c = Status_Failure"
proof -
  let ?w = "ci_world ci_statuses []"
  obtain c where run: "Combined (\<lambda>a b. True) 1 ci_sha ?w = (Inr c, snd (Combined (\<lambda>a b. True) 1 ci_sha ?w))"
    and c: "cb_State c = Status_Failure" "cb_Items c \<noteq> []"
  proof -
    have "case fst (Combined (\<lambda>a b. True) 1 ci_sha ?w) of Inl _ \<Rightarrow> False | Inr c \<Rightarrow> cb_State c = Status_Failure \<and> cb_Items c \<noteq> []" by code_simp
    then show ?thesis using that by (cases "Combined (\<lambda>a b. True) 1 ci_sha ?w") (auto split: sum.splits)
  qed
  have "keyed sr_id (sw_statuses ?w)" "\<forall>r \<in> set (sw_statuses ?w). status_row_checks r" by code_simp+
  from combined_is_the_worst_latest [OF run this] show ?thesis using run c by (metis fst_conv)
qed

lemma status_creation_is_replay_safe_witness:
  "\<exists>s w1 w3. CreateStatus 1 ci_did ci_sha ci_status 0 (ci_world [] []) = (Inr (s, True), w1)
     \<and> CreateStatus 1 ci_did ci_sha ci_status 1000000000 w1 = (Inr (s, False), w3)"
proof -
  have n: "normalizeStatusInput ci_sha ci_did ci_status = Inr ci_status" by code_simp
  obtain t where t: "json_Marshal (status_json ci_sha ci_status) = Some t"
    by (simp add: status_json_def optional_json_def ci_status_def)
  let ?r = "status_columns 1 1 ci_did ci_sha ci_status (sha256 t) 0"
  let ?w = "(ci_world [?r] [])\<lparr>sw_ids_used := 1\<rparr>"
  have first: "CreateStatus 1 ci_did ci_sha ci_status 0 (ci_world [] []) = (Inr (sr_status ?r, True), ?w)"
    using ci_checks
    by (simp add: CreateStatus_def n t requestHash_def call_apply attempt_def status_NewV7_def status_query_def ret_apply
        sql_CreateCommitStatus_def insert_unless_def Let_def ci_world_def) (simp add: status_columns_def)
  show ?thesis
    using status_creation_is_replay_safe [OF first subset_refl, of 2 1000000000] first by (force simp: ci_world_def)
qed

lemma check_run_retries_must_name_their_times_witness:
  "\<exists>v w1 t u. CreateCheckRun 1 ci_did (ci_input CheckInProgress) 0 (ci_world [] []) = (Inr (v, True), w1) \<and> u \<noteq> t
     \<and> fst (CreateCheckRun 1 ci_did (ci_input CheckInProgress) 1000000000 w1) =
         (if sha256 u = sha256 t then Inr (v, False)
          else Inl (because status_ErrConflict ''external_id was already used with a different check run''))"
proof -
  let ?k = "(ci_input CheckInProgress)\<lparr>ki_StartedAt := Some 0\<rparr>" and ?l = "(ci_input CheckInProgress)\<lparr>ki_StartedAt := Some 1000000000\<rparr>"
  have n: "normalizeCheckRunInput (ci_input CheckInProgress) ci_did 0 = Inr ?k"
    "normalizeCheckRunInput (ci_input CheckInProgress) ci_did 1000000000 = Inr ?l" by (rule ci_normal)+
  have times: "json_time 0 \<noteq> None" "json_time 1000000000 \<noteq> None" "json_time 0 \<noteq> json_time 1000000000" by code_simp+
  obtain t u where t: "json_Marshal (check_run_json ?k) = Some t" "json_Marshal (check_run_json ?l) = Some u"
    using times by (auto simp: check_run_json_def optional_json_def ci_input_def)
  let ?r = "run_columns 1 1 ci_did ?k (sha256 t) 0"
  let ?w = "(ci_world [] [?r])\<lparr>sw_ids_used := 1\<rparr>"
  have first: "CreateCheckRun 1 ci_did (ci_input CheckInProgress) 0 (ci_world [] []) = (Inr (rn_run ?r, True), ?w)"
    using ci_checks
    by (simp add: CreateCheckRun_def n t requestHash_def call_apply attempt_def status_NewV7_def status_query_def ret_apply
        sql_CreateCheckRun_def insert_unless_def Let_def ci_world_def) (simp add: run_columns_def)
  have "ki_Status (ci_input CheckInProgress) = CheckInProgress \<and> ki_StartedAt (ci_input CheckInProgress) = None"
    by (simp add: ci_input_def)
  then show ?thesis
    using check_run_retries_must_name_their_times [OF first subset_refl, of 2 1000000000 ?l u] n t times first
    by (fastforce simp: ci_world_def)
qed

lemma retention_keeps_what_counts_witness:
  "\<exists>w'. retention_cleanup (2 * status_Retention) (ci_world ci_statuses [ci_run]) = (Inr (), w')
     \<and> fst (Combined (\<lambda>a b. True) 1 ci_sha (w'\<lparr>sw_faults := []\<rparr>))
         = fst (Combined (\<lambda>a b. True) 1 ci_sha ((ci_world ci_statuses [ci_run])\<lparr>sw_faults := []\<rparr>))
     \<and> sw_statuses w' \<noteq> ci_statuses"
proof -
  let ?run = "retention_cleanup (2 * status_Retention) (ci_world ci_statuses [ci_run])"
  have "fst ?run = Inr ()" "sw_statuses (snd ?run) \<noteq> ci_statuses" by code_simp+
  then have run: "?run = (Inr (), snd ?run)" and less: "sw_statuses (snd ?run) \<noteq> ci_statuses" by (metis prod.collapse)+
  show ?thesis
    by (rule exI [of _ "snd ?run"], intro conjI)
      (fact run, fact retention_keeps_what_counts [OF run, THEN conjunct1], fact less)
qed

end
