(* ===== verification/Spec2Isabelle.thy ===== *)
theory Spec2Isabelle imports Org_Paging Org_Safety Team_Properties Repo_Properties Git_Listings Git_Remote_Properties Protection_Properties Git_History Pull_Properties Transfer_Outcome Status_Properties begin

text \<open>
  Adenosine is a Git hosting server in Go whose accounts and collaboration records live in the AT Protocol.
  This library models its core in HOL, translated from \<^verbatim>\<open>src/internal\<close>: organizations, teams and access,
  the life of repositories and of their data on disk, the Git operations the server runs, branch protection,
  pull requests, the transfer of repositories, and commit statuses. The theories import each other in the order of the list below; this one imports them all.

  \<^bold>\<open>The shape of the model.\<close> A Go function without effects is a HOL function. A method that may fail and touches the
  database, the disk, Git or the network is an \<open>op\<close>: a function from the world to an error or a value
  and the world after it (\<open>Effects\<close>, whose combinators are the shapes of Go code: \<open>call\<close> is "call, return on
  error", \<open>ignoring\<close> is "call, drop the error", \<open>deferring\<close> is "defer"). Every early return of the source is a branch. Errors are the
  values of \<open>Go_Errors\<close>, with \<open>errors.Is\<close> and \<open>errors.As\<close>. Strings are lists of bytes and runes are decoded from them
  (\<open>Go_Text\<close>), a UUID is a 128-bit word, an instant counts nanoseconds from Go's zero time. A service is a function
  of the record of interfaces it holds in Go; \<open>Org_World\<close>, \<open>Team_World\<close>, \<open>Repo_World\<close>, \<open>Protection\<close> and \<open>Pull_Tables\<close> build
  the services over the stores and the Git service that implement these interfaces.

  \<^bold>\<open>Parts.\<close>
  \<^item> Go's library, as far as the program uses it: \<open>Go_Errors\<close>, \<open>Go_Text\<close>, \<open>Go_URL\<close>, \<open>Go_Parse\<close>, \<open>Go_Net\<close>, \<open>Go_Hash\<close>, \<open>Go_JSON\<close>.
  \<^item> Organizations (\<^verbatim>\<open>organization/organization.go\<close>, \<^verbatim>\<open>service.go\<close>, \<^verbatim>\<open>postgres.go\<close>): \<open>Organization\<close> (data and validation),
    \<open>Org_Tables\<close> and \<open>Org_Queries\<close> (the statements), \<open>Org_Store\<close>, \<open>Org_Service\<close>, \<open>Org_Members\<close>; \<open>Org_Invariants\<close> and \<open>Org_Laws\<close>
    (what statements and methods keep), \<open>Org_Safety\<close>, \<open>Org_Creation\<close>, \<open>Org_Paging\<close> (properties).
  \<^item> Teams, collaborators and access (\<^verbatim>\<open>team_service.go\<close>, \<^verbatim>\<open>team_postgres.go\<close>, \<^verbatim>\<open>collaborator_*.go\<close>, \<^verbatim>\<open>auth/postgres.go\<close>): \<open>Hierarchy\<close> (recursive
    queries), \<open>Team_Tables\<close>, \<open>Access_Tables\<close>, \<open>Team_Store\<close>, \<open>Team_Service\<close>; \<open>Team_Hierarchy\<close>, \<open>Team_Laws\<close>, \<open>Team_Safety\<close>, \<open>Access\<close>, \<open>Team_Properties\<close>.
  \<^item> Repositories (\<^verbatim>\<open>repository/*.go\<close>) and their data on disk (\<^verbatim>\<open>storage/filesystem.go\<close>): \<open>Repository\<close>, \<open>Repo_Tables\<close>, \<open>Repo_Store\<close>, \<open>Repo_Service\<close>,
    \<open>Repo_Purge\<close>, \<open>Repo_Endpoints\<close>, \<open>Storage\<close>; \<open>Storage_Laws\<close>, \<open>Repo_Location\<close>, \<open>Repo_Moves\<close>, \<open>Repo_Lifecycle\<close>, \<open>Repo_Safety\<close>, \<open>Repo_Invariants\<close>, \<open>Repo_Consistency\<close>,
    \<open>Repo_Completion\<close>, \<open>Repo_Properties\<close>.
  \<^item> Git (\<^verbatim>\<open>git/*.go\<close>): \<open>Git_Process\<close> (commands and bounded output), \<open>Git_Service\<close>, \<open>Git_Read\<close>, \<open>Git_Merge\<close>, \<open>Git_Address\<close> and \<open>Git_Remote\<close> (fetches from
    other servers), \<open>Git_History\<close>; \<open>Git_Safety\<close>, \<open>Git_Remote_Safety\<close> (what commands do to references),
    \<open>Git_Listings\<close> (a small Git, merges and listings), \<open>Git_Remote_Properties\<close>.
  \<^item> Branch protection (\<^verbatim>\<open>branchprotection/branchprotection.go\<close>): \<open>Protection\<close>; its abstract machine and the refinement in
    \<open>Protection_Properties\<close>.
  \<^item> Pull requests (\<^verbatim>\<open>pullrequest/*.go\<close>): \<open>Pull_Request\<close> (records and validation), \<open>Pull_Service\<close>, \<open>Pull_Tables\<close> (projection store and world);
    \<open>Pull_Safety\<close> (references), \<open>Pull_Published\<close> (records and events), \<open>Pull_Messages\<close> (fetches and merge messages), \<open>Pull_Properties\<close>.
  \<^item> Repository transfers (\<^verbatim>\<open>transfer/transfer.go\<close>, \<^verbatim>\<open>postgres.go\<close>): \<open>Repo_Transfer\<close> (data and service), \<open>Transfer_Tables\<close> (statements, store, world);
    \<open>Transfer_Decision\<close> (the abstract machine of the decision record), \<open>Transfer_Properties\<close> (refinement, who may do what), \<open>Transfer_Acceptance\<close> (the stages
    of an acceptance), \<open>Transfer_Outcome\<close> (retries, what a transfer leaves behind).
  \<^item> Commit statuses and check runs (\<^verbatim>\<open>commitstatus/commitstatus.go\<close>, \<^verbatim>\<open>worker.go\<close>): \<open>Commit_Status\<close> (validation, statements, service, retention);
    \<open>Status_Properties\<close> (interleaved updates, replays, the combined status, what retention removes).

  \<^bold>\<open>How the parts meet.\<close> The access checks of \<open>Access_Tables\<close> decide over the tables the organization and team services keep;
  the repository service moves data with the Git service and the storage while its rows say where the data is; branch protection writes the
  configuration of Git; a merge of a pull request asks the access checks, refreshes the head with a fetch, merges with \<open>git_Merge\<close>, and announces the result;
  a transfer changes the owner in the row of the repository, on which access checks and routes are decided, and leaves aliases for its former routes.

  \<^bold>\<open>What the lemmas show.\<close> Each statement and store operation keeps the invariant of its tables (\<open>keeps\<close>, \<open>op_keeps\<close>); the
  locales of \<open>Org_Laws\<close> and \<open>Team_Laws\<close> prove the methods of a service from what its interfaces promise, and are interpreted
  on the stores; methods that undo what they did are proved with pre- and postconditions (\<open>Triples\<close>); \<open>frames\<close> says which part of the world a
  step leaves alone; \<open>op_ok\<close> takes a successful run apart. The properties follow from these in a few steps, each with an instance at
  concrete data where it has hypotheses.

  \<^bold>\<open>Termination and bounds.\<close> The purge worker is a loop without a bound in the source (\<open>partial_function\<close>); that every run returns is a
  property. The recursive queries over teams run for as many rounds as there are rows of teams, which \<open>team_lineage_iff\<close> and the lemmas of
  \<open>Hierarchy\<close> show to be enough. All other recursion is structural or has a measure. Output of Git is cut at the limits of the source.

  \<^bold>\<open>Assumptions.\<close> A transaction with its row locks is one step, a commit that fails leaves the tables as they were, and between the requests
  of \<open>Org_Safety\<close> and the queries of a pull request others may change the tables. The statements of transfers are steps of the decision record
  in any interleaving of requests; the theorems about a whole request of the transfer service take its own statements one after the other, each of which may fail. The statements on check runs are
  interleaved in the same way, and their tables keep times to the microsecond. A nullable text column that is NULL is the empty
  string. The order of text is the database's collation, a parameter; where a query may give any of several rows, \<open>pick\<close> chooses.
  Clocks, identifiers, the publishers of AT Protocol records and the outbox are schedules that theorems leave arbitrary; any statement and, where a theorem
  does not exclude it, any move on disk may fail. Git, the resolver, the random source, name-based UUIDs and the temporary directory are parameters; theorems that need to know
  what Git does have hypotheses that state the documented effect of its commands on references (\<open>git_refs_ok\<close>, \<open>git_fetch_ok\<close>, \<open>remote_ok\<close>),
  on its configuration (\<open>config_ok\<close>) or on a new repository (\<open>git_installed\<close>); a small Git with these effects is given for each. A default
  resolver is itself the parameter. The parsers of AT Protocol identifiers are parameters (\<open>at_syntax\<close>). IPv6 addresses with a zone do not occur.
  Sorting equal entries keeps their order, where the source promises no order.

  \<^bold>\<open>Not modelled.\<close> Tokens, sessions, OAuth and passkeys (cryptographic libraries the sources call); the network client of the personal data servers;
  the federation worker, search, webhooks, notifications and moderation; the HTTP, SSH and command line front ends, which translate requests; generated code; configuration
  and wiring; process groups, admission and metrics of the Git runner, archives, and the ticker around the purge worker. Labels,
  milestones, releases, issues and comments are thin services that publish one record each.
\<close>

end
